(* ===== verification/Prelude.thy ===== *)
theory Prelude
  imports Main "HOL-Library.Sublist" "HOL-Library.Multiset" "HOL-Library.AList"
begin

text \<open>
  Shared vocabulary of the development: the types that stand for the SDK's TypeScript types,
  the JavaScript primitives the sources use (bigint division, decimal printing and parsing,
  \<open>BigInt(string)\<close>, \<open>String.prototype\<close> helpers, little-endian byte reads) and the generic
  lemmas every component uses.

  Conventions.
  \<^item> \<open>bigint\<close> is \<open>int\<close>; \<open>number\<close>, where the code only ever holds integers in it (timestamps,
    windows, counts), is \<open>int\<close> or \<open>nat\<close>.
  \<^item> A string is a list of \<open>char\<close>, so one element is one UTF-16 unit below U+0100.
  \<^item> \<open>undefined\<close> and \<open>null\<close> are \<open>None\<close>; a thrown error is \<open>Inl\<close>, a returned value is \<open>Inr\<close>.
  \<^item> \<open>Date.now()\<close> is an argument \<open>now\<close> of the operation that reads it.
\<close>

section \<open>Names of the model's types\<close>

type_synonym address = string
type_synonym bytes = "nat list"
type_synonym msecs = int
type_synonym ('e, 'a) result = "'e + 'a"

named_theorems result_simps \<open>evaluation of sequenced fallible steps\<close>
named_theorems js_simps \<open>evaluation of the JavaScript primitives\<close>

section \<open>Fallible computations\<close>

definition rbind :: "('e, 'a) result \<Rightarrow> ('a \<Rightarrow> ('e, 'b) result) \<Rightarrow> ('e, 'b) result" where
  "rbind r f = (case r of Inl e \<Rightarrow> Inl e | Inr a \<Rightarrow> f a)"

definition require :: "bool \<Rightarrow> 'e \<Rightarrow> ('e, unit) result" where
  "require b e = (if b then Inr () else Inl e)"

definition isOk :: "('e, 'a) result \<Rightarrow> bool" where
  "isOk r = (case r of Inl _ \<Rightarrow> False | Inr _ \<Rightarrow> True)"

lemma rbind_Inl [simp, result_simps]: "rbind (Inl e) f = Inl e"
  by (simp add: rbind_def)

lemma rbind_Inr [simp, result_simps]: "rbind (Inr a) f = f a"
  by (simp add: rbind_def)

lemma require_True [simp, result_simps]: "require True e = Inr ()"
  by (simp add: require_def)

lemma require_False [simp, result_simps]: "require False e = Inl e"
  by (simp add: require_def)

lemma isOk_simps [simp, result_simps]: "isOk (Inr a)" "\<not> isOk (Inl e)"
  by (simp_all add: isOk_def)

lemma rbind_eq_Inr [simp]: "rbind r f = Inr b \<longleftrightarrow> (\<exists>a. r = Inr a \<and> f a = Inr b)"
  by (cases r) auto

lemma rbind_eq_Inl: "rbind r f = Inl e \<longleftrightarrow> r = Inl e \<or> (\<exists>a. r = Inr a \<and> f a = Inl e)"
  by (cases r) auto

lemma require_eq_Inr [simp]: "require b e = Inr u \<longleftrightarrow> b"
  by (simp add: require_def)

lemma require_eq_Inl [simp]: "require b e = Inl e' \<longleftrightarrow> \<not> b \<and> e' = e"
  by (auto simp: require_def)

lemma option_guard_eq_Inr:
  "(case x of None \<Rightarrow> Inl e | Some v \<Rightarrow> f v) = Inr b \<longleftrightarrow> (\<exists>v. x = Some v \<and> f v = Inr b)"
  by (cases x) simp_all

text \<open>\<open>array.map(f)\<close> where \<open>f\<close> may throw: the first error wins.\<close>

fun rmap :: "('a \<Rightarrow> ('e, 'b) result) \<Rightarrow> 'a list \<Rightarrow> ('e, 'b list) result" where
  "rmap f [] = Inr []"
| "rmap f (x # xs) = rbind (f x) (\<lambda>y. rbind (rmap f xs) (\<lambda>ys. Inr (y # ys)))"

lemma rmap_Inr_length: "rmap f xs = Inr ys \<Longrightarrow> length ys = length xs"
  by (induction xs arbitrary: ys) auto

lemma rmap_Inr_nth:
  "rmap f xs = Inr ys \<Longrightarrow> i < length xs \<Longrightarrow> f (xs ! i) = Inr (ys ! i)"
proof (induction xs arbitrary: ys i)
  case Nil
  then show ?case by simp
next
  case (Cons x xs)
  then show ?case by (cases i) auto
qed

section \<open>Fallible computations with state\<close>

text \<open>An awaited step may change the state it runs in and may throw; a throw skips what follows.\<close>

type_synonym ('s, 'e, 'a) step = "'s \<Rightarrow> ('e, 'a) result \<times> 's"

definition sbind :: "('s, 'e, 'a) step \<Rightarrow> ('a \<Rightarrow> ('s, 'e, 'b) step) \<Rightarrow> ('s, 'e, 'b) step" where
  "sbind m f s = (case m s of (Inl e, s') \<Rightarrow> (Inl e, s') | (Inr a, s') \<Rightarrow> f a s')"

definition sresult :: "('e, 'a) result \<Rightarrow> ('s, 'e, 'a) step" where
  "sresult r s = (r, s)"

lemma sbind_sresult_Inr [simp, result_simps]: "sbind (sresult (Inr a)) f = f a"
  by (rule ext) (simp add: sbind_def sresult_def)

lemma sbind_assoc: "sbind (sbind m f) g = sbind m (\<lambda>a. sbind (f a) g)"
  by (rule ext) (simp add: sbind_def split: prod.split sum.split)

lemma sbind_eq_Inr:
  "sbind m f s = (Inr b, s') \<longleftrightarrow> (\<exists>a s1. m s = (Inr a, s1) \<and> f a s1 = (Inr b, s'))"
  by (auto simp: sbind_def split: prod.splits sum.splits)

lemma sresult_eq_Inr [simp]: "sresult r s = (Inr a, s') \<longleftrightarrow> r = Inr a \<and> s' = s"
  by (auto simp: sresult_def)

section \<open>bigint arithmetic\<close>

text \<open>BigInt division truncates towards zero and the remainder takes the dividend's sign.\<close>

definition bdiv :: "int \<Rightarrow> int \<Rightarrow> int" where
  "bdiv a b = sgn a * sgn b * (\<bar>a\<bar> div \<bar>b\<bar>)"

definition bmod :: "int \<Rightarrow> int \<Rightarrow> int" where
  "bmod a b = a - b * bdiv a b"

lemma bdiv_nonneg [js_simps]: "0 \<le> a \<Longrightarrow> 0 < b \<Longrightarrow> bdiv a b = a div b"
  by (cases "a = 0") (simp_all add: bdiv_def)

lemma bmod_nonneg [js_simps]: "0 \<le> a \<Longrightarrow> 0 < b \<Longrightarrow> bmod a b = a mod b"
  by (simp add: bmod_def bdiv_nonneg minus_mult_div_eq_mod)

definition U64_MAX :: int where
  "U64_MAX = 18446744073709551615"

definition is_u64 :: "int \<Rightarrow> bool" where
  "is_u64 n \<longleftrightarrow> 0 \<le> n \<and> n \<le> U64_MAX"

lemma U64_MAX_eq: "U64_MAX = 2 ^ 64 - 1"
  by (simp add: U64_MAX_def)

text \<open>\<open>a > b ? a - b : 0n\<close>, the SDK's saturating subtraction.\<close>

definition monus :: "int \<Rightarrow> int \<Rightarrow> int" where
  "monus a b = (if a > b then a - b else 0)"

lemma monus_max: "monus a b = max (a - b) 0"
  by (simp add: monus_def)

lemma monus_nonneg [simp]: "0 \<le> monus a b"
  by (simp add: monus_def)

section \<open>Lists\<close>

text \<open>\<open>xs.filter(p).reduce((s, x) => s + f(x), 0n)\<close>.\<close>

abbreviation sum_where :: "('a \<Rightarrow> bool) \<Rightarrow> ('a \<Rightarrow> int) \<Rightarrow> 'a list \<Rightarrow> int" where
  "sum_where P f xs \<equiv> sum_list (map f (filter P xs))"

lemma sum_where_append [simp]:
  "sum_where P f (xs @ ys) = sum_where P f xs + sum_where P f ys"
  by simp

lemma sum_where_nonneg:
  "(\<And>x. x \<in> set xs \<Longrightarrow> P x \<Longrightarrow> 0 \<le> f x) \<Longrightarrow> 0 \<le> sum_where P f xs"
  by (induction xs) auto

lemma sum_where_mono_pred:
  assumes "\<And>x. x \<in> set xs \<Longrightarrow> 0 \<le> f x"
    and "\<And>x. x \<in> set xs \<Longrightarrow> P x \<Longrightarrow> Q x"
  shows "sum_where P f xs \<le> sum_where Q f xs"
  using assms
proof (induction xs)
  case (Cons x xs)
  have "sum_where P f xs \<le> sum_where Q f xs"
    by (rule Cons.IH) (simp_all add: Cons.prems)
  moreover have "0 \<le> f x" and "P x \<Longrightarrow> Q x"
    by (simp_all add: Cons.prems)
  ultimately show ?case
    by (cases "P x"; cases "Q x") auto
qed simp

lemma sum_where_cong:
  "(\<And>x. x \<in> set xs \<Longrightarrow> P x = Q x) \<Longrightarrow> sum_where P f xs = sum_where Q f xs"
  by (rule arg_cong [where f = "\<lambda>ys. sum_list (map f ys)"]) (rule filter_cong, simp_all)

lemma sum_where_none:
  "(\<And>x. x \<in> set xs \<Longrightarrow> \<not> P x) \<Longrightarrow> sum_where P f xs = 0"
  by (induction xs) auto

lemma sum_list_le_pointwise:
  "(\<And>x. x \<in> set xs \<Longrightarrow> f x \<le> (g x :: int)) \<Longrightarrow> (\<Sum>x\<leftarrow>xs. f x) \<le> (\<Sum>x\<leftarrow>xs. g x)"
  by (induction xs) (auto intro: add_mono)

lemma sum_list_sort_key:
  "(\<Sum>x\<leftarrow>sort_key k xs. f x) = (\<Sum>x\<leftarrow>xs. (f x :: int))"
  by (metis mset_map mset_sort sum_mset_sum_list)

lemma concat_map_Nil: "concat (map f xs) = [] \<longleftrightarrow> (\<forall>x \<in> set xs. f x = [])"
  by auto

text \<open>A \<open>Set\<close> built by insertion keeps the first occurrence of each element, in order.\<close>

definition set_add :: "'a list \<Rightarrow> 'a \<Rightarrow> 'a list" where
  "set_add xs x = (if x \<in> set xs then xs else xs @ [x])"

lemma set_set_add [simp]: "set (set_add xs x) = insert x (set xs)"
  by (auto simp: set_add_def)

lemma distinct_set_add [simp]: "distinct xs \<Longrightarrow> distinct (set_add xs x)"
  by (simp add: set_add_def)

text \<open>\<open>xs.slice(-n)\<close> for positive \<open>n\<close>: the last \<open>n\<close> elements.\<close>

definition slice_last :: "nat \<Rightarrow> 'a list \<Rightarrow> 'a list" where
  "slice_last n xs = drop (length xs - n) xs"

lemma length_slice_last [simp]: "length (slice_last n xs) = min n (length xs)"
  by (simp add: slice_last_def)

lemma set_slice_last: "set (slice_last n xs) \<subseteq> set xs"
  by (simp add: slice_last_def set_drop_subset)

end
