(* ===== verification/JsLib.thy ===== *)
theory JsLib
  imports Prelude
begin

text \<open>
  The parts of the JavaScript platform the SDK's sources use on bytes and strings, as executable
  definitions: little-endian 64-bit reads (\<open>DataView.getBigUint64(_, true)\<close> and the
  \<open>|= BigInt(b) << BigInt(i * 8)\<close> loops), \<open>btoa\<close>/\<open>atob\<close>, decimal printing of a bigint,
  \<open>BigInt(string)\<close>, and the string helpers \<open>trim\<close>, \<open>startsWith\<close>, \<open>includes\<close>, \<open>toLowerCase\<close>
  on ASCII. The locale \<open>u64_le_reader\<close> is the contract of a 64-bit read; it is interpreted for
  both ways the code reads one.
\<close>

unbundle bit_operations_syntax

section \<open>Bytes\<close>

definition is_bytes :: "bytes \<Rightarrow> bool" where
  "is_bytes bs = list_all (\<lambda>b. b < 256) bs"

primrec le_value :: "bytes \<Rightarrow> int" where
  "le_value [] = 0"
| "le_value (b # bs) = int b + 256 * le_value bs"

primrec le_bytes :: "nat \<Rightarrow> int \<Rightarrow> bytes" where
  "le_bytes 0 n = []"
| "le_bytes (Suc k) n = nat (n mod 256) # le_bytes k (n div 256)"

text \<open>\<open>DataView.prototype.getBigUint64(offset, true)\<close>; \<open>None\<close> is its RangeError.\<close>

definition getBigUint64_le :: "bytes \<Rightarrow> nat \<Rightarrow> int option" where
  "getBigUint64_le data offset =
     (if offset + 8 \<le> length data then Some (le_value (take 8 (drop offset data))) else None)"

text \<open>
  \<open>for (let i = 0; i < 8; i++) acc |= BigInt(data[off + i]) << BigInt(i * 8)\<close>; the list is the
  remaining values of \<open>i\<close>. A read past the end is \<open>undefined\<close>, on which \<open>BigInt\<close> throws.
\<close>

fun le_or_loop :: "bytes \<Rightarrow> nat \<Rightarrow> nat list \<Rightarrow> int \<Rightarrow> int option" where
  "le_or_loop data off [] acc = Some acc"
| "le_or_loop data off (i # is) acc =
     (if off + i < length data
      then le_or_loop data off is (acc OR push_bit (i * 8) (int (data ! (off + i))))
      else None)"

definition le_or_read :: "bytes \<Rightarrow> nat \<Rightarrow> int option" where
  "le_or_read data off = le_or_loop data off [0 ..< 8] 0"

section \<open>Base64\<close>

definition b64_alphabet :: string where
  "b64_alphabet = ''ABCDEFGHIJKLMNOPQRSTUVWXYZabcdefghijklmnopqrstuvwxyz0123456789+/''"

definition b64_char :: "nat \<Rightarrow> char" where
  "b64_char n = b64_alphabet ! n"

fun index_of :: "'a \<Rightarrow> 'a list \<Rightarrow> nat option" where
  "index_of x [] = None"
| "index_of x (y # ys) = (if x = y then Some 0 else map_option Suc (index_of x ys))"

definition b64_value :: "char \<Rightarrow> nat option" where
  "b64_value c = index_of c b64_alphabet"

fun btoa :: "bytes \<Rightarrow> string" where
  "btoa [] = []"
| "btoa [a] = [b64_char (a div 4), b64_char (a mod 4 * 16), CHR ''='', CHR ''='']"
| "btoa [a, b] = [b64_char (a div 4), b64_char (a mod 4 * 16 + b div 16),
     b64_char (b mod 16 * 4), CHR ''='']"
| "btoa (a # b # c # rest) = b64_char (a div 4) # b64_char (a mod 4 * 16 + b div 16)
     # b64_char (b mod 16 * 4 + c div 64) # b64_char (c mod 64) # btoa rest"

fun b64_decode :: "nat list \<Rightarrow> bytes" where
  "b64_decode (a # b # c # d # rest) =
     [a * 4 + b div 16, b mod 16 * 16 + c div 4, c mod 4 * 64 + d] @ b64_decode rest"
| "b64_decode [a, b, c] = [a * 4 + b div 16, b mod 16 * 16 + c div 4]"
| "b64_decode [a, b] = [a * 4 + b div 16]"
| "b64_decode _ = []"

definition is_ascii_space :: "char \<Rightarrow> bool" where
  "is_ascii_space c \<longleftrightarrow> c \<in> {CHR 0x09, CHR 0x0A, CHR 0x0C, CHR 0x0D, CHR 0x20}"

text \<open>
  Forgiving-base64 decode: ASCII whitespace is dropped, up to two trailing \<open>=\<close> are dropped when
  the length is a multiple of four, then a length of 1 modulo 4 or a character outside the
  alphabet is an InvalidCharacterError (\<open>None\<close>).
\<close>

definition drop_pad :: "string \<Rightarrow> string" where
  "drop_pad s = (if s \<noteq> [] \<and> last s = CHR ''='' then butlast s else s)"

definition b64_unpad :: "string \<Rightarrow> string" where
  "b64_unpad s = (if length s mod 4 = 0 then drop_pad (drop_pad s) else s)"

definition atob :: "string \<Rightarrow> bytes option" where
  "atob s =
     (let t = b64_unpad (filter (\<lambda>c. \<not> is_ascii_space c) s)
      in if length t mod 4 = 1 then None
         else map_option b64_decode (those (map b64_value t)))"

section \<open>Decimal numbers\<close>

definition digit_char :: "nat \<Rightarrow> char" where
  "digit_char d = char_of (48 + d)"

definition is_digit :: "char \<Rightarrow> bool" where
  "is_digit c \<longleftrightarrow> 48 \<le> (of_char c :: nat) \<and> (of_char c :: nat) \<le> 57"

definition digit_val :: "char \<Rightarrow> nat" where
  "digit_val c = of_char c - 48"

fun show_nat :: "nat \<Rightarrow> string" where
  "show_nat n = (if n < 10 then [digit_char n] else show_nat (n div 10) @ [digit_char (n mod 10)])"

declare show_nat.simps [simp del]

text \<open>\<open>n.toString()\<close> of a bigint.\<close>

definition show_int :: "int \<Rightarrow> string" where
  "show_int n = (if n < 0 then CHR ''-'' # show_nat (nat (- n)) else show_nat (nat n))"

fun digits_val :: "nat \<Rightarrow> (char \<Rightarrow> nat) \<Rightarrow> string \<Rightarrow> nat \<Rightarrow> nat" where
  "digits_val base val [] acc = acc"
| "digits_val base val (c # cs) acc = digits_val base val cs (acc * base + val c)"

abbreviation dec_val :: "string \<Rightarrow> nat" where
  "dec_val s \<equiv> digits_val 10 digit_val s 0"

definition is_hex_digit :: "char \<Rightarrow> bool" where
  "is_hex_digit c \<longleftrightarrow> is_digit c
     \<or> (65 \<le> (of_char c :: nat) \<and> (of_char c :: nat) \<le> 70)
     \<or> (97 \<le> (of_char c :: nat) \<and> (of_char c :: nat) \<le> 102)"

definition hex_val :: "char \<Rightarrow> nat" where
  "hex_val c = (if is_digit c then digit_val c
     else if (of_char c :: nat) \<le> 70 then of_char c - 55 else of_char c - 87)"

text \<open>
  White space and line terminators of ECMAScript below U+0100: TAB, LF, VT, FF, CR, SP, NBSP.
\<close>

definition is_js_space :: "char \<Rightarrow> bool" where
  "is_js_space c \<longleftrightarrow> c \<in> {CHR 0x09, CHR 0x0A, CHR 0x0B, CHR 0x0C, CHR 0x0D, CHR 0x20, CHR 0xA0}"

definition js_trim :: "string \<Rightarrow> string" where
  "js_trim s = rev (dropWhile is_js_space (rev (dropWhile is_js_space s)))"

text \<open>
  \<open>BigInt(s)\<close> on a string (StringToBigInt): surrounding white space is dropped, the empty string
  is 0, a sign is allowed on decimal literals only, and a prefix selects hexadecimal, octal or
  binary digits. \<open>None\<close> is its SyntaxError.
\<close>

definition bigint_digits :: "nat \<Rightarrow> (char \<Rightarrow> bool) \<Rightarrow> (char \<Rightarrow> nat) \<Rightarrow> string \<Rightarrow> int option" where
  "bigint_digits base ok val s =
     (if s \<noteq> [] \<and> list_all ok s then Some (int (digits_val base val s 0)) else None)"

definition bigint_of_string :: "string \<Rightarrow> int option" where
  "bigint_of_string str =
     (let s = js_trim str;
          dec = bigint_digits 10 is_digit digit_val
      in if s = [] then Some 0
         else if take 2 s \<in> {''0x'', ''0X''} then bigint_digits 16 is_hex_digit hex_val (drop 2 s)
         else if take 2 s \<in> {''0o'', ''0O''}
           then bigint_digits 8 (\<lambda>c. is_digit c \<and> digit_val c < 8) digit_val (drop 2 s)
         else if take 2 s \<in> {''0b'', ''0B''}
           then bigint_digits 2 (\<lambda>c. is_digit c \<and> digit_val c < 2) digit_val (drop 2 s)
         else if hd s = CHR ''-'' then map_option uminus (dec (tl s))
         else if hd s = CHR ''+'' then dec (tl s)
         else dec s)"

section \<open>Strings\<close>

text \<open>\<open>\w\<close> of a regular expression, and an optional string as a condition: \<open>undefined\<close> and \<open>""\<close> are false.\<close>

definition is_word_char :: "char \<Rightarrow> bool" where
  "is_word_char c \<longleftrightarrow> is_digit c \<or> c = CHR ''_''
     \<or> (65 \<le> (of_char c :: nat) \<and> (of_char c :: nat) \<le> 90)
     \<or> (97 \<le> (of_char c :: nat) \<and> (of_char c :: nat) \<le> 122)"

definition truthy :: "string option \<Rightarrow> bool" where
  "truthy s \<longleftrightarrow> s \<noteq> None \<and> s \<noteq> Some []"

definition startsWith :: "string \<Rightarrow> string \<Rightarrow> bool" where
  "startsWith s p \<longleftrightarrow> take (length p) s = p"

definition str_includes :: "string \<Rightarrow> string \<Rightarrow> bool" where
  "str_includes s p = list_ex (\<lambda>i. startsWith (drop i s) p) [0 ..< Suc (length s)]"

definition ascii_lower_char :: "char \<Rightarrow> char" where
  "ascii_lower_char c =
     (if 65 \<le> (of_char c :: nat) \<and> (of_char c :: nat) \<le> 90 then char_of (of_char c + (32 :: nat)) else c)"

definition toLowerCase :: "string \<Rightarrow> string" where
  "toLowerCase s = map ascii_lower_char s"

text \<open>\<open>s.padStart(n, c)\<close>, \<open>s.padEnd(n, c)\<close> and \<open>s.split(c)\<close> for a one-character separator.\<close>

definition padStart :: "nat \<Rightarrow> char \<Rightarrow> string \<Rightarrow> string" where
  "padStart n c s = replicate (n - length s) c @ s"

definition padEnd :: "nat \<Rightarrow> char \<Rightarrow> string \<Rightarrow> string" where
  "padEnd n c s = s @ replicate (n - length s) c"

fun split_on :: "char \<Rightarrow> string \<Rightarrow> string list" where
  "split_on c [] = [[]]"
| "split_on c (x # xs) =
     (if x = c then [] # split_on c xs
      else (case split_on c xs of [] \<Rightarrow> [[x]] | p # ps \<Rightarrow> (x # p) # ps))"

section \<open>Facts on byte reads\<close>

lemma le_value_append: "le_value (xs @ ys) = le_value xs + 256 ^ length xs * le_value ys"
  by (induction xs) (simp_all add: algebra_simps)

lemma le_value_nonneg [simp]: "0 \<le> le_value bs"
  by (induction bs) simp_all

lemma le_value_less: "is_bytes bs \<Longrightarrow> le_value bs < 256 ^ length bs"
  by (induction bs) (auto simp: is_bytes_def)

lemma length_le_bytes [simp]: "length (le_bytes k n) = k"
  by (induction k arbitrary: n) simp_all

lemma is_bytes_le_bytes [simp]: "is_bytes (le_bytes k n)"
proof (induction k arbitrary: n)
  case (Suc k)
  have "nat (n mod 256) < 256" by (simp add: nat_less_iff)
  then show ?case using Suc by (simp add: is_bytes_def)
qed (simp add: is_bytes_def)

lemma le_value_le_bytes: "0 \<le> n \<Longrightarrow> n < 256 ^ k \<Longrightarrow> le_value (le_bytes k n) = n"
proof (induction k arbitrary: n)
  case (Suc k)
  have "0 \<le> n div 256" "n div 256 < 256 ^ k"
    using Suc.prems by (simp_all add: pos_imp_zdiv_nonneg_iff div_less_iff_less_mult mult.commute)
  then show ?case using Suc.IH [of "n div 256"] by simp
qed simp

lemma le_bytes_le_value: "is_bytes bs \<Longrightarrow> le_bytes (length bs) (le_value bs) = bs"
  by (induction bs) (simp_all add: is_bytes_def)

lemma or_push_bit_eq_add:
  fixes a b :: int
  assumes "0 \<le> a" "a < 2 ^ n"
  shows "a OR push_bit n b = a + b * 2 ^ n"
proof -
  have t: "take_bit n a = a"
    using assms by (simp add: take_bit_int_eq_self)
  have low: "\<not> bit a i" if "n \<le> i" for i
    using bit_take_bit_iff [of n a i] that unfolding t by simp
  have "a AND push_bit n b = 0"
    by (rule bit_eqI) (use low in \<open>auto simp: bit_and_iff bit_push_bit_iff\<close>)
  then have "a OR push_bit n b = a + push_bit n b" by (rule disjunctive_add_eq_or [symmetric])
  then show ?thesis by (simp only: push_bit_eq_mult)
qed

lemma le_or_loop_value:
  assumes "off + j + k \<le> length data" "is_bytes data" "0 \<le> acc" "acc < 256 ^ j"
  shows "le_or_loop data off [j ..< j + k] acc
    = Some (acc + 256 ^ j * le_value (take k (drop (off + j) data)))"
  using assms
proof (induction k arbitrary: j acc)
  case (Suc k)
  let ?b = "int (data ! (off + j))"
  have inb: "off + j < length data" using Suc.prems by simp
  have b: "?b < 256" using Suc.prems inb by (simp add: is_bytes_def list_all_length)
  have p: "(256 :: int) ^ j = 2 ^ (j * 8)"
    by (simp only: power_mult mult.commute [of j 8]) simp
  have or: "acc OR push_bit (j * 8) ?b = acc + ?b * 256 ^ j"
    using Suc.prems p by (simp add: or_push_bit_eq_add)
  have "?b * 256 ^ j \<le> 255 * 256 ^ j" using b by (intro mult_right_mono) simp_all
  then have "acc + ?b * 256 ^ j < 256 ^ j + 255 * 256 ^ j" using Suc.prems by linarith
  then have acc': "acc + ?b * 256 ^ j < 256 ^ Suc j" by simp
  have IH: "le_or_loop data off [Suc j ..< Suc j + k] (acc + ?b * 256 ^ j)
    = Some (acc + ?b * 256 ^ j + 256 ^ Suc j * le_value (take k (drop (off + Suc j) data)))"
    using Suc.prems acc' by (intro Suc.IH) auto
  have "take (Suc k) (drop (off + j) data) = data ! (off + j) # take k (drop (off + Suc j) data)"
    using inb by (metis Cons_nth_drop_Suc add_Suc_right take_Suc_Cons)
  then have tk: "le_value (take (Suc k) (drop (off + j) data))
      = ?b + 256 * le_value (take k (drop (off + Suc j) data))"
    by simp
  have "[j ..< j + Suc k] = j # [Suc j ..< Suc j + k]" by (simp add: upt_conv_Cons)
  then show ?case using IH or inb tk by (simp add: algebra_simps)
qed simp

text \<open>
  The contract of a 64-bit little-endian read: in range it is the positional value of eight bytes,
  out of range it fails.
\<close>

locale u64_le_reader =
  fixes read :: "bytes \<Rightarrow> nat \<Rightarrow> int option"
  assumes read_in: "is_bytes data \<Longrightarrow> off + 8 \<le> length data
      \<Longrightarrow> read data off = Some (le_value (take 8 (drop off data)))"
    and read_out: "off + 8 > length data \<Longrightarrow> read data off = None"
begin

lemma read_u64:
  assumes "is_bytes data" "read data off = Some n"
  shows "0 \<le> n \<and> n \<le> U64_MAX"
proof -
  have l: "off + 8 \<le> length data" using assms(2) read_out by (metis not_le option.distinct(1))
  have b: "is_bytes (take 8 (drop off data))"
    using assms(1) by (auto simp: is_bytes_def list_all_iff dest!: in_set_takeD in_set_dropD)
  have "n = le_value (take 8 (drop off data))" using read_in [OF assms(1) l] assms(2) by simp
  then show ?thesis using le_value_less [OF b] l by (simp add: U64_MAX_def)
qed

lemma read_total_iff: "is_bytes data \<Longrightarrow> (\<exists>n. read data off = Some n) \<longleftrightarrow> off + 8 \<le> length data"
  using read_in read_out by (metis not_le option.distinct(1))

lemma read_written:
  assumes "0 \<le> n" "n \<le> U64_MAX" "is_bytes pre" "is_bytes post"
  shows "read (pre @ le_bytes 8 n @ post) (length pre) = Some n"
proof -
  have "is_bytes (pre @ le_bytes 8 n @ post)"
    using assms is_bytes_le_bytes [of 8 n] by (simp add: is_bytes_def)
  then have "read (pre @ le_bytes 8 n @ post) (length pre) = Some (le_value (le_bytes 8 n))"
    by (subst read_in) simp_all
  then show ?thesis using assms by (simp add: le_value_le_bytes U64_MAX_def)
qed

end

interpretation data_view: u64_le_reader getBigUint64_le
  by unfold_locales (simp_all add: getBigUint64_le_def)

interpretation or_read: u64_le_reader le_or_read
proof unfold_locales
  fix data :: bytes and off :: nat
  assume "is_bytes data" "off + 8 \<le> length data"
  then show "le_or_read data off = Some (le_value (take 8 (drop off data)))"
    using le_or_loop_value [of off 0 8 data 0] by (simp add: le_or_read_def)
next
  fix data :: bytes and off :: nat
  have out: "le_or_loop data off js acc = None" if "i \<in> set js" "length data \<le> off + i" for js acc i
    using that by (induction js arbitrary: acc) auto
  assume "off + 8 > length data"
  then show "le_or_read data off = None"
    unfolding le_or_read_def by (intro out [of 7]) auto
qed

section \<open>Facts on base64\<close>

lemma index_of_nth: "distinct xs \<Longrightarrow> i < length xs \<Longrightarrow> index_of (xs ! i) xs = Some i"
proof (induction xs arbitrary: i)
  case (Cons x xs)
  then show ?case by (cases i) auto
qed simp

lemma b64_alphabet_facts: "distinct b64_alphabet" "length b64_alphabet = 64"
  by (simp_all add: b64_alphabet_def)

lemma b64_value_char [simp]: "n < 64 \<Longrightarrow> b64_value (b64_char n) = Some n"
  by (simp add: b64_value_def b64_char_def index_of_nth b64_alphabet_facts)

lemma b64_char_plain: "n < 64 \<Longrightarrow> b64_char n \<noteq> CHR ''='' \<and> \<not> is_ascii_space (b64_char n)"
proof -
  assume "n < 64"
  then have "b64_char n \<in> set b64_alphabet"
    by (simp add: b64_char_def b64_alphabet_facts)
  then show ?thesis by (auto simp: b64_alphabet_def is_ascii_space_def)
qed

text \<open>The sextets \<open>btoa\<close> prints, and how many \<open>=\<close> follow them.\<close>

fun b64_sextets :: "bytes \<Rightarrow> nat list" where
  "b64_sextets [] = []"
| "b64_sextets [a] = [a div 4, a mod 4 * 16]"
| "b64_sextets [a, b] = [a div 4, a mod 4 * 16 + b div 16, b mod 16 * 4]"
| "b64_sextets (a # b # c # rest) =
     [a div 4, a mod 4 * 16 + b div 16, b mod 16 * 4 + c div 64, c mod 64] @ b64_sextets rest"

definition b64_pad :: "bytes \<Rightarrow> nat" where
  "b64_pad bs = (3 - length bs mod 3) mod 3"

lemma btoa_sextets: "btoa bs = map b64_char (b64_sextets bs) @ replicate (b64_pad bs) (CHR ''='')"
  by (induction bs rule: btoa.induct) (simp_all add: b64_pad_def numeral_2_eq_2)

lemma sextet_bounds:
  "a < 256 \<Longrightarrow> a div 4 < 64" "b < 256 \<Longrightarrow> a mod 4 * 16 + b div 16 < 64"
  "c < 256 \<Longrightarrow> b mod 16 * 4 + c div 64 < 64" "a mod 4 * 16 < (64 :: nat)" "b mod 16 * 4 < (64 :: nat)"
  for a b c :: nat
proof -
  show "a div 4 < 64" if "a < 256" using that by (simp add: less_mult_imp_div_less)
  have "a mod 4 < 4" "b mod 16 < 16" by simp_all
  then show "a mod 4 * 16 < 64" "b mod 16 * 4 < 64" by linarith+
  show "a mod 4 * 16 + b div 16 < 64" if "b < 256"
  proof -
    have "b div 16 < 16" using that by (simp add: less_mult_imp_div_less)
    then show ?thesis using \<open>a mod 4 < 4\<close> by linarith
  qed
  show "b mod 16 * 4 + c div 64 < 64" if "c < 256"
  proof -
    have "c div 64 < 4" using that by (simp add: less_mult_imp_div_less)
    then show ?thesis using \<open>b mod 16 < 16\<close> by linarith
  qed
qed

lemma b64_sextets_less: "is_bytes bs \<Longrightarrow> list_all (\<lambda>n. n < 64) (b64_sextets bs)"
  by (induction bs rule: b64_sextets.induct) (simp_all add: is_bytes_def sextet_bounds)

lemma b64_sextets_length: "length (b64_sextets bs) = 4 * (length bs div 3) + (if length bs mod 3 = 0 then 0 else Suc (length bs mod 3))"
proof (induction bs rule: b64_sextets.induct)
  case (4 a b c rest)
  have "length (a # b # c # rest) = length rest + 3" by simp
  then have "length (a # b # c # rest) div 3 = Suc (length rest div 3)"
    "length (a # b # c # rest) mod 3 = length rest mod 3"
    by simp_all
  then show ?case using 4 by simp
qed simp_all

lemma length_b64_sextets:
  "(length (b64_sextets bs) + b64_pad bs) mod 4 = 0" "length (b64_sextets bs) mod 4 \<noteq> 1"
  "b64_pad bs \<le> 2"
proof -
  obtain q r where len: "length bs = 3 * q + r" and r: "r \<in> {0, 1, 2}"
    by (metis insertI1 insertI2 div_mult_mod_eq mod_mod_trivial mult.commute numeral_3_eq_3 less_Suc_eq less_one mod_less_divisor numeral_2_eq_2 one_add_one not_less_zero zero_less_Suc One_nat_def)
  then show "(length (b64_sextets bs) + b64_pad bs) mod 4 = 0" "length (b64_sextets bs) mod 4 \<noteq> 1"
    "b64_pad bs \<le> 2"
    by (auto simp: b64_sextets_length b64_pad_def, presburger)
qed

lemma b64_decode_sextets: "is_bytes bs \<Longrightarrow> b64_decode (b64_sextets bs) = bs"
proof (induction bs rule: b64_sextets.induct)
  case (4 a b c rest)
  have c: "c div 64 < 4" and b: "b div 16 < 16"
    using "4.prems" by (auto simp: is_bytes_def less_mult_imp_div_less)
  have "(b mod 16 * 4 + c div 64) div 4 = b mod 16"
    "(b mod 16 * 4 + c div 64) mod 4 = c div 64"
    using c by simp_all
  moreover have "(a mod 4 * 16 + b div 16) div 16 = a mod 4" "(a mod 4 * 16 + b div 16) mod 16 = b div 16"
    using b by simp_all
  ultimately show ?case using 4 by (simp add: is_bytes_def mult.commute)
next
  case (3 a b)
  then have "b div 16 < 16" by (simp add: is_bytes_def less_mult_imp_div_less)
  then have "(a mod 4 * 16 + b div 16) div 16 = a mod 4" "(a mod 4 * 16 + b div 16) mod 16 = b div 16"
    by simp_all
  then show ?case by (simp add: mult.commute)
qed (simp_all add: mult.commute)

lemma those_map_b64: "list_all (\<lambda>n. n < 64) ns \<Longrightarrow> those (map (b64_value \<circ> b64_char) ns) = Some ns"
  by (induction ns) simp_all

lemma drop_pad_simps:
  "drop_pad (s @ [CHR ''='']) = s"
  "(\<And>c. c \<in> set s \<Longrightarrow> c \<noteq> CHR ''='') \<Longrightarrow> drop_pad s = s"
  using last_in_set [of s] by (auto simp: drop_pad_def)

lemma b64_unpad_padded:
  assumes "\<And>c. c \<in> set s \<Longrightarrow> c \<noteq> CHR ''=''" "k \<le> 2" "(length s + k) mod 4 = 0"
  shows "b64_unpad (s @ replicate k (CHR ''='')) = s"
proof -
  have plain: "drop_pad s = s" using assms(1) by (rule drop_pad_simps)
  have two: "drop_pad (s @ [CHR ''='', CHR ''='']) = s @ [CHR ''='']"
    using drop_pad_simps(1) [of "s @ [CHR ''='']"] by simp
  have "k = 0 \<or> k = 1 \<or> k = 2" using assms(2) by linarith
  then show ?thesis
    using assms(3) plain two by (auto simp: b64_unpad_def drop_pad_simps(1) numeral_2_eq_2)
qed

lemma atob_btoa:
  assumes "is_bytes bs"
  shows "atob (btoa bs) = Some bs"
proof -
  let ?s = "map b64_char (b64_sextets bs)"
  have lt: "list_all (\<lambda>n. n < 64) (b64_sextets bs)" by (rule b64_sextets_less [OF assms])
  have plain: "c \<noteq> CHR ''='' \<and> \<not> is_ascii_space c" if "c \<in> set ?s" for c
    using that lt b64_char_plain by (auto simp: list_all_iff)
  have "filter (\<lambda>c. \<not> is_ascii_space c) ?s = ?s"
    using plain by (simp add: filter_id_conv)
  moreover have "\<not> is_ascii_space (CHR ''='')" by (simp add: is_ascii_space_def)
  ultimately have "filter (\<lambda>c. \<not> is_ascii_space c) (btoa bs) = ?s @ replicate (b64_pad bs) (CHR ''='')"
    by (simp add: btoa_sextets)
  moreover have "b64_unpad (?s @ replicate (b64_pad bs) (CHR ''='')) = ?s"
    using plain length_b64_sextets by (intro b64_unpad_padded) auto
  ultimately show ?thesis
    using length_b64_sextets(2) [of bs] those_map_b64 [OF lt] b64_decode_sextets [OF assms]
    by (simp add: atob_def)
qed

section \<open>Facts on decimal numbers\<close>

lemma of_char_digit: "d < 10 \<Longrightarrow> of_char (digit_char d) = 48 + d"
  by (simp add: digit_char_def)

lemma digit_val_char [simp]: "d < 10 \<Longrightarrow> digit_val (digit_char d) = d"
  by (simp add: digit_val_def of_char_digit)

lemma is_digit_char [simp]: "d < 10 \<Longrightarrow> is_digit (digit_char d)"
  by (simp add: is_digit_def of_char_digit)

lemma digits_val_append [simp]: "digits_val b v (xs @ ys) acc = digits_val b v ys (digits_val b v xs acc)"
  by (induction xs arbitrary: acc) simp_all

lemma digits_val_acc: "digits_val b v xs acc = acc * b ^ length xs + digits_val b v xs 0"
proof (induction xs arbitrary: acc)
  case (Cons x xs)
  show ?case
    using Cons.IH [of "acc * b + v x"] Cons.IH [of "v x"] by (simp add: algebra_simps)
qed simp

lemma show_nat_digits: "show_nat n \<noteq> []" "list_all is_digit (show_nat n)"
proof -
  show "show_nat n \<noteq> []" by (simp add: show_nat.simps [of n])
  show "list_all is_digit (show_nat n)"
  proof (induction n rule: show_nat.induct)
    case (1 n)
    then show ?case by (subst show_nat.simps) simp
  qed
qed

lemma dec_val_show_nat [simp]: "dec_val (show_nat n) = n"
proof (induction n rule: show_nat.induct)
  case (1 n)
  then show ?case by (subst show_nat.simps) simp
qed

lemma dec_val_less:
  "list_all is_digit xs \<Longrightarrow> dec_val xs < 10 ^ length xs"
proof (induction xs rule: rev_induct)
  case (snoc x xs)
  have "digit_val x \<le> 9" using snoc.prems by (auto simp: is_digit_def digit_val_def)
  moreover have "dec_val xs < 10 ^ length xs" using snoc by simp
  ultimately show ?case by simp
qed simp

lemma is_digit_not_special:
  "is_digit c \<Longrightarrow> \<not> is_js_space c \<and> c \<noteq> CHR ''-'' \<and> c \<noteq> CHR ''+'' \<and> c \<noteq> CHR ''x''
     \<and> c \<noteq> CHR ''X'' \<and> c \<noteq> CHR ''o'' \<and> c \<noteq> CHR ''O'' \<and> c \<noteq> CHR ''b'' \<and> c \<noteq> CHR ''B''
     \<and> c \<noteq> CHR ''.''"
  by (auto simp: is_digit_def is_js_space_def)

lemma js_trim_id:
  assumes "list_all (\<lambda>c. \<not> is_js_space c) s"
  shows "js_trim s = s"
proof -
  have *: "dropWhile is_js_space t = t" if "list_all (\<lambda>c. \<not> is_js_space c) t" for t
    using that by (cases t) simp_all
  show ?thesis using assms by (simp add: js_trim_def *)
qed

lemma bigint_of_digits:
  assumes "s \<noteq> []" "list_all is_digit s"
  shows "bigint_of_string s = Some (int (dec_val s))"
proof -
  have d: "is_digit c" if "c \<in> set s" for c using assms that by (simp add: list_all_iff)
  have tr: "js_trim s = s"
    by (rule js_trim_id) (use d is_digit_not_special in \<open>auto simp: list_all_iff\<close>)
  have h: "hd s \<noteq> CHR ''-''" "hd s \<noteq> CHR ''+''"
    using d [of "hd s"] assms(1) is_digit_not_special by auto
  have t: "take 2 s \<noteq> [a, c]" if "\<not> is_digit c" for a c
    using d that by (metis in_set_takeD list.set_intros(1) list.set_intros(2))
  have "\<not> is_digit c" if "c \<in> {CHR ''x'', CHR ''X'', CHR ''o'', CHR ''O'', CHR ''b'', CHR ''B''}" for c
    using that is_digit_not_special [of c] by auto
  then show ?thesis
    using assms h t by (simp add: bigint_of_string_def tr Let_def bigint_digits_def)
qed

lemma bigint_of_show_int: "bigint_of_string (show_int n) = Some n"
proof (cases "n < 0")
  case True
  have ns: "\<not> is_js_space c" if "c \<in> set (show_int n)" for c
    using that True is_digit_not_special show_nat_digits(2) [of "nat (- n)"]
    by (auto simp: show_int_def list_all_iff is_js_space_def)
  have "js_trim (show_int n) = show_int n"
    by (rule js_trim_id) (use ns in \<open>simp add: list_all_iff\<close>)
  then show ?thesis
    using True show_nat_digits [of "nat (- n)"]
    by (simp add: bigint_of_string_def show_int_def Let_def bigint_digits_def)
next
  case False
  then show ?thesis
    using bigint_of_digits [OF show_nat_digits, of "nat n"] by (simp add: show_int_def)
qed

end
