(* ===== verification/JsDouble.thy ===== *)
theory JsDouble
  imports Complex_Main JsLib
begin

text \<open>
  The fragment of IEEE 754 double arithmetic the sources rely on for non-negative values: rounding
  a rational to the nearest double (ties to even, gradual underflow, overflow to \<open>Infinity\<close>),
  \<open>parseFloat\<close> of a decimal literal, multiplication, \<open>Math.round\<close>. A double is the rational it
  denotes; \<open>None\<close> is \<open>Infinity\<close>. The facts bound the relative error of one rounding and show
  when a scaled decimal survives two roundings.
\<close>

fun bit_len :: "nat \<Rightarrow> nat" where
  "bit_len n = (if n = 0 then 0 else Suc (bit_len (n div 2)))"

declare bit_len.simps [simp del]

definition round_half_even :: "rat \<Rightarrow> int" where
  "round_half_even x =
     (let f = \<lfloor>x\<rfloor>; d = x - of_int f
      in if d < 1 / 2 then f else if d > 1 / 2 then f + 1 else if even f then f else f + 1)"

text \<open>\<open>\<lfloor>log2 x\<rfloor>\<close> of a positive rational.\<close>

definition flog2 :: "rat \<Rightarrow> int" where
  "flog2 x =
     (let (p, q) = quotient_of x;
          l = int (bit_len (nat p)) - int (bit_len (nat q))
      in if 2 powi l \<le> x then l else l - 1)"

definition to_double :: "rat \<Rightarrow> rat option" where
  "to_double x =
     (if x = 0 then Some 0
      else
        let e = max (flog2 x - 52) (- 1074);
            r = of_int (round_half_even (x / 2 powi e)) * 2 powi e
        in if r \<ge> 2 ^ 1024 then None else Some r)"

text \<open>The nearest double of a signed value below \<open>2 ^ 1024\<close> in magnitude.\<close>

definition dbl :: "rat \<Rightarrow> rat" where
  "dbl x = (if x < 0 then - the (to_double (- x)) else the (to_double x))"

text \<open>The value of a decimal literal \<open>ds.fs\<close>.\<close>

definition dec_value :: "string \<Rightarrow> string \<Rightarrow> rat" where
  "dec_value ds fs = of_nat (dec_val (ds @ fs)) / 10 ^ length fs"

text \<open>\<open>Math.round(parseFloat(s) * 10 ** decimals)\<close> where \<open>10 ** decimals\<close> is exact (\<open>decimals \<le> 22\<close>).\<close>

definition scaled_round :: "rat \<Rightarrow> nat \<Rightarrow> int option" where
  "scaled_round v decimals =
     Option.bind (to_double v) (\<lambda>a. map_option (\<lambda>p. \<lfloor>p + 1 / 2\<rfloor>) (to_double (a * 10 ^ decimals)))"

section \<open>Numbers of a configuration\<close>

text \<open>A value declared \<open>number\<close>: \<open>None\<close> is \<open>NaN\<close>, an infinity or a value of another runtime type.\<close>

type_synonym js_number = "rat option"

definition isInteger :: "js_number \<Rightarrow> bool" where
  "isInteger x = (case x of None \<Rightarrow> False | Some q \<Rightarrow> of_int \<lfloor>q\<rfloor> = q)"

definition number_lt :: "js_number \<Rightarrow> rat \<Rightarrow> bool" where
  "number_lt x q = (case x of None \<Rightarrow> False | Some p \<Rightarrow> p < q)"

definition number_gt :: "js_number \<Rightarrow> rat \<Rightarrow> bool" where
  "number_gt x q = (case x of None \<Rightarrow> False | Some p \<Rightarrow> p > q)"

definition to_int :: "js_number \<Rightarrow> int" where
  "to_int x = (case x of None \<Rightarrow> 0 | Some q \<Rightarrow> \<lfloor>q\<rfloor>)"

section \<open>Facts\<close>

lemma bit_len_bounds:
  assumes "0 < n"
  shows "2 ^ (bit_len n - 1) \<le> n \<and> n < 2 ^ bit_len n \<and> 0 < bit_len n"
  using assms
proof (induction n rule: bit_len.induct)
  case (1 n)
  have bl: "bit_len n = Suc (bit_len (n div 2))" using 1(2) by (simp add: bit_len.simps [of n])
  show ?case
  proof (cases "n div 2 = 0")
    case True
    then have "n = 1" using 1(2) by linarith
    then show ?thesis by (simp add: bit_len.simps)
  next
    case False
    then have IH: "2 ^ (bit_len (n div 2) - 1) \<le> n div 2" "n div 2 < 2 ^ bit_len (n div 2)"
      "0 < bit_len (n div 2)"
      using 1 by simp_all
    have "2 * 2 ^ (bit_len (n div 2) - 1) = (2 :: nat) ^ bit_len (n div 2)"
      using IH(3) by (metis Suc_diff_1 power_Suc)
    then have "2 ^ bit_len (n div 2) \<le> n" using IH(1) by linarith
    moreover have "n < 2 * 2 ^ bit_len (n div 2)" using IH(2) by linarith
    ultimately show ?thesis using bl by simp
  qed
qed

lemma flog2_bounds:
  assumes "0 < x"
  shows "2 powi flog2 x \<le> x \<and> x < 2 powi (flog2 x + 1)"
proof -
  obtain p q where pq: "quotient_of x = (p, q)" by (cases "quotient_of x")
  have q: "0 < q" using quotient_of_denom_pos [OF pq] .
  have x: "x = of_int p / of_int q" using quotient_of_div [OF pq] .
  have p: "0 < p" using assms q by (simp add: x zero_less_divide_iff)
  define bp bq where "bp = bit_len (nat p)" and "bq = bit_len (nat q)"
  have P: "2 ^ (bp - 1) \<le> nat p" "nat p < 2 ^ bp" "0 < bp"
    and Q: "2 ^ (bq - 1) \<le> nat q" "nat q < 2 ^ bq" "0 < bq"
    using bit_len_bounds [of "nat p"] bit_len_bounds [of "nat q"] p q by (simp_all add: bp_def bq_def)
  have cast: "(of_int p :: rat) = of_nat (nat p)" "(of_int q :: rat) = of_nat (nat q)"
    using p q by simp_all
  have P': "(2 :: rat) ^ (bp - 1) \<le> of_int p" "(of_int p :: rat) < 2 ^ bp"
    unfolding cast using P by (metis of_nat_le_iff of_nat_numeral of_nat_power, metis of_nat_less_iff of_nat_numeral of_nat_power)
  have Q': "(2 :: rat) ^ (bq - 1) \<le> of_int q" "(of_int q :: rat) < 2 ^ bq"
    unfolding cast using Q by (metis of_nat_le_iff of_nat_numeral of_nat_power, metis of_nat_less_iff of_nat_numeral of_nat_power)
  have pw: "(2 :: rat) powi (int a - int b) = 2 ^ a / 2 ^ b" for a b
    by (simp add: power_int_diff)
  have qpos: "(0 :: rat) < of_int q" using q by simp
  have "x < 2 ^ bp / 2 ^ (bq - 1)"
    unfolding x using P' Q' qpos by (intro frac_less) (use p in \<open>simp_all\<close>)
  also have "\<dots> = 2 powi (int bp - int bq + 1)"
    using Q(3) pw [of bp "bq - 1"] by (simp add: of_nat_diff algebra_simps)
  finally have up: "x < 2 powi (int bp - int bq + 1)" .
  have "2 powi (int bp - int bq - 1) = (2 :: rat) ^ (bp - 1) / 2 ^ bq"
    using P(3) pw [of "bp - 1" bq] by (simp add: of_nat_diff algebra_simps)
  also have "\<dots> \<le> x"
    unfolding x using P' Q' qpos p by (intro frac_le) simp_all
  finally have lo: "2 powi (int bp - int bq - 1) \<le> x" .
  show ?thesis
    using up lo by (auto simp: flog2_def pq Let_def bp_def [symmetric] bq_def [symmetric])
qed

lemma powi_less_imp: "(2 :: rat) powi i < 2 powi j \<Longrightarrow> i < j"
  using power_int_increasing [of j i "2 :: rat"] by (cases "i < j") simp_all

lemma round_half_even_error: "\<bar>of_int (round_half_even x) - x\<bar> \<le> 1 / 2"
proof -
  have "of_int \<lfloor>x\<rfloor> \<le> x" "x < of_int \<lfloor>x\<rfloor> + 1" by linarith+
  then show ?thesis by (simp add: round_half_even_def Let_def abs_le_iff)
qed

lemma to_double_error:
  assumes "2 powi (- 1022) \<le> x" "to_double x = Some r"
  shows "\<bar>r - x\<bar> \<le> x / 2 ^ 53"
proof -
  have "(0 :: rat) < 2 powi (- 1022)" by (rule zero_less_power_int) simp
  then have x0: "0 < x" using assms(1) by (rule less_le_trans)
  note fl = flog2_bounds [OF x0]
  have "(2 :: rat) powi (- 1022) < 2 powi (flog2 x + 1)" using assms(1) fl by linarith
  then have "- 1022 < flog2 x + 1" by (rule powi_less_imp)
  then have e: "max (flog2 x - 52) (- 1074) = flog2 x - 52" by simp
  define E where "E = (2 :: rat) powi (flog2 x - 52)"
  have E: "0 < E" by (simp add: E_def)
  have "E * 2 ^ 52 = 2 powi flog2 x"
    unfolding E_def by (simp add: power_int_diff)
  then have le: "E * 2 ^ 52 \<le> x" using fl by simp
  have r: "r = of_int (round_half_even (x / E)) * E"
    using assms(2) x0 e by (simp add: to_double_def Let_def E_def split: if_splits)
  have "\<bar>r - x\<bar> = \<bar>of_int (round_half_even (x / E)) - x / E\<bar> * E"
  proof -
    have "r - x = (of_int (round_half_even (x / E)) - x / E) * E"
      using E unfolding r by (simp add: left_diff_distrib)
    then show ?thesis using E by (simp only: abs_mult abs_of_pos)
  qed
  also have "\<dots> \<le> 1 / 2 * E"
    using E round_half_even_error [of "x / E"] by (intro mult_right_mono) simp_all
  also have "\<dots> \<le> x / 2 ^ 53" using le by simp
  finally show ?thesis .
qed

lemma to_double_finite:
  assumes "0 < x" "x < 2 ^ 1000"
  shows "\<exists>r. to_double x = Some r"
proof -
  define e where "e = max (flog2 x - 52) (- 1074)"
  have "(2 :: rat) powi flog2 x < 2 powi 1000"
    using flog2_bounds [OF assms(1)] assms(2) by (simp add: power_int_def)
  then have "flog2 x < 1000" by (rule powi_less_imp)
  then have "e \<le> 1000" by (simp add: e_def)
  then have E: "(2 :: rat) powi e \<le> 2 powi 1000" by (rule power_int_increasing) simp
  have E0: "(0 :: rat) < 2 powi e" by simp
  let ?m = "of_int (round_half_even (x / 2 powi e)) :: rat"
  have "?m \<le> x / 2 powi e + 1 / 2" using round_half_even_error [of "x / 2 powi e"] by linarith
  then have "?m * 2 powi e \<le> (x / 2 powi e + 1 / 2) * 2 powi e" using E0 by (intro mult_right_mono) simp_all
  also have "\<dots> = x + 2 powi e / 2" using E0 by (simp add: field_simps)
  also have "\<dots> < 2 ^ 1000 + 2 powi 1000" using assms(2) E E0 by linarith
  also have "\<dots> \<le> (2 :: rat) ^ 1024" by (simp add: power_int_def)
  finally show ?thesis using assms(1) by (simp add: to_double_def Let_def e_def)
qed

lemma small_powi_le: "(2 :: rat) powi (- 1022) \<le> 1 / 10 ^ 22"
proof -
  have "(2 :: rat) powi (- 1022) \<le> 2 powi (- 80)" by (rule power_int_increasing) simp_all
  also have "\<dots> = 1 / 2 ^ 80" by (simp only: power_int_minus power_int_numeral inverse_eq_divide)
  also have "\<dots> \<le> 1 / (10 :: rat) ^ 22" by simp
  finally show ?thesis .
qed

text \<open>
  A decimal that is an integer \<open>N \<le> 2^50\<close> once scaled survives parsing, scaling and rounding.
\<close>

lemma scaled_round_exact:
  assumes "v * 10 ^ d = of_int N" "0 \<le> N" "N \<le> 2 ^ 50" "d \<le> 22"
  shows "scaled_round v d = Some N"
proof (cases "N = 0")
  case True
  then have "v = 0" using assms(1) by simp
  moreover have "\<lfloor>1 / 2 :: rat\<rfloor> = 0" by (rule floor_unique) simp_all
  ultimately show ?thesis using True by (simp add: scaled_round_def to_double_def)
next
  case False
  let ?D = "(10 :: rat) ^ d"
  have D: "1 \<le> ?D" "?D \<le> 10 ^ 22" using assms(4) by (simp, intro power_increasing) simp_all
  have N: "1 \<le> (of_int N :: rat)" "(of_int N :: rat) \<le> 2 ^ 50"
    using False assms(2,3) by (simp_all add: of_int_le_iff [of N "2 ^ 50", symmetric, where 'a = rat] del: of_int_le_iff)
  have v: "v = of_int N / ?D" using assms(1) D by (simp add: field_simps)
  have "1 / 10 ^ 22 \<le> v" unfolding v using N D by (intro frac_le) simp_all
  then have vlo: "2 powi (- 1022) \<le> v" using small_powi_le by linarith
  have v0: "0 < v" unfolding v using N D by (intro divide_pos_pos) linarith+
  have "v \<le> of_int N / 1" unfolding v using N D by (intro frac_le) simp_all
  then have vhi: "v \<le> 2 ^ 50" using N by simp
  then obtain a where a: "to_double v = Some a" using to_double_finite [OF v0] by fastforce
  have ea: "\<bar>a - v\<bar> \<le> v / 2 ^ 53" by (rule to_double_error [OF vlo a])
  let ?x = "a * ?D"
  have "?x - of_int N = (a - v) * ?D" using assms(1) by (simp add: algebra_simps)
  then have "\<bar>?x - of_int N\<bar> = \<bar>a - v\<bar> * ?D" using D by (simp add: abs_mult)
  also have "\<dots> \<le> v / 2 ^ 53 * ?D" using ea D by (intro mult_right_mono) simp_all
  also have "\<dots> = of_int N / 2 ^ 53" using assms(1) by simp
  finally have ex: "\<bar>?x - of_int N\<bar> \<le> of_int N / 2 ^ 53" .
  have "of_int N / 2 ^ 53 \<le> (of_int N :: rat) / 2" using N by simp
  then have xlo: "1 / 2 \<le> ?x" using ex N unfolding abs_le_iff by linarith
  have xhi: "?x \<le> of_int N + of_int N / 2 ^ 53" using ex unfolding abs_le_iff by linarith
  have "(1 :: rat) / 10 ^ 22 \<le> 1 / 2" by simp
  then have "(2 :: rat) powi (- 1022) \<le> ?x" using small_powi_le xlo by (meson order_trans)
  moreover obtain p where p: "to_double ?x = Some p"
    using to_double_finite [of ?x] xlo xhi N by fastforce
  ultimately have "\<bar>p - ?x\<bar> \<le> ?x / 2 ^ 53" by (rule to_double_error)
  then have "\<bar>p - of_int N\<bar> < 1 / 2" using ex xhi N unfolding abs_le_iff abs_less_iff by (simp add: field_simps)
  then have "\<lfloor>p + 1 / 2\<rfloor> = N" unfolding abs_less_iff by (intro floor_unique) linarith+
  then show ?thesis using a p by (simp add: scaled_round_def)
qed

section \<open>Products of a fraction and a count\<close>

lemma flog2_unique:
  assumes "2 powi e \<le> x" "x < 2 powi (e + 1)"
  shows "flog2 x = e"
proof -
  have "0 < x" using assms(1) zero_less_power_int [of "2 :: rat" e] by linarith
  note b = flog2_bounds [OF this]
  have "(2 :: rat) powi flog2 x < 2 powi (e + 1)" "(2 :: rat) powi e < 2 powi (flog2 x + 1)"
    using assms b by linarith+
  then show ?thesis by (auto dest!: powi_less_imp)
qed

text \<open>A value below an integer does not round above it.\<close>

lemma to_double_le_int:
  assumes "0 < x" "x \<le> of_int N" "x < 2 ^ 52" "to_double x = Some r"
  shows "r \<le> of_int N"
proof -
  define e where "e = max (flog2 x - 52) (- 1074)"
  have "(2 :: rat) powi flog2 x < 2 powi 52"
    using flog2_bounds [OF assms(1)] assms(3) by (simp add: power_int_def)
  then have "flog2 x < 52" by (rule powi_less_imp)
  then have "e \<le> 0" by (simp add: e_def)
  define k where "k = nat (- e)"
  have E: "(2 :: rat) powi e = 1 / 2 ^ k" using \<open>e \<le> 0\<close> by (simp add: k_def power_int_def power_one_over)
  have r: "r = of_int (round_half_even (x * 2 ^ k)) / 2 ^ k"
    using assms(1,4) by (simp add: to_double_def Let_def e_def [symmetric] E split: if_splits)
  have "x * 2 ^ k \<le> of_int (N * 2 ^ k)" using assms(2) by simp
  moreover have "round_half_even y \<le> M" if "y \<le> of_int M" for y M
  proof (cases "y = of_int M")
    case False
    then have "\<lfloor>y\<rfloor> + 1 \<le> M" using that by linarith
    then show ?thesis by (auto simp: round_half_even_def Let_def)
  qed (simp add: round_half_even_def)
  ultimately have "round_half_even (x * 2 ^ k) \<le> N * 2 ^ k" by blast
  then have "(of_int (round_half_even (x * 2 ^ k)) :: rat) \<le> of_int (N * 2 ^ k)" by (simp only: of_int_le_iff)
  then show ?thesis unfolding r by (simp add: field_simps)
qed

lemma small_powi_le_quarter: "(2 :: rat) powi (- 1022) \<le> 1 / 4"
  by (rule order_trans [OF small_powi_le]) simp

lemma ceil_div_100:
  "100 * ((m + 99) div 100) \<le> m + (99 :: nat)" "m \<le> 100 * ((m + 99) div 100)"
  using mult_div_mod_eq [of 100 "m + 99"] mod_less_divisor [of 100 "m + 99"] by linarith+

lemma ceiling_div_100: "\<lceil>of_nat m / (100 :: rat)\<rceil> = int ((m + 99) div 100)"
    and gap_div_100: "of_int \<lceil>of_nat m / (100 :: rat)\<rceil> - 99 / 100 \<le> (of_nat m :: rat) / 100"
proof -
  define k where "k = (m + 99) div 100"
  have "(of_nat (100 * k) :: rat) \<le> of_nat (m + 99)" "(of_nat m :: rat) \<le> of_nat (100 * k)"
    using ceil_div_100 [of m] unfolding k_def [symmetric] by (simp_all only: of_nat_le_iff)
  then have k: "100 * (of_nat k :: rat) \<le> of_nat m + 99" "(of_nat m :: rat) \<le> 100 * of_nat k" by simp_all
  show c: "\<lceil>of_nat m / (100 :: rat)\<rceil> = int ((m + 99) div 100)"
    unfolding k_def [symmetric] by (rule ceiling_unique) (use k in simp_all)
  show "of_int \<lceil>of_nat m / (100 :: rat)\<rceil> - 99 / 100 \<le> (of_nat m :: rat) / 100"
    unfolding c k_def [symmetric] using k by simp
qed

text \<open>
  \<open>Math.ceil((p / 100) * n)\<close> is the integer one means when the double of \<open>p / 100\<close> does not exceed it.
\<close>

lemma ceil_percent_exact:
  assumes q: "q = of_nat p / 100" "1 / 4 \<le> q" "q \<le> 1"
    and a: "to_double q = Some a" "a \<le> q"
    and n: "0 < n" "n \<le> 2 ^ 40"
  shows "\<lceil>dbl (dbl q * of_nat n)\<rceil> = int ((p * n + 99) div 100)"
proof -
  define y where "y = q * of_nat n"
  define x where "x = a * of_nat n"
  have n1: "1 \<le> (of_nat n :: rat)" "(of_nat n :: rat) \<le> 2 ^ 40"
  proof -
    show "1 \<le> (of_nat n :: rat)" using n by simp
    have "(of_nat n :: rat) \<le> of_nat (2 ^ 40)" using n(2) by (simp only: of_nat_le_iff)
    then show "(of_nat n :: rat) \<le> 2 ^ 40" by simp
  qed
  have tiny: "(2 :: rat) powi (- 1022) \<le> 1 / 8"
    by (rule order_trans [OF small_powi_le]) simp
  have ea: "\<bar>a - q\<bar> \<le> q / 2 ^ 53" by (rule to_double_error [OF _ a(1)]) (use tiny q in linarith)
  then have a8: "1 / 8 \<le> a" using q unfolding abs_le_iff by (simp add: field_simps)
  have dq: "dbl q = a" using q a(1) by (simp add: dbl_def)
  have yle: "y \<le> 2 ^ 40"
    using mult_mono [OF q(3) n1(2)] by (simp add: y_def)
  have xy: "x \<le> y" using a(2) n1 by (simp add: x_def y_def mult_right_mono)
  have x8: "1 / 8 \<le> x" using mult_mono [OF a8 n1(1)] a8 by (simp add: x_def)
  have "y - x = (q - a) * of_nat n" by (simp add: x_def y_def algebra_simps)
  also have "\<dots> \<le> q / 2 ^ 53 * of_nat n" using ea n1 unfolding abs_le_iff by (intro mult_right_mono) linarith+
  finally have yx: "y - x \<le> y / 2 ^ 53" by (simp add: y_def)
  obtain r where r: "to_double x = Some r"
    using to_double_finite [of x] x8 xy yle by fastforce
  have er: "\<bar>r - x\<bar> \<le> x / 2 ^ 53" by (rule to_double_error [OF _ r]) (use tiny x8 in linarith)
  have dx: "dbl x = r" using x8 r by (simp add: dbl_def)
  have up: "r \<le> of_int \<lceil>y\<rceil>"
    by (rule to_double_le_int [OF _ _ _ r]) (use x8 xy yle in \<open>auto intro: order_trans [OF _ le_of_int_ceiling]\<close>)
  have y100: "y = of_nat (p * n) / 100" by (simp add: y_def q(1))
  have ce: "\<lceil>y\<rceil> = int ((p * n + 99) div 100)" and gap: "of_int \<lceil>y\<rceil> - 99 / 100 \<le> y"
    unfolding y100 by (rule ceiling_div_100, rule gap_div_100)
  have "y / 2 ^ 53 + x / 2 ^ 53 < 1 / 100" using yle xy by (simp add: field_simps)
  then have "of_int \<lceil>y\<rceil> - 1 < r" using gap yx er unfolding abs_le_iff by linarith
  then have "\<lceil>r\<rceil> = \<lceil>y\<rceil>" using up by (intro ceiling_unique) simp_all
  then show ?thesis using ce dq dx by (simp add: x_def)
qed

lemma to_double_scaled:
  assumes "0 < x" "flog2 x = 52 - int k" "k \<le> 1074"
  shows "to_double x = Some (of_int (round_half_even (x * 2 ^ k)) / 2 ^ k)"
proof -
  have "(2 :: rat) powi (flog2 x + 1) \<le> 2 powi 53" using assms(2) by (intro power_int_increasing) simp_all
  moreover have "(2 :: rat) powi 53 \<le> 2 ^ 1000" by (simp add: power_int_def)
  ultimately have "x < 2 ^ 1000" using flog2_bounds [OF assms(1)] by linarith
  then obtain r where r: "to_double x = Some r" using to_double_finite [OF assms(1)] by blast
  have "max (flog2 x - 52) (- 1074) = - int k" using assms by simp
  moreover have "(2 :: rat) powi (- int k) = 1 / 2 ^ k" by (simp add: power_int_minus inverse_eq_divide)
  ultimately have "r = of_int (round_half_even (x * 2 ^ k)) / 2 ^ k"
    using assms(1) r by (simp add: to_double_def Let_def split: if_splits)
  then show ?thesis using r by simp
qed

lemma round_half_even_below: "0 \<le> d \<Longrightarrow> d < 1 / 2 \<Longrightarrow> round_half_even (of_int m + d) = m"
  using floor_unique [of m "of_int m + d"] by (simp add: round_half_even_def)

lemma to_double_percentiles:
  "to_double (25 / 100) = Some (25 / 100)" "to_double (50 / 100) = Some (50 / 100)"
  "to_double (75 / 100) = Some (75 / 100)" "to_double (95 / 100) = Some (8556839292003942 / 2 ^ 53)"
proof -
  have f: "flog2 (1 / 4) = - 2" "flog2 (1 / 2) = - 1" "flog2 (3 / 4) = - 1" "flog2 (19 / 20) = - 1"
    by (rule flog2_unique; simp add: power_int_def power2_eq_square)+
  have r: "to_double x = Some (of_int m / 2 ^ k)"
    if "0 < x" "flog2 x = 52 - int k" "k \<le> 1074" "x * 2 ^ k = of_int m + d" "0 \<le> d" "d < 1 / 2" for x k m d
    using to_double_scaled [OF that(1-3)] round_half_even_below [OF that(5,6)] that(4) by simp
  show "to_double (25 / 100) = Some (25 / 100)"
    using r [of "1 / 4" 54 "2 ^ 52" 0] by (simp add: f)
  show "to_double (50 / 100) = Some (50 / 100)"
    using r [of "1 / 2" 53 "2 ^ 52" 0] by (simp add: f)
  show "to_double (75 / 100) = Some (75 / 100)"
    using r [of "3 / 4" 53 "3 * 2 ^ 51" 0] by (simp add: f)
  show "to_double (95 / 100) = Some (8556839292003942 / 2 ^ 53)"
    using r [of "19 / 20" 53 8556839292003942 "2 / 5"] by (simp add: f)
qed

end
