(* ===== verification/SdkTypes.thy ===== *)
theory SdkTypes
  imports JsLib Complex_Main
begin

text \<open>
  The SDK-wide constants and small functions of \<open>sdk/kit/src/types.ts\<close> and the protocol and
  token registry of \<open>sdk/kit/src/core/registry.ts\<close>. A network is the string the API receives, so that the
  behaviour of the checks on unexpected strings is part of the model.
\<close>

section \<open>types.ts\<close>

definition FEE_RATE_DENOMINATOR :: int where "FEE_RATE_DENOMINATOR = 1000000"
definition PROTOCOL_FEE_RATE :: int where "PROTOCOL_FEE_RATE = 200"
definition MAX_DEVELOPER_FEE_RATE :: int where "MAX_DEVELOPER_FEE_RATE = 500"

definition PROTOCOL_TREASURY :: address where
  "PROTOCOL_TREASURY = ''ASHie1dFTnDSnrHMPGmniJhMgfJVGPm3rAaEPnrtWDiT''"

definition EPOCH_DURATION :: int where "EPOCH_DURATION = 600"
definition NUM_EPOCHS :: int where "NUM_EPOCHS = 144"
definition OVERLAY_EPOCH_DURATION :: int where "OVERLAY_EPOCH_DURATION = 3600"
definition OVERLAY_NUM_EPOCHS :: int where "OVERLAY_NUM_EPOCHS = 24"
definition ROLLING_WINDOW_SECONDS :: int where "ROLLING_WINDOW_SECONDS = 86400"

definition USDC_MINT_DEVNET :: address where
  "USDC_MINT_DEVNET = ''DMFEQFCRsvGrYzoL2gfwTEd9J8eVBQEjg7HjbJHd6oGH''"
definition USDC_MINT_MAINNET :: address where
  "USDC_MINT_MAINNET = ''EPjFWdd5AufqSSqeM2qN1xzybapC8G4wEGGkZwyTDt1v''"
definition USDT_MINT_DEVNET :: address where
  "USDT_MINT_DEVNET = ''43cd9ma7P968BssTtAKNs5qu6zgsErupwxwdjkiuMHze''"
definition USDT_MINT_MAINNET :: address where
  "USDT_MINT_MAINNET = ''Es9vMFrzaCERmJfrF4H2FYD4KCoNkY11McCe8BenwNYB''"

definition TOKEN_PROGRAM_ADDRESS :: address where
  "TOKEN_PROGRAM_ADDRESS = ''TokenkegQfeZyiNwAJbNbGKPFXCWuBvf9Ss623VQ5DA''"
definition TOKEN_2022_PROGRAM_ADDRESS :: address where
  "TOKEN_2022_PROGRAM_ADDRESS = ''TokenzQdBNbLqP5VEhdkAS6EPFLC1PHnBqCXEpPxuEb''"
definition ATA_PROGRAM_ADDRESS :: address where
  "ATA_PROGRAM_ADDRESS = ''ATokenGPvbdGVxr1b2hvZbsiqW5xWH25efTNsLJA8knL''"
definition COMPUTE_BUDGET_PROGRAM_ADDRESS :: address where
  "COMPUTE_BUDGET_PROGRAM_ADDRESS = ''ComputeBudget111111111111111111111111111111''"
definition SYSTEM_PROGRAM_ADDRESS :: address where
  "SYSTEM_PROGRAM_ADDRESS = ''11111111111111111111111111111111''"

record ProtocolMeta =
  pm_name :: string
  pm_instructionCountLimited :: bool
  pm_defaultCU :: nat

text \<open>\<open>SUPPORTED_PROTOCOLS\<close>, in the order of the object literal.\<close>

definition SUPPORTED_PROTOCOLS :: "(address \<times> ProtocolMeta) list" where
  "SUPPORTED_PROTOCOLS =
    [(''JUP6LkbZbjS1jKKwapdHNy74zcZ3tLUZoi5QNyVTaV4'',
       \<lparr>pm_name = ''Jupiter'', pm_instructionCountLimited = True, pm_defaultCU = 600000\<rparr>),
     (''FLASH6Lo6h3iasJKWDs2F8TkW2UKf3s15C8PMGuVfgBn'',
       \<lparr>pm_name = ''Flash Trade'', pm_instructionCountLimited = True, pm_defaultCU = 800000\<rparr>),
     (''JLend2fEim9xUFcaHsyGePEoBzFLvkjMi3MnPcSuCdu'',
       \<lparr>pm_name = ''Jupiter Lend'', pm_instructionCountLimited = True, pm_defaultCU = 400000\<rparr>),
     (''jup3YeL8QhtSx1e253b2FDvsMNC87fDrgQZivbrndc9'',
       \<lparr>pm_name = ''Jupiter Earn'', pm_instructionCountLimited = True, pm_defaultCU = 400000\<rparr>),
     (''jupr81YtYssSyPt8jbnGuiWon5f6x9TcDEFxYe3Bdzi'',
       \<lparr>pm_name = ''Jupiter Borrow'', pm_instructionCountLimited = True, pm_defaultCU = 400000\<rparr>),
     (''dRiftyHA39MWEi3m9aunc5MzRF1JYuBsbn6VPcn33UH'',
       \<lparr>pm_name = ''Drift'', pm_instructionCountLimited = False, pm_defaultCU = 800000\<rparr>),
     (''KLend2g3cP87ber8CzRaqeECGwNvLFM9acPVcRkRHvM'',
       \<lparr>pm_name = ''Kamino'', pm_instructionCountLimited = False, pm_defaultCU = 400000\<rparr>)]"

definition RECOGNIZED_DEFI_PROGRAMS :: "address list" where
  "RECOGNIZED_DEFI_PROGRAMS =
     map fst (filter (\<lambda>(_, meta). pm_instructionCountLimited meta) SUPPORTED_PROTOCOLS)"

text \<open>
  \<open>SigilSdkDomainError\<close> codes, one constructor per \<open>SIGIL_ERROR__SDK__*\<close> code the modelled
  functions throw, with the values the error's context carries. \<open>JS_TYPE_ERROR\<close> is an error the
  language itself raises, \<open>PLAIN_ERROR\<close> a \<open>new Error(...)\<close> of the SDK, \<open>RANGE_ERROR\<close> a \<open>new RangeError(...)\<close> naming its field, \<open>TX_EXCEEDS_LIMIT\<close> the executor's error 7033, the \<open>RPC_\<close> constructors the
  codes of \<open>SigilRpcError\<close>; \<open>EXTERNAL_ERROR\<close> is whatever a callee outside the SDK (RPC client,
  codec) throws, with what the SDK reads of it: whether it is an \<open>Error\<close>, its \<open>code\<close> and its
  \<open>message\<close>.
\<close>

record js_error =
  je_isError :: bool
  je_code :: "int option"
  je_message :: string

datatype sdk_error =
    SDK_INVALID_NETWORK string
  | SDK_VAULT_NOT_FOUND address
  | SDK_POLICY_NOT_FOUND address
  | SDK_VAULT_INACTIVE address
  | SDK_AGENT_NOT_REGISTERED address address
  | SDK_AGENT_PAUSED address address
  | SDK_AGENT_ZERO_CAPABILITY address address
  | SDK_INVALID_AMOUNT string
  | SDK_INVALID_CONFIG string
  | SDK_INVALID_PARAMS string address
  | SDK_SPL_TOKEN_OP_BLOCKED string
  | SDK_PROTOCOL_NOT_ALLOWED address
  | SDK_PROTOCOL_NOT_TARGETED
  | SDK_INSTRUCTION_COUNT int nat
  | SDK_CAP_EXCEEDED int int
  | SDK_OWNER_AGENT_COLLISION address address
  | SDK_INVALID_CAPABILITY int
  | SDK_VAULT_SLOTS_EXHAUSTED address
  | SDK_ATA_NON_CANONICAL address address
  | SDK_HOOK_ABORTED string
  | SDK_PLUGIN_REJECTED string string
  | SDK_SIGNER_INVALID
  | SDK_SIGNATURE_INVALID
  | SDK_ALT_INTEGRITY address nat
  | RPC_TX_TOO_LARGE rat nat
  | RPC_TX_FAILED string
  | RPC_CONFIRMATION_TIMEOUT string int
  | RPC_SIMULATION_FAILED
  | RPC_DRAIN_DETECTED nat
  | TX_EXCEEDS_LIMIT rat bool
  | RPC_INSTRUCTION_REQUIRED
  | RANGE_ERROR string
  | PLAIN_ERROR string
  | JS_TYPE_ERROR
  | EXTERNAL_ERROR js_error

definition validateNetwork :: "string \<Rightarrow> (sdk_error, unit) result" where
  "validateNetwork network =
     (let normalized = (if network = ''mainnet'' then ''mainnet-beta'' else network)
      in if normalized \<noteq> ''devnet'' \<and> normalized \<noteq> ''mainnet-beta''
         then Inl (SDK_INVALID_NETWORK network) else Inr ())"

definition normalizeNetwork :: "string \<Rightarrow> string" where
  "normalizeNetwork network = (if network = ''mainnet'' then ''mainnet-beta'' else network)"

definition isStablecoinMint :: "address \<Rightarrow> string \<Rightarrow> bool" where
  "isStablecoinMint mint network =
     (if network = ''devnet'' then mint = USDC_MINT_DEVNET \<or> mint = USDT_MINT_DEVNET
      else mint = USDC_MINT_MAINNET \<or> mint = USDT_MINT_MAINNET)"

definition ACTION_TYPE_NAMES_BY_INDEX :: "string list" where
  "ACTION_TYPE_NAMES_BY_INDEX =
    [''swap'', ''openPosition'', ''closePosition'', ''increasePosition'', ''decreasePosition'',
     ''deposit'', ''withdraw'', ''transfer'', ''addCollateral'', ''removeCollateral'',
     ''placeTriggerOrder'', ''editTriggerOrder'', ''cancelTriggerOrder'', ''placeLimitOrder'',
     ''editLimitOrder'', ''cancelLimitOrder'', ''swapAndOpenPosition'', ''closeAndSwapPosition'',
     ''createEscrow'', ''settleEscrow'', ''refundEscrow'']"

text \<open>The argument is a number or an Anchor-style object, given by its keys in order.\<close>

fun parseActionType :: "int + string list \<Rightarrow> string option" where
  "parseActionType (Inl n) =
     (if 0 \<le> n \<and> n < int (length ACTION_TYPE_NAMES_BY_INDEX)
      then Some (ACTION_TYPE_NAMES_BY_INDEX ! nat n) else None)"
| "parseActionType (Inr ks) = (case ks of [] \<Rightarrow> None | k # _ \<Rightarrow> Some k)"

definition isSpendingAction :: "string \<Rightarrow> bool" where
  "isSpendingAction actionType \<longleftrightarrow>
     actionType \<in> set [''swap'', ''openPosition'', ''increasePosition'', ''deposit'', ''transfer'',
       ''addCollateral'', ''placeLimitOrder'', ''swapAndOpenPosition'', ''createEscrow'']"

section \<open>core/registry.ts\<close>

definition KNOWN_PROTOCOLS :: "(address \<times> string) list" where
  "KNOWN_PROTOCOLS =
    [(''JUP6LkbZbjS1jKKwapdHNy74zcZ3tLUZoi5QNyVTaV4'', ''Jupiter V6''),
     (''JUP4Fb2cqiRUcaTHdrPC8h2gNsA2ETXiPDD33WcPX7a'', ''Jupiter V4''),
     (''JUP2jxvXaqu7NQY1GmNF4m1vodw12LVXYxbFL2uN4e7'', ''Jupiter V2''),
     (''JLend2fEim9xUFcaHsyGePEoBzFLvkjMi3MnPcSuCdu'', ''Jupiter Lend''),
     (''j1to2GQCsfSHNPfVKMcrUNyRBK8DPYECpEVPLkz1MKv'', ''Jupiter Trigger''),
     (''DCA265Vj8a9CEuX1eb1LWRnDT7uK6q1xMipnNyatn23M'', ''Jupiter Recurring''),
     (''whirLbMiicVdio4qvUfM5KAg6Ct8VwpYzGff3uctyCc'', ''Orca Whirlpool''),
     (''9W959DqEETiGZocYWCQPaJ6sBmUzgfxXfqGeTEdp3aQP'', ''Orca Whirlpool V2''),
     (''675kPX9MHTjS2zt1qfr1NYHuzeLXfQM9H24wFSUt1Mp8'', ''Raydium AMM V4''),
     (''CAMMCzo5YL8w4VFF8KVHrK22GGUsp5VTaW7grrKgrWqK'', ''Raydium CLMM''),
     (''CPMMoo8L3F4NbTegBCKVNunggL7H1ZpdTHKxQB5qKP1C'', ''Raydium CPMM''),
     (''LBUZKhRxPF3XUpBCjp4YzTKgLccjZhTSDM9YuVaPwxo'', ''Meteora DLMM''),
     (''Eo7WjKq67rjJQSZxS6z3YkapzY3eMj6Xy8X5EQVn5UaB'', ''Meteora Pools''),
     (''SSwpkEEcbUqx4vtoEByFjSkhKdCT862DNVb52nZg1UZ'', ''Saber Stable Swap''),
     (''DecZY86MU5Gj7kppfUCEmd4LbXXuyZH1yHaP2NTqdiZB'', ''Openbook V2''),
     (''FLASH6Lo6h3iasJKWDs2F8TkW2UKf3s15C8PMGuVfgBn'', ''Flash Trade''),
     (''FSWAPViR8ny5K96hezav8jynVubP2dJ2L7SbKzds2hwm'', ''Flash Composability''),
     (''dRiftyHA39MWEi3m9aunc5MzRF1JYuBsbn6VPcn33UH'', ''Drift Protocol''),
     (''MNGOHoFrnGrovWiCc9kHZB8xEBKM1XPYnZCpWFbRCev'', ''Mango Markets V4''),
     (''KLend2g3cP87ber8CzRaqeECGwNvLFM9acPVcRkRHvM'', ''Kamino Lending''),
     (''MFv2hWf31Z9kbCa1snEPYctwafyhdvnV7FZnsebVacA'', ''Marginfi V2''),
     (''So1endDq2YkqhipRh3WViPa8hFMqDSRbsHTE15WSnBt'', ''Solend''),
     (''MarBmsSgKXdrN1egZf5sqe1TMai9K1rChYNDJgjq7aD'', ''Marinade Finance''),
     (''SPoo1Ku8WFXoNDMHPsrGSTSG1Y47rzgn41SLUNakuHy'', ''Stake Pool Program''),
     (''J1toso1uCk3RLmjorhTtrVwY9HJ7X8V9yYac6Y7kGCPn'', ''Jito Staking''),
     (''11111111111111111111111111111111'', ''System Program''),
     (''TokenkegQfeZyiNwAJbNbGKPFXCWuBvf9Ss623VQ5DA'', ''Token Program''),
     (''ATokenGPvbdGVxr1b2hvZbsiqW5xWH25efTNsLJA8knL'', ''Associated Token''),
     (''TokenzQdBNbLqP5VEhdkAS6EPFLC1PHnBqCXEpPxuEb'', ''Token 2022''),
     (''ComputeBudget111111111111111111111111111111'', ''Compute Budget''),
     (''SysvarRent111111111111111111111111111111111'', ''Sysvar Rent''),
     (''SysvarC1ock11111111111111111111111111111111'', ''Sysvar Clock'')]"

definition SYSTEM_PROGRAMS :: "address list" where
  "SYSTEM_PROGRAMS =
    [''11111111111111111111111111111111'',
     ''TokenkegQfeZyiNwAJbNbGKPFXCWuBvf9Ss623VQ5DA'',
     ''ATokenGPvbdGVxr1b2hvZbsiqW5xWH25efTNsLJA8knL'',
     ''TokenzQdBNbLqP5VEhdkAS6EPFLC1PHnBqCXEpPxuEb'',
     ''ComputeBudget111111111111111111111111111111'',
     ''SysvarRent111111111111111111111111111111111'',
     ''SysvarC1ock11111111111111111111111111111111'']"

record TokenMeta =
  tm_symbol :: string
  tm_decimals :: nat

definition KNOWN_TOKENS :: "(address \<times> TokenMeta) list" where
  "KNOWN_TOKENS =
    [(''EPjFWdd5AufqSSqeM2qN1xzybapC8G4wEGGkZwyTDt1v'', \<lparr>tm_symbol = ''USDC'', tm_decimals = 6\<rparr>),
     (''Es9vMFrzaCERmJfrF4H2FYD4KCoNkY11McCe8BenwNYB'', \<lparr>tm_symbol = ''USDT'', tm_decimals = 6\<rparr>),
     (''USDSwr9ApdHk5bvJKMjzff41FfuX8bSxdKcR81vTwcA'', \<lparr>tm_symbol = ''USDS'', tm_decimals = 6\<rparr>),
     (''So11111111111111111111111111111111111111112'', \<lparr>tm_symbol = ''SOL'', tm_decimals = 9\<rparr>),
     (''3NZ9JMVBmGAqocybic2c7LQCJScmgsAZ6vQqTDzcqmJh'', \<lparr>tm_symbol = ''wBTC'', tm_decimals = 8\<rparr>),
     (''cbbtcf3aa214zXHbiAZQwf4122FBYbraNdFqgw4iMij'', \<lparr>tm_symbol = ''cbBTC'', tm_decimals = 8\<rparr>),
     (''7vfCXTUXx5WJV5JADk17DUJ4ksgau7utNKj4b963voxs'', \<lparr>tm_symbol = ''wETH'', tm_decimals = 8\<rparr>),
     (''mSoLzYCxHdYgdzU16g5QSh3i5K3z3KZK7ytfqcJm7So'', \<lparr>tm_symbol = ''mSOL'', tm_decimals = 9\<rparr>),
     (''J1toso1uCk3RLmjorhTtrVwY9HJ7X8V9yYac6Y7kGCPn'', \<lparr>tm_symbol = ''jitoSOL'', tm_decimals = 9\<rparr>),
     (''bSo13r4TkiE4KumL71LsHTPpL2euBYLFx6h9HP3piy1'', \<lparr>tm_symbol = ''bSOL'', tm_decimals = 9\<rparr>)]"

definition getTokenInfo :: "address \<Rightarrow> TokenMeta option" where
  "getTokenInfo mint = map_of KNOWN_TOKENS mint"

definition getProtocolName :: "address \<Rightarrow> string option" where
  "getProtocolName programId = map_of KNOWN_PROTOCOLS programId"

definition isSystemProgram :: "address \<Rightarrow> bool" where
  "isSystemProgram programId \<longleftrightarrow> programId \<in> set SYSTEM_PROGRAMS"

definition isKnownProtocol :: "address \<Rightarrow> bool" where
  "isKnownProtocol programId \<longleftrightarrow> programId \<in> set (map fst KNOWN_PROTOCOLS)"

section \<open>Facts\<close>

lemmas epoch_consts = EPOCH_DURATION_def NUM_EPOCHS_def OVERLAY_EPOCH_DURATION_def
  OVERLAY_NUM_EPOCHS_def ROLLING_WINDOW_SECONDS_def

lemma validateNetwork_ok_iff:
  "validateNetwork n = Inr () \<longleftrightarrow> n \<in> {''devnet'', ''mainnet'', ''mainnet-beta''}"
  by (auto simp: validateNetwork_def Let_def)

lemma normalizeNetwork_idem: "normalizeNetwork (normalizeNetwork n) = normalizeNetwork n"
  by (simp add: normalizeNetwork_def)

lemma normalizeNetwork_valid:
  "validateNetwork (normalizeNetwork n) = Inr () \<longleftrightarrow> normalizeNetwork n \<in> {''devnet'', ''mainnet-beta''}"
  by (auto simp: validateNetwork_ok_iff normalizeNetwork_def)

text \<open>Each system program is itself a registered protocol, so the two registries agree.\<close>

lemma system_program_known: "isSystemProgram p \<Longrightarrow> isKnownProtocol p"
  unfolding isSystemProgram_def isKnownProtocol_def SYSTEM_PROGRAMS_def KNOWN_PROTOCOLS_def
  by (auto simp only: list.set list.map fst_conv insert_iff)

end
