(* ===== verification/Accounts.thy ===== *)
theory Accounts
  imports SdkTypes
begin

text \<open>
  The accounts the SDK reads and how it addresses them: the decoded on-chain records, the program
  derived addresses of \<open>sdk/kit/src/resolve-accounts.ts\<close>, token resolution and ATA derivation of
  \<open>sdk/kit/src/tokens.ts\<close> and the protocol policy of \<open>sdk/kit/src/protocol-resolver.ts\<close> and
  \<open>sdk/kit/src/protocol-tier.ts\<close>.

  \<open>getProgramDerivedAddress\<close> and the base58 codec belong to the Solana kit: they are the
  parameters \<open>pda\<close> (program and seeds to address and bump) and \<open>enc\<close> (address to its bytes).
\<close>

section \<open>Decoded accounts\<close>

datatype VaultStatus = Active | Frozen | Closed

record AgentEntry =
  ae_pubkey :: address
  ae_capability :: nat
  ae_spendingLimitUsd :: int
  ae_paused :: bool

text \<open>The fields of the generated account types that the modelled code reads.\<close>

record AgentVault =
  av_owner :: address
  av_vaultId :: int
  av_agents :: "AgentEntry list"
  av_feeDestination :: address
  av_status :: VaultStatus

record PolicyConfig =
  pc_dailySpendingCapUsd :: int
  pc_maxTransactionSizeUsd :: int
  pc_protocolMode :: nat
  pc_protocols :: "address list"
  pc_hasConstraints :: bool
  pc_hasProtocolCaps :: bool
  pc_protocolCaps :: "int list"
  pc_policyVersion :: int
  pc_hasPostAssertions :: nat
  pc_developerFeeRate :: nat

section \<open>resolve-accounts.ts\<close>

text \<open>The result type is left open: the SDK's is an address with its bump seed.\<close>

type_synonym 'r derivation = "address \<Rightarrow> bytes list \<Rightarrow> 'r"

definition SIGIL_PROGRAM_ADDRESS :: address where
  "SIGIL_PROGRAM_ADDRESS = ''4ZeVCqnjUgUtFrHHPG7jELUxvJeoVGHhGNgPrhBPwrHL''"

definition VALIDATE_AND_AUTHORIZE_DISCRIMINATOR :: bytes where
  "VALIDATE_AND_AUTHORIZE_DISCRIMINATOR = [22, 183, 48, 222, 218, 11, 197, 152]"

definition FINALIZE_SESSION_DISCRIMINATOR :: bytes where
  "FINALIZE_SESSION_DISCRIMINATOR = [34, 148, 144, 47, 37, 130, 206, 161]"

text \<open>\<open>TextEncoder.encode\<close> on ASCII; \<open>setBigUint64\<close> and \<open>Uint8Array\<close> reduce modulo their width.\<close>

definition seedString :: "string \<Rightarrow> bytes" where
  "seedString s = map of_char s"

definition seedU64Le :: "int \<Rightarrow> bytes" where
  "seedU64Le v = le_bytes 8 (v mod 2 ^ 64)"

definition seedU8 :: "nat \<Rightarrow> bytes" where
  "seedU8 v = [v mod 256]"

definition getVaultPDA :: "'r derivation \<Rightarrow> (address \<Rightarrow> bytes) \<Rightarrow> address \<Rightarrow> int \<Rightarrow> address \<Rightarrow> 'r" where
  "getVaultPDA pda enc owner vaultId prog = pda prog [seedString ''vault'', enc owner, seedU64Le vaultId]"

definition getPolicyPDA :: "'r derivation \<Rightarrow> (address \<Rightarrow> bytes) \<Rightarrow> address \<Rightarrow> address \<Rightarrow> 'r" where
  "getPolicyPDA pda enc vault prog = pda prog [seedString ''policy'', enc vault]"

definition getTrackerPDA :: "'r derivation \<Rightarrow> (address \<Rightarrow> bytes) \<Rightarrow> address \<Rightarrow> address \<Rightarrow> 'r" where
  "getTrackerPDA pda enc vault prog = pda prog [seedString ''tracker'', enc vault]"

definition getSessionPDA ::
  "'r derivation \<Rightarrow> (address \<Rightarrow> bytes) \<Rightarrow> address \<Rightarrow> address \<Rightarrow> address \<Rightarrow> address \<Rightarrow> 'r" where
  "getSessionPDA pda enc vault agent tokenMint prog =
     pda prog [seedString ''session'', enc vault, enc agent, enc tokenMint]"

definition getPendingPolicyPDA :: "'r derivation \<Rightarrow> (address \<Rightarrow> bytes) \<Rightarrow> address \<Rightarrow> address \<Rightarrow> 'r" where
  "getPendingPolicyPDA pda enc vault prog = pda prog [seedString ''pending_policy'', enc vault]"

definition getEscrowPDA ::
  "'r derivation \<Rightarrow> (address \<Rightarrow> bytes) \<Rightarrow> address \<Rightarrow> address \<Rightarrow> int \<Rightarrow> address \<Rightarrow> 'r" where
  "getEscrowPDA pda enc sourceVault destinationVault escrowId prog =
     pda prog [seedString ''escrow'', enc sourceVault, enc destinationVault, seedU64Le escrowId]"

definition getAgentOverlayPDA ::
  "'r derivation \<Rightarrow> (address \<Rightarrow> bytes) \<Rightarrow> address \<Rightarrow> nat \<Rightarrow> address \<Rightarrow> 'r" where
  "getAgentOverlayPDA pda enc vault shardIndex prog =
     pda prog [seedString ''agent_spend'', enc vault, seedU8 shardIndex]"

definition getConstraintsPDA :: "'r derivation \<Rightarrow> (address \<Rightarrow> bytes) \<Rightarrow> address \<Rightarrow> address \<Rightarrow> 'r" where
  "getConstraintsPDA pda enc vault prog = pda prog [seedString ''constraints'', enc vault]"

definition getPendingConstraintsPDA :: "'r derivation \<Rightarrow> (address \<Rightarrow> bytes) \<Rightarrow> address \<Rightarrow> address \<Rightarrow> 'r" where
  "getPendingConstraintsPDA pda enc vault prog = pda prog [seedString ''pending_constraints'', enc vault]"

definition getPendingCloseConstraintsPDA :: "'r derivation \<Rightarrow> (address \<Rightarrow> bytes) \<Rightarrow> address \<Rightarrow> address \<Rightarrow> 'r" where
  "getPendingCloseConstraintsPDA pda enc vault prog =
     pda prog [seedString ''pending_close_constraints'', enc vault]"

record ResolveAccountsInput =
  rai_vault :: address
  rai_agent :: address
  rai_tokenMint :: address
  rai_hasConstraints :: bool

record ResolvedAccounts =
  ra_vault :: address
  ra_policyPda :: address
  ra_trackerPda :: address
  ra_sessionPda :: address
  ra_constraintsPda :: "address option"
  ra_agentOverlayPda :: "address option"

definition resolveAccounts ::
  "(address \<times> nat) derivation \<Rightarrow> (address \<Rightarrow> bytes) \<Rightarrow> ResolveAccountsInput \<Rightarrow> address \<Rightarrow> ResolvedAccounts" where
  "resolveAccounts pda enc input prog =
     \<lparr>ra_vault = rai_vault input,
      ra_policyPda = fst (getPolicyPDA pda enc (rai_vault input) prog),
      ra_trackerPda = fst (getTrackerPDA pda enc (rai_vault input) prog),
      ra_sessionPda = fst (getSessionPDA pda enc (rai_vault input) (rai_agent input) (rai_tokenMint input) prog),
      ra_constraintsPda =
        (if rai_hasConstraints input then Some (fst (getConstraintsPDA pda enc (rai_vault input) prog))
         else None),
      ra_agentOverlayPda = None\<rparr>"

section \<open>tokens.ts\<close>

record ResolvedToken =
  rt_mint :: address
  rt_decimals :: nat
  rt_symbol :: string

text \<open>\<open>WELL_KNOWN_TOKENS\<close>: per symbol, the devnet mint, the mainnet mint and the decimals.\<close>

definition WELL_KNOWN_TOKENS :: "(string \<times> address \<times> address \<times> nat) list" where
  "WELL_KNOWN_TOKENS =
    [(''USDC'', USDC_MINT_DEVNET, USDC_MINT_MAINNET, 6),
     (''USDT'', USDT_MINT_DEVNET, USDT_MINT_MAINNET, 6),
     (''SOL'', ''So11111111111111111111111111111111111111112'', ''So11111111111111111111111111111111111111112'', 9),
     (''WSOL'', ''So11111111111111111111111111111111111111112'', ''So11111111111111111111111111111111111111112'', 9),
     (''JUP'', ''JUPyiwrYJFskUPiHa7hkeR8VUtAeFoSYbKedZNsDvCN'', ''JUPyiwrYJFskUPiHa7hkeR8VUtAeFoSYbKedZNsDvCN'', 6),
     (''BONK'', ''DezXAZ8z7PnrnRJjz3wXBoRgixCa6xjnB7YaB1pPB263'', ''DezXAZ8z7PnrnRJjz3wXBoRgixCa6xjnB7YaB1pPB263'', 5),
     (''PYTH'', ''HZ1JovNiVvGrGNiiYvEozEVgZ58xaU3RKwX8eACQBCt3'', ''HZ1JovNiVvGrGNiiYvEozEVgZ58xaU3RKwX8eACQBCt3'', 6),
     (''WIF'', ''EKpQGSJtjMFqKZ9KQanSqYXRcF8fBopzLHYxdM65zcjm'', ''EKpQGSJtjMFqKZ9KQanSqYXRcF8fBopzLHYxdM65zcjm'', 6),
     (''JITO'', ''J1toso1uCk3RLmjorhTtrVwY9HJ7X8V9yYac6Y7kGCPn'', ''J1toso1uCk3RLmjorhTtrVwY9HJ7X8V9yYac6Y7kGCPn'', 9),
     (''RAY'', ''4k3Dyjzvzp8eMZWUXbBCjEvwSkkk59S5iCNLY3QrkX6R'', ''4k3Dyjzvzp8eMZWUXbBCjEvwSkkk59S5iCNLY3QrkX6R'', 6)]"

definition base58_alphabet :: string where
  "base58_alphabet = ''123456789ABCDEFGHJKLMNPQRSTUVWXYZabcdefghijkmnopqrstuvwxyz''"

definition isBase58Address :: "string \<Rightarrow> bool" where
  "isBase58Address v \<longleftrightarrow>
     \<not> (length v < 32 \<or> length v > 44) \<and> list_all (\<lambda>c. c \<in> set base58_alphabet) v"

definition ascii_upper_char :: "char \<Rightarrow> char" where
  "ascii_upper_char c =
     (if 97 \<le> (of_char c :: nat) \<and> (of_char c :: nat) \<le> 122 then char_of (of_char c - (32 :: nat)) else c)"

text \<open>
  \<open>resolveToken\<close> for a network of the \<open>Network\<close> type, \<open>devnet\<close> or \<open>mainnet-beta\<close>, and an ASCII
  symbol that is not a property of \<open>Object.prototype\<close>.
\<close>

definition resolveToken :: "string \<Rightarrow> string \<Rightarrow> ResolvedToken option" where
  "resolveToken tokenOrMint network =
     (let upper = map ascii_upper_char tokenOrMint
      in case map_of WELL_KNOWN_TOKENS upper of
           Some (dev, mainnet, decimals) \<Rightarrow>
             Some \<lparr>rt_mint = (if network = ''devnet'' then dev else mainnet),
                   rt_decimals = decimals, rt_symbol = upper\<rparr>
         | None \<Rightarrow>
             if isBase58Address tokenOrMint
             then Some \<lparr>rt_mint = tokenOrMint, rt_decimals = 6, rt_symbol = take 4 tokenOrMint @ ''...''\<rparr>
             else None)"

definition deriveAta :: "(address \<times> nat) derivation \<Rightarrow> (address \<Rightarrow> bytes) \<Rightarrow> address \<Rightarrow> address \<Rightarrow> address" where
  "deriveAta pda enc owner mint =
     fst (pda ATA_PROGRAM_ADDRESS [enc owner, enc TOKEN_PROGRAM_ADDRESS, enc mint])"

section \<open>protocol-resolver.ts and protocol-tier.ts\<close>

datatype ProtocolTier = KNOWN | DEFAULT | NOT_ALLOWED

datatype Escalation =
  not_in_allowlist | no_handler_no_constraints | no_handler_has_constraints | not_in_allowlist_and_no_handler

record ProtocolResolution =
  pr_tier :: ProtocolTier
  pr_protocolId :: address
  pr_programId :: address
  pr_displayName :: string
  pr_constraintsConfigured :: "bool option"
  pr_escalation :: "Escalation option"

text \<open>The policy is given by its two fields, \<open>protocolMode\<close> and \<open>protocols\<close>.\<close>

definition isProtocolAllowed :: "address \<Rightarrow> nat \<Rightarrow> address list \<Rightarrow> bool" where
  "isProtocolAllowed programId protocolMode protocols =
     (if protocolMode = 0 then True
      else
        let isInList = list_ex (\<lambda>p. p = programId) protocols
        in if protocolMode = 1 then isInList else \<not> isInList)"

definition resolveProtocol :: "address \<Rightarrow> nat \<Rightarrow> address list \<Rightarrow> bool \<Rightarrow> ProtocolResolution" where
  "resolveProtocol programId protocolMode protocols constraintsConfigured =
     (let allowed = isProtocolAllowed programId protocolMode protocols
      in case map_of KNOWN_PROTOCOLS programId of
           Some knownName \<Rightarrow>
             if \<not> allowed
             then \<lparr>pr_tier = NOT_ALLOWED, pr_protocolId = programId, pr_programId = programId,
                   pr_displayName = knownName, pr_constraintsConfigured = None,
                   pr_escalation = Some not_in_allowlist\<rparr>
             else \<lparr>pr_tier = KNOWN, pr_protocolId = programId, pr_programId = programId,
                   pr_displayName = knownName, pr_constraintsConfigured = None, pr_escalation = None\<rparr>
         | None \<Rightarrow>
             if allowed \<and> constraintsConfigured
             then \<lparr>pr_tier = DEFAULT, pr_protocolId = programId, pr_programId = programId,
                   pr_displayName = programId, pr_constraintsConfigured = Some True, pr_escalation = None\<rparr>
             else if allowed \<and> \<not> constraintsConfigured
             then \<lparr>pr_tier = NOT_ALLOWED, pr_protocolId = programId, pr_programId = programId,
                   pr_displayName = programId, pr_constraintsConfigured = None,
                   pr_escalation = Some no_handler_no_constraints\<rparr>
             else \<lparr>pr_tier = NOT_ALLOWED, pr_protocolId = programId, pr_programId = programId,
                   pr_displayName = programId, pr_constraintsConfigured = None,
                   pr_escalation = Some not_in_allowlist_and_no_handler\<rparr>)"

datatype ProtocolTrustTier = verified | unverified | non_constrainable

text \<open>
  \<open>registered\<close> is the annotation registry lookup, \<open>check\<close> the caller's probe, which may reject.
\<close>

definition resolveProtocolTier ::
  "(string \<Rightarrow> bool) \<Rightarrow> string \<Rightarrow> (string \<Rightarrow> ('e, bool) result) \<Rightarrow> ('e, ProtocolTrustTier) result" where
  "resolveProtocolTier registered programId check =
     (if registered programId then Inr verified
      else rbind (check programId) (\<lambda>constrainable. Inr (if constrainable then unverified else non_constrainable)))"

section \<open>Facts\<close>

text \<open>
  What a program derived address is a hash of: the concatenated seeds. The ten kinds of address
  the SDK derives, with their arguments.
\<close>

datatype pda_request =
    VaultReq address int | PolicyReq address | TrackerReq address
  | SessionReq address address address | PendingPolicyReq address
  | EscrowReq address address int | AgentOverlayReq address nat | ConstraintsReq address
  | PendingConstraintsReq address | PendingCloseConstraintsReq address

fun pda_for :: "'r derivation \<Rightarrow> (address \<Rightarrow> bytes) \<Rightarrow> address \<Rightarrow> pda_request \<Rightarrow> 'r" where
  "pda_for pda enc prog (VaultReq w v) = getVaultPDA pda enc w v prog"
| "pda_for pda enc prog (PolicyReq v) = getPolicyPDA pda enc v prog"
| "pda_for pda enc prog (TrackerReq v) = getTrackerPDA pda enc v prog"
| "pda_for pda enc prog (SessionReq v a t) = getSessionPDA pda enc v a t prog"
| "pda_for pda enc prog (PendingPolicyReq v) = getPendingPolicyPDA pda enc v prog"
| "pda_for pda enc prog (EscrowReq s d e) = getEscrowPDA pda enc s d e prog"
| "pda_for pda enc prog (AgentOverlayReq v s) = getAgentOverlayPDA pda enc v s prog"
| "pda_for pda enc prog (ConstraintsReq v) = getConstraintsPDA pda enc v prog"
| "pda_for pda enc prog (PendingConstraintsReq v) = getPendingConstraintsPDA pda enc v prog"
| "pda_for pda enc prog (PendingCloseConstraintsReq v) = getPendingCloseConstraintsPDA pda enc v prog"

fun req_addresses :: "pda_request \<Rightarrow> address set" where
  "req_addresses (VaultReq w v) = {w}"
| "req_addresses (PolicyReq v) = {v}"
| "req_addresses (TrackerReq v) = {v}"
| "req_addresses (SessionReq v a t) = {v, a, t}"
| "req_addresses (PendingPolicyReq v) = {v}"
| "req_addresses (EscrowReq s d e) = {s, d}"
| "req_addresses (AgentOverlayReq v s) = {v}"
| "req_addresses (ConstraintsReq v) = {v}"
| "req_addresses (PendingConstraintsReq v) = {v}"
| "req_addresses (PendingCloseConstraintsReq v) = {v}"

text \<open>The numeric arguments are in the range of their seed's width.\<close>

fun req_in_range :: "pda_request \<Rightarrow> bool" where
  "req_in_range (VaultReq w v) = is_u64 v"
| "req_in_range (EscrowReq s d e) = is_u64 e"
| "req_in_range (AgentOverlayReq v s) = (s < 256)"
| "req_in_range _ = True"

lemma length_seeds [simp]: "length (seedString s) = length s" "length (seedU64Le v) = 8" "length (seedU8 n) = 1"
  by (simp_all add: seedString_def seedU64Le_def seedU8_def)

lemma seedU64Le_inj: "is_u64 v \<Longrightarrow> is_u64 w \<Longrightarrow> seedU64Le v = seedU64Le w \<Longrightarrow> v = w"
proof -
  assume v: "is_u64 v" and w: "is_u64 w" and eq: "seedU64Le v = seedU64Le w"
  have val: "le_value (seedU64Le x) = x" if "is_u64 x" for x
  proof -
    have b: "0 \<le> x" "x < 18446744073709551616" using that by (simp_all add: is_u64_def U64_MAX_def)
    then have "x mod 2 ^ 64 = x" by (intro mod_pos_pos_trivial) simp_all
    moreover have "le_value (le_bytes 8 x) = x" using b by (intro le_value_le_bytes) simp_all
    ultimately show ?thesis unfolding seedU64Le_def by (rule subst [OF sym])
  qed
  show "v = w" using val [OF v] val [OF w] unfolding eq by (rule trans [OF sym])
qed

lemmas pda_defs = getVaultPDA_def getPolicyPDA_def getTrackerPDA_def getSessionPDA_def
  getPendingPolicyPDA_def getEscrowPDA_def getAgentOverlayPDA_def getConstraintsPDA_def
  getPendingConstraintsPDA_def getPendingCloseConstraintsPDA_def

text \<open>The byte string that is hashed for a request.\<close>

abbreviation seed_preimage :: "(address \<Rightarrow> bytes) \<Rightarrow> pda_request \<Rightarrow> bytes" where
  "seed_preimage enc r \<equiv> pda_for (\<lambda>prog seeds. concat seeds) enc [] r"

text \<open>Each kind hashes a different number of bytes, which is what separates the kinds.\<close>

fun req_length :: "pda_request \<Rightarrow> nat" where
  "req_length (VaultReq w v) = 45"
| "req_length (PolicyReq v) = 38"
| "req_length (TrackerReq v) = 39"
| "req_length (SessionReq v a t) = 103"
| "req_length (PendingPolicyReq v) = 46"
| "req_length (EscrowReq s d e) = 78"
| "req_length (AgentOverlayReq v s) = 44"
| "req_length (ConstraintsReq v) = 43"
| "req_length (PendingConstraintsReq v) = 51"
| "req_length (PendingCloseConstraintsReq v) = 57"

lemma seed_preimage_prog: "pda_for (\<lambda>prog seeds. concat seeds) enc prog r = seed_preimage enc r"
  by (cases r) (simp_all add: pda_defs)

lemma length_seed_preimage:
  "\<forall>a \<in> req_addresses r. length (enc a) = 32 \<Longrightarrow> length (seed_preimage enc r) = req_length r"
  by (cases r) (simp_all add: pda_defs)

lemma same_kind_inj:
  assumes "inj_on enc A" "\<forall>a \<in> A. length (enc a) = 32"
    and "req_addresses r \<subseteq> A" "req_addresses r' \<subseteq> A" "req_in_range r" "req_in_range r'"
    and "seed_preimage enc r = seed_preimage enc r'" "req_length r = req_length r'"
  shows "r = r'"
proof -
  have e: "enc a = enc b \<Longrightarrow> a \<in> A \<Longrightarrow> b \<in> A \<Longrightarrow> a = b" for a b
    using assms(1) by (simp add: inj_on_eq_iff)
  have app: "enc a @ xs = enc b @ ys \<longleftrightarrow> enc a = enc b \<and> xs = ys" if "a \<in> A" "b \<in> A" for a b xs ys
    using that assms(2) by (simp add: append_eq_append_conv)
  from assms(3-8) show ?thesis
    by (cases r; cases r'; simp only: req_length.simps numeral_eq_iff num.simps simp_thms; clarsimp simp: pda_defs app)
      (auto dest: e seedU64Le_inj simp: seedU8_def)
qed

section \<open>Properties\<close>

text \<open>
  C20. The ten kinds of program derived address never share a hash preimage: with a 32-byte
  injective address encoding and arguments in the range of their seeds, two requests with the
  same concatenated seed bytes are the same request, although no seed is length-prefixed.
\<close>

theorem pda_seeds_injective:
  assumes "inj_on enc A" "\<forall>a \<in> A. length (enc a) = 32"
    and "req_addresses r \<subseteq> A" "req_addresses r' \<subseteq> A" "req_in_range r" "req_in_range r'"
    and "pda_for (\<lambda>prog seeds. concat seeds) enc prog r = pda_for (\<lambda>prog seeds. concat seeds) enc prog r'"
  shows "r = r'"
proof -
  have eq: "seed_preimage enc r = seed_preimage enc r'"
    using assms(7) by (simp only: seed_preimage_prog [of enc prog])
  moreover have "req_length r = req_length r'"
    using arg_cong [OF eq, of length] length_seed_preimage [of r enc] length_seed_preimage [of r' enc]
      assms(2-4) by (simp add: subset_iff)
  ultimately show ?thesis using assms by (intro same_kind_inj [OF assms(1,2)])
qed

abbreviation sample_enc :: "address \<Rightarrow> bytes" where
  "sample_enc a \<equiv> replicate 32 (if a = ''V'' then 1 else 2)"

theorem pda_seeds_injective_witness:
  "pda_for (\<lambda>prog seeds. concat seeds) sample_enc [] (VaultReq ''V'' 1)
    \<noteq> pda_for (\<lambda>prog seeds. concat seeds) sample_enc [] (VaultReq ''W'' 1)"
proof
  assume "pda_for (\<lambda>prog seeds. concat seeds) sample_enc [] (VaultReq ''V'' 1)
    = pda_for (\<lambda>prog seeds. concat seeds) sample_enc [] (VaultReq ''W'' 1)"
  then have "VaultReq ''V'' 1 = VaultReq ''W'' 1"
    by (intro pda_seeds_injective [of sample_enc "{''V'', ''W''}"])
      (auto simp: inj_on_def is_u64_def U64_MAX_def)
  then show False by simp
qed

text \<open>
  A protocol is let through (tier KNOWN or DEFAULT) exactly when the policy's mode and list
  allow it and it is either a registered protocol or covered by configured constraints; every
  refusal carries an escalation saying which condition failed.
\<close>

theorem resolve_protocol_allowed_iff:
  "(pr_tier (resolveProtocol p mode protocols constrained) \<noteq> NOT_ALLOWED
      \<longleftrightarrow> isProtocolAllowed p mode protocols \<and> (isKnownProtocol p \<or> constrained))
   \<and> (pr_tier (resolveProtocol p mode protocols constrained) = NOT_ALLOWED
      \<longleftrightarrow> pr_escalation (resolveProtocol p mode protocols constrained) \<noteq> None)"
proof (cases "map_of KNOWN_PROTOCOLS p")
  case None
  then have "\<not> isKnownProtocol p" unfolding isKnownProtocol_def by (simp add: map_of_eq_None_iff)
  then show ?thesis using None by (simp add: resolveProtocol_def Let_def)
next
  case (Some name)
  then have "isKnownProtocol p"
    unfolding isKnownProtocol_def set_map by (force dest: map_of_SomeD)
  then show ?thesis using Some by (simp add: resolveProtocol_def Let_def)
qed

end
