(* ===== verification/CorePolicies.thy ===== *)
theory CorePolicies
  imports JsDouble Accounts
begin

text \<open>
  \<open>sdk/kit/src/core/policies.ts\<close> and \<open>sdk/kit/src/policies.ts\<close>: the policy configuration, the
  parser of human-readable spend limits ("500 USDC/day") with its floating-point scaling, and the
  normalisation of user policies with their secure defaults.
\<close>

section \<open>Data\<close>

record SpendLimit =
  sl_mint :: address
  sl_amount :: int
  sl_windowMs :: "int option"

record RateLimitConfig =
  rl_maxTransactions :: int
  rl_windowMs :: "int option"

datatype transfer_direction = outgoing | incoming | unknown_direction

record TokenTransfer =
  tt_mint :: address
  tt_amount :: int
  tt_direction :: transfer_direction
  tt_destination :: "address option"

record TransactionAnalysis =
  ta_programIds :: "address list"
  ta_transfers :: "TokenTransfer list"
  ta_estimatedValueLamports :: int

record PolicyCheckResult =
  pcr_allowed :: bool
  pcr_reason :: "string option"

text \<open>\<open>maxSpend\<close> is one limit or an array, each an object or a string.\<close>

datatype limit_input = LimitObject SpendLimit | LimitString string
datatype max_spend = OneLimit limit_input | ManyLimits "limit_input list"
datatype size_input = SizeBigint int | SizeString string

record ShieldPolicies =
  sp_maxSpend :: "max_spend option"
  sp_maxTransactionSize :: "size_input option"
  sp_allowedProtocols :: "address list option"
  sp_allowedTokens :: "address list option"
  sp_blockUnknownPrograms :: "bool option"
  sp_rateLimit :: "RateLimitConfig option"

text \<open>\<open>Set\<close>s are lists: only membership is read.\<close>

record ResolvedPolicies =
  rp_spendLimits :: "SpendLimit list"
  rp_maxTransactionSize :: "int option"
  rp_allowedProtocols :: "address list option"
  rp_allowedTokens :: "address list option"
  rp_blockUnknownPrograms :: bool
  rp_maxTransactions :: int
  rp_rateWindowMs :: int

text \<open>\<open>ShieldConfigError\<close>, one constructor per throw, and the RangeError of \<open>BigInt(Infinity)\<close>.\<close>

datatype config_error =
    InvalidSpendLimitFormat string
  | UnknownTimeWindow string
  | UnknownTokenSymbol string
  | NotAnInteger

section \<open>Defaults\<close>

definition DAY_MS :: int where "DAY_MS = 86400000"

definition DEFAULT_POLICIES :: ResolvedPolicies where
  "DEFAULT_POLICIES =
     \<lparr>rp_spendLimits =
        [\<lparr>sl_mint = ''EPjFWdd5AufqSSqeM2qN1xzybapC8G4wEGGkZwyTDt1v'', sl_amount = 1000000000, sl_windowMs = Some 86400000\<rparr>,
         \<lparr>sl_mint = ''Es9vMFrzaCERmJfrF4H2FYD4KCoNkY11McCe8BenwNYB'', sl_amount = 1000000000, sl_windowMs = Some 86400000\<rparr>,
         \<lparr>sl_mint = ''So11111111111111111111111111111111111111112'', sl_amount = 10000000000, sl_windowMs = Some 86400000\<rparr>],
      rp_maxTransactionSize = None, rp_allowedProtocols = None, rp_allowedTokens = None,
      rp_blockUnknownPrograms = True, rp_maxTransactions = 60, rp_rateWindowMs = 3600000\<rparr>"

definition WINDOW_ALIASES :: "(string \<times> int) list" where
  "WINDOW_ALIASES = [(''/day'', 86400000), (''/hour'', 3600000), (''/hr'', 3600000),
     (''/min'', 60000), (''/minute'', 60000)]"

section \<open>parseSpendLimit\<close>

text \<open>
  The match of \<open>^(\d+(?:\.\d+)?)\s+(\w+)(\/\w+)?$\<close>: integer digits, fraction digits (empty without a
  fraction), symbol and window (with its slash). The four classes that follow one another are
  disjoint, so the greedy match is the only one.
\<close>

definition match_fraction :: "string \<Rightarrow> (string \<times> string) option" where
  "match_fraction s =
     (if s \<noteq> [] \<and> hd s = CHR ''.''
      then (let fs = takeWhile is_digit (tl s)
            in if fs = [] then None else Some (fs, dropWhile is_digit (tl s)))
      else Some ([], s))"

definition match_tail :: "string \<Rightarrow> (string \<times> string option) option" where
  "match_tail s =
     (let sy = takeWhile is_word_char s; rest = dropWhile is_word_char s
      in if sy = [] then None
         else if rest = [] then Some (sy, None)
         else if hd rest = CHR ''/'' \<and> tl rest \<noteq> [] \<and> list_all is_word_char (tl rest)
         then Some (sy, Some rest)
         else None)"

definition match_spend_limit :: "string \<Rightarrow> (string \<times> string \<times> string \<times> string option) option" where
  "match_spend_limit s =
     (let ds = takeWhile is_digit s
      in if ds = [] then None
         else Option.bind (match_fraction (dropWhile is_digit s)) (\<lambda>(fs, s2).
           if s2 = [] \<or> \<not> is_js_space (hd s2) then None
           else Option.bind (match_tail (dropWhile is_js_space s2)) (\<lambda>(sy, win). Some (ds, fs, sy, win))))"

definition str_upper :: "string \<Rightarrow> string" where
  "str_upper s = map ascii_upper_char s"

definition find_token :: "string \<Rightarrow> (address \<times> TokenMeta) option" where
  "find_token symbol = find (\<lambda>(_, info). str_upper (tm_symbol info) = str_upper symbol) KNOWN_TOKENS"

definition window_of :: "string option \<Rightarrow> (config_error, int) result" where
  "window_of windowStr =
     (case windowStr of
        None \<Rightarrow> Inr 86400000
      | Some w \<Rightarrow> (case map_of WINDOW_ALIASES w of None \<Rightarrow> Inl (UnknownTimeWindow w) | Some ms \<Rightarrow> Inr ms))"

definition parseSpendLimit :: "string \<Rightarrow> (config_error, SpendLimit) result" where
  "parseSpendLimit input =
     (case match_spend_limit (js_trim input) of
        None \<Rightarrow> Inl (InvalidSpendLimitFormat input)
      | Some (ds, fs, symbol, windowStr) \<Rightarrow>
          rbind (window_of windowStr) (\<lambda>windowMs.
          case find_token symbol of
            None \<Rightarrow> Inl (UnknownTokenSymbol symbol)
          | Some (mint, info) \<Rightarrow>
              (case scaled_round (dec_value ds fs) (tm_decimals info) of
                 None \<Rightarrow> Inl NotAnInteger
               | Some amountNative \<Rightarrow>
                   Inr \<lparr>sl_mint = mint, sl_amount = amountNative, sl_windowMs = Some windowMs\<rparr>)))"

section \<open>resolvePolicies\<close>

definition resolve_limit :: "limit_input \<Rightarrow> (config_error, SpendLimit) result" where
  "resolve_limit l = (case l of LimitString s \<Rightarrow> parseSpendLimit s | LimitObject sl \<Rightarrow> Inr sl)"

definition limits_of :: "max_spend \<Rightarrow> limit_input list" where
  "limits_of ms = (case ms of OneLimit l \<Rightarrow> [l] | ManyLimits ls \<Rightarrow> ls)"

text \<open>\<open>Core.resolvePolicies\<close>.\<close>

definition resolve_spend :: "max_spend option \<Rightarrow> (config_error, SpendLimit list) result" where
  "resolve_spend ms = (case ms of None \<Rightarrow> Inr (rp_spendLimits DEFAULT_POLICIES)
     | Some m \<Rightarrow> rmap resolve_limit (limits_of m))"

definition resolve_size :: "size_input option \<Rightarrow> (config_error, int option) result" where
  "resolve_size sz = (case sz of
       None \<Rightarrow> Inr None
     | Some (SizeBigint n) \<Rightarrow> Inr (Some n)
     | Some (SizeString s) \<Rightarrow> rbind (parseSpendLimit s) (\<lambda>l. Inr (Some (sl_amount l))))"

definition core_resolvePolicies :: "ShieldPolicies option \<Rightarrow> (config_error, ResolvedPolicies) result" where
  "core_resolvePolicies input =
     (case input of
        None \<Rightarrow> Inr DEFAULT_POLICIES
      | Some p \<Rightarrow>
          rbind (resolve_spend (sp_maxSpend p)) (\<lambda>limits.
          rbind (resolve_size (sp_maxTransactionSize p)) (\<lambda>size.
          Inr \<lparr>rp_spendLimits = limits, rp_maxTransactionSize = size,
               rp_allowedProtocols = sp_allowedProtocols p, rp_allowedTokens = sp_allowedTokens p,
               rp_blockUnknownPrograms =
                 (case sp_blockUnknownPrograms p of None \<Rightarrow> rp_blockUnknownPrograms DEFAULT_POLICIES | Some b \<Rightarrow> b),
               rp_maxTransactions =
                 (case sp_rateLimit p of None \<Rightarrow> rp_maxTransactions DEFAULT_POLICIES | Some r \<Rightarrow> rl_maxTransactions r),
               rp_rateWindowMs =
                 (case sp_rateLimit p of None \<Rightarrow> rp_rateWindowMs DEFAULT_POLICIES
                  | Some r \<Rightarrow> (case rl_windowMs r of None \<Rightarrow> 3600000 | Some w \<Rightarrow> w))\<rparr>)))"

text \<open>
  The Kit wrapper of \<open>policies.ts\<close>: \<open>convertSpendLimits\<close> keeps strings and homogeneous string
  arrays, and parses the strings of a mixed array itself. \<open>customCheck\<close> is passed through by
  \<open>shield\<close>, where it is an argument of the model.
\<close>

definition is_limit_string :: "limit_input \<Rightarrow> bool" where
  "is_limit_string l = (case l of LimitString _ \<Rightarrow> True | LimitObject _ \<Rightarrow> False)"

definition convertSpendLimits :: "max_spend \<Rightarrow> (config_error, max_spend) result" where
  "convertSpendLimits input =
     (case input of
        OneLimit l \<Rightarrow> Inr (OneLimit l)
      | ManyLimits ls \<Rightarrow>
          if list_all is_limit_string ls then Inr input
          else rbind (rmap resolve_limit ls) (\<lambda>sls. Inr (ManyLimits (map LimitObject sls))))"

definition resolvePolicies :: "ShieldPolicies option \<Rightarrow> (config_error, ResolvedPolicies) result" where
  "resolvePolicies input =
     (case input of
        None \<Rightarrow> core_resolvePolicies None
      | Some p \<Rightarrow>
          rbind (case sp_maxSpend p of None \<Rightarrow> Inr None
                 | Some m \<Rightarrow> rbind (convertSpendLimits m) (\<lambda>m'. Inr (Some m'))) (\<lambda>ms.
          core_resolvePolicies (Some (p\<lparr>sp_maxSpend := ms\<rparr>))))"

definition toCoreAnalysis :: "TransactionAnalysis \<Rightarrow> TransactionAnalysis" where
  "toCoreAnalysis analysis =
     \<lparr>ta_programIds = map (\<lambda>p. p) (ta_programIds analysis),
      ta_transfers = map (\<lambda>t. \<lparr>tt_mint = tt_mint t, tt_amount = tt_amount t,
        tt_direction = tt_direction t, tt_destination = tt_destination t\<rparr>) (ta_transfers analysis),
      ta_estimatedValueLamports = ta_estimatedValueLamports analysis\<rparr>"

text \<open>The mints warned about; the warning text is not modelled.\<close>

definition validateSpendLimitMints :: "ResolvedPolicies \<Rightarrow> string \<Rightarrow> address list" where
  "validateSpendLimitMints resolved network =
     filter (\<lambda>m. \<not> isStablecoinMint m network) (map sl_mint (rp_spendLimits resolved))"

section \<open>Facts\<close>

lemma toCoreAnalysis_id: "toCoreAnalysis a = a"
  by (cases a) (auto simp: toCoreAnalysis_def intro!: map_idI)

text \<open>Converting before resolving changes nothing: strings are parsed by the same function.\<close>

lemma rmap_resolve_objects: "rmap resolve_limit (map LimitObject sls) = Inr sls"
  by (induction sls) (simp_all add: resolve_limit_def)

lemma convert_then_resolve:
  "rbind (convertSpendLimits m) (\<lambda>m'. resolve_spend (Some m')) = resolve_spend (Some m)"
proof (cases m)
  case (ManyLimits ls)
  then show ?thesis
    by (cases "rmap resolve_limit ls")
      (simp_all add: convertSpendLimits_def resolve_spend_def limits_of_def rmap_resolve_objects)
qed (simp add: convertSpendLimits_def)

lemma takeWhile_class:
  assumes "list_all P xs" "ys \<noteq> [] \<Longrightarrow> \<not> P (hd ys)"
  shows "takeWhile P (xs @ ys) = xs" "dropWhile P (xs @ ys) = ys"
  using assms by (cases ys; simp add: takeWhile_append2 dropWhile_append2 list_all_iff)+

lemma char_classes:
  "is_js_space c \<Longrightarrow> \<not> is_word_char c \<and> \<not> is_digit c \<and> c \<noteq> CHR ''.''"
  "is_digit c \<Longrightarrow> is_word_char c"
  "is_word_char c \<Longrightarrow> c \<noteq> CHR ''/''"
  by (auto simp: is_js_space_def is_word_char_def is_digit_def)

lemma match_spend_limit_format:
  assumes "ds \<noteq> []" "list_all is_digit ds" "fs \<noteq> []" "list_all is_digit fs"
    and "sy \<noteq> []" "list_all is_word_char sy" "w \<noteq> []" "list_all is_word_char w"
  shows "match_spend_limit (ds @ ''.'' @ fs @ '' '' @ sy @ ''/'' @ w) = Some (ds, fs, sy, Some (''/'' @ w))"
proof -
  have dot: "\<not> is_digit (CHR ''.'')" and sp: "is_js_space (CHR '' '')" "\<not> is_digit (CHR '' '')"
    by (simp_all add: is_digit_def is_js_space_def)
  have sl: "\<not> is_word_char (CHR ''/'')" by (simp add: is_word_char_def is_digit_def)
  have hs: "\<not> is_js_space (hd sy)" using assms(5,6) char_classes(1) by (cases sy) auto
  have 1: "takeWhile is_digit (ds @ CHR ''.'' # r) = ds" "dropWhile is_digit (ds @ CHR ''.'' # r) = CHR ''.'' # r" for r
    using takeWhile_class [of is_digit ds "CHR ''.'' # r"] assms(2) dot by simp_all
  have 2: "takeWhile is_digit (fs @ CHR '' '' # r) = fs" "dropWhile is_digit (fs @ CHR '' '' # r) = CHR '' '' # r" for r
    using takeWhile_class [of is_digit fs "CHR '' '' # r"] assms(4) sp by simp_all
  have 3: "dropWhile is_js_space (sy @ r) = sy @ r" for r
    using hs assms(5) by (cases sy) simp_all
  have 4: "takeWhile is_word_char (sy @ CHR ''/'' # w) = sy" "dropWhile is_word_char (sy @ CHR ''/'' # w) = CHR ''/'' # w"
    using takeWhile_class [of is_word_char sy "CHR ''/'' # w"] assms(6) sl by simp_all
  show ?thesis
    using assms sp
    by (simp add: match_spend_limit_def match_fraction_def match_tail_def 1 2 3 4 Let_def)
qed

lemma known_token_decimals: "find_token sy = Some (mint, info) \<Longrightarrow> tm_decimals info \<le> 9"
proof -
  assume "find_token sy = Some (mint, info)"
  then have "(mint, info) \<in> set KNOWN_TOKENS" by (metis find_token_def find_Some_iff nth_mem)
  moreover have "list_all (\<lambda>(_, i). tm_decimals i \<le> 9) KNOWN_TOKENS" by (simp add: KNOWN_TOKENS_def)
  ultimately show ?thesis by (auto simp: list_all_iff)
qed

lemma dropWhile_hd: "xs = [] \<or> \<not> P (hd xs) \<Longrightarrow> dropWhile P xs = xs"
  by (cases xs) simp_all

section \<open>Properties\<close>

text \<open>
  Spend limits are parsed exactly: for a decimal amount with at most the token's decimals and
  a native value up to \<open>2^50\<close>, the parsed limit is exactly the decimal value in base units,
  although the code goes through \<open>parseFloat\<close>, a floating-point product and \<open>Math.round\<close>.
\<close>

theorem parse_spend_limit_exact:
  assumes "ds \<noteq> []" "list_all is_digit ds" "fs \<noteq> []" "list_all is_digit fs"
    and "sy \<noteq> []" "list_all is_word_char sy" "find_token sy = Some (mint, info)"
    and "map_of WINDOW_ALIASES (''/'' @ w) = Some ms" "w \<noteq> []" "list_all is_word_char w"
    and "length fs \<le> tm_decimals info"
    and "int (dec_val (ds @ fs)) * 10 ^ (tm_decimals info - length fs) \<le> 2 ^ 50"
  shows "parseSpendLimit (ds @ ''.'' @ fs @ '' '' @ sy @ ''/'' @ w)
    = Inr \<lparr>sl_mint = mint, sl_amount = int (dec_val (ds @ fs)) * 10 ^ (tm_decimals info - length fs),
           sl_windowMs = Some ms\<rparr>"
proof -
  let ?s = "ds @ ''.'' @ fs @ '' '' @ sy @ ''/'' @ w"
  let ?N = "int (dec_val (ds @ fs)) * 10 ^ (tm_decimals info - length fs)"
  have ends: "\<not> is_js_space (hd ?s)" "\<not> is_js_space (hd (rev ?s))"
    using assms(1,2,9,10) char_classes by (cases ds; cases "rev w"; auto simp: list_all_iff)+
  have "dropWhile is_js_space ?s = ?s" using ends(1) by (intro dropWhile_hd disjI2)
  moreover have "dropWhile is_js_space (rev ?s) = rev ?s"
    using ends(2) by (intro dropWhile_hd disjI2)
  ultimately have tr: "js_trim ?s = ?s" unfolding js_trim_def by simp
  have d: "tm_decimals info \<le> 22" using known_token_decimals [OF assms(7)] by simp
  have "10 ^ tm_decimals info = (10 :: rat) ^ length fs * 10 ^ (tm_decimals info - length fs)"
    using assms(11) by (simp add: power_add [symmetric])
  then have "dec_value ds fs * 10 ^ tm_decimals info = of_int ?N"
    by (simp add: dec_value_def)
  then have "scaled_round (dec_value ds fs) (tm_decimals info) = Some ?N"
    using assms(12) d by (intro scaled_round_exact) simp_all
  then show ?thesis
    unfolding parseSpendLimit_def tr match_spend_limit_format [OF assms(1-6,9,10)]
    using assms(7,8) by (simp add: window_of_def)
qed

theorem parse_spend_limit_exact_witness:
  "parseSpendLimit (''0'' @ ''.'' @ ''29'' @ '' '' @ ''usdc'' @ ''/'' @ ''hour'')
    = Inr \<lparr>sl_mint = USDC_MINT_MAINNET, sl_amount = 290000, sl_windowMs = Some 3600000\<rparr>"
proof -
  have t: "find_token ''usdc'' = Some (USDC_MINT_MAINNET, \<lparr>tm_symbol = ''USDC'', tm_decimals = 6\<rparr>)"
    by code_simp
  have "parseSpendLimit (''0'' @ ''.'' @ ''29'' @ '' '' @ ''usdc'' @ ''/'' @ ''hour'')
    = Inr \<lparr>sl_mint = USDC_MINT_MAINNET,
       sl_amount = int (dec_val (''0'' @ ''29'')) * 10 ^ (tm_decimals \<lparr>tm_symbol = ''USDC'', tm_decimals = 6\<rparr> - length ''29''),
       sl_windowMs = Some 3600000\<rparr>"
    by (rule parse_spend_limit_exact [OF _ _ _ _ _ _ t])
      (simp_all add: is_digit_def is_word_char_def WINDOW_ALIASES_def digit_val_def)
  then show ?thesis by (simp add: digit_val_def)
qed

text \<open>
  The wrapper and the core agree: \<open>resolvePolicies\<close> resolves exactly as the core does on the
  unconverted input, errors included; without input every secure default applies.
\<close>

theorem resolve_policies_agree: "resolvePolicies input = core_resolvePolicies input"
proof (cases input)
  case (Some p)
  show ?thesis
  proof (cases "sp_maxSpend p")
    case None
    then have "core_resolvePolicies (Some (p\<lparr>sp_maxSpend := None\<rparr>)) = core_resolvePolicies (Some p)"
      by (simp add: core_resolvePolicies_def)
    then show ?thesis using Some None by (simp add: resolvePolicies_def)
  next
    case (Some m)
    have "rbind (convertSpendLimits m) (\<lambda>m'. core_resolvePolicies (Some (p\<lparr>sp_maxSpend := Some m'\<rparr>)))
        = core_resolvePolicies (Some p)"
      using convert_then_resolve [of m, symmetric] Some
      by (cases "convertSpendLimits m") (simp_all add: core_resolvePolicies_def)
    then show ?thesis using \<open>input = Some p\<close> Some
      by (cases "convertSpendLimits m") (simp_all add: resolvePolicies_def)
  qed
qed (simp add: resolvePolicies_def)

end
