(* ===== verification/SpendLedger.thy ===== *)
theory SpendLedger
  imports CorePolicies
begin

text \<open>
  What the two client-side spend trackers (\<open>core/state.ts\<close> and \<open>shield.ts\<close>) promise to the policy
  engines that use them. The abstract ledger is the full history of recorded spends;
  \<open>ledger_sum\<close> is the spend of a mint since a cutoff. The locale \<open>spend_ledger\<close> states that a
  tracker refines the history: \<open>rel\<close> relates a state to a history at a clock reading, \<open>covers\<close>
  says for which windows and histories nothing relevant has been forgotten. The safety argument of
  both engines, that guarded recording keeps the windowed spend within its limit, is proved once
  inside the locale.
\<close>

record SpendEntry =
  spe_mint :: string
  spe_amount :: int
  spe_timestamp :: msecs

definition spend_entry :: "string \<Rightarrow> int \<Rightarrow> msecs \<Rightarrow> SpendEntry" where
  "spend_entry m a now = \<lparr>spe_mint = m, spe_amount = a, spe_timestamp = now\<rparr>"

definition ledger_sum :: "string \<Rightarrow> msecs \<Rightarrow> SpendEntry list \<Rightarrow> int" where
  "ledger_sum m cutoff h = sum_where (\<lambda>e. spe_mint e = m \<and> spe_timestamp e \<ge> cutoff) spe_amount h"

text \<open>Spends of one transaction: pairs of mint key and amount, recorded in order.\<close>

definition keyed_sum :: "string \<Rightarrow> (string \<times> int) list \<Rightarrow> int" where
  "keyed_sum m kvs = sum_where (\<lambda>(k, _). k = m) snd kvs"

lemma spend_entry_fields [simp]:
  "spe_mint (spend_entry m a t) = m" "spe_amount (spend_entry m a t) = a" "spe_timestamp (spend_entry m a t) = t"
  by (simp_all add: spend_entry_def)

lemma ledger_sum_append [simp]: "ledger_sum m c (h @ h') = ledger_sum m c h + ledger_sum m c h'"
  by (simp add: ledger_sum_def)

lemma ledger_sum_Nil [simp]: "ledger_sum m c [] = 0"
  by (simp add: ledger_sum_def)

lemma keyed_sum_simps [simp]:
  "keyed_sum m [] = 0" "keyed_sum m ((k, a) # kvs) = (if k = m then a else 0) + keyed_sum m kvs"
  by (simp_all add: keyed_sum_def)

lemma ledger_sum_new:
  "c \<le> now \<Longrightarrow> ledger_sum m c (map (\<lambda>(k, a). spend_entry k a now) kvs) = keyed_sum m kvs"
  by (induction kvs) (auto simp: ledger_sum_def)

lemma ledger_sum_decay:
  assumes "\<And>e. e \<in> set h \<Longrightarrow> 0 \<le> spe_amount e" "c \<le> c'"
  shows "ledger_sum m c' h \<le> ledger_sum m c h"
  unfolding ledger_sum_def using assms by (intro sum_where_mono_pred) auto

text \<open>A cutoff that keeps every entry of the window leaves the windowed sum unchanged.\<close>

lemma ledger_sum_filter:
  "d \<le> c \<Longrightarrow> ledger_sum m c (filter (\<lambda>e. spe_timestamp e \<ge> d) h) = ledger_sum m c h"
  by (induction h) (auto simp: ledger_sum_def)

locale spend_ledger =
  fixes record_spend :: "'st \<Rightarrow> string \<Rightarrow> int \<Rightarrow> msecs \<Rightarrow> 'st"
    and window :: "'st \<Rightarrow> string \<Rightarrow> int \<Rightarrow> msecs \<Rightarrow> int"
    and rel :: "msecs \<Rightarrow> 'st \<Rightarrow> SpendEntry list \<Rightarrow> bool"
    and covers :: "int \<Rightarrow> SpendEntry list \<Rightarrow> bool"
  assumes rel_window: "rel now st h \<Longrightarrow> covers w h \<Longrightarrow> window st m w now = ledger_sum m (now - w) h"
    and rel_record: "rel now st h \<Longrightarrow> rel now (record_spend st m a now) (h @ [spend_entry m a now])"
    and rel_later: "rel now st h \<Longrightarrow> now \<le> now' \<Longrightarrow> rel now' st h"
    and covers_prefix: "covers w (h @ h') \<Longrightarrow> covers w h"
begin

abbreviation record_all :: "'st \<Rightarrow> (string \<times> int) list \<Rightarrow> msecs \<Rightarrow> 'st" where
  "record_all st kvs now \<equiv> fold (\<lambda>(m, a) s. record_spend s m a now) kvs st"

lemma rel_record_all:
  "rel now st h \<Longrightarrow> rel now (record_all st kvs now) (h @ map (\<lambda>(m, a). spend_entry m a now) kvs)"
proof (induction kvs arbitrary: st h)
  case (Cons kv kvs)
  obtain m a where "kv = (m, a)" by (cases kv)
  then show ?case using Cons.IH [OF rel_record [OF Cons.prems, of m a]] by simp
qed simp

lemma window_record_all:
  assumes "rel now st h" "covers w (h @ map (\<lambda>(m, a). spend_entry m a now) kvs)" "0 \<le> w"
  shows "window (record_all st kvs now) m w now = window st m w now + keyed_sum m kvs"
proof -
  have "window (record_all st kvs now) m w now
      = ledger_sum m (now - w) (h @ map (\<lambda>(m, a). spend_entry m a now) kvs)"
    by (rule rel_window [OF rel_record_all [OF assms(1)] assms(2)])
  then show ?thesis
    using assms rel_window [OF assms(1) covers_prefix [OF assms(2)]] by (simp add: ledger_sum_new)
qed

text \<open>Recording what a check against the windowed spend let through keeps the limit.\<close>

lemma guarded_record_bounded:
  assumes "rel now st h" "covers w h" "0 \<le> w"
    and "keyed_sum m kvs \<noteq> 0 \<Longrightarrow> window st m w now + keyed_sum m kvs \<le> limit"
    and "ledger_sum m (now - w) h \<le> limit"
  shows "ledger_sum m (now - w) (h @ map (\<lambda>(m, a). spend_entry m a now) kvs) \<le> limit"
proof (cases "keyed_sum m kvs = 0")
  case True
  then show ?thesis using assms(3,5) by (simp add: ledger_sum_new)
next
  case False
  then show ?thesis using assms rel_window [OF assms(1,2), of m] by (simp add: ledger_sum_new)
qed

lemma bounded_later:
  assumes "ledger_sum m (now - w) h \<le> limit" "now \<le> now'" "\<And>e. e \<in> set h \<Longrightarrow> 0 \<le> spe_amount e"
  shows "ledger_sum m (now' - w) h \<le> limit"
  using ledger_sum_decay [OF assms(3), of h "now - w" "now' - w" m] assms(1,2) by simp

end

end
