(* ===== verification/CoreEngine.thy ===== *)
theory CoreEngine
  imports SpendLedger
begin

text \<open>
  \<open>sdk/kit/src/core/state.ts\<close> and \<open>sdk/kit/src/core/engine.ts\<close>: the persistent spend tracker and
  the policy engine with its five checks.

  Storage is modelled by what it holds after \<open>JSON.parse\<close>: nothing, text that does not parse, or
  the stored list, with amounts as decimal strings the way \<open>persist\<close> writes them. Whether
  \<open>setItem\<close> throws is a property of the storage.
\<close>

section \<open>core/state.ts\<close>

record StoredSpend =
  ss_mint :: string
  ss_amount :: string
  ss_timestamp :: msecs

datatype 'a stored = Absent | Corrupt | Stored "'a list"

record ShieldStorage =
  so_spends :: "StoredSpend stored"
  so_txs :: "msecs stored"
  so_setSpendsOk :: bool
  so_setTxsOk :: bool

record CoreState =
  cs_spends :: "SpendEntry list"
  cs_txs :: "msecs list"
  cs_storage :: "ShieldStorage option"

definition MAX_SPEND_ENTRIES :: nat where "MAX_SPEND_ENTRIES = 5000"
definition MAX_TX_ENTRIES :: nat where "MAX_TX_ENTRIES = 5000"

definition to_stored :: "SpendEntry \<Rightarrow> StoredSpend" where
  "to_stored e = \<lparr>ss_mint = spe_mint e, ss_amount = show_int (spe_amount e), ss_timestamp = spe_timestamp e\<rparr>"

definition persist :: "CoreState \<Rightarrow> CoreState" where
  "persist st =
     (case cs_storage st of
        None \<Rightarrow> st
      | Some so \<Rightarrow>
          if \<not> so_setSpendsOk so then st
          else
            let so1 = so\<lparr>so_spends := Stored (map to_stored (cs_spends st))\<rparr>
            in st\<lparr>cs_storage := Some (if so_setTxsOk so then so1\<lparr>so_txs := Stored (cs_txs st)\<rparr> else so1)\<rparr>)"

definition from_stored :: "StoredSpend \<Rightarrow> SpendEntry option" where
  "from_stored s = map_option (\<lambda>n. spend_entry (ss_mint s) n (ss_timestamp s)) (bigint_of_string (ss_amount s))"

definition load_spends :: "StoredSpend stored \<Rightarrow> SpendEntry list" where
  "load_spends s = (case s of
       Stored es \<Rightarrow> (case those (map from_stored es) of None \<Rightarrow> [] | Some spends \<Rightarrow> spends)
     | _ \<Rightarrow> [])"

definition load_txs :: "msecs stored \<Rightarrow> msecs list" where
  "load_txs s = (case s of Stored ts \<Rightarrow> ts | _ \<Rightarrow> [])"

text \<open>The constructor: \<open>storage ?? detectStorage()\<close>, then \<open>load()\<close>.\<close>

definition newCoreState :: "ShieldStorage option \<Rightarrow> ShieldStorage option \<Rightarrow> CoreState" where
  "newCoreState storage detected =
     (let s = (case storage of None \<Rightarrow> detected | Some so \<Rightarrow> Some so)
      in \<lparr>cs_spends = (case s of None \<Rightarrow> [] | Some so \<Rightarrow> load_spends (so_spends so)),
          cs_txs = (case s of None \<Rightarrow> [] | Some so \<Rightarrow> load_txs (so_txs so)), cs_storage = s\<rparr>)"

definition core_recordSpend :: "CoreState \<Rightarrow> string \<Rightarrow> int \<Rightarrow> msecs \<Rightarrow> CoreState" where
  "core_recordSpend st mint amount now =
     (let spends = cs_spends st @ [spend_entry mint amount now]
      in persist (st\<lparr>cs_spends := if length spends > MAX_SPEND_ENTRIES
                     then slice_last MAX_SPEND_ENTRIES spends else spends\<rparr>))"

definition core_recordTx :: "CoreState \<Rightarrow> msecs \<Rightarrow> CoreState" where
  "core_recordTx st now =
     (let txs = cs_txs st @ [now]
      in persist (st\<lparr>cs_txs := if length txs > MAX_TX_ENTRIES then slice_last MAX_TX_ENTRIES txs else txs\<rparr>))"

fun core_spend_loop :: "string \<Rightarrow> msecs \<Rightarrow> SpendEntry list \<Rightarrow> int \<Rightarrow> int" where
  "core_spend_loop mint cutoff [] acc = acc"
| "core_spend_loop mint cutoff (e # es) acc =
     core_spend_loop mint cutoff es
       (if spe_mint e = mint \<and> spe_timestamp e \<ge> cutoff then acc + spe_amount e else acc)"

definition core_getSpendInWindow :: "CoreState \<Rightarrow> string \<Rightarrow> int \<Rightarrow> msecs \<Rightarrow> int" where
  "core_getSpendInWindow st mint windowMs now = core_spend_loop mint (now - windowMs) (cs_spends st) 0"

definition core_getTransactionCountInWindow :: "CoreState \<Rightarrow> int \<Rightarrow> msecs \<Rightarrow> nat" where
  "core_getTransactionCountInWindow st windowMs now = length (filter (\<lambda>t. t \<ge> now - windowMs) (cs_txs st))"

definition core_pruneExpired :: "CoreState \<Rightarrow> int \<Rightarrow> msecs \<Rightarrow> CoreState" where
  "core_pruneExpired st maxWindowMs now =
     (let cutoff = now - maxWindowMs
      in persist (st\<lparr>cs_spends := filter (\<lambda>e. spe_timestamp e \<ge> cutoff) (cs_spends st),
                     cs_txs := filter (\<lambda>t. t \<ge> cutoff) (cs_txs st)\<rparr>))"

definition core_checkpoint :: "CoreState \<Rightarrow> SpendEntry list \<times> msecs list" where
  "core_checkpoint st = (cs_spends st, cs_txs st)"

definition core_rollback :: "CoreState \<Rightarrow> SpendEntry list \<times> msecs list \<Rightarrow> CoreState" where
  "core_rollback st cp = persist (st\<lparr>cs_spends := fst cp, cs_txs := snd cp\<rparr>)"

definition core_reset :: "CoreState \<Rightarrow> CoreState" where
  "core_reset st = persist (st\<lparr>cs_spends := [], cs_txs := []\<rparr>)"

section \<open>core/engine.ts\<close>

definition DEFAULT_ADDRESS :: address where
  "DEFAULT_ADDRESS = ''11111111111111111111111111111111''"

text \<open>The key a transfer is counted under: transfers without a mint share one.\<close>

definition mint_key :: "address \<Rightarrow> string" where
  "mint_key m = (if m = DEFAULT_ADDRESS \<or> m = [] then ''unknown'' else m)"

text \<open>\<open>s.replace(/0+$/, "")\<close>.\<close>

definition strip_zeros :: "string \<Rightarrow> string" where
  "strip_zeros s = rev (dropWhile (\<lambda>c. c = CHR ''0'') (rev s))"

definition formatAmount :: "int \<Rightarrow> nat \<Rightarrow> string" where
  "formatAmount amount decimals =
     (if decimals = 0 then show_int amount
      else
        let divisor = 10 ^ decimals; whole = bdiv amount divisor; frac = bmod amount divisor
        in if frac = 0 then show_int whole
           else show_int whole @ ''.'' @ strip_zeros (padStart decimals (CHR ''0'') (show_int frac)))"

text \<open>
  \<open>PolicyViolation\<close>: one constructor per rule of the engine, with its \<open>details\<close>; a spending cap
  violation also carries the symbol and the four formatted amounts of its message.
\<close>

datatype core_violation =
    protocol_not_allowed address
  | unknown_program address
  | token_not_allowed address
  | spending_cap int int int address string "string list"
  | transaction_size int int
  | core_rate_limit nat int

definition checkPrograms :: "TransactionAnalysis \<Rightarrow> ResolvedPolicies \<Rightarrow> core_violation list" where
  "checkPrograms analysis policies =
     concat (map (\<lambda>programId.
       if isSystemProgram programId then []
       else case rp_allowedProtocols policies of
              Some allowed \<Rightarrow> if programId \<notin> set allowed then [protocol_not_allowed programId] else []
            | None \<Rightarrow>
                if rp_blockUnknownPrograms policies \<and> \<not> isKnownProtocol programId
                then [unknown_program programId] else []) (ta_programIds analysis))"

definition checkTokens :: "TransactionAnalysis \<Rightarrow> ResolvedPolicies \<Rightarrow> core_violation list" where
  "checkTokens analysis policies =
     (case rp_allowedTokens policies of
        None \<Rightarrow> []
      | Some allowed \<Rightarrow>
          concat (map (\<lambda>t.
            if tt_direction t \<noteq> outgoing then []
            else if tt_mint t = DEFAULT_ADDRESS \<or> tt_mint t = [] then []
            else if tt_mint t \<notin> set allowed then [token_not_allowed (tt_mint t)] else [])
            (ta_transfers analysis)))"

definition limit_window :: "SpendLimit \<Rightarrow> int" where
  "limit_window l = (case sl_windowMs l of None \<Rightarrow> 86400000 | Some w \<Rightarrow> w)"

text \<open>The outgoing transfers of a transaction with the keys they are counted under.\<close>

definition outgoing_spends :: "TransactionAnalysis \<Rightarrow> (string \<times> int) list" where
  "outgoing_spends analysis =
     map (\<lambda>t. (mint_key (tt_mint t), tt_amount t))
       (filter (\<lambda>t. tt_direction t = outgoing) (ta_transfers analysis))"

definition checkSpendingCaps ::
  "TransactionAnalysis \<Rightarrow> ResolvedPolicies \<Rightarrow> CoreState \<Rightarrow> msecs \<Rightarrow> core_violation list" where
  "checkSpendingCaps analysis policies st now =
     concat (map (\<lambda>limit.
       let mintKey = sl_mint limit;
           txSpend = keyed_sum mintKey (outgoing_spends analysis)
       in if txSpend = 0 then []
          else
            let currentSpend = core_getSpendInWindow st mintKey (limit_window limit) now;
                totalAfterTx = currentSpend + txSpend
            in if totalAfterTx > sl_amount limit
               then
                 let tokenInfo = getTokenInfo mintKey;
                     symbol = (case tokenInfo of None \<Rightarrow> ''tokens'' | Some i \<Rightarrow> tm_symbol i);
                     decimals = (case tokenInfo of None \<Rightarrow> 0 | Some i \<Rightarrow> tm_decimals i);
                     remaining = monus (sl_amount limit) currentSpend
                 in [spending_cap (sl_amount limit) txSpend remaining mintKey symbol
                       [formatAmount txSpend decimals, formatAmount (sl_amount limit) decimals,
                        formatAmount currentSpend decimals, formatAmount remaining decimals]]
               else []) (rp_spendLimits policies))"

text \<open>An absent or zero \<open>maxTransactionSize\<close> is falsy: no check.\<close>

definition checkTransactionSize :: "TransactionAnalysis \<Rightarrow> ResolvedPolicies \<Rightarrow> core_violation list" where
  "checkTransactionSize analysis policies =
     (case rp_maxTransactionSize policies of
        None \<Rightarrow> []
      | Some sz \<Rightarrow>
          if sz = 0 then []
          else if ta_estimatedValueLamports analysis > sz
          then [transaction_size sz (ta_estimatedValueLamports analysis)] else [])"

definition checkRateLimit :: "ResolvedPolicies \<Rightarrow> CoreState \<Rightarrow> msecs \<Rightarrow> core_violation list" where
  "checkRateLimit policies st now =
     (let count = core_getTransactionCountInWindow st (rp_rateWindowMs policies) now
      in if int count \<ge> rp_maxTransactions policies
         then [core_rate_limit count (rp_maxTransactions policies)] else [])"

definition evaluatePolicy ::
  "TransactionAnalysis \<Rightarrow> ResolvedPolicies \<Rightarrow> CoreState \<Rightarrow> msecs \<Rightarrow> core_violation list" where
  "evaluatePolicy analysis policies st now =
     checkPrograms analysis policies @ checkTokens analysis policies
     @ checkSpendingCaps analysis policies st now @ checkTransactionSize analysis policies
     @ checkRateLimit policies st now"

definition enforcePolicy ::
  "TransactionAnalysis \<Rightarrow> ResolvedPolicies \<Rightarrow> CoreState \<Rightarrow> msecs \<Rightarrow> (core_violation list, unit) result" where
  "enforcePolicy analysis policies st now =
     (let violations = evaluatePolicy analysis policies st now
      in if length violations > 0 then Inl violations else Inr ())"

definition recordTransaction :: "TransactionAnalysis \<Rightarrow> CoreState \<Rightarrow> msecs \<Rightarrow> CoreState" where
  "recordTransaction analysis st now =
     core_recordTx (fold (\<lambda>(m, a) s. core_recordSpend s m a now) (outgoing_spends analysis) st) now"

section \<open>Facts\<close>

lemma core_spend_loop_sum: "core_spend_loop m c es acc = acc + ledger_sum m c es"
  by (induction es arbitrary: acc) (simp_all add: ledger_sum_def)

lemma persist_fields [simp]: "cs_spends (persist st) = cs_spends st" "cs_txs (persist st) = cs_txs st"
  by (simp_all add: persist_def Let_def split: option.split)

lemma slice_last_snoc: "slice_last n (slice_last n xs @ [x]) = slice_last n (xs @ [x])"
  by (cases "n \<le> length xs") (simp_all add: slice_last_def Suc_diff_le)

lemma slice_last_all: "length xs \<le> n \<Longrightarrow> slice_last n xs = xs"
  by (simp add: slice_last_def)

lemma core_recordSpend_spends:
  "cs_spends (core_recordSpend st m a now) = slice_last MAX_SPEND_ENTRIES (cs_spends st @ [spend_entry m a now])"
  by (simp add: core_recordSpend_def Let_def slice_last_all)

text \<open>The tracker keeps the last 5000 entries of the history, so it is complete up to that length.\<close>

definition core_rel :: "msecs \<Rightarrow> CoreState \<Rightarrow> SpendEntry list \<Rightarrow> bool" where
  "core_rel now st h \<longleftrightarrow> cs_spends st = slice_last MAX_SPEND_ENTRIES h"

definition core_covers :: "int \<Rightarrow> SpendEntry list \<Rightarrow> bool" where
  "core_covers w h \<longleftrightarrow> length h \<le> MAX_SPEND_ENTRIES"

interpretation core_ledger: spend_ledger core_recordSpend core_getSpendInWindow core_rel core_covers
proof unfold_locales
  fix now now' st h w m a and h' :: "SpendEntry list"
  show "core_rel now st h \<Longrightarrow> core_covers w h \<Longrightarrow> core_getSpendInWindow st m w now = ledger_sum m (now - w) h"
    by (simp add: core_rel_def core_covers_def core_getSpendInWindow_def core_spend_loop_sum slice_last_all)
  show "core_rel now st h \<Longrightarrow> core_rel now (core_recordSpend st m a now) (h @ [spend_entry m a now])"
    by (simp add: core_rel_def core_recordSpend_spends slice_last_snoc)
  show "core_rel now st h \<Longrightarrow> now \<le> now' \<Longrightarrow> core_rel now' st h" by (simp add: core_rel_def)
  show "core_covers w (h @ h') \<Longrightarrow> core_covers w h" by (simp add: core_covers_def)
qed

lemma core_recordTx_spends [simp]: "cs_spends (core_recordTx st now) = cs_spends st"
  by (simp add: core_recordTx_def Let_def)

lemma core_rel_recordTransaction:
  "core_rel now st h \<Longrightarrow> core_rel now (recordTransaction a st now)
     (h @ map (\<lambda>(m, a). spend_entry m a now) (outgoing_spends a))"
  using core_ledger.rel_record_all [of now st h "outgoing_spends a"]
  by (simp add: recordTransaction_def core_rel_def)

lemma enforcePolicy_ok: "enforcePolicy a P st now = Inr () \<longleftrightarrow> evaluatePolicy a P st now = []"
  by (simp add: enforcePolicy_def Let_def)

text \<open>What an empty result of the cap check says about each limit.\<close>

lemma caps_checked:
  assumes "evaluatePolicy a P st now = []" "l \<in> set (rp_spendLimits P)"
    and "keyed_sum (sl_mint l) (outgoing_spends a) \<noteq> 0"
  shows "core_getSpendInWindow st (sl_mint l) (limit_window l) now + keyed_sum (sl_mint l) (outgoing_spends a)
    \<le> sl_amount l"
proof (rule ccontr)
  assume over: "\<not> ?thesis"
  have "checkSpendingCaps a P st now = []" using assms(1) by (simp add: evaluatePolicy_def)
  then show False
    using assms(2,3) over unfolding checkSpendingCaps_def concat_eq_Nil_conv
    by (auto simp: Let_def not_le dest!: bspec [where x = l])
qed

text \<open>
  Runs of the engine: transactions are evaluated and, when approved, recorded, while the clock
  advances. The last argument is the history of all approved outgoing spends.
\<close>

inductive core_run :: "ResolvedPolicies \<Rightarrow> CoreState \<Rightarrow> msecs \<Rightarrow> SpendEntry list \<Rightarrow> bool" for P where
  start: "cs_spends st = [] \<Longrightarrow> core_run P st now []"
| wait: "core_run P st now h \<Longrightarrow> now \<le> now' \<Longrightarrow> core_run P st now' h"
| approve: "core_run P st now h \<Longrightarrow> enforcePolicy a P st now = Inr ()
    \<Longrightarrow> \<forall>t \<in> set (ta_transfers a). 0 \<le> tt_amount t
    \<Longrightarrow> core_run P (recordTransaction a st now) now (h @ map (\<lambda>(m, a). spend_entry m a now) (outgoing_spends a))"

lemma core_run_rel:
  "core_run P st now h \<Longrightarrow> core_rel now st h \<and> (\<forall>e \<in> set h. 0 \<le> spe_amount e)"
proof (induction rule: core_run.induct)
  case (start st now)
  then show ?case by (simp add: core_rel_def slice_last_def)
next
  case (wait st now h now')
  then show ?case using core_ledger.rel_later by blast
next
  case (approve st now h a)
  then show ?case using core_rel_recordTransaction by (auto simp: outgoing_spends_def)
qed

lemma those_from_stored: "those (map (from_stored \<circ> to_stored) es) = Some es"
proof (induction es)
  case (Cons e es)
  have "from_stored (to_stored e) = Some e"
    by (cases e) (simp add: from_stored_def to_stored_def bigint_of_show_int spend_entry_def)
  then show ?case using Cons by simp
qed simp

section \<open>Properties\<close>

text \<open>
  C15. No sequence of approved transactions spends more of a limited token in a window than its
  limit: as long as at most 5000 spends have been recorded, the full history of approved outgoing
  transfers obeys every configured spend limit at every time.
\<close>

theorem core_spend_limit_safe:
  assumes "core_run P st now h" "l \<in> set (rp_spendLimits P)" "0 \<le> sl_amount l" "0 \<le> limit_window l"
    and "length h \<le> 5000"
  shows "ledger_sum (sl_mint l) (now - limit_window l) h \<le> sl_amount l"
  using assms
proof (induction rule: core_run.induct)
  case (wait st now h now')
  then show ?case
    using core_run_rel [OF wait.hyps(1)] by (intro core_ledger.bounded_later [OF wait.IH]) auto
next
  case (approve st now h a)
  show ?case
  proof (rule core_ledger.guarded_record_bounded)
    show "core_rel now st h" using core_run_rel [OF approve.hyps(1)] by blast
    show "core_covers (limit_window l) h" using approve.prems(4) by (simp add: core_covers_def MAX_SPEND_ENTRIES_def)
    show "ledger_sum (sl_mint l) (now - limit_window l) h \<le> sl_amount l" using approve by simp
  qed (use approve caps_checked enforcePolicy_ok in auto)
qed simp

abbreviation sample_analysis :: "int \<Rightarrow> TransactionAnalysis" where
  "sample_analysis n \<equiv> \<lparr>ta_programIds = [], ta_transfers = [\<lparr>tt_mint = ''M'', tt_amount = n,
     tt_direction = outgoing, tt_destination = None\<rparr>], ta_estimatedValueLamports = n\<rparr>"

abbreviation sample_policies :: ResolvedPolicies where
  "sample_policies \<equiv> \<lparr>rp_spendLimits = [\<lparr>sl_mint = ''M'', sl_amount = 100, sl_windowMs = Some 1000\<rparr>],
     rp_maxTransactionSize = None, rp_allowedProtocols = None, rp_allowedTokens = None,
     rp_blockUnknownPrograms = True, rp_maxTransactions = 60, rp_rateWindowMs = 3600000\<rparr>"

abbreviation empty_core :: CoreState where
  "empty_core \<equiv> \<lparr>cs_spends = [], cs_txs = [], cs_storage = None\<rparr>"

lemma sample_approved: "enforcePolicy (sample_analysis 70) sample_policies empty_core 5 = Inr ()"
  by (simp add: enforcePolicy_def evaluatePolicy_def checkPrograms_def checkTokens_def checkSpendingCaps_def
      checkTransactionSize_def checkRateLimit_def outgoing_spends_def mint_key_def DEFAULT_ADDRESS_def
      core_getSpendInWindow_def core_getTransactionCountInWindow_def limit_window_def Let_def)

theorem core_spend_limit_safe_witness:
  "core_run sample_policies (recordTransaction (sample_analysis 70) empty_core 5) 5
     ([] @ map (\<lambda>(m, a). spend_entry m a 5) (outgoing_spends (sample_analysis 70)))
   \<and> ledger_sum ''M'' (5 - 1000) ([] @ map (\<lambda>(m, a). spend_entry m a 5) (outgoing_spends (sample_analysis 70))) \<le> 100"
proof -
  have run: "core_run sample_policies (recordTransaction (sample_analysis 70) empty_core 5) 5
     ([] @ map (\<lambda>(m, a). spend_entry m a 5) (outgoing_spends (sample_analysis 70)))"
    using sample_approved by (intro core_run.approve core_run.start) simp_all
  from core_spend_limit_safe [OF run, of "\<lparr>sl_mint = ''M'', sl_amount = 100, sl_windowMs = Some 1000\<rparr>"]
  have "ledger_sum ''M'' (5 - 1000) ([] @ map (\<lambda>(m, a). spend_entry m a 5) (outgoing_spends (sample_analysis 70))) \<le> 100"
    by (simp add: limit_window_def outgoing_spends_def)
  with run show ?thesis by blast
qed

text \<open>
  Persistence loses nothing: a tracker constructed from the storage another one has just
  written holds the same spends and transactions, whatever the size or sign of the amounts.
\<close>

theorem persist_load_roundtrip:
  assumes "cs_storage st = Some so" "so_setSpendsOk so" "so_setTxsOk so"
  shows "cs_spends (newCoreState (cs_storage (persist st)) detected) = cs_spends st
    \<and> cs_txs (newCoreState (cs_storage (persist st)) detected) = cs_txs st"
  using assms
  by (simp add: persist_def newCoreState_def load_spends_def load_txs_def Let_def those_from_stored)

theorem persist_load_roundtrip_witness:
  "cs_spends (newCoreState (cs_storage (persist
      \<lparr>cs_spends = [spend_entry ''M'' 42 7], cs_txs = [7],
       cs_storage = Some \<lparr>so_spends = Absent, so_txs = Corrupt, so_setSpendsOk = True, so_setTxsOk = True\<rparr>\<rparr>)) None)
    = [spend_entry ''M'' 42 7]"
  using persist_load_roundtrip [of "\<lparr>cs_spends = [spend_entry ''M'' 42 7], cs_txs = [7],
       cs_storage = Some \<lparr>so_spends = Absent, so_txs = Corrupt, so_setSpendsOk = True, so_setTxsOk = True\<rparr>\<rparr>"]
  by simp

text \<open>
  The completeness bound of the tracker is sharp: a spend followed by 5000 further recorded
  spends is forgotten while still inside its window, so the engine's view falls short of it.
\<close>

theorem core_tracker_forgets:
  "core_getSpendInWindow (fold (\<lambda>(m, a) s. core_recordSpend s m a now)
       ((''A'', amount) # replicate 5000 (''B'', 1)) empty_core) ''A'' 86400000 now = 0"
proof -
  let ?kvs = "(''A'', amount) # replicate 5000 (''B'', 1)"
  have "core_rel now (fold (\<lambda>(m, a) s. core_recordSpend s m a now) ?kvs empty_core)
      ([] @ map (\<lambda>(m, a). spend_entry m a now) ?kvs)"
    by (rule core_ledger.rel_record_all) (simp add: core_rel_def slice_last_def)
  then have "cs_spends (fold (\<lambda>(m, a) s. core_recordSpend s m a now) ?kvs empty_core)
      = replicate 5000 (spend_entry ''B'' 1 now)"
    by (simp add: core_rel_def slice_last_def MAX_SPEND_ENTRIES_def del: fold.simps fold_replicate)
  moreover have "ledger_sum ''A'' c (replicate n (spend_entry ''B'' 1 now)) = 0" for c n
    by (induction n) (simp_all add: ledger_sum_def)
  ultimately show ?thesis
    by (simp add: core_getSpendInWindow_def core_spend_loop_sum del: fold.simps fold_replicate)
qed

end
