(* ===== verification/RollingWindow.thy ===== *)
theory RollingWindow
  imports Accounts
begin

text \<open>
  The rolling 24h spend computations of \<open>sdk/kit/src/state-resolver.ts\<close>:
  \<open>getRolling24hUsd\<close> over the 144 ten-minute buckets of a SpendTracker account,
  \<open>getAgentRolling24hUsd\<close> over the 24 hourly ring slots of an AgentSpendOverlay entry,
  \<open>getProtocolSpend\<close> and \<open>getSpendingHistory\<close>.

  The reference definition is \<open>window_share\<close>: what part of an amount booked in an epoch lies in
  the window. The locale \<open>epoch_window\<close> holds what follows from the epochs of an account
  covering the rolling window; it is interpreted for both account layouts.
\<close>

section \<open>Account data\<close>

record EpochBucket =
  eb_epochId :: int
  eb_usdAmount :: int

record ProtocolSpendCounter =
  psc_protocol :: bytes
  psc_windowStart :: int
  psc_windowSpend :: int

record SpendTracker =
  st_buckets :: "EpochBucket list"
  st_protocolCounters :: "ProtocolSpendCounter list"
  st_lastWriteEpoch :: int

record AgentContributionEntry =
  ace_agent :: bytes
  ace_lastWriteEpoch :: int
  ace_contributions :: "int list"

record AgentSpendOverlay =
  aso_entries :: "AgentContributionEntry list"
  aso_lifetimeSpend :: "int list"
  aso_lifetimeTxCount :: "int list"

record SpendingEpoch =
  se_epochId :: int
  se_timestamp :: int
  se_usdAmount :: int
  se_usdAmountFormatted :: string

section \<open>Operations\<close>

text \<open>
  The start of the window, with the saturating subtraction the three functions share:
  \<open>nowUnix > 86400 ? nowUnix - 86400 : 0\<close>.
\<close>

definition window_start :: "int \<Rightarrow> int" where
  "window_start nowUnix =
     (if nowUnix > ROLLING_WINDOW_SECONDS then nowUnix - ROLLING_WINDOW_SECONDS else 0)"

definition clamp_u64 :: "int \<Rightarrow> int" where
  "clamp_u64 tot = (if tot > U64_MAX then U64_MAX else tot)"

fun rolling24h_loop :: "int \<Rightarrow> int \<Rightarrow> EpochBucket list \<Rightarrow> int \<Rightarrow> int" where
  "rolling24h_loop windowStart currentEpoch [] tot = tot"
| "rolling24h_loop windowStart currentEpoch (bucket # rest) tot =
     (if eb_usdAmount bucket = 0 then rolling24h_loop windowStart currentEpoch rest tot
      else
        let bucketStart = eb_epochId bucket * EPOCH_DURATION;
            bucketEnd = bucketStart + EPOCH_DURATION
        in if bucketEnd \<le> windowStart \<or> eb_epochId bucket > currentEpoch
           then rolling24h_loop windowStart currentEpoch rest tot
           else if bucketStart \<ge> windowStart
           then rolling24h_loop windowStart currentEpoch rest (tot + eb_usdAmount bucket)
           else
             let overlap = bucketEnd - windowStart
             in rolling24h_loop windowStart currentEpoch rest
                  (tot + bdiv (eb_usdAmount bucket * overlap) EPOCH_DURATION))"

definition getRolling24hUsd :: "SpendTracker \<Rightarrow> int \<Rightarrow> int" where
  "getRolling24hUsd tracker nowUnix =
     (if nowUnix \<le> 0 then 0
      else
        let currentEpoch = bdiv nowUnix EPOCH_DURATION
        in if currentEpoch - st_lastWriteEpoch tracker > NUM_EPOCHS then 0
           else clamp_u64
                  (rolling24h_loop (window_start nowUnix) currentEpoch (st_buckets tracker) 0))"

text \<open>
  The backward loop \<open>for (let k = 0; k < OVERLAY_NUM_EPOCHS; k++)\<close>; the list is the remaining
  values of \<open>k\<close>. Reading past the contributions array yields \<open>undefined\<close>, which is not \<open>0n\<close>
  and makes the addition throw a TypeError: \<open>None\<close>.
\<close>

fun agent24h_loop :: "AgentContributionEntry \<Rightarrow> int \<Rightarrow> int \<Rightarrow> nat list \<Rightarrow> int \<Rightarrow> int option" where
  "agent24h_loop entry windowStart currentEpoch [] tot = Some tot"
| "agent24h_loop entry windowStart currentEpoch (k # ks) tot =
     (let epochForK = ace_lastWriteEpoch entry - int k
      in if epochForK < 0 then Some tot
         else
           let bucketStart = epochForK * OVERLAY_EPOCH_DURATION;
               bucketEnd = bucketStart + OVERLAY_EPOCH_DURATION
           in if bucketEnd \<le> windowStart then Some tot
              else if epochForK > currentEpoch
              then agent24h_loop entry windowStart currentEpoch ks tot
              else
                let bucketIdx = nat (bmod epochForK OVERLAY_NUM_EPOCHS)
                in if bucketIdx \<ge> length (ace_contributions entry) then None
                   else
                     let contribution = ace_contributions entry ! bucketIdx
                     in if contribution = 0
                        then agent24h_loop entry windowStart currentEpoch ks tot
                        else if bucketStart \<ge> windowStart
                        then agent24h_loop entry windowStart currentEpoch ks (tot + contribution)
                        else
                          let overlap = bucketEnd - windowStart
                          in agent24h_loop entry windowStart currentEpoch ks
                               (tot + bdiv (contribution * overlap) OVERLAY_EPOCH_DURATION))"

definition getAgentRolling24hUsd :: "AgentContributionEntry \<Rightarrow> int \<Rightarrow> int option" where
  "getAgentRolling24hUsd entry nowUnix =
     (if nowUnix \<le> 0 then Some 0
      else
        let currentEpoch = bdiv nowUnix OVERLAY_EPOCH_DURATION
        in if currentEpoch - ace_lastWriteEpoch entry > OVERLAY_NUM_EPOCHS then Some 0
           else map_option clamp_u64
                  (agent24h_loop entry (window_start nowUnix) currentEpoch
                     [0 ..< nat OVERLAY_NUM_EPOCHS] 0))"

text \<open>
  \<open>bytesMatchAddress\<close> compares the account bytes with the base58-decoded address. The address
  codec is the parameter \<open>enc\<close> (\<open>getAddressEncoder\<close> of the Solana kit). Reading past the end of
  either array gives \<open>undefined\<close> on both sides.
\<close>

definition byte_at :: "bytes \<Rightarrow> nat \<Rightarrow> nat option" where
  "byte_at bs i = (if i < length bs then Some (bs ! i) else None)"

definition bytesMatchAddress :: "(address \<Rightarrow> bytes) \<Rightarrow> bytes \<Rightarrow> address \<Rightarrow> bool" where
  "bytesMatchAddress enc bs addr =
     (let encoded = enc addr
      in if length bs \<noteq> length encoded then False
         else list_all (\<lambda>i. byte_at bs i = byte_at encoded i) [0 ..< 32])"

fun protocol_counters_loop ::
  "(address \<Rightarrow> bytes) \<Rightarrow> address \<Rightarrow> int \<Rightarrow> ProtocolSpendCounter list \<Rightarrow> int" where
  "protocol_counters_loop enc protocolAddress currentEpoch [] = 0"
| "protocol_counters_loop enc protocolAddress currentEpoch (counter # rest) =
     (if bytesMatchAddress enc (psc_protocol counter) protocolAddress
      then (if currentEpoch - psc_windowStart counter < NUM_EPOCHS
            then psc_windowSpend counter else 0)
      else protocol_counters_loop enc protocolAddress currentEpoch rest)"

definition getProtocolSpend :: "(address \<Rightarrow> bytes) \<Rightarrow> SpendTracker \<Rightarrow> address \<Rightarrow> int \<Rightarrow> int" where
  "getProtocolSpend enc tracker protocolAddress nowUnix =
     (if nowUnix \<le> 0 then 0
      else protocol_counters_loop enc protocolAddress (bdiv nowUnix EPOCH_DURATION)
             (st_protocolCounters tracker))"

text \<open>\<open>fmt\<close> is \<open>formatUsd\<close>, which renders through \<open>Intl.NumberFormat\<close>.\<close>

definition getSpendingHistory ::
  "(int \<Rightarrow> string) \<Rightarrow> SpendTracker option \<Rightarrow> int \<Rightarrow> SpendingEpoch list" where
  "getSpendingHistory fmt tracker nowUnix =
     (case tracker of None \<Rightarrow> []
      | Some t \<Rightarrow>
          if nowUnix \<le> 0 then []
          else
            let currentEpoch = bdiv nowUnix EPOCH_DURATION
            in if currentEpoch - st_lastWriteEpoch t > NUM_EPOCHS then []
               else
                 let windowStartEpoch = currentEpoch - NUM_EPOCHS;
                     kept = filter (\<lambda>b. eb_usdAmount b \<noteq> 0 \<and> \<not> eb_epochId b < windowStartEpoch
                                       \<and> \<not> eb_epochId b > currentEpoch) (st_buckets t);
                     result = map (\<lambda>b. \<lparr>se_epochId = eb_epochId b,
                                        se_timestamp = eb_epochId b * EPOCH_DURATION,
                                        se_usdAmount = eb_usdAmount b,
                                        se_usdAmountFormatted = fmt (eb_usdAmount b)\<rparr>) kept
                 in sort_key se_timestamp result)"

section \<open>Reference definition: the part of an epoch's amount inside the window\<close>

definition window_share :: "int \<Rightarrow> int \<Rightarrow> int \<Rightarrow> int \<Rightarrow> int" where
  "window_share dur nowUnix epoch amount =
     (let start = epoch * dur; ws = window_start nowUnix
      in if epoch > nowUnix div dur then 0
         else if start \<ge> ws then amount
         else if start + dur \<le> ws then 0
         else (amount * (start + dur - ws)) div dur)"

definition wf_tracker :: "SpendTracker \<Rightarrow> bool" where
  "wf_tracker t \<longleftrightarrow>
     (\<forall>b \<in> set (st_buckets t). is_u64 (eb_usdAmount b) \<and> eb_epochId b \<le> st_lastWriteEpoch t)"

definition wf_entry :: "AgentContributionEntry \<Rightarrow> bool" where
  "wf_entry e \<longleftrightarrow> length (ace_contributions e) = nat OVERLAY_NUM_EPOCHS
     \<and> (\<forall>c \<in> set (ace_contributions e). is_u64 c)"

lemma window_start_nonneg [simp]: "0 \<le> window_start n"
  by (simp add: window_start_def epoch_consts)

lemma window_start_mono: "a \<le> b \<Longrightarrow> window_start a \<le> window_start b"
  by (simp add: window_start_def epoch_consts)

lemma window_start_lower: "n - 86400 \<le> window_start n"
  by (simp add: window_start_def epoch_consts)

lemma clamp_u64_min: "clamp_u64 n = min U64_MAX n"
  by (simp add: clamp_u64_def)

locale epoch_window =
  fixes dur num :: int
  assumes dur_pos: "0 < dur"
    and num_pos: "0 < num"
    and covers_window: "dur * num = ROLLING_WINDOW_SECONDS"
begin

lemma overlap_bounds:
  assumes "\<not> e * dur \<ge> window_start n" "\<not> e * dur + dur \<le> window_start n"
  shows "0 \<le> e * dur + dur - window_start n \<and> e * dur + dur - window_start n \<le> dur"
  using assms by simp

lemma share_nonneg: "0 \<le> amt \<Longrightarrow> 0 \<le> window_share dur n e amt"
  using dur_pos by (auto simp: window_share_def Let_def intro!: pos_imp_zdiv_nonneg_iff [THEN iffD2])

lemma share_le: "0 \<le> amt \<Longrightarrow> window_share dur n e amt \<le> amt"
proof -
  assume amt: "0 \<le> amt"
  have "amt * r div dur \<le> amt" if "r \<le> dur" for r
  proof -
    have "amt * r \<le> amt * dur" using amt that by (rule mult_left_mono [rotated])
    then have "amt * r div dur \<le> amt * dur div dur" using dur_pos by (rule zdiv_mono1)
    then show ?thesis using dur_pos by simp
  qed
  then show ?thesis using amt dur_pos by (auto simp: window_share_def Let_def)
qed

text \<open>An epoch more than \<open>num\<close> epochs old has left the window.\<close>

lemma share_expired:
  assumes "n div dur - e > num"
  shows "window_share dur n e amt = 0"
proof -
  have "(e + 1 + num) * dur \<le> (n div dur) * dur"
    using assms dur_pos by (intro mult_right_mono) auto
  also have "\<dots> \<le> n" using dur_pos by (simp add: minus_mod_eq_div_mult [symmetric])
  finally have le: "e * dur + dur + 86400 \<le> n"
    using covers_window by (simp add: algebra_simps epoch_consts)
  then have "e * dur + dur \<le> window_start n"
    using window_start_lower [of n] by linarith
  moreover from this have "\<not> e * dur \<ge> window_start n" using dur_pos by simp
  ultimately show ?thesis by (simp add: window_share_def Let_def)
qed

lemma share_left:
  assumes "e * dur + dur \<le> window_start n" "e' \<le> e"
  shows "window_share dur n e' amt = 0"
proof -
  have "e' * dur \<le> e * dur" using assms(2) dur_pos by simp
  with assms(1) have "e' * dur + dur \<le> window_start n" by linarith
  moreover from this have "\<not> e' * dur \<ge> window_start n" using dur_pos by simp
  ultimately show ?thesis by (simp add: window_share_def Let_def)
qed

lemma share_negative_epoch: "e < 0 \<Longrightarrow> window_share dur n e amt = 0"
proof -
  assume "e < 0"
  moreover have "(-1) * dur + dur \<le> window_start n" by simp
  ultimately show ?thesis by (intro share_left [of "-1" n e]) auto
qed

text \<open>Time only moves an epoch's amount out of the window.\<close>

lemma share_antimono:
  assumes "0 \<le> amt" "n \<le> n'" "e \<le> n div dur"
  shows "window_share dur n' e amt \<le> window_share dur n e amt"
proof -
  have ws: "window_start n \<le> window_start n'" using assms(2) by (rule window_start_mono)
  have cur: "n div dur \<le> n' div dur" using assms(2) dur_pos by (rule zdiv_mono1)
  have step: "amt * (e * dur + dur - window_start n') div dur
      \<le> amt * (e * dur + dur - window_start n) div dur"
    using ws assms(1) dur_pos by (intro zdiv_mono1 mult_left_mono) auto
  have full: "amt * (e * dur + dur - window_start n') div dur \<le> amt"
    if "\<not> e * dur \<ge> window_start n'" "\<not> e * dur + dur \<le> window_start n'"
    using share_le [OF assms(1), of n' e] that assms(3) cur by (simp add: window_share_def Let_def)
  show ?thesis
    using assms cur ws step full share_nonneg [OF assms(1), of n e]
    by (auto simp: window_share_def Let_def)
qed

end

interpretation tracker_window: epoch_window EPOCH_DURATION NUM_EPOCHS
  by unfold_locales (simp_all add: epoch_consts)

interpretation overlay_window: epoch_window OVERLAY_EPOCH_DURATION OVERLAY_NUM_EPOCHS
  by unfold_locales (simp_all add: epoch_consts)

section \<open>The tracker\<close>

abbreviation bucket_share :: "int \<Rightarrow> EpochBucket \<Rightarrow> int" where
  "bucket_share n b \<equiv> window_share EPOCH_DURATION n (eb_epochId b) (eb_usdAmount b)"

lemma rolling24h_loop_sum:
  assumes "\<And>b. b \<in> set bs \<Longrightarrow> 0 \<le> eb_usdAmount b"
  shows "rolling24h_loop (window_start n) (n div EPOCH_DURATION) bs tot
    = tot + (\<Sum>b\<leftarrow>bs. bucket_share n b)"
  using assms
proof (induction bs arbitrary: tot)
  case (Cons b bs)
  have nonneg: "0 \<le> eb_usdAmount b" by (simp add: Cons.prems)
  have IH: "rolling24h_loop (window_start n) (n div EPOCH_DURATION) bs t
      = t + (\<Sum>b\<leftarrow>bs. bucket_share n b)" for t
    by (rule Cons.IH) (simp add: Cons.prems)
  have boundary: "bdiv (eb_usdAmount b * ov) EPOCH_DURATION = eb_usdAmount b * ov div EPOCH_DURATION"
    if "0 \<le> ov" for ov
    using nonneg that by (intro bdiv_nonneg) (simp_all add: EPOCH_DURATION_def)
  have E: "0 < EPOCH_DURATION" by (simp add: EPOCH_DURATION_def)
  show ?case
    using boundary E by (auto simp: IH window_share_def Let_def)
qed simp

lemma wf_tracker_nonneg: "wf_tracker t \<Longrightarrow> b \<in> set (st_buckets t) \<Longrightarrow> 0 \<le> eb_usdAmount b"
  by (auto simp: wf_tracker_def is_u64_def)

lemma bdiv_epoch: "0 < n \<Longrightarrow> bdiv n EPOCH_DURATION = n div EPOCH_DURATION"
  by (simp add: bdiv_nonneg EPOCH_DURATION_def)

lemma tracker_expired_sum:
  assumes "wf_tracker t" "n div EPOCH_DURATION - st_lastWriteEpoch t > NUM_EPOCHS"
  shows "(\<Sum>b\<leftarrow>st_buckets t. bucket_share n b) = 0"
proof -
  have "bucket_share n b = 0" if "b \<in> set (st_buckets t)" for b
  proof (rule tracker_window.share_expired)
    have "eb_epochId b \<le> st_lastWriteEpoch t" using assms(1) that by (simp add: wf_tracker_def)
    then show "n div EPOCH_DURATION - eb_epochId b > NUM_EPOCHS" using assms(2) by linarith
  qed
  then show ?thesis by (intro sum_list_nonneg_eq_0_iff [THEN iffD2]) auto
qed

lemma rolling_eq_sum:
  assumes "wf_tracker t" "0 < n"
  shows "getRolling24hUsd t n = clamp_u64 (\<Sum>b\<leftarrow>st_buckets t. bucket_share n b)"
proof -
  have loop: "rolling24h_loop (window_start n) (n div EPOCH_DURATION) (st_buckets t) 0
      = (\<Sum>b\<leftarrow>st_buckets t. bucket_share n b)"
    using rolling24h_loop_sum [of "st_buckets t" n 0] assms(1) by (simp add: wf_tracker_nonneg)
  show ?thesis
    using assms loop tracker_expired_sum [of t n]
    by (simp add: getRolling24hUsd_def Let_def bdiv_epoch clamp_u64_def U64_MAX_def)
qed

lemma sum_shares_le:
  assumes "wf_tracker t"
  shows "(\<Sum>b\<leftarrow>st_buckets t. bucket_share n b)
    \<le> sum_where (\<lambda>b. n div EPOCH_DURATION - NUM_EPOCHS \<le> eb_epochId b
         \<and> eb_epochId b \<le> n div EPOCH_DURATION) eb_usdAmount (st_buckets t)"
proof -
  have "(\<Sum>b\<leftarrow>bs. bucket_share n b)
      \<le> sum_where (\<lambda>b. n div EPOCH_DURATION - NUM_EPOCHS \<le> eb_epochId b
         \<and> eb_epochId b \<le> n div EPOCH_DURATION) eb_usdAmount bs"
    if "\<And>b. b \<in> set bs \<Longrightarrow> 0 \<le> eb_usdAmount b" for bs
    using that
  proof (induction bs)
    case (Cons b bs)
    have b: "0 \<le> eb_usdAmount b" by (simp add: Cons.prems)
    have out: "bucket_share n b = 0"
      if "\<not> (n div EPOCH_DURATION - NUM_EPOCHS \<le> eb_epochId b \<and> eb_epochId b \<le> n div EPOCH_DURATION)"
    proof (cases "eb_epochId b \<le> n div EPOCH_DURATION")
      case True
      with that show ?thesis by (intro tracker_window.share_expired) linarith
    next
      case False
      then show ?thesis by (simp add: window_share_def)
    qed
    have IH: "(\<Sum>b\<leftarrow>bs. bucket_share n b)
        \<le> sum_where (\<lambda>b. n div EPOCH_DURATION - NUM_EPOCHS \<le> eb_epochId b
           \<and> eb_epochId b \<le> n div EPOCH_DURATION) eb_usdAmount bs"
      by (rule Cons.IH) (simp add: Cons.prems)
    then show ?case using tracker_window.share_le [OF b, of n "eb_epochId b"] out by auto
  qed simp
  then show ?thesis using assms by (simp add: wf_tracker_nonneg)
qed

section \<open>The agent overlay ring\<close>

definition agent_share :: "AgentContributionEntry \<Rightarrow> int \<Rightarrow> nat \<Rightarrow> int" where
  "agent_share e n k = window_share OVERLAY_EPOCH_DURATION n (ace_lastWriteEpoch e - int k)
     (ace_contributions e ! nat ((ace_lastWriteEpoch e - int k) mod OVERLAY_NUM_EPOCHS))"

lemma agent24h_loop_sum:
  assumes "wf_entry e" "sorted ks"
  shows "agent24h_loop e (window_start n) (n div OVERLAY_EPOCH_DURATION) ks tot
    = Some (tot + (\<Sum>k\<leftarrow>ks. agent_share e n k))"
  using assms(2)
proof (induction ks arbitrary: tot)
  case (Cons k ks)
  let ?ep = "ace_lastWriteEpoch e - int k"
  let ?c = "ace_contributions e ! nat (?ep mod OVERLAY_NUM_EPOCHS)"
  have IH: "agent24h_loop e (window_start n) (n div OVERLAY_EPOCH_DURATION) ks t
      = Some (t + (\<Sum>k\<leftarrow>ks. agent_share e n k))" for t
    using Cons.prems by (intro Cons.IH) simp
  have D: "0 < OVERLAY_EPOCH_DURATION" "0 < OVERLAY_NUM_EPOCHS"
    by (simp_all add: epoch_consts)
  have later: "(\<Sum>k\<leftarrow>k # ks. agent_share e n k) = 0"
    if "\<And>k'. k' \<in> set (k # ks) \<Longrightarrow> agent_share e n k' = 0"
    using that by (intro sum_list_nonneg_eq_0_iff [THEN iffD2]) auto
  have after: "ace_lastWriteEpoch e - int k' \<le> ?ep" if "k' \<in> set (k # ks)" for k'
    using that Cons.prems by auto
  show ?case
  proof (cases "?ep < 0")
    case True
    then have "agent_share e n k' = 0" if "k' \<in> set (k # ks)" for k'
      using after [OF that] unfolding agent_share_def
      by (intro overlay_window.share_negative_epoch) linarith
    then show ?thesis using True later by (simp add: Let_def)
  next
    case False
    have idx: "nat (?ep mod OVERLAY_NUM_EPOCHS) < length (ace_contributions e)"
      using assms(1) D by (simp add: wf_entry_def nat_less_iff)
    then have c: "0 \<le> ?c"
      using assms(1) nth_mem by (fastforce simp: wf_entry_def is_u64_def)
    have bm: "bmod ?ep OVERLAY_NUM_EPOCHS = ?ep mod OVERLAY_NUM_EPOCHS"
      using False D by (intro bmod_nonneg) auto
    have boundary: "bdiv (?c * ov) OVERLAY_EPOCH_DURATION = ?c * ov div OVERLAY_EPOCH_DURATION"
      if "0 \<le> ov" for ov
      using c that D by (intro bdiv_nonneg) simp_all
    show ?thesis
    proof (cases "?ep * OVERLAY_EPOCH_DURATION + OVERLAY_EPOCH_DURATION \<le> window_start n")
      case True
      then have "agent_share e n k' = 0" if "k' \<in> set (k # ks)" for k'
        unfolding agent_share_def by (rule overlay_window.share_left) (rule after [OF that])
      then show ?thesis using True False later by (simp add: Let_def)
    next
      case in_window: False
      have "agent24h_loop e (window_start n) (n div OVERLAY_EPOCH_DURATION) (k # ks) tot
          = Some (tot + agent_share e n k + (\<Sum>k\<leftarrow>ks. agent_share e n k))"
        using False in_window idx bm boundary D
        by (auto simp: Let_def IH agent_share_def window_share_def not_le)
      then show ?thesis by simp
    qed
  qed
qed simp

lemma bdiv_overlay: "0 < n \<Longrightarrow> bdiv n OVERLAY_EPOCH_DURATION = n div OVERLAY_EPOCH_DURATION"
  by (simp add: bdiv_nonneg OVERLAY_EPOCH_DURATION_def)

lemma agent_rolling_eq_sum:
  assumes "wf_entry e" "0 < n"
  shows "getAgentRolling24hUsd e n
    = Some (clamp_u64 (\<Sum>k\<leftarrow>[0 ..< nat OVERLAY_NUM_EPOCHS]. agent_share e n k))"
proof (cases "n div OVERLAY_EPOCH_DURATION - ace_lastWriteEpoch e > OVERLAY_NUM_EPOCHS")
  case True
  have "agent_share e n k = 0" for k
    unfolding agent_share_def using True by (intro overlay_window.share_expired) linarith
  then have "(\<Sum>k\<leftarrow>[0 ..< nat OVERLAY_NUM_EPOCHS]. agent_share e n k) = 0" by simp
  then show ?thesis
    using True assms by (simp add: getAgentRolling24hUsd_def Let_def bdiv_overlay clamp_u64_def U64_MAX_def)
next
  case False
  have "agent24h_loop e (window_start n) (n div OVERLAY_EPOCH_DURATION) [0 ..< nat OVERLAY_NUM_EPOCHS] 0
      = Some (0 + (\<Sum>k\<leftarrow>[0 ..< nat OVERLAY_NUM_EPOCHS]. agent_share e n k))"
    by (rule agent24h_loop_sum [OF assms(1)]) simp
  then show ?thesis
    using False assms by (simp add: getAgentRolling24hUsd_def Let_def bdiv_overlay)
qed

section \<open>Properties\<close>

text \<open>
  C11. For a tracker whose buckets were written no later than its last write epoch, the SDK's
  rolling spend is the sum over all buckets of the part of each bucket inside the 24h window,
  clamped to u64: the early exit after 144 idle epochs changes nothing.
\<close>

theorem rolling24h_reference:
  assumes "wf_tracker t" "0 < n"
  shows "getRolling24hUsd t n
    = min U64_MAX (\<Sum>b\<leftarrow>st_buckets t.
        window_share EPOCH_DURATION n (eb_epochId b) (eb_usdAmount b))"
  using rolling_eq_sum [OF assms] by (simp add: clamp_u64_min)

abbreviation sample_tracker :: SpendTracker where
  "sample_tracker \<equiv> \<lparr>st_buckets = [\<lparr>eb_epochId = 1000, eb_usdAmount = 600\<rparr>, \<lparr>eb_epochId = 1100, eb_usdAmount = 50\<rparr>],
     st_protocolCounters = [], st_lastWriteEpoch = 1100\<rparr>"

lemma sample_tracker_wf: "wf_tracker sample_tracker"
  by (simp add: wf_tracker_def is_u64_def U64_MAX_def)

theorem rolling24h_reference_witness:
  "wf_tracker sample_tracker \<and> getRolling24hUsd sample_tracker 686700 = 350"
proof -
  have "getRolling24hUsd sample_tracker 686700
      = min U64_MAX (\<Sum>b\<leftarrow>st_buckets sample_tracker.
          window_share EPOCH_DURATION 686700 (eb_epochId b) (eb_usdAmount b))"
    by (rule rolling24h_reference [OF sample_tracker_wf]) simp
  then show ?thesis
    using sample_tracker_wf
    by (simp add: window_share_def window_start_def epoch_consts U64_MAX_def Let_def)
qed

text \<open>
  With no new writes, the rolling spend never increases as time passes: capacity is only
  ever freed.
\<close>

theorem rolling24h_decays:
  assumes "wf_tracker t" "0 < n" "n \<le> n'" "st_lastWriteEpoch t \<le> n div EPOCH_DURATION"
  shows "getRolling24hUsd t n' \<le> getRolling24hUsd t n"
proof -
  have "bucket_share n' b \<le> bucket_share n b" if "b \<in> set (st_buckets t)" for b
  proof (rule tracker_window.share_antimono)
    show "0 \<le> eb_usdAmount b" using assms(1) that by (rule wf_tracker_nonneg)
    have "eb_epochId b \<le> st_lastWriteEpoch t" using assms(1) that by (simp add: wf_tracker_def)
    then show "eb_epochId b \<le> n div EPOCH_DURATION" using assms(4) by linarith
  qed (rule assms(3))
  then have "(\<Sum>b\<leftarrow>st_buckets t. bucket_share n' b) \<le> (\<Sum>b\<leftarrow>st_buckets t. bucket_share n b)"
    by (rule sum_list_le_pointwise)
  then show ?thesis
    using assms by (simp add: rolling_eq_sum clamp_u64_min)
qed

theorem rolling24h_decays_witness:
  "getRolling24hUsd sample_tracker 690000 \<le> getRolling24hUsd sample_tracker 686700"
  by (rule rolling24h_decays [OF sample_tracker_wf]) (simp_all add: EPOCH_DURATION_def)

text \<open>
  The backward ring walk over an agent's 24 hourly slots (two early \<open>break\<close>s, one
  \<open>continue\<close>, an early exit) returns, on every decoded entry, the sum over all slots of their
  share of the window, clamped to u64; it never reads past the contributions array.
\<close>

theorem agent_rolling24h_reference:
  assumes "wf_entry e" "0 < n"
  shows "getAgentRolling24hUsd e n
    = Some (min U64_MAX (\<Sum>k\<leftarrow>[0 ..< 24]. agent_share e n k))"
  using agent_rolling_eq_sum [OF assms] by (simp add: clamp_u64_min OVERLAY_NUM_EPOCHS_def)

abbreviation sample_entry :: AgentContributionEntry where
  "sample_entry \<equiv> \<lparr>ace_agent = [], ace_lastWriteEpoch = 100,
     ace_contributions = replicate 3 0 @ [7, 11] @ replicate 19 0\<rparr>"

lemma sample_entry_wf: "wf_entry sample_entry"
  by (simp add: wf_entry_def OVERLAY_NUM_EPOCHS_def is_u64_def U64_MAX_def)

theorem agent_rolling24h_reference_witness:
  "wf_entry sample_entry
    \<and> getAgentRolling24hUsd sample_entry 361800
      = Some (min U64_MAX (\<Sum>k\<leftarrow>[0 ..< 24]. agent_share sample_entry 361800 k))"
  using agent_rolling24h_reference [OF sample_entry_wf, of 361800] sample_entry_wf by simp

text \<open>
  The chart series and the enforced figure agree: the series is sorted by time, lists only
  non-empty buckets no older than 144 epochs, and its total is never below the rolling spend.
\<close>

theorem spending_history_covers_rolling:
  assumes "wf_tracker t" "0 < n"
  shows "sorted (map se_timestamp (getSpendingHistory fmt (Some t) n))
    \<and> getRolling24hUsd t n \<le> (\<Sum>s\<leftarrow>getSpendingHistory fmt (Some t) n. se_usdAmount s)"
proof -
  let ?kept = "filter (\<lambda>b. eb_usdAmount b \<noteq> 0 \<and> \<not> eb_epochId b < n div EPOCH_DURATION - NUM_EPOCHS
      \<and> \<not> eb_epochId b > n div EPOCH_DURATION) (st_buckets t)"
  have srt: "sorted (map se_timestamp (getSpendingHistory fmt (Some t) n))"
    by (simp add: getSpendingHistory_def Let_def)
  have tot: "(\<Sum>s\<leftarrow>getSpendingHistory fmt (Some t) n. se_usdAmount s) = (\<Sum>b\<leftarrow>?kept. eb_usdAmount b)"
    if "\<not> n div EPOCH_DURATION - st_lastWriteEpoch t > NUM_EPOCHS"
    using that assms(2)
    by (simp add: getSpendingHistory_def Let_def bdiv_epoch sum_list_sort_key o_def)
  have keep: "sum_where (\<lambda>b. n div EPOCH_DURATION - NUM_EPOCHS \<le> eb_epochId b
         \<and> eb_epochId b \<le> n div EPOCH_DURATION) eb_usdAmount bs
      = sum_where (\<lambda>b. eb_usdAmount b \<noteq> 0 \<and> \<not> eb_epochId b < n div EPOCH_DURATION - NUM_EPOCHS
      \<and> \<not> eb_epochId b > n div EPOCH_DURATION) eb_usdAmount bs" for bs
    by (induction bs) auto
  have "getRolling24hUsd t n \<le> (\<Sum>s\<leftarrow>getSpendingHistory fmt (Some t) n. se_usdAmount s)"
  proof (cases "n div EPOCH_DURATION - st_lastWriteEpoch t > NUM_EPOCHS")
    case True
    then show ?thesis using assms(2)
      by (simp add: getRolling24hUsd_def getSpendingHistory_def Let_def bdiv_epoch)
  next
    case False
    then show ?thesis
      using rolling_eq_sum [OF assms] sum_shares_le [OF assms(1), of n] tot keep [of "st_buckets t"]
      by (simp add: clamp_u64_min)
  qed
  with srt show ?thesis by blast
qed

theorem spending_history_covers_rolling_witness:
  "getRolling24hUsd sample_tracker 686700
    \<le> (\<Sum>s\<leftarrow>getSpendingHistory (\<lambda>_. []) (Some sample_tracker) 686700. se_usdAmount s)"
  using spending_history_covers_rolling [OF sample_tracker_wf, of 686700 "\<lambda>_. []"] by simp

end
