(* ===== verification/StateResolver.thy ===== *)
theory StateResolver
  imports RollingWindow
begin

text \<open>
  \<open>sdk/kit/src/state-resolver.ts\<close> from \<open>resolveVaultState\<close> on: one batched read of a vault's
  accounts, the budgets computed from them, the cheaper budget-only resolver, vault discovery with
  its two strategies, and escrow and session discovery.

  The RPC client, the account decoders generated for the on-chain program, the address codec and
  the derivation of program addresses are the fields of \<open>resolver_env\<close>. A fetch may throw; it
  answers with one entry per requested address.
\<close>

section \<open>Environment\<close>

datatype EncodedAccount = Missing | Existing bytes

record 'c resolver_env =
  re_pda :: "(address \<times> nat) derivation"
  re_enc :: "address \<Rightarrow> bytes"
  re_fetch :: "address list \<Rightarrow> (js_error, EncodedAccount list) result"
  re_decodeVault :: "bytes \<Rightarrow> (js_error, AgentVault) result"
  re_decodePolicy :: "bytes \<Rightarrow> (js_error, PolicyConfig) result"
  re_decodeTracker :: "bytes \<Rightarrow> (js_error, SpendTracker) result"
  re_decodeOverlay :: "bytes \<Rightarrow> (js_error, AgentSpendOverlay) result"
  re_decodeConstraints :: "bytes \<Rightarrow> (js_error, 'c) result"

definition lift_err :: "(js_error, 'a) result \<Rightarrow> (sdk_error, 'a) result" where
  "lift_err r = (case r of Inl e \<Rightarrow> Inl (EXTERNAL_ERROR e) | Inr a \<Rightarrow> Inr a)"

text \<open>\<open>encoded[i]\<close>, \<open>undefined\<close> past the end.\<close>

definition acct_at :: "EncodedAccount list \<Rightarrow> nat \<Rightarrow> EncodedAccount option" where
  "acct_at encoded i = (if i < length encoded then Some (encoded ! i) else None)"

text \<open>
  A generated \<open>decodeX(encoded)\<close>: a missing account decodes to \<open>exists: false\<close>, a present one runs
  the decoder, and \<open>undefined\<close> is a TypeError.
\<close>

definition decode_maybe ::
  "(bytes \<Rightarrow> (js_error, 'a) result) \<Rightarrow> EncodedAccount option \<Rightarrow> (sdk_error, 'a option) result" where
  "decode_maybe dec acc =
     (case acc of
        None \<Rightarrow> Inl JS_TYPE_ERROR
      | Some Missing \<Rightarrow> Inr None
      | Some (Existing data) \<Rightarrow> rbind (lift_err (dec data)) (\<lambda>a. Inr (Some a)))"

section \<open>Budgets\<close>

record EffectiveBudget =
  bu_spent24h :: int
  bu_cap :: int
  bu_remaining :: int

record ProtocolBudget =
  pb_protocol :: address
  pb_spent24h :: int
  pb_cap :: int
  pb_remaining :: int

record 'c ResolvedVaultState =
  rv_vault :: AgentVault
  rv_policy :: PolicyConfig
  rv_tracker :: "SpendTracker option"
  rv_overlay :: "AgentSpendOverlay option"
  rv_constraints :: "'c option"
  rv_globalBudget :: EffectiveBudget
  rv_agentBudget :: "EffectiveBudget option"
  rv_allAgentBudgets :: "(address \<times> EffectiveBudget) list"
  rv_protocolBudgets :: "ProtocolBudget list"
  rv_maxTransactionUsd :: int
  rv_usdcBalance :: int
  rv_usdtBalance :: int
  rv_resolvedAtTimestamp :: int

record OverlaySlot =
  os_slotIdx :: nat
  os_lifetimeSpend :: int
  os_lifetimeTxCount :: int

text \<open>
  \<open>findAgentOverlaySlot\<close>: \<open>dec\<close> is \<open>bytesToAddress\<close>, \<open>None\<close> where it throws. A missing
  \<open>lifetimeTxCount\<close> array is the empty list.
\<close>

fun find_index :: "('a \<Rightarrow> bool) \<Rightarrow> 'a list \<Rightarrow> nat option" where
  "find_index P [] = None"
| "find_index P (x # xs) = (if P x then Some 0 else map_option Suc (find_index P xs))"

definition nth_or_zero :: "int list \<Rightarrow> nat \<Rightarrow> int" where
  "nth_or_zero xs i = (if i < length xs then xs ! i else 0)"

definition findAgentOverlaySlot ::
  "(bytes \<Rightarrow> address option) \<Rightarrow> AgentSpendOverlay option \<Rightarrow> address \<Rightarrow> OverlaySlot option" where
  "findAgentOverlaySlot dec overlay agentAddress =
     (case overlay of None \<Rightarrow> None
      | Some ov \<Rightarrow>
          (case find_index (\<lambda>e. dec (ace_agent e) = Some agentAddress) (aso_entries ov) of
             None \<Rightarrow> None
           | Some slotIdx \<Rightarrow>
               Some \<lparr>os_slotIdx = slotIdx,
                     os_lifetimeSpend = nth_or_zero (aso_lifetimeSpend ov) slotIdx,
                     os_lifetimeTxCount = nth_or_zero (aso_lifetimeTxCount ov) slotIdx\<rparr>))"

text \<open>The budget of one agent, as both resolvers compute it.\<close>

definition budget_of :: "int \<Rightarrow> int \<Rightarrow> EffectiveBudget" where
  "budget_of spent cap = \<lparr>bu_spent24h = spent, bu_cap = cap, bu_remaining = monus cap spent\<rparr>"

definition global_budget :: "SpendTracker option \<Rightarrow> PolicyConfig \<Rightarrow> int \<Rightarrow> EffectiveBudget" where
  "global_budget tracker policy timestamp =
     (let globalSpent = (case tracker of None \<Rightarrow> 0 | Some t \<Rightarrow> getRolling24hUsd t timestamp)
      in budget_of globalSpent (pc_dailySpendingCapUsd policy))"

definition agent_budget ::
  "(address \<Rightarrow> bytes) \<Rightarrow> AgentSpendOverlay option \<Rightarrow> int \<Rightarrow> address \<Rightarrow> int \<Rightarrow> (sdk_error, EffectiveBudget) result" where
  "agent_budget enc overlay timestamp addr cap =
     (case overlay of
        Some ov \<Rightarrow>
          (case find (\<lambda>e. bytesMatchAddress enc (ace_agent e) addr) (aso_entries ov) of
             Some overlayEntry \<Rightarrow>
               (case getAgentRolling24hUsd overlayEntry timestamp of
                  None \<Rightarrow> Inl JS_TYPE_ERROR
                | Some spent \<Rightarrow> Inr (budget_of spent cap))
           | None \<Rightarrow> Inr \<lparr>bu_spent24h = 0, bu_cap = cap, bu_remaining = cap\<rparr>)
      | None \<Rightarrow> Inr \<lparr>bu_spent24h = 0, bu_cap = cap, bu_remaining = cap\<rparr>)"

text \<open>The single pass over \<open>vault.agents\<close>; the accumulators are \<open>agentBudget\<close> and \<open>allAgentBudgets\<close>.\<close>

fun agent_budgets_loop ::
  "(address \<Rightarrow> bytes) \<Rightarrow> AgentSpendOverlay option \<Rightarrow> int \<Rightarrow> address \<Rightarrow> AgentEntry list
    \<Rightarrow> EffectiveBudget option \<times> (address \<times> EffectiveBudget) list
    \<Rightarrow> (sdk_error, EffectiveBudget option \<times> (address \<times> EffectiveBudget) list) result" where
  "agent_budgets_loop enc overlay ts agent [] acc = Inr acc"
| "agent_budgets_loop enc overlay ts agent (entry # rest) (cur, budgets) =
     (if ae_spendingLimitUsd entry \<le> 0
      then agent_budgets_loop enc overlay ts agent rest (cur, budgets)
      else
        rbind (agent_budget enc overlay ts (ae_pubkey entry) (ae_spendingLimitUsd entry)) (\<lambda>budget.
          agent_budgets_loop enc overlay ts agent rest
            (if ae_pubkey entry = agent then Some budget else cur,
             AList.update (ae_pubkey entry) budget budgets)))"

text \<open>\<open>caps[i]\<close> past the end is \<open>undefined\<close> and skips the protocol, like a cap of zero.\<close>

definition protocol_budgets ::
  "(address \<Rightarrow> bytes) \<Rightarrow> PolicyConfig \<Rightarrow> SpendTracker option \<Rightarrow> int \<Rightarrow> ProtocolBudget list" where
  "protocol_budgets enc policy tracker timestamp =
     (case tracker of
        None \<Rightarrow> []
      | Some t \<Rightarrow>
          if \<not> pc_hasProtocolCaps policy then []
          else
            concat (map (\<lambda>i.
              if i \<ge> length (pc_protocolCaps policy) \<or> pc_protocolCaps policy ! i = 0 then []
              else
                let protocol = pc_protocols policy ! i;
                    protocolCap = pc_protocolCaps policy ! i;
                    spent = getProtocolSpend enc t protocol timestamp
                in [\<lparr>pb_protocol = protocol, pb_spent24h = spent, pb_cap = protocolCap,
                     pb_remaining = monus protocolCap spent\<rparr>])
              [0 ..< length (pc_protocols policy)]))"

text \<open>The SPL token amount at offset 64 of a token account; 0 for a missing or short account.\<close>

definition ata_balance :: "EncodedAccount option \<Rightarrow> (sdk_error, int) result" where
  "ata_balance acc =
     (case acc of
        Some (Existing data) \<Rightarrow>
          if length data \<ge> 72
          then (case le_or_read data 64 of None \<Rightarrow> Inl JS_TYPE_ERROR | Some n \<Rightarrow> Inr n)
          else Inr 0
      | _ \<Rightarrow> Inr 0)"

section \<open>resolveVaultState\<close>

text \<open>\<open>nowMs\<close> is \<open>Date.now()\<close>; an absent network is mainnet.\<close>

definition timestamp_of :: "int option \<Rightarrow> msecs \<Rightarrow> int" where
  "timestamp_of nowUnix nowMs = (case nowUnix of Some t \<Rightarrow> t | None \<Rightarrow> nowMs div 1000)"

definition resolveVaultState ::
  "'c resolver_env \<Rightarrow> address \<Rightarrow> address \<Rightarrow> int option \<Rightarrow> string option \<Rightarrow> msecs
    \<Rightarrow> (sdk_error, 'c ResolvedVaultState) result" where
  "resolveVaultState env vault agent nowUnix network nowMs =
     (let net = (case network of None \<Rightarrow> ''mainnet-beta'' | Some n \<Rightarrow> n);
          usdcMint = (if net = ''devnet'' then USDC_MINT_DEVNET else USDC_MINT_MAINNET);
          usdtMint = (if net = ''devnet'' then USDT_MINT_DEVNET else USDT_MINT_MAINNET);
          pda = re_pda env; enc = re_enc env; prog = SIGIL_PROGRAM_ADDRESS
      in
      rbind (lift_err (re_fetch env
          [vault, fst (getPolicyPDA pda enc vault prog), fst (getTrackerPDA pda enc vault prog),
           fst (getAgentOverlayPDA pda enc vault 0 prog), fst (getConstraintsPDA pda enc vault prog),
           deriveAta pda enc vault usdcMint, deriveAta pda enc vault usdtMint])) (\<lambda>encoded.
      rbind (decode_maybe (re_decodeVault env) (acct_at encoded 0)) (\<lambda>dVault.
      case dVault of None \<Rightarrow> Inl (SDK_VAULT_NOT_FOUND vault) | Some v \<Rightarrow>
      rbind (decode_maybe (re_decodePolicy env) (acct_at encoded 1)) (\<lambda>dPolicy.
      case dPolicy of None \<Rightarrow> Inl (SDK_POLICY_NOT_FOUND vault) | Some policy \<Rightarrow>
      rbind (decode_maybe (re_decodeTracker env) (acct_at encoded 2)) (\<lambda>tracker.
      rbind (decode_maybe (re_decodeOverlay env) (acct_at encoded 3)) (\<lambda>overlay.
      rbind (decode_maybe (re_decodeConstraints env) (acct_at encoded 4)) (\<lambda>constraints.
      let timestamp = timestamp_of nowUnix nowMs in
      rbind (agent_budgets_loop enc overlay timestamp agent (av_agents v) (None, [])) (\<lambda>(agentBudget, allAgentBudgets).
      rbind (ata_balance (acct_at encoded 5)) (\<lambda>usdcBalance.
      rbind (ata_balance (acct_at encoded 6)) (\<lambda>usdtBalance.
      Inr \<lparr>rv_vault = v, rv_policy = policy, rv_tracker = tracker, rv_overlay = overlay,
           rv_constraints = constraints,
           rv_globalBudget = global_budget tracker policy timestamp,
           rv_agentBudget = agentBudget, rv_allAgentBudgets = allAgentBudgets,
           rv_protocolBudgets = protocol_budgets enc policy tracker timestamp,
           rv_maxTransactionUsd = pc_maxTransactionSizeUsd policy,
           rv_usdcBalance = usdcBalance, rv_usdtBalance = usdtBalance,
           rv_resolvedAtTimestamp = timestamp\<rparr>))))))))))"

text \<open>The owner's view drops \<open>agentBudget\<close>; it is the field set to \<open>None\<close> here.\<close>

definition resolveVaultStateForOwner ::
  "'c resolver_env \<Rightarrow> address \<Rightarrow> int option \<Rightarrow> string option \<Rightarrow> msecs
    \<Rightarrow> (sdk_error, 'c ResolvedVaultState) result" where
  "resolveVaultStateForOwner env vault nowUnix network nowMs =
     rbind (resolveVaultState env vault SYSTEM_PROGRAM_ADDRESS nowUnix network nowMs)
       (\<lambda>state. Inr (state\<lparr>rv_agentBudget := None\<rparr>))"

definition resolveVaultBudget ::
  "'c resolver_env \<Rightarrow> address \<Rightarrow> address \<Rightarrow> int option \<Rightarrow> msecs
    \<Rightarrow> (sdk_error, EffectiveBudget \<times> EffectiveBudget option) result" where
  "resolveVaultBudget env vault agent nowUnix nowMs =
     (let pda = re_pda env; enc = re_enc env; prog = SIGIL_PROGRAM_ADDRESS in
      rbind (lift_err (re_fetch env
          [vault, fst (getPolicyPDA pda enc vault prog), fst (getTrackerPDA pda enc vault prog),
           fst (getAgentOverlayPDA pda enc vault 0 prog)])) (\<lambda>encoded.
      rbind (decode_maybe (re_decodeVault env) (acct_at encoded 0)) (\<lambda>dVault.
      case dVault of None \<Rightarrow> Inl (SDK_VAULT_NOT_FOUND vault) | Some v \<Rightarrow>
      rbind (decode_maybe (re_decodePolicy env) (acct_at encoded 1)) (\<lambda>dPolicy.
      case dPolicy of None \<Rightarrow> Inl (SDK_POLICY_NOT_FOUND vault) | Some policy \<Rightarrow>
      rbind (decode_maybe (re_decodeTracker env) (acct_at encoded 2)) (\<lambda>tracker.
      rbind (decode_maybe (re_decodeOverlay env) (acct_at encoded 3)) (\<lambda>overlay.
      let timestamp = timestamp_of nowUnix nowMs;
          globalBudget = global_budget tracker policy timestamp
      in case find (\<lambda>a. ae_pubkey a = agent) (av_agents v) of
           Some agentEntry \<Rightarrow>
             if ae_spendingLimitUsd agentEntry > 0
             then rbind (agent_budget enc overlay timestamp agent (ae_spendingLimitUsd agentEntry))
                    (\<lambda>b. Inr (globalBudget, Some b))
             else Inr (globalBudget, None)
         | None \<Rightarrow> Inr (globalBudget, None)))))))"

section \<open>Discovery\<close>

record VaultLocator =
  vl_vaultAddress :: address
  vl_vaultId :: int

definition isGpaUnsupportedError :: "js_error \<Rightarrow> bool" where
  "isGpaUnsupportedError err =
     (if \<not> je_isError err then False
      else if je_code err = Some (- 32601) \<or> je_code err = Some (- 32010) then True
      else
        let msg = toLowerCase (je_message err)
        in str_includes msg ''method not found'' \<or> str_includes msg ''not available''
           \<or> str_includes msg ''not supported'' \<or> str_includes msg ''disabled''
           \<or> str_includes msg ''410'')"

text \<open>
  Discovery runs against a second set of parameters: \<open>gpa\<close> is \<open>getProgramAccounts\<close> with the
  owner's bytes (base64) as its memcmp filter, answering with pubkeys and base64 data, \<open>u64dec\<close>
  the codec's u64 decoder, \<open>multi\<close> \<open>getMultipleAccounts\<close>, answering which accounts exist.
\<close>

record gpa_env =
  ge_pda :: "(address \<times> nat) derivation"
  ge_enc :: "address \<Rightarrow> bytes"
  ge_gpa :: "string \<Rightarrow> (js_error, (address \<times> string) list) result"
  ge_u64dec :: "bytes \<Rightarrow> (js_error, int) result"
  ge_multi :: "address list \<Rightarrow> (js_error, bool list) result"

text \<open>The \<open>InvalidCharacterError\<close> of \<open>atob\<close>, a DOMException, which is an \<open>Error\<close> with a numeric code.\<close>

definition atob_error :: js_error where
  "atob_error = \<lparr>je_isError = True, je_code = Some 5,
     je_message = ''The string to be decoded is not correctly encoded.''\<rparr>"

definition base64ToUint8 :: "string \<Rightarrow> (js_error, bytes) result" where
  "base64ToUint8 s = (case atob s of None \<Rightarrow> Inl atob_error | Some bs \<Rightarrow> Inr bs)"

definition uint8ToBase64 :: "bytes \<Rightarrow> string" where
  "uint8ToBase64 bs = btoa bs"

definition gpa_strategy :: "gpa_env \<Rightarrow> address \<Rightarrow> (js_error, VaultLocator list) result" where
  "gpa_strategy env owner =
     rbind (ge_gpa env (uint8ToBase64 (ge_enc env owner))) (\<lambda>accounts.
     rbind (rmap (\<lambda>(pubkey, data).
         rbind (base64ToUint8 data) (\<lambda>raw.
         rbind (ge_u64dec env raw) (\<lambda>vaultId.
           Inr \<lparr>vl_vaultAddress = pubkey, vl_vaultId = vaultId\<rparr>))) accounts) (\<lambda>parsed.
     let verified = filter (\<lambda>e. fst (getVaultPDA (ge_pda env) (ge_enc env) owner (vl_vaultId e)
                        SIGIL_PROGRAM_ADDRESS) = vl_vaultAddress e) parsed
     in Inr (sort_key vl_vaultId verified)))"

text \<open>\<open>pdas[i]\<close> past the end of \<open>pdas\<close> is \<open>undefined\<close>: a TypeError when that account exists.\<close>

definition probe_strategy :: "gpa_env \<Rightarrow> address \<Rightarrow> nat \<Rightarrow> (sdk_error, VaultLocator list) result" where
  "probe_strategy env owner cappedProbe =
     (let pdas = map (\<lambda>i. \<lparr>vl_vaultAddress = fst (getVaultPDA (ge_pda env) (ge_enc env) owner (int i)
                             SIGIL_PROGRAM_ADDRESS), vl_vaultId = int i\<rparr>) [0 ..< cappedProbe]
      in rbind (lift_err (ge_multi env (map vl_vaultAddress pdas))) (\<lambda>present.
           if list_ex (\<lambda>i. present ! i) [length pdas ..< length present] then Inl JS_TYPE_ERROR
           else Inr (map (\<lambda>i. pdas ! i) (filter (\<lambda>i. present ! i) [0 ..< length present]))))"

definition findVaultsByOwner :: "gpa_env \<Rightarrow> address \<Rightarrow> int \<Rightarrow> (sdk_error, VaultLocator list) result" where
  "findVaultsByOwner env owner maxProbe =
     (let cappedProbe = nat (min (max 0 maxProbe) 100)
      in case gpa_strategy env owner of
           Inr vaults \<Rightarrow> Inr vaults
         | Inl err \<Rightarrow>
             if je_code err = Some (- 32005) \<or> (je_isError err \<and> str_includes (je_message err) ''429'')
             then Inl (EXTERNAL_ERROR err)
             else if \<not> isGpaUnsupportedError err then Inl (EXTERNAL_ERROR err)
             else probe_strategy env owner cappedProbe)"

text \<open>
  \<open>findEscrowsByVault\<close> and \<open>findSessionsByVault\<close>: decode what \<open>getProgramAccounts\<close> returns; an RPC
  without the method gives the empty list.
\<close>

definition find_program_accounts ::
  "(address \<Rightarrow> bytes) \<Rightarrow> (string \<Rightarrow> (js_error, (address \<times> string) list) result)
    \<Rightarrow> (bytes \<Rightarrow> (js_error, 'd) result) \<Rightarrow> address \<Rightarrow> (sdk_error, ('d \<times> address) list) result" where
  "find_program_accounts enc gpa dec vault =
     (case rbind (gpa (uint8ToBase64 (enc vault))) (\<lambda>accounts.
        rmap (\<lambda>(pubkey, data). rbind (base64ToUint8 data) (\<lambda>raw.
               rbind (dec raw) (\<lambda>d. Inr (d, pubkey)))) accounts) of
        Inr ds \<Rightarrow> Inr ds
      | Inl err \<Rightarrow> if \<not> isGpaUnsupportedError err then Inl (EXTERNAL_ERROR err) else Inr [])"

definition findEscrowsByVault ::
  "(address \<Rightarrow> bytes) \<Rightarrow> (string \<Rightarrow> (js_error, (address \<times> string) list) result)
    \<Rightarrow> (bytes \<Rightarrow> (js_error, 'd) result) \<Rightarrow> address \<Rightarrow> (sdk_error, ('d \<times> address) list) result" where
  "findEscrowsByVault enc gpa decodeEscrow sourceVault = find_program_accounts enc gpa decodeEscrow sourceVault"

definition findSessionsByVault ::
  "(address \<Rightarrow> bytes) \<Rightarrow> (string \<Rightarrow> (js_error, (address \<times> string) list) result)
    \<Rightarrow> (bytes \<Rightarrow> (js_error, 'd) result) \<Rightarrow> address \<Rightarrow> (sdk_error, ('d \<times> address) list) result" where
  "findSessionsByVault enc gpa decodeSession vault = find_program_accounts enc gpa decodeSession vault"

section \<open>Facts\<close>

lemma lift_err_simps [simp, result_simps]: "lift_err (Inr a) = Inr a" "lift_err (Inl e) = Inl (EXTERNAL_ERROR e)"
  by (simp_all add: lift_err_def)

lemma lift_err_eq_Inr [simp]: "lift_err r = Inr a \<longleftrightarrow> r = Inr a"
  by (cases r) simp_all

lemma agent_budget_fields:
  assumes "agent_budget enc overlay ts a cap = Inr b" "0 < cap"
  shows "bu_cap b = cap" "bu_remaining b = max (cap - bu_spent24h b) 0"
  using assms by (auto simp: agent_budget_def budget_of_def monus_max split: option.splits)

text \<open>What a budget map holds after a prefix of the agents has been processed.\<close>

definition budgets_ok :: "AgentEntry list \<Rightarrow> (address \<times> EffectiveBudget) list \<Rightarrow> bool" where
  "budgets_ok agents m \<longleftrightarrow> distinct (map fst m)
     \<and> (\<forall>(a, b) \<in> set m. bu_remaining b = max (bu_cap b - bu_spent24h b) 0
         \<and> (\<exists>e \<in> set agents. ae_pubkey e = a \<and> ae_spendingLimitUsd e = bu_cap b \<and> 0 < bu_cap b))"

lemma budgets_ok_update:
  assumes "budgets_ok agents m" "e \<in> set agents" "0 < ae_spendingLimitUsd e"
    and "agent_budget enc ov ts (ae_pubkey e) (ae_spendingLimitUsd e) = Inr b"
  shows "budgets_ok agents (AList.update (ae_pubkey e) b m)"
proof -
  have "set (AList.update (ae_pubkey e) b m) \<subseteq> insert (ae_pubkey e, b) (set m)"
    by (induction m) auto
  moreover have "bu_cap b = ae_spendingLimitUsd e" "bu_remaining b = max (bu_cap b - bu_spent24h b) 0"
    using agent_budget_fields [OF assms(4,3)] by simp_all
  ultimately show ?thesis
    using assms(1-3) unfolding budgets_ok_def by (auto simp: distinct_update dest!: subsetD)
qed

lemma agent_budgets_loop_ok:
  assumes "agent_budgets_loop enc ov ts agent es (cur, m) = Inr (cur', m')"
    and "set es \<subseteq> set agents" "budgets_ok agents m" "cur = map_of m agent"
  shows "budgets_ok agents m' \<and> cur' = map_of m' agent"
  using assms
proof (induction es arbitrary: cur m)
  case (Cons e es)
  show ?case
  proof (cases "ae_spendingLimitUsd e \<le> 0")
    case True
    then show ?thesis using Cons by simp
  next
    case False
    then obtain b where b: "agent_budget enc ov ts (ae_pubkey e) (ae_spendingLimitUsd e) = Inr b"
      and rest: "agent_budgets_loop enc ov ts agent es
          (if ae_pubkey e = agent then Some b else cur, AList.update (ae_pubkey e) b m) = Inr (cur', m')"
      using Cons.prems(1) by auto
    show ?thesis
    proof (rule Cons.IH [OF rest])
      show "budgets_ok agents (AList.update (ae_pubkey e) b m)"
        using Cons.prems False b by (intro budgets_ok_update) auto
      show "(if ae_pubkey e = agent then Some b else cur) = map_of (AList.update (ae_pubkey e) b m) agent"
        using Cons.prems(4) by (simp add: update_conv)
    qed (use Cons.prems(2) in simp)
  qed
qed simp

text \<open>The map has an entry for every agent with a positive limit, and no other.\<close>

lemma agent_budgets_loop_keys:
  assumes "agent_budgets_loop enc ov ts agent es (cur, m) = Inr (cur', m')"
  shows "fst ` set m' = fst ` set m \<union> ae_pubkey ` {e \<in> set es. 0 < ae_spendingLimitUsd e}"
  using assms
proof (induction es arbitrary: cur m)
  case (Cons e es)
  show ?case
  proof (cases "ae_spendingLimitUsd e \<le> 0")
    case True
    then show ?thesis using Cons by (auto simp: not_le)
  next
    case False
    then obtain b where "agent_budgets_loop enc ov ts agent es
          (if ae_pubkey e = agent then Some b else cur, AList.update (ae_pubkey e) b m) = Inr (cur', m')"
      using Cons.prems by auto
    from Cons.IH [OF this] have "fst ` set m' = insert (ae_pubkey e) (fst ` set m)
        \<union> ae_pubkey ` {e \<in> set es. 0 < ae_spendingLimitUsd e}" by (simp add: dom_update)
    then show ?thesis using False by auto
  qed
qed simp

text \<open>The spends the budgets report, as sums over the decoded accounts.\<close>

definition tracker_spent :: "SpendTracker option \<Rightarrow> int \<Rightarrow> int" where
  "tracker_spent tracker now =
     (case tracker of None \<Rightarrow> 0
      | Some t \<Rightarrow> min U64_MAX (\<Sum>b\<leftarrow>st_buckets t. window_share EPOCH_DURATION now (eb_epochId b) (eb_usdAmount b)))"

definition overlay_spent :: "(address \<Rightarrow> bytes) \<Rightarrow> AgentSpendOverlay option \<Rightarrow> int \<Rightarrow> address \<Rightarrow> int" where
  "overlay_spent enc overlay now addr =
     (case overlay of None \<Rightarrow> 0
      | Some ov \<Rightarrow>
          (case filter (\<lambda>e. ace_agent e = enc addr) (aso_entries ov) of
             [] \<Rightarrow> 0
           | e # _ \<Rightarrow> min U64_MAX (\<Sum>k\<leftarrow>[0 ..< 24]. agent_share e now k)))"

definition wf_accounts :: "SpendTracker option \<Rightarrow> AgentSpendOverlay option \<Rightarrow> bool" where
  "wf_accounts tracker overlay \<longleftrightarrow>
     (\<forall>t. tracker = Some t \<longrightarrow> wf_tracker t)
     \<and> (\<forall>ov e. overlay = Some ov \<longrightarrow> e \<in> set (aso_entries ov) \<longrightarrow> wf_entry e)"

lemma bytesMatchAddress_eq:
  assumes "length (enc a) = 32"
  shows "bytesMatchAddress enc bs a \<longleftrightarrow> bs = enc a"
proof
  assume "bytesMatchAddress enc bs a"
  then show "bs = enc a"
    using assms by (intro nth_equalityI) (auto simp: bytesMatchAddress_def byte_at_def list_all_iff Let_def split: if_splits)
qed (use assms in \<open>simp add: bytesMatchAddress_def list_all_iff Let_def\<close>)

lemma find_filter: "find P xs = (case filter P xs of [] \<Rightarrow> None | x # _ \<Rightarrow> Some x)"
  by (induction xs) auto

lemma agent_budget_spent:
  assumes "agent_budget enc overlay now a cap = Inr b" "length (enc a) = 32" "0 < now" "wf_accounts tracker overlay"
  shows "bu_spent24h b = overlay_spent enc overlay now a"
proof (cases overlay)
  case (Some ov)
  show ?thesis
  proof (cases "filter (\<lambda>e. ace_agent e = enc a) (aso_entries ov)")
    case Nil
    then show ?thesis
      using assms(1,2) Some by (auto simp: agent_budget_def overlay_spent_def bytesMatchAddress_eq find_filter)
  next
    case (Cons e es)
    then have "e \<in> set (aso_entries ov)" by (metis filter_is_subset list.set_intros(1) subsetD)
    then have "getAgentRolling24hUsd e now = Some (min U64_MAX (\<Sum>k\<leftarrow>[0 ..< 24]. agent_share e now k))"
      using agent_rolling_eq_sum [of e now] assms(3,4) Some
      by (simp add: wf_accounts_def clamp_u64_min OVERLAY_NUM_EPOCHS_def)
    then show ?thesis
      using assms(1,2) Some Cons
      by (auto simp: agent_budget_def overlay_spent_def bytesMatchAddress_eq find_filter budget_of_def)
  qed
qed (use assms(1) in \<open>auto simp: agent_budget_def overlay_spent_def\<close>)

lemma agent_budgets_loop_spent:
  assumes "agent_budgets_loop enc ov ts agent es (cur, m) = Inr (cur', m')"
    and "\<forall>(a, b) \<in> set m. \<exists>cap. agent_budget enc ov ts a cap = Inr b"
  shows "\<forall>(a, b) \<in> set m'. \<exists>cap. agent_budget enc ov ts a cap = Inr b"
  using assms
proof (induction es arbitrary: cur m)
  case (Cons e es)
  show ?case
  proof (cases "ae_spendingLimitUsd e \<le> 0")
    case True
    then show ?thesis using Cons by simp
  next
    case False
    then obtain b where b: "agent_budget enc ov ts (ae_pubkey e) (ae_spendingLimitUsd e) = Inr b"
      and rest: "agent_budgets_loop enc ov ts agent es
          (if ae_pubkey e = agent then Some b else cur, AList.update (ae_pubkey e) b m) = Inr (cur', m')"
      using Cons.prems(1) by auto
    have "set (AList.update (ae_pubkey e) b m) \<subseteq> insert (ae_pubkey e, b) (set m)" by (induction m) auto
    then have "\<forall>(a, b) \<in> set (AList.update (ae_pubkey e) b m). \<exists>cap. agent_budget enc ov ts a cap = Inr b"
      using Cons.prems(2) b by auto
    from Cons.IH [OF rest this] show ?thesis .
  qed
qed simp

text \<open>With distinct keys the budget of \<open>agent\<close> is that of its one entry.\<close>

lemma agent_budgets_loop_other:
  assumes "agent_budgets_loop enc ov ts agent es (cur, m) = Inr (cur', m')"
    and "agent \<notin> ae_pubkey ` set es"
  shows "cur' = cur"
  using assms
proof (induction es arbitrary: cur m)
  case (Cons e es)
  then show ?case by (auto split: if_splits)
qed simp

lemma agent_budgets_loop_find:
  assumes "agent_budgets_loop enc ov ts agent es (None, m) = Inr (cur', m')"
    and "distinct (map ae_pubkey es)"
  shows "(case find (\<lambda>a. ae_pubkey a = agent) es of
            None \<Rightarrow> cur' = None
          | Some e \<Rightarrow> if ae_spendingLimitUsd e > 0
              then \<exists>b. agent_budget enc ov ts agent (ae_spendingLimitUsd e) = Inr b \<and> cur' = Some b
              else cur' = None)"
  using assms
proof (induction es arbitrary: m)
  case (Cons e es)
  show ?case
  proof (cases "ae_pubkey e = agent")
    case True
    then have "agent \<notin> ae_pubkey ` set es" using Cons.prems(2) by auto
    then show ?thesis
      using True Cons.prems(1) agent_budgets_loop_other by (fastforce split: if_splits)
  next
    case False
    then obtain m2 where "agent_budgets_loop enc ov ts agent es (None, m2) = Inr (cur', m')"
      using Cons.prems(1) by (auto split: if_splits)
    then show ?thesis using Cons.IH [of m2] Cons.prems(2) False by simp
  qed
qed simp

text \<open>What a successful resolution went through.\<close>

lemma resolveVaultState_Inr:
  assumes "resolveVaultState env vault agent nowUnix network nowMs = Inr st"
  shows "agent_budgets_loop (re_enc env) (rv_overlay st) (rv_resolvedAtTimestamp st) agent
      (av_agents (rv_vault st)) (None, []) = Inr (rv_agentBudget st, rv_allAgentBudgets st)
    \<and> rv_globalBudget st = global_budget (rv_tracker st) (rv_policy st) (rv_resolvedAtTimestamp st)
    \<and> rv_resolvedAtTimestamp st = timestamp_of nowUnix nowMs"
  using assms unfolding resolveVaultState_def Let_def
  by (clarsimp simp only: rbind_eq_Inr option_guard_eq_Inr sum.inject split_paired_Ex prod.case)
    (simp only: ResolvedVaultState.simps simp_thms)

lemma resolveVaultState_accounts:
  assumes "resolveVaultState env vault agent nowUnix network nowMs = Inr st"
    and "\<And>as. re_fetch env as = Inr (map acc as)"
  shows "decode_maybe (re_decodeVault env) (Some (acc vault)) = Inr (Some (rv_vault st))
    \<and> decode_maybe (re_decodePolicy env)
        (Some (acc (fst (getPolicyPDA (re_pda env) (re_enc env) vault SIGIL_PROGRAM_ADDRESS)))) = Inr (Some (rv_policy st))
    \<and> decode_maybe (re_decodeTracker env)
        (Some (acc (fst (getTrackerPDA (re_pda env) (re_enc env) vault SIGIL_PROGRAM_ADDRESS)))) = Inr (rv_tracker st)
    \<and> decode_maybe (re_decodeOverlay env)
        (Some (acc (fst (getAgentOverlayPDA (re_pda env) (re_enc env) vault 0 SIGIL_PROGRAM_ADDRESS)))) = Inr (rv_overlay st)"
  using assms(1) unfolding resolveVaultState_def Let_def assms(2) lift_err_simps rbind_Inr
  by (clarsimp simp only: rbind_eq_Inr option_guard_eq_Inr sum.inject split_paired_Ex prod.case)
    (simp add: acct_at_def)

lemma gpa_strategy_verified:
  "gpa_strategy env owner = Inr vs \<Longrightarrow> sorted (map vl_vaultId vs)
     \<and> (\<forall>v \<in> set vs. fst (getVaultPDA (ge_pda env) (ge_enc env) owner (vl_vaultId v) SIGIL_PROGRAM_ADDRESS)
          = vl_vaultAddress v)"
  by (auto simp: gpa_strategy_def Let_def)

lemma probe_strategy_verified:
  assumes "probe_strategy env owner n = Inr vs"
  shows "sorted (map vl_vaultId vs)
     \<and> (\<forall>v \<in> set vs. fst (getVaultPDA (ge_pda env) (ge_enc env) owner (vl_vaultId v) SIGIL_PROGRAM_ADDRESS)
          = vl_vaultAddress v \<and> 0 \<le> vl_vaultId v \<and> vl_vaultId v < int n)"
proof -
  let ?loc = "\<lambda>i. \<lparr>vl_vaultAddress = fst (getVaultPDA (ge_pda env) (ge_enc env) owner (int i)
                             SIGIL_PROGRAM_ADDRESS), vl_vaultId = int i\<rparr>"
  obtain pres where safe: "\<not> list_ex (\<lambda>i. pres ! i) [n ..< length pres]"
    and vs: "vs = map (\<lambda>i. map ?loc [0 ..< n] ! i) (filter (\<lambda>i. pres ! i) [0 ..< length pres])"
    using assms by (auto simp: probe_strategy_def Let_def split: if_splits)
  have lt: "i < n" if "i \<in> set (filter (\<lambda>i. pres ! i) [0 ..< length pres])" for i
    using that safe by (force simp: list_ex_iff)
  have "vs = map ?loc (filter (\<lambda>i. pres ! i) [0 ..< length pres])"
    unfolding vs using lt by (intro map_cong) simp_all
  moreover have "sorted (map int (filter (\<lambda>i. pres ! i) [0 ..< length pres]))"
    by (intro sorted_map_mono sorted_wrt_filter) (auto intro!: mono_onI)
  ultimately show ?thesis using lt by (auto simp: o_def)
qed

section \<open>Properties\<close>

text \<open>
  C17. The resolved budgets are those of the decoded accounts: the global cap is the policy's daily cap and the global
  spend the sum of what the tracker's buckets hold inside the 24-hour window; the agent budget map has exactly one entry for every
  registered agent with a positive limit, with that limit as its cap and the sum of the agent's overlay
  contributions inside the window as its spend (0 without an overlay entry); what remains is \<open>max (cap - spent) 0\<close> in each case; and the
  requested agent's budget is its entry of the map. Addresses encode to 32 bytes, and the accounts hold what the program writes:
  u64 amounts, no bucket later than the last write, 24 contributions per entry.
\<close>

theorem resolved_budgets_consistent:
  assumes "resolveVaultState env vault agent nowUnix network nowMs = Inr st"
    and "\<And>a. length (re_enc env a) = 32" and "0 < timestamp_of nowUnix nowMs"
    and "wf_accounts (rv_tracker st) (rv_overlay st)"
  shows "bu_remaining (rv_globalBudget st) = max (bu_cap (rv_globalBudget st) - bu_spent24h (rv_globalBudget st)) 0
    \<and> bu_cap (rv_globalBudget st) = pc_dailySpendingCapUsd (rv_policy st)
    \<and> bu_spent24h (rv_globalBudget st) = tracker_spent (rv_tracker st) (timestamp_of nowUnix nowMs)
    \<and> distinct (map fst (rv_allAgentBudgets st))
    \<and> fst ` set (rv_allAgentBudgets st) = ae_pubkey ` {e \<in> set (av_agents (rv_vault st)). 0 < ae_spendingLimitUsd e}
    \<and> (\<forall>(a, b) \<in> set (rv_allAgentBudgets st). bu_remaining b = max (bu_cap b - bu_spent24h b) 0
         \<and> bu_spent24h b = overlay_spent (re_enc env) (rv_overlay st) (timestamp_of nowUnix nowMs) a
         \<and> (\<exists>e \<in> set (av_agents (rv_vault st)). ae_pubkey e = a \<and> ae_spendingLimitUsd e = bu_cap b \<and> 0 < bu_cap b))
    \<and> rv_agentBudget st = map_of (rv_allAgentBudgets st) agent"
proof -
  let ?now = "timestamp_of nowUnix nowMs"
  have loop: "agent_budgets_loop (re_enc env) (rv_overlay st) ?now agent (av_agents (rv_vault st)) (None, [])
      = Inr (rv_agentBudget st, rv_allAgentBudgets st)"
    and glob: "rv_globalBudget st = global_budget (rv_tracker st) (rv_policy st) ?now"
    using resolveVaultState_Inr [OF assms(1)] by metis+
  have ok: "budgets_ok (av_agents (rv_vault st)) (rv_allAgentBudgets st)
      \<and> rv_agentBudget st = map_of (rv_allAgentBudgets st) agent"
    using loop by (rule agent_budgets_loop_ok) (simp_all add: budgets_ok_def)
  have keys: "fst ` set (rv_allAgentBudgets st) = ae_pubkey ` {e \<in> set (av_agents (rv_vault st)). 0 < ae_spendingLimitUsd e}"
    using agent_budgets_loop_keys [OF loop] by simp
  have spent: "\<forall>(a, b) \<in> set (rv_allAgentBudgets st). bu_spent24h b = overlay_spent (re_enc env) (rv_overlay st) ?now a"
    using agent_budgets_loop_spent [OF loop] agent_budget_spent [OF _ assms(2,3,4)] by fastforce
  have gspent: "bu_spent24h (rv_globalBudget st) = tracker_spent (rv_tracker st) ?now"
    using rolling_eq_sum assms(3,4)
    by (auto simp: glob global_budget_def budget_of_def tracker_spent_def wf_accounts_def clamp_u64_min Let_def split: option.split)
  show ?thesis
    using ok keys spent gspent
    by (auto simp: budgets_ok_def glob global_budget_def Let_def budget_of_def monus_max)
qed

definition sample_vault :: AgentVault where
  "sample_vault = \<lparr>av_owner = ''O'', av_vaultId = 0,
     av_agents = [\<lparr>ae_pubkey = ''A'', ae_capability = 2, ae_spendingLimitUsd = 100, ae_paused = False\<rparr>],
     av_feeDestination = ''F'', av_status = Active\<rparr>"

definition sample_policy :: PolicyConfig where
  "sample_policy = \<lparr>pc_dailySpendingCapUsd = 500, pc_maxTransactionSizeUsd = 200, pc_protocolMode = 0,
     pc_protocols = [], pc_hasConstraints = False, pc_hasProtocolCaps = False, pc_protocolCaps = [],
     pc_policyVersion = 1, pc_hasPostAssertions = 0, pc_developerFeeRate = 0\<rparr>"

text \<open>An environment with a vault, a policy, a tracker and no other account.\<close>

abbreviation sample_account :: "address \<Rightarrow> EncodedAccount" where
  "sample_account a \<equiv> if a = ''V'' \<or> a = ''policy'' \<or> a = ''tracker'' then Existing [] else Missing"

definition sample_env :: "unit resolver_env" where
  "sample_env = \<lparr>re_pda = (\<lambda>prog seeds. (map char_of (hd seeds), 255)), re_enc = (\<lambda>a. replicate 32 (of_char (CHR ''x''))),
     re_fetch = (\<lambda>as. Inr (map sample_account as)),
     re_decodeVault = (\<lambda>_. Inr sample_vault), re_decodePolicy = (\<lambda>_. Inr sample_policy),
     re_decodeTracker = (\<lambda>_. Inr sample_tracker), re_decodeOverlay = (\<lambda>_. Inl \<lparr>je_isError = True, je_code = None, je_message = []\<rparr>),
     re_decodeConstraints = (\<lambda>_. Inr ())\<rparr>"

lemma seedString_chars: "map char_of (seedString s) = s"
  by (simp add: seedString_def o_def)

lemma sample_env_addresses:
  "fst (getPolicyPDA (re_pda sample_env) (re_enc sample_env) v p) = ''policy''"
  "fst (getTrackerPDA (re_pda sample_env) (re_enc sample_env) v p) = ''tracker''"
  "fst (getAgentOverlayPDA (re_pda sample_env) (re_enc sample_env) v n p) = ''agent_spend''"
  "fst (getConstraintsPDA (re_pda sample_env) (re_enc sample_env) v p) = ''constraints''"
  "deriveAta (re_pda sample_env) (re_enc sample_env) ''V'' m = replicate 32 (CHR ''x'')"
  by (simp_all only: sample_env_def pda_defs deriveAta_def resolver_env.simps list.sel fst_conv
      seedString_chars map_replicate char_of_char)

lemma sample_resolves:
  obtains st where "resolveVaultState sample_env ''V'' ''A'' (Some 686700) None 0 = Inr st"
    and "rv_vault st = sample_vault" and "rv_tracker st = Some sample_tracker" and "rv_overlay st = None"
proof -
  have "\<exists>st. resolveVaultState sample_env ''V'' ''A'' (Some 686700) None 0 = Inr st \<and> rv_vault st = sample_vault
      \<and> rv_tracker st = Some sample_tracker \<and> rv_overlay st = None"
    unfolding resolveVaultState_def Let_def sample_env_addresses
    by (simp add: sample_env_def acct_at_def decode_maybe_def sample_vault_def agent_budget_def ata_balance_def)
  then show ?thesis using that by blast
qed

theorem resolved_budgets_consistent_witness:
  "\<exists>st. resolveVaultState sample_env ''V'' ''A'' (Some 686700) None 0 = Inr st
     \<and> bu_spent24h (rv_globalBudget st) = 350
     \<and> fst ` set (rv_allAgentBudgets st) = {''A''}
     \<and> rv_agentBudget st = map_of (rv_allAgentBudgets st) ''A''"
proof -
  obtain st where st: "resolveVaultState sample_env ''V'' ''A'' (Some 686700) None 0 = Inr st"
    and v: "rv_vault st = sample_vault" "rv_tracker st = Some sample_tracker" "rv_overlay st = None"
    by (rule sample_resolves)
  have enc: "length (re_enc sample_env a) = 32" for a by (simp add: sample_env_def)
  have now: "0 < timestamp_of (Some 686700) 0" by (simp add: timestamp_of_def)
  have wf: "wf_accounts (rv_tracker st) (rv_overlay st)"
    unfolding v by (simp only: wf_accounts_def option.inject) (use sample_tracker_wf in auto)
  have spent: "tracker_spent (Some sample_tracker) (timestamp_of (Some 686700) 0) = 350"
    by (simp add: tracker_spent_def timestamp_of_def window_share_def window_start_def epoch_consts U64_MAX_def Let_def)
  have agents: "{e \<in> set (av_agents sample_vault). 0 < ae_spendingLimitUsd e} = set (av_agents sample_vault)"
    by (auto simp: sample_vault_def)
  have "ae_pubkey ` set (av_agents sample_vault) = {''A''}" by (simp add: sample_vault_def)
  with resolved_budgets_consistent [OF st enc now wf, unfolded v spent agents] st show ?thesis
    by (intro exI [of _ st]) simp
qed

text \<open>
  The cheap resolver agrees with the full one: against the same accounts, whenever the full
  state resolves and agent keys are distinct, \<open>resolveVaultBudget\<close> returns the same global and
  agent budgets from four accounts instead of seven.
\<close>

theorem budget_resolver_agrees:
  assumes "\<And>as. re_fetch env as = Inr (map acc as)"
    and "resolveVaultState env vault agent nowUnix network nowMs = Inr st"
    and "distinct (map ae_pubkey (av_agents (rv_vault st)))"
  shows "resolveVaultBudget env vault agent nowUnix nowMs = Inr (rv_globalBudget st, rv_agentBudget st)"
proof -
  note accs = resolveVaultState_accounts [OF assms(2,1)]
  note res = resolveVaultState_Inr [OF assms(2)]
  have fnd: "(case find (\<lambda>a. ae_pubkey a = agent) (av_agents (rv_vault st)) of
            None \<Rightarrow> rv_agentBudget st = None
          | Some e \<Rightarrow> if ae_spendingLimitUsd e > 0
              then \<exists>b. agent_budget (re_enc env) (rv_overlay st) (rv_resolvedAtTimestamp st) agent
                  (ae_spendingLimitUsd e) = Inr b \<and> rv_agentBudget st = Some b
              else rv_agentBudget st = None)"
    by (rule agent_budgets_loop_find [OF res [THEN conjunct1] assms(3)])
  show ?thesis
    using fnd res
    by (auto simp: resolveVaultBudget_def Let_def assms(1) acct_at_def accs split: option.splits if_splits)
qed

theorem budget_resolver_agrees_witness:
  "\<exists>st. resolveVaultState sample_env ''V'' ''A'' (Some 686700) None 0 = Inr st
     \<and> resolveVaultBudget sample_env ''V'' ''A'' (Some 686700) 0 = Inr (rv_globalBudget st, rv_agentBudget st)"
proof -
  obtain st where st: "resolveVaultState sample_env ''V'' ''A'' (Some 686700) None 0 = Inr st"
    and v: "rv_vault st = sample_vault"
    by (rule sample_resolves)
  have "resolveVaultBudget sample_env ''V'' ''A'' (Some 686700) 0 = Inr (rv_globalBudget st, rv_agentBudget st)"
  proof (rule budget_resolver_agrees [OF _ st])
    show "re_fetch sample_env as = Inr (map sample_account as)" for as by (simp add: sample_env_def)
    show "distinct (map ae_pubkey (av_agents (rv_vault st)))" unfolding v by (simp add: sample_vault_def)
  qed
  with st show ?thesis by blast
qed

text \<open>
  Discovery does not trust the RPC node: whichever strategy answers, every returned vault
  address is the one derived from the owner and its id, and the list is sorted by id.
\<close>

theorem find_vaults_verified:
  assumes "findVaultsByOwner env owner maxProbe = Inr vs"
  shows "sorted (map vl_vaultId vs)
    \<and> (\<forall>v \<in> set vs. vl_vaultAddress v
         = fst (getVaultPDA (ge_pda env) (ge_enc env) owner (vl_vaultId v) SIGIL_PROGRAM_ADDRESS))"
proof (cases "gpa_strategy env owner")
  case (Inl err)
  then have "probe_strategy env owner (nat (min (max 0 maxProbe) 100)) = Inr vs"
    using assms by (simp add: findVaultsByOwner_def Let_def split: if_splits)
  then show ?thesis using probe_strategy_verified by fastforce
next
  case (Inr ws)
  then have "gpa_strategy env owner = Inr vs" using assms by (simp add: findVaultsByOwner_def)
  then show ?thesis using gpa_strategy_verified by fastforce
qed

text \<open>An RPC node that answers with one real and one fabricated vault address.\<close>

definition sample_gpa_env :: gpa_env where
  "sample_gpa_env = \<lparr>ge_pda = (\<lambda>prog seeds. (''PDA'', 255)), ge_enc = (\<lambda>a. replicate 32 1),
     ge_gpa = (\<lambda>_. Inr [(''FAKE'', btoa [0]), (''PDA'', btoa [0])]), ge_u64dec = (\<lambda>bs. Inr (le_value bs)),
     ge_multi = (\<lambda>_. Inr [])\<rparr>"

theorem find_vaults_verified_witness:
  "\<exists>vs. findVaultsByOwner sample_gpa_env ''O'' 20 = Inr vs \<and> map vl_vaultAddress vs = [''PDA'']
    \<and> (\<forall>v \<in> set vs. vl_vaultAddress v
         = fst (getVaultPDA (ge_pda sample_gpa_env) (ge_enc sample_gpa_env) ''O'' (vl_vaultId v) SIGIL_PROGRAM_ADDRESS))"
proof -
  have "findVaultsByOwner sample_gpa_env ''O'' 20 = Inr [\<lparr>vl_vaultAddress = ''PDA'', vl_vaultId = 0\<rparr>]"
    using atob_btoa [of "[0]"]
    by (simp add: findVaultsByOwner_def gpa_strategy_def sample_gpa_env_def base64ToUint8_def is_bytes_def
        getVaultPDA_def Let_def del: btoa.simps)
  from find_vaults_verified [OF this] this show ?thesis by simp
qed

text \<open>
  A token account holding amount \<open>n\<close> at offset 64 is read back as \<open>n\<close>, for every u64 amount
  and whatever follows it: the shift-and-or loop neither overflows nor loses bits.
\<close>

theorem ata_balance_reads_amount:
  assumes "0 \<le> n" "n \<le> U64_MAX" "is_bytes pre" "length pre = 64" "is_bytes post"
  shows "ata_balance (Some (Existing (pre @ le_bytes 8 n @ post))) = Inr n"
  using or_read.read_written [OF assms(1,2,3,5)] assms(4) by (simp add: ata_balance_def)

theorem ata_balance_reads_amount_witness:
  "ata_balance (Some (Existing (replicate 64 7 @ le_bytes 8 1500000 @ replicate 93 0))) = Inr 1500000"
  by (rule ata_balance_reads_amount) (simp_all add: U64_MAX_def is_bytes_def list_all_iff)

end
