(* ===== verification/Inspector.thy ===== *)
theory Inspector
  imports SdkTypes
begin

text \<open>
  \<open>sdk/kit/src/inspector.ts\<close>: what \<open>analyzeInstructions\<close> reads out of a list of instructions, the
  programs, the SPL token transfers, the outgoing value and the dangerous token operations. The
  reference is \<open>transfer_of\<close>, the transfer one instruction encodes.
\<close>

record InspectableInstruction =
  ii_programAddress :: address
  ii_accounts :: "address list option"
  ii_data :: "bytes option"

record TokenTransferInfo =
  ti_mint :: "address option"
  ti_amount :: int
  ti_source :: address
  ti_destination :: address
  ti_authority :: address

datatype dangerous_type = approve | setAuthority | closeAccount | revoke

record DangerousTokenOperation =
  do_type :: dangerous_type
  do_account :: address

record InstructionAnalysis =
  ia_programIds :: "address list"
  ia_tokenTransfers :: "TokenTransferInfo list"
  ia_estimatedValue :: int
  ia_dangerousOperations :: "DangerousTokenOperation list"

definition SPL_TRANSFER_DISCRIMINATOR :: nat where "SPL_TRANSFER_DISCRIMINATOR = 3"
definition SPL_APPROVE_DISCRIMINATOR :: nat where "SPL_APPROVE_DISCRIMINATOR = 4"
definition SPL_REVOKE_DISCRIMINATOR :: nat where "SPL_REVOKE_DISCRIMINATOR = 5"
definition SPL_SET_AUTHORITY_DISCRIMINATOR :: nat where "SPL_SET_AUTHORITY_DISCRIMINATOR = 6"
definition SPL_CLOSE_ACCOUNT_DISCRIMINATOR :: nat where "SPL_CLOSE_ACCOUNT_DISCRIMINATOR = 9"
definition SPL_TRANSFER_CHECKED_DISCRIMINATOR :: nat where "SPL_TRANSFER_CHECKED_DISCRIMINATOR = 12"
definition SPL_APPROVE_CHECKED_DISCRIMINATOR :: nat where "SPL_APPROVE_CHECKED_DISCRIMINATOR = 13"

lemmas spl_discriminators = SPL_TRANSFER_DISCRIMINATOR_def SPL_APPROVE_DISCRIMINATOR_def
  SPL_REVOKE_DISCRIMINATOR_def SPL_SET_AUTHORITY_DISCRIMINATOR_def SPL_CLOSE_ACCOUNT_DISCRIMINATOR_def
  SPL_TRANSFER_CHECKED_DISCRIMINATOR_def SPL_APPROVE_CHECKED_DISCRIMINATOR_def

section \<open>analyzeInstructions\<close>

definition readU64LE :: "bytes \<Rightarrow> nat \<Rightarrow> int option" where
  "readU64LE data offset = getBigUint64_le data offset"

text \<open>\<open>tokenTransfers.push(transfer)\<close> and the sum of outgoing transfers.\<close>

definition push_transfer :: "address \<Rightarrow> TokenTransferInfo \<Rightarrow> InstructionAnalysis \<Rightarrow> InstructionAnalysis" where
  "push_transfer signer t acc =
     acc\<lparr>ia_tokenTransfers := ia_tokenTransfers acc @ [t],
         ia_estimatedValue := (if ti_authority t = signer then ia_estimatedValue acc + ti_amount t
                               else ia_estimatedValue acc)\<rparr>"

definition push_dangerous :: "nat \<Rightarrow> address list \<Rightarrow> InstructionAnalysis \<Rightarrow> InstructionAnalysis" where
  "push_dangerous disc accounts acc =
     (let add = (\<lambda>ty. if length accounts \<ge> 1
                  then acc\<lparr>ia_dangerousOperations := ia_dangerousOperations acc @
                         [\<lparr>do_type = ty, do_account = accounts ! 0\<rparr>]\<rparr>
                  else acc)
      in if disc = SPL_APPROVE_DISCRIMINATOR \<or> disc = SPL_APPROVE_CHECKED_DISCRIMINATOR then add approve
         else if disc = SPL_SET_AUTHORITY_DISCRIMINATOR then add setAuthority
         else if disc = SPL_CLOSE_ACCOUNT_DISCRIMINATOR then add closeAccount
         else if disc = SPL_REVOKE_DISCRIMINATOR then add revoke
         else acc)"

text \<open>
  One turn of the loop. \<open>None\<close> is the RangeError of a read out of range; an early \<open>continue\<close>
  returns the accumulator.
\<close>

definition analyze_step ::
  "address \<Rightarrow> InspectableInstruction \<Rightarrow> InstructionAnalysis \<Rightarrow> InstructionAnalysis option" where
  "analyze_step signer ix acc0 =
     (let acc = acc0\<lparr>ia_programIds := set_add (ia_programIds acc0) (ii_programAddress ix)\<rparr>
      in if ii_programAddress ix \<noteq> TOKEN_PROGRAM_ADDRESS \<and> ii_programAddress ix \<noteq> TOKEN_2022_PROGRAM_ADDRESS
         then Some acc
         else case ii_data ix of
           None \<Rightarrow> Some acc
         | Some data \<Rightarrow>
             if length data = 0 then Some acc
             else
               let discriminator = data ! 0;
                   accounts = (case ii_accounts ix of None \<Rightarrow> [] | Some as \<Rightarrow> as)
               in if discriminator = SPL_TRANSFER_DISCRIMINATOR
                  then if length data < 9 \<or> length accounts < 3 then Some acc
                       else (case readU64LE data 1 of
                               None \<Rightarrow> None
                             | Some amount \<Rightarrow>
                                 Some (push_dangerous discriminator accounts (push_transfer signer
                                   \<lparr>ti_mint = None, ti_amount = amount, ti_source = accounts ! 0,
                                    ti_destination = accounts ! 1, ti_authority = accounts ! 2\<rparr> acc)))
                  else if discriminator = SPL_TRANSFER_CHECKED_DISCRIMINATOR
                  then if length data < 10 \<or> length accounts < 4 then Some acc
                       else (case readU64LE data 1 of
                               None \<Rightarrow> None
                             | Some amount \<Rightarrow>
                                 Some (push_dangerous discriminator accounts (push_transfer signer
                                   \<lparr>ti_mint = Some (accounts ! 1), ti_amount = amount, ti_source = accounts ! 0,
                                    ti_destination = accounts ! 2, ti_authority = accounts ! 3\<rparr> acc)))
                  else Some (push_dangerous discriminator accounts acc))"

fun analyze_loop ::
  "address \<Rightarrow> InspectableInstruction list \<Rightarrow> InstructionAnalysis \<Rightarrow> InstructionAnalysis option" where
  "analyze_loop signer [] acc = Some acc"
| "analyze_loop signer (ix # ixs) acc = Option.bind (analyze_step signer ix acc) (analyze_loop signer ixs)"

definition analyzeInstructions ::
  "InspectableInstruction list \<Rightarrow> address \<Rightarrow> InstructionAnalysis option" where
  "analyzeInstructions instructions signerAddress =
     analyze_loop signerAddress instructions
       \<lparr>ia_programIds = [], ia_tokenTransfers = [], ia_estimatedValue = 0, ia_dangerousOperations = []\<rparr>"

section \<open>Reference\<close>

definition ix_accounts :: "InspectableInstruction \<Rightarrow> address list" where
  "ix_accounts ix = (case ii_accounts ix of None \<Rightarrow> [] | Some as \<Rightarrow> as)"

definition is_token_ix :: "InspectableInstruction \<Rightarrow> bool" where
  "is_token_ix ix \<longleftrightarrow> ii_programAddress ix \<in> {TOKEN_PROGRAM_ADDRESS, TOKEN_2022_PROGRAM_ADDRESS}"

text \<open>The transfer an instruction encodes: a token program call, tag 3 or 12, complete data and accounts.\<close>

definition transfer_of :: "InspectableInstruction \<Rightarrow> TokenTransferInfo option" where
  "transfer_of ix =
     (case ii_data ix of
        Some (tag # rest) \<Rightarrow>
          let as = ix_accounts ix; amount = le_value (take 8 rest)
          in if \<not> is_token_ix ix then None
             else if tag = 3 \<and> length rest \<ge> 8 \<and> length as \<ge> 3
             then Some \<lparr>ti_mint = None, ti_amount = amount, ti_source = as ! 0, ti_destination = as ! 1, ti_authority = as ! 2\<rparr>
             else if tag = 12 \<and> length rest \<ge> 9 \<and> length as \<ge> 4
             then Some \<lparr>ti_mint = Some (as ! 1), ti_amount = amount, ti_source = as ! 0, ti_destination = as ! 2, ti_authority = as ! 3\<rparr>
             else None
      | _ \<Rightarrow> None)"

definition transfers_of :: "InspectableInstruction list \<Rightarrow> TokenTransferInfo list" where
  "transfers_of ixs = List.map_filter transfer_of ixs"

definition outgoing_value :: "address \<Rightarrow> TokenTransferInfo list \<Rightarrow> int" where
  "outgoing_value signer ts = sum_where (\<lambda>t. ti_authority t = signer) ti_amount ts"

lemma transfers_of_simps [simp]:
  "transfers_of [] = []"
  "transfers_of (ix # ixs) = (case transfer_of ix of None \<Rightarrow> transfers_of ixs | Some t \<Rightarrow> t # transfers_of ixs)"
  by (simp_all add: transfers_of_def map_filter_simps split: option.split)

lemma push_dangerous_fields [simp]:
  "ia_programIds (push_dangerous d as acc) = ia_programIds acc"
  "ia_tokenTransfers (push_dangerous d as acc) = ia_tokenTransfers acc"
  "ia_estimatedValue (push_dangerous d as acc) = ia_estimatedValue acc"
  by (simp_all add: push_dangerous_def Let_def)

lemma analyze_step_spec:
  "\<exists>acc'. analyze_step signer ix acc = Some acc'
    \<and> ia_programIds acc' = set_add (ia_programIds acc) (ii_programAddress ix)
    \<and> ia_tokenTransfers acc' = ia_tokenTransfers acc @ (case transfer_of ix of None \<Rightarrow> [] | Some t \<Rightarrow> [t])
    \<and> ia_estimatedValue acc' = ia_estimatedValue acc
        + (case transfer_of ix of None \<Rightarrow> 0 | Some t \<Rightarrow> if ti_authority t = signer then ti_amount t else 0)"
proof (cases "is_token_ix ix \<and> (\<exists>tag rest. ii_data ix = Some (tag # rest))")
  case False
  show ?thesis
  proof (cases "is_token_ix ix")
    case True
    with False have "ii_data ix = None \<or> ii_data ix = Some []"
      by (metis list.exhaust option.exhaust)
    then show ?thesis by (auto simp: analyze_step_def transfer_of_def Let_def)
  next
    case not_token: False
    then have "transfer_of ix = None" by (simp add: transfer_of_def Let_def split: option.split list.split)
    then show ?thesis using not_token by (simp add: analyze_step_def is_token_ix_def)
  qed
next
  case True
  then obtain tag rest where d: "ii_data ix = Some (tag # rest)" and tok: "is_token_ix ix" by blast
  have read: "readU64LE (tag # rest) 1 = Some (le_value (take 8 rest))" if "8 \<le> length rest"
    using that by (simp add: readU64LE_def getBigUint64_le_def)
  show ?thesis
    using tok d read
    by (auto simp: analyze_step_def transfer_of_def is_token_ix_def ix_accounts_def Let_def
        spl_discriminators push_transfer_def not_less)
qed

lemma analyze_loop_spec:
  "\<exists>acc'. analyze_loop signer ixs acc = Some acc'
    \<and> set (ia_programIds acc') = set (ia_programIds acc) \<union> ii_programAddress ` set ixs
    \<and> ia_tokenTransfers acc' = ia_tokenTransfers acc @ transfers_of ixs
    \<and> ia_estimatedValue acc' = ia_estimatedValue acc + outgoing_value signer (transfers_of ixs)"
proof (induction ixs arbitrary: acc)
  case (Cons ix ixs)
  obtain acc1 where s: "analyze_step signer ix acc = Some acc1"
    "ia_programIds acc1 = set_add (ia_programIds acc) (ii_programAddress ix)"
    "ia_tokenTransfers acc1 = ia_tokenTransfers acc @ (case transfer_of ix of None \<Rightarrow> [] | Some t \<Rightarrow> [t])"
    "ia_estimatedValue acc1 = ia_estimatedValue acc
        + (case transfer_of ix of None \<Rightarrow> 0 | Some t \<Rightarrow> if ti_authority t = signer then ti_amount t else 0)"
    using analyze_step_spec [of signer ix acc] by blast
  obtain acc2 where "analyze_loop signer ixs acc1 = Some acc2"
    "set (ia_programIds acc2) = set (ia_programIds acc1) \<union> ii_programAddress ` set ixs"
    "ia_tokenTransfers acc2 = ia_tokenTransfers acc1 @ transfers_of ixs"
    "ia_estimatedValue acc2 = ia_estimatedValue acc1 + outgoing_value signer (transfers_of ixs)"
    using Cons.IH [of acc1] by blast
  with s show ?case by (auto simp: outgoing_value_def split: option.splits)
qed (simp add: outgoing_value_def)

lemma analyze_total:
  obtains a where "analyzeInstructions ixs signer = Some a" "ia_tokenTransfers a = transfers_of ixs"
    "ia_estimatedValue a = outgoing_value signer (transfers_of ixs)"
    "set (ia_programIds a) = ii_programAddress ` set ixs"
  using analyze_loop_spec [of signer ixs] that unfolding analyzeInstructions_def by fastforce

lemma transfer_amount_u64:
  assumes "transfer_of ix = Some t" "\<forall>d. ii_data ix = Some d \<longrightarrow> is_bytes d"
  shows "0 \<le> ti_amount t \<and> ti_amount t \<le> U64_MAX"
proof -
  obtain tag rest where d: "ii_data ix = Some (tag # rest)" "8 \<le> length rest"
    and amt: "ti_amount t = le_value (take 8 rest)"
    using assms(1) by (auto simp: transfer_of_def Let_def split: option.splits list.splits if_splits)
  have "is_bytes (take 8 rest)"
    using assms(2) d(1) by (auto simp: is_bytes_def list_all_iff dest: in_set_takeD)
  from le_value_less [OF this] show ?thesis using d(2) amt by (simp add: U64_MAX_def)
qed

lemma transfers_of_u64:
  assumes "\<forall>ix \<in> set ixs. \<forall>d. ii_data ix = Some d \<longrightarrow> is_bytes d" "t \<in> set (transfers_of ixs)"
  shows "0 \<le> ti_amount t \<and> ti_amount t \<le> U64_MAX"
proof -
  obtain ix where "ix \<in> set ixs" "transfer_of ix = Some t"
    using assms(2) by (induction ixs) (auto split: option.splits)
  then show ?thesis using assms(1) by (intro transfer_amount_u64) auto
qed

section \<open>Properties\<close>

text \<open>
  C21. The analyzer never throws and is exact: it reports every program once, exactly the token
  transfers the instructions encode in their order, and as estimated value the sum of those the
  signer authorises; every amount is a u64.
\<close>

theorem analyze_instructions_exact:
  assumes "\<forall>ix \<in> set ixs. \<forall>d. ii_data ix = Some d \<longrightarrow> is_bytes d"
  shows "\<exists>a. analyzeInstructions ixs signer = Some a
    \<and> set (ia_programIds a) = ii_programAddress ` set ixs
    \<and> ia_tokenTransfers a = transfers_of ixs
    \<and> ia_estimatedValue a = outgoing_value signer (transfers_of ixs)
    \<and> (\<forall>t \<in> set (ia_tokenTransfers a). 0 \<le> ti_amount t \<and> ti_amount t \<le> U64_MAX)"
  using analyze_total [of ixs signer] transfers_of_u64 [OF assms] by metis

abbreviation sample_transfer :: InspectableInstruction where
  "sample_transfer \<equiv> \<lparr>ii_programAddress = TOKEN_PROGRAM_ADDRESS, ii_accounts = Some [''src'', ''mint'', ''dst'', ''me''],
     ii_data = Some ([12] @ [64, 66, 15, 0, 0, 0, 0, 0] @ [6])\<rparr>"

theorem analyze_instructions_exact_witness:
  "\<exists>a. analyzeInstructions [sample_transfer] ''me'' = Some a \<and> ia_estimatedValue a = 1000000"
proof -
  have "transfers_of [sample_transfer]
      = [\<lparr>ti_mint = Some ''mint'', ti_amount = 1000000, ti_source = ''src'', ti_destination = ''dst'', ti_authority = ''me''\<rparr>]"
    by (simp add: transfer_of_def is_token_ix_def ix_accounts_def Let_def)
  moreover have "\<exists>a. analyzeInstructions [sample_transfer] ''me'' = Some a
      \<and> set (ia_programIds a) = ii_programAddress ` set [sample_transfer]
      \<and> ia_tokenTransfers a = transfers_of [sample_transfer]
      \<and> ia_estimatedValue a = outgoing_value ''me'' (transfers_of [sample_transfer])
      \<and> (\<forall>t \<in> set (ia_tokenTransfers a). 0 \<le> ti_amount t \<and> ti_amount t \<le> U64_MAX)"
    by (rule analyze_instructions_exact) (simp add: is_bytes_def)
  ultimately show ?thesis by (auto simp: outgoing_value_def)
qed

end
