(* ===== verification/ShieldTracker.thy ===== *)
theory ShieldTracker
  imports SpendLedger StateResolver Inspector
begin

text \<open>
  The class \<open>ShieldState\<close> of \<open>sdk/kit/src/shield.ts\<close>: spend and transaction entries with lazy
  pruning, the on-chain baseline and the optimistic local additions. It refines the spend ledger
  for windows up to 24 hours.
\<close>

record 'c ShieldState =
  sh_spendEntries :: "SpendEntry list"
  sh_txEntries :: "msecs list"
  sh_resolvedState :: "'c ResolvedVaultState option"
  sh_localUsdAdditions :: int
  sh_network :: "string option"
  sh_enforceUsed :: bool

definition newShieldState :: "'c ShieldState" where
  "newShieldState = \<lparr>sh_spendEntries = [], sh_txEntries = [], sh_resolvedState = None,
     sh_localUsdAdditions = 0, sh_network = None, sh_enforceUsed = False\<rparr>"

definition getSpendInWindow :: "'c ShieldState \<Rightarrow> string \<Rightarrow> int \<Rightarrow> msecs \<Rightarrow> int" where
  "getSpendInWindow st mint windowMs now =
     (let cutoff = now - windowMs
      in sum_where (\<lambda>e. spe_mint e = mint \<and> spe_timestamp e \<ge> cutoff) spe_amount (sh_spendEntries st))"

definition getTotalSpendInWindow :: "'c ShieldState \<Rightarrow> int \<Rightarrow> msecs \<Rightarrow> int" where
  "getTotalSpendInWindow st windowMs now =
     (let cutoff = now - windowMs
      in sum_where (\<lambda>e. spe_timestamp e \<ge> cutoff) spe_amount (sh_spendEntries st))"

definition getTransactionCountInWindow :: "'c ShieldState \<Rightarrow> int \<Rightarrow> msecs \<Rightarrow> nat" where
  "getTransactionCountInWindow st windowMs now =
     length (filter (\<lambda>t. t \<ge> now - windowMs) (sh_txEntries st))"

definition PRUNE_THRESHOLD :: nat where "PRUNE_THRESHOLD = 10000"

definition prune :: "'c ShieldState \<Rightarrow> msecs \<Rightarrow> 'c ShieldState" where
  "prune st now =
     (let cutoff = now - 86400000;
          st1 = (if length (sh_spendEntries st) > PRUNE_THRESHOLD
                 then st\<lparr>sh_spendEntries := filter (\<lambda>e. spe_timestamp e \<ge> cutoff) (sh_spendEntries st)\<rparr>
                 else st)
      in if length (sh_txEntries st1) > PRUNE_THRESHOLD
         then st1\<lparr>sh_txEntries := filter (\<lambda>t. t \<ge> cutoff) (sh_txEntries st1)\<rparr> else st1)"

definition recordSpend :: "'c ShieldState \<Rightarrow> string \<Rightarrow> int \<Rightarrow> msecs \<Rightarrow> 'c ShieldState" where
  "recordSpend st mint amount now =
     prune (st\<lparr>sh_spendEntries := sh_spendEntries st @ [spend_entry mint amount now]\<rparr>) now"

definition recordTx :: "'c ShieldState \<Rightarrow> msecs \<Rightarrow> 'c ShieldState" where
  "recordTx st now = prune (st\<lparr>sh_txEntries := sh_txEntries st @ [now]\<rparr>) now"

definition syncFromOnChain :: "'c ShieldState \<Rightarrow> 'c ResolvedVaultState \<Rightarrow> string option \<Rightarrow> 'c ShieldState" where
  "syncFromOnChain st state network =
     (let st1 = st\<lparr>sh_resolvedState := Some state, sh_localUsdAdditions := 0\<rparr>
      in case network of None \<Rightarrow> st1 | Some n \<Rightarrow> st1\<lparr>sh_network := Some n\<rparr>)"

definition recordUsdSpend :: "'c ShieldState \<Rightarrow> int \<Rightarrow> 'c ShieldState" where
  "recordUsdSpend st amount = st\<lparr>sh_localUsdAdditions := sh_localUsdAdditions st + amount\<rparr>"

definition getEffectiveGlobalSpent24h :: "'c ShieldState \<Rightarrow> int" where
  "getEffectiveGlobalSpent24h st =
     (case sh_resolvedState st of
        None \<Rightarrow> sh_localUsdAdditions st
      | Some rs \<Rightarrow> bu_spent24h (rv_globalBudget rs) + sh_localUsdAdditions st)"

definition getEffectiveGlobalRemaining :: "'c ShieldState \<Rightarrow> int option" where
  "getEffectiveGlobalRemaining st =
     (case sh_resolvedState st of
        None \<Rightarrow> None
      | Some rs \<Rightarrow>
          let cap = bu_cap (rv_globalBudget rs); spent = getEffectiveGlobalSpent24h st
          in Some (if spent < cap then cap - spent else 0))"

definition getEffectiveAgentSpent24h :: "'c ShieldState \<Rightarrow> int option" where
  "getEffectiveAgentSpent24h st =
     (case sh_resolvedState st of
        None \<Rightarrow> None
      | Some rs \<Rightarrow> (case rv_agentBudget rs of
          None \<Rightarrow> None
        | Some b \<Rightarrow> Some (bu_spent24h b + sh_localUsdAdditions st)))"

definition getEffectiveAgentRemaining :: "'c ShieldState \<Rightarrow> int option" where
  "getEffectiveAgentRemaining st =
     (case sh_resolvedState st of
        None \<Rightarrow> None
      | Some rs \<Rightarrow> (case rv_agentBudget rs of
          None \<Rightarrow> None
        | Some b \<Rightarrow>
            let cap = bu_cap b; spent = bu_spent24h b + sh_localUsdAdditions st
            in Some (if spent < cap then cap - spent else 0)))"

definition markEnforceUsed :: "'c ShieldState \<Rightarrow> 'c ShieldState" where
  "markEnforceUsed st = st\<lparr>sh_enforceUsed := True\<rparr>"

record 'c Checkpoint =
  cp_spendEntries :: "SpendEntry list"
  cp_txEntries :: "msecs list"
  cp_resolvedState :: "'c ResolvedVaultState option"
  cp_localUsdAdditions :: int
  cp_network :: "string option"
  cp_enforceUsed :: bool

definition checkpoint :: "'c ShieldState \<Rightarrow> 'c Checkpoint" where
  "checkpoint st = \<lparr>cp_spendEntries = sh_spendEntries st, cp_txEntries = sh_txEntries st,
     cp_resolvedState = sh_resolvedState st, cp_localUsdAdditions = sh_localUsdAdditions st,
     cp_network = sh_network st, cp_enforceUsed = sh_enforceUsed st\<rparr>"

definition rollback :: "'c ShieldState \<Rightarrow> 'c Checkpoint \<Rightarrow> 'c ShieldState" where
  "rollback st cp = st\<lparr>sh_spendEntries := cp_spendEntries cp, sh_txEntries := cp_txEntries cp,
     sh_resolvedState := cp_resolvedState cp, sh_localUsdAdditions := cp_localUsdAdditions cp,
     sh_network := cp_network cp, sh_enforceUsed := cp_enforceUsed cp\<rparr>"

definition reset :: "'c ShieldState \<Rightarrow> 'c ShieldState" where
  "reset st = st\<lparr>sh_spendEntries := [], sh_txEntries := [], sh_resolvedState := None,
     sh_localUsdAdditions := 0, sh_network := None, sh_enforceUsed := False\<rparr>"

section \<open>Facts\<close>

lemma prune_fields [simp]:
  "sh_resolvedState (prune st now) = sh_resolvedState st"
  "sh_localUsdAdditions (prune st now) = sh_localUsdAdditions st"
  "sh_network (prune st now) = sh_network st"
  "sh_enforceUsed (prune st now) = sh_enforceUsed st"
  by (simp_all add: prune_def Let_def)

lemma record_fields [simp]:
  "sh_resolvedState (recordSpend st m a now) = sh_resolvedState st"
  "sh_localUsdAdditions (recordSpend st m a now) = sh_localUsdAdditions st"
  "sh_network (recordSpend st m a now) = sh_network st"
  "sh_resolvedState (recordTx st now) = sh_resolvedState st"
  "sh_localUsdAdditions (recordTx st now) = sh_localUsdAdditions st"
  "sh_network (recordTx st now) = sh_network st"
  by (simp_all add: recordSpend_def recordTx_def)

text \<open>Pruning drops only entries older than 24 hours, so both views agree on any shorter window.\<close>

definition day_part :: "msecs \<Rightarrow> SpendEntry list \<Rightarrow> SpendEntry list" where
  "day_part now h = filter (\<lambda>e. spe_timestamp e \<ge> now - 86400000) h"

definition shield_rel :: "msecs \<Rightarrow> 'c ShieldState \<Rightarrow> SpendEntry list \<Rightarrow> bool" where
  "shield_rel now st h \<longleftrightarrow> day_part now (sh_spendEntries st) = day_part now h"

definition shield_covers :: "int \<Rightarrow> SpendEntry list \<Rightarrow> bool" where
  "shield_covers w h \<longleftrightarrow> w \<le> 86400000"

lemma day_part_append [simp]: "day_part now (h @ h') = day_part now h @ day_part now h'"
  by (simp add: day_part_def)

lemma day_part_idem [simp]: "day_part now (day_part now h) = day_part now h"
  by (simp add: day_part_def)

lemma day_part_later: "now \<le> now' \<Longrightarrow> day_part now' (day_part now h) = day_part now' h"
  unfolding day_part_def filter_filter by (rule filter_cong) auto

lemma day_part_prune [simp]: "day_part now (sh_spendEntries (prune st now)) = day_part now (sh_spendEntries st)"
  by (simp add: prune_def Let_def day_part_def)

lemma getSpendInWindow_sum: "getSpendInWindow st m w now = ledger_sum m (now - w) (sh_spendEntries st)"
  by (simp add: getSpendInWindow_def ledger_sum_def)

interpretation shield_ledger: spend_ledger recordSpend getSpendInWindow shield_rel shield_covers
proof unfold_locales
  fix now now' w :: int and st :: "'c ShieldState" and h h' m a
  show "getSpendInWindow st m w now = ledger_sum m (now - w) h" if "shield_rel now st h" "shield_covers w h"
  proof -
    have "ledger_sum m (now - w) es = ledger_sum m (now - w) (day_part now es)" for es
      using that(2) by (simp add: day_part_def shield_covers_def ledger_sum_filter)
    then show ?thesis using that(1) unfolding getSpendInWindow_sum shield_rel_def by metis
  qed
  show "shield_rel now st h \<Longrightarrow> shield_rel now (recordSpend st m a now) (h @ [spend_entry m a now])"
    by (simp add: shield_rel_def recordSpend_def)
  show "shield_rel now st h \<Longrightarrow> now \<le> now' \<Longrightarrow> shield_rel now' st h"
    unfolding shield_rel_def by (metis day_part_later)
  show "shield_covers w (h @ h') \<Longrightarrow> shield_covers w h" by (simp add: shield_covers_def)
qed

lemma shield_rel_irrelevant [simp]:
  "shield_rel now (recordTx st now) h = shield_rel now st h"
  "shield_rel now (recordUsdSpend st n) h = shield_rel now st h"
  "shield_rel now (markEnforceUsed st) h = shield_rel now st h"
proof -
  show "shield_rel now (recordTx st now) h = shield_rel now st h"
    by (simp add: shield_rel_def recordTx_def)
qed (simp_all add: shield_rel_def recordUsdSpend_def markEnforceUsed_def)

lemma record_all_fields [simp]:
  "sh_resolvedState (fold (\<lambda>(m, a) s. recordSpend s m a now) kvs st) = sh_resolvedState st"
  "sh_localUsdAdditions (fold (\<lambda>(m, a) s. recordSpend s m a now) kvs st) = sh_localUsdAdditions st"
  "sh_network (fold (\<lambda>(m, a) s. recordSpend s m a now) kvs st) = sh_network st"
  by (induction kvs arbitrary: st) auto

section \<open>Properties\<close>

text \<open>
  Rolling back restores the checkpointed state completely, whatever was recorded, synced or
  reset in between.
\<close>

theorem checkpoint_rollback: "rollback st' (checkpoint st) = st"
  by (simp add: rollback_def checkpoint_def)

end
