(* ===== verification/Shield.thy ===== *)
theory Shield
  imports ShieldTracker
begin

text \<open>
  \<open>sdk/kit/src/shield.ts\<close>: policy evaluation, the shield context with its operations and the
  shielded signer.

  A violation is its rule with the values its message interpolates. Logger warnings and the
  \<open>onDenied\<close>, \<open>onApproved\<close>, \<open>onPolicyUpdate\<close>, \<open>onPause\<close> and \<open>onResume\<close> callbacks are events
  appended to the context's log, in order; the callbacks themselves are the caller's. One clock
  reading serves one synchronous operation.
\<close>

section \<open>Violations and events\<close>

datatype shield_violation =
    program_allowlist address
  | spend_limit address int int
  | rate_limit nat int
  | custom_rule string
  | on_chain_tx_size int int
  | on_chain_vault_cap int int
  | on_chain_agent_cap int int
  | paused_rule
  | velocity_tx_ceiling nat int
  | velocity_usd_ceiling int int
  | simulation_rule string
  | session_binding_missing_message
  | session_binding_no_sigil
  | session_binding_incomplete bool bool

datatype shield_error = Denied "shield_violation list" | SdkError sdk_error | ConfigError config_error

datatype shield_event =
    WarnNoSync | WarnStale int | WarnBinding | WarnDoubleCount | WarnNoAltCache
  | OnDenied "shield_violation list" | OnApproved | OnPolicyUpdate | OnPause | OnResume

section \<open>evaluateInstructions\<close>

type_synonym custom_check = "TransactionAnalysis \<Rightarrow> (js_error, PolicyCheckResult) result"

definition SHIELD_SYSTEM_PROGRAMS :: "address list" where
  "SHIELD_SYSTEM_PROGRAMS = [SYSTEM_PROGRAM_ADDRESS, COMPUTE_BUDGET_PROGRAM_ADDRESS, ATA_PROGRAM_ADDRESS]"

definition computeStablecoinUsd :: "TokenTransferInfo list \<Rightarrow> address \<Rightarrow> string \<Rightarrow> int" where
  "computeStablecoinUsd transfers signerAddress network =
     sum_where (\<lambda>t. ti_authority t = signerAddress
       \<and> (case ti_mint t of None \<Rightarrow> False | Some m \<Rightarrow> isStablecoinMint m network)) ti_amount transfers"

definition allowlist_violations :: "ResolvedPolicies \<Rightarrow> InstructionAnalysis \<Rightarrow> shield_violation list" where
  "allowlist_violations resolved analysis =
     (case rp_allowedProtocols resolved of
        None \<Rightarrow> []
      | Some allowed \<Rightarrow>
          if rp_blockUnknownPrograms resolved
          then map program_allowlist
                 (filter (\<lambda>pid. pid \<notin> set SHIELD_SYSTEM_PROGRAMS \<and> pid \<notin> set allowed) (ia_programIds analysis))
          else [])"

definition sl_window :: "SpendLimit \<Rightarrow> int" where
  "sl_window l = (case sl_windowMs l of None \<Rightarrow> 86400000 | Some w \<Rightarrow> w)"

text \<open>Plain transfers carry no mint and count against every limit.\<close>

definition tx_spend :: "TokenTransferInfo list \<Rightarrow> address \<Rightarrow> address \<Rightarrow> int" where
  "tx_spend transfers signerAddress mint =
     sum_where (\<lambda>t. ti_authority t = signerAddress \<and> (ti_mint t = Some mint \<or> ti_mint t = None)) ti_amount transfers"

definition spend_violations ::
  "ResolvedPolicies \<Rightarrow> InstructionAnalysis \<Rightarrow> address \<Rightarrow> 'c ShieldState \<Rightarrow> msecs \<Rightarrow> shield_violation list" where
  "spend_violations resolved analysis signerAddress st now =
     concat (map (\<lambda>limit.
       let currentSpend = getSpendInWindow st (sl_mint limit) (sl_window limit) now;
           txSpend = tx_spend (ia_tokenTransfers analysis) signerAddress (sl_mint limit)
       in if currentSpend + txSpend > sl_amount limit
          then [spend_limit (sl_mint limit) (currentSpend + txSpend) (sl_amount limit)] else [])
       (rp_spendLimits resolved))"

definition rate_violations :: "ResolvedPolicies \<Rightarrow> 'c ShieldState \<Rightarrow> msecs \<Rightarrow> shield_violation list" where
  "rate_violations resolved st now =
     (let count = getTransactionCountInWindow st (rp_rateWindowMs resolved) now
      in if int count \<ge> rp_maxTransactions resolved then [rate_limit count (rp_maxTransactions resolved)] else [])"

definition custom_analysis :: "InstructionAnalysis \<Rightarrow> address \<Rightarrow> TransactionAnalysis" where
  "custom_analysis analysis signerAddress =
     \<lparr>ta_programIds = ia_programIds analysis,
      ta_transfers = map (\<lambda>t. \<lparr>tt_mint = (case ti_mint t of None \<Rightarrow> [] | Some m \<Rightarrow> m), tt_amount = ti_amount t,
        tt_direction = (if ti_authority t = signerAddress then outgoing else unknown_direction),
        tt_destination = Some (ti_destination t)\<rparr>) (ia_tokenTransfers analysis),
      ta_estimatedValueLamports = ia_estimatedValue analysis\<rparr>"

definition custom_violations ::
  "custom_check option \<Rightarrow> InstructionAnalysis \<Rightarrow> address \<Rightarrow> (sdk_error, shield_violation list) result" where
  "custom_violations customCheck analysis signerAddress =
     (case customCheck of
        None \<Rightarrow> Inr []
      | Some f \<Rightarrow>
          rbind (lift_err (f (custom_analysis analysis signerAddress))) (\<lambda>r.
            Inr (if pcr_allowed r then []
                 else [custom_rule (case pcr_reason r of None \<Rightarrow> ''Custom policy check failed'' | Some m \<Rightarrow> m)])))"

definition on_chain_violations ::
  "InstructionAnalysis \<Rightarrow> address \<Rightarrow> 'c ShieldState \<Rightarrow> string option \<Rightarrow> shield_violation list" where
  "on_chain_violations analysis signerAddress st network =
     (let effectiveNetwork = (case network of None \<Rightarrow> sh_network st | Some n \<Rightarrow> Some n)
      in case (sh_resolvedState st, effectiveNetwork) of
           (Some rs, Some net) \<Rightarrow>
             if net = [] then []
             else
               let usd = computeStablecoinUsd (ia_tokenTransfers analysis) signerAddress net
               in if usd > 0
                  then
                    (if usd > rv_maxTransactionUsd rs then [on_chain_tx_size usd (rv_maxTransactionUsd rs)] else [])
                    @ (let spent = getEffectiveGlobalSpent24h st
                       in if spent + usd > bu_cap (rv_globalBudget rs)
                          then [on_chain_vault_cap (spent + usd) (bu_cap (rv_globalBudget rs))] else [])
                    @ (case (getEffectiveAgentSpent24h st, rv_agentBudget rs) of
                         (Some spent, Some b) \<Rightarrow>
                           if spent + usd > bu_cap b then [on_chain_agent_cap (spent + usd) (bu_cap b)] else []
                       | _ \<Rightarrow> [])
                  else []
         | _ \<Rightarrow> [])"

definition evaluateInstructions ::
  "InspectableInstruction list \<Rightarrow> address \<Rightarrow> ResolvedPolicies \<Rightarrow> custom_check option \<Rightarrow> 'c ShieldState
    \<Rightarrow> string option \<Rightarrow> msecs \<Rightarrow> (sdk_error, shield_violation list \<times> InstructionAnalysis) result" where
  "evaluateInstructions instructions signerAddress resolved customCheck st network now =
     rbind (case network of None \<Rightarrow> Inr () | Some n \<Rightarrow> if n = [] then Inr () else validateNetwork n) (\<lambda>_.
     case analyzeInstructions instructions signerAddress of
       None \<Rightarrow> Inl JS_TYPE_ERROR
     | Some analysis \<Rightarrow>
         rbind (custom_violations customCheck analysis signerAddress) (\<lambda>customViolations.
         Inr (allowlist_violations resolved analysis
              @ spend_violations resolved analysis signerAddress st now
              @ rate_violations resolved st now
              @ customViolations
              @ on_chain_violations analysis signerAddress st network, analysis)))"

section \<open>The shield context\<close>

record SyncConfig =
  sy_vaultAddress :: address
  sy_agentAddress :: address
  sy_network :: string

record 'c ShieldedContext =
  sc_resolved :: ResolvedPolicies
  sc_customCheck :: "custom_check option"
  sc_state :: "'c ShieldState"
  sc_paused :: bool
  sc_sync :: "SyncConfig option"
  sc_staleness :: int
  sc_events :: "shield_event list"

abbreviation emit :: "shield_event list \<Rightarrow> 'c ShieldedContext \<Rightarrow> 'c ShieldedContext" where
  "emit evs ctx \<equiv> ctx\<lparr>sc_events := sc_events ctx @ evs\<rparr>"

definition shield ::
  "ShieldPolicies option \<Rightarrow> custom_check option \<Rightarrow> SyncConfig option \<Rightarrow> int option
    \<Rightarrow> (shield_error, 'c ShieldedContext) result" where
  "shield policies customCheck syncConfig staleness =
     (case resolvePolicies policies of
        Inl e \<Rightarrow> Inl (ConfigError e)
      | Inr resolved \<Rightarrow>
          (case (case syncConfig of None \<Rightarrow> Inr () | Some c \<Rightarrow> validateNetwork (sy_network c)) of
             Inl e \<Rightarrow> Inl (SdkError e)
           | Inr _ \<Rightarrow>
               Inr \<lparr>sc_resolved = resolved, sc_customCheck = customCheck, sc_state = newShieldState,
                    sc_paused = False, sc_sync = syncConfig,
                    sc_staleness = (case staleness of None \<Rightarrow> 300 | Some s \<Rightarrow> s),
                    sc_events = (case syncConfig of None \<Rightarrow> [WarnNoSync] | Some _ \<Rightarrow> [])\<rparr>))"

definition stale_warning :: "'c ShieldState \<Rightarrow> int \<Rightarrow> msecs \<Rightarrow> shield_event list" where
  "stale_warning st thresholdSec now =
     (case sh_resolvedState st of
        None \<Rightarrow> []
      | Some rs \<Rightarrow>
          let age = now div 1000 - rv_resolvedAtTimestamp rs
          in if age > thresholdSec then [WarnStale age] else [])"

definition sync_network :: "'c ShieldedContext \<Rightarrow> string option" where
  "sync_network ctx = map_option sy_network (sc_sync ctx)"

text \<open>\<open>check\<close>: the verdict, or the error the evaluation throws, and the context with its events.\<close>

definition shield_check ::
  "'c ShieldedContext \<Rightarrow> InspectableInstruction list \<Rightarrow> address \<Rightarrow> msecs
    \<Rightarrow> (sdk_error, bool \<times> shield_violation list) result \<times> 'c ShieldedContext" where
  "shield_check ctx instructions signerAddress now =
     (if sc_paused ctx then (Inr (False, [paused_rule]), ctx)
      else
        let ctx1 = emit (stale_warning (sc_state ctx) (sc_staleness ctx) now) ctx
        in (rbind (evaluateInstructions instructions signerAddress (sc_resolved ctx) (sc_customCheck ctx)
              (sc_state ctx) (sync_network ctx) now) (\<lambda>(violations, _).
              Inr (length violations = 0, violations)), ctx1))"

text \<open>The spends \<open>enforce\<close> records: every transfer the signer authorises, under \<open>mint ?? ""\<close>.\<close>

definition recorded_spends :: "address \<Rightarrow> TokenTransferInfo list \<Rightarrow> (string \<times> int) list" where
  "recorded_spends signerAddress transfers =
     map (\<lambda>t. (case ti_mint t of None \<Rightarrow> [] | Some m \<Rightarrow> m, ti_amount t))
       (filter (\<lambda>t. ti_authority t = signerAddress) transfers)"

definition record_approved ::
  "'c ShieldState \<Rightarrow> InstructionAnalysis \<Rightarrow> address \<Rightarrow> string option \<Rightarrow> msecs \<Rightarrow> 'c ShieldState" where
  "record_approved st analysis signerAddress usdNetwork now =
     (let st1 = fold (\<lambda>(m, a) s. recordSpend s m a now) (recorded_spends signerAddress (ia_tokenTransfers analysis)) st;
          st2 = recordTx st1 now
      in case (sh_resolvedState st2, usdNetwork) of
           (Some _, Some net) \<Rightarrow>
             let stablecoinUsd = computeStablecoinUsd (ia_tokenTransfers analysis) signerAddress net
             in if stablecoinUsd > 0 then recordUsdSpend st2 stablecoinUsd else st2
         | _ \<Rightarrow> st2)"

definition shield_enforce ::
  "'c ShieldedContext \<Rightarrow> InspectableInstruction list \<Rightarrow> address \<Rightarrow> msecs
    \<Rightarrow> (shield_error, unit) result \<times> 'c ShieldedContext" where
  "shield_enforce ctx instructions signerAddress now =
     (if sc_paused ctx then (Inl (Denied [paused_rule]), emit [OnDenied [paused_rule]] ctx)
      else
        let ctx1 = emit (stale_warning (sc_state ctx) (sc_staleness ctx) now) ctx
        in case evaluateInstructions instructions signerAddress (sc_resolved ctx) (sc_customCheck ctx)
                  (sc_state ctx) (sync_network ctx) now of
             Inl e \<Rightarrow> (Inl (SdkError e), ctx1)
           | Inr (violations, analysis) \<Rightarrow>
               if length violations > 0
               then (Inl (Denied violations), emit [OnDenied violations] ctx1)
               else (Inr (), emit [OnApproved] (ctx1\<lparr>sc_state := markEnforceUsed
                      (record_approved (sc_state ctx1) analysis signerAddress (sync_network ctx) now)\<rparr>)))"

definition shield_updatePolicies ::
  "'c ShieldedContext \<Rightarrow> ShieldPolicies \<Rightarrow> custom_check option
    \<Rightarrow> (shield_error, unit) result \<times> 'c ShieldedContext" where
  "shield_updatePolicies ctx newPolicies newCustom =
     (case resolvePolicies (Some newPolicies) of
        Inl e \<Rightarrow> (Inl (ConfigError e), ctx)
      | Inr r \<Rightarrow> (Inr (), emit [OnPolicyUpdate] (ctx\<lparr>sc_resolved := r, sc_customCheck := newCustom\<rparr>)))"

definition shield_resetState :: "'c ShieldedContext \<Rightarrow> 'c ShieldedContext" where
  "shield_resetState ctx = ctx\<lparr>sc_state := reset (sc_state ctx)\<rparr>"

definition shield_pause :: "'c ShieldedContext \<Rightarrow> 'c ShieldedContext" where
  "shield_pause ctx = emit [OnPause] (ctx\<lparr>sc_paused := True\<rparr>)"

definition shield_resume :: "'c ShieldedContext \<Rightarrow> 'c ShieldedContext" where
  "shield_resume ctx = emit [OnResume] (ctx\<lparr>sc_paused := False\<rparr>)"

text \<open>\<open>fetched\<close> is the outcome of \<open>resolveVaultState\<close> for the configured vault and agent.\<close>

definition shield_sync ::
  "'c ShieldedContext \<Rightarrow> (SyncConfig \<Rightarrow> (sdk_error, 'c ResolvedVaultState) result)
    \<Rightarrow> (shield_error, unit) result \<times> 'c ShieldedContext" where
  "shield_sync ctx fetched =
     (case sc_sync ctx of
        None \<Rightarrow> (Inl (SdkError (SDK_INVALID_CONFIG ''onChainSync'')), ctx)
      | Some c \<Rightarrow>
          (case fetched c of
             Inl e \<Rightarrow> (Inl (SdkError e), ctx)
           | Inr rs \<Rightarrow> (Inr (), ctx\<lparr>sc_state := syncFromOnChain (sc_state ctx) rs (Some (sy_network c))\<rparr>)))"

record TokenSummary =
  tsu_mint :: address
  tsu_spent :: int
  tsu_limit :: int
  tsu_remaining :: int
  tsu_windowMs :: int

record OnChainSummary =
  ocs_globalSpent24h :: int
  ocs_globalCap :: int
  ocs_globalRemaining :: int
  ocs_agentSpent24h :: "int option"
  ocs_agentCap :: "int option"
  ocs_agentRemaining :: "int option"
  ocs_maxTransactionUsd :: int
  ocs_localAdditions :: int
  ocs_syncedAt :: int

record SpendingSummary =
  ssu_tokens :: "TokenSummary list"
  ssu_count :: nat
  ssu_limit :: int
  ssu_remaining :: int
  ssu_windowMs :: int
  ssu_isPaused :: bool
  ssu_onChain :: "OnChainSummary option"

definition getSpendingSummary :: "'c ShieldedContext \<Rightarrow> msecs \<Rightarrow> SpendingSummary" where
  "getSpendingSummary ctx now =
     (let st = sc_state ctx; resolved = sc_resolved ctx;
          txCount = getTransactionCountInWindow st (rp_rateWindowMs resolved) now
      in \<lparr>ssu_tokens = map (\<lambda>limit.
            let spent = getSpendInWindow st (sl_mint limit) (sl_window limit) now
            in \<lparr>tsu_mint = sl_mint limit, tsu_spent = spent, tsu_limit = sl_amount limit,
                tsu_remaining = monus (sl_amount limit) spent, tsu_windowMs = sl_window limit\<rparr>)
            (rp_spendLimits resolved),
          ssu_count = txCount, ssu_limit = rp_maxTransactions resolved,
          ssu_remaining = max 0 (rp_maxTransactions resolved - int txCount),
          ssu_windowMs = rp_rateWindowMs resolved, ssu_isPaused = sc_paused ctx,
          ssu_onChain = map_option (\<lambda>rs.
            \<lparr>ocs_globalSpent24h = getEffectiveGlobalSpent24h st, ocs_globalCap = bu_cap (rv_globalBudget rs),
             ocs_globalRemaining = (case getEffectiveGlobalRemaining st of None \<Rightarrow> 0 | Some r \<Rightarrow> r),
             ocs_agentSpent24h = getEffectiveAgentSpent24h st,
             ocs_agentCap = map_option bu_cap (rv_agentBudget rs),
             ocs_agentRemaining = getEffectiveAgentRemaining st,
             ocs_maxTransactionUsd = rv_maxTransactionUsd rs,
             ocs_localAdditions = sh_localUsdAdditions st,
             ocs_syncedAt = rv_resolvedAtTimestamp rs\<rparr>) (sh_resolvedState st)\<rparr>)"

end
