(* ===== verification/ShieldRuns.thy ===== *)
theory ShieldRuns
  imports Shield
begin

text \<open>
  Runs of a shield context: every sequence of checks, enforcements, pauses, syncs, policy updates
  and resets on an advancing clock. \<open>shield_run\<close> carries two ghost values, the history of all
  spends recorded by approved enforcements and the stablecoin value approved since the last sync, read off the
  bytes of the instructions;
  the safety theorems bound them by the configured limits and the on-chain caps.
\<close>

section \<open>One step\<close>

lemma evaluate_transfers:
  assumes "evaluateInstructions ixs s resolved cc st net now = Inr (vs, analysis)"
  shows "ia_tokenTransfers analysis = transfers_of ixs"
proof -
  obtain a where a: "analyzeInstructions ixs s = Some a" "ia_tokenTransfers a = transfers_of ixs"
    by (rule analyze_total)
  show ?thesis using assms a by (auto simp: evaluateInstructions_def)
qed

lemma evaluate_clean:
  assumes "evaluateInstructions ixs s resolved cc st net now = Inr ([], analysis)"
  shows "spend_violations resolved analysis s st now = []" "on_chain_violations analysis s st net = []"
    "rate_violations resolved st now = []" "allowlist_violations resolved analysis = []"
  using assms by (auto simp: evaluateInstructions_def split: option.splits)

lemma emit_fields [simp]:
  "sc_state (emit evs ctx) = sc_state ctx" "sc_resolved (emit evs ctx) = sc_resolved ctx"
  "sc_sync (emit evs ctx) = sc_sync ctx" "sc_paused (emit evs ctx) = sc_paused ctx"
  "sync_network (emit evs ctx) = sync_network ctx"
  by (simp_all add: sync_network_def)

lemma enforce_approved:
  assumes "shield_enforce ctx ixs s now = (Inr (), ctx')"
  obtains analysis where "evaluateInstructions ixs s (sc_resolved ctx) (sc_customCheck ctx)
      (sc_state ctx) (sync_network ctx) now = Inr ([], analysis)"
    "\<not> sc_paused ctx" "sc_resolved ctx' = sc_resolved ctx" "sc_sync ctx' = sc_sync ctx"
    "sc_state ctx' = markEnforceUsed (record_approved (sc_state ctx) analysis s (sync_network ctx) now)"
  using assms by (auto simp: shield_enforce_def Let_def split: if_splits sum.splits)

lemma enforce_denied:
  "shield_enforce ctx ixs s now = (Inl e, ctx')
    \<Longrightarrow> sc_state ctx' = sc_state ctx \<and> sc_resolved ctx' = sc_resolved ctx \<and> sc_sync ctx' = sc_sync ctx"
  by (auto simp: shield_enforce_def Let_def split: if_splits sum.splits)

lemma check_fields:
  "sc_state (snd (shield_check ctx ixs s now)) = sc_state ctx
    \<and> sc_resolved (snd (shield_check ctx ixs s now)) = sc_resolved ctx
    \<and> sc_sync (snd (shield_check ctx ixs s now)) = sc_sync ctx"
  by (simp add: shield_check_def Let_def)

text \<open>What is recorded under a mint is part of what was checked against its limit.\<close>

lemma recorded_le_checked:
  assumes "\<And>t. t \<in> set ts \<Longrightarrow> 0 \<le> ti_amount t" "m \<noteq> []"
  shows "0 \<le> keyed_sum m (recorded_spends s ts) \<and> keyed_sum m (recorded_spends s ts) \<le> tx_spend ts s m"
  using assms
proof (induction ts)
  case (Cons t ts)
  have "0 \<le> ti_amount t" by (simp add: Cons.prems)
  moreover have "0 \<le> keyed_sum m (recorded_spends s ts) \<and> keyed_sum m (recorded_spends s ts) \<le> tx_spend ts s m"
    using Cons by simp
  ultimately show ?case
    using Cons.prems(2) by (cases "ti_mint t") (auto simp: recorded_spends_def tx_spend_def)
qed (simp add: recorded_spends_def tx_spend_def)

lemma spend_checked:
  assumes "spend_violations resolved analysis s st now = []" "l \<in> set (rp_spendLimits resolved)"
  shows "getSpendInWindow st (sl_mint l) (sl_window l) now + tx_spend (ia_tokenTransfers analysis) s (sl_mint l)
    \<le> sl_amount l"
  using assms unfolding spend_violations_def concat_map_Nil Let_def by (auto split: if_splits)

lemma on_chain_checked:
  assumes "on_chain_violations analysis s st (Some net) = []" "sh_resolvedState st = Some rs" "net \<noteq> []"
    and "0 < computeStablecoinUsd (ia_tokenTransfers analysis) s net"
  shows "computeStablecoinUsd (ia_tokenTransfers analysis) s net \<le> rv_maxTransactionUsd rs"
    and "getEffectiveGlobalSpent24h st + computeStablecoinUsd (ia_tokenTransfers analysis) s net \<le> bu_cap (rv_globalBudget rs)"
    and "rv_agentBudget rs = Some b \<Longrightarrow> getEffectiveAgentSpent24h st = Some n
      \<Longrightarrow> n + computeStablecoinUsd (ia_tokenTransfers analysis) s net \<le> bu_cap b"
  using assms by (auto simp: on_chain_violations_def Let_def split: if_splits)

lemma record_approved_fields:
  "sh_resolvedState (record_approved st a s net now) = sh_resolvedState st"
  "sh_localUsdAdditions (record_approved st a s net now) = sh_localUsdAdditions st
     + (case (sh_resolvedState st, net) of
          (Some _, Some n) \<Rightarrow> max 0 (computeStablecoinUsd (ia_tokenTransfers a) s n)
        | _ \<Rightarrow> 0)"
  by (auto simp: record_approved_def Let_def recordUsdSpend_def split: option.splits)

lemma record_approved_rel:
  assumes "shield_rel now st h"
  shows "shield_rel now (record_approved st a s net now)
    (h @ map (\<lambda>(m, n). spend_entry m n now) (recorded_spends s (ia_tokenTransfers a)))"
  using shield_ledger.rel_record_all [OF assms, of "recorded_spends s (ia_tokenTransfers a)"]
  by (auto simp: record_approved_def Let_def split: option.splits)

section \<open>Stablecoin value\<close>

text \<open>The data of an instruction is an array of bytes.\<close>

definition bytes_ok :: "InspectableInstruction list \<Rightarrow> bool" where
  "bytes_ok ixs \<longleftrightarrow> (\<forall>ix \<in> set ixs. \<forall>d. ii_data ix = Some d \<longrightarrow> is_bytes d)"

text \<open>
  The stablecoin value of an instruction, read off its bytes: a \<open>TransferChecked\<close> of a token program (tag 12, the
  amount as eight little-endian bytes, the decimals; source, mint, destination, authority) of a stablecoin of the
  network that the signer authorises. A plain \<open>Transfer\<close> does not name its mint and has no value here.
\<close>

definition stable_mints :: "string \<Rightarrow> address set" where
  "stable_mints network =
     (if network = ''devnet'' then {USDC_MINT_DEVNET, USDT_MINT_DEVNET} else {USDC_MINT_MAINNET, USDT_MINT_MAINNET})"

definition checked_value :: "string \<Rightarrow> address \<Rightarrow> InspectableInstruction \<Rightarrow> int" where
  "checked_value network signer ix =
     (case (ii_data ix, ii_accounts ix) of
        (Some (tag # rest), Some (src # mint # dst # authority # others)) \<Rightarrow>
          if ii_programAddress ix \<in> {TOKEN_PROGRAM_ADDRESS, TOKEN_2022_PROGRAM_ADDRESS} \<and> tag = 12 \<and> length rest \<ge> 9
             \<and> mint \<in> stable_mints network \<and> authority = signer
          then le_value (take 8 rest) else 0
      | _ \<Rightarrow> 0)"

definition usd_of :: "'c ShieldedContext \<Rightarrow> InspectableInstruction list \<Rightarrow> address \<Rightarrow> int" where
  "usd_of ctx ixs s =
     (case sync_network ctx of None \<Rightarrow> 0 | Some n \<Rightarrow> sum_list (map (checked_value n s) ixs))"

lemma four_accounts: "4 \<le> length as \<longleftrightarrow> (\<exists>a b c d r. as = a # b # c # d # r)"
  by (auto simp: numeral_eq_Suc Suc_le_length_iff)

lemma checked_value_transfer:
  "checked_value n s ix = (case transfer_of ix of None \<Rightarrow> 0 | Some t \<Rightarrow> computeStablecoinUsd [t] s n)"
proof (cases "4 \<le> length (ix_accounts ix)")
  case True
  then obtain a b c d r where as: "ii_accounts ix = Some (a # b # c # d # r)"
    by (auto simp: four_accounts ix_accounts_def split: option.splits)
  have m: "isStablecoinMint b n \<longleftrightarrow> b \<in> stable_mints n" by (simp add: isStablecoinMint_def stable_mints_def)
  show ?thesis
  proof (cases "\<exists>tag rest. ii_data ix = Some (tag # rest)")
    case True
    then show ?thesis
      by (auto simp: as m checked_value_def transfer_of_def is_token_ix_def ix_accounts_def computeStablecoinUsd_def Let_def)
  next
    case no_data: False
    then show ?thesis by (auto simp: checked_value_def transfer_of_def split: option.splits list.splits)
  qed
next
  case False
  then have "checked_value n s ix = 0"
    by (auto simp: checked_value_def ix_accounts_def split: option.splits list.splits)
  moreover have "computeStablecoinUsd [t] s n = 0" if "transfer_of ix = Some t" for t
    using that False
    by (auto simp: transfer_of_def computeStablecoinUsd_def Let_def split: option.splits list.splits if_splits)
  ultimately show ?thesis by (simp split: option.splits)
qed

lemma usd_of_computed:
  "usd_of ctx ixs s = (case sync_network ctx of None \<Rightarrow> 0 | Some n \<Rightarrow> computeStablecoinUsd (transfers_of ixs) s n)"
proof -
  have "sum_list (map (checked_value n s) ixs) = computeStablecoinUsd (transfers_of ixs) s n" for n
    by (induction ixs) (auto simp: checked_value_transfer computeStablecoinUsd_def split: option.splits)
  then show ?thesis by (simp add: usd_of_def split: option.split)
qed

section \<open>What an approval means\<close>

text \<open>
  The policy, stated on the instructions: the context is not paused, every called program is a system program or
  allow-listed where unknown programs are blocked, no spend limit and no rate limit is exceeded with this
  transaction, a custom check allows it, and after a sync its stablecoin value respects the transaction maximum and
  the caps of the vault and of the agent.
\<close>

definition within_caps :: "'c ShieldState \<Rightarrow> 'c ResolvedVaultState \<Rightarrow> int \<Rightarrow> bool" where
  "within_caps st rs usd \<longleftrightarrow>
     usd \<le> rv_maxTransactionUsd rs
     \<and> bu_spent24h (rv_globalBudget rs) + sh_localUsdAdditions st + usd \<le> bu_cap (rv_globalBudget rs)
     \<and> (\<forall>b. rv_agentBudget rs = Some b \<longrightarrow> bu_spent24h b + sh_localUsdAdditions st + usd \<le> bu_cap b)"

definition policy_allows :: "'c ShieldedContext \<Rightarrow> InspectableInstruction list \<Rightarrow> address \<Rightarrow> msecs \<Rightarrow> bool" where
  "policy_allows ctx ixs signer now \<longleftrightarrow>
     \<not> sc_paused ctx
     \<and> (\<forall>allowed. rp_allowedProtocols (sc_resolved ctx) = Some allowed \<longrightarrow> rp_blockUnknownPrograms (sc_resolved ctx) \<longrightarrow>
          (\<forall>ix \<in> set ixs. ii_programAddress ix \<in> {SYSTEM_PROGRAM_ADDRESS, COMPUTE_BUDGET_PROGRAM_ADDRESS, ATA_PROGRAM_ADDRESS} \<union> set allowed))
     \<and> (\<forall>l \<in> set (rp_spendLimits (sc_resolved ctx)).
          getSpendInWindow (sc_state ctx) (sl_mint l) (sl_window l) now + tx_spend (transfers_of ixs) signer (sl_mint l) \<le> sl_amount l)
     \<and> int (getTransactionCountInWindow (sc_state ctx) (rp_rateWindowMs (sc_resolved ctx)) now) < rp_maxTransactions (sc_resolved ctx)
     \<and> (\<forall>f. sc_customCheck ctx = Some f \<longrightarrow>
          (\<exists>analysis r. analyzeInstructions ixs signer = Some analysis \<and> f (custom_analysis analysis signer) = Inr r \<and> pcr_allowed r))
     \<and> (\<forall>rs net. sh_resolvedState (sc_state ctx) = Some rs \<longrightarrow> sync_network ctx = Some net \<longrightarrow> net \<noteq> [] \<longrightarrow>
          0 < sum_list (map (checked_value net signer) ixs) \<longrightarrow>
          within_caps (sc_state ctx) rs (sum_list (map (checked_value net signer) ixs)))"

lemma evaluate_allows:
  assumes ev: "evaluateInstructions ixs s (sc_resolved ctx) (sc_customCheck ctx) (sc_state ctx) (sync_network ctx) now
      = Inr ([], analysis)" and "\<not> sc_paused ctx"
  shows "policy_allows ctx ixs s now"
proof -
  obtain a where a: "analyzeInstructions ixs s = Some a" "set (ia_programIds a) = ii_programAddress ` set ixs"
    by (rule analyze_total)
  then have an: "analysis = a" using ev by (auto simp: evaluateInstructions_def)
  have custom: "custom_violations (sc_customCheck ctx) a s = Inr []"
    using ev a(1) by (auto simp: evaluateInstructions_def)
  have tr: "ia_tokenTransfers a = transfers_of ixs" using evaluate_transfers [OF ev] an by simp
  note clean = evaluate_clean [OF ev, unfolded an]
  have caps: "within_caps (sc_state ctx) rs (sum_list (map (checked_value net s) ixs))"
    if rs: "sh_resolvedState (sc_state ctx) = Some rs" and net: "sync_network ctx = Some net" "net \<noteq> []"
      and pos: "0 < sum_list (map (checked_value net s) ixs)" for rs net
  proof -
    have v: "sum_list (map (checked_value net s) ixs) = computeStablecoinUsd (ia_tokenTransfers a) s net"
      using usd_of_computed [of ctx ixs s] net(1) tr by (simp add: usd_of_def)
    have oc: "on_chain_violations a s (sc_state ctx) (Some net) = []" using clean(2) net(1) by simp
    note chk = on_chain_checked [OF oc rs net(2) pos [unfolded v]]
    then show ?thesis
      unfolding within_caps_def v using rs by (auto simp: getEffectiveGlobalSpent24h_def getEffectiveAgentSpent24h_def)
  qed
  have "\<forall>allowed. rp_allowedProtocols (sc_resolved ctx) = Some allowed \<longrightarrow> rp_blockUnknownPrograms (sc_resolved ctx) \<longrightarrow>
      (\<forall>ix \<in> set ixs. ii_programAddress ix \<in> {SYSTEM_PROGRAM_ADDRESS, COMPUTE_BUDGET_PROGRAM_ADDRESS, ATA_PROGRAM_ADDRESS} \<union> set allowed)"
    using clean(4) a(2) by (fastforce simp: allowlist_violations_def filter_empty_conv SHIELD_SYSTEM_PROGRAMS_def)
  moreover have "\<forall>l \<in> set (rp_spendLimits (sc_resolved ctx)).
      getSpendInWindow (sc_state ctx) (sl_mint l) (sl_window l) now + tx_spend (transfers_of ixs) s (sl_mint l) \<le> sl_amount l"
    using spend_checked [OF clean(1)] tr by simp
  moreover have "\<forall>f. sc_customCheck ctx = Some f \<longrightarrow>
      (\<exists>analysis r. analyzeInstructions ixs s = Some analysis \<and> f (custom_analysis analysis s) = Inr r \<and> pcr_allowed r)"
    using custom a(1) by (auto simp: custom_violations_def split: if_splits)
  ultimately show ?thesis
    using clean(3) caps assms(2) by (simp add: policy_allows_def rate_violations_def Let_def split: if_splits)
qed

lemma check_allows:
  assumes "shield_check ctx ixs s now = (Inr (True, vs), ctx')"
  shows "policy_allows ctx ixs s now"
  using assms by (auto simp: shield_check_def Let_def intro!: evaluate_allows split: if_splits)

lemma enforce_allows:
  assumes "shield_enforce ctx ixs s now = (Inr (), ctx')"
  shows "policy_allows ctx ixs s now"
  using enforce_approved [OF assms] evaluate_allows by metis

lemma policy_allows_emit [simp]: "policy_allows (emit evs ctx) ixs s now = policy_allows ctx ixs s now"
  by (simp add: policy_allows_def)

section \<open>Runs\<close>

text \<open>\<open>upd\<close> says whether the run may change its policies or reset its state.\<close>

inductive shield_run :: "bool \<Rightarrow> 'c ShieldedContext \<Rightarrow> msecs \<Rightarrow> SpendEntry list \<Rightarrow> int \<Rightarrow> bool" for upd where
  run_start: "shield policies cc sync stale = Inr ctx \<Longrightarrow> shield_run upd ctx now [] 0"
| run_wait: "shield_run upd ctx now h usd \<Longrightarrow> now \<le> now' \<Longrightarrow> shield_run upd ctx now' h usd"
| run_check: "shield_run upd ctx now h usd \<Longrightarrow> shield_run upd (snd (shield_check ctx ixs s now)) now h usd"
| run_approve: "shield_run upd ctx now h usd \<Longrightarrow> bytes_ok ixs
    \<Longrightarrow> shield_enforce ctx ixs s now = (Inr (), ctx')
    \<Longrightarrow> shield_run upd ctx' now
          (h @ map (\<lambda>(m, n). spend_entry m n now) (recorded_spends s (transfers_of ixs)))
          (if sh_resolvedState (sc_state ctx) = None then usd else usd + usd_of ctx ixs s)"
| run_deny: "shield_run upd ctx now h usd \<Longrightarrow> shield_enforce ctx ixs s now = (Inl e, ctx')
    \<Longrightarrow> shield_run upd ctx' now h usd"
| run_pause: "shield_run upd ctx now h usd \<Longrightarrow> shield_run upd (shield_pause ctx) now h usd"
| run_resume: "shield_run upd ctx now h usd \<Longrightarrow> shield_run upd (shield_resume ctx) now h usd"
| run_sync: "shield_run upd ctx now h usd \<Longrightarrow> shield_sync ctx f = (Inr (), ctx')
    \<Longrightarrow> shield_run upd ctx' now h 0"
| run_update: "shield_run upd ctx now h usd \<Longrightarrow> upd \<Longrightarrow> shield_updatePolicies ctx p cc = (Inr (), ctx')
    \<Longrightarrow> shield_run upd ctx' now h usd"
| run_reset: "shield_run upd ctx now h usd \<Longrightarrow> upd \<Longrightarrow> shield_run upd (shield_resetState ctx) now [] 0"

inductive_cases shield_runE: "shield_run upd ctx now h usd"

lemma bytes_ok_nonneg: "bytes_ok ixs \<Longrightarrow> t \<in> set (transfers_of ixs) \<Longrightarrow> 0 \<le> ti_amount t"
  using transfers_of_u64 by (auto simp: bytes_ok_def)

lemma usd_nonneg: "bytes_ok ixs \<Longrightarrow> 0 \<le> usd_of ctx ixs s"
  using bytes_ok_nonneg
  by (auto simp: usd_of_computed computeStablecoinUsd_def intro!: sum_where_nonneg split: option.splits)

lemma start_state:
  assumes "shield policies cc sync stale = Inr ctx"
  shows "sc_state ctx = newShieldState \<and> sc_sync ctx = sync
    \<and> (\<forall>c. sync = Some c \<longrightarrow> validateNetwork (sy_network c) = Inr ())"
  using assms by (auto simp: shield_def split: sum.splits option.splits)

text \<open>The configured network is never the empty string: \<open>shield\<close> has validated it.\<close>

lemma run_network: "shield_run upd ctx now h usd \<Longrightarrow> sync_network ctx \<noteq> Some []"
proof (induction rule: shield_run.induct)
  case (run_start policies cc sync stale ctx now)
  then show ?case using start_state [OF run_start] by (auto simp: sync_network_def validateNetwork_def)
next
  case (run_approve ctx now h usd ixs s ctx')
  then show ?case by (auto simp: sync_network_def elim: enforce_approved)
next
  case (run_deny ctx now h usd ixs s e ctx')
  then show ?case using enforce_denied by (fastforce simp: sync_network_def)
next
  case (run_sync ctx now h usd f ctx')
  then show ?case by (auto simp: shield_sync_def sync_network_def split: option.splits sum.splits)
next
  case (run_update ctx now h usd p cc ctx')
  then show ?case by (auto simp: shield_updatePolicies_def sync_network_def split: sum.splits)
qed (auto simp: check_fields shield_pause_def shield_resume_def shield_resetState_def sync_network_def)

text \<open>The tracker refines the ghost history, which only holds non-negative amounts.\<close>

lemma run_rel:
  "shield_run upd ctx now h usd \<Longrightarrow> shield_rel now (sc_state ctx) h \<and> (\<forall>e \<in> set h. 0 \<le> spe_amount e)"
proof (induction rule: shield_run.induct)
  case (run_start policies cc sync stale ctx now)
  then show ?case using start_state [OF run_start] by (simp add: shield_rel_def newShieldState_def)
next
  case (run_wait ctx now h usd now')
  then show ?case using shield_ledger.rel_later by blast
next
  case (run_approve ctx now h usd ixs s ctx')
  obtain analysis where "evaluateInstructions ixs s (sc_resolved ctx) (sc_customCheck ctx)
      (sc_state ctx) (sync_network ctx) now = Inr ([], analysis)"
    and st: "sc_state ctx' = markEnforceUsed (record_approved (sc_state ctx) analysis s (sync_network ctx) now)"
    by (rule enforce_approved [OF run_approve.hyps(3)])
  then have "ia_tokenTransfers analysis = transfers_of ixs" by (rule_tac evaluate_transfers)
  then have "shield_rel now (sc_state ctx') (h @ map (\<lambda>(m, n). spend_entry m n now) (recorded_spends s (transfers_of ixs)))"
    using record_approved_rel [of now "sc_state ctx" h analysis s "sync_network ctx"] run_approve.IH st by simp
  then show ?case
    using run_approve.IH bytes_ok_nonneg [OF run_approve.hyps(2)] by (auto simp: recorded_spends_def)
next
  case (run_deny ctx now h usd ixs s e ctx')
  then show ?case using enforce_denied by fastforce
next
  case (run_sync ctx now h usd f ctx')
  then show ?case
    by (auto simp: shield_sync_def syncFromOnChain_def shield_rel_def Let_def split: option.splits sum.splits)
next
  case (run_update ctx now h usd p cc ctx')
  then show ?case by (auto simp: shield_updatePolicies_def split: sum.splits)
next
  case (run_reset ctx now h usd)
  then show ?case by (simp add: shield_resetState_def reset_def shield_rel_def)
qed (simp_all add: check_fields shield_pause_def shield_resume_def)

text \<open>The local additions are the ghost value, which stays within both caps.\<close>

definition caps_respected :: "'c ResolvedVaultState \<Rightarrow> int \<Rightarrow> bool" where
  "caps_respected rs usd \<longleftrightarrow>
     (bu_spent24h (rv_globalBudget rs) \<le> bu_cap (rv_globalBudget rs)
        \<longrightarrow> bu_spent24h (rv_globalBudget rs) + usd \<le> bu_cap (rv_globalBudget rs))
     \<and> (\<forall>b. rv_agentBudget rs = Some b \<longrightarrow> bu_spent24h b \<le> bu_cap b \<longrightarrow> bu_spent24h b + usd \<le> bu_cap b)"

definition usd_inv :: "'c ShieldedContext \<Rightarrow> int \<Rightarrow> bool" where
  "usd_inv ctx usd \<longleftrightarrow>
     (\<forall>rs. sh_resolvedState (sc_state ctx) = Some rs \<longrightarrow>
        sc_sync ctx \<noteq> None \<and> sh_localUsdAdditions (sc_state ctx) = usd \<and> caps_respected rs usd)"

lemma usd_inv_cong:
  "usd_inv ctx usd \<Longrightarrow> sc_state ctx' = sc_state ctx \<Longrightarrow> sc_sync ctx' = sc_sync ctx \<Longrightarrow> usd_inv ctx' usd"
  by (simp add: usd_inv_def)

lemma usd_inv_approve:
  assumes "usd_inv ctx usd" "shield_enforce ctx ixs s now = (Inr (), ctx')" "bytes_ok ixs"
    and "sync_network ctx \<noteq> Some []" "sh_resolvedState (sc_state ctx) = Some rs"
  shows "usd_inv ctx' (usd + usd_of ctx ixs s)"
proof -
  obtain analysis where ev: "evaluateInstructions ixs s (sc_resolved ctx) (sc_customCheck ctx)
      (sc_state ctx) (sync_network ctx) now = Inr ([], analysis)"
    and sy: "sc_sync ctx' = sc_sync ctx"
    and st: "sc_state ctx' = markEnforceUsed (record_approved (sc_state ctx) analysis s (sync_network ctx) now)"
    by (rule enforce_approved [OF assms(2)])
  obtain c where c: "sc_sync ctx = Some c" and loc: "sh_localUsdAdditions (sc_state ctx) = usd"
    and caps: "caps_respected rs usd"
    using assms(1,5) by (auto simp: usd_inv_def)
  let ?net = "sy_network c"
  let ?usd = "computeStablecoinUsd (ia_tokenTransfers analysis) s ?net"
  have net: "sync_network ctx = Some ?net" "?net \<noteq> []" using c assms(4) by (auto simp: sync_network_def)
  have uo: "usd_of ctx ixs s = ?usd" using net evaluate_transfers [OF ev] by (simp add: usd_of_computed)
  have pos: "0 \<le> ?usd" using usd_nonneg [OF assms(3), of ctx s] uo by simp
  have "on_chain_violations analysis s (sc_state ctx) (Some ?net) = []"
    using evaluate_clean(2) [OF ev] net by simp
  note chk = on_chain_checked [OF this assms(5) net(2)]
  have eff: "getEffectiveGlobalSpent24h (sc_state ctx) = bu_spent24h (rv_globalBudget rs) + usd"
    "rv_agentBudget rs = Some b \<Longrightarrow> getEffectiveAgentSpent24h (sc_state ctx) = Some (bu_spent24h b + usd)" for b
    using assms(5) loc by (simp_all add: getEffectiveGlobalSpent24h_def getEffectiveAgentSpent24h_def)
  have "caps_respected rs (usd + ?usd)"
  proof (cases "?usd = 0")
    case False
    then have p: "0 < ?usd" using pos by simp
    then show ?thesis
      using chk(2) [OF p] chk(3) [OF p _ eff(2)] eff(1) by (auto simp: caps_respected_def add.assoc)
  qed (use caps in simp)
  then show ?thesis
    using assms(5) c sy net loc pos
    by (simp add: usd_inv_def st uo markEnforceUsed_def record_approved_fields)
qed

lemma run_usd_inv: "shield_run upd ctx now h usd \<Longrightarrow> usd_inv ctx usd"
proof (induction rule: shield_run.induct)
  case (run_start policies cc sync stale ctx now)
  then show ?case using start_state [OF run_start] by (simp add: usd_inv_def newShieldState_def)
next
  case (run_approve ctx now h usd ixs s ctx')
  show ?case
  proof (cases "sh_resolvedState (sc_state ctx)")
    case None
    then have "sh_resolvedState (sc_state ctx') = None"
      using run_approve.hyps(3) by (auto elim: enforce_approved simp: markEnforceUsed_def record_approved_fields)
    then show ?thesis by (simp add: usd_inv_def)
  next
    case (Some rs)
    then show ?thesis
      using usd_inv_approve [OF run_approve.IH run_approve.hyps(3,2) run_network [OF run_approve.hyps(1)] Some] by simp
  qed
next
  case (run_deny ctx now h usd ixs s e ctx')
  then show ?case using enforce_denied usd_inv_cong by blast
next
  case (run_sync ctx now h usd f ctx')
  then show ?case
    by (auto simp: shield_sync_def syncFromOnChain_def usd_inv_def caps_respected_def Let_def
        split: option.splits sum.splits)
next
  case (run_update ctx now h usd p cc ctx')
  then show ?case by (auto simp: shield_updatePolicies_def usd_inv_def split: sum.splits)
next
  case (run_reset ctx now h usd)
  then show ?case by (simp add: shield_resetState_def reset_def usd_inv_def)
qed (simp_all add: check_fields shield_pause_def shield_resume_def usd_inv_def)

section \<open>Sample contexts\<close>

abbreviation plain_transfer :: InspectableInstruction where
  "plain_transfer \<equiv> \<lparr>ii_programAddress = TOKEN_PROGRAM_ADDRESS, ii_accounts = Some [''src'', ''dst'', ''me''],
     ii_data = Some [3, 70, 0, 0, 0, 0, 0, 0, 0]\<rparr>"

abbreviation one_limit :: SpendLimit where
  "one_limit \<equiv> \<lparr>sl_mint = ''M'', sl_amount = 100, sl_windowMs = Some 86400000\<rparr>"

abbreviation one_limit_policies :: ShieldPolicies where
  "one_limit_policies \<equiv> \<lparr>sp_maxSpend = Some (OneLimit (LimitObject one_limit)), sp_maxTransactionSize = None,
     sp_allowedProtocols = None, sp_allowedTokens = None, sp_blockUnknownPrograms = None, sp_rateLimit = None\<rparr>"

definition one_limit_ctx :: "unit ShieldedContext" where
  "one_limit_ctx = \<lparr>sc_resolved = DEFAULT_POLICIES\<lparr>rp_spendLimits := [one_limit]\<rparr>, sc_customCheck = None,
     sc_state = newShieldState, sc_paused = False, sc_sync = None, sc_staleness = 300, sc_events = [WarnNoSync]\<rparr>"

lemma one_limit_start: "shield (Some one_limit_policies) None None None = Inr one_limit_ctx"
  by (simp add: shield_def resolvePolicies_def core_resolvePolicies_def convertSpendLimits_def resolve_spend_def
      resolve_size_def limits_of_def resolve_limit_def one_limit_ctx_def DEFAULT_POLICIES_def)

lemma plain_transfer_bytes: "bytes_ok [plain_transfer]"
  by (simp add: bytes_ok_def is_bytes_def)

lemma plain_transfer_parsed:
  "transfer_of plain_transfer = Some \<lparr>ti_mint = None, ti_amount = 70, ti_source = ''src'', ti_destination = ''dst'', ti_authority = ''me''\<rparr>"
  by (simp add: transfer_of_def is_token_ix_def ix_accounts_def Let_def)

text \<open>An enforcement without sync, allowlist or custom check passes when limits and rate hold.\<close>

lemma enforce_passes:
  assumes "\<not> sc_paused ctx" "sc_sync ctx = None" "sc_customCheck ctx = None"
    and "rp_allowedProtocols (sc_resolved ctx) = None" "sh_resolvedState (sc_state ctx) = None"
    and "\<And>l. l \<in> set (rp_spendLimits (sc_resolved ctx)) \<Longrightarrow>
      getSpendInWindow (sc_state ctx) (sl_mint l) (sl_window l) now + tx_spend (transfers_of ixs) s (sl_mint l) \<le> sl_amount l"
    and "int (getTransactionCountInWindow (sc_state ctx) (rp_rateWindowMs (sc_resolved ctx)) now) < rp_maxTransactions (sc_resolved ctx)"
  obtains ctx' where "shield_enforce ctx ixs s now = (Inr (), ctx')"
    and "ctx'\<lparr>sc_state := sc_state ctx, sc_events := sc_events ctx\<rparr> = ctx"
    and "sc_state ctx' = markEnforceUsed (recordTx
      (fold (\<lambda>(m, a) st. recordSpend st m a now) (recorded_spends s (transfers_of ixs)) (sc_state ctx)) now)"
proof -
  obtain a where a: "analyzeInstructions ixs s = Some a" "ia_tokenTransfers a = transfers_of ixs"
    by (rule analyze_total)
  have "spend_violations (sc_resolved ctx) a s (sc_state ctx) now = []"
    unfolding spend_violations_def concat_map_Nil Let_def using assms(6) a(2) by (auto simp: not_less)
  then have "evaluateInstructions ixs s (sc_resolved ctx) (sc_customCheck ctx) (sc_state ctx) (sync_network ctx) now = Inr ([], a)"
    using assms a
    by (simp add: evaluateInstructions_def sync_network_def custom_violations_def allowlist_violations_def
        rate_violations_def on_chain_violations_def Let_def)
  then show ?thesis
    using that assms a
    by (simp add: shield_enforce_def record_approved_def stale_warning_def Let_def)
qed

abbreviation checked_transfer :: InspectableInstruction where
  "checked_transfer \<equiv> \<lparr>ii_programAddress = TOKEN_PROGRAM_ADDRESS, ii_accounts = Some [''src'', ''M'', ''dst'', ''me''],
     ii_data = Some [12, 70, 0, 0, 0, 0, 0, 0, 0, 6]\<rparr>"

lemma checked_transfer_parsed:
  "transfer_of checked_transfer = Some \<lparr>ti_mint = Some ''M'', ti_amount = 70, ti_source = ''src'', ti_destination = ''dst'', ti_authority = ''me''\<rparr>"
  by (simp add: transfer_of_def is_token_ix_def ix_accounts_def Let_def)

abbreviation sample_sync :: SyncConfig where
  "sample_sync \<equiv> \<lparr>sy_vaultAddress = ''V'', sy_agentAddress = ''A'', sy_network = ''devnet''\<rparr>"

definition sample_resolved :: "unit ResolvedVaultState" where
  "sample_resolved = \<lparr>rv_vault = sample_vault, rv_policy = sample_policy, rv_tracker = None, rv_overlay = None,
     rv_constraints = None, rv_globalBudget = budget_of 120 500, rv_agentBudget = Some (budget_of 30 100),
     rv_allAgentBudgets = [], rv_protocolBudgets = [], rv_maxTransactionUsd = 200, rv_usdcBalance = 0,
     rv_usdtBalance = 0, rv_resolvedAtTimestamp = 0\<rparr>"

section \<open>Properties\<close>

text \<open>
  C7. No run of a synced shield exceeds the on-chain caps: whatever is checked, enforced, denied,
  paused or reconfigured, the on-chain spend at the last sync plus the stablecoins moved by the \<open>TransferChecked\<close>
  instructions approved since then stays within the vault's daily cap and within the agent's cap, for each cap
  that was not already exceeded at the sync. Plain transfers, which do not name their mint, are not counted.
\<close>

theorem shield_caps_safe:
  assumes "shield_run upd ctx now h usd" "sh_resolvedState (sc_state ctx) = Some rs"
  shows "(bu_spent24h (rv_globalBudget rs) \<le> bu_cap (rv_globalBudget rs)
      \<longrightarrow> bu_spent24h (rv_globalBudget rs) + usd \<le> bu_cap (rv_globalBudget rs))
    \<and> (\<forall>b. rv_agentBudget rs = Some b \<longrightarrow> bu_spent24h b \<le> bu_cap b \<longrightarrow> bu_spent24h b + usd \<le> bu_cap b)
    \<and> getEffectiveGlobalSpent24h (sc_state ctx) = bu_spent24h (rv_globalBudget rs) + usd"
  using run_usd_inv [OF assms(1)] assms(2)
  by (simp add: usd_inv_def caps_respected_def getEffectiveGlobalSpent24h_def)

theorem shield_caps_safe_witness:
  "\<exists>ctx :: unit ShieldedContext. shield_run True ctx 0 [] 0 \<and> sh_resolvedState (sc_state ctx) = Some sample_resolved
     \<and> getEffectiveGlobalSpent24h (sc_state ctx) = 120 + 0"
proof -
  let ?ctx = "one_limit_ctx\<lparr>sc_sync := Some sample_sync, sc_events := []\<rparr>"
  let ?ctx' = "?ctx\<lparr>sc_state := syncFromOnChain (sc_state ?ctx) sample_resolved (Some ''devnet'')\<rparr>"
  have "shield (Some one_limit_policies) None (Some sample_sync) None = Inr ?ctx"
    using one_limit_start by (simp add: shield_def validateNetwork_def one_limit_ctx_def split: sum.splits)
  then have "shield_run True ?ctx 0 [] 0" by (rule run_start)
  moreover have "shield_sync ?ctx (\<lambda>_. Inr sample_resolved) = (Inr (), ?ctx')" by (simp add: shield_sync_def)
  ultimately have run: "shield_run True ?ctx' 0 [] 0" by (rule run_sync)
  have rs: "sh_resolvedState (sc_state ?ctx') = Some sample_resolved" by (simp add: syncFromOnChain_def Let_def)
  from shield_caps_safe [OF run rs] run rs show ?thesis
    by (metis EffectiveBudget.select_convs(1) ResolvedVaultState.select_convs(6) budget_of_def sample_resolved_def)
qed

text \<open>
  C14. No run with fixed policies exceeds a spend limit: for every configured limit with a window
  of at most 24 hours, the transfers of its mint recorded by approved enforcements within the
  window never sum to more than the limit, pruning included.
\<close>

theorem shield_spend_limit_safe:
  assumes "shield_run False ctx now h usd" "l \<in> set (rp_spendLimits (sc_resolved ctx))"
    and "0 \<le> sl_amount l" "0 \<le> sl_window l" "sl_window l \<le> 86400000" "sl_mint l \<noteq> []"
  shows "ledger_sum (sl_mint l) (now - sl_window l) h \<le> sl_amount l"
  using assms(1,2)
proof (induction rule: shield_run.induct)
  case (run_start policies cc sync stale ctx now)
  then show ?case using assms(3) by simp
next
  case (run_wait ctx now h usd now')
  then show ?case using run_rel [OF run_wait.hyps(1)] by (intro shield_ledger.bounded_later [OF run_wait.IH]) auto
next
  case (run_approve ctx now h usd ixs s ctx')
  obtain analysis where ev: "evaluateInstructions ixs s (sc_resolved ctx) (sc_customCheck ctx)
      (sc_state ctx) (sync_network ctx) now = Inr ([], analysis)"
    and res: "sc_resolved ctx' = sc_resolved ctx"
    by (rule enforce_approved [OF run_approve.hyps(3)])
  have l: "l \<in> set (rp_spendLimits (sc_resolved ctx))" using run_approve.prems res by simp
  have "keyed_sum (sl_mint l) (recorded_spends s (transfers_of ixs)) \<le> tx_spend (transfers_of ixs) s (sl_mint l)"
    using recorded_le_checked bytes_ok_nonneg [OF run_approve.hyps(2)] assms(6) by blast
  then have "getSpendInWindow (sc_state ctx) (sl_mint l) (sl_window l) now
      + keyed_sum (sl_mint l) (recorded_spends s (transfers_of ixs)) \<le> sl_amount l"
    using spend_checked [OF evaluate_clean(1) [OF ev] l] evaluate_transfers [OF ev] by simp
  then show ?case
    using run_rel [OF run_approve.hyps(1)] assms(4,5) run_approve.IH [OF l]
    by (intro shield_ledger.guarded_record_bounded) (auto simp: shield_covers_def)
next
  case (run_deny ctx now h usd ixs s e ctx')
  then show ?case using enforce_denied by fastforce
next
  case (run_sync ctx now h usd f ctx')
  then show ?case by (auto simp: shield_sync_def split: option.splits sum.splits)
qed (simp_all add: check_fields shield_pause_def shield_resume_def)

theorem shield_spend_limit_safe_witness:
  "\<exists>ctx :: unit ShieldedContext. shield_run False ctx 0 [spend_entry ''M'' 70 0] 0 \<and> one_limit \<in> set (rp_spendLimits (sc_resolved ctx))
     \<and> ledger_sum ''M'' (0 - 86400000) [spend_entry ''M'' 70 0] \<le> 100"
proof -
  have lims: "rp_spendLimits (sc_resolved one_limit_ctx) = [one_limit]" by (simp add: one_limit_ctx_def)
  obtain ctx1 where e: "shield_enforce one_limit_ctx [checked_transfer] ''me'' 0 = (Inr (), ctx1)"
    and k: "ctx1\<lparr>sc_state := sc_state one_limit_ctx, sc_events := sc_events one_limit_ctx\<rparr> = one_limit_ctx"
    by (rule enforce_passes [of one_limit_ctx 0 "[checked_transfer]" "''me''"])
      (simp_all add: one_limit_ctx_def newShieldState_def getSpendInWindow_def tx_spend_def checked_transfer_parsed
        sl_window_def getTransactionCountInWindow_def DEFAULT_POLICIES_def)
  have "bytes_ok [checked_transfer]" by (simp add: bytes_ok_def is_bytes_def)
  from run_approve [OF run_start [OF one_limit_start] this e, of False]
  have run: "shield_run False ctx1 0 [spend_entry ''M'' 70 0] 0"
    by (simp add: recorded_spends_def checked_transfer_parsed one_limit_ctx_def newShieldState_def)
  have l: "one_limit \<in> set (rp_spendLimits (sc_resolved ctx1))"
    using arg_cong [OF k, of sc_resolved] lims by simp
  from shield_spend_limit_safe [OF run l] run l show ?thesis by (auto simp: sl_window_def)
qed

text \<open>
  C22. Only an approved enforcement changes the spend state: a denied one (paused included) and any
  check leave it as it was, and a paused shield denies everything.
\<close>

theorem shield_denial_is_pure:
  "(\<forall>e ctx'. shield_enforce ctx ixs s now = (Inl e, ctx') \<longrightarrow> sc_state ctx' = sc_state ctx)
   \<and> sc_state (snd (shield_check ctx ixs s now)) = sc_state ctx
   \<and> (sc_paused ctx \<longrightarrow> fst (shield_enforce ctx ixs s now) = Inl (Denied [paused_rule])
        \<and> fst (shield_check ctx ixs s now) = Inr (False, [paused_rule]))"
proof -
  have "sc_paused ctx \<longrightarrow> fst (shield_enforce ctx ixs s now) = Inl (Denied [paused_rule])
        \<and> fst (shield_check ctx ixs s now) = Inr (False, [paused_rule])"
    by (simp add: shield_enforce_def shield_check_def)
  then show ?thesis using enforce_denied check_fields by blast
qed

theorem shield_denial_is_pure_witness:
  "sc_state (snd (shield_enforce (shield_pause one_limit_ctx) [plain_transfer] ''me'' 0)) = newShieldState
    \<and> fst (shield_enforce (shield_pause one_limit_ctx) [plain_transfer] ''me'' 0) = Inl (Denied [paused_rule])"
proof -
  have p: "sc_paused (shield_pause one_limit_ctx)" "sc_state (shield_pause one_limit_ctx) = newShieldState"
    by (simp_all add: shield_pause_def one_limit_ctx_def)
  note pure = shield_denial_is_pure [of "shield_pause one_limit_ctx" "[plain_transfer]" "''me''" 0]
  then have d: "fst (shield_enforce (shield_pause one_limit_ctx) [plain_transfer] ''me'' 0) = Inl (Denied [paused_rule])"
    using p(1) by blast
  then have "sc_state (snd (shield_enforce (shield_pause one_limit_ctx) [plain_transfer] ''me'' 0)) = newShieldState"
    using pure p(2) by (metis prod.collapse)
  with d show ?thesis by blast
qed

text \<open>
  Plain transfers escape accumulation: a plain SPL transfer (no mint) is counted against every
  limit while it is checked but recorded under the empty mint, so a run of such transfers, each
  under the limit of 100, is approved in full although together they move 140.
\<close>

theorem shield_null_mint_not_accumulated:
  "\<exists>ctx1 ctx2. shield_enforce one_limit_ctx [plain_transfer] ''me'' 0 = (Inr (), ctx1)
     \<and> shield_enforce ctx1 [plain_transfer] ''me'' 1 = (Inr (), ctx2)
     \<and> outgoing_value ''me'' (transfers_of [plain_transfer]) = 70
     \<and> getSpendInWindow (sc_state ctx2) ''M'' 86400000 1 = 0"
proof -
  have st0: "sc_state one_limit_ctx = newShieldState" by (simp add: one_limit_ctx_def)
  have lims: "rp_spendLimits (sc_resolved one_limit_ctx) = [one_limit]" by (simp add: one_limit_ctx_def)
  obtain ctx1 where e1: "shield_enforce one_limit_ctx [plain_transfer] ''me'' 0 = (Inr (), ctx1)"
    and k1: "ctx1\<lparr>sc_state := sc_state one_limit_ctx, sc_events := sc_events one_limit_ctx\<rparr> = one_limit_ctx"
    and s1: "sc_state ctx1 = markEnforceUsed (recordTx (fold (\<lambda>(m, a) st. recordSpend st m a 0)
      (recorded_spends ''me'' (transfers_of [plain_transfer])) (sc_state one_limit_ctx)) 0)"
    by (rule enforce_passes [of one_limit_ctx 0 "[plain_transfer]" "''me''"])
      (simp_all add: one_limit_ctx_def newShieldState_def getSpendInWindow_def tx_spend_def plain_transfer_parsed
        sl_window_def getTransactionCountInWindow_def DEFAULT_POLICIES_def)
  have st1: "sh_spendEntries (sc_state ctx1) = [spend_entry [] 70 0]" "sh_txEntries (sc_state ctx1) = [0]"
    "sh_resolvedState (sc_state ctx1) = None"
    unfolding s1 st0
    by (simp_all add: newShieldState_def recorded_spends_def plain_transfer_parsed recordSpend_def recordTx_def
        prune_def PRUNE_THRESHOLD_def markEnforceUsed_def)
  have r1: "sc_resolved ctx1 = sc_resolved one_limit_ctx" "sc_sync ctx1 = None" "sc_customCheck ctx1 = None" "\<not> sc_paused ctx1"
    using arg_cong [OF k1, of sc_resolved] arg_cong [OF k1, of sc_sync] arg_cong [OF k1, of sc_customCheck]
      arg_cong [OF k1, of sc_paused] by (simp_all add: one_limit_ctx_def)
  obtain ctx2 where e2: "shield_enforce ctx1 [plain_transfer] ''me'' 1 = (Inr (), ctx2)"
    and s2: "sc_state ctx2 = markEnforceUsed (recordTx (fold (\<lambda>(m, a) st. recordSpend st m a 1)
      (recorded_spends ''me'' (transfers_of [plain_transfer])) (sc_state ctx1)) 1)"
    by (rule enforce_passes [of ctx1 1 "[plain_transfer]" "''me''"])
      (simp_all add: r1 st1 lims getSpendInWindow_def tx_spend_def plain_transfer_parsed sl_window_def
        getTransactionCountInWindow_def, simp_all add: one_limit_ctx_def DEFAULT_POLICIES_def)
  have "sh_spendEntries (sc_state ctx2) = [spend_entry [] 70 0, spend_entry [] 70 1]"
    unfolding s2
    by (simp add: st1 recorded_spends_def plain_transfer_parsed recordSpend_def recordTx_def
        prune_def PRUNE_THRESHOLD_def markEnforceUsed_def)
  then have "getSpendInWindow (sc_state ctx2) ''M'' 86400000 1 = 0" by (simp add: getSpendInWindow_def)
  with e1 e2 show ?thesis by (auto simp: outgoing_value_def plain_transfer_parsed)
qed

end
