(* ===== verification/ShieldedSigner.thy ===== *)
theory ShieldedSigner
  imports ShieldRuns
begin

text \<open>
  The shielded signer of \<open>sdk/kit/src/shield.ts\<close>: \<open>createShieldedSigner\<close> with its gates in the order
  the code runs them, the extraction of instructions from a compiled transaction and the session
  binding check; and \<open>sdk/kit/src/velocity-tracker.ts\<close>, the velocity limits with their cooldown.

  Encoding and simulating a transaction and signing it are parameters. Each transaction comes with
  two clock readings, one before and one after the awaited simulation.
\<close>

section \<open>Compiled transactions\<close>

record CompiledInstruction =
  ci_programAddressIndex :: nat
  ci_accountIndices :: "nat list option"
  ci_data :: "bytes option"

record AddressTableLookup =
  atl_lookupTableAddress :: address
  atl_writableIndexes :: "nat list option"
  atl_readonlyIndexes :: "nat list option"

record CompiledMessage =
  cm_staticAccounts :: "address list"
  cm_instructions :: "CompiledInstruction list"
  cm_addressTableLookups :: "AddressTableLookup list"

record CompiledTx =
  ct_compiledMessage :: "CompiledMessage option"
  ct_signatures :: "(address \<times> string) list"

type_synonym alt_cache = "address \<Rightarrow> address list option"

text \<open>An index past the account table reads \<open>undefined\<close>, an address equal to no address: \<open>""\<close> here.\<close>

definition table_at :: "address list \<Rightarrow> nat \<Rightarrow> address" where
  "table_at table i = (if i < length table then table ! i else [])"

definition resolveAltIndex :: "nat \<Rightarrow> address list \<Rightarrow> address" where
  "resolveAltIndex idx resolved = (if idx < length resolved then resolved ! idx else SYSTEM_PROGRAM_ADDRESS)"

definition alt_pass ::
  "alt_cache \<Rightarrow> (AddressTableLookup \<Rightarrow> nat list option) \<Rightarrow> AddressTableLookup list \<Rightarrow> address list" where
  "alt_pass altCache indexes lookups =
     concat (map (\<lambda>lookup.
       case altCache (atl_lookupTableAddress lookup) of
         None \<Rightarrow> []
       | Some resolved \<Rightarrow>
           map (\<lambda>idx. resolveAltIndex idx resolved) (case indexes lookup of None \<Rightarrow> [] | Some is \<Rightarrow> is)) lookups)"

definition extractInstructionsFromCompiled ::
  "CompiledTx \<Rightarrow> alt_cache option \<Rightarrow> InspectableInstruction list \<times> shield_event list" where
  "extractInstructionsFromCompiled tx altCache =
     (case ct_compiledMessage tx of
        None \<Rightarrow> ([], [])
      | Some msg \<Rightarrow>
          if length (cm_staticAccounts msg) = 0 \<or> length (cm_instructions msg) = 0 then ([], [])
          else
            let lookups = cm_addressTableLookups msg;
                (accountTable, warnings) =
                  (if length lookups > 0
                   then case altCache of
                     Some cache \<Rightarrow>
                       (cm_staticAccounts msg @ alt_pass cache atl_writableIndexes lookups
                          @ alt_pass cache atl_readonlyIndexes lookups, [])
                   | None \<Rightarrow> (cm_staticAccounts msg, [WarnNoAltCache])
                   else (cm_staticAccounts msg, []))
            in (map (\<lambda>ix. \<lparr>ii_programAddress = table_at accountTable (ci_programAddressIndex ix),
                   ii_accounts = Some (map (table_at accountTable)
                     (case ci_accountIndices ix of None \<Rightarrow> [] | Some is \<Rightarrow> is)),
                   ii_data = Some (case ci_data ix of None \<Rightarrow> [] | Some d \<Rightarrow> d)\<rparr>) (cm_instructions msg),
                warnings))"

section \<open>Session binding\<close>

definition matchesDiscriminator :: "bytes \<Rightarrow> bytes \<Rightarrow> bool" where
  "matchesDiscriminator data disc =
     (if length data < length disc then False
      else list_all (\<lambda>i. data ! i = disc ! i) [0 ..< length disc])"

definition has_discriminator :: "CompiledInstruction \<Rightarrow> bytes \<Rightarrow> bool" where
  "has_discriminator ix disc =
     (case ci_data ix of None \<Rightarrow> False | Some d \<Rightarrow> length d \<ge> 8 \<and> matchesDiscriminator d disc)"

text \<open>The verdict of \<open>checkSessionBinding\<close> before its severity is applied: the violation, if any.\<close>

definition session_binding :: "CompiledTx \<Rightarrow> address \<Rightarrow> shield_violation option" where
  "session_binding tx programAddress =
     (case ct_compiledMessage tx of
        None \<Rightarrow> Some session_binding_missing_message
      | Some msg \<Rightarrow>
          if length (cm_staticAccounts msg) = 0 \<or> length (cm_instructions msg) = 0
          then Some session_binding_missing_message
          else
            let sigilIxs = filter (\<lambda>ix. table_at (cm_staticAccounts msg) (ci_programAddressIndex ix) = programAddress)
                             (cm_instructions msg)
            in if length sigilIxs = 0 then Some session_binding_no_sigil
               else
                 let hasValidate = has_discriminator (hd sigilIxs) VALIDATE_AND_AUTHORIZE_DISCRIMINATOR;
                     hasFinalize = has_discriminator (last sigilIxs) FINALIZE_SESSION_DISCRIMINATOR
                 in if \<not> hasValidate \<or> \<not> hasFinalize
                    then Some (session_binding_incomplete hasValidate hasFinalize) else None)"

definition checkSessionBinding ::
  "CompiledTx \<Rightarrow> address \<Rightarrow> bool \<Rightarrow> (shield_error, shield_event list) result" where
  "checkSessionBinding tx programAddress hard =
     (case session_binding tx programAddress of
        None \<Rightarrow> Inr []
      | Some v \<Rightarrow> if hard then Inl (Denied [v]) else Inr [WarnBinding])"

section \<open>Velocity ceiling\<close>


section \<open>The signer\<close>








section \<open>velocity-tracker.ts\<close>

record VelocityConfig =
  vc_maxTxPerMinute :: int
  vc_maxTxPerHour :: int
  vc_maxUsdPerHour :: int
  vc_rapidFireCount :: int
  vc_rapidFireWindowMs :: int
  vc_cooldownMs :: int

definition DEFAULT_VELOCITY_CONFIG :: VelocityConfig where
  "DEFAULT_VELOCITY_CONFIG = \<lparr>vc_maxTxPerMinute = 10, vc_maxTxPerHour = 60, vc_maxUsdPerHour = 500000000,
     vc_rapidFireCount = 5, vc_rapidFireWindowMs = 10000, vc_cooldownMs = 30000\<rparr>"

record VelocityTracker =
  vt_config :: VelocityConfig
  vt_cooldownUntil :: msecs
  vt_txTimestamps :: "msecs list"

datatype velocity_violation =
    velocity_cooldown int
  | velocity_tx_per_minute nat int
  | velocity_tx_per_hour nat int
  | velocity_usd_per_hour int int
  | velocity_on_chain_cap int int
  | velocity_rapid_fire nat int

definition newVelocityTracker :: "VelocityConfig \<Rightarrow> VelocityTracker" where
  "newVelocityTracker config = \<lparr>vt_config = config, vt_cooldownUntil = 0, vt_txTimestamps = []\<rparr>"

definition isInCooldown :: "VelocityTracker \<Rightarrow> msecs \<Rightarrow> bool" where
  "isInCooldown vt now \<longleftrightarrow> now < vt_cooldownUntil vt"

definition getCooldownRemainingMs :: "VelocityTracker \<Rightarrow> msecs \<Rightarrow> int" where
  "getCooldownRemainingMs vt now = (let remaining = vt_cooldownUntil vt - now in if remaining > 0 then remaining else 0)"

definition velocity_check ::
  "VelocityTracker \<Rightarrow> 'c ShieldState \<Rightarrow> bool \<Rightarrow> msecs \<Rightarrow> (velocity_violation list, unit) result \<times> VelocityTracker" where
  "velocity_check vt st dryRun now =
     (if isInCooldown vt now then (Inl [velocity_cooldown (vt_cooldownUntil vt - now)], vt)
      else
        let config = vt_config vt;
            txPerMinute = getTransactionCountInWindow st 60000 now;
            txPerHour = getTransactionCountInWindow st 3600000 now;
            usdPerHour = getTotalSpendInWindow st 3600000 now;
            kept = filter (\<lambda>t. t \<ge> now - vc_rapidFireWindowMs config) (vt_txTimestamps vt);
            wouldBeCount = length kept + 1;
            violations =
              (if int txPerMinute \<ge> vc_maxTxPerMinute config then [velocity_tx_per_minute txPerMinute (vc_maxTxPerMinute config)] else [])
              @ (if int txPerHour \<ge> vc_maxTxPerHour config then [velocity_tx_per_hour txPerHour (vc_maxTxPerHour config)] else [])
              @ (if usdPerHour \<ge> vc_maxUsdPerHour config then [velocity_usd_per_hour usdPerHour (vc_maxUsdPerHour config)] else [])
              @ (case sh_resolvedState st of
                   None \<Rightarrow> []
                 | Some rs \<Rightarrow>
                     let effectiveSpent = getEffectiveGlobalSpent24h st
                     in if effectiveSpent \<ge> bu_cap (rv_globalBudget rs)
                        then [velocity_on_chain_cap effectiveSpent (bu_cap (rv_globalBudget rs))] else [])
              @ (if int wouldBeCount \<ge> vc_rapidFireCount config then [velocity_rapid_fire wouldBeCount (vc_rapidFireWindowMs config)] else []);
            vt1 = vt\<lparr>vt_txTimestamps := kept\<rparr>
        in if length violations > 0
           then (Inl violations, vt1\<lparr>vt_cooldownUntil := now + vc_cooldownMs config\<rparr>)
           else (Inr (), if \<not> dryRun then vt1\<lparr>vt_txTimestamps := kept @ [now]\<rparr> else vt1))"

definition velocity_recordTransaction :: "'c ShieldState \<Rightarrow> int option \<Rightarrow> msecs \<Rightarrow> 'c ShieldState" where
  "velocity_recordTransaction st usdAmount now =
     (let st1 = recordTx st now
      in case usdAmount of None \<Rightarrow> st1 | Some a \<Rightarrow> recordSpend st1 [] a now)"

definition velocity_reset :: "VelocityTracker \<Rightarrow> VelocityTracker" where
  "velocity_reset vt = vt\<lparr>vt_cooldownUntil := 0, vt_txTimestamps := []\<rparr>"

record SpendStatus =
  sst_globalSpent24h :: int
  sst_globalCap :: "int option"
  sst_globalRemaining :: "int option"
  sst_agentSpent24h :: "int option"
  sst_agentCap :: "int option"
  sst_onChain :: bool

definition getSpendStatus :: "'c ShieldState \<Rightarrow> msecs \<Rightarrow> SpendStatus" where
  "getSpendStatus st now =
     (case sh_resolvedState st of
        Some rs \<Rightarrow>
          \<lparr>sst_globalSpent24h = getEffectiveGlobalSpent24h st, sst_globalCap = Some (bu_cap (rv_globalBudget rs)),
           sst_globalRemaining = getEffectiveGlobalRemaining st, sst_agentSpent24h = getEffectiveAgentSpent24h st,
           sst_agentCap = map_option bu_cap (rv_agentBudget rs), sst_onChain = True\<rparr>
      | None \<Rightarrow>
          \<lparr>sst_globalSpent24h = getTotalSpendInWindow st 86400000 now, sst_globalCap = None,
           sst_globalRemaining = None, sst_agentSpent24h = None, sst_agentCap = None, sst_onChain = False\<rparr>)"

definition getStats :: "VelocityTracker \<Rightarrow> 'c ShieldState \<Rightarrow> msecs \<Rightarrow> nat \<times> nat \<times> int \<times> bool \<times> int" where
  "getStats vt st now =
     (getTransactionCountInWindow st 60000 now, getTransactionCountInWindow st 3600000 now,
      getTotalSpendInWindow st 3600000 now, isInCooldown vt now, getCooldownRemainingMs vt now)"

section \<open>Facts\<close>












lemma velocity_check_cases:
  assumes "velocity_check vt st dryRun now = (r, vt')" "\<not> isInCooldown vt now"
  shows "vt_config vt' = vt_config vt"
    and "r = Inl vs \<Longrightarrow> vt_cooldownUntil vt' = now + vc_cooldownMs (vt_config vt)"
    and "r = Inr () \<Longrightarrow> int (length (filter (\<lambda>t. t \<ge> now - vc_rapidFireWindowMs (vt_config vt)) (vt_txTimestamps vt)) + 1)
           < vc_rapidFireCount (vt_config vt)"
  using assms by (auto simp: velocity_check_def Let_def split: if_splits option.splits)

section \<open>Properties\<close>






text \<open>
  C23. A velocity breach found by a check that is not a dry run starts a cooldown of exactly the configured length:
  until it ends every check, dry or not and in any spend state, is refused with the remaining time and changes nothing
  (the cooldown is not extended by retries), and it is over at its end.
\<close>

theorem velocity_cooldown_exact:
  assumes "velocity_check vt st False now = (Inl vs, vt')" "\<not> isInCooldown vt now"
    and "t < now + vc_cooldownMs (vt_config vt)"
  shows "velocity_check vt' st' dryRun' t = (Inl [velocity_cooldown (now + vc_cooldownMs (vt_config vt) - t)], vt')
    \<and> \<not> isInCooldown vt' (now + vc_cooldownMs (vt_config vt))"
  using velocity_check_cases [OF assms(1,2)] assms(3) by (simp add: velocity_check_def isInCooldown_def)

definition strict_tracker :: VelocityTracker where
  "strict_tracker = newVelocityTracker (DEFAULT_VELOCITY_CONFIG\<lparr>vc_rapidFireCount := 1\<rparr>)"

lemma strict_breach:
  "velocity_check strict_tracker (newShieldState :: unit ShieldState) dryRun 1000
    = (Inl [velocity_rapid_fire 1 10000], strict_tracker\<lparr>vt_cooldownUntil := 31000\<rparr>)"
  by (simp add: velocity_check_def strict_tracker_def newVelocityTracker_def DEFAULT_VELOCITY_CONFIG_def isInCooldown_def
      getTransactionCountInWindow_def getTotalSpendInWindow_def newShieldState_def)

theorem velocity_cooldown_exact_witness:
  "fst (velocity_check (strict_tracker\<lparr>vt_cooldownUntil := 31000\<rparr>) (newShieldState :: unit ShieldState) False 30999)
    = Inl [velocity_cooldown 1]"
  using velocity_cooldown_exact [OF strict_breach [of False], of 30999 "newShieldState :: unit ShieldState" False]
  by (simp add: strict_tracker_def newVelocityTracker_def DEFAULT_VELOCITY_CONFIG_def isInCooldown_def)

text \<open>
  A dry-run check is not free of effects: when it finds a breach it starts the cooldown, so a
  following real check is refused.
\<close>

theorem velocity_dry_run_starts_cooldown:
  "\<exists>vt vt'. \<not> isInCooldown vt 1000
     \<and> snd (velocity_check vt (newShieldState :: unit ShieldState) True 1000) = vt' \<and> isInCooldown vt' 1001"
proof -
  have "\<not> isInCooldown strict_tracker 1000" "isInCooldown (strict_tracker\<lparr>vt_cooldownUntil := 31000\<rparr>) 1001"
    by (simp_all add: isInCooldown_def strict_tracker_def newVelocityTracker_def)
  then show ?thesis using strict_breach by (metis snd_conv)
qed

text \<open>
  A transaction without \<open>compiledMessage\<close>, the shape \<open>compileTransaction\<close> of the kit returns (\<open>messageBytes\<close>,
  \<open>signatures\<close> and \<open>lifetimeConstraint\<close>), is not read: no instruction of it reaches the policy check, and session
  binding in its default severity refuses it whatever it contains.
\<close>

lemma message_bytes_unread:
  assumes "ct_compiledMessage tx = None"
  shows "extractInstructionsFromCompiled tx altCache = ([], [])"
    and "checkSessionBinding tx programAddress True = Inl (Denied [session_binding_missing_message])"
  using assms by (simp_all add: extractInstructionsFromCompiled_def checkSessionBinding_def session_binding_def)

end
