(* ===== verification/RpcCaches.thy ===== *)
theory RpcCaches
  imports StateResolver
begin

text \<open>
  What the SDK keeps between calls about the chain: the lookup-table cache (\<open>AltCache\<close> of
  \<open>sdk/kit/src/alt-loader.ts\<close> with \<open>sdk/kit/src/alt-config.ts\<close>) and the blockhash cache
  (\<open>sdk/kit/src/rpc-helpers.ts\<close>), two instances of one contract, the locale \<open>ttl_cache\<close>; and the
  send-and-poll loop of \<open>rpc-helpers.ts\<close>. The RPC client and the kit's lookup-table fetch are
  parameters.
\<close>

section \<open>Contract of a cache with a time to live\<close>

datatype ('k, 'v) ttl_op = Store msecs "('k \<times> 'v) list" | Clear

locale ttl_cache =
  fixes lookup :: "msecs \<Rightarrow> 'k \<Rightarrow> 'c \<Rightarrow> 'v option"
    and store :: "msecs \<Rightarrow> ('k \<times> 'v) list \<Rightarrow> 'c \<Rightarrow> 'c"
    and clear :: "'c \<Rightarrow> 'c"
    and inv :: "'c \<Rightarrow> bool"
    and ttl :: "'c \<Rightarrow> msecs"
  assumes store_inv: "inv c \<Longrightarrow> inv (store t kvs c)"
    and clear_inv: "inv c \<Longrightarrow> inv (clear c)"
    and ttl_store: "ttl (store t kvs c) = ttl c"
    and ttl_clear: "ttl (clear c) = ttl c"
    and lookup_clear: "lookup now k (clear c) = None"
    and lookup_store: "inv c \<Longrightarrow> lookup now k (store t kvs c) = Some v
      \<Longrightarrow> (k, v) \<in> set kvs \<and> now < t + ttl c \<or> lookup now k c = Some v"
begin

fun run :: "('k, 'v) ttl_op list \<Rightarrow> 'c \<Rightarrow> 'c" where
  "run [] c = c"
| "run (Store t kvs # ops) c = run ops (store t kvs c)"
| "run (Clear # ops) c = run ops (clear c)"

lemma run_inv: "inv c \<Longrightarrow> inv (run ops c)"
  by (induction ops c rule: run.induct) (simp_all add: store_inv clear_inv)

lemma run_ttl: "ttl (run ops c) = ttl c"
  by (induction ops c rule: run.induct) (simp_all add: ttl_store ttl_clear)

lemma run_append: "run (ops @ ops') c = run ops' (run ops c)"
  by (induction ops c rule: run.induct) simp_all

text \<open>A hit after any sequence of stores and clears is a stored value younger than the time to live.\<close>

lemma hit_is_fresh:
  "inv c \<Longrightarrow> lookup now k (run ops c) = Some v \<Longrightarrow>
     (\<exists>t kvs. Store t kvs \<in> set ops \<and> (k, v) \<in> set kvs \<and> now < t + ttl c) \<or> lookup now k c = Some v"
proof (induction ops c rule: run.induct)
  case (2 t kvs ops c)
  have "lookup now k (run ops (store t kvs c)) = Some v"
    using 2(3) by simp
  from 2(1) [OF store_inv [OF 2(2)] this] lookup_store [OF 2(2), of now k t kvs v] show ?case
    by (auto simp: ttl_store)
next
  case (3 ops c)
  from 3(1) [OF clear_inv [OF 3(2)]] 3(3) show ?case
    by (auto simp: lookup_clear ttl_clear)
qed simp

text \<open>A value stored in a cleared cache is the only one that can be found.\<close>

lemma clear_forgets: "inv c \<Longrightarrow> lookup now k (store t kvs (clear c)) = Some v \<Longrightarrow> (k, v) \<in> set kvs"
  using lookup_store [OF clear_inv] by (fastforce simp: lookup_clear)

end

section \<open>alt-config.ts\<close>

definition SIGIL_ALT_DEVNET :: address where
  "SIGIL_ALT_DEVNET = ''BtRLCMVamw9c3R8UDwgYBCFur5YVkqACmakVh9xi2aTw''"
definition SIGIL_ALT_MAINNET :: address where
  "SIGIL_ALT_MAINNET = ''11111111111111111111111111111111''"
definition ALT_PLACEHOLDER :: address where
  "ALT_PLACEHOLDER = ''11111111111111111111111111111111''"
definition INSTRUCTIONS_SYSVAR :: address where
  "INSTRUCTIONS_SYSVAR = ''Sysvar1nstructions1111111111111111111111111''"
definition CLOCK_SYSVAR :: address where
  "CLOCK_SYSVAR = ''SysvarC1ock11111111111111111111111111111111''"

definition getSigilAltAddress :: "string \<Rightarrow> (sdk_error, address) result" where
  "getSigilAltAddress network =
     (if network = ''devnet'' then Inr SIGIL_ALT_DEVNET
      else if SIGIL_ALT_MAINNET = ALT_PLACEHOLDER then Inl (PLAIN_ERROR ''Mainnet Sigil ALT not yet deployed'')
      else Inr SIGIL_ALT_MAINNET)"

definition EXPECTED_ALT_CONTENTS_DEVNET :: "address list" where
  "EXPECTED_ALT_CONTENTS_DEVNET =
     [USDC_MINT_DEVNET, USDT_MINT_DEVNET, PROTOCOL_TREASURY, INSTRUCTIONS_SYSVAR, CLOCK_SYSVAR,
      ''J2SCySRvXFFQc6DdbRqnnmEz7kmtEtpM2FP37fz9R4Vt'', ''81RyRPBpxR5QK6ZBtjNDBSknid1qMHsrCcWF6w5NHKD6'']"

definition EXPECTED_ALT_CONTENTS_MAINNET :: "address list" where
  "EXPECTED_ALT_CONTENTS_MAINNET =
     [USDC_MINT_MAINNET, USDT_MINT_MAINNET, PROTOCOL_TREASURY, INSTRUCTIONS_SYSVAR, CLOCK_SYSVAR]"

definition getExpectedAltContents :: "string \<Rightarrow> address list" where
  "getExpectedAltContents network =
     (if network = ''devnet'' then EXPECTED_ALT_CONTENTS_DEVNET else EXPECTED_ALT_CONTENTS_MAINNET)"

section \<open>alt-loader.ts\<close>

type_synonym lookup_tables = "(address \<times> address list) list"

record AltEntry =
  ce_data :: lookup_tables
  ce_expiresAt :: msecs

record AltCache =
  ac_cache :: "(address \<times> AltEntry) list"
  ac_ttlMs :: msecs
  ac_maxSize :: nat

definition DEFAULT_TTL_MS :: msecs where "DEFAULT_TTL_MS = 300000"

definition new_AltCache :: "msecs option \<Rightarrow> nat option \<Rightarrow> AltCache" where
  "new_AltCache ttlMs maxSize =
     \<lparr>ac_cache = [], ac_ttlMs = (case ttlMs of None \<Rightarrow> DEFAULT_TTL_MS | Some t \<Rightarrow> t),
      ac_maxSize = (case maxSize of None \<Rightarrow> 50 | Some n \<Rightarrow> n)\<rparr>"

text \<open>\<open>Object.assign(target, source)\<close>.\<close>

definition object_assign :: "('k \<times> 'v) list \<Rightarrow> ('k \<times> 'v) list \<Rightarrow> ('k \<times> 'v) list" where
  "object_assign target source = foldl (\<lambda>acc (k, v). AList.update k v acc) target source"

text \<open>The loop over the requested tables: what the cache has, merged, and what it has not.\<close>

fun alt_scan ::
  "(address \<times> AltEntry) list \<Rightarrow> msecs \<Rightarrow> address list \<Rightarrow> lookup_tables \<times> address list \<Rightarrow> lookup_tables \<times> address list" where
  "alt_scan cache now [] acc = acc"
| "alt_scan cache now (addr # addrs) (found, uncached) =
     (case map_of cache addr of
        Some entry \<Rightarrow>
          if ce_expiresAt entry > now
          then alt_scan cache now addrs (object_assign found (ce_data entry), uncached)
          else alt_scan cache now addrs (found, uncached @ [addr])
      | None \<Rightarrow> alt_scan cache now addrs (found, uncached @ [addr]))"

text \<open>Each fetched table goes into an entry of its own.\<close>

definition alt_put :: "msecs \<Rightarrow> lookup_tables \<Rightarrow> (address \<times> AltEntry) list \<Rightarrow> (address \<times> AltEntry) list" where
  "alt_put expiresAt fetched cache =
     foldl (\<lambda>c (k, v). AList.update k \<lparr>ce_data = [(k, v)], ce_expiresAt = expiresAt\<rparr> c) cache fetched"

text \<open>Eviction drops the oldest key of the \<open>Map\<close> until the size fits.\<close>

fun alt_evict :: "nat \<Rightarrow> (address \<times> AltEntry) list \<Rightarrow> (address \<times> AltEntry) list" where
  "alt_evict maxSize [] = []"
| "alt_evict maxSize (e # es) = (if length (e # es) > maxSize then alt_evict maxSize es else e # es)"

definition alt_store :: "msecs \<Rightarrow> lookup_tables \<Rightarrow> AltCache \<Rightarrow> AltCache" where
  "alt_store now fetched c =
     c\<lparr>ac_cache := alt_evict (ac_maxSize c) (alt_put (now + ac_ttlMs c) fetched (ac_cache c))\<rparr>"

definition alt_resolve ::
  "(address list \<Rightarrow> (js_error, lookup_tables) result) \<Rightarrow> address list \<Rightarrow> msecs \<Rightarrow> AltCache
    \<Rightarrow> lookup_tables \<times> AltCache" where
  "alt_resolve fetch altAddresses now c =
     (if length altAddresses = 0 then ([], c)
      else
        let (found, uncached) = alt_scan (ac_cache c) now altAddresses ([], [])
        in if length uncached > 0
           then case fetch uncached of
                  Inr fetched \<Rightarrow> (object_assign found fetched, alt_store now fetched c)
                | Inl _ \<Rightarrow> (found, c)
           else (found, c))"

definition getCachedAddresses :: "msecs \<Rightarrow> address \<Rightarrow> AltCache \<Rightarrow> address list option" where
  "getCachedAddresses now altAddress c =
     (case map_of (ac_cache c) altAddress of
        None \<Rightarrow> None
      | Some entry \<Rightarrow> if ce_expiresAt entry \<le> now then None else map_of (ce_data entry) altAddress)"

definition alt_invalidate :: "AltCache \<Rightarrow> AltCache" where
  "alt_invalidate c = c\<lparr>ac_cache := []\<rparr>"

definition mergeAltAddresses :: "address \<Rightarrow> address list option \<Rightarrow> address list" where
  "mergeAltAddresses sigilAlt protocolAlts =
     foldl set_add [sigilAlt] (case protocolAlts of None \<Rightarrow> [] | Some alts \<Rightarrow> alts)"

definition verifySigilAlt ::
  "lookup_tables \<Rightarrow> address \<Rightarrow> address list \<Rightarrow> (sdk_error, unit) result" where
  "verifySigilAlt resolved sigilAltAddress expectedContents =
     (case map_of resolved sigilAltAddress of
        None \<Rightarrow> Inr ()
      | Some altAddresses \<Rightarrow>
          let missing = filter (\<lambda>e. e \<notin> set altAddresses) expectedContents
          in if length missing > 0 then Inl (SDK_ALT_INTEGRITY sigilAltAddress (length missing)) else Inr ())"

lemma foldl_set_add: "set (foldl set_add acc xs) = set acc \<union> set xs"
  by (induction xs arbitrary: acc) auto

lemma distinct_foldl_set_add: "distinct acc \<Longrightarrow> distinct (foldl set_add acc xs)"
  by (induction xs arbitrary: acc) auto

lemma hd_foldl_set_add: "acc \<noteq> [] \<Longrightarrow> hd (foldl set_add acc xs) = hd acc"
  by (induction xs arbitrary: acc) (simp_all add: set_add_def)

lemma mergeAltAddresses_spec:
  "hd (mergeAltAddresses a alts) = a" "distinct (mergeAltAddresses a alts)"
  "set (mergeAltAddresses a alts) = insert a (case alts of None \<Rightarrow> {} | Some xs \<Rightarrow> set xs)"
  by (simp_all add: mergeAltAddresses_def hd_foldl_set_add distinct_foldl_set_add foldl_set_add split: option.split)

lemma verifySigilAlt_ok_iff:
  "verifySigilAlt resolved a expected = Inr () \<longleftrightarrow>
     (\<forall>contents. map_of resolved a = Some contents \<longrightarrow> set expected \<subseteq> set contents)"
  by (auto simp: verifySigilAlt_def filter_empty_conv split: option.split)

section \<open>The lookup-table cache meets the contract\<close>

definition alt_wf :: "AltCache \<Rightarrow> bool" where
  "alt_wf c \<longleftrightarrow> distinct (map fst (ac_cache c)) \<and> length (ac_cache c) \<le> ac_maxSize c
     \<and> (\<forall>(k, e) \<in> set (ac_cache c). \<exists>v. ce_data e = [(k, v)])"

lemma alt_evict_drop: "alt_evict n xs = drop (length xs - n) xs"
  by (induction xs) (auto simp: Suc_diff_le)

lemma map_of_drop_distinct:
  "distinct (map fst xs) \<Longrightarrow> map_of (drop n xs) k = Some v \<Longrightarrow> map_of xs k = Some v"
  by (meson in_set_dropD map_of_SomeD map_of_is_SomeI)

lemma distinct_alt_put:
  "distinct (map fst c) \<Longrightarrow> distinct (map fst (alt_put t kvs c))"
  unfolding alt_put_def by (induction kvs arbitrary: c) (auto simp: distinct_update)

lemma map_of_alt_put:
  "map_of (alt_put t kvs c) k = Some e \<Longrightarrow>
     (\<exists>v. (k, v) \<in> set kvs \<and> e = \<lparr>ce_data = [(k, v)], ce_expiresAt = t\<rparr>) \<or> map_of c k = Some e"
  unfolding alt_put_def
proof (induction kvs arbitrary: c)
  case (Cons kv kvs)
  then show ?case
    by (cases kv) (auto simp: update_conv split: if_splits dest!: Cons.IH)
qed simp

lemma alt_put_entries:
  assumes "distinct (map fst c)" and "\<forall>(k, e) \<in> set c. \<exists>v. ce_data e = [(k, v)]"
  shows "\<forall>(k, e) \<in> set (alt_put t kvs c). \<exists>v. ce_data e = [(k, v)]"
  using assms distinct_alt_put [OF assms(1)] by (fastforce dest: map_of_alt_put map_of_is_SomeI map_of_SomeD)

lemma alt_wf_store: "alt_wf c \<Longrightarrow> alt_wf (alt_store now fetched c)"
  using alt_put_entries [of "ac_cache c" "now + ac_ttlMs c" fetched] distinct_alt_put [of "ac_cache c"]
  unfolding alt_wf_def alt_store_def
  by (auto simp: alt_evict_drop distinct_drop drop_map [symmetric] dest: in_set_dropD)

lemma getCached_store:
  assumes "alt_wf c" and "getCachedAddresses now k (alt_store t fetched c) = Some v"
  shows "(k, v) \<in> set fetched \<and> now < t + ac_ttlMs c \<or> getCachedAddresses now k c = Some v"
proof -
  obtain e where e: "map_of (ac_cache (alt_store t fetched c)) k = Some e" "now < ce_expiresAt e"
    "map_of (ce_data e) k = Some v"
    using assms(2) by (auto simp: getCachedAddresses_def split: option.splits if_splits)
  have "map_of (alt_put (t + ac_ttlMs c) fetched (ac_cache c)) k = Some e"
    using e(1) assms(1) map_of_drop_distinct [OF distinct_alt_put]
    by (auto simp: alt_store_def alt_evict_drop alt_wf_def)
  from map_of_alt_put [OF this] e show ?thesis
    by (auto simp: getCachedAddresses_def)
qed

lemma ac_ttlMs_alt_store [simp]: "ac_ttlMs (alt_store t kvs c) = ac_ttlMs c"
  by (simp add: alt_store_def)

lemma ac_maxSize_alt_store [simp]: "ac_maxSize (alt_store t kvs c) = ac_maxSize c"
  by (simp add: alt_store_def)

lemma alt_invalidate_simps [simp]:
  "ac_cache (alt_invalidate c) = []" "ac_ttlMs (alt_invalidate c) = ac_ttlMs c"
  "ac_maxSize (alt_invalidate c) = ac_maxSize c"
  by (simp_all add: alt_invalidate_def)

interpretation alt: ttl_cache getCachedAddresses alt_store alt_invalidate alt_wf ac_ttlMs
proof
  fix now k t kvs c v
  assume "alt_wf c" and "getCachedAddresses now k (alt_store t kvs c) = Some v"
  then show "(k, v) \<in> set kvs \<and> now < t + ac_ttlMs c \<or> getCachedAddresses now k c = Some v"
    by (rule getCached_store)
qed (simp_all add: alt_wf_store, simp_all add: alt_wf_def getCachedAddresses_def)

text \<open>A session with the cache: calls in order, each with its clock reading and its RPC answers.\<close>

datatype alt_call =
    AltResolve "address list \<Rightarrow> (js_error, lookup_tables) result" "address list" msecs
  | AltInvalidate

fun alt_calls :: "alt_call list \<Rightarrow> AltCache \<Rightarrow> AltCache" where
  "alt_calls [] c = c"
| "alt_calls (AltResolve fetch alts now # calls) c = alt_calls calls (snd (alt_resolve fetch alts now c))"
| "alt_calls (AltInvalidate # calls) c = alt_calls calls (alt_invalidate c)"

text \<open>\<open>answered call t k v\<close>: the call ran at \<open>t\<close> and its fetch answered with table \<open>k\<close> holding \<open>v\<close>.\<close>

definition answered :: "alt_call \<Rightarrow> msecs \<Rightarrow> address \<Rightarrow> address list \<Rightarrow> bool" where
  "answered call t k v \<longleftrightarrow>
     (\<exists>fetch alts asked fetched. call = AltResolve fetch alts t \<and> set asked \<subseteq> set alts
        \<and> fetch asked = Inr fetched \<and> (k, v) \<in> set fetched)"

lemma set_update_subset: "set (AList.update k v al) \<subseteq> insert (k, v) (set al)"
  by (induction al) auto

lemma set_object_assign: "set (object_assign a b) \<subseteq> set a \<union> set b"
  unfolding object_assign_def
proof (induction b arbitrary: a)
  case (Cons kv b)
  then show ?case
    using Cons.IH [of "AList.update (fst kv) (snd kv) a"] set_update_subset [of "fst kv" "snd kv" a]
    by (cases kv) auto
qed simp

lemma alt_scan_uncached: "set (snd (alt_scan cache now addrs acc)) \<subseteq> set (snd acc) \<union> set addrs"
  by (induction cache now addrs acc rule: alt_scan.induct) (auto split: option.splits)

lemma alt_scan_found:
  assumes "alt_wf c" and "(k, v) \<in> set (fst (alt_scan (ac_cache c) now addrs acc))"
  shows "(k, v) \<in> set (fst acc) \<or> getCachedAddresses now k c = Some v"
  using assms(2)
proof (induction "ac_cache c" now addrs acc rule: alt_scan.induct)
  case (2 now addr addrs found uncached)
  show ?case
  proof (cases "map_of (ac_cache c) addr")
    case (Some e)
    then obtain w where w: "ce_data e = [(addr, w)]"
      using assms(1) by (fastforce simp: alt_wf_def dest: map_of_SomeD)
    have hit: "(k, v) \<in> set (object_assign found (ce_data e)) \<Longrightarrow> ce_expiresAt e > now
        \<Longrightarrow> (k, v) \<in> set found \<or> getCachedAddresses now k c = Some v"
      using set_object_assign [of found "ce_data e"] Some w by (auto simp: getCachedAddresses_def)
    then show ?thesis
      using 2 Some by (auto split: if_splits)
  qed (use 2 in auto)
qed simp

lemma alt_resolve_result:
  assumes "alt_wf c" and "(k, v) \<in> set (fst (alt_resolve fetch alts now c))"
  shows "getCachedAddresses now k c = Some v \<or> answered (AltResolve fetch alts now) now k v"
proof -
  obtain found uncached where scan: "alt_scan (ac_cache c) now alts ([], []) = (found, uncached)"
    by fastforce
  have u: "set uncached \<subseteq> set alts"
    using alt_scan_uncached [of "ac_cache c" now alts "([], [])"] scan by simp
  have f: "(k, v) \<in> set found \<Longrightarrow> getCachedAddresses now k c = Some v"
    using alt_scan_found [OF assms(1), of k v now alts "([], [])"] scan by simp
  show ?thesis
  proof (cases "fetch uncached")
    case (Inr fetched)
    then show ?thesis
      using assms(2) scan u f set_object_assign [of found fetched]
      by (auto simp: alt_resolve_def answered_def split: if_splits)
  qed (use assms(2) scan f in \<open>auto simp: alt_resolve_def split: if_splits\<close>)
qed

lemma alt_resolve_op:
  "snd (alt_resolve fetch alts now c) = c
   \<or> (\<exists>fetched. snd (alt_resolve fetch alts now c) = alt.run [Store now fetched] c
        \<and> (\<forall>(k, v) \<in> set fetched. answered (AltResolve fetch alts now) now k v))"
proof -
  obtain found uncached where scan: "alt_scan (ac_cache c) now alts ([], []) = (found, uncached)"
    by fastforce
  have u: "set uncached \<subseteq> set alts"
    using alt_scan_uncached [of "ac_cache c" now alts "([], [])"] scan by simp
  show ?thesis
    using scan u by (cases "fetch uncached") (auto simp: alt_resolve_def answered_def)
qed

lemma alt_calls_run:
  "\<exists>ops. alt_calls calls c = alt.run ops c
     \<and> (\<forall>t kvs k v. Store t kvs \<in> set ops \<longrightarrow> (k, v) \<in> set kvs \<longrightarrow> (\<exists>call \<in> set calls. answered call t k v))"
proof (induction calls c rule: alt_calls.induct)
  case (1 c)
  show ?case by (rule exI [of _ "[]"]) simp
next
  case (2 fetch alts now calls c)
  then obtain ops where ops: "alt_calls calls (snd (alt_resolve fetch alts now c))
      = alt.run ops (snd (alt_resolve fetch alts now c))"
    "\<And>t kvs k v. Store t kvs \<in> set ops \<Longrightarrow> (k, v) \<in> set kvs \<Longrightarrow> \<exists>call \<in> set calls. answered call t k v"
    by blast
  show ?case
    using alt_resolve_op [of fetch alts now c]
  proof
    assume "snd (alt_resolve fetch alts now c) = c"
    then show ?thesis using ops by (intro exI [of _ ops]) auto
  next
    assume "\<exists>fetched. snd (alt_resolve fetch alts now c) = alt.run [Store now fetched] c
        \<and> (\<forall>(k, v) \<in> set fetched. answered (AltResolve fetch alts now) now k v)"
    then obtain fetched where "snd (alt_resolve fetch alts now c) = alt.run [Store now fetched] c"
      "\<forall>(k, v) \<in> set fetched. answered (AltResolve fetch alts now) now k v" by blast
    then show ?thesis using ops by (intro exI [of _ "Store now fetched # ops"]) auto
  qed
next
  case (3 calls c)
  then obtain ops where "alt_calls calls (alt_invalidate c) = alt.run ops (alt_invalidate c)"
    "\<And>t kvs k v. Store t kvs \<in> set ops \<Longrightarrow> (k, v) \<in> set kvs \<Longrightarrow> \<exists>call \<in> set calls. answered call t k v"
    by blast
  then show ?case by (intro exI [of _ "Clear # ops"]) auto
qed

lemma new_AltCache_wf [simp]: "alt_wf (new_AltCache ttlMs maxSize)"
  by (simp add: alt_wf_def new_AltCache_def)

lemma alt_maxSize_run: "ac_maxSize (alt.run ops c) = ac_maxSize c"
  by (induction ops c rule: alt.run.induct) simp_all

text \<open>
  Whatever was asked of a lookup-table cache before, every table that \<open>resolve\<close> returns was
  answered by an RPC fetch: by this call's own fetch for a table among those requested, or by an
  earlier one less than the cache's time to live ago. A failed fetch adds nothing and throws nothing,
  and the cache never holds more than \<open>maxSize\<close> tables.
\<close>
theorem alt_resolve_provenance:
  assumes "c = alt_calls calls (new_AltCache ttlMs maxSize)"
    and "alt_resolve fetch alts now c = (res, c')"
    and "(k, v) \<in> set res"
  shows "(answered (AltResolve fetch alts now) now k v
          \<or> (\<exists>call \<in> set calls. \<exists>t. answered call t k v \<and> now < t + ac_ttlMs c))
       \<and> length (ac_cache c') \<le> ac_maxSize c"
proof -
  define c0 where "c0 = new_AltCache ttlMs maxSize"
  obtain ops where ops: "c = alt.run ops c0"
    "\<And>t kvs k v. Store t kvs \<in> set ops \<Longrightarrow> (k, v) \<in> set kvs \<Longrightarrow> \<exists>call \<in> set calls. answered call t k v"
    using alt_calls_run [of calls c0] assms(1) by (auto simp: c0_def)
  have wf0: "alt_wf c0" and wf: "alt_wf c"
    using alt.run_inv [of c0 ops] ops(1) by (simp_all add: c0_def)
  have none: "getCachedAddresses now k c0 = None"
    by (simp add: c0_def new_AltCache_def getCachedAddresses_def)
  have size: "length (ac_cache c') \<le> ac_maxSize c"
    using alt_resolve_op [of fetch alts now c] assms(2) wf alt_wf_store [OF wf] by (auto simp: alt_wf_def)
  from alt_resolve_result [OF wf, of k v fetch alts now] assms(2,3)
  consider "getCachedAddresses now k c = Some v" | "answered (AltResolve fetch alts now) now k v"
    by auto
  then show ?thesis
  proof cases
    case 1
    with alt.hit_is_fresh [OF wf0, of now k ops v] none ops alt.run_ttl [of ops c0]
    show ?thesis using size by fastforce
  qed (simp add: size)
qed

text \<open>A table fetched at 1000 is served from the cache 299999 ms later.\<close>

definition sample_fetch :: "address list \<Rightarrow> (js_error, lookup_tables) result" where
  "sample_fetch asked = Inr [(''T'', [''x'', ''y''])]"

definition down_fetch :: "address list \<Rightarrow> (js_error, lookup_tables) result" where
  "down_fetch asked = Inl \<lparr>je_isError = True, je_code = None, je_message = ''down''\<rparr>"

theorem alt_resolve_provenance_witness:
  "fst (alt_resolve down_fetch [''T''] 300999 (alt_calls [AltResolve sample_fetch [''T''] 1000]
      (new_AltCache None None))) = [(''T'', [''x'', ''y''])]
   \<and> (answered (AltResolve down_fetch [''T''] 300999) 300999 ''T'' [''x'', ''y'']
       \<or> (\<exists>call \<in> set [AltResolve sample_fetch [''T''] 1000]. \<exists>t. answered call t ''T'' [''x'', ''y'']
            \<and> 300999 < t + ac_ttlMs (alt_calls [AltResolve sample_fetch [''T''] 1000] (new_AltCache None None))))"
proof -
  let ?c = "alt_calls [AltResolve sample_fetch [''T''] 1000] (new_AltCache None None)"
  have r: "alt_resolve down_fetch [''T''] 300999 ?c = ([(''T'', [''x'', ''y''])], ?c)"
    by (simp add: alt_resolve_def sample_fetch_def down_fetch_def new_AltCache_def alt_store_def alt_put_def
        object_assign_def DEFAULT_TTL_MS_def)
  show ?thesis
    using alt_resolve_provenance [OF refl r, of "''T''" "[''x'', ''y'']"] r by simp
qed

end
