(* ===== verification/RpcHelpers.thy ===== *)
theory RpcHelpers
  imports RpcCaches
begin

text \<open>
  \<open>sdk/kit/src/rpc-helpers.ts\<close>: the blockhash cache and its per-RPC registry, signing and encoding,
  and \<open>sendAndConfirmTransaction\<close> with its polling loop. The RPC client's answers and the clock are
  parameters; the loop is a partial function, and that it returns is a theorem.
\<close>

section \<open>BlockhashCache\<close>

record Blockhash =
  bh_blockhash :: string
  bh_lastValidBlockHeight :: int

record BlockhashCache =
  bc_cached :: "Blockhash option"
  bc_fetchedAt :: msecs
  bc_ttlMs :: msecs

definition DEFAULT_BLOCKHASH_TTL_MS :: msecs where "DEFAULT_BLOCKHASH_TTL_MS = 30000"

definition new_BlockhashCache :: "msecs option \<Rightarrow> BlockhashCache" where
  "new_BlockhashCache ttlMs =
     \<lparr>bc_cached = None, bc_fetchedAt = 0,
      bc_ttlMs = (case ttlMs of None \<Rightarrow> DEFAULT_BLOCKHASH_TTL_MS | Some t \<Rightarrow> t)\<rparr>"

text \<open>What \<open>refresh\<close> leaves: the fetched value and the time after the fetch.\<close>

definition bh_set :: "msecs \<Rightarrow> Blockhash \<Rightarrow> BlockhashCache \<Rightarrow> BlockhashCache" where
  "bh_set t b c = c\<lparr>bc_cached := Some b, bc_fetchedAt := t\<rparr>"

definition bh_refresh ::
  "(js_error, Blockhash) result \<Rightarrow> msecs \<Rightarrow> BlockhashCache \<Rightarrow> (sdk_error, Blockhash) result \<times> BlockhashCache" where
  "bh_refresh answer after c =
     (case answer of Inl e \<Rightarrow> (Inl (EXTERNAL_ERROR e), c) | Inr b \<Rightarrow> (Inr b, bh_set after b c))"

definition bh_cached :: "msecs \<Rightarrow> BlockhashCache \<Rightarrow> Blockhash option" where
  "bh_cached now c =
     (case bc_cached c of None \<Rightarrow> None | Some b \<Rightarrow> if now - bc_fetchedAt c < bc_ttlMs c then Some b else None)"

definition bh_get ::
  "(js_error, Blockhash) result \<Rightarrow> msecs \<Rightarrow> msecs \<Rightarrow> BlockhashCache
    \<Rightarrow> (sdk_error, Blockhash) result \<times> BlockhashCache" where
  "bh_get answer now after c =
     (case bh_cached now c of Some b \<Rightarrow> (Inr b, c) | None \<Rightarrow> bh_refresh answer after c)"

definition bh_invalidate :: "BlockhashCache \<Rightarrow> BlockhashCache" where
  "bh_invalidate c = c\<lparr>bc_cached := None, bc_fetchedAt := 0\<rparr>"

text \<open>As an instance of \<open>ttl_cache\<close> it has one key; of several values stored at once the last stays.\<close>

definition bh_lookup :: "msecs \<Rightarrow> unit \<Rightarrow> BlockhashCache \<Rightarrow> Blockhash option" where
  "bh_lookup now u c = bh_cached now c"

definition bh_store :: "msecs \<Rightarrow> (unit \<times> Blockhash) list \<Rightarrow> BlockhashCache \<Rightarrow> BlockhashCache" where
  "bh_store t kvs c = foldl (\<lambda>c (_, b). bh_set t b c) c kvs"

lemma bh_set_simps [simp]:
  "bc_ttlMs (bh_set t b c) = bc_ttlMs c" "bh_cached now (bh_set t b c) = (if now < t + bc_ttlMs c then Some b else None)"
  by (auto simp: bh_set_def bh_cached_def)

lemma bc_ttlMs_store [simp]: "bc_ttlMs (bh_store t kvs c) = bc_ttlMs c"
  unfolding bh_store_def by (induction kvs arbitrary: c) auto

lemma bh_lookup_store:
  "bh_cached now (bh_store t kvs c) = Some v
     \<Longrightarrow> ((), v) \<in> set kvs \<and> now < t + bc_ttlMs c \<or> bh_cached now c = Some v"
  unfolding bh_store_def
proof (induction kvs arbitrary: c)
  case (Cons kv kvs)
  from Cons.IH [of "bh_set t (snd kv) c"] Cons.prems show ?case
    by (cases kv) (auto split: if_splits)
qed simp

interpretation bh: ttl_cache bh_lookup bh_store bh_invalidate "\<lambda>_. True" bc_ttlMs
  using bh_lookup_store by unfold_locales (auto simp: bh_invalidate_def bh_lookup_def bh_cached_def)

text \<open>
  \<open>getBlockhashCache(rpc).get(rpc)\<close>: the registry, a \<open>WeakMap\<close> keyed by the client's identity, and
  one call of \<open>get\<close> on the client's cache. A call is the client, its answer and two clock readings.
\<close>

definition getBlockhashCache ::
  "('rpc \<Rightarrow> BlockhashCache option) \<Rightarrow> 'rpc \<Rightarrow> BlockhashCache \<times> ('rpc \<Rightarrow> BlockhashCache option)" where
  "getBlockhashCache registry rpc =
     (case registry rpc of
        Some cache \<Rightarrow> (cache, registry)
      | None \<Rightarrow> let cache = new_BlockhashCache None in (cache, registry(rpc \<mapsto> cache)))"

record 'rpc blockhash_call =
  bx_rpc :: 'rpc
  bx_answer :: "(js_error, Blockhash) result"
  bx_now :: msecs
  bx_after :: msecs

definition cached_blockhash ::
  "'rpc blockhash_call \<Rightarrow> ('rpc \<Rightarrow> BlockhashCache option)
    \<Rightarrow> (sdk_error, Blockhash) result \<times> ('rpc \<Rightarrow> BlockhashCache option)" where
  "cached_blockhash call registry =
     (let (cache, registry') = getBlockhashCache registry (bx_rpc call);
          (r, cache') = bh_get (bx_answer call) (bx_now call) (bx_after call) cache
      in (r, registry'(bx_rpc call \<mapsto> cache')))"

fun blockhash_calls ::
  "'rpc blockhash_call list \<Rightarrow> ('rpc \<Rightarrow> BlockhashCache option) \<Rightarrow> ('rpc \<Rightarrow> BlockhashCache option)" where
  "blockhash_calls [] registry = registry"
| "blockhash_calls (call # calls) registry = blockhash_calls calls (snd (cached_blockhash call registry))"

definition cache_of :: "('rpc \<Rightarrow> BlockhashCache option) \<Rightarrow> 'rpc \<Rightarrow> BlockhashCache" where
  "cache_of registry rpc = (case registry rpc of Some c \<Rightarrow> c | None \<Rightarrow> new_BlockhashCache None)"

definition answered_by :: "'rpc blockhash_call list \<Rightarrow> 'rpc \<Rightarrow> msecs \<Rightarrow> Blockhash \<Rightarrow> bool" where
  "answered_by calls rpc t b \<longleftrightarrow>
     (\<exists>call \<in> set calls. bx_rpc call = rpc \<and> bx_answer call = Inr b \<and> bx_after call = t)"

lemma cached_blockhash_cache:
  "cache_of (snd (cached_blockhash call registry)) rpc =
     (if rpc = bx_rpc call
      then snd (bh_get (bx_answer call) (bx_now call) (bx_after call) (cache_of registry rpc))
      else cache_of registry rpc)"
  by (auto simp: cached_blockhash_def getBlockhashCache_def cache_of_def Let_def split: option.split prod.split)

lemma cached_blockhash_result:
  "fst (cached_blockhash call registry) =
     fst (bh_get (bx_answer call) (bx_now call) (bx_after call) (cache_of registry (bx_rpc call)))"
  by (auto simp: cached_blockhash_def getBlockhashCache_def cache_of_def Let_def split: option.split prod.split)

lemma bh_get_op:
  "snd (bh_get answer now after c) = c
   \<or> (\<exists>b. answer = Inr b \<and> snd (bh_get answer now after c) = bh.run [Store after [((), b)]] c)"
  by (auto simp: bh_get_def bh_refresh_def bh_store_def split: option.split sum.split)

lemma answered_by_Cons:
  "answered_by (call # calls) rpc t b \<longleftrightarrow>
     bx_rpc call = rpc \<and> bx_answer call = Inr b \<and> bx_after call = t \<or> answered_by calls rpc t b"
  by (auto simp: answered_by_def)

lemma blockhash_calls_run:
  "\<exists>ops. cache_of (blockhash_calls calls registry) rpc = bh.run ops (cache_of registry rpc)
     \<and> (\<forall>t kvs b. Store t kvs \<in> set ops \<longrightarrow> ((), b) \<in> set kvs \<longrightarrow> answered_by calls rpc t b)"
proof (induction calls registry rule: blockhash_calls.induct)
  case (1 registry)
  show ?case by (rule exI [of _ "[]"]) simp
next
  case (2 call calls registry)
  let ?r = "snd (cached_blockhash call registry)"
  obtain ops where ops: "cache_of (blockhash_calls calls ?r) rpc = bh.run ops (cache_of ?r rpc)"
    "\<And>t kvs b. Store t kvs \<in> set ops \<Longrightarrow> ((), b) \<in> set kvs \<Longrightarrow> answered_by calls rpc t b"
    using 2 by blast
  consider "cache_of ?r rpc = cache_of registry rpc"
    | b where "rpc = bx_rpc call" "bx_answer call = Inr b"
        "cache_of ?r rpc = bh.run [Store (bx_after call) [((), b)]] (cache_of registry rpc)"
    using bh_get_op [of "bx_answer call" "bx_now call" "bx_after call" "cache_of registry rpc"]
    by (cases "rpc = bx_rpc call") (auto simp: cached_blockhash_cache)
  then show ?case
  proof cases
    case 1
    then show ?thesis using ops by (intro exI [of _ ops]) (auto simp: answered_by_Cons)
  next
    case (2 b)
    then show ?thesis using ops
      by (intro exI [of _ "Store (bx_after call) [((), b)] # ops"]) (auto simp: answered_by_Cons)
  qed
qed

text \<open>
  Blockhashes never cross RPC clients and never outlive 30 seconds: whatever was fetched through
  other clients before, the blockhash a call obtains was answered by its own client, either to this
  very call or to an earlier one whose fetch completed less than 30000 ms before.
\<close>
theorem blockhash_isolated_and_fresh:
  assumes "fst (cached_blockhash call (blockhash_calls calls (\<lambda>_. None))) = Inr b"
  shows "bx_answer call = Inr b
       \<or> (\<exists>t. answered_by calls (bx_rpc call) t b \<and> bx_now call - t < DEFAULT_BLOCKHASH_TTL_MS)"
proof -
  let ?new = "new_BlockhashCache None"
  obtain ops where ops: "cache_of (blockhash_calls calls (\<lambda>_. None)) (bx_rpc call) = bh.run ops ?new"
    "\<And>t kvs b. Store t kvs \<in> set ops \<Longrightarrow> ((), b) \<in> set kvs \<Longrightarrow> answered_by calls (bx_rpc call) t b"
    using blockhash_calls_run [of calls "\<lambda>_. None" "bx_rpc call"] by (auto simp: cache_of_def)
  from assms have "bx_answer call = Inr b \<or> bh_lookup (bx_now call) () (bh.run ops ?new) = Some b"
    by (auto simp: cached_blockhash_result ops(1) bh_get_def bh_refresh_def bh_lookup_def
        split: option.splits sum.splits)
  then show ?thesis
  proof
    assume "bh_lookup (bx_now call) () (bh.run ops ?new) = Some b"
    from bh.hit_is_fresh [OF TrueI this] ops(2) show ?thesis
      by (fastforce simp: bh_lookup_def bh_cached_def new_BlockhashCache_def)
  qed simp
qed

definition devnet_call :: "string blockhash_call" where
  "devnet_call = \<lparr>bx_rpc = ''devnet'', bx_answer = Inr \<lparr>bh_blockhash = ''H1'', bh_lastValidBlockHeight = 100\<rparr>,
     bx_now = 1000, bx_after = 1200\<rparr>"

theorem blockhash_isolated_and_fresh_witness:
  "\<exists>t. answered_by [devnet_call] ''devnet'' t \<lparr>bh_blockhash = ''H1'', bh_lastValidBlockHeight = 100\<rparr>
     \<and> 31199 - t < DEFAULT_BLOCKHASH_TTL_MS"
  using blockhash_isolated_and_fresh [of
      "devnet_call\<lparr>bx_answer := Inl \<lparr>je_isError = True, je_code = None, je_message = []\<rparr>, bx_now := 31199\<rparr>"
      "[devnet_call]" "\<lparr>bh_blockhash = ''H1'', bh_lastValidBlockHeight = 100\<rparr>"]
  by (simp add: devnet_call_def cached_blockhash_def getBlockhashCache_def bh_get_def bh_cached_def bh_refresh_def
      bh_set_def new_BlockhashCache_def DEFAULT_BLOCKHASH_TTL_MS_def Let_def)

section \<open>signAndEncode\<close>

text \<open>
  A signing method may throw, and may return something that is not an array (\<open>None\<close>); \<open>wire64\<close> is
  the kit's \<open>getBase64EncodedWireTransaction\<close>.
\<close>

record 'tx TransactionSigner =
  ts_address :: address
  ts_modifyAndSignTransactions :: "('tx list \<Rightarrow> (js_error, 'tx list option) result) option"
  ts_signTransactions :: "('tx list \<Rightarrow> (js_error, 'tx list option) result) option"

definition signAndEncode ::
  "('tx \<Rightarrow> string) \<Rightarrow> 'tx TransactionSigner \<Rightarrow> 'tx \<Rightarrow> (sdk_error, string) result" where
  "signAndEncode wire64 signer compiledTx =
     (case (case ts_modifyAndSignTransactions signer of Some f \<Rightarrow> Some f | None \<Rightarrow> ts_signTransactions signer) of
        None \<Rightarrow> Inl SDK_SIGNER_INVALID
      | Some signFn \<Rightarrow>
          rbind (lift_err (signFn [compiledTx])) (\<lambda>results.
            case results of
              None \<Rightarrow> Inl SDK_SIGNATURE_INVALID
            | Some [] \<Rightarrow> Inl SDK_SIGNATURE_INVALID
            | Some (signedTx # _) \<Rightarrow> Inr (wire64 signedTx)))"

section \<open>sendAndConfirmTransaction\<close>

record SignatureStatus =
  ss_err :: bool
  ss_confirmationStatus :: string

text \<open>
  One round of polling: the clock at the loop test, and the first element of the answer to
  \<open>getSignatureStatuses\<close>. \<open>poll\<close> gives the rounds in order. The clock advances while the loop
  sleeps, so successive loop tests read increasing times.
\<close>

record poll_round =
  po_clock :: msecs
  po_status :: "(js_error, SignatureStatus option) result"

definition confirmed_enough :: "string \<Rightarrow> SignatureStatus \<Rightarrow> bool" where
  "confirmed_enough commitment status \<longleftrightarrow>
     (let level = ss_confirmationStatus status
      in level = ''confirmed'' \<or> level = ''finalized'' \<or> (commitment = ''processed'' \<and> level = ''processed''))"

text \<open>What one round decides: \<open>None\<close> to poll again.\<close>

definition poll_verdict :: "string \<Rightarrow> string \<Rightarrow> poll_round \<Rightarrow> (sdk_error, string) result option" where
  "poll_verdict commitment signature r =
     (case po_status r of
        Inl e \<Rightarrow> Some (Inl (EXTERNAL_ERROR e))
      | Inr None \<Rightarrow> None
      | Inr (Some status) \<Rightarrow>
          if ss_err status then Some (Inl (RPC_TX_FAILED signature))
          else if confirmed_enough commitment status then Some (Inr signature)
          else None)"

text \<open>
  The shape all polling loops share: while the clock is before the deadline, one round; its verdict
  ends the loop, no verdict sleeps and goes on; past the deadline the loop ends with \<open>late\<close>.
\<close>

partial_function (option) poll_until ::
  "(poll_round \<Rightarrow> 'r option) \<Rightarrow> 'r \<Rightarrow> msecs \<Rightarrow> (nat \<Rightarrow> poll_round) \<Rightarrow> nat \<Rightarrow> 'r option" where
  "poll_until verdict late deadline poll n =
     (if po_clock (poll n) < deadline
      then case verdict (poll n) of
             Some r \<Rightarrow> Some r
           | None \<Rightarrow> poll_until verdict late deadline poll (n + 1)
      else Some late)"

declare poll_until.simps [code]

definition poll_loop ::
  "string \<Rightarrow> string \<Rightarrow> msecs \<Rightarrow> msecs \<Rightarrow> (nat \<Rightarrow> poll_round) \<Rightarrow> (sdk_error, string) result option" where
  "poll_loop commitment signature deadline timeoutMs poll =
     poll_until (poll_verdict commitment signature) (Inl (RPC_CONFIRMATION_TIMEOUT signature timeoutMs))
       deadline poll 0"

record SendOptions =
  so_timeoutMs :: "int option"
  so_commitment :: "string option"

text \<open>\<open>send\<close> is the answer to \<open>sendTransaction\<close>, \<open>sentAt\<close> the clock when it arrives.\<close>

definition sendAndConfirmTransaction ::
  "(string \<Rightarrow> (js_error, string) result) \<Rightarrow> msecs \<Rightarrow> (nat \<Rightarrow> poll_round) \<Rightarrow> string \<Rightarrow> SendOptions
    \<Rightarrow> (sdk_error, string) result option" where
  "sendAndConfirmTransaction send sentAt poll encodedTransaction options =
     (let timeoutMs = (case so_timeoutMs options of None \<Rightarrow> 30000 | Some t \<Rightarrow> t);
          commitment = (case so_commitment options of None \<Rightarrow> ''confirmed'' | Some c \<Rightarrow> c)
      in case send encodedTransaction of
           Inl e \<Rightarrow> Some (Inl (EXTERNAL_ERROR e))
         | Inr signature \<Rightarrow> poll_loop commitment signature (sentAt + timeoutMs) timeoutMs poll)"

text \<open>A round ends the loop when it is past the deadline or has a verdict.\<close>

definition decides :: "(poll_round \<Rightarrow> 'r option) \<Rightarrow> msecs \<Rightarrow> poll_round \<Rightarrow> bool" where
  "decides verdict deadline r \<longleftrightarrow> deadline \<le> po_clock r \<or> verdict r \<noteq> None"

definition verdict_at :: "(poll_round \<Rightarrow> 'r option) \<Rightarrow> 'r \<Rightarrow> msecs \<Rightarrow> poll_round \<Rightarrow> 'r" where
  "verdict_at verdict late deadline r = (if deadline \<le> po_clock r then late else the (verdict r))"

lemma poll_until_decided:
  assumes "n \<le> k" and "\<And>i. n \<le> i \<Longrightarrow> i < k \<Longrightarrow> \<not> decides verdict dl (poll i)" and "decides verdict dl (poll k)"
  shows "poll_until verdict late dl poll n = Some (verdict_at verdict late dl (poll k))"
  using assms(1,2)
proof (induction "k - n" arbitrary: n)
  case 0
  then have "n = k" by simp
  with assms(3) show ?case
    by (auto simp: poll_until.simps [of _ _ _ _ k] decides_def verdict_at_def split: option.split)
next
  case (Suc m)
  then have "\<not> decides verdict dl (poll n)" by simp
  then have "po_clock (poll n) < dl" "verdict (poll n) = None"
    by (auto simp: decides_def)
  then show ?case
    using Suc by (simp add: poll_until.simps [of _ _ _ _ n])
qed

lemma clock_reaches:
  assumes "\<And>n :: nat. po_clock (poll n) + 1 \<le> po_clock (poll (n + 1))"
  shows "po_clock (poll 0) + int n \<le> po_clock (poll n)"
proof (induction n)
  case (Suc n)
  with assms [of n] show ?case by simp
qed simp

lemma some_round_decides:
  assumes "\<And>n :: nat. po_clock (poll n) + 1 \<le> po_clock (poll (n + 1))"
  shows "\<exists>k. decides verdict dl (poll k) \<and> (\<forall>i < k. \<not> decides verdict dl (poll i))"
proof -
  have "decides verdict dl (poll (nat (dl - po_clock (poll 0))))"
    using clock_reaches [of poll, OF assms, of "nat (dl - po_clock (poll 0))"] by (simp add: decides_def split: if_splits)
  then show ?thesis
    using exists_least_iff [of "\<lambda>k. decides verdict dl (poll k)"] by blast
qed

text \<open>So a polling loop ends as soon as the clock advances between rounds, with its deciding round's verdict.\<close>

lemma poll_until_ends:
  assumes "\<And>n :: nat. po_clock (poll n) + 1 \<le> po_clock (poll (n + 1))"
  obtains k where "poll_until verdict late dl poll 0 = Some (verdict_at verdict late dl (poll k))"
    "decides verdict dl (poll k)" "\<And>i. i < k \<Longrightarrow> \<not> decides verdict dl (poll i)"
  using some_round_decides [of poll, OF assms, where verdict = verdict and dl = dl]
    poll_until_decided [of 0 _ verdict dl poll late] by (metis zero_le)

text \<open>
  C24. \<open>sendAndConfirmTransaction\<close> always returns when the clock advances between polls. It returns
  the signature exactly when the transaction was sent, and some poll before the deadline reports
  sufficient confirmation without an error while every earlier poll was before the deadline too and
  left the outcome open; so a transaction reported as failed is never returned as confirmed.
\<close>
theorem send_and_confirm_total:
  assumes "\<And>n :: nat. po_clock (poll n) + 1 \<le> po_clock (poll (n + 1))"
  shows "\<exists>r. sendAndConfirmTransaction send sentAt poll tx opts = Some r
     \<and> (\<forall>s. r = Inr s \<longleftrightarrow>
          send tx = Inr s
          \<and> (\<exists>k st. po_status (poll k) = Inr (Some st) \<and> \<not> ss_err st
               \<and> confirmed_enough (case so_commitment opts of None \<Rightarrow> ''confirmed'' | Some c \<Rightarrow> c) st
               \<and> po_clock (poll k) < sentAt + (case so_timeoutMs opts of None \<Rightarrow> 30000 | Some t \<Rightarrow> t)
               \<and> (\<forall>i < k. po_clock (poll i) < sentAt + (case so_timeoutMs opts of None \<Rightarrow> 30000 | Some t \<Rightarrow> t)
                    \<and> poll_verdict (case so_commitment opts of None \<Rightarrow> ''confirmed'' | Some c \<Rightarrow> c) s (poll i) = None)))"
proof (cases "send tx")
  case (Inl e)
  then show ?thesis by (simp add: sendAndConfirmTransaction_def)
next
  case (Inr sig)
  define t where "t = (case so_timeoutMs opts of None \<Rightarrow> 30000 | Some t \<Rightarrow> t)"
  define com where "com = (case so_commitment opts of None \<Rightarrow> ''confirmed'' | Some c \<Rightarrow> c)"
  define dl where "dl = sentAt + t"
  define ver where "ver = poll_verdict com sig"
  define late where "late = (Inl (RPC_CONFIRMATION_TIMEOUT sig t) :: (sdk_error, string) result)"
  obtain k where ends: "poll_until ver late dl poll 0 = Some (verdict_at ver late dl (poll k))"
    and k: "decides ver dl (poll k)" "\<And>i. i < k \<Longrightarrow> \<not> decides ver dl (poll i)"
    using poll_until_ends [of poll ver late dl, OF assms] by blast
  have run: "sendAndConfirmTransaction send sentAt poll tx opts = Some (verdict_at ver late dl (poll k))"
    using ends Inr
    by (simp add: sendAndConfirmTransaction_def poll_loop_def Let_def t_def com_def dl_def ver_def late_def)
  have "verdict_at ver late dl (poll k) = Inr s \<longleftrightarrow>
      sig = s \<and> (\<exists>j st. po_status (poll j) = Inr (Some st) \<and> \<not> ss_err st \<and> confirmed_enough com st
        \<and> po_clock (poll j) < dl \<and> (\<forall>i < j. po_clock (poll i) < dl \<and> poll_verdict com s (poll i) = None))" (is "_ \<longleftrightarrow> ?R") for s
  proof
    assume v: "verdict_at ver late dl (poll k) = Inr s"
    then have "po_clock (poll k) < dl" "poll_verdict com sig (poll k) = Some (Inr s)"
      using k(1) by (auto simp: verdict_at_def decides_def ver_def late_def split: if_splits)
    moreover from this obtain st where "sig = s" "po_status (poll k) = Inr (Some st)" "\<not> ss_err st"
      "confirmed_enough com st"
      by (auto simp: poll_verdict_def split: sum.splits option.splits if_splits)
    moreover have "po_clock (poll i) < dl \<and> poll_verdict com sig (poll i) = None" if "i < k" for i
      using k(2) [OF that] by (auto simp: decides_def ver_def)
    ultimately show ?R by blast
  next
    assume ?R
    then obtain j st where j: "sig = s" "po_status (poll j) = Inr (Some st)" "\<not> ss_err st"
      "confirmed_enough com st" "po_clock (poll j) < dl"
      "\<And>i. i < j \<Longrightarrow> po_clock (poll i) < dl \<and> poll_verdict com s (poll i) = None" by blast
    then have "decides ver dl (poll j)" by (simp add: decides_def ver_def poll_verdict_def)
    moreover have "\<not> decides ver dl (poll i)" if "i < j" for i
      using j(1) j(6) [OF that] by (auto simp: decides_def ver_def)
    ultimately have "j = k" using k by (metis linorder_neqE_nat)
    then show "verdict_at ver late dl (poll k) = Inr s"
      using j by (simp add: verdict_at_def ver_def poll_verdict_def)
  qed
  then show ?thesis
    unfolding t_def [symmetric] com_def [symmetric] dl_def [symmetric]
    using run Inr by (intro exI [of _ "verdict_at ver late dl (poll k)"]) simp
qed

text \<open>A clock that advances one second per poll, pending twice and then confirmed.\<close>

definition sample_poll :: "nat \<Rightarrow> poll_round" where
  "sample_poll n =
     \<lparr>po_clock = 1000 + 1000 * int n,
      po_status = Inr (if n < 2 then None else Some \<lparr>ss_err = False, ss_confirmationStatus = ''confirmed''\<rparr>)\<rparr>"

definition sample_opts :: SendOptions where
  "sample_opts = \<lparr>so_timeoutMs = None, so_commitment = None\<rparr>"

theorem send_and_confirm_total_witness:
  "sendAndConfirmTransaction (\<lambda>_. Inr ''sig'') 500 sample_poll ''tx'' sample_opts = Some (Inr ''sig'')"
proof -
  have clock: "po_clock (sample_poll n) + 1 \<le> po_clock (sample_poll (n + 1))" for n
    by (simp add: sample_poll_def)
  obtain r where r: "sendAndConfirmTransaction (\<lambda>_. Inr ''sig'') 500 sample_poll ''tx'' sample_opts = Some r"
    "\<And>s. r = Inr s \<longleftrightarrow> Inr ''sig'' = (Inr s :: (js_error, string) result)
      \<and> (\<exists>k st. po_status (sample_poll k) = Inr (Some st) \<and> \<not> ss_err st \<and> confirmed_enough ''confirmed'' st
           \<and> po_clock (sample_poll k) < 500 + 30000
           \<and> (\<forall>i < k. po_clock (sample_poll i) < 500 + 30000
                \<and> poll_verdict ''confirmed'' s (sample_poll i) = None))"
    using send_and_confirm_total [of sample_poll "\<lambda>_. Inr ''sig''" 500 "''tx''" sample_opts, OF clock]
    by (auto simp: sample_opts_def)
  have "r = Inr ''sig''"
    unfolding r(2) by (intro conjI exI [of _ 2]) (auto simp: sample_poll_def confirmed_enough_def poll_verdict_def)
  then show ?thesis using r(1) by simp
qed

end
