(* ===== verification/SealPlugins.thy ===== *)
theory SealPlugins
  imports StateResolver
begin

text \<open>
  The two extension points of \<open>seal()\<close>: lifecycle hooks (\<open>sdk/kit/src/hooks.ts\<close>) and policy plugins
  (\<open>sdk/kit/src/plugin.ts\<close>).

  Hooks and plugins are consumer code. A call of one is a function of a world \<open>'s\<close> which it may
  change, and it either throws or returns; the order of calls is therefore visible in the world.
  Log lines and the timing warning of the plugin runner are not modelled.
\<close>

type_synonym ('s, 'a) callback = "('s, js_error, 'a) step"

section \<open>hooks.ts\<close>

record SealHookContext =
  hc_vault :: address
  hc_agent :: address
  hc_tokenMint :: address
  hc_amount :: int
  hc_network :: string
  hc_correlationId :: string

text \<open>
  What \<open>onBeforeBuild\<close> returns: \<open>None\<close> for anything that is not \<open>{ skipSeal: true, reason }\<close>,
  otherwise the reason. \<open>'p\<close> is the parameter object, \<open>'t\<close> the compiled transaction.
\<close>

record ('s, 'p, 't) SealHooks =
  sh_onBeforeBuild :: "(SealHookContext \<Rightarrow> 'p \<Rightarrow> ('s, string option) callback) option"
  sh_onBeforeSign :: "(SealHookContext \<Rightarrow> 't \<Rightarrow> ('s, unit) callback) option"
  sh_onAfterSend :: "(SealHookContext \<Rightarrow> string \<Rightarrow> ('s, unit) callback) option"
  sh_onError :: "(SealHookContext \<Rightarrow> sdk_error \<Rightarrow> ('s, unit) callback) option"
  sh_onFinalize :: "(SealHookContext \<Rightarrow> string \<Rightarrow> ('s, unit) callback) option"

text \<open>\<open>await f?.(ctx, x)\<close>.\<close>

definition opt_call :: "('c \<Rightarrow> 'x \<Rightarrow> ('s, 'a) callback) option \<Rightarrow> 'a \<Rightarrow> 'c \<Rightarrow> 'x \<Rightarrow> ('s, 'a) callback" where
  "opt_call f undef ctx x s = (case f of None \<Rightarrow> (Inr undef, s) | Some g \<Rightarrow> g ctx x s)"

definition compose_before_build ::
  "(SealHookContext \<Rightarrow> 'p \<Rightarrow> ('s, string option) callback) option
    \<Rightarrow> (SealHookContext \<Rightarrow> 'p \<Rightarrow> ('s, string option) callback) option
    \<Rightarrow> SealHookContext \<Rightarrow> 'p \<Rightarrow> ('s, string option) callback" where
  "compose_before_build outer inner ctx params =
     sbind (opt_call outer None ctx params) (\<lambda>outerResult.
       case outerResult of
         Some reason \<Rightarrow> sresult (Inr (Some reason))
       | None \<Rightarrow> opt_call inner None ctx params)"

definition compose_observe ::
  "(SealHookContext \<Rightarrow> 'x \<Rightarrow> ('s, unit) callback) option
    \<Rightarrow> (SealHookContext \<Rightarrow> 'x \<Rightarrow> ('s, unit) callback) option
    \<Rightarrow> SealHookContext \<Rightarrow> 'x \<Rightarrow> ('s, unit) callback" where
  "compose_observe outer inner ctx x =
     sbind (opt_call outer () ctx x) (\<lambda>_. opt_call inner () ctx x)"

definition composeHooks ::
  "('s, 'p, 't) SealHooks option \<Rightarrow> ('s, 'p, 't) SealHooks option \<Rightarrow> ('s, 'p, 't) SealHooks option" where
  "composeHooks outer inner =
     (case (outer, inner) of
        (None, None) \<Rightarrow> None
      | (None, Some i) \<Rightarrow> Some i
      | (Some out, None) \<Rightarrow> Some out
      | (Some out, Some i) \<Rightarrow>
          Some \<lparr>sh_onBeforeBuild = Some (compose_before_build (sh_onBeforeBuild out) (sh_onBeforeBuild i)),
                sh_onBeforeSign = Some (compose_observe (sh_onBeforeSign out) (sh_onBeforeSign i)),
                sh_onAfterSend = Some (compose_observe (sh_onAfterSend out) (sh_onAfterSend i)),
                sh_onError = Some (compose_observe (sh_onError out) (sh_onError i)),
                sh_onFinalize = Some (compose_observe (sh_onFinalize out) (sh_onFinalize i))\<rparr>)"

text \<open>\<open>invokeHook(hooks, key, ctx, x)\<close>: the key is the record's selector, a throw is swallowed.\<close>

definition invokeHook ::
  "('h \<Rightarrow> ('c \<Rightarrow> 'x \<Rightarrow> ('s, 'a) callback) option) \<Rightarrow> 'h option \<Rightarrow> 'a \<Rightarrow> 'c \<Rightarrow> 'x \<Rightarrow> 's \<Rightarrow> 'a \<times> 's" where
  "invokeHook key hooks undef ctx x s =
     (case hooks of
        None \<Rightarrow> (undef, s)
      | Some h \<Rightarrow>
          (case key h of
             None \<Rightarrow> (undef, s)
           | Some f \<Rightarrow>
               (case f ctx x s of
                  (Inr a, s') \<Rightarrow> (a, s')
                | (Inl _, s') \<Rightarrow> (undef, s'))))"

lemma opt_call_Some [simp]: "opt_call (Some f) u c x = f c x"
  by (rule ext) (simp add: opt_call_def)

lemma compose_observe_assoc:
  "compose_observe (Some (compose_observe a b)) c = compose_observe a (Some (compose_observe b c))"
  by (intro ext) (simp add: compose_observe_def sbind_assoc)

lemma compose_before_build_assoc:
  "compose_before_build (Some (compose_before_build a b)) c
     = compose_before_build a (Some (compose_before_build b c))"
proof (intro ext)
  fix ctx p s
  show "compose_before_build (Some (compose_before_build a b)) c ctx p s
      = compose_before_build a (Some (compose_before_build b c)) ctx p s"
    unfolding compose_before_build_def
    by (simp add: sbind_def sresult_def split: prod.split sum.split option.split)
qed

text \<open>
  Composing hooks is a monoid: composing with no hooks changes nothing, and it does not matter
  how client-level, facade-level and per-call hooks are grouped when they are composed, at every
  stage, for what is returned, thrown and done to the world.
\<close>
theorem compose_hooks_monoid:
  "composeHooks None h = h \<and> composeHooks h None = h
   \<and> composeHooks (composeHooks a b) c = composeHooks a (composeHooks b c)"
proof (intro conjI)
  show "composeHooks None h = h" "composeHooks h None = h"
    by (cases h; simp add: composeHooks_def)+
  show "composeHooks (composeHooks a b) c = composeHooks a (composeHooks b c)"
    by (cases a; cases b; cases c)
      (simp_all add: composeHooks_def compose_observe_assoc compose_before_build_assoc)
qed

text \<open>
  A client-level \<open>onBeforeBuild\<close> that throws silences the per-call one: the composed hook throws
  before the second hook runs, \<open>invokeHook\<close> swallows the throw, and the answer is "no abort" even
  when the second hook, invoked alone, aborts.
\<close>
theorem composed_outer_throw_drops_inner_abort:
  assumes "sh_onBeforeBuild out = Some f" and "f ctx p s = (Inl e, s')"
    and "sh_onBeforeBuild inn = Some g" and "g ctx p s' = (Inr (Some reason), s'')"
  shows "invokeHook sh_onBeforeBuild (composeHooks (Some out) (Some inn)) None ctx p s = (None, s')
       \<and> invokeHook sh_onBeforeBuild (Some inn) None ctx p s' = (Some reason, s'')"
  using assms by (simp add: invokeHook_def composeHooks_def compose_before_build_def sbind_def)

definition sample_ctx :: SealHookContext where
  "sample_ctx = \<lparr>hc_vault = ''V'', hc_agent = ''A'', hc_tokenMint = ''M'', hc_amount = 5,
     hc_network = ''devnet'', hc_correlationId = ''id''\<rparr>"

definition throwing_hooks :: "(nat, unit, unit) SealHooks" where
  "throwing_hooks =
     \<lparr>sh_onBeforeBuild = Some (\<lambda>_ _ s. (Inl \<lparr>je_isError = True, je_code = None, je_message = ''x''\<rparr>, s + 1)),
      sh_onBeforeSign = None, sh_onAfterSend = None, sh_onError = None, sh_onFinalize = None\<rparr>"

definition aborting_hooks :: "(nat, unit, unit) SealHooks" where
  "aborting_hooks =
     \<lparr>sh_onBeforeBuild = Some (\<lambda>_ _ s. (Inr (Some ''no consent''), s + 10)),
      sh_onBeforeSign = None, sh_onAfterSend = None, sh_onError = None, sh_onFinalize = None\<rparr>"

theorem composed_outer_throw_drops_inner_abort_witness:
  "invokeHook sh_onBeforeBuild (composeHooks (Some throwing_hooks) (Some aborting_hooks)) None sample_ctx () 0
     = (None, 1)
   \<and> invokeHook sh_onBeforeBuild (Some aborting_hooks) None sample_ctx () 1 = (Some ''no consent'', 11)"
  using composed_outer_throw_drops_inner_abort [of throwing_hooks "the (sh_onBeforeBuild throwing_hooks)"
      sample_ctx "()" 0 "\<lparr>je_isError = True, je_code = None, je_message = ''x''\<rparr>" 1
      aborting_hooks "the (sh_onBeforeBuild aborting_hooks)" "''no consent''" 11]
  by (simp add: throwing_hooks_def aborting_hooks_def)

section \<open>plugin.ts\<close>

record PluginState =
  ps_globalBudget :: EffectiveBudget
  ps_agentBudget :: "EffectiveBudget option"
  ps_vaultStatus :: VaultStatus
  ps_capabilityTier :: nat
  ps_maxTransactionUsd :: int
  ps_resolvedAtTimestamp :: int

text \<open>\<open>'i\<close> is the type of instructions.\<close>

record 'i PluginContext =
  px_vault :: address
  px_agent :: address
  px_tokenMint :: address
  px_amount :: int
  px_network :: string
  px_instructions :: "'i list"
  px_correlationId :: string
  px_state :: PluginState

datatype PluginResult = PluginAllow | PluginReject (pj_reason: string)

record ('s, 'i) SigilPolicyPlugin =
  pl_name :: string
  pl_check :: "'i PluginContext \<Rightarrow> ('s, PluginResult) callback"

fun run_plugins_loop ::
  "('s, 'i) SigilPolicyPlugin list \<Rightarrow> 'i PluginContext \<Rightarrow> 's \<Rightarrow> (sdk_error, unit) result \<times> 's" where
  "run_plugins_loop [] ctx s = (Inr (), s)"
| "run_plugins_loop (plugin # rest) ctx s =
     (case pl_check plugin ctx s of
        (Inl err, s') \<Rightarrow> (Inl (SDK_PLUGIN_REJECTED (pl_name plugin) (je_message err)), s')
      | (Inr (PluginReject reason), s') \<Rightarrow> (Inl (SDK_PLUGIN_REJECTED (pl_name plugin) reason), s')
      | (Inr PluginAllow, s') \<Rightarrow> run_plugins_loop rest ctx s')"

definition runPlugins ::
  "('s, 'i) SigilPolicyPlugin list option \<Rightarrow> 'i PluginContext \<Rightarrow> 's \<Rightarrow> (sdk_error, unit) result \<times> 's" where
  "runPlugins plugins ctx s =
     (case plugins of
        None \<Rightarrow> (Inr (), s)
      | Some ps \<Rightarrow> if length ps = 0 then (Inr (), s) else run_plugins_loop ps ctx s)"

text \<open>
  The reference: the plugins' checks one after the other, each in the world the previous ones left.
  \<open>plugins_allow ps ctx s s'\<close> says that all of them allow.
\<close>

inductive plugins_allow ::
  "('s, 'i) SigilPolicyPlugin list \<Rightarrow> 'i PluginContext \<Rightarrow> 's \<Rightarrow> 's \<Rightarrow> bool" where
  allow_Nil: "plugins_allow [] ctx s s"
| allow_Cons: "pl_check p ctx s = (Inr PluginAllow, s1) \<Longrightarrow> plugins_allow ps ctx s1 s2
    \<Longrightarrow> plugins_allow (p # ps) ctx s s2"

inductive_simps plugins_allow_simps [simp]:
  "plugins_allow [] ctx s s'"
  "plugins_allow (p # ps) ctx s s'"

text \<open>The reason a plugin's check gives for stopping, if it does: a rejection or a throw.\<close>

definition rejection :: "(js_error, PluginResult) result \<Rightarrow> string option" where
  "rejection r =
     (case r of Inl err \<Rightarrow> Some (je_message err)
      | Inr PluginAllow \<Rightarrow> None | Inr (PluginReject reason) \<Rightarrow> Some reason)"

lemma run_plugins_loop_ok_iff:
  "run_plugins_loop ps ctx s = (Inr (), s') \<longleftrightarrow> plugins_allow ps ctx s s'"
  by (induction ps arbitrary: s)
    (auto split: prod.splits sum.splits PluginResult.splits)

lemma run_plugins_loop_error_iff:
  "run_plugins_loop ps ctx s = (Inl e, s') \<longleftrightarrow>
     (\<exists>pre p post s1 r reason. ps = pre @ p # post \<and> plugins_allow pre ctx s s1
        \<and> pl_check p ctx s1 = (r, s') \<and> rejection r = Some reason
        \<and> e = SDK_PLUGIN_REJECTED (pl_name p) reason)" (is "_ \<longleftrightarrow> ?R ps s")
proof (induction ps arbitrary: s)
  case (Cons p ps)
  obtain r s1 where c: "pl_check p ctx s = (r, s1)" by fastforce
  show ?case
  proof (cases "rejection r")
    case None
    then have r: "r = Inr PluginAllow"
      by (simp add: rejection_def split: sum.splits PluginResult.splits)
    have "?R (p # ps) s \<longleftrightarrow> ?R ps s1"
    proof
      assume "?R (p # ps) s"
      then obtain pre q post t r' reason where h: "p # ps = pre @ q # post" "plugins_allow pre ctx s t"
        "pl_check q ctx t = (r', s')" "rejection r' = Some reason" "e = SDK_PLUGIN_REJECTED (pl_name q) reason"
        by blast
      then show "?R ps s1"
        using c None by (cases pre) auto
    next
      assume "?R ps s1"
      then obtain pre q post t r' reason where h: "ps = pre @ q # post" "plugins_allow pre ctx s1 t"
        "pl_check q ctx t = (r', s')" "rejection r' = Some reason" "e = SDK_PLUGIN_REJECTED (pl_name q) reason"
        by blast
      moreover have "plugins_allow (p # pre) ctx s t"
        using c r h(2) by simp
      ultimately show "?R (p # ps) s"
        by (metis append_Cons)
    qed
    then show ?thesis using c r Cons.IH by simp
  next
    case (Some reason)
    have l: "run_plugins_loop (p # ps) ctx s = (Inl (SDK_PLUGIN_REJECTED (pl_name p) reason), s1)"
      using c Some by (auto simp: rejection_def split: sum.splits PluginResult.splits)
    have "?R (p # ps) s \<longleftrightarrow> e = SDK_PLUGIN_REJECTED (pl_name p) reason \<and> s' = s1"
    proof
      assume "?R (p # ps) s"
      then obtain pre q post t r' reason' where h: "p # ps = pre @ q # post" "plugins_allow pre ctx s t"
        "pl_check q ctx t = (r', s')" "rejection r' = Some reason'" "e = SDK_PLUGIN_REJECTED (pl_name q) reason'"
        by blast
      then show "e = SDK_PLUGIN_REJECTED (pl_name p) reason \<and> s' = s1"
        using c Some by (cases pre) (auto simp: rejection_def)
    next
      assume "e = SDK_PLUGIN_REJECTED (pl_name p) reason \<and> s' = s1"
      then show "?R (p # ps) s"
        using c Some by (metis allow_Nil append_Nil)
    qed
    then show ?thesis using l by auto
  qed
qed simp

text \<open>
  The plugin runner is a short-circuiting conjunction in registration order. It succeeds exactly
  when every plugin, run in the world its predecessors left, allows; it fails exactly when some
  plugin rejects or throws after all its predecessors allowed, with that plugin's name and reason,
  and then no later plugin has run.
\<close>
theorem run_plugins_exact:
  "(runPlugins (Some ps) ctx s = (Inr (), s') \<longleftrightarrow> plugins_allow ps ctx s s')
   \<and> (runPlugins (Some ps) ctx s = (Inl e, s') \<longleftrightarrow>
       (\<exists>pre p post s1 r reason. ps = pre @ p # post \<and> plugins_allow pre ctx s s1
          \<and> pl_check p ctx s1 = (r, s') \<and> rejection r = Some reason
          \<and> e = SDK_PLUGIN_REJECTED (pl_name p) reason))"
proof -
  have "runPlugins (Some ps) ctx s = run_plugins_loop ps ctx s"
    by (cases ps) (simp_all add: runPlugins_def)
  then show ?thesis
    by (simp only: run_plugins_loop_ok_iff run_plugins_loop_error_iff)
qed

text \<open>
  \<open>validatePluginList\<close> inspects an arbitrary value: of an entry it sees whether it is an object, its
  \<open>name\<close> if that is a string, and whether \<open>check\<close> is a function.
\<close>

datatype plugin_value = NotObject | PluginObject (pv_name: "string option") (pv_hasCheck: bool)
datatype plugins_value = NotArray | PluginArray "plugin_value list"

definition plugin_field :: "nat \<Rightarrow> string" where
  "plugin_field i = ''plugins['' @ show_nat i @ '']''"

fun validate_plugins_loop :: "nat \<Rightarrow> plugin_value list \<Rightarrow> string list \<Rightarrow> (sdk_error, unit) result" where
  "validate_plugins_loop i [] names = Inr ()"
| "validate_plugins_loop i (NotObject # ps) names = Inl (SDK_INVALID_CONFIG (plugin_field i))"
| "validate_plugins_loop i (PluginObject nm hasCheck # ps) names =
     (case nm of
        None \<Rightarrow> Inl (SDK_INVALID_CONFIG (plugin_field i @ ''.name''))
      | Some n \<Rightarrow>
          if length n = 0 then Inl (SDK_INVALID_CONFIG (plugin_field i @ ''.name''))
          else if \<not> hasCheck then Inl (SDK_INVALID_CONFIG (''plugins['' @ n @ ''].check''))
          else if n \<in> set names then Inl (SDK_INVALID_CONFIG ''plugins[].name'')
          else validate_plugins_loop (i + 1) ps (set_add names n))"

fun validatePluginList :: "plugins_value \<Rightarrow> (sdk_error, unit) result" where
  "validatePluginList NotArray = Inl (SDK_INVALID_CONFIG ''plugins'')"
| "validatePluginList (PluginArray ps) = validate_plugins_loop 0 ps []"

definition well_named :: "plugin_value \<Rightarrow> bool" where
  "well_named p \<longleftrightarrow> (case p of PluginObject (Some n) True \<Rightarrow> n \<noteq> [] | _ \<Rightarrow> False)"

lemma validate_plugins_loop_ok_iff:
  "validate_plugins_loop i ps names = Inr () \<longleftrightarrow>
     list_all well_named ps \<and> distinct (map pv_name ps) \<and> (\<forall>n \<in> set names. Some n \<notin> pv_name ` set ps)"
proof (induction i ps names rule: validate_plugins_loop.induct)
  case (3 i nm hasCheck ps names)
  then show ?case
    by (cases nm) (auto simp: well_named_def)
qed (simp_all add: well_named_def)

text \<open>
  A plugin list is accepted at client construction exactly when it is an array of objects that
  all have a non-empty string name and a \<open>check\<close> function, with no name used twice.
\<close>
theorem validate_plugin_list_exact:
  "validatePluginList v = Inr () \<longleftrightarrow>
     (\<exists>ps. v = PluginArray ps \<and> list_all well_named ps \<and> distinct (map pv_name ps))"
  by (cases v) (simp_all add: validate_plugins_loop_ok_iff)

end
