(* ===== verification/Composer.thy ===== *)
theory Composer
  imports RpcHelpers SealPlugins
begin

text \<open>
  \<open>sdk/kit/src/composer.ts\<close> and the compute-unit estimate of \<open>sdk/kit/src/priority-fees.ts\<close>: the order
  of instructions in a composed transaction, and the measurement of its wire size.

  The kit's message compiler, its lookup-table compression, its wire encoding and the two
  compute-budget instruction builders are the fields of \<open>compose_env\<close>.
\<close>

section \<open>Instructions\<close>

datatype AccountRole = READONLY | WRITABLE | READONLY_SIGNER | WRITABLE_SIGNER

record AccountMeta =
  am_address :: address
  am_role :: AccountRole

record Instruction =
  ix_programAddress :: address
  ix_accounts :: "AccountMeta list option"
  ix_data :: "bytes option"

section \<open>priority-fees.ts\<close>

definition CU_AGENT_TRANSFER :: nat where "CU_AGENT_TRANSFER = 200000"
definition CU_JUPITER_MULTI_HOP :: nat where "CU_JUPITER_MULTI_HOP = 900000"
definition CU_DEFAULT_COMPOSED :: nat where "CU_DEFAULT_COMPOSED = 800000"

definition JUPITER_PROGRAM :: address where
  "JUPITER_PROGRAM = ''JUP6LkbZbjS1jKKwapdHNy74zcZ3tLUZoi5QNyVTaV4''"

fun first_registered :: "address list \<Rightarrow> nat option" where
  "first_registered [] = None"
| "first_registered (a # as) =
     (case map_of SUPPORTED_PROTOCOLS a of Some meta \<Rightarrow> Some (pm_defaultCU meta) | None \<Rightarrow> first_registered as)"

definition estimateComposedCU :: "Instruction list \<Rightarrow> nat" where
  "estimateComposedCU defiInstructions =
     (if length defiInstructions = 0 then CU_AGENT_TRANSFER
      else
        let programAddresses = map ix_programAddress defiInstructions;
            hasJupiter = list_ex (\<lambda>a. a = JUPITER_PROGRAM) programAddresses
        in if hasJupiter \<and> length defiInstructions > 2 then CU_JUPITER_MULTI_HOP
           else case first_registered programAddresses of
                  Some cu \<Rightarrow> cu
                | None \<Rightarrow> CU_DEFAULT_COMPOSED)"

text \<open>The estimate never exceeds Solana's limit of 1,400,000 compute units per transaction.\<close>

lemma first_registered_bound: "first_registered as = Some cu \<Longrightarrow> 400000 \<le> cu \<and> cu \<le> 800000"
proof (induction as)
  case (Cons a as)
  show ?case
  proof (cases "map_of SUPPORTED_PROTOCOLS a")
    case (Some meta)
    then have "meta \<in> snd ` set SUPPORTED_PROTOCOLS" by (force dest: map_of_SomeD)
    then have "400000 \<le> pm_defaultCU meta \<and> pm_defaultCU meta \<le> 800000"
      by (auto simp: SUPPORTED_PROTOCOLS_def)
    then show ?thesis using Some Cons.prems by simp
  qed (use Cons in simp)
qed simp

lemma estimateComposedCU_bounds: "200000 \<le> estimateComposedCU ixs \<and> estimateComposedCU ixs \<le> 900000"
  by (auto simp: estimateComposedCU_def Let_def CU_AGENT_TRANSFER_def CU_JUPITER_MULTI_HOP_def
      CU_DEFAULT_COMPOSED_def split: option.split dest: first_registered_bound)

section \<open>composer.ts\<close>

definition MAX_TX_SIZE :: nat where "MAX_TX_SIZE = 1232"

record TransactionMessage =
  tm_version :: nat
  tm_feePayer :: address
  tm_lifetime :: Blockhash
  tm_instructions :: "Instruction list"

record ('m, 'tx) compose_env =
  cp_setComputeUnitLimit :: "nat \<Rightarrow> Instruction"
  cp_setComputeUnitPrice :: "nat \<Rightarrow> Instruction"
  cp_message :: "TransactionMessage \<Rightarrow> 'm"
  cp_compress :: "'m \<Rightarrow> lookup_tables \<Rightarrow> 'm"
  cp_compile :: "'m \<Rightarrow> 'tx"
  cp_wire64 :: "'tx \<Rightarrow> string"

record ComposeParams =
  cq_feePayer :: address
  cq_validateIx :: Instruction
  cq_defiInstructions :: "Instruction list"
  cq_finalizeIx :: Instruction
  cq_blockhash :: Blockhash
  cq_computeUnits :: "nat option"
  cq_priorityFeeMicroLamports :: "nat option"
  cq_addressLookupTables :: "lookup_tables option"

definition composed_instructions :: "('m, 'tx) compose_env \<Rightarrow> ComposeParams \<Rightarrow> Instruction list" where
  "composed_instructions env params =
     (let units = (case cq_computeUnits params of
                     Some u \<Rightarrow> u
                   | None \<Rightarrow> estimateComposedCU (cq_defiInstructions params));
          computeBudgetIx = cp_setComputeUnitLimit env units;
          priorityFee = (case cq_priorityFeeMicroLamports params of
                           Some fee \<Rightarrow> if fee > 0 then [cp_setComputeUnitPrice env fee] else []
                         | None \<Rightarrow> [])
      in [computeBudgetIx] @ priorityFee
         @ [cq_validateIx params] @ cq_defiInstructions params @ [cq_finalizeIx params])"

definition composeSigilTransaction :: "('m, 'tx) compose_env \<Rightarrow> ComposeParams \<Rightarrow> 'tx" where
  "composeSigilTransaction env params =
     (let txMessage = cp_message env
            \<lparr>tm_version = 0, tm_feePayer = cq_feePayer params, tm_lifetime = cq_blockhash params,
             tm_instructions = composed_instructions env params\<rparr>
      in cp_compile env
           (case cq_addressLookupTables params of
              Some alts \<Rightarrow> if length alts > 0 then cp_compress env txMessage alts else txMessage
            | None \<Rightarrow> txMessage))"

text \<open>\<open>(len / 4) * 3 - padding\<close> on numbers: exact for any string the SDK can hold.\<close>

definition base64ByteLength :: "string \<Rightarrow> rat" where
  "base64ByteLength b64 =
     (let len = length b64;
          padding = (if len > 0 \<and> b64 ! (len - 1) = CHR ''='' then 1 else 0)
                  + (if len > 1 \<and> b64 ! (len - 2) = CHR ''='' then 1 else 0)
      in of_nat len / 4 * 3 - padding)"

definition validateTransactionSize :: "('m, 'tx) compose_env \<Rightarrow> 'tx \<Rightarrow> (sdk_error, string) result" where
  "validateTransactionSize env compiledTx =
     (let wireBytes = cp_wire64 env compiledTx; byteLength = base64ByteLength wireBytes
      in if byteLength > of_nat MAX_TX_SIZE then Inl (RPC_TX_TOO_LARGE byteLength MAX_TX_SIZE)
         else Inr wireBytes)"

record TxSize =
  sz_wireBase64 :: string
  sz_byteLength :: rat
  sz_withinLimit :: bool

definition measureTransactionSize :: "('m, 'tx) compose_env \<Rightarrow> 'tx \<Rightarrow> TxSize" where
  "measureTransactionSize env compiledTx =
     (let wireBase64 = cp_wire64 env compiledTx; byteLength = base64ByteLength wireBase64
      in \<lparr>sz_wireBase64 = wireBase64, sz_byteLength = byteLength,
          sz_withinLimit = (byteLength \<le> of_nat MAX_TX_SIZE)\<rparr>)"

lemma base64ByteLength_step:
  assumes "2 \<le> length s"
  shows "base64ByteLength (a # b # c # d # s) = 3 + base64ByteLength s"
proof -
  obtain x y r where s: "rev s = x # y # r"
    using assms by (cases "rev s"; cases "tl (rev s)") auto
  then have "s = rev r @ [y, x]" by (metis append.assoc append_Cons append_Nil rev.simps(2) rev_rev_ident)
  then show ?thesis by (simp add: base64ByteLength_def Let_def nth_append add_divide_distrib)
qed

lemma length_btoa: "bs \<noteq> [] \<Longrightarrow> 2 \<le> length (btoa bs)"
  by (induction bs rule: btoa.induct) simp_all

lemma base64ByteLength_btoa:
  assumes "is_bytes bs"
  shows "base64ByteLength (btoa bs) = of_nat (length bs)"
  using assms
proof (induction bs rule: btoa.induct)
  case (4 a b c rest)
  then have b: "a < 256" "b < 256" "c < 256" "is_bytes rest" by (simp_all add: is_bytes_def)
  show ?case
  proof (cases "rest = []")
    case True
    then show ?thesis
      using b b64_char_plain sextet_bounds(3) by (simp add: base64ByteLength_def)
  next
    case False
    then show ?thesis
      using 4(1) [OF b(4)] length_btoa by (simp add: base64ByteLength_step)
  qed
qed (simp_all add: base64ByteLength_def b64_char_plain sextet_bounds is_bytes_def)

lemma rat_1232: "(of_nat n \<le> (1232 :: rat)) = (n \<le> 1232)" "((1232 :: rat) < of_nat n) = (1232 < n)" for n :: nat
  by (metis of_nat_le_iff of_nat_numeral, metis of_nat_less_iff of_nat_numeral)

lemma measured_size:
  assumes "cp_wire64 env tx = btoa bs" and "is_bytes bs"
  shows "sz_byteLength (measureTransactionSize env tx) = of_nat (length bs)"
    and "sz_withinLimit (measureTransactionSize env tx) = (length bs \<le> 1232)"
  using base64ByteLength_btoa [OF assms(2)]
  by (simp_all add: measureTransactionSize_def Let_def assms(1) MAX_TX_SIZE_def rat_1232)

text \<open>
  The size check of a transaction is exact: with a wire encoding that is the base64 of bytes, the
  measured length is the number of wire bytes, and a transaction is accepted exactly when it has at
  most 1232 of them, by the throwing and the non-throwing check alike.
\<close>
theorem transaction_size_exact:
  assumes "\<And>t. cp_wire64 env t = btoa (wire t)" and "\<And>t. is_bytes (wire t)"
  shows "sz_byteLength (measureTransactionSize env tx) = of_nat (length (wire tx))
       \<and> sz_withinLimit (measureTransactionSize env tx) = (length (wire tx) \<le> 1232)
       \<and> validateTransactionSize env tx =
           (if length (wire tx) \<le> 1232 then Inr (btoa (wire tx))
            else Inl (RPC_TX_TOO_LARGE (of_nat (length (wire tx))) 1232))"
  using measured_size [of env tx "wire tx", OF assms] base64ByteLength_btoa [OF assms(2), of tx]
  by (simp add: validateTransactionSize_def Let_def assms(1) MAX_TX_SIZE_def rat_1232 not_less)

text \<open>An environment whose transactions are byte strings: the message's instruction count, repeated.\<close>

definition sample_ix :: "address \<Rightarrow> bytes \<Rightarrow> Instruction" where
  "sample_ix p d = \<lparr>ix_programAddress = p, ix_accounts = None, ix_data = Some d\<rparr>"

definition sample_compose_env :: "(nat, bytes) compose_env" where
  "sample_compose_env =
     \<lparr>cp_setComputeUnitLimit = \<lambda>u. sample_ix COMPUTE_BUDGET_PROGRAM_ADDRESS [2],
      cp_setComputeUnitPrice = \<lambda>p. sample_ix COMPUTE_BUDGET_PROGRAM_ADDRESS [3],
      cp_message = \<lambda>m. length (tm_instructions m),
      cp_compress = \<lambda>m alts. m, cp_compile = \<lambda>m. replicate m 7,
      cp_wire64 = \<lambda>t. btoa (map (\<lambda>b. b mod 256) t)\<rparr>"

theorem transaction_size_exact_witness:
  "sz_byteLength (measureTransactionSize sample_compose_env [1, 2, 3, 4]) = 4
   \<and> validateTransactionSize sample_compose_env [1, 2, 3, 4] = Inr (btoa [1, 2, 3, 4])"
proof -
  have "is_bytes (map (\<lambda>b. b mod 256) t)" for t :: bytes
    by (simp add: is_bytes_def list_all_iff)
  then show ?thesis
    using transaction_size_exact [of sample_compose_env "map (\<lambda>b. b mod 256)" "[1, 2, 3, 4]"]
    by (simp add: sample_compose_env_def)
qed

section \<open>The sandwich\<close>

text \<open>
  Order in a composed transaction, for any builders of the compute-budget program: nothing before
  \<open>validate\<close> but compute-budget instructions, then exactly the caller's instructions, then \<open>finalize\<close>
  last.
\<close>

lemma composed_sandwich:
  assumes "\<And>u. ix_programAddress (cp_setComputeUnitLimit env u) = COMPUTE_BUDGET_PROGRAM_ADDRESS"
    and "\<And>p. ix_programAddress (cp_setComputeUnitPrice env p) = COMPUTE_BUDGET_PROGRAM_ADDRESS"
  shows "\<exists>budget. composed_instructions env params
       = budget @ cq_validateIx params # cq_defiInstructions params @ [cq_finalizeIx params]
     \<and> budget \<noteq> [] \<and> length budget \<le> 2
     \<and> (\<forall>ix \<in> set budget. ix_programAddress ix = COMPUTE_BUDGET_PROGRAM_ADDRESS)"
  using assms unfolding composed_instructions_def Let_def
  by (cases "cq_priorityFeeMicroLamports params"; cases "the (cq_priorityFeeMicroLamports params) > 0")
    (fastforce intro: exI [of _ "[_]"] exI [of _ "[_, _]"])+

end
