(* ===== verification/SigilInstructions.thy ===== *)
theory SigilInstructions
  imports Composer
begin

text \<open>
  The two instructions that frame a sealed transaction, as the generated client
  (\<open>sdk/kit/src/generated/instructions/\<close>) builds them from \<open>seal()\<close>'s inputs: accounts in order, with
  defaults for the policy, tracker and session, and the instruction data.

  The account-meta factory of the program client, the address codec and the kit's u64 encoder are the
  fields of \<open>builder_env\<close>. The factory sees the account's value, whether it is a signer and whether
  it is declared writable; the encoder throws out of range.
\<close>

record builder_env =
  bv_pda :: "(address \<times> nat) derivation"
  bv_enc :: "address \<Rightarrow> bytes"
  bv_u64 :: "int \<Rightarrow> (js_error, bytes) result"
  bv_meta :: "address option \<Rightarrow> bool \<Rightarrow> bool \<Rightarrow> AccountMeta"

record ValidateInput =
  vi_agent :: address
  vi_vault :: address
  vi_agentSpendOverlay :: address
  vi_vaultTokenAccount :: address
  vi_tokenMintAccount :: address
  vi_protocolTreasuryTokenAccount :: "address option"
  vi_feeDestinationTokenAccount :: "address option"
  vi_outputStablecoinAccount :: "address option"
  vi_tokenMint :: address
  vi_amount :: int
  vi_targetProtocol :: address
  vi_expectedPolicyVersion :: int

definition validate_data :: "builder_env \<Rightarrow> ValidateInput \<Rightarrow> (sdk_error, bytes) result" where
  "validate_data env input =
     rbind (lift_err (bv_u64 env (vi_amount input))) (\<lambda>amount.
     rbind (lift_err (bv_u64 env (vi_expectedPolicyVersion input))) (\<lambda>version.
       Inr (VALIDATE_AND_AUTHORIZE_DISCRIMINATOR @ bv_enc env (vi_tokenMint input) @ amount
            @ bv_enc env (vi_targetProtocol input) @ version)))"

definition getValidateAndAuthorizeInstructionAsync ::
  "builder_env \<Rightarrow> ValidateInput \<Rightarrow> (sdk_error, Instruction) result" where
  "getValidateAndAuthorizeInstructionAsync env input =
     (let pda = bv_pda env; enc = bv_enc env; prog = SIGIL_PROGRAM_ADDRESS; meta = bv_meta env;
          policy = fst (pda prog [[112, 111, 108, 105, 99, 121], enc (vi_vault input)]);
          tracker = fst (pda prog [[116, 114, 97, 99, 107, 101, 114], enc (vi_vault input)]);
          session = fst (pda prog [[115, 101, 115, 115, 105, 111, 110], enc (vi_vault input), enc (vi_agent input),
                                   enc (vi_tokenMint input)])
      in rbind (validate_data env input) (\<lambda>data.
         Inr \<lparr>ix_programAddress = prog,
              ix_accounts = Some
                [meta (Some (vi_agent input)) True True,
                 meta (Some (vi_vault input)) False True,
                 meta (Some policy) False False,
                 meta (Some tracker) False True,
                 meta (Some (vi_agentSpendOverlay input)) False True,
                 meta (Some session) False True,
                 meta (Some (vi_vaultTokenAccount input)) False True,
                 meta (Some (vi_tokenMintAccount input)) False False,
                 meta (vi_protocolTreasuryTokenAccount input) False True,
                 meta (vi_feeDestinationTokenAccount input) False True,
                 meta (vi_outputStablecoinAccount input) False True,
                 meta (Some TOKEN_PROGRAM_ADDRESS) False False,
                 meta (Some SYSTEM_PROGRAM_ADDRESS) False False,
                 meta (Some INSTRUCTIONS_SYSVAR) False False],
              ix_data = Some data\<rparr>))"

record FinalizeInput =
  fi_payer :: address
  fi_vault :: address
  fi_session :: address
  fi_sessionRentRecipient :: address
  fi_agentSpendOverlay :: address
  fi_vaultTokenAccount :: "address option"
  fi_outputStablecoinAccount :: "address option"

definition getFinalizeSessionInstructionAsync :: "builder_env \<Rightarrow> FinalizeInput \<Rightarrow> Instruction" where
  "getFinalizeSessionInstructionAsync env input =
     (let pda = bv_pda env; enc = bv_enc env; prog = SIGIL_PROGRAM_ADDRESS; meta = bv_meta env;
          policy = fst (pda prog [[112, 111, 108, 105, 99, 121], enc (fi_vault input)]);
          tracker = fst (pda prog [[116, 114, 97, 99, 107, 101, 114], enc (fi_vault input)])
      in \<lparr>ix_programAddress = prog,
          ix_accounts = Some
            [meta (Some (fi_payer input)) True True,
             meta (Some (fi_vault input)) False True,
             meta (Some (fi_session input)) False True,
             meta (Some (fi_sessionRentRecipient input)) False True,
             meta (Some policy) False False,
             meta (Some tracker) False True,
             meta (Some (fi_agentSpendOverlay input)) False True,
             meta (fi_vaultTokenAccount input) False True,
             meta (fi_outputStablecoinAccount input) False True,
             meta (Some TOKEN_PROGRAM_ADDRESS) False False,
             meta (Some SYSTEM_PROGRAM_ADDRESS) False False,
             meta (Some INSTRUCTIONS_SYSVAR) False False],
          ix_data = Some FINALIZE_SESSION_DISCRIMINATOR\<rparr>)"

text \<open>The default accounts are the ones \<open>resolve-accounts.ts\<close> derives: the byte literals spell the same seeds.\<close>

lemma generated_seeds:
  "[112, 111, 108, 105, 99, 121] = seedString ''policy''"
  "[116, 114, 97, 99, 107, 101, 114] = seedString ''tracker''"
  "[115, 101, 115, 115, 105, 111, 110] = seedString ''session''"
  by (simp_all add: seedString_def)

lemma validate_session_account:
  assumes "getValidateAndAuthorizeInstructionAsync env input = Inr ix"
  shows "the (ix_accounts ix) ! 5 =
           bv_meta env (Some (fst (getSessionPDA (bv_pda env) (bv_enc env) (vi_vault input) (vi_agent input)
             (vi_tokenMint input) SIGIL_PROGRAM_ADDRESS))) False True"
    and "the (ix_accounts ix) ! 2 =
           bv_meta env (Some (fst (getPolicyPDA (bv_pda env) (bv_enc env) (vi_vault input) SIGIL_PROGRAM_ADDRESS))) False False"
  using assms
  by (auto simp: getValidateAndAuthorizeInstructionAsync_def Let_def getSessionPDA_def getPolicyPDA_def generated_seeds)

lemma validate_ix_shape:
  assumes "getValidateAndAuthorizeInstructionAsync env input = Inr ix"
  shows "ix_programAddress ix = SIGIL_PROGRAM_ADDRESS"
    and "\<exists>rest. ix_data ix = Some (VALIDATE_AND_AUTHORIZE_DISCRIMINATOR @ rest)"
  using assms by (auto simp: getValidateAndAuthorizeInstructionAsync_def Let_def validate_data_def)

lemma finalize_ix_shape:
  "ix_programAddress (getFinalizeSessionInstructionAsync env input) = SIGIL_PROGRAM_ADDRESS"
  "ix_data (getFinalizeSessionInstructionAsync env input) = Some FINALIZE_SESSION_DISCRIMINATOR"
  by (simp_all add: getFinalizeSessionInstructionAsync_def Let_def)

end
