(* ===== verification/Simulation.thy ===== *)
theory Simulation
  imports Composer JsDouble
begin

text \<open>
  \<open>sdk/kit/src/simulation.ts\<close>: the fail-closed simulation before a transaction is signed, the parsing
  of its logs and of token balances, and drain detection over the balance changes.

  The answer of \<open>simulateTransaction\<close> is a parameter. A suggestion text is identified by the error
  code whose table entry holds it.
\<close>

section \<open>Risk flags\<close>

datatype RiskFlag = LARGE_OUTFLOW | UNKNOWN_RECIPIENT | FULL_DRAIN | MULTI_OUTPUT | SIZE_OVERFLOW

fun RISK_FLAG_ERROR_MAP :: "RiskFlag \<Rightarrow> nat" where
  "RISK_FLAG_ERROR_MAP LARGE_OUTFLOW = 7001"
| "RISK_FLAG_ERROR_MAP UNKNOWN_RECIPIENT = 7002"
| "RISK_FLAG_ERROR_MAP FULL_DRAIN = 7003"
| "RISK_FLAG_ERROR_MAP MULTI_OUTPUT = 7004"
| "RISK_FLAG_ERROR_MAP SIZE_OVERFLOW = 7033"

text \<open>A threshold is any number, \<open>NaN\<close> and the infinities included.\<close>

datatype js_number = Finite rat | NotFinite

record DrainThresholds =
  dt_warningPercent :: "js_number option"
  dt_blockPercent :: "js_number option"

definition DEFAULT_WARNING_PERCENT :: int where "DEFAULT_WARNING_PERCENT = 50"
definition DEFAULT_BLOCK_PERCENT :: int where "DEFAULT_BLOCK_PERCENT = 95"

record BalanceDelta =
  bd_account :: address
  bd_preBalance :: int
  bd_postBalance :: int
  bd_delta :: int

record DrainDetectionInput =
  di_balanceDeltas :: "BalanceDelta list"
  di_vaultAddress :: address
  di_totalVaultBalance :: int
  di_knownRecipients :: "address list option"

section \<open>Token balances\<close>

definition parseTokenBalance :: "string \<Rightarrow> (js_error, int) result" where
  "parseTokenBalance base64Data =
     (case atob base64Data of
        None \<Rightarrow> Inl atob_error
      | Some binary \<Rightarrow>
          if length binary < 72 then Inr 0
          else case le_or_read binary 64 of
                 None \<Rightarrow> Inl \<lparr>je_isError = True, je_code = None, je_message = ''RangeError''\<rparr>
               | Some n \<Rightarrow> Inr n)"

section \<open>Drain detection\<close>

definition clampPercent :: "js_number option \<Rightarrow> int \<Rightarrow> int" where
  "clampPercent raw dflt =
     (case raw of
        Some (Finite r) \<Rightarrow> \<lfloor>max 0 (min 100 r)\<rfloor>
      | _ \<Rightarrow> \<lfloor>max 0 (min 100 (of_int dflt :: rat))\<rfloor>)"

definition is_known :: "address list option \<Rightarrow> address \<Rightarrow> bool" where
  "is_known known a = (case known of None \<Rightarrow> False | Some ks \<Rightarrow> a \<in> set ks)"

definition detectDrainAttempt :: "DrainDetectionInput \<Rightarrow> DrainThresholds option \<Rightarrow> RiskFlag list" where
  "detectDrainAttempt input drainThresholds =
     (let warningPct = clampPercent (Option.bind drainThresholds dt_warningPercent) DEFAULT_WARNING_PERCENT;
          blockPct = clampPercent (Option.bind drainThresholds dt_blockPercent) DEFAULT_BLOCK_PERCENT;
          total_bal = di_totalVaultBalance input;
          outflowFlags =
            (case find (\<lambda>d. bd_account d = di_vaultAddress input) (di_balanceDeltas input) of
               Some vaultDelta \<Rightarrow>
                 if bd_delta vaultDelta < 0
                 then let outflow = - bd_delta vaultDelta
                      in (if total_bal > 0 \<and> outflow * 100 \<ge> total_bal * warningPct then [LARGE_OUTFLOW] else [])
                         @ (if total_bal > 0 \<and> outflow * 100 \<ge> total_bal * blockPct then [FULL_DRAIN] else [])
                 else []
             | None \<Rightarrow> []);
          recipients = filter (\<lambda>d. bd_delta d > 0 \<and> bd_account d \<noteq> di_vaultAddress input) (di_balanceDeltas input);
          recipientFlags =
            (case di_knownRecipients input of
               Some known \<Rightarrow>
                 if list_ex (\<lambda>r. bd_account r \<notin> set known) recipients then [UNKNOWN_RECIPIENT] else []
             | None \<Rightarrow> []);
          unknownPositiveDeltas =
            filter (\<lambda>d. bd_delta d > 0 \<and> bd_account d \<noteq> di_vaultAddress input
                      \<and> (di_knownRecipients input = None \<or> \<not> is_known (di_knownRecipients input) (bd_account d)))
              (di_balanceDeltas input);
          multiFlags = (if length unknownPositiveDeltas \<ge> 2 then [MULTI_OUTPUT] else [])
      in outflowFlags @ recipientFlags @ multiFlags)"

record VaultContext =
  vc_vaultAddress :: address
  vc_vaultTokenAta :: address
  vc_tokenBalance :: int
  vc_knownRecipients :: "address list"

definition detectDrainFromSealContext ::
  "BalanceDelta list \<Rightarrow> VaultContext \<Rightarrow> DrainThresholds option \<Rightarrow> RiskFlag list" where
  "detectDrainFromSealContext balanceDeltas vaultContext drainThresholds =
     detectDrainAttempt
       \<lparr>di_balanceDeltas = balanceDeltas, di_vaultAddress = vc_vaultAddress vaultContext,
        di_totalVaultBalance = vc_tokenBalance vaultContext,
        di_knownRecipients = Some (vc_knownRecipients vaultContext)\<rparr> drainThresholds"

section \<open>Compute units\<close>

text \<open>
  \<open>adjustCU\<close> for whole, finite arguments. \<open>simulated * 1.1\<close> rounds once, on the double nearest 1.1;
  dividing by an estimate of 0 gives \<open>Infinity\<close>, or \<open>NaN\<close> when the headroom is 0 too.
\<close>

definition cu_headroom :: "nat \<Rightarrow> int" where
  "cu_headroom simulated =
     (case to_double (11 / 10) of
        None \<Rightarrow> 0
      | Some d \<Rightarrow> (case to_double (of_nat simulated * d) of None \<Rightarrow> 0 | Some p \<Rightarrow> \<lceil>p\<rceil>))"

definition cu_far_off :: "int \<Rightarrow> nat \<Rightarrow> bool" where
  "cu_far_off headroom estimated =
     (case (to_double (of_int \<bar>headroom - int estimated\<bar> / of_nat estimated), to_double (1 / 5)) of
        (Some diff, Some limit) \<Rightarrow> diff > limit
      | (None, _) \<Rightarrow> True
      | (_, None) \<Rightarrow> False)"

definition adjustCU :: "nat \<Rightarrow> nat option \<Rightarrow> int" where
  "adjustCU estimated simulated =
     (case simulated of
        None \<Rightarrow> int estimated
      | Some s \<Rightarrow>
          let headroom = cu_headroom s
          in if estimated = 0 then headroom
             else if cu_far_off headroom estimated then headroom else int estimated)"

section \<open>Anchor errors\<close>

text \<open>\<open>ANCHOR_ERROR_MAP\<close>: code and name.\<close>

definition ANCHOR_ERROR_MAP :: "(nat \<times> string) list" where
  "ANCHOR_ERROR_MAP =
    [(6000, ''VaultNotActive''), (6001, ''UnauthorizedAgent''), (6002, ''UnauthorizedOwner''),
     (6003, ''UnsupportedToken''), (6004, ''ProtocolNotAllowed''), (6005, ''TransactionTooLarge''),
     (6006, ''SpendingCapExceeded''), (6007, ''SessionNotAuthorized''), (6008, ''InvalidSession''),
     (6009, ''TooManyAllowedProtocols''), (6010, ''AgentAlreadyRegistered''),
     (6011, ''NoAgentRegistered''), (6012, ''VaultNotFrozen''), (6013, ''VaultAlreadyClosed''),
     (6014, ''InsufficientBalance''), (6015, ''DeveloperFeeTooHigh''),
     (6016, ''InvalidFeeDestination''), (6017, ''InvalidProtocolTreasury''),
     (6018, ''InvalidAgentKey''), (6019, ''AgentIsOwner''), (6020, ''Overflow''),
     (6021, ''InvalidTokenAccount''), (6022, ''TimelockNotExpired''), (6023, ''NoTimelockConfigured''),
     (6024, ''DestinationNotAllowed''), (6025, ''TooManyDestinations''),
     (6026, ''InvalidProtocolMode''), (6027, ''CpiCallNotAllowed''),
     (6028, ''MissingFinalizeInstruction''), (6029, ''NonTrackedSwapMustReturnStablecoin''),
     (6030, ''SwapSlippageExceeded''), (6031, ''InvalidJupiterInstruction''),
     (6032, ''UnauthorizedTokenTransfer''), (6033, ''SlippageBpsTooHigh''),
     (6034, ''ProtocolMismatch''), (6035, ''TooManyDeFiInstructions''), (6036, ''MaxAgentsReached''),
     (6037, ''InsufficientPermissions''), (6038, ''InvalidPermissions''), (6039, ''EscrowNotActive''),
     (6040, ''EscrowExpired''), (6041, ''EscrowNotExpired''), (6042, ''InvalidEscrowVault''),
     (6043, ''EscrowConditionsNotMet''), (6044, ''EscrowDurationExceeded''),
     (6045, ''InvalidConstraintConfig''), (6046, ''ConstraintViolated''),
     (6047, ''InvalidConstraintsPda''), (6048, ''InvalidPendingConstraintsPda''),
     (6049, ''AgentSpendLimitExceeded''), (6050, ''OverlaySlotExhausted''),
     (6051, ''AgentSlotNotFound''), (6052, ''UnauthorizedTokenApproval''),
     (6053, ''InvalidSessionExpiry''), (6054, ''UnconstrainedProgramBlocked''),
     (6055, ''ProtocolCapExceeded''), (6056, ''ProtocolCapsMismatch''), (6057, ''ActiveEscrowsExist''),
     (6058, ''ConstraintsNotClosed''), (6059, ''PendingPolicyExists''), (6060, ''AgentPaused''),
     (6061, ''AgentAlreadyPaused''), (6062, ''AgentNotPaused''),
     (6063, ''UnauthorizedPostFinalizeInstruction''), (6064, ''UnexpectedBalanceDecrease''),
     (6065, ''TimelockTooShort''), (6066, ''PolicyVersionMismatch''), (6067, ''ActiveSessionsExist''),
     (6068, ''PostAssertionFailed''), (6069, ''InvalidPostAssertionIndex''),
     (6070, ''UnauthorizedPreValidateInstruction''), (6071, ''SnapshotNotCaptured''),
     (6072, ''InvalidConstraintOperator''), (6073, ''ConstraintsVaultMismatch''),
     (6074, ''BlockedSplOpcode''), (6075, ''QueuedUpdateExpired'')]"

text \<open>A literal at the start of a string: what follows it.\<close>

definition after_literal :: "string \<Rightarrow> string \<Rightarrow> string option" where
  "after_literal p s = (if startsWith s p then Some (drop (length p) s) else None)"

text \<open>
  \<open>/Error Code: (\w+)\.\s*Error Number: (\d+)/\<close> tried at the start of a string. No repetition can
  give back a character the next part of the pattern accepts, so the greedy match is the only one.
\<close>

definition named_at :: "string \<Rightarrow> (nat \<times> string) option" where
  "named_at s =
     Option.bind (after_literal ''Error Code: '' s) (\<lambda>r1.
       let name = takeWhile is_word_char r1
       in if name = [] then None
          else Option.bind (after_literal ''.'' (dropWhile is_word_char r1)) (\<lambda>r2.
               Option.bind (after_literal ''Error Number: '' (dropWhile is_js_space r2)) (\<lambda>r3.
                 let ds = takeWhile is_digit r3
                 in if ds = [] then None else Some (dec_val ds, name))))"

definition hex_at :: "string \<Rightarrow> nat option" where
  "hex_at s =
     Option.bind (after_literal ''custom program error: 0x'' s) (\<lambda>r.
       let ds = takeWhile is_hex_digit r
       in if ds = [] then None else Some (digits_val 16 hex_val ds 0))"

text \<open>\<open>log.match(re)\<close>: the first position at which the pattern matches.\<close>

fun match_from :: "(string \<Rightarrow> 'a option) \<Rightarrow> string \<Rightarrow> 'a option" where
  "match_from f [] = f []"
| "match_from f (c # cs) = (case f (c # cs) of Some a \<Rightarrow> Some a | None \<Rightarrow> match_from f cs)"

fun parseAnchorError :: "string list \<Rightarrow> (nat \<times> string) option" where
  "parseAnchorError [] = None"
| "parseAnchorError (line # logs) =
     (case match_from named_at line of
        Some named \<Rightarrow> Some named
      | None \<Rightarrow>
          (case match_from hex_at line of
             Some code \<Rightarrow>
               Some (code, case map_of ANCHOR_ERROR_MAP code of
                             Some name \<Rightarrow> name
                           | None \<Rightarrow> ''UnknownError('' @ show_nat code @ '')'')
           | None \<Rightarrow> parseAnchorError logs))"

section \<open>simulateBeforeSend\<close>

text \<open>
  The RPC's answer: \<open>err\<close> as the message it is turned into, \<open>None\<close> when it is falsy; per requested
  account the base64 data, \<open>None\<close> for a null account.
\<close>

record SimulateValue =
  sv_err :: "string option"
  sv_logs :: "string list option"
  sv_unitsConsumed :: "nat option"
  sv_accounts :: "string option list option"

record SimulationOptions =
  sp_monitorAccounts :: "address list option"
  sp_preBalances :: "(address \<times> int) list option"
  sp_vaultAddress :: "address option"
  sp_totalVaultBalance :: "int option"
  sp_knownRecipients :: "address list option"
  sp_drainThresholds :: "DrainThresholds option"

record SimulationError =
  se_message :: string
  se_anchorCode :: "nat option"
  se_anchorName :: "string option"
  se_suggestion :: "nat option"

record SimulationResult =
  sr_success :: bool
  sr_unitsConsumed :: "nat option"
  sr_logs :: "string list option"
  sr_error :: "SimulationError option"
  sr_balanceDeltas :: "BalanceDelta list option"
  sr_riskFlags :: "RiskFlag list"

text \<open>The loop over \<open>monitorAccounts\<close>: an account without data is skipped, malformed data throws.\<close>

fun balance_deltas ::
  "(address \<times> int) list option \<Rightarrow> string option list \<Rightarrow> address list \<Rightarrow> (js_error, BalanceDelta list) result" where
  "balance_deltas preBalances accounts [] = Inr []"
| "balance_deltas preBalances accounts (monitored # rest) =
     (let data = (case accounts of [] \<Rightarrow> None | acct # _ \<Rightarrow> acct);
          others = balance_deltas preBalances (drop 1 accounts) rest
      in case data of
           None \<Rightarrow> others
         | Some [] \<Rightarrow> others
         | Some d \<Rightarrow>
             rbind (parseTokenBalance d) (\<lambda>postBalance.
               let preBalance = (case Option.bind preBalances (\<lambda>m. map_of m monitored) of None \<Rightarrow> 0 | Some p \<Rightarrow> p)
               in rbind others (\<lambda>ds.
                    Inr (\<lparr>bd_account = monitored, bd_preBalance = preBalance, bd_postBalance = postBalance,
                          bd_delta = postBalance - preBalance\<rparr> # ds))))"

definition opt_field :: "('o \<Rightarrow> 'a option) \<Rightarrow> 'o option \<Rightarrow> 'a option" where
  "opt_field f options = Option.bind options f"

text \<open>What \<open>simulateBeforeSend\<close> does once the RPC has answered without an error.\<close>

definition drain_check ::
  "SimulateValue option \<Rightarrow> SimulationOptions option \<Rightarrow> (js_error, BalanceDelta list option \<times> RiskFlag list) result" where
  "drain_check sval options =
     (case (opt_field sp_monitorAccounts options, Option.bind sval sv_accounts,
            opt_field sp_vaultAddress options, opt_field sp_totalVaultBalance options) of
        (Some (m # ms), Some accounts, Some (v # vs), Some total_bal) \<Rightarrow>
          rbind (balance_deltas (opt_field sp_preBalances options) accounts (m # ms)) (\<lambda>deltas.
            Inr (Some deltas,
              if length deltas > 0
              then detectDrainAttempt
                     \<lparr>di_balanceDeltas = deltas, di_vaultAddress = v # vs, di_totalVaultBalance = total_bal,
                      di_knownRecipients = opt_field sp_knownRecipients options\<rparr>
                     (opt_field sp_drainThresholds options)
              else []))
      | _ \<Rightarrow> Inr (None, []))"

definition failed_simulation :: "js_error \<Rightarrow> SimulationResult" where
  "failed_simulation e =
     \<lparr>sr_success = False, sr_unitsConsumed = None, sr_logs = None,
      sr_error = Some \<lparr>se_message = (if je_isError e then je_message e else ''Simulation failed unexpectedly''),
                       se_anchorCode = None, se_anchorName = None, se_suggestion = None\<rparr>,
      sr_balanceDeltas = None, sr_riskFlags = []\<rparr>"

definition simulateBeforeSend ::
  "(js_error, SimulateValue option) result \<Rightarrow> SimulationOptions option \<Rightarrow> SimulationResult" where
  "simulateBeforeSend answer options =
     (case answer of
        Inl e \<Rightarrow> failed_simulation e
      | Inr sval \<Rightarrow>
          let err = Option.bind sval sv_err;
              logs = (case Option.bind sval sv_logs of None \<Rightarrow> [] | Some ls \<Rightarrow> ls);
              unitsConsumed = (case Option.bind sval sv_unitsConsumed of Some 0 \<Rightarrow> None | u \<Rightarrow> u)
          in case err of
               None \<Rightarrow>
                 (case drain_check sval options of
                    Inl e \<Rightarrow> failed_simulation e
                  | Inr (balanceDeltas, riskFlags) \<Rightarrow>
                      \<lparr>sr_success = True, sr_unitsConsumed = unitsConsumed, sr_logs = Some logs, sr_error = None,
                       sr_balanceDeltas = balanceDeltas, sr_riskFlags = riskFlags\<rparr>)
             | Some message \<Rightarrow>
                 let anchorError = parseAnchorError logs;
                     mapEntry = Option.bind anchorError (\<lambda>(code, _).
                       map_option (\<lambda>name. (code, name)) (map_of ANCHOR_ERROR_MAP code))
                 in \<lparr>sr_success = False, sr_unitsConsumed = unitsConsumed, sr_logs = Some logs,
                     sr_error = Some \<lparr>se_message = message, se_anchorCode = map_option fst anchorError,
                       se_anchorName = (case map_option snd anchorError of
                                          Some name \<Rightarrow> Some name
                                        | None \<Rightarrow> map_option snd mapEntry),
                       se_suggestion = map_option fst mapEntry\<rparr>,
                     sr_balanceDeltas = None, sr_riskFlags = []\<rparr>)"

section \<open>What the flags say\<close>

lemma clampPercent_range: "0 \<le> clampPercent raw d \<and> clampPercent raw d \<le> 100"
  by (auto simp: clampPercent_def le_floor_iff floor_le_iff min_def max_def split: option.split js_number.split)

definition warning_pct :: "DrainThresholds option \<Rightarrow> int" where
  "warning_pct t = clampPercent (Option.bind t dt_warningPercent) DEFAULT_WARNING_PERCENT"

definition block_pct :: "DrainThresholds option \<Rightarrow> int" where
  "block_pct t = clampPercent (Option.bind t dt_blockPercent) DEFAULT_BLOCK_PERCENT"

text \<open>
  The reference for the outflow flags: the first delta of the vault's account is a loss of at least
  \<open>pct\<close> percent of a positive balance.
\<close>

definition loses_pct :: "DrainDetectionInput \<Rightarrow> int \<Rightarrow> bool" where
  "loses_pct input pct \<longleftrightarrow>
     (\<exists>d. find (\<lambda>d. bd_account d = di_vaultAddress input) (di_balanceDeltas input) = Some d \<and> bd_delta d < 0
        \<and> di_totalVaultBalance input > 0 \<and> pct * di_totalVaultBalance input \<le> - bd_delta d * 100)"

text \<open>The accounts other than the vault's that gain and are not known.\<close>

definition unknown_gains :: "DrainDetectionInput \<Rightarrow> BalanceDelta list" where
  "unknown_gains input =
     filter (\<lambda>d. bd_delta d > 0 \<and> bd_account d \<noteq> di_vaultAddress input
               \<and> \<not> is_known (di_knownRecipients input) (bd_account d)) (di_balanceDeltas input)"

lemma unknown_gains_alt:
  "unknown_gains input =
     filter (\<lambda>d. bd_delta d > 0 \<and> bd_account d \<noteq> di_vaultAddress input
               \<and> (di_knownRecipients input = None \<or> \<not> is_known (di_knownRecipients input) (bd_account d)))
       (di_balanceDeltas input)"
  by (simp add: unknown_gains_def is_known_def cong: filter_cong split: option.splits)

lemma unknown_recipient_alt:
  "di_knownRecipients input = Some known \<Longrightarrow>
     list_ex (\<lambda>r. bd_account r \<notin> set known)
       (filter (\<lambda>d. bd_delta d > 0 \<and> bd_account d \<noteq> di_vaultAddress input) (di_balanceDeltas input))
     \<longleftrightarrow> unknown_gains input \<noteq> []"
  by (auto simp: unknown_gains_def is_known_def list_ex_iff filter_empty_conv)

lemma detectDrainAttempt_eq:
  "detectDrainAttempt input t =
     (if loses_pct input (warning_pct t) then [LARGE_OUTFLOW] else [])
     @ (if loses_pct input (block_pct t) then [FULL_DRAIN] else [])
     @ (if di_knownRecipients input \<noteq> None \<and> unknown_gains input \<noteq> [] then [UNKNOWN_RECIPIENT] else [])
     @ (if 2 \<le> length (unknown_gains input) then [MULTI_OUTPUT] else [])"
proof -
  let ?f = "find (\<lambda>d. bd_account d = di_vaultAddress input) (di_balanceDeltas input)"
  have out: "(case ?f of
               Some vaultDelta \<Rightarrow>
                 if bd_delta vaultDelta < 0
                 then let outflow = - bd_delta vaultDelta
                      in (if di_totalVaultBalance input > 0 \<and> outflow * 100 \<ge> di_totalVaultBalance input * warning_pct t
                          then [LARGE_OUTFLOW] else [])
                         @ (if di_totalVaultBalance input > 0 \<and> outflow * 100 \<ge> di_totalVaultBalance input * block_pct t
                            then [FULL_DRAIN] else [])
                 else []
             | None \<Rightarrow> []) =
     (if loses_pct input (warning_pct t) then [LARGE_OUTFLOW] else [])
     @ (if loses_pct input (block_pct t) then [FULL_DRAIN] else [])"
    by (cases ?f) (auto simp: loses_pct_def Let_def mult.commute)
  have rec: "(case di_knownRecipients input of
               Some known \<Rightarrow>
                 if list_ex (\<lambda>r. bd_account r \<notin> set known)
                      (filter (\<lambda>d. bd_delta d > 0 \<and> bd_account d \<noteq> di_vaultAddress input) (di_balanceDeltas input))
                 then [UNKNOWN_RECIPIENT] else []
             | None \<Rightarrow> []) =
     (if di_knownRecipients input \<noteq> None \<and> unknown_gains input \<noteq> [] then [UNKNOWN_RECIPIENT] else [])"
    by (cases "di_knownRecipients input") (simp_all add: unknown_recipient_alt)
  show ?thesis
    unfolding detectDrainAttempt_def Let_def unknown_gains_alt [symmetric]
      warning_pct_def [symmetric] block_pct_def [symmetric]
    using out rec by (simp only: Let_def append_assoc)
qed

text \<open>
  C18. Drain detection raises exactly the flags it documents: LARGE_OUTFLOW and FULL_DRAIN when the
  vault account's first delta is a loss of at least the warning, respectively block, percentage of a
  positive balance, UNKNOWN_RECIPIENT when known recipients are given and some other account gains,
  and MULTI_OUTPUT when two or more such accounts gain; whatever the configured thresholds, they are
  read as whole percentages between 0 and 100, so a loss of the whole balance always raises both
  outflow flags.
\<close>
theorem drain_flags_exact:
  "set (detectDrainAttempt input t) =
     {f. f = LARGE_OUTFLOW \<and> loses_pct input (warning_pct t) \<or> f = FULL_DRAIN \<and> loses_pct input (block_pct t)
       \<or> f = UNKNOWN_RECIPIENT \<and> di_knownRecipients input \<noteq> None \<and> unknown_gains input \<noteq> []
       \<or> f = MULTI_OUTPUT \<and> 2 \<le> length (unknown_gains input)}
   \<and> distinct (detectDrainAttempt input t)
   \<and> {warning_pct t, block_pct t} \<subseteq> {0..100}
   \<and> (loses_pct input 100 \<longrightarrow> {LARGE_OUTFLOW, FULL_DRAIN} \<subseteq> set (detectDrainAttempt input t))"
proof -
  have r: "0 \<le> warning_pct t" "warning_pct t \<le> 100" "0 \<le> block_pct t" "block_pct t \<le> 100"
    using clampPercent_range by (simp_all add: warning_pct_def block_pct_def)
  have mono: "loses_pct input 100 \<Longrightarrow> pct \<le> 100 \<Longrightarrow> loses_pct input pct" for pct
    unfolding loses_pct_def by (meson less_imp_le mult_right_mono order_trans)
  show ?thesis
    using r mono [of "warning_pct t"] mono [of "block_pct t"] by (auto simp: detectDrainAttempt_eq)
qed

definition sample_drain :: DrainDetectionInput where
  "sample_drain = \<lparr>di_balanceDeltas = [\<lparr>bd_account = ''V'', bd_preBalance = 100, bd_postBalance = 0, bd_delta = -100\<rparr>,
       \<lparr>bd_account = ''X'', bd_preBalance = 0, bd_postBalance = 100, bd_delta = 100\<rparr>],
     di_vaultAddress = ''V'', di_totalVaultBalance = 100, di_knownRecipients = Some []\<rparr>"

theorem drain_flags_exact_witness:
  "loses_pct sample_drain 100 \<and> {LARGE_OUTFLOW, FULL_DRAIN} \<subseteq> set (detectDrainAttempt sample_drain None)"
proof -
  have "loses_pct sample_drain 100" by (simp add: loses_pct_def sample_drain_def)
  then show ?thesis using drain_flags_exact [of sample_drain None] by blast
qed

text \<open>
  The context \<open>seal()\<close> hands to drain detection names the vault itself as the account to watch,
  while the balances it is compared with are those of token accounts. When no delta is of the vault's
  own address, no loss of the vault's token account, however large, raises LARGE_OUTFLOW or the
  blocking FULL_DRAIN.
\<close>
theorem seal_context_drain_blind:
  assumes "\<And>d. d \<in> set deltas \<Longrightarrow> bd_account d \<noteq> vc_vaultAddress ctx"
  shows "set (detectDrainFromSealContext deltas ctx t) \<subseteq> {UNKNOWN_RECIPIENT, MULTI_OUTPUT}"
proof -
  have "find (\<lambda>d. bd_account d = vc_vaultAddress ctx) deltas = None"
    using assms by (auto simp: find_None_iff)
  then show ?thesis
    by (auto simp: detectDrainFromSealContext_def detectDrainAttempt_eq loses_pct_def)
qed

definition sample_ctx_drain :: VaultContext where
  "sample_ctx_drain = \<lparr>vc_vaultAddress = ''Vault'', vc_vaultTokenAta = ''VaultAta'', vc_tokenBalance = 500,
     vc_knownRecipients = [''VaultAta'']\<rparr>"

theorem seal_context_drain_blind_witness:
  "FULL_DRAIN \<notin> set (detectDrainFromSealContext
     [\<lparr>bd_account = vc_vaultTokenAta sample_ctx_drain, bd_preBalance = 500, bd_postBalance = 0, bd_delta = -500\<rparr>]
     sample_ctx_drain None)"
  using seal_context_drain_blind [of
      "[\<lparr>bd_account = vc_vaultTokenAta sample_ctx_drain, bd_preBalance = 500, bd_postBalance = 0, bd_delta = -500\<rparr>]"
      sample_ctx_drain None]
  by (auto simp: sample_ctx_drain_def)

section \<open>Fail-closed simulation\<close>

text \<open>The monitored accounts for which the answer has data, when drain detection is on.\<close>

definition data_of :: "address list \<Rightarrow> string option list \<Rightarrow> (address \<times> string) list" where
  "data_of ms accounts =
     concat (map (\<lambda>(a, d). case d of Some (c # cs) \<Rightarrow> [(a, c # cs)] | _ \<Rightarrow> []) (zip ms accounts))"

definition monitored_data :: "SimulateValue option \<Rightarrow> SimulationOptions option \<Rightarrow> (address \<times> string) list" where
  "monitored_data sval options =
     (case (opt_field sp_monitorAccounts options, Option.bind sval sv_accounts,
            opt_field sp_vaultAddress options, opt_field sp_totalVaultBalance options) of
        (Some ms, Some accounts, Some (v # vs), Some total_bal) \<Rightarrow> data_of ms accounts
      | _ \<Rightarrow> [])"

lemma parseTokenBalance_ok_iff: "isOk (parseTokenBalance d) \<longleftrightarrow> atob d \<noteq> None"
proof (cases "atob d")
  case (Some bs)
  have "\<exists>n. le_or_read bs 64 = Some n" if "\<not> length bs < 72"
    using that by (auto simp: le_or_read_def upt_rec numeral_eq_Suc)
  then show ?thesis
    using Some by (auto simp: parseTokenBalance_def)
qed (simp add: parseTokenBalance_def)

lemma balance_deltas_ok_iff:
  "isOk (balance_deltas pre accounts ms) \<longleftrightarrow> (\<forall>(a, d) \<in> set (data_of ms accounts). atob d \<noteq> None)"
proof (induction ms arbitrary: accounts)
  case (Cons m ms)
  show ?case
  proof (cases accounts)
    case Nil
    then show ?thesis using Cons [of "[]"] by (simp add: data_of_def)
  next
    case (Cons acct rest)
    then show ?thesis
      using Cons.IH [of rest] parseTokenBalance_ok_iff [of "the acct"]
      by (cases acct; cases "the acct"; cases "parseTokenBalance (the acct)"; cases "balance_deltas pre rest ms")
        (auto simp: data_of_def isOk_def Let_def)
  qed
qed (simp add: data_of_def)

lemma drain_check_ok_iff:
  "isOk (drain_check sval options) \<longleftrightarrow> (\<forall>(a, d) \<in> set (monitored_data sval options). atob d \<noteq> None)"
proof -
  have ok: "isOk (rbind r (\<lambda>x. Inr (f x))) \<longleftrightarrow> isOk r" for r :: "(js_error, 'x) result" and f :: "'x \<Rightarrow> 'y"
    by (cases r) simp_all
  show ?thesis
    unfolding drain_check_def monitored_data_def
    by (simp add: ok balance_deltas_ok_iff del: balance_deltas.simps split: option.split list.split)
      (auto simp: data_of_def)
qed

text \<open>
  C19. Simulation fails closed. It reports success exactly when the RPC answered, the answer carries
  no error, and the data of every monitored account is valid base64; a transport error, a timeout, an
  error of the simulated transaction or malformed account data all give a failure, and a failure
  carries an error and no risk flags.
\<close>
theorem simulation_fail_closed:
  "(sr_success (simulateBeforeSend answer options) \<longleftrightarrow>
     (\<exists>sval. answer = Inr sval \<and> Option.bind sval sv_err = None
        \<and> (\<forall>(a, d) \<in> set (monitored_data sval options). atob d \<noteq> None)))
   \<and> (sr_success (simulateBeforeSend answer options) \<or>
       sr_error (simulateBeforeSend answer options) \<noteq> None \<and> sr_riskFlags (simulateBeforeSend answer options) = [])"
proof (cases answer)
  case (Inr sval)
  then show ?thesis
    using drain_check_ok_iff [of sval options]
    by (cases "drain_check sval options")
      (auto simp: simulateBeforeSend_def failed_simulation_def Let_def split: option.splits prod.splits)
qed (simp add: simulateBeforeSend_def failed_simulation_def)

definition ok_value :: SimulateValue where
  "ok_value = \<lparr>sv_err = None, sv_logs = None, sv_unitsConsumed = Some 5000, sv_accounts = Some [Some ''%%'']\<rparr>"

definition monitor_opts :: SimulationOptions where
  "monitor_opts = \<lparr>sp_monitorAccounts = Some [''Ata''], sp_preBalances = None, sp_vaultAddress = Some ''V'',
     sp_totalVaultBalance = Some 10, sp_knownRecipients = None, sp_drainThresholds = None\<rparr>"

theorem simulation_fail_closed_witness:
  "\<not> sr_success (simulateBeforeSend (Inr (Some ok_value)) (Some monitor_opts))
   \<and> sr_success (simulateBeforeSend (Inr (Some ok_value)) None)"
proof -
  have bad: "(''Ata'', ''%%'') \<in> set (monitored_data (Some ok_value) (Some monitor_opts))" "atob ''%%'' = None"
    by (simp_all add: monitored_data_def monitor_opts_def ok_value_def opt_field_def data_of_def, code_simp)
  show ?thesis
    using simulation_fail_closed [of "Inr (Some ok_value)" "Some monitor_opts"] bad
      simulation_fail_closed [of "Inr (Some ok_value)" None]
    by (fastforce simp: ok_value_def monitored_data_def opt_field_def)
qed

end
