(* ===== verification/SealPreflight.thy ===== *)
theory SealPreflight
  imports SigilInstructions Simulation
begin

text \<open>
  The parts of \<open>seal()\<close> (\<open>sdk/kit/src/seal.ts\<close>) that only compute: which instructions are kept and
  which refused, the gates on amount, protocol, instruction count and daily cap, and the rewriting of
  the agent's token accounts to the vault's. \<open>Seal\<close> composes them into the pipeline.
\<close>

section \<open>Parameters\<close>

text \<open>
  \<open>SealParams\<close> without the RPC client, the hooks and the plugins, which the pipeline takes separately;
  the agent is its address. \<open>'c\<close> is the type of decoded constraints.
\<close>

record 'c SealParams =
  sp_vault :: address
  sp_agent :: address
  sp_instructions :: "Instruction list"
  sp_network :: string
  sp_tokenMint :: address
  sp_amount :: int
  sp_targetProtocol :: "address option"
  sp_computeUnits :: "nat option"
  sp_priorityFeeMicroLamports :: "nat option"
  sp_outputStablecoinAccount :: "address option"
  sp_blockhash :: "Blockhash option"
  sp_protocolAltAddresses :: "address list option"
  sp_addressLookupTables :: "lookup_tables option"
  sp_cachedState :: "'c ResolvedVaultState option"
  sp_maxCacheAgeMs :: "int option"
  sp_additionalAtaReplacements :: "(address \<times> address) list option"
  sp_correlationId :: "string option"

section \<open>Steps 3 to 5: amount, instructions, target\<close>

definition seal_amount_check :: "int \<Rightarrow> (sdk_error, unit) result" where
  "seal_amount_check amount =
     (if amount < 0 then Inl (SDK_INVALID_AMOUNT (show_int amount))
      else if amount > U64_MAX then Inl (SDK_INVALID_AMOUNT (show_int amount))
      else Inr ())"

definition strip_infrastructure :: "Instruction list \<Rightarrow> Instruction list" where
  "strip_infrastructure instructions =
     filter (\<lambda>ix. ix_programAddress ix \<noteq> COMPUTE_BUDGET_PROGRAM_ADDRESS
               \<and> ix_programAddress ix \<noteq> SYSTEM_PROGRAM_ADDRESS) instructions"

text \<open>The operation a top-level token instruction is refused for, if it is.\<close>

definition blocked_spl_op :: "Instruction \<Rightarrow> string option" where
  "blocked_spl_op ix =
     (if ix_programAddress ix = TOKEN_PROGRAM_ADDRESS \<or> ix_programAddress ix = TOKEN_2022_PROGRAM_ADDRESS
      then case ix_data ix of
             None \<Rightarrow> None
           | Some data \<Rightarrow>
               if length data > 0
               then let disc = data ! 0
                    in if disc = 4 then Some ''Approve''
                       else if disc = 13 then Some ''ApproveChecked''
                       else if disc = 3 \<or> disc = 12
                               \<or> (ix_programAddress ix = TOKEN_2022_PROGRAM_ADDRESS \<and> disc = 26)
                       then Some ''Transfer''
                       else if disc = 6 \<or> disc = 9 then Some ''SetAuthority/CloseAccount''
                       else if disc = 8 \<or> disc = 15 then Some ''Burn/BurnChecked''
                       else None
               else None
      else None)"

fun spl_block_loop :: "Instruction list \<Rightarrow> (sdk_error, unit) result" where
  "spl_block_loop [] = Inr ()"
| "spl_block_loop (ix # ixs) =
     (case blocked_spl_op ix of
        Some operation \<Rightarrow> Inl (SDK_SPL_TOKEN_OP_BLOCKED operation)
      | None \<Rightarrow> spl_block_loop ixs)"

definition seal_target :: "address option \<Rightarrow> Instruction list \<Rightarrow> (sdk_error, address) result" where
  "seal_target targetProtocol defiInstructions =
     (let target = (case targetProtocol of
                      Some t \<Rightarrow> Some t
                    | None \<Rightarrow> (case defiInstructions of [] \<Rightarrow> None | ix # _ \<Rightarrow> Some (ix_programAddress ix)))
      in if truthy target then Inr (the target) else Inl SDK_PROTOCOL_NOT_TARGETED)"

section \<open>Step 6: pre-flight checks\<close>

definition instruction_count_check ::
  "bool \<Rightarrow> Instruction list \<Rightarrow> address \<Rightarrow> string \<Rightarrow> (sdk_error, unit) result" where
  "instruction_count_check spending defiInstructions tokenMint net =
     (if spending
      then let defiCount = length (filter (\<lambda>ix. ix_programAddress ix \<in> set RECOGNIZED_DEFI_PROGRAMS) defiInstructions);
               isStablecoinInput = isStablecoinMint tokenMint net
           in if isStablecoinInput \<and> defiCount > 1 then Inl (SDK_INSTRUCTION_COUNT 1 defiCount)
              else if \<not> isStablecoinInput \<and> defiCount \<noteq> 1 then Inl (SDK_INSTRUCTION_COUNT 1 defiCount)
              else Inr ()
      else Inr ())"

definition ceilFee :: "int \<Rightarrow> int \<Rightarrow> int" where
  "ceilFee amount rate = bdiv (amount * rate + 1000000 - 1) 1000000"

definition totalWithFees :: "int \<Rightarrow> int \<Rightarrow> int" where
  "totalWithFees amount developerFeeRate =
     amount + ceilFee amount PROTOCOL_FEE_RATE + ceilFee amount developerFeeRate"

definition cap_headroom_check :: "bool \<Rightarrow> int \<Rightarrow> int \<Rightarrow> int \<Rightarrow> (sdk_error, unit) result" where
  "cap_headroom_check spending amount developerFeeRate headroom =
     (if spending \<and> amount > 0
      then if totalWithFees amount developerFeeRate > headroom
           then Inl (SDK_CAP_EXCEEDED headroom (totalWithFees amount developerFeeRate))
           else Inr ()
      else Inr ())"

definition stable_mint :: "string \<Rightarrow> address" where
  "stable_mint net = (if net = ''devnet'' then USDC_MINT_DEVNET else USDC_MINT_MAINNET)"

definition output_ata_check ::
  "(address \<times> nat) derivation \<Rightarrow> (address \<Rightarrow> bytes) \<Rightarrow> 'c SealParams \<Rightarrow> bool \<Rightarrow> string \<Rightarrow> (sdk_error, unit) result" where
  "output_ata_check pda enc params spending net =
     (if truthy (sp_outputStablecoinAccount params) \<and> spending \<and> \<not> isStablecoinMint (sp_tokenMint params) net
      then let canonicalAta = deriveAta pda enc (sp_vault params) (stable_mint net);
               got = the (sp_outputStablecoinAccount params)
           in if got \<noteq> canonicalAta then Inl (SDK_ATA_NON_CANONICAL canonicalAta got) else Inr ()
      else Inr ())"

text \<open>Steps 3 to 6 in order; the result is the kept instructions and the target protocol.\<close>

definition seal_preflight ::
  "(address \<times> nat) derivation \<Rightarrow> (address \<Rightarrow> bytes) \<Rightarrow> 'c SealParams \<Rightarrow> string \<Rightarrow> 'c ResolvedVaultState
    \<Rightarrow> AgentEntry \<Rightarrow> (sdk_error, Instruction list \<times> address) result" where
  "seal_preflight pda enc params net state agentEntry =
     (let spending = sp_amount params > 0;
          defiInstructions = strip_infrastructure (sp_instructions params);
          policy = rv_policy state
      in
      rbind (seal_amount_check (sp_amount params)) (\<lambda>_.
      rbind (spl_block_loop defiInstructions) (\<lambda>_.
      rbind (seal_target (sp_targetProtocol params) defiInstructions) (\<lambda>targetProtocol.
      rbind (require (ae_capability agentEntry \<noteq> 0) (SDK_AGENT_ZERO_CAPABILITY (sp_vault params) (sp_agent params))) (\<lambda>_.
      rbind (require (isProtocolAllowed targetProtocol (pc_protocolMode policy) (pc_protocols policy))
               (SDK_PROTOCOL_NOT_ALLOWED targetProtocol)) (\<lambda>_.
      rbind (instruction_count_check spending defiInstructions (sp_tokenMint params) net) (\<lambda>_.
      rbind (cap_headroom_check spending (sp_amount params) (int (pc_developerFeeRate policy))
               (bu_remaining (rv_globalBudget state))) (\<lambda>_.
      rbind (output_ata_check pda enc params spending net) (\<lambda>_.
      Inr (defiInstructions, targetProtocol))))))))))"

section \<open>Step 7: token accounts\<close>

definition replace_account :: "(address \<times> address) list \<Rightarrow> AccountMeta \<Rightarrow> AccountMeta" where
  "replace_account replacements acc =
     (let replacement = map_of replacements (am_address acc)
      in if truthy replacement \<and> (am_role acc = WRITABLE \<or> am_role acc = WRITABLE_SIGNER)
         then acc\<lparr>am_address := the replacement\<rparr> else acc)"

definition replaceAgentAtas :: "Instruction list \<Rightarrow> (address \<times> address) list \<Rightarrow> Instruction list" where
  "replaceAgentAtas instructions replacements =
     (if length replacements = 0 then instructions
      else map (\<lambda>ix. ix\<lparr>ix_accounts := map_option (map (replace_account replacements)) (ix_accounts ix)\<rparr>) instructions)"

text \<open>Merging the caller's replacements: a key that is already mapped is refused.\<close>

fun merge_replacements ::
  "(address \<times> address) list \<Rightarrow> (address \<times> address) list \<Rightarrow> (sdk_error, (address \<times> address) list) result" where
  "merge_replacements replacements [] = Inr replacements"
| "merge_replacements replacements ((agentAta, vaultAta) # rest) =
     (if map_of replacements agentAta \<noteq> None then Inl (SDK_INVALID_PARAMS ''additionalAtaReplacements'' agentAta)
      else merge_replacements (AList.update agentAta vaultAta replacements) rest)"

record SealAccounts =
  sa_vaultTokenAccount :: address
  sa_outputStablecoinAccount :: "address option"
  sa_protocolTreasuryTokenAccount :: "address option"
  sa_feeDestinationTokenAccount :: "address option"
  sa_agentOverlayPda :: address
  sa_sessionPda :: address
  sa_agentTokenAta :: address
  sa_agentStablecoinAta :: "address option"

definition needs_output_stablecoin :: "'c SealParams \<Rightarrow> string \<Rightarrow> bool" where
  "needs_output_stablecoin params net \<longleftrightarrow> sp_amount params > 0 \<and> \<not> isStablecoinMint (sp_tokenMint params) net"

definition derives_output :: "'c SealParams \<Rightarrow> string \<Rightarrow> bool" where
  "derives_output params net \<longleftrightarrow> needs_output_stablecoin params net \<and> \<not> truthy (sp_outputStablecoinAccount params)"

definition seal_accounts ::
  "(address \<times> nat) derivation \<Rightarrow> (address \<Rightarrow> bytes) \<Rightarrow> 'c SealParams \<Rightarrow> string \<Rightarrow> 'c ResolvedVaultState \<Rightarrow> SealAccounts" where
  "seal_accounts pda enc params net state =
     (let spending = sp_amount params > 0; mint = sp_tokenMint params; vault = sp_vault params;
          agent = sp_agent params; prog = SIGIL_PROGRAM_ADDRESS;
          derived = (if derives_output params net then Some (deriveAta pda enc vault (stable_mint net)) else None)
      in \<lparr>sa_vaultTokenAccount = deriveAta pda enc vault mint,
          sa_outputStablecoinAccount =
            (case sp_outputStablecoinAccount params of Some a \<Rightarrow> Some a | None \<Rightarrow> derived),
          sa_protocolTreasuryTokenAccount =
            (if spending then Some (deriveAta pda enc PROTOCOL_TREASURY mint) else None),
          sa_feeDestinationTokenAccount =
            (if spending \<and> pc_developerFeeRate (rv_policy state) > 0
             then Some (deriveAta pda enc (av_feeDestination (rv_vault state)) mint) else None),
          sa_agentOverlayPda = fst (getAgentOverlayPDA pda enc vault 0 prog),
          sa_sessionPda = fst (getSessionPDA pda enc vault agent mint prog),
          sa_agentTokenAta = deriveAta pda enc agent mint,
          sa_agentStablecoinAta =
            (if needs_output_stablecoin params net then Some (deriveAta pda enc agent (stable_mint net)) else None)\<rparr>)"

definition base_replacements :: "SealAccounts \<Rightarrow> (address \<times> address) list" where
  "base_replacements accts =
     (let r = AList.update (sa_agentTokenAta accts) (sa_vaultTokenAccount accts) []
      in if truthy (sa_agentStablecoinAta accts) \<and> truthy (sa_outputStablecoinAccount accts)
         then AList.update (the (sa_agentStablecoinAta accts)) (the (sa_outputStablecoinAccount accts)) r else r)"

definition seal_replacements ::
  "'c SealParams \<Rightarrow> SealAccounts \<Rightarrow> (sdk_error, (address \<times> address) list) result" where
  "seal_replacements params accts =
     merge_replacements (base_replacements accts)
       (case sp_additionalAtaReplacements params of None \<Rightarrow> [] | Some m \<Rightarrow> m)"

section \<open>Facts\<close>

lemma spl_block_loop_ok_iff:
  "spl_block_loop ixs = Inr () \<longleftrightarrow> (\<forall>ix \<in> set ixs. blocked_spl_op ix = None)"
  by (induction ixs) (auto split: option.split)

lemma seal_amount_check_ok_iff [simp]: "seal_amount_check n = Inr u \<longleftrightarrow> is_u64 n"
  by (auto simp: seal_amount_check_def is_u64_def)

text \<open>\<open>ceilFee\<close> is the fee rounded up: \<open>amount * rate / 1000000\<close>, the next integer when it is not whole.\<close>

lemma ceilFee_bounds:
  assumes "0 \<le> amount" "0 \<le> rate"
  shows "amount * rate \<le> ceilFee amount rate * 1000000" "ceilFee amount rate * 1000000 < amount * rate + 1000000"
    "0 \<le> ceilFee amount rate"
proof -
  have nn: "0 \<le> amount * rate" using assms by simp
  then have c: "ceilFee amount rate = (amount * rate + 999999) div 1000000"
    by (simp add: ceilFee_def bdiv_nonneg)
  show "amount * rate \<le> ceilFee amount rate * 1000000" "ceilFee amount rate * 1000000 < amount * rate + 1000000"
    "0 \<le> ceilFee amount rate"
    unfolding c using nn by linarith+
qed

lemma replaceAgentAtas_map:
  "replaceAgentAtas ixs rs =
     map (\<lambda>ix. ix\<lparr>ix_accounts := map_option (map (replace_account rs)) (ix_accounts ix)\<rparr>) ixs"
proof (cases "rs = []")
  case True
  have "replace_account [] = id" by (rule ext) (simp add: replace_account_def truthy_def)
  then have "\<And>ix :: Instruction. ix\<lparr>ix_accounts := map_option (map (replace_account [])) (ix_accounts ix)\<rparr> = ix"
    by (simp add: option.map_id)
  then show ?thesis using True by (simp add: replaceAgentAtas_def)
qed (simp add: replaceAgentAtas_def)

lemma replaceAgentAtas_program_data:
  "map ix_programAddress (replaceAgentAtas ixs rs) = map ix_programAddress ixs"
  "map ix_data (replaceAgentAtas ixs rs) = map ix_data ixs"
  by (simp_all add: replaceAgentAtas_map)

lemma blocked_spl_op_replace:
  "blocked_spl_op (ix\<lparr>ix_accounts := a\<rparr>) = blocked_spl_op ix"
  by (cases "ix_data ix") (simp_all add: blocked_spl_op_def Let_def)

lemma merge_replacements_keeps:
  "merge_replacements rs extra = Inr rs' \<Longrightarrow> map_of rs k = Some v \<Longrightarrow> map_of rs' k = Some v"
proof (induction rs extra arbitrary: rs' rule: merge_replacements.induct)
  case (2 rs agentAta vaultAta rest)
  then have "map_of rs agentAta = None" "merge_replacements (AList.update agentAta vaultAta rs) rest = Inr rs'"
    by (auto split: if_splits)
  with 2 show ?case by (cases "k = agentAta") (auto simp: update_conv)
qed simp

lemma merge_replacements_from:
  "merge_replacements rs extra = Inr rs' \<Longrightarrow> map_of rs' k = Some v \<Longrightarrow> map_of rs k = Some v \<or> (k, v) \<in> set extra"
proof (induction rs extra arbitrary: rs' rule: merge_replacements.induct)
  case (2 rs agentAta vaultAta rest)
  then have "map_of rs agentAta = None" "merge_replacements (AList.update agentAta vaultAta rs) rest = Inr rs'"
    by (auto split: if_splits)
  with 2 show ?case by (cases "k = agentAta") (auto simp: update_conv)
qed simp

end
