(* ===== verification/Seal.thy ===== *)
theory Seal
  imports SealPreflight
begin

text \<open>
  \<open>seal()\<close> of \<open>sdk/kit/src/seal.ts\<close>, the SDK's main operation: from an agent's DeFi instructions and a
  vault to a transaction framed by \<open>validate_and_authorize\<close> and \<open>finalize_session\<close>. The pipeline is
  the code's, step by step, over the state it touches: the world of the consumer's callbacks, the
  module's lookup-table cache and the blockhash cache of its RPC client.

  RPC answers, the kit and the generated account decoders are the fields of \<open>seal_env\<close>; the clock is
  read at six points, the fields of \<open>seal_clock\<close>.
\<close>

section \<open>State and environment\<close>

record 's SealState =
  st_world :: 's
  st_altCache :: AltCache
  st_blockhashCache :: BlockhashCache

record ('c, 'm, 'tx) seal_env =
  en_resolver :: "'c resolver_env"
  en_compose :: "('m, 'tx) compose_env"
  en_builder :: builder_env
  en_accountInfo :: "address \<Rightarrow> (js_error, string option) result"
  en_latestBlockhash :: "(js_error, Blockhash) result"
  en_fetchAlts :: "address list \<Rightarrow> (js_error, lookup_tables) result"
  en_newCorrelationId :: string

record seal_clock =
  ck_cacheCheck :: msecs
  ck_resolve :: msecs
  ck_blockhash :: msecs
  ck_blockhashAfter :: msecs
  ck_alt :: msecs
  ck_altRetry :: msecs

datatype seal_warning =
    OutputAtaMissing address
  | OutputAtaCheckFailed address
  | BalanceFetchFailed

record 'tx SealResult =
  sr_transaction :: 'tx
  sr_isSpending :: bool
  sr_warnings :: "seal_warning list"
  sr_txSizeBytes :: rat
  sr_lastValidBlockHeight :: int
  sr_vaultContext :: VaultContext

type_synonym ('s, 'c, 'tx) hooks = "('s, 'c SealParams, 'tx) SealHooks option"
type_synonym 's plugins = "('s, Instruction) SigilPolicyPlugin list option"

text \<open>A step on the callbacks' world, run inside the pipeline's state.\<close>

definition on_world :: "('s, 'e, 'a) step \<Rightarrow> ('s SealState, 'e, 'a) step" where
  "on_world m st = (case m (st_world st) of (r, w) \<Rightarrow> (r, st\<lparr>st_world := w\<rparr>))"

section \<open>Steps\<close>

definition hook_context :: "('c, 'm, 'tx) seal_env \<Rightarrow> 'c SealParams \<Rightarrow> SealHookContext" where
  "hook_context env params =
     \<lparr>hc_vault = sp_vault params, hc_agent = sp_agent params, hc_tokenMint = sp_tokenMint params,
      hc_amount = sp_amount params, hc_network = sp_network params,
      hc_correlationId = (case sp_correlationId params of Some c \<Rightarrow> c | None \<Rightarrow> en_newCorrelationId env)\<rparr>"

definition before_build ::
  "('s, 'c, 'tx) hooks \<Rightarrow> SealHookContext \<Rightarrow> 'c SealParams \<Rightarrow> ('s, sdk_error, unit) step" where
  "before_build hooks ctx params w =
     (case invokeHook sh_onBeforeBuild hooks None ctx params w of
        (Some reason, w') \<Rightarrow> (Inl (SDK_HOOK_ABORTED reason), w')
      | (None, w') \<Rightarrow> (Inr (), w'))"

text \<open>
  \<open>(Date.now() / 1000 - Number(resolvedAtTimestamp)) * 1000\<close>, each operation rounded to a double.
\<close>

definition cache_age_ms :: "msecs \<Rightarrow> int \<Rightarrow> rat" where
  "cache_age_ms now resolvedAt = dbl (dbl (dbl (of_int now / 1000) - dbl (of_int resolvedAt)) * 1000)"

definition cache_fresh :: "seal_clock \<Rightarrow> 'c SealParams \<Rightarrow> 'c ResolvedVaultState \<Rightarrow> bool" where
  "cache_fresh clock params cached \<longleftrightarrow>
     (let maxAge = (case sp_maxCacheAgeMs params of None \<Rightarrow> 30000 | Some n \<Rightarrow> n)
      in \<not> cache_age_ms (ck_cacheCheck clock) (rv_resolvedAtTimestamp cached) > of_int maxAge)"

definition seal_resolve ::
  "('c, 'm, 'tx) seal_env \<Rightarrow> seal_clock \<Rightarrow> 'c SealParams \<Rightarrow> string \<Rightarrow> (sdk_error, 'c ResolvedVaultState) result" where
  "seal_resolve env clock params net =
     (let fresh = resolveVaultState (en_resolver env) (sp_vault params) (sp_agent params) None (Some net) (ck_resolve clock)
      in case sp_cachedState params of
           Some cached \<Rightarrow> if cache_fresh clock params cached then Inr cached else fresh
         | None \<Rightarrow> fresh)"

definition seal_agent ::
  "'c SealParams \<Rightarrow> 'c ResolvedVaultState \<Rightarrow> (sdk_error, AgentEntry) result" where
  "seal_agent params state =
     (if av_status (rv_vault state) \<noteq> Active then Inl (SDK_VAULT_INACTIVE (sp_vault params))
      else case find (\<lambda>a. ae_pubkey a = sp_agent params) (av_agents (rv_vault state)) of
             None \<Rightarrow> Inl (SDK_AGENT_NOT_REGISTERED (sp_vault params) (sp_agent params))
           | Some agentEntry \<Rightarrow>
               if ae_paused agentEntry then Inl (SDK_AGENT_PAUSED (sp_vault params) (sp_agent params))
               else Inr agentEntry)"

definition plugin_context ::
  "'c SealParams \<Rightarrow> SealHookContext \<Rightarrow> 'c ResolvedVaultState \<Rightarrow> AgentEntry \<Rightarrow> Instruction PluginContext" where
  "plugin_context params ctx state agentEntry =
     \<lparr>px_vault = sp_vault params, px_agent = sp_agent params, px_tokenMint = sp_tokenMint params,
      px_amount = sp_amount params, px_network = sp_network params, px_instructions = sp_instructions params,
      px_correlationId = hc_correlationId ctx,
      px_state = \<lparr>ps_globalBudget = rv_globalBudget state, ps_agentBudget = rv_agentBudget state,
        ps_vaultStatus = av_status (rv_vault state), ps_capabilityTier = ae_capability agentEntry,
        ps_maxTransactionUsd = rv_maxTransactionUsd state,
        ps_resolvedAtTimestamp = rv_resolvedAtTimestamp state\<rparr>\<rparr>"

text \<open>The existence check of a derived output account only warns.\<close>

definition output_ata_warnings ::
  "('c, 'm, 'tx) seal_env \<Rightarrow> 'c SealParams \<Rightarrow> string \<Rightarrow> seal_warning list" where
  "output_ata_warnings env params net =
     (if derives_output params net
      then let ata = deriveAta (re_pda (en_resolver env)) (re_enc (en_resolver env)) (sp_vault params) (stable_mint net)
           in case en_accountInfo env ata of
                Inl _ \<Rightarrow> [OutputAtaCheckFailed ata]
              | Inr None \<Rightarrow> [OutputAtaMissing ata]
              | Inr (Some _) \<Rightarrow> []
      else [])"

definition seal_validate_ix ::
  "('c, 'm, 'tx) seal_env \<Rightarrow> 'c SealParams \<Rightarrow> 'c ResolvedVaultState \<Rightarrow> SealAccounts \<Rightarrow> address
    \<Rightarrow> (sdk_error, Instruction) result" where
  "seal_validate_ix env params state accts targetProtocol =
     rbind (getValidateAndAuthorizeInstructionAsync (en_builder env)
       \<lparr>vi_agent = sp_agent params, vi_vault = sp_vault params,
        vi_agentSpendOverlay = sa_agentOverlayPda accts, vi_vaultTokenAccount = sa_vaultTokenAccount accts,
        vi_tokenMintAccount = sp_tokenMint params,
        vi_protocolTreasuryTokenAccount = sa_protocolTreasuryTokenAccount accts,
        vi_feeDestinationTokenAccount = sa_feeDestinationTokenAccount accts,
        vi_outputStablecoinAccount = sa_outputStablecoinAccount accts,
        vi_tokenMint = sp_tokenMint params, vi_amount = sp_amount params,
        vi_targetProtocol = targetProtocol,
        vi_expectedPolicyVersion = pc_policyVersion (rv_policy state)\<rparr>) (\<lambda>base.
     Inr (if pc_hasConstraints (rv_policy state)
          then base\<lparr>ix_accounts := Some ((case ix_accounts base of None \<Rightarrow> [] | Some as \<Rightarrow> as)
                 @ [\<lparr>am_address = fst (getConstraintsPDA (re_pda (en_resolver env)) (re_enc (en_resolver env))
                       (sp_vault params) SIGIL_PROGRAM_ADDRESS), am_role = READONLY\<rparr>])\<rparr>
          else base))"

definition seal_finalize_ix ::
  "('c, 'm, 'tx) seal_env \<Rightarrow> 'c SealParams \<Rightarrow> SealAccounts \<Rightarrow> Instruction" where
  "seal_finalize_ix env params accts =
     getFinalizeSessionInstructionAsync (en_builder env)
       \<lparr>fi_payer = sp_agent params, fi_vault = sp_vault params, fi_session = sa_sessionPda accts,
        fi_sessionRentRecipient = sp_agent params, fi_agentSpendOverlay = sa_agentOverlayPda accts,
        fi_vaultTokenAccount = Some (sa_vaultTokenAccount accts),
        fi_outputStablecoinAccount = sa_outputStablecoinAccount accts\<rparr>"

definition seal_blockhash ::
  "('c, 'm, 'tx) seal_env \<Rightarrow> seal_clock \<Rightarrow> 'c SealParams \<Rightarrow> ('s SealState, sdk_error, Blockhash) step" where
  "seal_blockhash env clock params st =
     (case sp_blockhash params of
        Some b \<Rightarrow> (Inr b, st)
      | None \<Rightarrow>
          (case bh_get (en_latestBlockhash env) (ck_blockhash clock) (ck_blockhashAfter clock) (st_blockhashCache st) of
             (r, c) \<Rightarrow> (r, st\<lparr>st_blockhashCache := c\<rparr>)))"

text \<open>Lookup tables: resolve and verify; on a mismatch forget everything cached and try once more.\<close>

definition seal_lookup_tables ::
  "('c, 'm, 'tx) seal_env \<Rightarrow> seal_clock \<Rightarrow> 'c SealParams \<Rightarrow> string \<Rightarrow> ('s SealState, sdk_error, lookup_tables) step" where
  "seal_lookup_tables env clock params net st =
     (case sp_addressLookupTables params of
        Some tables \<Rightarrow> (Inr tables, st)
      | None \<Rightarrow>
          (case getSigilAltAddress net of
             Inl e \<Rightarrow> (Inl e, st)
           | Inr sigilAlt \<Rightarrow>
               let allAlts = mergeAltAddresses sigilAlt (sp_protocolAltAddresses params);
                   (tables, c1) = alt_resolve (en_fetchAlts env) allAlts (ck_alt clock) (st_altCache st)
               in case verifySigilAlt tables sigilAlt (getExpectedAltContents net) of
                    Inr _ \<Rightarrow> (Inr tables, st\<lparr>st_altCache := c1\<rparr>)
                  | Inl _ \<Rightarrow>
                      (let (tables2, c2) = alt_resolve (en_fetchAlts env) allAlts (ck_altRetry clock) (alt_invalidate c1)
                       in (rbind (verifySigilAlt tables2 sigilAlt (getExpectedAltContents net)) (\<lambda>_. Inr tables2),
                           st\<lparr>st_altCache := c2\<rparr>))))"

definition DRAIN_DETECTION_MIN_BALANCE :: int where "DRAIN_DETECTION_MIN_BALANCE = 1"

definition seal_token_balance ::
  "('c, 'm, 'tx) seal_env \<Rightarrow> 'c SealParams \<Rightarrow> string \<Rightarrow> 'c ResolvedVaultState \<Rightarrow> address \<Rightarrow> int \<times> seal_warning list" where
  "seal_token_balance env params net state vaultTokenAccount =
     (let usdcMint = (if net = ''devnet'' then USDC_MINT_DEVNET else USDC_MINT_MAINNET);
          usdtMint = (if net = ''devnet'' then USDT_MINT_DEVNET else USDT_MINT_MAINNET)
      in if sp_tokenMint params = usdcMint then (rv_usdcBalance state, [])
         else if sp_tokenMint params = usdtMint then (rv_usdtBalance state, [])
         else case en_accountInfo env vaultTokenAccount of
                Inl _ \<Rightarrow> (DRAIN_DETECTION_MIN_BALANCE, [BalanceFetchFailed])
              | Inr None \<Rightarrow> (0, [])
              | Inr (Some []) \<Rightarrow> (0, [])
              | Inr (Some data) \<Rightarrow>
                  (case parseTokenBalance data of
                     Inl _ \<Rightarrow> (DRAIN_DETECTION_MIN_BALANCE, [BalanceFetchFailed])
                   | Inr n \<Rightarrow> (n, [])))"

definition seal_known_recipients :: "SealAccounts \<Rightarrow> address list" where
  "seal_known_recipients accts =
     (let add = (\<lambda>s a. if truthy a then set_add s (the a) else s)
      in add (add (set_add [] (sa_vaultTokenAccount accts)) (sa_protocolTreasuryTokenAccount accts))
           (sa_feeDestinationTokenAccount accts))"

section \<open>The pipeline\<close>

definition compose_params ::
  "'c SealParams \<Rightarrow> Instruction \<Rightarrow> Instruction list \<Rightarrow> Instruction \<Rightarrow> Blockhash \<Rightarrow> lookup_tables \<Rightarrow> ComposeParams" where
  "compose_params params validateIx defi finalizeIx blockhash tables =
     \<lparr>cq_feePayer = sp_agent params, cq_validateIx = validateIx, cq_defiInstructions = defi,
      cq_finalizeIx = finalizeIx, cq_blockhash = blockhash, cq_computeUnits = sp_computeUnits params,
      cq_priorityFeeMicroLamports = sp_priorityFeeMicroLamports params,
      cq_addressLookupTables = Some tables\<rparr>"

text \<open>Steps 1 to 6: nothing is built before every gate has passed.\<close>

definition seal_gates ::
  "('c, 'm, 'tx) seal_env \<Rightarrow> ('s, 'c, 'tx) hooks \<Rightarrow> 's plugins \<Rightarrow> seal_clock \<Rightarrow> 'c SealParams \<Rightarrow> string
    \<Rightarrow> ('s SealState, sdk_error, 'c ResolvedVaultState \<times> Instruction list \<times> address) step" where
  "seal_gates env hooks plugins clock params net =
     (let ctx = hook_context env params; pda = re_pda (en_resolver env); enc = re_enc (en_resolver env) in
      sbind (sresult (validateNetwork net)) (\<lambda>_.
      sbind (on_world (before_build hooks ctx params)) (\<lambda>_.
      sbind (sresult (seal_resolve env clock params net)) (\<lambda>state.
      sbind (sresult (seal_agent params state)) (\<lambda>agentEntry.
      sbind (on_world (runPlugins plugins (plugin_context params ctx state agentEntry))) (\<lambda>_.
      sbind (sresult (seal_preflight pda enc params net state agentEntry)) (\<lambda>(defi, target).
      sresult (Inr (state, defi, target)))))))))"

text \<open>Steps 7 to 10: accounts, the framed instructions, blockhash, lookup tables, size.\<close>

definition seal_build ::
  "('c, 'm, 'tx) seal_env \<Rightarrow> seal_clock \<Rightarrow> 'c SealParams \<Rightarrow> string \<Rightarrow> 'c ResolvedVaultState \<Rightarrow> Instruction list \<Rightarrow> address
    \<Rightarrow> ('s SealState, sdk_error, 'tx \<times> rat \<times> Blockhash) step" where
  "seal_build env clock params net state defi target =
     (let accts = seal_accounts (re_pda (en_resolver env)) (re_enc (en_resolver env)) params net state in
      sbind (sresult (seal_replacements params accts)) (\<lambda>replacements.
      sbind (sresult (seal_validate_ix env params state accts target)) (\<lambda>validateIx.
      sbind (seal_blockhash env clock params) (\<lambda>blockhash.
      sbind (seal_lookup_tables env clock params net) (\<lambda>tables.
      let compiledTx = composeSigilTransaction (en_compose env)
            (compose_params params validateIx (replaceAgentAtas defi replacements)
               (seal_finalize_ix env params accts) blockhash tables);
          size = measureTransactionSize (en_compose env) compiledTx
      in sbind (sresult (require (sz_withinLimit size) (RPC_TX_TOO_LARGE (sz_byteLength size) 1232))) (\<lambda>_.
         sresult (Inr (compiledTx, sz_byteLength size, blockhash))))))))"

text \<open>Observe-only: what the hook returns or throws is ignored.\<close>

definition before_sign ::
  "('s, 'c, 'tx) hooks \<Rightarrow> SealHookContext \<Rightarrow> 'tx \<Rightarrow> ('s, sdk_error, unit) step" where
  "before_sign hooks ctx compiledTx w = (Inr (), snd (invokeHook sh_onBeforeSign hooks () ctx compiledTx w))"

definition seal_result ::
  "('c, 'm, 'tx) seal_env \<Rightarrow> 'c SealParams \<Rightarrow> string \<Rightarrow> 'c ResolvedVaultState \<Rightarrow> 'tx \<Rightarrow> rat \<Rightarrow> Blockhash \<Rightarrow> 'tx SealResult" where
  "seal_result env params net state compiledTx byteLength blockhash =
     (let accts = seal_accounts (re_pda (en_resolver env)) (re_enc (en_resolver env)) params net state;
          balance = seal_token_balance env params net state (sa_vaultTokenAccount accts)
      in \<lparr>sr_transaction = compiledTx, sr_isSpending = (sp_amount params > 0),
          sr_warnings = output_ata_warnings env params net @ snd balance,
          sr_txSizeBytes = byteLength, sr_lastValidBlockHeight = bh_lastValidBlockHeight blockhash,
          sr_vaultContext = \<lparr>vc_vaultAddress = sp_vault params, vc_vaultTokenAta = sa_vaultTokenAccount accts,
            vc_tokenBalance = fst balance, vc_knownRecipients = seal_known_recipients accts\<rparr>\<rparr>)"

definition seal ::
  "('c, 'm, 'tx) seal_env \<Rightarrow> ('s, 'c, 'tx) hooks \<Rightarrow> 's plugins \<Rightarrow> seal_clock \<Rightarrow> 'c SealParams
    \<Rightarrow> ('s SealState, sdk_error, 'tx SealResult) step" where
  "seal env hooks plugins clock params =
     (let net = normalizeNetwork (sp_network params) in
      sbind (seal_gates env hooks plugins clock params net) (\<lambda>(state, defi, target).
      sbind (seal_build env clock params net state defi target) (\<lambda>(compiledTx, byteLength, blockhash).
      sbind (on_world (before_sign hooks (hook_context env params) compiledTx)) (\<lambda>_.
      sresult (Inr (seal_result env params net state compiledTx byteLength blockhash))))))"

end
