(* ===== verification/Executor.thy ===== *)
theory Executor
  imports Seal
begin

text \<open>
  The two ways the SDK gets a framed transaction onto the chain: \<open>TransactionExecutor\<close> of
  \<open>sdk/kit/src/transaction-executor.ts\<close>, which simulates before it signs, and the client of
  \<open>sdk/kit/src/seal.ts\<close> (\<open>createSigilClient\<close> with \<open>executeAndConfirm\<close>, and the genesis-hash
  assertion of \<open>createSigilClientAsync\<close>).

  What leaves the process, a request to the signer and a transaction sent, is a list of effects in
  order. RPC answers are parameters; sending polls, so the operations return an option as in
  \<open>RpcHelpers\<close>.
\<close>

section \<open>transaction-executor.ts\<close>

datatype 'tx exec_effect = Signing 'tx | Sending string

record VaultMonitoring =
  vm_vaultAddress :: address
  vm_monitorAccounts :: "address list"
  vm_preBalances :: "(address \<times> int) list"
  vm_totalVaultBalance :: int
  vm_knownRecipients :: "address list option"

record ExecuteTransactionParams =
  xp_feePayer :: address
  xp_validateIx :: Instruction
  xp_defiInstructions :: "Instruction list"
  xp_finalizeIx :: Instruction
  xp_computeUnits :: "nat option"
  xp_priorityFeeMicroLamports :: "nat option"
  xp_addressLookupTables :: "lookup_tables option"
  xp_vaultMonitoring :: "VaultMonitoring option"

record TransactionExecutorOptions =
  xo_blockhashCacheTtlMs :: "msecs option"
  xo_confirmOptions :: "SendOptions option"
  xo_dangerouslySkipSimulation :: "string option"
  xo_skipSimulation :: "bool option"
  xo_drainThresholds :: "DrainThresholds option"

record 'tx TransactionExecutor =
  te_agent :: "'tx TransactionSigner"
  te_blockhashCache :: BlockhashCache
  te_confirmOptions :: SendOptions
  te_skipSimulation :: bool
  te_drainThresholds :: "DrainThresholds option"
  te_altCache :: "AltCache option"
  te_effects :: "'tx exec_effect list"

definition SKIP_CONFIRMATION :: string where
  "SKIP_CONFIRMATION = ''I_UNDERSTAND_DRAIN_DETECTION_IS_DISABLED''"

definition new_TransactionExecutor ::
  "'tx TransactionSigner \<Rightarrow> TransactionExecutorOptions option \<Rightarrow> 'tx TransactionExecutor" where
  "new_TransactionExecutor agent options =
     \<lparr>te_agent = agent, te_blockhashCache = new_BlockhashCache (Option.bind options xo_blockhashCacheTtlMs),
      te_confirmOptions = (case Option.bind options xo_confirmOptions of
         Some c \<Rightarrow> c | None \<Rightarrow> \<lparr>so_timeoutMs = None, so_commitment = None\<rparr>),
      te_skipSimulation = (Option.bind options xo_dangerouslySkipSimulation = Some SKIP_CONFIRMATION
         \<or> Option.bind options xo_skipSimulation = Some True),
      te_drainThresholds = Option.bind options xo_drainThresholds, te_altCache = None, te_effects = []\<rparr>"

text \<open>The RPC client's answers during one call, with the clock where it is read.\<close>

record ('m, 'tx) exec_env =
  xe_compose :: "('m, 'tx) compose_env"
  xe_latestBlockhash :: "(js_error, Blockhash) result"
  xe_now :: msecs
  xe_after :: msecs
  xe_simulate :: "string \<Rightarrow> (js_error, SimulateValue option) result"
  xe_send :: "string \<Rightarrow> (js_error, string) result"
  xe_sentAt :: msecs
  xe_poll :: "nat \<Rightarrow> poll_round"

definition resolveAlts ::
  "(address list \<Rightarrow> (js_error, lookup_tables) result) \<Rightarrow> address list \<Rightarrow> msecs \<Rightarrow> 'tx TransactionExecutor
    \<Rightarrow> lookup_tables \<times> 'tx TransactionExecutor" where
  "resolveAlts fetch altAddresses now ex =
     (let cache = (case te_altCache ex of Some c \<Rightarrow> c | None \<Rightarrow> new_AltCache None None);
          (tables, cache') = alt_resolve fetch altAddresses now cache
      in (tables, ex\<lparr>te_altCache := Some cache'\<rparr>))"

definition exec_compose_params :: "ExecuteTransactionParams \<Rightarrow> Blockhash \<Rightarrow> nat \<Rightarrow> ComposeParams" where
  "exec_compose_params params blockhash computeUnits =
     \<lparr>cq_feePayer = xp_feePayer params, cq_validateIx = xp_validateIx params,
      cq_defiInstructions = xp_defiInstructions params, cq_finalizeIx = xp_finalizeIx params,
      cq_blockhash = blockhash, cq_computeUnits = Some computeUnits,
      cq_priorityFeeMicroLamports = xp_priorityFeeMicroLamports params,
      cq_addressLookupTables = xp_addressLookupTables params\<rparr>"

definition exec_computeUnits :: "ExecuteTransactionParams \<Rightarrow> nat" where
  "exec_computeUnits params =
     (case xp_computeUnits params of Some u \<Rightarrow> u | None \<Rightarrow> estimateComposedCU (xp_defiInstructions params))"

definition altsApplied :: "ExecuteTransactionParams \<Rightarrow> bool" where
  "altsApplied params = (case xp_addressLookupTables params of Some tables \<Rightarrow> length tables > 0 | None \<Rightarrow> False)"

definition composeTransaction ::
  "('m, 'tx) exec_env \<Rightarrow> ExecuteTransactionParams \<Rightarrow> ('tx TransactionExecutor, sdk_error, 'tx \<times> nat \<times> Blockhash) step" where
  "composeTransaction env params ex =
     (case bh_get (xe_latestBlockhash env) (xe_now env) (xe_after env) (te_blockhashCache ex) of
        (r, cache) \<Rightarrow>
          (rbind r (\<lambda>blockhash.
             let computeUnits = exec_computeUnits params;
                 compiledTx = composeSigilTransaction (xe_compose env) (exec_compose_params params blockhash computeUnits);
                 size = measureTransactionSize (xe_compose env) compiledTx
             in if \<not> sz_withinLimit size then Inl (TX_EXCEEDS_LIMIT (sz_byteLength size) (altsApplied params))
                else Inr (compiledTx, computeUnits, blockhash)), ex\<lparr>te_blockhashCache := cache\<rparr>))"

definition exec_sim_options ::
  "'tx TransactionExecutor \<Rightarrow> ExecuteTransactionParams \<Rightarrow> SimulationOptions option" where
  "exec_sim_options ex params =
     map_option (\<lambda>vm. \<lparr>sp_monitorAccounts = Some (vm_monitorAccounts vm), sp_preBalances = Some (vm_preBalances vm),
       sp_vaultAddress = Some (vm_vaultAddress vm), sp_totalVaultBalance = Some (vm_totalVaultBalance vm),
       sp_knownRecipients = vm_knownRecipients vm, sp_drainThresholds = te_drainThresholds ex\<rparr>) (xp_vaultMonitoring params)"

text \<open>\<open>simulate\<close>: the outcome, the transaction recomposed with adjusted compute units, and the units.\<close>

definition simulate ::
  "('m, 'tx) exec_env \<Rightarrow> 'tx TransactionExecutor \<Rightarrow> ExecuteTransactionParams \<Rightarrow> 'tx \<Rightarrow> nat \<Rightarrow> Blockhash
    \<Rightarrow> SimulationResult \<times> 'tx option \<times> nat" where
  "simulate env ex params compiledTx estimatedCU blockhash =
     (let wireBase64 = cp_wire64 (xe_compose env) compiledTx;
          simulation = simulateBeforeSend (xe_simulate env wireBase64) (exec_sim_options ex params)
      in if \<not> sr_success simulation then (simulation, None, estimatedCU)
         else let adjustedCU = adjustCU estimatedCU (sr_unitsConsumed simulation)
              in if adjustedCU \<noteq> int estimatedCU
                 then (simulation, Some (composeSigilTransaction (xe_compose env)
                         (exec_compose_params params blockhash (nat adjustedCU))), nat adjustedCU)
                 else (simulation, None, estimatedCU))"

definition signSendConfirm ::
  "('m, 'tx) exec_env \<Rightarrow> 'tx \<Rightarrow> 'tx TransactionExecutor \<Rightarrow> ((sdk_error, string) result \<times> 'tx TransactionExecutor) option" where
  "signSendConfirm env compiledTx ex =
     (let ex1 = ex\<lparr>te_effects := te_effects ex @ [Signing compiledTx]\<rparr>
      in case signAndEncode (cp_wire64 (xe_compose env)) (te_agent ex) compiledTx of
           Inl e \<Rightarrow> Some (Inl e, ex1)
         | Inr wire \<Rightarrow>
             map_option (\<lambda>r. (r, ex1\<lparr>te_effects := te_effects ex1 @ [Sending wire]\<rparr>))
               (sendAndConfirmTransaction (xe_send env) (xe_sentAt env) (xe_poll env) wire (te_confirmOptions ex)))"

record ExecuteTransactionResult =
  er_signature :: string
  er_unitsConsumed :: "nat option"
  er_logs :: "string list option"
  er_warnings :: "RiskFlag list option"

text \<open>
  Step 10 of \<open>executeTransaction\<close>: the transaction to sign with the logs, units and risk flags of the
  simulation, or the error that blocks it. The events parsed from the logs are left to their caller.
\<close>

definition exec_gate ::
  "('m, 'tx) exec_env \<Rightarrow> 'tx TransactionExecutor \<Rightarrow> ExecuteTransactionParams \<Rightarrow> 'tx \<Rightarrow> nat \<Rightarrow> Blockhash
    \<Rightarrow> (sdk_error, 'tx \<times> string list option \<times> nat option \<times> RiskFlag list) result" where
  "exec_gate env ex params compiledTx computeUnits blockhash =
     (if te_skipSimulation ex then Inr (compiledTx, None, None, [])
      else let (simulation, recomposedTx, finalCU) = simulate env ex params compiledTx computeUnits blockhash
           in if \<not> sr_success simulation then Inl RPC_SIMULATION_FAILED
              else if FULL_DRAIN \<in> set (sr_riskFlags simulation)
              then Inl (RPC_DRAIN_DETECTED (length (sr_riskFlags simulation)))
              else Inr (case recomposedTx of Some tx \<Rightarrow> tx | None \<Rightarrow> compiledTx, sr_logs simulation,
                        sr_unitsConsumed simulation, sr_riskFlags simulation))"

definition executeTransaction ::
  "('m, 'tx) exec_env \<Rightarrow> ExecuteTransactionParams \<Rightarrow> 'tx TransactionExecutor
    \<Rightarrow> ((sdk_error, ExecuteTransactionResult) result \<times> 'tx TransactionExecutor) option" where
  "executeTransaction env params ex =
     (case composeTransaction env params ex of
        (Inl e, ex1) \<Rightarrow> Some (Inl e, ex1)
      | (Inr (compiledTx, computeUnits, blockhash), ex1) \<Rightarrow>
          (case exec_gate env ex1 params compiledTx computeUnits blockhash of
             Inl e \<Rightarrow> Some (Inl e, ex1)
           | Inr (txToSign, simLogs, unitsConsumed, riskWarnings) \<Rightarrow>
               map_option (\<lambda>(r, ex2).
                 (rbind r (\<lambda>signature. Inr \<lparr>er_signature = signature, er_unitsConsumed = unitsConsumed, er_logs = simLogs,
                    er_warnings = (if length riskWarnings > 0 then Some riskWarnings else None)\<rparr>), ex2))
               (signSendConfirm env txToSign ex1)))"

section \<open>What the executor signs\<close>

lemma composeTransaction_Inr:
  assumes "composeTransaction env params ex = (Inr (tx, cu, bh), ex1)"
  shows "tx = composeSigilTransaction (xe_compose env) (exec_compose_params params bh cu)"
    and "sz_withinLimit (measureTransactionSize (xe_compose env) tx)" and "cu = exec_computeUnits params"
    and "te_effects ex1 = te_effects ex" and "te_skipSimulation ex1 = te_skipSimulation ex"
    and "te_drainThresholds ex1 = te_drainThresholds ex"
  using assms by (auto simp: composeTransaction_def Let_def split: prod.splits if_splits)

lemma signSendConfirm_effects:
  assumes "signSendConfirm env tx ex = Some (r, ex')"
  shows "te_effects ex' = te_effects ex @ [Signing tx] \<or> (\<exists>wire. te_effects ex' = te_effects ex @ [Signing tx, Sending wire]
     \<and> signAndEncode (cp_wire64 (xe_compose env)) (te_agent ex) tx = Inr wire)"
  using assms by (auto simp: signSendConfirm_def Let_def split: sum.splits)

lemma exec_gate_Inr:
  assumes "exec_gate env ex params tx0 cu bh = Inr (tx, logs, units, flags)" and "\<not> te_skipSimulation ex"
    and "tx0 = composeSigilTransaction (xe_compose env) (exec_compose_params params bh cu)"
  shows "\<exists>cu'. tx = composeSigilTransaction (xe_compose env) (exec_compose_params params bh cu')"
    and "sr_success (simulateBeforeSend (xe_simulate env (cp_wire64 (xe_compose env) tx0)) (exec_sim_options ex params))"
    and "FULL_DRAIN \<notin> set (sr_riskFlags
       (simulateBeforeSend (xe_simulate env (cp_wire64 (xe_compose env) tx0)) (exec_sim_options ex params)))"
  using assms by (auto simp: exec_gate_def simulate_def Let_def split: if_splits)

text \<open>
  C6. Unless simulation was switched off at construction, the executor asks the agent to sign only
  after the composed transaction, within the size limit, was simulated successfully and without a full
  drain. What it then signs is that transaction with the same blockhash, or the same with another
  compute-unit limit; it is signed once, and at most that one is sent, after it was signed.
\<close>
theorem executor_signs_only_simulated:
  assumes "executeTransaction env params ex = Some (r, ex')" and "\<not> te_skipSimulation ex"
    and "te_effects ex = []" and "te_effects ex' \<noteq> []"
  shows "\<exists>bh cu tx0 tx. tx0 = composeSigilTransaction (xe_compose env) (exec_compose_params params bh (exec_computeUnits params))
     \<and> tx = composeSigilTransaction (xe_compose env) (exec_compose_params params bh cu)
     \<and> sz_withinLimit (measureTransactionSize (xe_compose env) tx0)
     \<and> sr_success (simulateBeforeSend (xe_simulate env (cp_wire64 (xe_compose env) tx0)) (exec_sim_options ex params))
     \<and> FULL_DRAIN \<notin> set (sr_riskFlags
          (simulateBeforeSend (xe_simulate env (cp_wire64 (xe_compose env) tx0)) (exec_sim_options ex params)))
     \<and> (te_effects ex' = [Signing tx] \<or> (\<exists>wire. te_effects ex' = [Signing tx, Sending wire]))"
proof -
  obtain x ex1 where co: "composeTransaction env params ex = (x, ex1)" by fastforce
  have eff1: "te_effects ex1 = []"
    using co assms(3) by (auto simp: composeTransaction_def split: prod.splits)
  obtain tx0 cu bh where x: "x = Inr (tx0, cu, bh)"
    using assms(1,4) co eff1 by (cases x) (auto simp: executeTransaction_def)
  note c = composeTransaction_Inr [OF co [unfolded x]]
  have opts: "exec_sim_options ex1 params = exec_sim_options ex params" by (simp add: exec_sim_options_def c(6))
  obtain tx logs units flags where g: "exec_gate env ex1 params tx0 cu bh = Inr (tx, logs, units, flags)"
    using assms(1,4) co x eff1 by (auto simp: executeTransaction_def split: sum.splits)
  then obtain r' where s: "signSendConfirm env tx ex1 = Some (r', ex')"
    using assms(1) co x by (auto simp: executeTransaction_def)
  note gate = exec_gate_Inr [OF g _ c(1)]
  show ?thesis
    using gate c assms(2) opts signSendConfirm_effects [OF s] eff1 by auto
qed

definition sample_exec_env :: "(nat, bytes) exec_env" where
  "sample_exec_env = \<lparr>xe_compose = sample_compose_env,
     xe_latestBlockhash = Inr \<lparr>bh_blockhash = ''H'', bh_lastValidBlockHeight = 100\<rparr>, xe_now = 0, xe_after = 10,
     xe_simulate = (\<lambda>_. Inr (Some \<lparr>sv_err = None, sv_logs = None, sv_unitsConsumed = None, sv_accounts = None\<rparr>)),
     xe_send = (\<lambda>_. Inl \<lparr>je_isError = True, je_code = None, je_message = ''offline''\<rparr>), xe_sentAt = 500, xe_poll = sample_poll\<rparr>"

definition sample_exec_params :: ExecuteTransactionParams where
  "sample_exec_params = \<lparr>xp_feePayer = ''A'', xp_validateIx = sample_ix ''Sigil'' [1], xp_defiInstructions = [sample_ix ''Jup'' [7]],
     xp_finalizeIx = sample_ix ''Sigil'' [2], xp_computeUnits = Some 5, xp_priorityFeeMicroLamports = None,
     xp_addressLookupTables = None, xp_vaultMonitoring = None\<rparr>"

definition sample_executor :: "bytes TransactionExecutor" where
  "sample_executor = new_TransactionExecutor \<lparr>ts_address = ''A'', ts_modifyAndSignTransactions = None,
     ts_signTransactions = Some (\<lambda>txs. Inr (Some txs))\<rparr> None"

theorem executor_signs_only_simulated_witness:
  "\<exists>bh. sz_withinLimit (measureTransactionSize sample_compose_env
       (composeSigilTransaction sample_compose_env (exec_compose_params sample_exec_params bh (exec_computeUnits sample_exec_params))))"
proof -
  let ?run = "executeTransaction sample_exec_env sample_exec_params sample_executor"
  have four: "replicate 4 (7 :: nat) = [7, 7, 7, 7]" by (simp add: numeral_eq_Suc)
  have size: "sz_withinLimit (measureTransactionSize sample_compose_env [7, 7, 7, 7])"
    by (simp add: measureTransactionSize_def sample_compose_env_def base64ByteLength_def MAX_TX_SIZE_def Let_def)
  have compiled: "cp_compile sample_compose_env (cp_message sample_compose_env m) = [7, 7, 7, 7]"
    if "length (tm_instructions m) = 4" for m
    using that four by (simp add: sample_compose_env_def)
  have wire: "cp_wire64 sample_compose_env [7, 7, 7, 7] = btoa [7, 7, 7, 7]"
    by (simp add: sample_compose_env_def)
  have "\<exists>r ex'. ?run = Some (r, ex') \<and> te_effects ex' = [Signing [7, 7, 7, 7], Sending (btoa [7, 7, 7, 7])]"
    using size compiled wire
    by (simp add: executeTransaction_def composeTransaction_def exec_gate_def simulate_def simulateBeforeSend_def drain_check_def
        signSendConfirm_def sendAndConfirmTransaction_def signAndEncode_def sample_executor_def new_TransactionExecutor_def
        sample_exec_env_def sample_exec_params_def exec_computeUnits_def exec_compose_params_def composeSigilTransaction_def
        composed_instructions_def bh_get_def bh_cached_def bh_refresh_def bh_set_def new_BlockhashCache_def adjustCU_def
        exec_sim_options_def opt_field_def Let_def)
  then obtain r ex' where run: "?run = Some (r, ex')" and signs: "te_effects ex' \<noteq> []" by auto
  have fresh: "\<not> te_skipSimulation sample_executor" "te_effects sample_executor = []"
    by (simp_all add: sample_executor_def new_TransactionExecutor_def)
  from executor_signs_only_simulated [OF run fresh signs] show ?thesis
    by (auto simp: sample_exec_env_def)
qed

section \<open>The genesis-hash assertion\<close>

definition SOLANA_DEVNET_GENESIS_HASH :: string where
  "SOLANA_DEVNET_GENESIS_HASH = ''EtWTRABZaYq6iMfeYKouRu166VU2xqa1wcaWoxPkrZBG''"
definition SOLANA_MAINNET_GENESIS_HASH :: string where
  "SOLANA_MAINNET_GENESIS_HASH = ''5eykt4UsFv8P8NJdTREpY1vzqKqZKvdpKuc147dw2N9d''"

text \<open>\<open>op i\<close> is the outcome of attempt \<open>i\<close>; \<open>left\<close> counts the attempts after it.\<close>

fun withRetry :: "(nat \<Rightarrow> (js_error, 'a) result) \<Rightarrow> nat \<Rightarrow> nat \<Rightarrow> (js_error, 'a) result" where
  "withRetry op i 0 = op i"
| "withRetry op i (Suc left) = (case op i of Inr a \<Rightarrow> Inr a | Inl _ \<Rightarrow> withRetry op (i + 1) left)"

type_synonym 'rpc genesis_cache = "'rpc \<Rightarrow> string option"

definition genesis_of :: "string \<Rightarrow> string" where
  "genesis_of network =
     (if network = ''mainnet'' then SOLANA_MAINNET_GENESIS_HASH else SOLANA_DEVNET_GENESIS_HASH)"

text \<open>\<open>answers i\<close> is the outcome of the \<open>i\<close>-th \<open>getGenesisHash\<close>; \<open>None\<close> is a value that is not a string.\<close>

definition assertGenesisHash ::
  "(nat \<Rightarrow> (js_error, string option) result) \<Rightarrow> 'rpc \<Rightarrow> string \<Rightarrow> ('rpc genesis_cache, sdk_error, unit) step" where
  "assertGenesisHash answers rpc network cache =
     (let expected = genesis_of network;
          compare = (\<lambda>observed. if observed \<noteq> expected then Inl (SDK_INVALID_NETWORK network) else Inr ())
      in case cache rpc of
           Some observed \<Rightarrow> (compare observed, cache)
         | None \<Rightarrow>
             (case withRetry answers 0 2 of
                Inl _ \<Rightarrow> (Inl (RPC_TX_FAILED ''getGenesisHash''), cache)
              | Inr None \<Rightarrow> (Inl (RPC_TX_FAILED ''getGenesisHash''), cache)
              | Inr (Some observed) \<Rightarrow>
                  if length observed < 32 then (Inl (RPC_TX_FAILED ''getGenesisHash''), cache)
                  else (compare observed, cache(rpc \<mapsto> observed))))"

text \<open>A history of assertions: the answers of the moment, the RPC client and the configured network.\<close>

fun genesis_calls ::
  "((nat \<Rightarrow> (js_error, string option) result) \<times> 'rpc \<times> string) list \<Rightarrow> 'rpc genesis_cache \<Rightarrow> 'rpc genesis_cache" where
  "genesis_calls [] cache = cache"
| "genesis_calls ((answers, rpc, network) # calls) cache =
     genesis_calls calls (snd (assertGenesisHash answers rpc network cache))"

lemma withRetry_Inr: "withRetry op i left = Inr a \<Longrightarrow> \<exists>j. i \<le> j \<and> j \<le> i + left \<and> op j = Inr a"
proof (induction op i left rule: withRetry.induct)
  case (2 op i left)
  show ?case
  proof (cases "op i")
    case (Inl e)
    with 2 obtain j where "i + 1 \<le> j" "j \<le> i + 1 + left" "op j = Inr a" by auto
    then show ?thesis by (intro exI [of _ j]) simp
  next
    case (Inr b)
    with 2 show ?thesis by (intro exI [of _ i]) simp
  qed
qed auto

lemma genesis_cache_kept: "cache rpc = Some h \<Longrightarrow> snd (assertGenesisHash answers rpc' network cache) rpc = Some h"
  by (auto simp: assertGenesisHash_def Let_def split: option.splits sum.splits)

lemma genesis_calls_kept: "cache rpc = Some h \<Longrightarrow> genesis_calls calls cache rpc = Some h"
  by (induction calls cache rule: genesis_calls.induct) (simp_all add: genesis_cache_kept)

lemma assertGenesisHash_Inr:
  assumes "assertGenesisHash answers rpc network cache = (Inr (), cache')"
  shows "cache' rpc = Some (genesis_of network)"
    and "cache rpc = Some (genesis_of network) \<or> (\<exists>j \<le> 2. answers j = Inr (Some (genesis_of network)))"
proof -
  show "cache' rpc = Some (genesis_of network)"
    using assms by (auto simp: assertGenesisHash_def Let_def split: option.splits sum.splits if_splits)
  show "cache rpc = Some (genesis_of network) \<or> (\<exists>j \<le> 2. answers j = Inr (Some (genesis_of network)))"
  proof (cases "cache rpc")
    case None
    then have "withRetry answers 0 2 = Inr (Some (genesis_of network))"
      using assms by (auto simp: assertGenesisHash_def Let_def split: option.splits sum.splits if_splits)
    from withRetry_Inr [OF this] show ?thesis by auto
  qed (use assms in \<open>simp add: assertGenesisHash_def Let_def split: if_splits\<close>)
qed

text \<open>
  An RPC client is bound to one network for the life of the process. An assertion that passes saw
  that network's genesis hash, in one of at most three answers or in the cache; after it, whatever
  the client answers later and whatever else is asserted, the other network is refused for it.
\<close>
theorem genesis_binds_one_network:
  assumes "assertGenesisHash answers rpc network cache = (Inr (), cache')"
    and "{network, other} = {''devnet'', ''mainnet''}"
  shows "(cache rpc = Some (genesis_of network) \<or> (\<exists>j \<le> 2. answers j = Inr (Some (genesis_of network))))
     \<and> fst (assertGenesisHash answers' rpc other (genesis_calls calls cache')) = Inl (SDK_INVALID_NETWORK other)"
proof -
  have "genesis_of network \<noteq> genesis_of other"
    using assms(2) by (auto simp: doubleton_eq_iff genesis_of_def SOLANA_DEVNET_GENESIS_HASH_def SOLANA_MAINNET_GENESIS_HASH_def)
  moreover have "genesis_calls calls cache' rpc = Some (genesis_of network)"
    using assertGenesisHash_Inr(1) [OF assms(1)] by (rule genesis_calls_kept)
  ultimately show ?thesis
    using assertGenesisHash_Inr(2) [OF assms(1)] by (simp add: assertGenesisHash_def Let_def)
qed

theorem genesis_binds_one_network_witness:
  "fst (assertGenesisHash (\<lambda>_. Inr (Some SOLANA_MAINNET_GENESIS_HASH)) () ''mainnet''
     (snd (assertGenesisHash (\<lambda>_. Inr (Some SOLANA_DEVNET_GENESIS_HASH)) () ''devnet'' (\<lambda>_. None))))
   = Inl (SDK_INVALID_NETWORK ''mainnet'')"
proof -
  have ok: "assertGenesisHash (\<lambda>_. Inr (Some SOLANA_DEVNET_GENESIS_HASH)) () ''devnet'' (\<lambda>_. None)
      = (Inr (), (\<lambda>_. None)(() \<mapsto> SOLANA_DEVNET_GENESIS_HASH))"
    by (simp add: assertGenesisHash_def genesis_of_def SOLANA_DEVNET_GENESIS_HASH_def numeral_2_eq_2 Let_def)
  from genesis_binds_one_network [OF ok, of "''mainnet''" "\<lambda>_. Inr (Some SOLANA_MAINNET_GENESIS_HASH)" "[]"]
  show ?thesis unfolding ok by simp
qed

end
