(* ===== verification/SealProps.thy ===== *)
theory SealProps
  imports Seal
begin

text \<open>
  What a transaction that \<open>seal()\<close> returns has gone through: the gates, the daily budget with fees, the
  frame around the caller's instructions, and the rewriting of the agent's token accounts.
\<close>

section \<open>Redirected instructions\<close>

text \<open>
  An instruction whose writable accounts are redirected: program, data, number and order of the accounts and their
  roles are kept, a writable account with a target has that address, every other account its own.
\<close>

definition redirected :: "(address \<rightharpoonup> address) \<Rightarrow> Instruction \<Rightarrow> Instruction \<Rightarrow> bool" where
  "redirected target ix ix' \<longleftrightarrow>
     ix_programAddress ix' = ix_programAddress ix \<and> ix_data ix' = ix_data ix
     \<and> rel_option (list_all2 (\<lambda>acc acc'.
           am_role acc' = am_role acc
           \<and> am_address acc' =
               (if am_role acc \<in> {WRITABLE, WRITABLE_SIGNER}
                then case target (am_address acc) of Some v \<Rightarrow> v | None \<Rightarrow> am_address acc
                else am_address acc)))
         (ix_accounts ix) (ix_accounts ix')"

definition targets_of :: "(address \<times> address) list \<Rightarrow> address \<rightharpoonup> address" where
  "targets_of rs k = (if truthy (map_of rs k) then map_of rs k else None)"

lemma replace_redirects: "redirected (targets_of rs) ix (ix\<lparr>ix_accounts := map_option (map (replace_account rs)) (ix_accounts ix)\<rparr>)"
  by (cases "ix_accounts ix")
     (auto simp: redirected_def replace_account_def targets_of_def Let_def list_all2_conv_all_nth truthy_def split: option.splits)

lemma replaceAgentAtas_redirects: "list_all2 (redirected (targets_of rs)) ixs (replaceAgentAtas ixs rs)"
  by (simp add: replaceAgentAtas_map list_all2_conv_all_nth replace_redirects)

lemma base_replacements_from:
  "map_of (base_replacements accts) k = Some v \<Longrightarrow>
     k = sa_agentTokenAta accts \<and> v = sa_vaultTokenAccount accts
     \<or> sa_agentStablecoinAta accts = Some k \<and> sa_outputStablecoinAccount accts = Some v"
  by (auto simp: base_replacements_def Let_def update_conv truthy_def split: if_splits)

text \<open>
  The only targets: the vault's token account for the agent's, the output account for the agent's stablecoin account
  where the spend needs one, and what the caller asked for.
\<close>

definition allowed_target :: "(address \<times> nat) derivation \<Rightarrow> (address \<Rightarrow> bytes) \<Rightarrow> 'c SealParams \<Rightarrow> address \<Rightarrow> address \<Rightarrow> bool" where
  "allowed_target pda enc params k v \<longleftrightarrow>
     k = deriveAta pda enc (sp_agent params) (sp_tokenMint params) \<and> v = deriveAta pda enc (sp_vault params) (sp_tokenMint params)
     \<or> (let net = normalizeNetwork (sp_network params)
        in needs_output_stablecoin params net \<and> k = deriveAta pda enc (sp_agent params) (stable_mint net)
           \<and> (sp_outputStablecoinAccount params = Some v \<or> v = deriveAta pda enc (sp_vault params) (stable_mint net)))
     \<or> (k, v) \<in> set (case sp_additionalAtaReplacements params of None \<Rightarrow> [] | Some m \<Rightarrow> m)"

lemma targets_allowed:
  assumes "seal_replacements params (seal_accounts pda enc params (normalizeNetwork (sp_network params)) state) = Inr rs"
    and "targets_of rs k = Some v"
  shows "allowed_target pda enc params k v"
proof -
  have "map_of rs k = Some v" using assms(2) by (simp add: targets_of_def split: if_splits)
  from merge_replacements_from [OF assms(1) [unfolded seal_replacements_def] this] show ?thesis
    by (auto simp: allowed_target_def seal_accounts_def Let_def dest!: base_replacements_from split: if_splits option.splits)
qed

section \<open>Inversion of the pipeline\<close>

lemma on_world_eq_Inr:
  "on_world m st = (Inr a, st') \<longleftrightarrow> (\<exists>w. m (st_world st) = (Inr a, w) \<and> st' = st\<lparr>st_world := w\<rparr>)"
  by (auto simp: on_world_def split: prod.splits)

lemma before_build_eq_Inr:
  "before_build hooks ctx params w = (Inr u, w') \<longleftrightarrow> invokeHook sh_onBeforeBuild hooks None ctx params w = (None, w')"
  by (auto simp: before_build_def split: prod.splits option.splits)

lemma seal_agent_eq_Inr:
  "seal_agent params state = Inr a \<longleftrightarrow>
     av_status (rv_vault state) = Active
     \<and> find (\<lambda>a. ae_pubkey a = sp_agent params) (av_agents (rv_vault state)) = Some a \<and> \<not> ae_paused a"
  by (auto simp: seal_agent_def split: option.splits if_splits)

lemma seal_gates_Inr:
  assumes "seal_gates env hooks plugins clock params net st = (Inr (state, defi, target), st')"
  obtains a w w' where "validateNetwork net = Inr ()"
    "invokeHook sh_onBeforeBuild hooks None (hook_context env params) params (st_world st) = (None, w)"
    "seal_resolve env clock params net = Inr state" "seal_agent params state = Inr a"
    "runPlugins plugins (plugin_context params (hook_context env params) state a) w = (Inr (), w')"
    "seal_preflight (re_pda (en_resolver env)) (re_enc (en_resolver env)) params net state a = Inr (defi, target)"
    "st' = st\<lparr>st_world := w'\<rparr>"
  using assms unfolding seal_gates_def Let_def
  by (auto simp: sbind_eq_Inr on_world_eq_Inr before_build_eq_Inr)

lemma seal_build_Inr:
  assumes "seal_build env clock params net state defi target st = (Inr (tx, len, bh), st')"
    and "accts = seal_accounts (re_pda (en_resolver env)) (re_enc (en_resolver env)) params net state"
  obtains rs v tables st1 where "seal_replacements params accts = Inr rs"
    "seal_validate_ix env params state accts target = Inr v"
    "seal_blockhash env clock params st = (Inr bh, st1)"
    "seal_lookup_tables env clock params net st1 = (Inr tables, st')"
    "tx = composeSigilTransaction (en_compose env)
       (compose_params params v (replaceAgentAtas defi rs) (seal_finalize_ix env params accts) bh tables)"
    "len = sz_byteLength (measureTransactionSize (en_compose env) tx)"
    "sz_withinLimit (measureTransactionSize (en_compose env) tx)"
  using assms unfolding seal_build_def Let_def by (auto simp: sbind_eq_Inr)

lemma seal_Inr:
  assumes "seal env hooks plugins clock params st = (Inr r, st')" and "net = normalizeNetwork (sp_network params)"
  obtains state defi target st1 tx len bh st2
  where "seal_gates env hooks plugins clock params net st = (Inr (state, defi, target), st1)"
    "seal_build env clock params net state defi target st1 = (Inr (tx, len, bh), st2)"
    "r = seal_result env params net state tx len bh"
  using assms unfolding seal_def Let_def by (auto simp: sbind_eq_Inr)

lemma seal_preflight_Inr:
  assumes "seal_preflight pda enc params net state a = Inr (defi, target)"
  shows "defi = strip_infrastructure (sp_instructions params) \<and> is_u64 (sp_amount params)
    \<and> (\<forall>ix \<in> set defi. blocked_spl_op ix = None)
    \<and> seal_target (sp_targetProtocol params) defi = Inr target \<and> ae_capability a \<noteq> 0
    \<and> isProtocolAllowed target (pc_protocolMode (rv_policy state)) (pc_protocols (rv_policy state))
    \<and> instruction_count_check (sp_amount params > 0) defi (sp_tokenMint params) net = Inr ()
    \<and> cap_headroom_check (sp_amount params > 0) (sp_amount params) (int (pc_developerFeeRate (rv_policy state)))
        (bu_remaining (rv_globalBudget state)) = Inr ()"
  using assms unfolding seal_preflight_def Let_def by (auto simp: spl_block_loop_ok_iff)

lemma seal_validate_ix_shape:
  assumes "seal_validate_ix env params state accts target = Inr v"
  shows "ix_programAddress v = SIGIL_PROGRAM_ADDRESS"
    and "\<exists>rest. ix_data v = Some (VALIDATE_AND_AUTHORIZE_DISCRIMINATOR @ rest)"
  using assms validate_ix_shape unfolding seal_validate_ix_def by fastforce+

lemma replaced_instructions:
  assumes "\<forall>ix \<in> set (strip_infrastructure ixs). blocked_spl_op ix = None"
  shows "\<forall>ix \<in> set (replaceAgentAtas (strip_infrastructure ixs) rs).
        ix_programAddress ix \<notin> {COMPUTE_BUDGET_PROGRAM_ADDRESS, SYSTEM_PROGRAM_ADDRESS} \<and> blocked_spl_op ix = None"
  using assms by (auto simp: replaceAgentAtas_map blocked_spl_op_replace strip_infrastructure_def)

text \<open>The frame of a sealed transaction, before the order of instructions is spelled out.\<close>

lemma seal_framed:
  assumes "seal env hooks plugins clock params st = (Inr r, st')"
  obtains cq rest rs where "sr_transaction r = composeSigilTransaction (en_compose env) cq"
    "ix_programAddress (cq_validateIx cq) = SIGIL_PROGRAM_ADDRESS"
    "ix_data (cq_validateIx cq) = Some (VALIDATE_AND_AUTHORIZE_DISCRIMINATOR @ rest)"
    "ix_programAddress (cq_finalizeIx cq) = SIGIL_PROGRAM_ADDRESS"
    "ix_data (cq_finalizeIx cq) = Some FINALIZE_SESSION_DISCRIMINATOR"
    "list_all2 (redirected (targets_of rs)) (strip_infrastructure (sp_instructions params)) (cq_defiInstructions cq)"
    "\<And>k v. targets_of rs k = Some v \<Longrightarrow> allowed_target (re_pda (en_resolver env)) (re_enc (en_resolver env)) params k v"
    "\<forall>ix \<in> set (cq_defiInstructions cq). ix_programAddress ix \<notin> {COMPUTE_BUDGET_PROGRAM_ADDRESS, SYSTEM_PROGRAM_ADDRESS}
       \<and> blocked_spl_op ix = None"
    "sz_withinLimit (measureTransactionSize (en_compose env) (sr_transaction r))"
proof -
  let ?net = "normalizeNetwork (sp_network params)"
  obtain state defi target st1 tx len bh st2
    where g: "seal_gates env hooks plugins clock params ?net st = (Inr (state, defi, target), st1)"
      and b: "seal_build env clock params ?net state defi target st1 = (Inr (tx, len, bh), st2)"
      and r: "r = seal_result env params ?net state tx len bh"
    by (rule seal_Inr [OF assms refl])
  let ?a = "seal_accounts (re_pda (en_resolver env)) (re_enc (en_resolver env)) params ?net state"
  from b obtain rs v tables where rs: "seal_replacements params ?a = Inr rs"
    and h: "seal_validate_ix env params state ?a target = Inr v"
    "tx = composeSigilTransaction (en_compose env)
       (compose_params params v (replaceAgentAtas defi rs) (seal_finalize_ix env params ?a) bh tables)"
    "sz_withinLimit (measureTransactionSize (en_compose env) tx)"
    by (rule seal_build_Inr [OF _ refl])
  from g obtain a where p: "seal_preflight (re_pda (en_resolver env)) (re_enc (en_resolver env)) params ?net state a = Inr (defi, target)"
    by (rule seal_gates_Inr)
  have d: "defi = strip_infrastructure (sp_instructions params)" "\<forall>ix \<in> set defi. blocked_spl_op ix = None"
    using seal_preflight_Inr [OF p] by blast+
  have tx: "sr_transaction r = tx" by (simp add: r seal_result_def Let_def)
  obtain rest where rest: "ix_data v = Some (VALIDATE_AND_AUTHORIZE_DISCRIMINATOR @ rest)"
    using seal_validate_ix_shape(2) [OF h(1)] by blast
  show thesis
    by (rule that [of "compose_params params v (replaceAgentAtas defi rs) (seal_finalize_ix env params ?a) bh tables" rest rs])
      (use h tx rest seal_validate_ix_shape(1) [OF h(1)] finalize_ix_shape replaced_instructions [OF d(2) [unfolded d(1)]]
          targets_allowed [OF rs] replaceAgentAtas_redirects
        in \<open>simp_all add: compose_params_def seal_finalize_ix_def d(1)\<close>)
qed

section \<open>A concrete run\<close>

text \<open>An agent \<open>A\<close> of vault \<open>V\<close> with 500 left, sealing one instruction of program \<open>P\<close> for 100 USDC units.\<close>

definition sample_state :: "unit ResolvedVaultState" where
  "sample_state = \<lparr>rv_vault = sample_vault, rv_policy = sample_policy, rv_tracker = None, rv_overlay = None,
     rv_constraints = None, rv_globalBudget = \<lparr>bu_spent24h = 0, bu_cap = 500, bu_remaining = 500\<rparr>,
     rv_agentBudget = None, rv_allAgentBudgets = [], rv_protocolBudgets = [], rv_maxTransactionUsd = 200,
     rv_usdcBalance = 1000, rv_usdtBalance = 0, rv_resolvedAtTimestamp = 0\<rparr>"

definition sample_params :: "unit SealParams" where
  "sample_params = \<lparr>sp_vault = ''V'', sp_agent = ''A'', sp_instructions = [sample_ix ''P'' [9]],
     sp_network = ''devnet'', sp_tokenMint = USDC_MINT_DEVNET, sp_amount = 100, sp_targetProtocol = None,
     sp_computeUnits = None, sp_priorityFeeMicroLamports = None, sp_outputStablecoinAccount = None,
     sp_blockhash = Some \<lparr>bh_blockhash = ''H'', bh_lastValidBlockHeight = 7\<rparr>, sp_protocolAltAddresses = None,
     sp_addressLookupTables = Some [], sp_cachedState = Some sample_state, sp_maxCacheAgeMs = None,
     sp_additionalAtaReplacements = None, sp_correlationId = Some ''c''\<rparr>"

definition sample_builder :: builder_env where
  "sample_builder = \<lparr>bv_pda = (\<lambda>_ _. (''D'', 255)), bv_enc = (\<lambda>_. [1]), bv_u64 = (\<lambda>n. Inr [nat n mod 256]),
     bv_meta = (\<lambda>a s w. \<lparr>am_address = (case a of None \<Rightarrow> SIGIL_PROGRAM_ADDRESS | Some x \<Rightarrow> x), am_role = READONLY\<rparr>)\<rparr>"

definition env_with :: "('m, 'tx) compose_env \<Rightarrow> (unit, 'm, 'tx) seal_env" where
  "env_with ce = \<lparr>en_resolver = sample_env, en_compose = ce, en_builder = sample_builder,
     en_accountInfo = (\<lambda>_. Inr None), en_latestBlockhash = Inr \<lparr>bh_blockhash = ''H'', bh_lastValidBlockHeight = 7\<rparr>,
     en_fetchAlts = (\<lambda>_. Inr []), en_newCorrelationId = ''n''\<rparr>"

text \<open>A kit whose transactions are their messages, all of three wire bytes.\<close>

definition tiny_compose_env :: "(TransactionMessage, TransactionMessage) compose_env" where
  "tiny_compose_env =
     \<lparr>cp_setComputeUnitLimit = \<lambda>u. sample_ix COMPUTE_BUDGET_PROGRAM_ADDRESS [2],
      cp_setComputeUnitPrice = \<lambda>p. sample_ix COMPUTE_BUDGET_PROGRAM_ADDRESS [3],
      cp_message = \<lambda>m. m, cp_compress = \<lambda>m alts. m, cp_compile = \<lambda>m. m, cp_wire64 = \<lambda>t. ''AAAA''\<rparr>"

definition small :: "('m, 'tx) compose_env \<Rightarrow> bool" where
  "small ce \<longleftrightarrow> (\<forall>tx. cp_wire64 ce tx = ''AAAA'')"

lemma small_tiny: "small tiny_compose_env"
  by (simp add: small_def tiny_compose_env_def)

lemma small_withinLimit: "small ce \<Longrightarrow> sz_withinLimit (measureTransactionSize ce tx)"
  by (simp add: small_def measureTransactionSize_def base64ByteLength_def MAX_TX_SIZE_def)

definition sample_clock :: seal_clock where
  "sample_clock = \<lparr>ck_cacheCheck = 0, ck_resolve = 1000000000000, ck_blockhash = 0, ck_blockhashAfter = 0, ck_alt = 0, ck_altRetry = 0\<rparr>"

definition sample_st :: "unit SealState" where
  "sample_st = \<lparr>st_world = (), st_altCache = new_AltCache None None, st_blockhashCache = new_BlockhashCache None\<rparr>"

text \<open>The run does not depend on where its state comes from, as long as it has these parts.\<close>

definition like_sample :: "unit ResolvedVaultState \<Rightarrow> bool" where
  "like_sample s \<longleftrightarrow> rv_vault s = sample_vault \<and> rv_policy s = sample_policy \<and> bu_remaining (rv_globalBudget s) = 500"

abbreviation params_from :: "unit ResolvedVaultState option \<Rightarrow> unit SealParams" where
  "params_from c \<equiv> sample_params\<lparr>sp_cachedState := c\<rparr>"

lemma sample_gates:
  assumes "seal_resolve (env_with ce) sample_clock (params_from c) ''devnet'' = Inr s" and "like_sample s"
  shows "seal_gates (env_with ce) None None sample_clock (params_from c) ''devnet'' sample_st
     = (Inr (s, [sample_ix ''P'' [9]], ''P''), sample_st)"
proof -
  have ag: "seal_agent (params_from c) s = Inr (hd (av_agents sample_vault))"
    using assms(2) by (simp add: seal_agent_def sample_params_def like_sample_def sample_vault_def)
  have pre: "seal_preflight pda enc (params_from c) ''devnet'' s (hd (av_agents sample_vault))
      = Inr ([sample_ix ''P'' [9]], ''P'')" for pda enc
    using assms(2)
    by (simp add: seal_preflight_def sample_params_def like_sample_def sample_vault_def sample_policy_def
        strip_infrastructure_def sample_ix_def COMPUTE_BUDGET_PROGRAM_ADDRESS_def SYSTEM_PROGRAM_ADDRESS_def
        blocked_spl_op_def TOKEN_PROGRAM_ADDRESS_def TOKEN_2022_PROGRAM_ADDRESS_def seal_target_def truthy_def
        isProtocolAllowed_def instruction_count_check_def isStablecoinMint_def RECOGNIZED_DEFI_PROGRAMS_def
        SUPPORTED_PROTOCOLS_def cap_headroom_check_def totalWithFees_def ceilFee_def PROTOCOL_FEE_RATE_def
        bdiv_def output_ata_check_def seal_amount_check_def U64_MAX_def)
  show ?thesis
    by (simp add: seal_gates_def sbind_def sresult_def on_world_def before_build_def invokeHook_def runPlugins_def
        validateNetwork_def assms(1) ag pre sample_st_def)
qed

lemma sample_builds:
  assumes "small ce"
  shows "\<exists>tx len. seal_build (env_with ce) sample_clock (params_from c) ''devnet'' s [sample_ix ''P'' [9]] ''P'' sample_st
     = (Inr (tx, len, \<lparr>bh_blockhash = ''H'', bh_lastValidBlockHeight = 7\<rparr>), sample_st)"
proof -
  let ?a = "seal_accounts (re_pda (en_resolver (env_with ce))) (re_enc (en_resolver (env_with ce)))
      (params_from c) ''devnet'' s"
  obtain rs where rs: "seal_replacements (params_from c) ?a = Inr rs"
    by (simp add: seal_replacements_def sample_params_def)
  obtain v where v: "seal_validate_ix (env_with ce) (params_from c) s ?a ''P'' = Inr v"
    by (simp add: seal_validate_ix_def getValidateAndAuthorizeInstructionAsync_def validate_data_def Let_def
        env_with_def sample_builder_def)
  have bh: "seal_blockhash (env_with ce) sample_clock (params_from c) sample_st
      = (Inr \<lparr>bh_blockhash = ''H'', bh_lastValidBlockHeight = 7\<rparr>, sample_st)"
    by (simp add: seal_blockhash_def sample_params_def)
  have lt: "seal_lookup_tables (env_with ce) sample_clock (params_from c) ''devnet'' sample_st = (Inr [], sample_st)"
    by (simp add: seal_lookup_tables_def sample_params_def)
  have size: "sz_withinLimit (measureTransactionSize (en_compose (env_with ce)) t)" for t
    using assms by (simp add: env_with_def small_withinLimit)
  show ?thesis
    unfolding seal_build_def Let_def rs v
    by (simp only: sbind_sresult_Inr) (simp add: sbind_def bh lt size sresult_def)
qed

lemma sample_seals:
  assumes "seal_resolve (env_with ce) sample_clock (params_from c) ''devnet'' = Inr s" and "like_sample s" and "small ce"
  obtains r where "seal (env_with ce) None None sample_clock (params_from c) sample_st = (Inr r, sample_st)"
proof -
  obtain tx len where b: "seal_build (env_with ce) sample_clock (params_from c) ''devnet'' s [sample_ix ''P'' [9]] ''P'' sample_st
     = (Inr (tx, len, \<lparr>bh_blockhash = ''H'', bh_lastValidBlockHeight = 7\<rparr>), sample_st)"
    using sample_builds [OF assms(3)] by blast
  have net: "normalizeNetwork (sp_network (params_from c)) = ''devnet''"
    by (simp add: normalizeNetwork_def sample_params_def)
  have w: "on_world (before_sign None ctx tx) sample_st = (Inr (), sample_st)" for ctx
    by (simp add: on_world_def before_sign_def invokeHook_def)
  have "seal (env_with ce) None None sample_clock (params_from c) sample_st
      = (Inr (seal_result (env_with ce) (params_from c) ''devnet'' s tx len
          \<lparr>bh_blockhash = ''H'', bh_lastValidBlockHeight = 7\<rparr>), sample_st)"
    unfolding seal_def Let_def net by (simp add: sample_gates [OF assms(1,2)] b w sbind_def sresult_def)
  then show thesis by (rule that)
qed

lemma sample_cached:
  "seal_resolve (env_with ce) sample_clock (params_from (Some sample_state)) ''devnet'' = Inr sample_state"
  "like_sample sample_state"
proof -
  have "cache_fresh sample_clock (params_from (Some sample_state)) sample_state"
    by (simp add: cache_fresh_def cache_age_ms_def sample_clock_def sample_state_def sample_params_def dbl_def to_double_def)
  then show "seal_resolve (env_with ce) sample_clock (params_from (Some sample_state)) ''devnet'' = Inr sample_state"
    by (simp add: seal_resolve_def)
  show "like_sample sample_state" by (simp add: like_sample_def sample_state_def)
qed

lemma sample_uncached:
  obtains s where "seal_resolve (env_with ce) sample_clock (params_from None) ''devnet'' = Inr s" "like_sample s"
proof -
  have spent: "getRolling24hUsd sample_tracker 1000000000 = 0" by code_simp
  have "\<exists>s. resolveVaultState sample_env ''V'' ''A'' None (Some ''devnet'') 1000000000000 = Inr s \<and> like_sample s"
    unfolding resolveVaultState_def Let_def sample_env_addresses
    by (simp add: sample_env_def acct_at_def decode_maybe_def sample_vault_def agent_budget_def ata_balance_def
        like_sample_def global_budget_def budget_of_def timestamp_of_def spent sample_policy_def monus_def)
  then show thesis
    using that by (auto simp: seal_resolve_def env_with_def sample_params_def sample_clock_def)
qed

section \<open>Properties\<close>

text \<open>
  C3. A sealed transaction has passed every gate, in the resolved (or fresh enough cached) state of the
  vault: the network is known, no hook aborted, the vault is active, the agent is registered, not
  paused and has a capability, every plugin allowed, the amount is an unsigned 64-bit integer, and the
  target, the caller's choice or the program of the first kept instruction, is allowed by the policy.
\<close>
theorem seal_passes_gates:
  assumes "seal env hooks plugins clock params st = (Inr r, st')"
  shows "\<exists>state a target w.
      validateNetwork (normalizeNetwork (sp_network params)) = Inr ()
    \<and> invokeHook sh_onBeforeBuild hooks None (hook_context env params) params (st_world st) = (None, w)
    \<and> seal_resolve env clock params (normalizeNetwork (sp_network params)) = Inr state
    \<and> av_status (rv_vault state) = Active
    \<and> a \<in> set (av_agents (rv_vault state)) \<and> ae_pubkey a = sp_agent params \<and> \<not> ae_paused a \<and> ae_capability a \<noteq> 0
    \<and> (\<exists>w'. plugins_allow (case plugins of None \<Rightarrow> [] | Some ps \<Rightarrow> ps)
              (plugin_context params (hook_context env params) state a) w w')
    \<and> is_u64 (sp_amount params)
    \<and> seal_target (sp_targetProtocol params) (strip_infrastructure (sp_instructions params)) = Inr target
    \<and> isProtocolAllowed target (pc_protocolMode (rv_policy state)) (pc_protocols (rv_policy state))"
proof -
  obtain state defi target st1 where g: "seal_gates env hooks plugins clock params
      (normalizeNetwork (sp_network params)) st = (Inr (state, defi, target), st1)"
    using seal_Inr [OF assms refl] by metis
  from g obtain a w w' where h: "validateNetwork (normalizeNetwork (sp_network params)) = Inr ()"
    "invokeHook sh_onBeforeBuild hooks None (hook_context env params) params (st_world st) = (None, w)"
    "seal_resolve env clock params (normalizeNetwork (sp_network params)) = Inr state" "seal_agent params state = Inr a"
    "runPlugins plugins (plugin_context params (hook_context env params) state a) w = (Inr (), w')"
    "seal_preflight (re_pda (en_resolver env)) (re_enc (en_resolver env)) params
       (normalizeNetwork (sp_network params)) state a = Inr (defi, target)"
    by (rule seal_gates_Inr)
  have "plugins_allow (case plugins of None \<Rightarrow> [] | Some ps \<Rightarrow> ps)
      (plugin_context params (hook_context env params) state a) w w'"
    using h(5) by (auto simp: runPlugins_def run_plugins_loop_ok_iff split: option.splits if_splits)
  moreover have "a \<in> set (av_agents (rv_vault state))" "ae_pubkey a = sp_agent params" "\<not> ae_paused a"
    "av_status (rv_vault state) = Active"
    using h(4) by (auto simp: seal_agent_eq_Inr find_Some_iff)
  ultimately show ?thesis
    using h(1,2,3) seal_preflight_Inr [OF h(6)] by blast
qed

theorem seal_passes_gates_witness:
  "\<exists>state a target w. seal_resolve (env_with tiny_compose_env) sample_clock (params_from (Some sample_state)) ''devnet'' = Inr state
     \<and> av_status (rv_vault state) = Active \<and> a \<in> set (av_agents (rv_vault state)) \<and> ae_pubkey a = ''A''
     \<and> isProtocolAllowed target (pc_protocolMode (rv_policy state)) (pc_protocols (rv_policy state))"
proof -
  obtain r where r: "seal (env_with tiny_compose_env) None None sample_clock (params_from (Some sample_state)) sample_st = (Inr r, sample_st)"
    by (rule sample_seals [OF sample_cached small_tiny])
  have net: "normalizeNetwork (sp_network (params_from (Some sample_state))) = ''devnet''"
    "sp_agent (params_from (Some sample_state)) = ''A''"
    by (simp_all add: normalizeNetwork_def sample_params_def)
  show ?thesis
    using seal_passes_gates [OF r] unfolding net by blast
qed

text \<open>
  C1. A sealed stablecoin spend fits the daily budget with its fees: when the caller passes no cached state, so
  that the state was read from the chain, what was spent in the last 24 hours, the amount, the protocol fee and
  the developer fee together stay within the vault's daily cap, and each fee is at least the exact \<open>amount * rate / 1000000\<close>, by less
  than one unit.
\<close>
theorem seal_within_daily_cap:
  assumes "seal env hooks plugins clock params st = (Inr r, st')"
    and "sp_cachedState params = None" and "0 < sp_amount params"
    and "isStablecoinMint (sp_tokenMint params) (normalizeNetwork (sp_network params))"
  shows "\<exists>state protocolFee devFee.
      resolveVaultState (en_resolver env) (sp_vault params) (sp_agent params) None
        (Some (normalizeNetwork (sp_network params))) (ck_resolve clock) = Inr state
    \<and> bu_spent24h (rv_globalBudget state) + sp_amount params + protocolFee + devFee
        \<le> pc_dailySpendingCapUsd (rv_policy state)
    \<and> sp_amount params * PROTOCOL_FEE_RATE \<le> protocolFee * FEE_RATE_DENOMINATOR
    \<and> protocolFee * FEE_RATE_DENOMINATOR < sp_amount params * PROTOCOL_FEE_RATE + FEE_RATE_DENOMINATOR
    \<and> sp_amount params * int (pc_developerFeeRate (rv_policy state)) \<le> devFee * FEE_RATE_DENOMINATOR
    \<and> devFee * FEE_RATE_DENOMINATOR
        < sp_amount params * int (pc_developerFeeRate (rv_policy state)) + FEE_RATE_DENOMINATOR"
proof -
  let ?net = "normalizeNetwork (sp_network params)"
  obtain state defi target st1 where g: "seal_gates env hooks plugins clock params ?net st = (Inr (state, defi, target), st1)"
    using seal_Inr [OF assms(1) refl] by metis
  from g obtain a where h: "seal_resolve env clock params ?net = Inr state"
    "seal_preflight (re_pda (en_resolver env)) (re_enc (en_resolver env)) params ?net state a = Inr (defi, target)"
    by (rule seal_gates_Inr)
  have res: "resolveVaultState (en_resolver env) (sp_vault params) (sp_agent params) None (Some ?net) (ck_resolve clock) = Inr state"
    using h(1) assms(2) by (simp add: seal_resolve_def Let_def)
  let ?p = "ceilFee (sp_amount params) PROTOCOL_FEE_RATE"
  let ?d = "ceilFee (sp_amount params) (int (pc_developerFeeRate (rv_policy state)))"
  have rate: "0 \<le> PROTOCOL_FEE_RATE" by (simp add: PROTOCOL_FEE_RATE_def)
  note fees = ceilFee_bounds [OF less_imp_le [OF assms(3)] rate]
    ceilFee_bounds [OF less_imp_le [OF assms(3)], of "int (pc_developerFeeRate (rv_policy state))"]
  have cap: "sp_amount params + ?p + ?d \<le> bu_remaining (rv_globalBudget state)"
    using seal_preflight_Inr [OF h(2)] assms(3)
    by (auto simp: cap_headroom_check_def totalWithFees_def split: if_splits)
  have rem: "bu_remaining (rv_globalBudget state)
      = monus (pc_dailySpendingCapUsd (rv_policy state)) (bu_spent24h (rv_globalBudget state))"
    using resolveVaultState_Inr [OF res] by (simp add: global_budget_def budget_of_def Let_def)
  have "bu_spent24h (rv_globalBudget state) + sp_amount params + ?p + ?d \<le> pc_dailySpendingCapUsd (rv_policy state)"
    using cap fees(3,6) assms(3) unfolding rem monus_def by (auto split: if_splits)
  then show ?thesis
    using res fees by (fastforce simp: FEE_RATE_DENOMINATOR_def)
qed

theorem seal_within_daily_cap_witness:
  "\<exists>state protocolFee devFee.
      resolveVaultState sample_env ''V'' ''A'' None (Some ''devnet'') 1000000000000 = Inr state
    \<and> bu_spent24h (rv_globalBudget state) + 100 + protocolFee + devFee \<le> pc_dailySpendingCapUsd (rv_policy state)
    \<and> 100 * PROTOCOL_FEE_RATE \<le> protocolFee * FEE_RATE_DENOMINATOR"
proof -
  obtain s where s: "seal_resolve (env_with tiny_compose_env) sample_clock (params_from None) ''devnet'' = Inr s" "like_sample s"
    by (rule sample_uncached)
  obtain r where r: "seal (env_with tiny_compose_env) None None sample_clock (params_from None) sample_st = (Inr r, sample_st)"
    by (rule sample_seals [OF s small_tiny])
  have p: "normalizeNetwork (sp_network (params_from None)) = ''devnet''" "sp_agent (params_from None) = ''A''"
    "sp_vault (params_from None) = ''V''" "sp_amount (params_from None) = 100" "ck_resolve sample_clock = 1000000000000"
    "en_resolver (env_with tiny_compose_env) = sample_env"
    by (simp_all add: normalizeNetwork_def sample_params_def sample_clock_def env_with_def)
  have "isStablecoinMint (sp_tokenMint (params_from None)) ''devnet''"
    by (simp add: sample_params_def isStablecoinMint_def)
  then show ?thesis
    using seal_within_daily_cap [OF r] unfolding p by auto
qed

text \<open>
  C2. A sealed transaction is a sandwich: compute-budget instructions, then \<open>validate_and_authorize\<close> of
  the Sigil program, then exactly the caller's instructions without the stripped infrastructure, in order, then
  \<open>finalize_session\<close> last. Each kept instruction has its program, its data and its accounts with their roles; an account
  changes its address only if it is writable, and only from the agent's token account to the vault's, from the
  agent's stablecoin account to the output account, or as the caller's own replacements say. None of the instructions in between
  is for the compute-budget or system program or is a blocked top-level token operation, and the
  transaction is within the wire limit.
\<close>
theorem seal_sandwich:
  assumes "seal env hooks plugins clock params st = (Inr r, st')"
    and "\<And>u. ix_programAddress (cp_setComputeUnitLimit (en_compose env) u) = COMPUTE_BUDGET_PROGRAM_ADDRESS"
    and "\<And>p. ix_programAddress (cp_setComputeUnitPrice (en_compose env) p) = COMPUTE_BUDGET_PROGRAM_ADDRESS"
  shows "\<exists>cq budget validateIx defi finalizeIx rest target.
      sr_transaction r = composeSigilTransaction (en_compose env) cq
    \<and> composed_instructions (en_compose env) cq = budget @ validateIx # defi @ [finalizeIx]
    \<and> (\<forall>ix \<in> set budget. ix_programAddress ix = COMPUTE_BUDGET_PROGRAM_ADDRESS)
    \<and> ix_programAddress validateIx = SIGIL_PROGRAM_ADDRESS
    \<and> ix_data validateIx = Some (VALIDATE_AND_AUTHORIZE_DISCRIMINATOR @ rest)
    \<and> ix_programAddress finalizeIx = SIGIL_PROGRAM_ADDRESS
    \<and> ix_data finalizeIx = Some FINALIZE_SESSION_DISCRIMINATOR
    \<and> list_all2 (redirected target) (strip_infrastructure (sp_instructions params)) defi
    \<and> (\<forall>k v. target k = Some v \<longrightarrow> allowed_target (re_pda (en_resolver env)) (re_enc (en_resolver env)) params k v)
    \<and> (\<forall>ix \<in> set defi. ix_programAddress ix \<notin> {COMPUTE_BUDGET_PROGRAM_ADDRESS, SYSTEM_PROGRAM_ADDRESS}
         \<and> blocked_spl_op ix = None)
    \<and> sz_withinLimit (measureTransactionSize (en_compose env) (sr_transaction r))"
  using seal_framed [OF assms(1)] composed_sandwich [of "en_compose env", OF assms(2,3)]
  by (metis (no_types, lifting))

theorem seal_sandwich_witness:
  "\<exists>r cq budget validateIx defi finalizeIx.
      seal (env_with tiny_compose_env) None None sample_clock (params_from (Some sample_state)) sample_st = (Inr r, sample_st)
    \<and> sr_transaction r = composeSigilTransaction tiny_compose_env cq
    \<and> composed_instructions tiny_compose_env cq = budget @ validateIx # defi @ [finalizeIx]
    \<and> ix_programAddress validateIx = SIGIL_PROGRAM_ADDRESS
    \<and> ix_data finalizeIx = Some FINALIZE_SESSION_DISCRIMINATOR"
proof -
  obtain r where r: "seal (env_with tiny_compose_env) None None sample_clock (params_from (Some sample_state)) sample_st
      = (Inr r, sample_st)"
    by (rule sample_seals [OF sample_cached small_tiny])
  have e: "en_compose (env_with tiny_compose_env) = tiny_compose_env" by (simp add: env_with_def)
  have b: "ix_programAddress (cp_setComputeUnitLimit (en_compose (env_with tiny_compose_env)) u) = COMPUTE_BUDGET_PROGRAM_ADDRESS"
    "ix_programAddress (cp_setComputeUnitPrice (en_compose (env_with tiny_compose_env)) u) = COMPUTE_BUDGET_PROGRAM_ADDRESS" for u
    unfolding e by (simp_all add: tiny_compose_env_def sample_ix_def)
  show ?thesis
    using r seal_sandwich [OF r b] unfolding e by blast
qed

section \<open>The vault's token accounts\<close>

lemma base_replacements_token:
  assumes "sa_agentStablecoinAta accts \<noteq> Some (sa_agentTokenAta accts)"
  shows "map_of (base_replacements accts) (sa_agentTokenAta accts) = Some (sa_vaultTokenAccount accts)"
  using assms by (auto simp: base_replacements_def Let_def update_conv truthy_def)

lemma base_replacements_range:
  "map_of (base_replacements accts) k = Some v \<Longrightarrow>
     v = sa_vaultTokenAccount accts \<or> sa_outputStablecoinAccount accts = Some v"
  by (auto simp: base_replacements_def Let_def update_conv truthy_def split: if_splits)

lemma replace_account_hit:
  "map_of rs (am_address acc) = Some v \<Longrightarrow> v \<noteq> [] \<Longrightarrow> am_role acc \<in> {WRITABLE, WRITABLE_SIGNER}
     \<Longrightarrow> am_address (replace_account rs acc) = v"
  by (auto simp: replace_account_def truthy_def)

lemma replace_account_cases:
  "replace_account rs acc = acc \<or>
     (\<exists>v. map_of rs (am_address acc) = Some v \<and> replace_account rs acc = acc\<lparr>am_address := v\<rparr>)"
  by (auto simp: replace_account_def Let_def truthy_def)

text \<open>
  C13. Rewriting closes the agent's own token account to writes: for any instructions, after the
  replacement of the accounts \<open>seal()\<close> computes, extended by any accepted replacements of the caller,
  a writable account of an instruction is the agent's token account only if the caller's own replacements name
  it as a target. The vault's token account and the output account are assumed to be other addresses, and the
  agent's stablecoin account another one than its account of the spent mint.
\<close>
theorem agent_ata_never_writable:
  assumes "seal_replacements params accts = Inr rs"
    and "sa_agentStablecoinAta accts \<noteq> Some (sa_agentTokenAta accts)"
    and "sa_vaultTokenAccount accts \<notin> {[], sa_agentTokenAta accts}"
    and "sa_outputStablecoinAccount accts \<noteq> Some (sa_agentTokenAta accts)"
    and "ix \<in> set (replaceAgentAtas ixs rs)" and "ix_accounts ix = Some metas" and "acc \<in> set metas"
    and "am_role acc \<in> {WRITABLE, WRITABLE_SIGNER}"
    and bad: "am_address acc = sa_agentTokenAta accts"
  shows "\<exists>k. (k, sa_agentTokenAta accts) \<in> set (case sp_additionalAtaReplacements params of None \<Rightarrow> [] | Some m \<Rightarrow> m)"
proof -
  obtain acc0 where acc0: "acc = replace_account rs acc0"
    using assms(5,6,7) by (auto simp: replaceAgentAtas_map)
  have m: "merge_replacements (base_replacements accts)
      (case sp_additionalAtaReplacements params of None \<Rightarrow> [] | Some m \<Rightarrow> m) = Inr rs"
    using assms(1) by (simp add: seal_replacements_def)
  have key: "map_of rs (sa_agentTokenAta accts) = Some (sa_vaultTokenAccount accts)"
    by (rule merge_replacements_keeps [OF m base_replacements_token [OF assms(2)]])
  have "replace_account rs acc0 \<noteq> acc0"
  proof
    assume same: "replace_account rs acc0 = acc0"
    then have "am_address (replace_account rs acc0) = sa_vaultTokenAccount accts"
      using acc0 bad key assms(3,8) by (intro replace_account_hit) simp_all
    with acc0 bad assms(3) show False by simp
  qed
  then obtain k where "map_of rs k = Some (sa_agentTokenAta accts)"
    using replace_account_cases [of rs acc0] acc0 bad by auto
  from merge_replacements_from [OF m this] show ?thesis
    using base_replacements_range [of accts k "sa_agentTokenAta accts"] assms(3,4) by auto
qed

definition sample_accts :: SealAccounts where
  "sample_accts = \<lparr>sa_vaultTokenAccount = ''VT'', sa_outputStablecoinAccount = None, sa_protocolTreasuryTokenAccount = None,
     sa_feeDestinationTokenAccount = None, sa_agentOverlayPda = ''O'', sa_sessionPda = ''S'', sa_agentTokenAta = ''AT'',
     sa_agentStablecoinAta = None\<rparr>"

text \<open>The one way past the rewriting: the caller redirects another account, here \<open>X\<close>, to the agent's.\<close>

theorem agent_ata_never_writable_witness:
  "\<exists>k. (k, ''AT'') \<in> set (case sp_additionalAtaReplacements (sample_params\<lparr>sp_additionalAtaReplacements := Some [(''X'', ''AT'')]\<rparr>)
           of None \<Rightarrow> [] | Some m \<Rightarrow> m)"
proof -
  let ?params = "sample_params\<lparr>sp_additionalAtaReplacements := Some [(''X'', ''AT'')]\<rparr>"
  let ?rs = "[(''AT'', ''VT''), (''X'', ''AT'')]"
  let ?acc = "\<lparr>am_address = ''X'', am_role = WRITABLE\<rparr>" and ?acc' = "\<lparr>am_address = ''AT'', am_role = WRITABLE\<rparr>"
  let ?ix = "\<lparr>ix_programAddress = ''P'', ix_accounts = Some [?acc], ix_data = None\<rparr>"
  have rs: "seal_replacements ?params sample_accts = Inr ?rs"
    by (simp add: seal_replacements_def base_replacements_def truthy_def sample_accts_def)
  have ixs: "replaceAgentAtas [?ix] ?rs = [?ix\<lparr>ix_accounts := Some [?acc']\<rparr>]"
    by (simp add: replaceAgentAtas_map replace_account_def truthy_def)
  have acc: "?acc' \<in> set [?acc']" "am_role ?acc' \<in> {WRITABLE, WRITABLE_SIGNER}" by simp_all
  have "\<exists>k. (k, sa_agentTokenAta sample_accts) \<in> set (case sp_additionalAtaReplacements ?params of None \<Rightarrow> [] | Some m \<Rightarrow> m)"
    by (rule agent_ata_never_writable [OF rs _ _ _ _ _ acc, of "?ix\<lparr>ix_accounts := Some [?acc']\<rparr>" "[?ix]"])
       (simp_all add: sample_accts_def ixs)
  then show ?thesis by (simp add: sample_accts_def)
qed

text \<open>
  The daily-cap gate of \<open>seal()\<close> does not look at the mint: an amount of a non-stablecoin, in its own
  base units, above the remaining dollar headroom is refused, whatever it is worth.
\<close>
theorem seal_caps_non_stablecoin_amounts:
  assumes "\<not> isStablecoinMint (sp_tokenMint params) net"
    and "0 < sp_amount params" and "bu_remaining (rv_globalBudget state) < sp_amount params"
  shows "\<not> isOk (seal_preflight pda enc params net state a)"
proof
  assume "isOk (seal_preflight pda enc params net state a)"
  then obtain defi target where p: "seal_preflight pda enc params net state a = Inr (defi, target)"
    by (cases "seal_preflight pda enc params net state a") auto
  have "totalWithFees (sp_amount params) (int (pc_developerFeeRate (rv_policy state))) \<le> bu_remaining (rv_globalBudget state)"
    using seal_preflight_Inr [OF p] assms(2) by (auto simp: cap_headroom_check_def split: if_splits)
  moreover have "0 \<le> ceilFee (sp_amount params) PROTOCOL_FEE_RATE"
    "0 \<le> ceilFee (sp_amount params) (int (pc_developerFeeRate (rv_policy state)))"
    using assms(2) by (auto intro!: ceilFee_bounds(3) simp: PROTOCOL_FEE_RATE_def)
  ultimately show False
    using assms(3) by (simp add: totalWithFees_def)
qed

text \<open>One SOL, worth less than 500 dollars or not, against a headroom of 500 base units.\<close>

theorem seal_caps_non_stablecoin_amounts_witness:
  "\<not> isOk (seal_preflight (\<lambda>_ _. (''D'', 255)) (\<lambda>_. [1]) (sample_params\<lparr>sp_tokenMint := ''So11111111111111111111111111111111111111112'',
       sp_amount := 1000000000\<rparr>) ''devnet'' sample_state (hd (av_agents sample_vault)))"
  by (rule seal_caps_non_stablecoin_amounts)
    (simp_all add: isStablecoinMint_def USDC_MINT_DEVNET_def USDT_MINT_DEVNET_def sample_state_def)

end
