(* ===== verification/SigilClient.thy ===== *)
theory SigilClient
  imports Executor SealProps
begin

text \<open>
  \<open>createSigilClient\<close> of \<open>sdk/kit/src/seal.ts\<close>: the client's own blockhash and lookup-table caches, its
  \<open>seal\<close> with the verify, evict and retry of the lookup tables, \<open>executeAndConfirm\<close> with the composed hooks
  and the error path, and \<open>createSigilClientAsync\<close>. The conversion of an error to an agent error is a
  parameter, as are the telemetry callback and the RPC client's answers.
\<close>

section \<open>Configuration and options\<close>

text \<open>The client's caches, the state \<open>seal\<close> runs in, and what left the process.\<close>

record ('s, 'tx) ClientState =
  cl_seal :: "'s SealState"
  cl_blockhashCache :: BlockhashCache
  cl_altCache :: AltCache
  cl_effects :: "'tx exec_effect list"

record ('s, 'c) ClientSealOpts =
  co_tokenMint :: address
  co_amount :: int
  co_targetProtocol :: "address option"
  co_computeUnits :: "nat option"
  co_priorityFeeMicroLamports :: "nat option"
  co_outputStablecoinAccount :: "address option"
  co_protocolAltAddresses :: "address list option"
  co_addressLookupTables :: "lookup_tables option"
  co_cachedState :: "'c ResolvedVaultState option"
  co_maxCacheAgeMs :: "int option"
  co_additionalAtaReplacements :: "(address \<times> address) list option"
  co_correlationId :: "string option"
  co_confirmOptions :: "SendOptions option"

datatype 'e client_error = AgentError 'e | TelemetryThrew js_error

record ('s, 'c, 'tx, 'e) SigilClientConfig =
  cc_vault :: address
  cc_agent :: "'tx TransactionSigner"
  cc_network :: string
  cc_blockhashTtlMs :: "msecs option"
  cc_hooks :: "('s, 'c, 'tx) hooks"
  cc_plugins :: "'s plugins"
  cc_onError :: "('e \<Rightarrow> bool \<Rightarrow> ('s, unit) callback) option"

definition new_client_state :: "('s, 'c, 'tx, 'e) SigilClientConfig \<Rightarrow> 's SealState \<Rightarrow> ('s, 'tx) ClientState" where
  "new_client_state config st =
     \<lparr>cl_seal = st, cl_blockhashCache = new_BlockhashCache (cc_blockhashTtlMs config),
      cl_altCache = new_AltCache None None, cl_effects = []\<rparr>"

text \<open>What the constructor checks: required fields, and the plugin list when there is one.\<close>

definition client_config_check ::
  "bool \<Rightarrow> bool \<Rightarrow> plugins_value option \<Rightarrow> ('s, 'c, 'tx, 'e) SigilClientConfig \<Rightarrow> (sdk_error, unit) result" where
  "client_config_check hasRpc hasAgent plugins config =
     rbind (require hasRpc (SDK_INVALID_CONFIG ''rpc'')) (\<lambda>_.
     rbind (require (cc_vault config \<noteq> []) (SDK_INVALID_CONFIG ''vault'')) (\<lambda>_.
     rbind (require hasAgent (SDK_INVALID_CONFIG ''agent'')) (\<lambda>_.
     rbind (require (cc_network config \<noteq> []) (SDK_INVALID_CONFIG ''network'')) (\<lambda>_.
     case plugins of None \<Rightarrow> Inr () | Some v \<Rightarrow> validatePluginList v))))"

section \<open>clientSeal\<close>

text \<open>
  The source spreads the options after the client's own vault, agent and network. \<open>ClientSealOpts\<close> declares none of these
  fields, so for options of that type the client's values stand; an object that smuggles them in at run time is
  outside the model.
\<close>

definition client_params ::
  "('s, 'c, 'tx, 'e) SigilClientConfig \<Rightarrow> Instruction list \<Rightarrow> ('s, 'c) ClientSealOpts \<Rightarrow> Blockhash \<Rightarrow> lookup_tables
    \<Rightarrow> 'c SealParams" where
  "client_params config instructions opts blockhash tables =
     \<lparr>sp_vault = cc_vault config, sp_agent = ts_address (cc_agent config), sp_instructions = instructions,
      sp_network = cc_network config, sp_tokenMint = co_tokenMint opts, sp_amount = co_amount opts,
      sp_targetProtocol = co_targetProtocol opts, sp_computeUnits = co_computeUnits opts,
      sp_priorityFeeMicroLamports = co_priorityFeeMicroLamports opts,
      sp_outputStablecoinAccount = co_outputStablecoinAccount opts, sp_blockhash = Some blockhash,
      sp_protocolAltAddresses = co_protocolAltAddresses opts, sp_addressLookupTables = Some tables,
      sp_cachedState = co_cachedState opts, sp_maxCacheAgeMs = co_maxCacheAgeMs opts,
      sp_additionalAtaReplacements = co_additionalAtaReplacements opts, sp_correlationId = co_correlationId opts\<rparr>"

text \<open>The tables and the blockhash from the client's caches, asked for together.\<close>

definition client_fetch ::
  "('c, 'm, 'tx) seal_env \<Rightarrow> seal_clock \<Rightarrow> string \<Rightarrow> ('s, 'c) ClientSealOpts
    \<Rightarrow> (('s, 'tx) ClientState, sdk_error, Blockhash \<times> lookup_tables) step" where
  "client_fetch env clock network opts st =
     (case (case co_addressLookupTables opts of
              Some tables \<Rightarrow> Inr (tables, cl_altCache st)
            | None \<Rightarrow>
                rbind (getSigilAltAddress (normalizeNetwork network)) (\<lambda>sigilAlt.
                Inr (alt_resolve (en_fetchAlts env) (mergeAltAddresses sigilAlt (co_protocolAltAddresses opts))
                       (ck_alt clock) (cl_altCache st)))) of
        Inl e \<Rightarrow> (Inl e, st)
      | Inr (tables, altCache) \<Rightarrow>
          (case bh_get (en_latestBlockhash env) (ck_blockhash clock) (ck_blockhashAfter clock) (cl_blockhashCache st) of
             (r, cache) \<Rightarrow> (rbind r (\<lambda>blockhash. Inr (blockhash, tables)),
                st\<lparr>cl_altCache := altCache, cl_blockhashCache := cache\<rparr>)))"

definition client_verify ::
  "('c, 'm, 'tx) seal_env \<Rightarrow> seal_clock \<Rightarrow> string \<Rightarrow> ('s, 'c) ClientSealOpts \<Rightarrow> lookup_tables
    \<Rightarrow> (('s, 'tx) ClientState, sdk_error, lookup_tables) step" where
  "client_verify env clock network opts tables st =
     (case co_addressLookupTables opts of
        Some _ \<Rightarrow> (Inr tables, st)
      | None \<Rightarrow>
          let net = normalizeNetwork network; expected = getExpectedAltContents net
          in case getSigilAltAddress net of
               Inl e \<Rightarrow> (Inl e, st)
             | Inr sigilAlt \<Rightarrow>
                 (case verifySigilAlt tables sigilAlt expected of
                    Inr _ \<Rightarrow> (Inr tables, st)
                  | Inl _ \<Rightarrow>
                      let (tables2, c2) = alt_resolve (en_fetchAlts env)
                            (mergeAltAddresses sigilAlt (co_protocolAltAddresses opts)) (ck_altRetry clock)
                            (alt_invalidate (cl_altCache st))
                      in (rbind (verifySigilAlt tables2 sigilAlt expected) (\<lambda>_. Inr tables2), st\<lparr>cl_altCache := c2\<rparr>)))"

definition on_seal :: "('s SealState, 'e, 'a) step \<Rightarrow> (('s, 'tx) ClientState, 'e, 'a) step" where
  "on_seal m st = (case m (cl_seal st) of (r, s) \<Rightarrow> (r, st\<lparr>cl_seal := s\<rparr>))"

definition clientSeal ::
  "('c, 'm, 'tx) seal_env \<Rightarrow> seal_clock \<Rightarrow> ('s, 'c, 'tx, 'e) SigilClientConfig \<Rightarrow> ('s, 'c, 'tx) hooks
    \<Rightarrow> Instruction list \<Rightarrow> ('s, 'c) ClientSealOpts \<Rightarrow> (('s, 'tx) ClientState, sdk_error, 'tx SealResult) step" where
  "clientSeal env clock config hooks instructions opts =
     sbind (client_fetch env clock (cc_network config) opts) (\<lambda>(blockhash, tables).
     sbind (client_verify env clock (cc_network config) opts tables) (\<lambda>tables'.
     on_seal (seal env hooks (cc_plugins config) clock (client_params config instructions opts blockhash tables'))))"

definition client_invalidateCaches :: "('s, 'tx) ClientState \<Rightarrow> ('s, 'tx) ClientState" where
  "client_invalidateCaches st =
     st\<lparr>cl_blockhashCache := bh_invalidate (cl_blockhashCache st), cl_altCache := alt_invalidate (cl_altCache st)\<rparr>"

section \<open>executeAndConfirm\<close>

record send_env =
  sn_send :: "string \<Rightarrow> (js_error, string) result"
  sn_sentAt :: msecs
  sn_poll :: "nat \<Rightarrow> poll_round"

abbreviation cl_world :: "('s, 'tx) ClientState \<Rightarrow> 's" where
  "cl_world st \<equiv> st_world (cl_seal st)"

definition set_world :: "'s \<Rightarrow> ('s, 'tx) ClientState \<Rightarrow> ('s, 'tx) ClientState" where
  "set_world w st = st\<lparr>cl_seal := (cl_seal st)\<lparr>st_world := w\<rparr>\<rparr>"

text \<open>The \<open>try\<close> block up to the confirmed signature.\<close>

definition client_send ::
  "('c, 'm, 'tx) seal_env \<Rightarrow> send_env \<Rightarrow> seal_clock \<Rightarrow> ('s, 'c, 'tx, 'e) SigilClientConfig \<Rightarrow> ('s, 'c, 'tx) hooks
    \<Rightarrow> Instruction list \<Rightarrow> ('s, 'c) ClientSealOpts \<Rightarrow> ('s, 'tx) ClientState
    \<Rightarrow> ((sdk_error, string \<times> 'tx SealResult) result \<times> ('s, 'tx) ClientState) option" where
  "client_send env send clock config hooks instructions opts st =
     (case clientSeal env clock config hooks instructions opts st of
        (Inl e, st1) \<Rightarrow> Some (Inl e, st1)
      | (Inr result, st1) \<Rightarrow>
          let st2 = st1\<lparr>cl_effects := cl_effects st1 @ [Signing (sr_transaction result)]\<rparr>
          in case signAndEncode (cp_wire64 (en_compose env)) (cc_agent config) (sr_transaction result) of
               Inl e \<Rightarrow> Some (Inl e, st2)
             | Inr encoded \<Rightarrow>
                 map_option (\<lambda>r. (rbind r (\<lambda>signature. Inr (signature, result)),
                     st2\<lparr>cl_effects := cl_effects st2 @ [Sending encoded]\<rparr>))
                   (sendAndConfirmTransaction (sn_send send) (sn_sentAt send) (sn_poll send) encoded
                      (case co_confirmOptions opts of Some o' \<Rightarrow> o' | None \<Rightarrow> \<lparr>so_timeoutMs = None, so_commitment = None\<rparr>)))"

definition client_hook_context ::
  "('c, 'm, 'tx) seal_env \<Rightarrow> ('s, 'c, 'tx, 'e) SigilClientConfig \<Rightarrow> ('s, 'c) ClientSealOpts \<Rightarrow> string \<Rightarrow> SealHookContext" where
  "client_hook_context env config opts correlationId =
     \<lparr>hc_vault = cc_vault config, hc_agent = ts_address (cc_agent config), hc_tokenMint = co_tokenMint opts,
      hc_amount = co_amount opts, hc_network = cc_network config, hc_correlationId = correlationId\<rparr>"

text \<open>The \<open>catch\<close> block: the hook, the telemetry callback, then the error is rethrown.\<close>

definition client_failed ::
  "(sdk_error \<Rightarrow> 'e) \<Rightarrow> ('s, 'c, 'tx, 'e) SigilClientConfig \<Rightarrow> ('s, 'c, 'tx) hooks \<Rightarrow> SealHookContext \<Rightarrow> int \<Rightarrow> sdk_error
    \<Rightarrow> ('s, 'tx) ClientState \<Rightarrow> 'e client_error \<times> ('s, 'tx) ClientState" where
  "client_failed toSigilAgentError config hooks ctx amount err st =
     (let w1 = snd (invokeHook sh_onError hooks () ctx err (cl_world st))
      in case cc_onError config of
           None \<Rightarrow> (AgentError (toSigilAgentError err), set_world w1 st)
         | Some telemetry \<Rightarrow>
             (case telemetry (toSigilAgentError err) (amount > 0) w1 of
                (Inl e, w2) \<Rightarrow> (TelemetryThrew e, set_world w2 st)
              | (Inr _, w2) \<Rightarrow> (AgentError (toSigilAgentError err), set_world w2 st)))"

definition executeAndConfirm ::
  "(sdk_error \<Rightarrow> 'e) \<Rightarrow> ('c, 'm, 'tx) seal_env \<Rightarrow> send_env \<Rightarrow> seal_clock \<Rightarrow> ('s, 'c, 'tx, 'e) SigilClientConfig
    \<Rightarrow> ('s, 'c, 'tx) hooks \<Rightarrow> Instruction list \<Rightarrow> ('s, 'c) ClientSealOpts \<Rightarrow> ('s, 'tx) ClientState
    \<Rightarrow> (('e client_error, string \<times> 'tx SealResult) result \<times> ('s, 'tx) ClientState) option" where
  "executeAndConfirm toSigilAgentError env send clock config callHooks instructions opts st =
     (let composedHooks = composeHooks (cc_hooks config) callHooks;
          correlationId = (case co_correlationId opts of Some c \<Rightarrow> c | None \<Rightarrow> en_newCorrelationId env);
          ctx = client_hook_context env config opts correlationId
      in map_option (\<lambda>(r, st1).
           case r of
             Inl e \<Rightarrow> (case client_failed toSigilAgentError config composedHooks ctx (co_amount opts) e st1 of
                        (e', st2) \<Rightarrow> (Inl e', st2))
           | Inr (signature, result) \<Rightarrow>
               let w1 = snd (invokeHook sh_onAfterSend composedHooks () ctx signature (cl_world st1));
                   w2 = snd (invokeHook sh_onFinalize composedHooks () ctx signature w1)
               in (Inr (signature, result), set_world w2 st1))
         (client_send env send clock config composedHooks instructions (opts\<lparr>co_correlationId := Some correlationId\<rparr>) st))"

text \<open>\<open>createSigilClientAsync\<close>: the genesis assertion, unless switched off, before the client exists.\<close>

definition createSigilClientAsync ::
  "(nat \<Rightarrow> (js_error, string option) result) \<Rightarrow> 'rpc \<Rightarrow> bool \<Rightarrow> bool \<Rightarrow> plugins_value option
    \<Rightarrow> ('s, 'c, 'tx, 'e) SigilClientConfig \<Rightarrow> 's SealState \<Rightarrow> ('rpc genesis_cache, sdk_error, ('s, 'tx) ClientState) step" where
  "createSigilClientAsync answers rpc skipGenesisAssertion hasAgent plugins config st =
     sbind (if skipGenesisAssertion then sresult (Inr ()) else assertGenesisHash answers rpc (cc_network config)) (\<lambda>_.
     sresult (rbind (client_config_check True hasAgent plugins config) (\<lambda>_. Inr (new_client_state config st))))"

section \<open>What the client sends\<close>

lemma on_seal_eq: "on_seal m st = (r, st') \<longleftrightarrow> (\<exists>s. m (cl_seal st) = (r, s) \<and> st' = st\<lparr>cl_seal := s\<rparr>)"
  by (auto simp: on_seal_def split: prod.splits)

lemma clientSeal_effects:
  "clientSeal env clock config hooks instructions opts st = (r, st1) \<Longrightarrow> cl_effects st1 = cl_effects st"
  by (auto simp: clientSeal_def client_fetch_def client_verify_def on_seal_def sbind_def Let_def
      split: option.splits sum.splits prod.splits)

lemma clientSeal_Inr:
  assumes "clientSeal env clock config hooks instructions opts st = (Inr result, st1)"
  obtains blockhash tables s s1 where "seal env hooks (cc_plugins config) clock
       (client_params config instructions opts blockhash tables) s = (Inr result, s1)"
  using assms by (auto simp: clientSeal_def sbind_eq_Inr on_seal_eq)

text \<open>A client-level hook is not asked by \<open>client.seal\<close>: only what the call passes runs.\<close>

lemma clientSeal_ignores_client_hooks:
  "clientSeal env clock (config\<lparr>cc_hooks := h\<rparr>) hooks instructions opts = clientSeal env clock config hooks instructions opts"
  by (simp add: clientSeal_def client_params_def)

lemma client_send_cases:
  assumes "client_send env send clock config hooks instructions opts st = Some (r, st')"
  obtains (nothing) "cl_effects st' = cl_effects st"
    | (signed) result blockhash tables s s1 where
        "seal env hooks (cc_plugins config) clock (client_params config instructions opts blockhash tables) s = (Inr result, s1)"
        "\<And>sig res. r = Inr (sig, res) \<Longrightarrow> res = result"
        "cl_effects st' = cl_effects st @ [Signing (sr_transaction result)]
          \<or> (\<exists>wire. signAndEncode (cp_wire64 (en_compose env)) (cc_agent config) (sr_transaction result) = Inr wire
               \<and> cl_effects st' = cl_effects st @ [Signing (sr_transaction result), Sending wire])"
proof -
  obtain x st1 where cs: "clientSeal env clock config hooks instructions opts st = (x, st1)" by fastforce
  note eff = clientSeal_effects [OF cs]
  show thesis
  proof (cases x)
    case (Inl e)
    then have "cl_effects st' = cl_effects st" using assms cs eff by (simp add: client_send_def)
    then show thesis by (rule nothing)
  next
    case (Inr result)
    obtain blockhash tables s s1 where sl: "seal env hooks (cc_plugins config) clock
       (client_params config instructions opts blockhash tables) s = (Inr result, s1)"
      using clientSeal_Inr cs Inr by blast
    have "\<And>sig res. r = Inr (sig, res) \<Longrightarrow> res = result"
      "cl_effects st' = cl_effects st @ [Signing (sr_transaction result)]
          \<or> (\<exists>wire. signAndEncode (cp_wire64 (en_compose env)) (cc_agent config) (sr_transaction result) = Inr wire
               \<and> cl_effects st' = cl_effects st @ [Signing (sr_transaction result), Sending wire])"
      using assms cs Inr eff by (auto simp: client_send_def Let_def split: sum.splits)
    then show thesis by (rule signed [OF sl])
  qed
qed

lemma client_failed_effects: "cl_effects (snd (client_failed conv config hooks ctx amount e st)) = cl_effects st"
  by (simp add: client_failed_def set_world_def Let_def split: option.split prod.split sum.split)

lemma executeAndConfirm_send:
  assumes "executeAndConfirm conv env send clock config callHooks instructions opts st = Some (r, st')"
  obtains q st1 c where
    "client_send env send clock config (composeHooks (cc_hooks config) callHooks) instructions
       (opts\<lparr>co_correlationId := Some c\<rparr>) st = Some (q, st1)"
    "cl_effects st' = cl_effects st1" "\<forall>y. r = Inr y \<longrightarrow> q = Inr y"
proof -
  define c where "c = (case co_correlationId opts of Some c \<Rightarrow> c | None \<Rightarrow> en_newCorrelationId env)"
  let ?hooks = "composeHooks (cc_hooks config) callHooks"
  obtain q st1 where send: "client_send env send clock config ?hooks instructions (opts\<lparr>co_correlationId := Some c\<rparr>) st
      = Some (q, st1)"
    using assms by (auto simp: executeAndConfirm_def Let_def c_def [symmetric])
  show thesis
  proof (cases q)
    case (Inl e)
    then obtain e' where "client_failed conv config ?hooks (client_hook_context env config opts c) (co_amount opts) e st1 = (e', st')"
      "r = Inl e'"
      using assms send by (auto simp: executeAndConfirm_def Let_def c_def [symmetric] split: prod.splits)
    moreover from this have "cl_effects st' = cl_effects st1"
      using client_failed_effects by (metis snd_conv)
    ultimately show thesis using that [OF send] by auto
  next
    case (Inr y)
    then have "cl_effects st' = cl_effects st1" "r = Inr y"
      using assms send by (auto simp: executeAndConfirm_def Let_def c_def [symmetric] set_world_def split: prod.splits)
    then show thesis using that [OF send] Inr by auto
  qed
qed

section \<open>Properties\<close>

text \<open>
  C5. The client sends nothing but sealed transactions: whatever hooks, plugins and RPC answers, what
  \<open>executeAndConfirm\<close> asks the agent to sign is the transaction of a successful \<open>seal\<close> of the caller's instructions,
  for the client's own vault, agent and network and under the client's plugins, and what it sends is
  the signer's answer to that request; it signs and sends at most once, in this order. On success the
  result is the sealed one.
\<close>
theorem client_sends_only_sealed:
  assumes "executeAndConfirm conv env send clock config callHooks instructions opts st = Some (r, st')"
    and "cl_effects st = []"
  shows "cl_effects st' = []
    \<or> (\<exists>params result s s1.
         seal env (composeHooks (cc_hooks config) callHooks) (cc_plugins config) clock params s = (Inr result, s1)
         \<and> sp_vault params = cc_vault config \<and> sp_agent params = ts_address (cc_agent config)
         \<and> sp_network params = cc_network config \<and> sp_instructions params = instructions
         \<and> sp_amount params = co_amount opts \<and> sp_tokenMint params = co_tokenMint opts
         \<and> (\<forall>sig res. r = Inr (sig, res) \<longrightarrow> res = result)
         \<and> (cl_effects st' = [Signing (sr_transaction result)]
             \<or> (\<exists>wire. signAndEncode (cp_wire64 (en_compose env)) (cc_agent config) (sr_transaction result) = Inr wire
                  \<and> cl_effects st' = [Signing (sr_transaction result), Sending wire])))"
proof -
  obtain q st1 c where send: "client_send env send clock config (composeHooks (cc_hooks config) callHooks) instructions
       (opts\<lparr>co_correlationId := Some c\<rparr>) st = Some (q, st1)"
    and eff: "cl_effects st' = cl_effects st1" and res: "\<forall>y. r = Inr y \<longrightarrow> q = Inr y"
    by (rule executeAndConfirm_send [OF assms(1)])
  from send show ?thesis
  proof (cases rule: client_send_cases)
    case nothing
    then show ?thesis using eff assms(2) by simp
  next
    case (signed result blockhash tables s s1)
    let ?opts = "opts\<lparr>co_correlationId := Some c\<rparr>"
    have p: "sp_vault (client_params config instructions ?opts blockhash tables) = cc_vault config"
      "sp_agent (client_params config instructions ?opts blockhash tables) = ts_address (cc_agent config)"
      "sp_network (client_params config instructions ?opts blockhash tables) = cc_network config"
      "sp_instructions (client_params config instructions ?opts blockhash tables) = instructions"
      "sp_amount (client_params config instructions ?opts blockhash tables) = co_amount opts"
      "sp_tokenMint (client_params config instructions ?opts blockhash tables) = co_tokenMint opts"
      by (simp_all add: client_params_def)
    have r: "\<forall>sig res. r = Inr (sig, res) \<longrightarrow> res = result"
      using signed(2) res by auto
    have last: "cl_effects st' = [Signing (sr_transaction result)]
             \<or> (\<exists>wire. signAndEncode (cp_wire64 (en_compose env)) (cc_agent config) (sr_transaction result) = Inr wire
                  \<and> cl_effects st' = [Signing (sr_transaction result), Sending wire])"
      using signed(3) eff assms(2) by simp
    note all = signed(1) p r last
    show ?thesis
      by (rule disjI2, rule exI, rule exI, rule exI, rule exI, intro conjI; rule all)
  qed
qed

definition sample_client :: "(unit, unit, TransactionMessage, sdk_error) SigilClientConfig" where
  "sample_client = \<lparr>cc_vault = ''V'', cc_agent = \<lparr>ts_address = ''A'', ts_modifyAndSignTransactions = None,
       ts_signTransactions = Some (\<lambda>txs. Inr (Some txs))\<rparr>, cc_network = ''devnet'', cc_blockhashTtlMs = None,
     cc_hooks = None, cc_plugins = None, cc_onError = None\<rparr>"

definition sample_client_opts :: "(unit, unit) ClientSealOpts" where
  "sample_client_opts = \<lparr>co_tokenMint = USDC_MINT_DEVNET, co_amount = 100, co_targetProtocol = None, co_computeUnits = None,
     co_priorityFeeMicroLamports = None, co_outputStablecoinAccount = None, co_protocolAltAddresses = None,
     co_addressLookupTables = Some [], co_cachedState = Some sample_state, co_maxCacheAgeMs = None,
     co_additionalAtaReplacements = None, co_correlationId = Some ''c'', co_confirmOptions = None\<rparr>"

definition sample_send :: send_env where
  "sample_send = \<lparr>sn_send = (\<lambda>_. Inl \<lparr>je_isError = True, je_code = None, je_message = ''offline''\<rparr>), sn_sentAt = 0,
     sn_poll = sample_poll\<rparr>"

lemma sample_client_runs:
  obtains r st' tx where "executeAndConfirm id (env_with tiny_compose_env) sample_send sample_clock sample_client None
      [sample_ix ''P'' [9]] sample_client_opts (new_client_state sample_client sample_st) = Some (r, st')"
    "cl_effects st' = [Signing tx, Sending ''AAAA'']"
proof -
  obtain sr where sl: "seal (env_with tiny_compose_env) None None sample_clock (params_from (Some sample_state)) sample_st
      = (Inr sr, sample_st)"
    using sample_seals [OF sample_cached small_tiny] by blast
  have p: "client_params sample_client [sample_ix ''P'' [9]] sample_client_opts
      \<lparr>bh_blockhash = ''H'', bh_lastValidBlockHeight = 7\<rparr> [] = params_from (Some sample_state)"
    by (simp add: client_params_def sample_client_def sample_client_opts_def sample_params_def)
  have plug: "cc_plugins sample_client = None" by (simp add: sample_client_def)
  have "\<exists>st1. clientSeal (env_with tiny_compose_env) sample_clock sample_client None [sample_ix ''P'' [9]] sample_client_opts
      (new_client_state sample_client sample_st) = (Inr sr, st1) \<and> cl_effects st1 = []"
    using sl p plug
    by (simp add: clientSeal_def client_fetch_def client_verify_def sbind_def on_seal_def new_client_state_def
        sample_client_opts_def env_with_def bh_get_def bh_cached_def bh_refresh_def bh_set_def new_BlockhashCache_def)
  then obtain st1 where cs: "clientSeal (env_with tiny_compose_env) sample_clock sample_client None [sample_ix ''P'' [9]]
      sample_client_opts (new_client_state sample_client sample_st) = (Inr sr, st1)" and e: "cl_effects st1 = []" by blast
  have sg: "signAndEncode (cp_wire64 (en_compose (env_with tiny_compose_env))) (cc_agent sample_client) tx = Inr ''AAAA''" for tx
    by (simp add: signAndEncode_def sample_client_def env_with_def tiny_compose_env_def)
  have same: "sample_client_opts\<lparr>co_correlationId := Some ''c''\<rparr> = sample_client_opts"
    by (simp add: sample_client_opts_def)
  have cid: "co_correlationId sample_client_opts = Some ''c''" by (simp add: sample_client_opts_def)
  have "\<exists>x. client_send (env_with tiny_compose_env) sample_send sample_clock sample_client None [sample_ix ''P'' [9]]
      sample_client_opts (new_client_state sample_client sample_st)
      = Some (Inl x, st1\<lparr>cl_effects := [Signing (sr_transaction sr), Sending ''AAAA'']\<rparr>)"
    by (simp add: client_send_def cs sg e sendAndConfirmTransaction_def sample_send_def Let_def)
  then obtain x where send: "client_send (env_with tiny_compose_env) sample_send sample_clock sample_client None
      [sample_ix ''P'' [9]] sample_client_opts (new_client_state sample_client sample_st)
      = Some (Inl x, st1\<lparr>cl_effects := [Signing (sr_transaction sr), Sending ''AAAA'']\<rparr>)" by blast
  have hooks: "composeHooks (cc_hooks sample_client) None = None" and quiet: "cc_onError sample_client = None"
    by (simp_all add: sample_client_def composeHooks_def)
  have "\<exists>r st'. executeAndConfirm id (env_with tiny_compose_env) sample_send sample_clock sample_client None
      [sample_ix ''P'' [9]] sample_client_opts (new_client_state sample_client sample_st) = Some (r, st')
      \<and> cl_effects st' = [Signing (sr_transaction sr), Sending ''AAAA'']"
    by (simp add: executeAndConfirm_def cid same send hooks quiet client_failed_def set_world_def Let_def)
  then show thesis using that by blast
qed

theorem client_sends_only_sealed_witness:
  "\<exists>params result (s :: unit SealState) s1.
     seal (env_with tiny_compose_env) None None sample_clock params s = (Inr result, s1)
     \<and> sp_vault params = ''V'' \<and> sp_agent params = ''A'' \<and> sp_instructions params = [sample_ix ''P'' [9]]"
proof -
  obtain r st' tx where run: "executeAndConfirm id (env_with tiny_compose_env) sample_send sample_clock sample_client None
      [sample_ix ''P'' [9]] sample_client_opts (new_client_state sample_client sample_st) = Some (r, st')"
    and e: "cl_effects st' = [Signing tx, Sending ''AAAA'']"
    by (rule sample_client_runs)
  have none: "cl_effects (new_client_state sample_client sample_st) = []" by (simp add: new_client_state_def)
  have c: "cc_vault sample_client = ''V''" "ts_address (cc_agent sample_client) = ''A''" "cc_plugins sample_client = None"
    "composeHooks (cc_hooks sample_client) None = None"
    by (simp_all add: sample_client_def composeHooks_def)
  from client_sends_only_sealed [OF run none] e obtain params result and s s1 :: "unit SealState" where
    "seal (env_with tiny_compose_env) None None sample_clock params s = (Inr result, s1)"
    "sp_vault params = ''V''" "sp_agent params = ''A''" "sp_instructions params = [sample_ix ''P'' [9]]"
    unfolding c by auto
  then show ?thesis by (intro exI conjI)
qed

end
