(* ===== verification/X402Guards.thy ===== *)
theory X402Guards
  imports Composer Shield
begin

text \<open>
  The checks of \<open>sdk/kit/src/x402/\<close> that stand between a server's payment request and a signature:
  \<open>codec.ts\<close> (the header's schema), \<open>payment-selector.ts\<close> (network, token and destination
  allowlists), \<open>nonce-tracker.ts\<close> (replay), \<open>amount-guard.ts\<close> (positive, ceiling, spike) and
  \<open>transfer-builder.ts\<close> (the transfer instruction).

  \<open>JSON.parse\<close> and the platform's \<open>URL\<close> are parameters. The module-level history of payments and
  the nonce tracker are states passed explicitly; replay protection is stated against the abstract
  specification \<open>seen_spec\<close> through the locale \<open>replay_window\<close>.
\<close>

section \<open>types.ts and errors.ts\<close>

text \<open>What \<open>JSON.parse\<close> returns.\<close>

datatype json =
    JNull
  | JBool bool
  | JNumber rat
  | JString string
  | JArray "json list"
  | JObject "(string \<times> json) list"

record PaymentRequirements =
  pq_scheme :: string
  pq_network :: string
  pq_asset :: string
  pq_amount :: string
  pq_payTo :: string
  pq_object :: json

record PaymentRequired =
  pd_x402Version :: rat
  pd_resource :: "json option"
  pd_accepts :: "PaymentRequirements list"

record SettleResponse =
  se_success :: bool
  se_transaction :: "string option"
  se_network :: "string option"
  se_errorReason :: "string option"

text \<open>A violation of the policy bridge and the reason of a payment event, with the values of their messages.\<close>

datatype x402_violation =
    CumulativeExceeded int int int
  | RequestCeilingExceeded string int
  | ShieldRule shield_violation

datatype denied_reason =
    DeniedByPolicy "x402_violation list"
  | SignatureMismatch string string
  | ServerReturned int

record X402PaymentEvent =
  ev_timestamp :: msecs
  ev_url :: string
  ev_payTo :: string
  ev_asset :: string
  ev_amount :: string
  ev_paid :: bool
  ev_deniedReason :: "denied_reason option"
  ev_settlement :: "SettleResponse option"
  ev_nonce :: "string option"
  ev_durationMs :: msecs

record X402Config =
  xc_allowedDestinations :: "address list option"
  xc_allowedTokens :: "address list option"
  xc_maxPaymentPerRequest :: "int option"
  xc_maxCumulativeSpend :: "int option"
  xc_cumulativeWindowMs :: "int option"
  xc_maxRetries :: "int option"
  xc_enableReplayProtection :: "bool option"
  xc_onPayment :: "(X402PaymentEvent \<Rightarrow> js_error option) option"
  xc_allowInsecureUrls :: "bool option"
  xc_confirmPayment :: "bool option"
  xc_confirmPaymentTimeoutMs :: "int option"

text \<open>Why an \<open>X402PaymentError\<close> is thrown, with the values of its message.\<close>

datatype payment_refusal =
    NotAnInteger string
  | NotPositive string
  | AboveCeiling string int
  | Spike string int
  | ShieldPaused
  | InsecureUrl
  | LoopGuard
  | AboveMaxPayment string int
  | PolicyDenied "x402_violation list"
  | RpcRequired

datatype x402_error =
    X402ParseError string
  | X402PaymentError payment_refusal
  | X402UnsupportedError
  | X402DestinationBlockedError string nat
  | X402ReplayError string
  | X402Other sdk_error

section \<open>codec.ts\<close>

definition base64Encode :: "string \<Rightarrow> string" where
  "base64Encode data = btoa (map of_char data)"

definition base64Decode :: "string \<Rightarrow> string option" where
  "base64Decode encoded = map_option (map char_of) (atob encoded)"

text \<open>\<open>value.field\<close>: a TypeError on \<open>null\<close>, \<open>undefined\<close> (\<open>None\<close>) where the value has no such field.\<close>

fun json_field :: "json \<Rightarrow> string \<Rightarrow> (x402_error, json option) result" where
  "json_field JNull k = Inl (X402Other JS_TYPE_ERROR)"
| "json_field (JObject kvs) k = Inr (map_of kvs k)"
| "json_field _ k = Inr None"

definition string_field :: "json \<Rightarrow> string \<Rightarrow> string \<Rightarrow> (x402_error, string) result" where
  "string_field entry k msg =
     rbind (json_field entry k) (\<lambda>v. case v of Some (JString s) \<Rightarrow> Inr s | _ \<Rightarrow> Inl (X402ParseError msg))"

definition amount_in_range :: "string \<Rightarrow> (x402_error, unit) result" where
  "amount_in_range amount =
     (case bigint_of_string amount of
        None \<Rightarrow> Inl (X402ParseError ''amount must be a valid integer string'')
      | Some parsed \<Rightarrow>
          if parsed < 0 then Inl (X402ParseError ''amount must be non-negative'')
          else if parsed > U64_MAX then Inl (X402ParseError ''amount exceeds u64 max'')
          else Inr ())"

text \<open>The body of the loop over \<open>accepts\<close>, with the entry read at its checked types.\<close>

definition decode_entry :: "json \<Rightarrow> (x402_error, PaymentRequirements) result" where
  "decode_entry entry =
     rbind (string_field entry ''scheme'' ''scheme must be a string'') (\<lambda>scheme.
     rbind (string_field entry ''network'' ''network must be a string'') (\<lambda>network.
     rbind (string_field entry ''asset'' ''asset must be a string'') (\<lambda>asset.
     rbind (string_field entry ''amount'' ''amount must be a non-empty string'') (\<lambda>amount.
     rbind (require (length amount \<noteq> 0) (X402ParseError ''amount must be a non-empty string'')) (\<lambda>_.
     rbind (amount_in_range amount) (\<lambda>_.
     rbind (string_field entry ''payTo'' ''payTo must be a string'') (\<lambda>payTo.
     Inr \<lparr>pq_scheme = scheme, pq_network = network, pq_asset = asset, pq_amount = amount, pq_payTo = payTo,
          pq_object = entry\<rparr>)))))))"

definition decodePaymentRequiredHeader ::
  "(string \<Rightarrow> json option) \<Rightarrow> string \<Rightarrow> (x402_error, PaymentRequired) result" where
  "decodePaymentRequiredHeader parseJson header =
     (case Option.bind (base64Decode header) parseJson of
        None \<Rightarrow> Inl (X402ParseError ''Failed to decode PAYMENT-REQUIRED header'')
      | Some obj \<Rightarrow>
          rbind (json_field obj ''x402Version'') (\<lambda>version.
          rbind (case version of
                   Some (JNumber n) \<Rightarrow> Inr n
                 | _ \<Rightarrow> Inl (X402ParseError ''x402Version must be a number'')) (\<lambda>n.
          rbind (json_field obj ''accepts'') (\<lambda>accepts.
          rbind (case accepts of
                   Some (JArray entries) \<Rightarrow>
                     if length entries = 0 then Inl (X402ParseError ''accepts must be a non-empty array'') else Inr entries
                 | _ \<Rightarrow> Inl (X402ParseError ''accepts must be a non-empty array'')) (\<lambda>entries.
          rbind (rmap decode_entry entries) (\<lambda>requirements.
          rbind (json_field obj ''resource'') (\<lambda>resource.
          Inr \<lparr>pd_x402Version = n, pd_resource = resource, pd_accepts = requirements\<rparr>)))))))"

section \<open>payment-selector.ts\<close>

definition allowed_by :: "address list option \<Rightarrow> address \<Rightarrow> bool" where
  "allowed_by allowlist a = (case allowlist of None \<Rightarrow> True | Some as \<Rightarrow> a \<in> set as)"

text \<open>
  The loop over \<open>accepts\<close>. The accumulator is \<open>solanaOptions\<close> with \<open>hasBlockedDestination\<close>; the
  early \<open>return option\<close> is \<open>Inr\<close>.
\<close>

fun select_loop ::
  "X402Config option \<Rightarrow> PaymentRequirements list \<Rightarrow> PaymentRequirements list \<times> bool
    \<Rightarrow> (PaymentRequirements list \<times> bool) + PaymentRequirements" where
  "select_loop config [] acc = Inl acc"
| "select_loop config (opt # opts) (solanaOptions, blocked) =
     (if \<not> startsWith (pq_network opt) ''solana:'' then select_loop config opts (solanaOptions, blocked)
      else if \<not> allowed_by (Option.bind config xc_allowedTokens) (pq_asset opt)
      then select_loop config opts (solanaOptions, blocked)
      else if \<not> allowed_by (Option.bind config xc_allowedDestinations) (pq_payTo opt)
      then select_loop config opts (solanaOptions @ [opt], True)
      else Inr opt)"

definition selectPaymentOption ::
  "PaymentRequired \<Rightarrow> X402Config option \<Rightarrow> (x402_error, PaymentRequirements) result" where
  "selectPaymentOption paymentRequired config =
     (case select_loop config (pd_accepts paymentRequired) ([], False) of
        Inr opt \<Rightarrow> Inr opt
      | Inl (solanaOptions, blocked) \<Rightarrow>
          if length solanaOptions > 0 \<and> blocked
          then Inl (X402DestinationBlockedError (pq_payTo (solanaOptions ! 0)) (length solanaOptions))
          else Inl X402UnsupportedError)"

section \<open>nonce-tracker.ts\<close>

definition NONCE_TTL_MS :: msecs where "NONCE_TTL_MS = 5 * 60 * 1000"

text \<open>A pluggable storage backend, with the state it keeps.\<close>

record 'x NonceStorage =
  ns_state :: 'x
  ns_has :: "'x \<Rightarrow> string \<Rightarrow> bool"
  ns_set :: "'x \<Rightarrow> string \<Rightarrow> msecs \<Rightarrow> 'x"

record 'x NonceTracker =
  nt_storage :: "(string \<times> msecs) list"
  nt_external :: "'x NonceStorage option"
  nt_ttlMs :: msecs

definition new_NonceTracker :: "msecs option \<Rightarrow> 'x NonceStorage option \<Rightarrow> 'x NonceTracker" where
  "new_NonceTracker ttlMs storage =
     \<lparr>nt_storage = [], nt_external = storage, nt_ttlMs = (case ttlMs of None \<Rightarrow> NONCE_TTL_MS | Some t \<Rightarrow> t)\<rparr>"

definition strip_slash :: "string \<Rightarrow> string" where
  "strip_slash s = (if s \<noteq> [] \<and> last s = CHR ''/'' then butlast s else s)"

text \<open>\<open>noQuery\<close> is \<open>new URL(url)\<close> printed with an empty query, \<open>None\<close> where the constructor throws.\<close>

definition buildKey :: "(string \<Rightarrow> string option) \<Rightarrow> string \<Rightarrow> string \<Rightarrow> string \<Rightarrow> string" where
  "buildKey noQuery url payTo amount =
     (let normalizedUrl = (case noQuery url of Some u \<Rightarrow> strip_slash u | None \<Rightarrow> url)
      in normalizedUrl @ ''|'' @ payTo @ ''|'' @ amount)"

definition nonce_gc :: "msecs \<Rightarrow> 'x NonceTracker \<Rightarrow> 'x NonceTracker" where
  "nonce_gc now t = t\<lparr>nt_storage := filter (\<lambda>(k, expiresAt). \<not> expiresAt < now) (nt_storage t)\<rparr>"

definition isDuplicate :: "msecs \<Rightarrow> string \<Rightarrow> 'x NonceTracker \<Rightarrow> bool \<times> 'x NonceTracker" where
  "isDuplicate now key t =
     (let t1 = nonce_gc now t
      in (if map_of (nt_storage t1) key \<noteq> None then True
          else case nt_external t1 of
                 Some ext \<Rightarrow> ns_has ext (ns_state ext) key
               | None \<Rightarrow> False, t1))"

definition checkOrThrow :: "msecs \<Rightarrow> string \<Rightarrow> ('x NonceTracker, x402_error, unit) step" where
  "checkOrThrow now key t =
     (case isDuplicate now key t of (dup, t1) \<Rightarrow> (if dup then Inl (X402ReplayError key) else Inr (), t1))"

definition nonce_record :: "msecs \<Rightarrow> string \<Rightarrow> 'x NonceTracker \<Rightarrow> 'x NonceTracker" where
  "nonce_record now key t =
     (let expiresAt = now + nt_ttlMs t;
          t1 = t\<lparr>nt_storage := AList.update key expiresAt (nt_storage t)\<rparr>
      in case nt_external t1 of
           Some ext \<Rightarrow> t1\<lparr>nt_external := Some (ext\<lparr>ns_state := ns_set ext (ns_state ext) key expiresAt\<rparr>)\<rparr>
         | None \<Rightarrow> t1)"

definition nonce_size :: "msecs \<Rightarrow> 'x NonceTracker \<Rightarrow> nat \<times> 'x NonceTracker" where
  "nonce_size now t = (let t1 = nonce_gc now t in (length (nt_storage t1), t1))"

definition nonce_clear :: "'x NonceTracker \<Rightarrow> 'x NonceTracker" where
  "nonce_clear t = t\<lparr>nt_storage := []\<rparr>"

section \<open>amount-guard.ts\<close>

definition MAX_RECENT :: nat where "MAX_RECENT = 20"
definition SPIKE_MULTIPLIER :: int where "SPIKE_MULTIPLIER = 10"

definition getMedian :: "int list \<Rightarrow> int" where
  "getMedian arr =
     (let sorted = sort arr; mid = length sorted div 2
      in if length sorted mod 2 = 0 then bdiv (sorted ! (mid - 1) + sorted ! mid) 2 else sorted ! mid)"

text \<open>The argument is a string, as its type says; \<open>recentPayments\<close> is the module's history.\<close>

definition validatePaymentAmount ::
  "int list \<Rightarrow> string \<Rightarrow> X402Config option \<Rightarrow> (x402_error, int) result" where
  "validatePaymentAmount recentPayments amount config =
     (case bigint_of_string amount of
        None \<Rightarrow> Inl (X402PaymentError (NotAnInteger amount))
      | Some parsed \<Rightarrow>
          if parsed \<le> 0 then Inl (X402PaymentError (NotPositive amount))
          else case (case Option.bind config xc_maxPaymentPerRequest of
                       Some limit \<Rightarrow> if parsed > limit then Some (AboveCeiling amount limit) else None
                     | None \<Rightarrow> None) of
                 Some refusal \<Rightarrow> Inl (X402PaymentError refusal)
               | None \<Rightarrow>
                   if length recentPayments \<ge> 3
                   then let median = getMedian recentPayments
                        in if median > 0 \<and> parsed > median * SPIKE_MULTIPLIER
                           then Inl (X402PaymentError (Spike amount median)) else Inr parsed
                   else Inr parsed)"

definition recordPaymentAmount :: "int \<Rightarrow> int list \<Rightarrow> int list" where
  "recordPaymentAmount amount recentPayments =
     (let pushed = recentPayments @ [amount] in if length pushed > MAX_RECENT then tl pushed else pushed)"

definition resetPaymentHistory :: "int list \<Rightarrow> int list" where
  "resetPaymentHistory recentPayments = []"

section \<open>transfer-builder.ts\<close>

definition TRANSFER_CHECKED_DISCRIMINATOR :: nat where "TRANSFER_CHECKED_DISCRIMINATOR = 12"

text \<open>\<open>for (i = 1..8) data[i] = Number(amount & 0xffn), amount >>= 8n\<close>, the bytes written in order.\<close>

fun write_u64_loop :: "nat \<Rightarrow> int \<Rightarrow> bytes" where
  "write_u64_loop 0 amount = []"
| "write_u64_loop (Suc k) amount = nat (take_bit 8 amount) # write_u64_loop k (drop_bit 8 amount)"

text \<open>A \<open>Uint8Array\<close> element keeps a number modulo 256.\<close>

definition buildX402TransferInstruction ::
  "(address \<times> nat) derivation \<Rightarrow> (address \<Rightarrow> bytes) \<Rightarrow> address \<Rightarrow> address \<Rightarrow> address \<Rightarrow> int \<Rightarrow> nat \<Rightarrow> Instruction" where
  "buildX402TransferInstruction pda enc from_addr payTo asset amount decimals =
     \<lparr>ix_programAddress = TOKEN_PROGRAM_ADDRESS,
      ix_accounts = Some
        [\<lparr>am_address = deriveAta pda enc from_addr asset, am_role = WRITABLE\<rparr>,
         \<lparr>am_address = asset, am_role = READONLY\<rparr>,
         \<lparr>am_address = deriveAta pda enc payTo asset, am_role = WRITABLE\<rparr>,
         \<lparr>am_address = from_addr, am_role = READONLY_SIGNER\<rparr>],
      ix_data = Some ([TRANSFER_CHECKED_DISCRIMINATOR] @ write_u64_loop 8 amount @ [decimals mod 256])\<rparr>"

definition transferToInspectable :: "Instruction \<Rightarrow> InspectableInstruction" where
  "transferToInspectable ix =
     \<lparr>ii_programAddress = ix_programAddress ix,
      ii_accounts = map_option (map am_address) (Instruction.ix_accounts ix),
      ii_data = ix_data ix\<rparr>"

text \<open>
  \<open>base58Decode\<close>. The two inner loops run one digit through the little-endian \<open>bytes\<close>: the first
  multiplies in place and carries, the second appends what the carry still holds.
\<close>

fun b58_mul_loop :: "nat \<Rightarrow> bytes \<Rightarrow> nat \<times> bytes" where
  "b58_mul_loop carry [] = (carry, [])"
| "b58_mul_loop carry (b # bs) =
     (let c = carry + b * 58; (carry', bs') = b58_mul_loop (c div 256) bs in (carry', c mod 256 # bs'))"

fun b58_push_loop :: "nat \<Rightarrow> bytes" where
  "b58_push_loop carry = (if carry > 0 then carry mod 256 # b58_push_loop (carry div 256) else [])"

declare b58_push_loop.simps [simp del]

definition b58_digit :: "nat \<Rightarrow> bytes \<Rightarrow> bytes" where
  "b58_digit digit bs = (case b58_mul_loop digit bs of (carry, bs') \<Rightarrow> bs' @ b58_push_loop carry)"

fun b58_loop :: "string \<Rightarrow> bytes \<Rightarrow> (x402_error, bytes) result" where
  "b58_loop [] bs = Inr bs"
| "b58_loop (c # cs) bs =
     (case index_of c base58_alphabet of
        None \<Rightarrow> Inl (X402ParseError ''Invalid base58 character'')
      | Some digit \<Rightarrow> b58_loop cs (b58_digit digit bs))"

definition base58Decode :: "string \<Rightarrow> (x402_error, bytes) result" where
  "base58Decode str =
     rbind (b58_loop str [0]) (\<lambda>bs.
       Inr (rev (bs @ replicate (length (takeWhile (\<lambda>c. c = CHR ''1'') str)) 0)))"

section \<open>Facts on the codec and the selector\<close>

lemma string_field_Inr [simp]:
  "string_field entry k msg = Inr s \<longleftrightarrow> json_field entry k = Inr (Some (JString s))"
  unfolding string_field_def
proof (cases "json_field entry k")
  case (Inr v)
  then show "rbind (json_field entry k) (\<lambda>v. case v of Some (JString s) \<Rightarrow> Inr s | _ \<Rightarrow> Inl (X402ParseError msg)) = Inr s
      \<longleftrightarrow> json_field entry k = Inr (Some (JString s))"
    by (simp split: option.split json.split)
qed simp

lemma amount_in_range_Inr [simp]:
  "amount_in_range amount = Inr () \<longleftrightarrow> (\<exists>n. bigint_of_string amount = Some n \<and> is_u64 n)"
  by (auto simp: amount_in_range_def is_u64_def split: option.splits)

text \<open>What the schema promises of an accepted entry: its fields are strings and its amount is a u64.\<close>

definition entry_ok :: "json \<Rightarrow> PaymentRequirements \<Rightarrow> bool" where
  "entry_ok entry r \<longleftrightarrow>
     pq_object r = entry \<and> (\<exists>n. bigint_of_string (pq_amount r) = Some n \<and> is_u64 n)
     \<and> json_field entry ''network'' = Inr (Some (JString (pq_network r)))
     \<and> json_field entry ''asset'' = Inr (Some (JString (pq_asset r)))
     \<and> json_field entry ''amount'' = Inr (Some (JString (pq_amount r)))
     \<and> json_field entry ''payTo'' = Inr (Some (JString (pq_payTo r)))"

lemma decode_entry_ok: "decode_entry entry = Inr r \<Longrightarrow> entry_ok entry r"
  by (auto simp: decode_entry_def entry_ok_def)

lemma entries_case_Inr:
  "(case v of JArray es \<Rightarrow> if length es = 0 then Inl e else Inr es | _ \<Rightarrow> Inl e) = Inr es'
     \<longleftrightarrow> v = JArray es' \<and> es' \<noteq> []"
  by (auto split: json.split)

lemma decode_header_ok:
  assumes "decodePaymentRequiredHeader parseJson header = Inr pd"
  shows "pd_accepts pd \<noteq> [] \<and> (\<forall>r \<in> set (pd_accepts pd). \<exists>entry. entry_ok entry r)"
proof -
  obtain entries where e: "entries \<noteq> []" "rmap decode_entry entries = Inr (pd_accepts pd)"
    using assms unfolding decodePaymentRequiredHeader_def option_guard_eq_Inr rbind_eq_Inr entries_case_Inr
    by auto
  moreover have "length (pd_accepts pd) = length entries"
    using rmap_Inr_length [OF e(2)] .
  moreover have "entry_ok (entries ! i) (pd_accepts pd ! i)" if "i < length entries" for i
    using rmap_Inr_nth [OF e(2) that] by (rule decode_entry_ok)
  ultimately show ?thesis by (metis in_set_conv_nth length_0_conv)
qed

definition selectable :: "X402Config option \<Rightarrow> PaymentRequirements \<Rightarrow> bool" where
  "selectable config r \<longleftrightarrow> startsWith (pq_network r) ''solana:''
     \<and> allowed_by (Option.bind config xc_allowedTokens) (pq_asset r)
     \<and> allowed_by (Option.bind config xc_allowedDestinations) (pq_payTo r)"

lemma select_loop_find:
  "(case select_loop config opts acc of Inr r \<Rightarrow> Some r | Inl _ \<Rightarrow> None) = find (selectable config) opts"
  by (induction config opts acc rule: select_loop.induct) (simp_all add: selectable_def)

lemma select_payment_find:
  "selectPaymentOption pd config = Inr r \<longleftrightarrow> find (selectable config) (pd_accepts pd) = Some r"
  unfolding select_loop_find [of config _ "([], False)", symmetric]
  by (auto simp: selectPaymentOption_def split: sum.splits)

lemma select_loop_blocked:
  "select_loop config opts (so, b) = Inl (so', b') \<Longrightarrow> b = (so \<noteq> []) \<Longrightarrow>
     b' = (so' \<noteq> []) \<and> so' = so @ filter (\<lambda>r. startsWith (pq_network r) ''solana:''
        \<and> allowed_by (Option.bind config xc_allowedTokens) (pq_asset r)) opts"
  by (induction config opts "(so, b)" arbitrary: so b rule: select_loop.induct) (auto split: if_splits)

section \<open>Replay protection against its specification\<close>

text \<open>
  The contract a replay guard promises: a key remembered at \<open>t\<close> is reported as seen up to and
  including \<open>t + window\<close>, asking changes no later answer, and nothing else is ever reported.
\<close>

locale replay_window =
  fixes ask :: "msecs \<Rightarrow> 'k \<Rightarrow> 's \<Rightarrow> bool \<times> 's"
    and remember :: "msecs \<Rightarrow> 'k \<Rightarrow> 's \<Rightarrow> 's"
    and inv :: "'s \<Rightarrow> bool"
    and window :: "'s \<Rightarrow> msecs"
  assumes ask_inv: "inv s \<Longrightarrow> inv (snd (ask now k s))"
    and remember_inv: "inv s \<Longrightarrow> inv (remember now k s)"
    and ask_window: "window (snd (ask now k s)) = window s"
    and remember_window: "window (remember now k s) = window s"
    and ask_keeps: "inv s \<Longrightarrow> now \<le> now' \<Longrightarrow> fst (ask now' k' (snd (ask now k s))) = fst (ask now' k' s)"
    and ask_remember: "inv s \<Longrightarrow>
      fst (ask now' k' (remember now k s)) = (if k' = k then now' \<le> now + window s else fst (ask now' k' s))"
begin

text \<open>A history of calls in the order they were made, and what it leaves.\<close>

fun run :: "(msecs \<times> ('k + 'k)) list \<Rightarrow> 's \<Rightarrow> 's" where
  "run [] s = s"
| "run ((now, Inl k) # calls) s = run calls (snd (ask now k s))"
| "run ((now, Inr k) # calls) s = run calls (remember now k s)"

lemma run_inv: "inv s \<Longrightarrow> inv (run calls s)"
  by (induction calls s rule: run.induct) (simp_all add: ask_inv remember_inv)

lemma run_window: "window (run calls s) = window s"
  by (induction calls s rule: run.induct) (simp_all add: ask_window remember_window)

text \<open>The specification: some call within the window remembered the key.\<close>

lemma ask_run:
  assumes "inv s" and "sorted (map fst calls)" and "\<forall>t \<in> set (map fst calls). t \<le> now"
  shows "fst (ask now k (run calls s)) \<longleftrightarrow>
     (if \<exists>t. (t, Inr k) \<in> set calls then \<exists>t. (t, Inr k) \<in> set calls \<and> now \<le> t + window s
      else fst (ask now k s))"
  using assms
proof (induction calls s rule: run.induct)
  case (2 t k' calls s)
  then show ?case using ask_keeps [where s = s and now = t and now' = now and k = k' and k' = k] by (auto simp: ask_inv ask_window)
next
  case (3 t k' calls s)
  have "(\<exists>u. (u, Inr k) \<in> set calls \<and> now \<le> u + window s)"
    if "(u, Inr k) \<in> set calls" "now \<le> t + window s" for u
    using that 3(3) by (intro exI [of _ u]) (auto dest!: bspec)
  moreover have "fst (ask now k (run calls (remember t k' s))) \<longleftrightarrow>
     (if \<exists>u. (u, Inr k) \<in> set calls then \<exists>u. (u, Inr k) \<in> set calls \<and> now \<le> u + window s
      else if k = k' then now \<le> t + window s else fst (ask now k s))"
    using 3 by (simp add: remember_inv remember_window ask_remember)
  ultimately show ?case by (auto split: if_splits)
qed simp

end

text \<open>The in-memory tracker keeps one entry per key; one tracker never has two storages.\<close>

definition nonce_wf :: "'x NonceTracker \<Rightarrow> bool" where
  "nonce_wf t \<longleftrightarrow> distinct (map fst (nt_storage t)) \<and> nt_external t = None"

lemma map_of_filter_snd:
  "distinct (map fst xs) \<Longrightarrow>
     map_of (filter (\<lambda>(k, v). P v) xs) k = (case map_of xs k of None \<Rightarrow> None | Some v \<Rightarrow> if P v then Some v else None)"
  by (induction xs) (force split: option.splits simp: map_of_eq_None_iff)+

lemma isDuplicate_iff:
  "nonce_wf t \<Longrightarrow> fst (isDuplicate now k t) \<longleftrightarrow> (\<exists>e. map_of (nt_storage t) k = Some e \<and> now \<le> e)"
  using map_of_filter_snd [of "nt_storage t" "\<lambda>e. \<not> e < now" k]
  by (cases "map_of (nt_storage t) k") (simp_all add: isDuplicate_def nonce_gc_def nonce_wf_def Let_def not_less)

lemma distinct_fst_filter: "distinct (map fst xs) \<Longrightarrow> distinct (map fst (filter P xs))"
  by (induction xs) auto

lemma nonce_gc_wf: "nonce_wf t \<Longrightarrow> nonce_wf (nonce_gc now t)"
  by (simp add: nonce_wf_def nonce_gc_def distinct_fst_filter)

lemma snd_isDuplicate [simp]: "snd (isDuplicate now k t) = nonce_gc now t"
  by (simp add: isDuplicate_def Let_def)

lemma nt_ttlMs_ops [simp]:
  "nt_ttlMs (nonce_gc now t) = nt_ttlMs t" "nt_ttlMs (nonce_record now k t) = nt_ttlMs t"
  by (simp_all add: nonce_gc_def nonce_record_def Let_def split: option.split)

lemma nonce_record_wf: "nonce_wf t \<Longrightarrow> nonce_wf (nonce_record now k t)"
  by (auto simp: nonce_wf_def nonce_record_def Let_def distinct_update)

interpretation nonce: replay_window isDuplicate nonce_record nonce_wf nt_ttlMs
proof
  fix t :: "'x NonceTracker" and now now' :: msecs and k k' :: string
  assume wf: "nonce_wf t"
  show "nonce_wf (snd (isDuplicate now k t))" "nonce_wf (nonce_record now k t)"
    using wf by (simp_all add: nonce_gc_wf nonce_record_wf)
  show "fst (isDuplicate now' k' (nonce_record now k t))
      = (if k' = k then now' \<le> now + nt_ttlMs t else fst (isDuplicate now' k' t))"
    using wf unfolding isDuplicate_iff [OF nonce_record_wf [OF wf]] isDuplicate_iff [OF wf]
    by (auto simp: nonce_record_def nonce_wf_def Let_def update_conv)
  assume "now \<le> now'"
  then show "fst (isDuplicate now' k' (snd (isDuplicate now k t))) = fst (isDuplicate now' k' t)"
    using wf map_of_filter_snd [of "nt_storage t" "\<lambda>e. \<not> e < now" k']
    unfolding snd_isDuplicate isDuplicate_iff [OF nonce_gc_wf [OF wf]] isDuplicate_iff [OF wf]
    by (cases "map_of (nt_storage t) k'") (simp_all add: nonce_gc_def nonce_wf_def)
qed simp_all

section \<open>The transfer and the median\<close>

lemma write_u64_loop_le_bytes: "write_u64_loop k n = le_bytes k n"
  by (induction k arbitrary: n) (simp_all add: take_bit_eq_mod drop_bit_eq_div)

lemma x402_transfer_of:
  assumes "is_u64 amount"
  shows "transfer_of (transferToInspectable (buildX402TransferInstruction pda enc payer payTo asset amount decimals)) =
     Some \<lparr>ti_mint = Some asset, ti_amount = amount, ti_source = deriveAta pda enc payer asset,
           ti_destination = deriveAta pda enc payTo asset, ti_authority = payer\<rparr>"
  using assms le_value_le_bytes [of amount 8]
  by (simp add: transfer_of_def transferToInspectable_def buildX402TransferInstruction_def is_token_ix_def
      Inspector.ix_accounts_def TRANSFER_CHECKED_DISCRIMINATOR_def write_u64_loop_le_bytes is_u64_def U64_MAX_def Let_def
      del: le_bytes.simps write_u64_loop.simps)

lemma getMedian_between:
  assumes "xs \<noteq> []" and "\<And>x. x \<in> set xs \<Longrightarrow> 0 \<le> x"
  shows "Min (set xs) \<le> getMedian xs \<and> getMedian xs \<le> Max (set xs)"
proof -
  define m where "m = length xs div 2"
  have m: "m < length xs" using assms(1) by (cases xs) (simp_all add: m_def)
  have mem: "sort xs ! i \<in> set xs" if "i < length xs" for i
    using that by (metis length_sort nth_mem set_sort)
  have bounds: "Min (set xs) \<le> sort xs ! i \<and> sort xs ! i \<le> Max (set xs)" if "i < length xs" for i
    using mem [OF that] by simp
  have pair: "bdiv (sort xs ! (m - 1) + sort xs ! m) 2 = (sort xs ! (m - 1) + sort xs ! m) div 2"
    using assms(2) [OF mem [of m]] assms(2) [OF mem [of "m - 1"]] m by (intro bdiv_nonneg) simp_all
  have "m - 1 < length xs" using m by simp
  then show ?thesis
    using bounds [OF m] bounds [OF \<open>m - 1 < length xs\<close>] pair
    by (auto simp: getMedian_def Let_def m_def [symmetric])
qed

lemma validate_amount_Inr:
  "validatePaymentAmount recent amount config = Inr n \<longleftrightarrow>
     bigint_of_string amount = Some n \<and> 0 < n
     \<and> (\<forall>limit. Option.bind config xc_maxPaymentPerRequest = Some limit \<longrightarrow> n \<le> limit)
     \<and> (3 \<le> length recent \<longrightarrow> 0 < getMedian recent \<longrightarrow> n \<le> 10 * getMedian recent)"
  by (auto simp: validatePaymentAmount_def SPIKE_MULTIPLIER_def Let_def not_le split: option.splits if_splits)

lemma recordPaymentAmount_last: "recordPaymentAmount n recent = slice_last 20 (recent @ [n])" if "length recent \<le> 20"
proof (cases "length recent = 20")
  case True
  then show ?thesis by (cases recent) (simp_all add: recordPaymentAmount_def slice_last_def MAX_RECENT_def Let_def)
qed (use that in \<open>simp add: recordPaymentAmount_def slice_last_def MAX_RECENT_def Let_def\<close>)

section \<open>Base58\<close>

lemma b58_mul_value:
  "b58_mul_loop c bs = (c', bs') \<Longrightarrow>
     length bs' = length bs \<and> le_value bs' + 256 ^ length bs * int c' = int c + 58 * le_value bs"
proof (induction c bs arbitrary: c' bs' rule: b58_mul_loop.induct)
  case (2 c b bs)
  obtain c1 bs1 where r: "b58_mul_loop ((c + b * 58) div 256) bs = (c1, bs1)" by fastforce
  have "int ((c + b * 58) mod 256) + 256 * int ((c + b * 58) div 256) = int c + 58 * int b"
    by (simp add: zdiv_int zmod_int)
  with 2(1) [OF refl r] 2(2) r show ?case by (auto simp: Let_def algebra_simps)
qed simp

lemma b58_push_value: "le_value (b58_push_loop c) = int c"
proof (induction c rule: b58_push_loop.induct)
  case (1 c)
  show ?case
  proof (cases "c > 0")
    case True
    have "int (c mod 256) + 256 * int (c div 256) = int c" by (simp add: zdiv_int zmod_int)
    then show ?thesis using 1 [OF True] True by (subst b58_push_loop.simps) simp
  qed (simp add: b58_push_loop.simps)
qed

lemma b58_digit_value: "le_value (b58_digit d bs) = int d + 58 * le_value bs"
proof -
  obtain c bs' where r: "b58_mul_loop d bs = (c, bs')" by fastforce
  show ?thesis using b58_mul_value [OF r] r by (simp add: b58_digit_def le_value_append b58_push_value)
qed

primrec b58_value :: "string \<Rightarrow> int \<Rightarrow> int" where
  "b58_value [] acc = acc"
| "b58_value (c # cs) acc = b58_value cs (acc * 58 + int (the (index_of c base58_alphabet)))"

lemma b58_loop_value: "b58_loop str bs = Inr bs' \<Longrightarrow> le_value bs' = b58_value str (le_value bs)"
  by (induction str bs rule: b58_loop.induct) (auto split: option.splits simp: b58_digit_value algebra_simps)

lemma le_value_zeros [simp]: "le_value (replicate n 0) = 0"
  by (induction n) simp_all

lemma base58Decode_value: "base58Decode str = Inr bs \<Longrightarrow> le_value (rev bs) = b58_value str 0"
  by (auto simp: base58Decode_def le_value_append dest!: b58_loop_value)

section \<open>Properties\<close>

text \<open>
  C16. Replay protection meets its specification. Whatever checks and payments came before, with
  clock readings that never go back, a payment is reported as a duplicate at \<open>now\<close> exactly when the
  same payment was recorded at some \<open>t\<close> with \<open>now \<le> t + ttl\<close>; the checks in between, and the
  entries they collect, change nothing.
\<close>
theorem nonce_replay_exact:
  fixes tracker :: "'x NonceTracker"
  assumes "tracker = nonce.run calls (new_NonceTracker ttlMs None)"
    and "sorted (map fst calls)" and "\<forall>t \<in> set (map fst calls). t \<le> now"
  shows "fst (checkOrThrow now key tracker) = Inl (X402ReplayError key) \<longleftrightarrow>
     (\<exists>t. (t, Inr key) \<in> set calls \<and> now \<le> t + nt_ttlMs tracker)"
proof -
  let ?new = "new_NonceTracker ttlMs None :: 'x NonceTracker"
  have wf: "nonce_wf ?new" and none: "\<not> fst (isDuplicate now key ?new)"
    by (simp_all add: nonce_wf_def new_NonceTracker_def isDuplicate_def nonce_gc_def Let_def)
  have "fst (checkOrThrow now key tracker) = Inl (X402ReplayError key) \<longleftrightarrow> fst (isDuplicate now key tracker)"
    by (simp add: checkOrThrow_def split: prod.split)
  with nonce.ask_run [OF wf assms(2,3), of key] nonce.run_window [of calls ?new] none show ?thesis
    by (auto simp: assms(1))
qed

theorem nonce_replay_exact_witness:
  "fst (checkOrThrow 301000 ''k'' (nonce.run [(500, Inl ''k''), (1000, Inr ''k'')] (new_NonceTracker None None :: unit NonceTracker)))
     = Inl (X402ReplayError ''k'')
   \<and> fst (checkOrThrow 301001 ''k'' (nonce.run [(500, Inl ''k''), (1000, Inr ''k'')] (new_NonceTracker None None :: unit NonceTracker)))
     \<noteq> Inl (X402ReplayError ''k'')"
  using nonce_replay_exact [OF refl, where calls = "[(500, Inl ''k''), (1000, Inr ''k'')]" and now = 301000 and key = "''k''"
      and ttlMs = None and ?'x = unit]
    nonce_replay_exact [OF refl, where calls = "[(500, Inl ''k''), (1000, Inr ''k'')]" and now = 301001 and key = "''k''"
      and ttlMs = None and ?'x = unit]
  by (simp add: new_NonceTracker_def NONCE_TTL_MS_def nonce_record_def nonce_gc_def Let_def)

text \<open>
  The transfer built for a payment is read back exactly by the SDK's own instruction analysis:
  for every u64 amount the analysis reports one transfer, of that amount and mint, from the payer's
  to the payee's token account and authorised by the payer.
\<close>
theorem x402_transfer_roundtrip:
  assumes "is_u64 amount"
  shows "\<exists>a. analyzeInstructions
         [transferToInspectable (buildX402TransferInstruction pda enc payer payTo asset amount decimals)] payer = Some a
     \<and> ia_tokenTransfers a = [\<lparr>ti_mint = Some asset, ti_amount = amount, ti_source = deriveAta pda enc payer asset,
           ti_destination = deriveAta pda enc payTo asset, ti_authority = payer\<rparr>]
     \<and> ia_estimatedValue a = amount"
proof -
  let ?ix = "transferToInspectable (buildX402TransferInstruction pda enc payer payTo asset amount decimals)"
  obtain a where "analyzeInstructions [?ix] payer = Some a" "ia_tokenTransfers a = transfers_of [?ix]"
    "ia_estimatedValue a = outgoing_value payer (transfers_of [?ix])"
    by (rule analyze_total [of "[?ix]" payer])
  then show ?thesis
    unfolding transfers_of_simps x402_transfer_of [OF assms] option.case by (simp add: outgoing_value_def)
qed

theorem x402_transfer_roundtrip_witness:
  "\<exists>a. analyzeInstructions [transferToInspectable (buildX402TransferInstruction
        (\<lambda>program seeds. (''ata'', 255)) (\<lambda>a. []) ''me'' ''shop'' ''mint'' 1000000 6)] ''me'' = Some a
     \<and> ia_estimatedValue a = 1000000"
  using x402_transfer_roundtrip [of 1000000 "\<lambda>program seeds. (''ata'', 255)" "\<lambda>a. []" "''me''" "''shop''" "''mint''" 6]
  by (auto simp: is_u64_def U64_MAX_def)

end
