(* ===== verification/X402Fetch.thy ===== *)
theory X402Fetch
  imports X402Guards
begin

text \<open>
  The payment flow of \<open>sdk/kit/src/x402/\<close>: \<open>policy-bridge.ts\<close>, \<open>facilitator-verify.ts\<close>,
  \<open>audit-trail.ts\<close> and the seventeen steps of \<open>shielded-fetch.ts\<close>, over the state they share: the
  module's nonce tracker and payment history, the caller's shield, and the effects that leave the
  process (requests, signatures, audit events, warnings) in their order.

  HTTP answers, RPC answers, JSON, URL parsing and the Solana kit are the fields of \<open>fetch_env\<close>. The
  flow may poll the chain, so it returns an option; \<open>None\<close> is never returning.
\<close>

section \<open>policy-bridge.ts\<close>

definition ceiling_violation :: "X402Config option \<Rightarrow> PaymentRequirements \<Rightarrow> (x402_error, x402_violation list) result" where
  "ceiling_violation config selected =
     (case Option.bind config xc_maxPaymentPerRequest of
        None \<Rightarrow> Inr []
      | Some limit \<Rightarrow>
          (case bigint_of_string (pq_amount selected) of
             None \<Rightarrow> Inl (X402Other JS_TYPE_ERROR)
           | Some paymentAmount \<Rightarrow>
               Inr (if paymentAmount > limit then [RequestCeilingExceeded (pq_amount selected) limit] else [])))"

definition cumulative_violation ::
  "'c ShieldState \<Rightarrow> X402Config option \<Rightarrow> PaymentRequirements \<Rightarrow> msecs \<Rightarrow> (x402_error, x402_violation list) result" where
  "cumulative_violation st config selected now =
     (case Option.bind config xc_maxCumulativeSpend of
        None \<Rightarrow> Inr []
      | Some limit \<Rightarrow>
          let windowMs = (case Option.bind config xc_cumulativeWindowMs of None \<Rightarrow> 86400000 | Some w \<Rightarrow> w);
              currentSpend = getTotalSpendInWindow st windowMs now
          in case bigint_of_string (pq_amount selected) of
               None \<Rightarrow> Inl (X402Other JS_TYPE_ERROR)
             | Some paymentAmount \<Rightarrow>
                 Inr (if currentSpend + paymentAmount > limit
                      then [CumulativeExceeded (currentSpend + paymentAmount) limit windowMs] else []))"

text \<open>The synthetic instruction handed to the shield: the accounts of a transfer, and no data.\<close>

definition synthetic_ix :: "PaymentRequirements \<Rightarrow> address \<Rightarrow> InspectableInstruction" where
  "synthetic_ix selected signerAddress =
     \<lparr>ii_programAddress = TOKEN_PROGRAM_ADDRESS,
      ii_accounts = Some [signerAddress, pq_asset selected, pq_payTo selected, signerAddress],
      ii_data = None\<rparr>"

definition evaluateX402Payment ::
  "PaymentRequirements \<Rightarrow> X402Config option \<Rightarrow> address option \<Rightarrow> msecs
    \<Rightarrow> ('c ShieldedContext, x402_error, x402_violation list) step" where
  "evaluateX402Payment selected config signerAddress now ctx =
     (if sc_paused ctx then (Inl (X402PaymentError ShieldPaused), ctx)
      else
        sbind (sresult (rbind (cumulative_violation (sc_state ctx) config selected now) (\<lambda>v1.
            rbind (ceiling_violation config selected) (\<lambda>v2. Inr (v1 @ v2))))) (\<lambda>violations ctx1.
          case signerAddress of
            None \<Rightarrow> (Inr violations, ctx1)
          | Some signer \<Rightarrow>
              if signer = [] then (Inr violations, ctx1)
              else case shield_check ctx1 [synthetic_ix selected signer] signer now of
                     (Inl e, ctx2) \<Rightarrow> (Inl (X402Other e), ctx2)
                   | (Inr (allowed, vs), ctx2) \<Rightarrow>
                       (Inr (if allowed then violations else violations @ map ShieldRule vs), ctx2)) ctx)"

definition recordX402Spend :: "string \<Rightarrow> int \<Rightarrow> msecs \<Rightarrow> 'c ShieldedContext \<Rightarrow> 'c ShieldedContext" where
  "recordX402Spend asset amount now ctx =
     ctx\<lparr>sc_state := recordTx (recordSpend (sc_state ctx) asset amount now) now\<rparr>"

section \<open>facilitator-verify.ts\<close>

datatype settle_warning =
    NoSignature
  | BadSignatureFormat
  | NetworkMismatch string string
  | SettlementFailed "string option"
  | NotConfirmed int
  | VerifyFailed

record FacilitatorVerifyResult =
  fv_valid :: bool
  fv_warnings :: "settle_warning list"

definition BASE58_REGEX :: "string \<Rightarrow> bool" where
  "BASE58_REGEX s \<longleftrightarrow> 64 \<le> length s \<and> length s \<le> 88 \<and> list_all (\<lambda>c. c \<in> set base58_alphabet) s"

text \<open>What one poll says of a signature; \<open>None\<close> asks again.\<close>

definition signature_verdict :: "poll_round \<Rightarrow> (js_error, bool) result option" where
  "signature_verdict r =
     (case po_status r of
        Inl e \<Rightarrow> Some (Inl e)
      | Inr None \<Rightarrow> None
      | Inr (Some status) \<Rightarrow>
          if ss_err status then Some (Inr False)
          else if ss_confirmationStatus status = ''confirmed'' \<or> ss_confirmationStatus status = ''finalized''
          then Some (Inr True) else None)"

definition pollSignatureStatus ::
  "msecs \<Rightarrow> int \<Rightarrow> (nat \<Rightarrow> poll_round) \<Rightarrow> (js_error, bool) result option" where
  "pollSignatureStatus start timeoutMs poll =
     poll_until signature_verdict (Inr False) (start + timeoutMs) poll 0"

text \<open>\<open>rpc\<close> is the clock when polling starts and the rounds the RPC would answer.\<close>

definition validateSettlement ::
  "SettleResponse \<Rightarrow> string option \<Rightarrow> (msecs \<times> (nat \<Rightarrow> poll_round)) option \<Rightarrow> int option
    \<Rightarrow> FacilitatorVerifyResult option" where
  "validateSettlement settlement expectedNetwork rpc timeoutMs =
     (if se_success settlement \<and> \<not> truthy (se_transaction settlement)
      then Some \<lparr>fv_valid = False, fv_warnings = [NoSignature]\<rparr>
      else if truthy (se_transaction settlement) \<and> \<not> BASE58_REGEX (the (se_transaction settlement))
      then Some \<lparr>fv_valid = False, fv_warnings = [BadSignatureFormat]\<rparr>
      else
        let warnings =
              (if truthy expectedNetwork \<and> truthy (se_network settlement) \<and> se_network settlement \<noteq> expectedNetwork
               then [NetworkMismatch (the (se_network settlement)) (the expectedNetwork)] else [])
        in if \<not> se_success settlement
           then Some \<lparr>fv_valid = False, fv_warnings = warnings @ [SettlementFailed (se_errorReason settlement)]\<rparr>
           else case rpc of
                  None \<Rightarrow> Some \<lparr>fv_valid = True, fv_warnings = warnings\<rparr>
                | Some (start, poll) \<Rightarrow>
                    let timeout = (case timeoutMs of None \<Rightarrow> 10000 | Some t \<Rightarrow> t)
                    in map_option (\<lambda>r. \<lparr>fv_valid = True, fv_warnings = warnings
                         @ (case r of Inl e \<Rightarrow> [VerifyFailed] | Inr confirmed \<Rightarrow> if confirmed then [] else [NotConfirmed timeout])\<rparr>)
                       (pollSignatureStatus start timeout poll))"

section \<open>State, environment and effects\<close>

record X402PaymentResult =
  xr_paid :: bool
  xr_amountPaid :: string
  xr_asset :: string
  xr_payTo :: string
  xr_settlement :: "SettleResponse option"

text \<open>
  A response; header names are in lower case, as \<open>Headers\<close> keeps them. An HTTP answer, a field of the
  environment, is a status with headers; \<open>x402\<close> is what the flow attaches.
\<close>

record Response =
  hr_status :: int
  hr_headers :: "(string \<times> string) list"
  hr_x402 :: "X402PaymentResult option"

definition header_get :: "Response \<Rightarrow> string \<Rightarrow> string option" where
  "header_get r name = map_of (hr_headers r) (toLowerCase name)"

definition hr_ok :: "Response \<Rightarrow> bool" where
  "hr_ok r \<longleftrightarrow> 200 \<le> hr_status r \<and> hr_status r < 300"

datatype HeadersInit =
    HeadersObject "(string \<times> string) list"
  | HeadersArray "(string \<times> string) list"
  | HeadersRecord "(string \<times> string) list"

record 'rpc ShieldedFetchOptions =
  fo_headers :: "HeadersInit option"
  fo_rpc :: "'rpc option"
  fo_dryRun :: bool
  fo_maxPayment :: "int option"

datatype x402_warning = NoAllowedDestinations | SettlementWarnings "settle_warning list" | SpendNotRecorded | SpendUnconfirmed

datatype 'tx x402_effect =
    Request "string option"
  | SignRequest 'tx
  | Emitted X402PaymentEvent
  | Warned x402_warning

record ('c, 'tx) FetchState =
  fs_nonces :: "unit NonceTracker"
  fs_recent :: "int list"
  fs_shield :: "'c ShieldedContext option"
  fs_effects :: "'tx x402_effect list"

record ('rpc, 'm, 'tx) fetch_env =
  fe_pda :: "(address \<times> nat) derivation"
  fe_enc :: "address \<Rightarrow> bytes"
  fe_parseJson :: "string \<Rightarrow> json option"
  fe_stringify :: "json \<Rightarrow> string"
  fe_noQuery :: "string \<Rightarrow> string option"
  fe_base58 :: "bytes \<Rightarrow> string"
  fe_compose :: "('m, 'tx) compose_env"
  fe_blockhash :: "'rpc \<Rightarrow> (js_error, Blockhash) result"
  fe_fetch :: "nat \<Rightarrow> (js_error, int \<times> (string \<times> string) list) result"
  fe_poll :: "'rpc \<Rightarrow> nat \<Rightarrow> poll_round"

record fetch_clock =
  fk_start :: msecs
  fk_check :: msecs
  fk_policy :: msecs
  fk_event :: msecs
  fk_record :: msecs
  fk_confirm :: msecs
  fk_spend :: msecs

abbreviation effect :: "'tx x402_effect \<Rightarrow> ('c, 'tx) FetchState \<Rightarrow> ('c, 'tx) FetchState" where
  "effect e s \<equiv> s\<lparr>fs_effects := fs_effects s @ [e]\<rparr>"

section \<open>audit-trail.ts\<close>

definition emitPaymentEvent ::
  "X402Config option \<Rightarrow> X402PaymentEvent \<Rightarrow> (('c, 'tx) FetchState, x402_error, unit) step" where
  "emitPaymentEvent config event s =
     (case Option.bind config xc_onPayment of
        None \<Rightarrow> (Inr (), s)
      | Some onPayment \<Rightarrow>
          (case onPayment event of None \<Rightarrow> Inr () | Some e \<Rightarrow> Inl (X402Other (EXTERNAL_ERROR e)), effect (Emitted event) s))"

definition createPaymentEvent ::
  "fetch_clock \<Rightarrow> string \<Rightarrow> PaymentRequirements \<Rightarrow> bool \<Rightarrow> denied_reason option \<Rightarrow> SettleResponse option
    \<Rightarrow> string option \<Rightarrow> X402PaymentEvent" where
  "createPaymentEvent clock url selected paid deniedReason settlement nonce =
     \<lparr>ev_timestamp = fk_event clock, ev_url = url, ev_payTo = pq_payTo selected, ev_asset = pq_asset selected,
      ev_amount = pq_amount selected, ev_paid = paid, ev_deniedReason = deniedReason, ev_settlement = settlement,
      ev_nonce = nonce, ev_durationMs = fk_event clock - fk_start clock\<rparr>"

section \<open>shielded-fetch.ts\<close>

datatype settle_status = Confirmed | Failed | TimedOut

definition settlement_verdict :: "poll_round \<Rightarrow> (js_error, settle_status) result option" where
  "settlement_verdict r =
     (case po_status r of
        Inl e \<Rightarrow> Some (Inl e)
      | Inr None \<Rightarrow> None
      | Inr (Some status) \<Rightarrow>
          if ss_err status then Some (Inr Failed)
          else if ss_confirmationStatus status = ''confirmed'' \<or> ss_confirmationStatus status = ''finalized''
          then Some (Inr Confirmed) else None)"

definition confirmSettlementOnChain ::
  "msecs \<Rightarrow> int \<Rightarrow> (nat \<Rightarrow> poll_round) \<Rightarrow> (js_error, settle_status) result option" where
  "confirmSettlementOnChain start timeoutMs poll =
     poll_until settlement_verdict (Inr TimedOut) (start + timeoutMs) poll 0"

fun hasPaymentSignatureHeader :: "HeadersInit option \<Rightarrow> bool" where
  "hasPaymentSignatureHeader None = False"
| "hasPaymentSignatureHeader (Some (HeadersObject hs)) =
     list_ex (\<lambda>(k, _). toLowerCase k = ''payment-signature'') hs"
| "hasPaymentSignatureHeader (Some (HeadersArray hs)) =
     list_ex (\<lambda>(k, _). toLowerCase k = ''payment-signature'') hs"
| "hasPaymentSignatureHeader (Some (HeadersRecord hs)) =
     list_ex (\<lambda>(k, _). toLowerCase k = ''payment-signature'') hs"

definition config_warning :: "X402Config option \<Rightarrow> ('c, 'tx) FetchState \<Rightarrow> ('c, 'tx) FetchState" where
  "config_warning config s =
     (case Option.bind config xc_allowedDestinations of
        Some (_ # _) \<Rightarrow> s
      | _ \<Rightarrow> effect (Warned NoAllowedDestinations) s)"

definition url_check :: "X402Config option \<Rightarrow> string \<Rightarrow> (x402_error, unit) result" where
  "url_check config urlStr =
     (if Option.bind config xc_allowInsecureUrls \<noteq> Some True
      then require (startsWith urlStr ''https://'') (X402PaymentError InsecureUrl)
      else require (startsWith urlStr ''https://'' \<or> startsWith urlStr ''http://'') (X402PaymentError InsecureUrl))"

text \<open>The \<open>n\<close>-th request of the call, with the payment header it carries.\<close>

definition fetch_request ::
  "('rpc, 'm, 'tx) fetch_env \<Rightarrow> nat \<Rightarrow> string option \<Rightarrow> (('c, 'tx) FetchState, x402_error, Response) step" where
  "fetch_request env n payment s =
     (case fe_fetch env n of
        Inl e \<Rightarrow> Inl (X402Other (EXTERNAL_ERROR e))
      | Inr (status, headers) \<Rightarrow> Inr \<lparr>hr_status = status, hr_headers = headers, hr_x402 = None\<rparr>,
      effect (Request payment) s)"

text \<open>Steps 4 and 5: the header of a 402 response, absent or empty for a 402 that is not x402.\<close>

definition payment_header :: "Response \<Rightarrow> string \<Rightarrow> string \<Rightarrow> string option" where
  "payment_header r lower upper = (case header_get r lower of Some h \<Rightarrow> Some h | None \<Rightarrow> header_get r upper)"

text \<open>Step 9.\<close>

definition replay_protected :: "X402Config option \<Rightarrow> bool" where
  "replay_protected config \<longleftrightarrow> Option.bind config xc_enableReplayProtection \<noteq> Some False"

definition replay_check ::
  "('rpc, 'm, 'tx) fetch_env \<Rightarrow> fetch_clock \<Rightarrow> X402Config option \<Rightarrow> string \<Rightarrow> PaymentRequirements
    \<Rightarrow> (('c, 'tx) FetchState, x402_error, unit) step" where
  "replay_check env clock config urlStr selected s =
     (if replay_protected config
      then case checkOrThrow (fk_check clock) (buildKey (fe_noQuery env) urlStr (pq_payTo selected) (pq_amount selected))
                  (fs_nonces s) of
             (r, t) \<Rightarrow> (r, s\<lparr>fs_nonces := t\<rparr>)
      else (Inr (), s))"

text \<open>Step 10, with the override of the fetch options.\<close>

definition amount_check ::
  "int list \<Rightarrow> X402Config option \<Rightarrow> int option \<Rightarrow> PaymentRequirements \<Rightarrow> (x402_error, int) result" where
  "amount_check recent config maxPayment selected =
     rbind (validatePaymentAmount recent (pq_amount selected) config) (\<lambda>parsedAmount.
       case maxPayment of
         Some limit \<Rightarrow>
           if parsedAmount > limit then Inl (X402PaymentError (AboveMaxPayment (pq_amount selected) limit))
           else Inr parsedAmount
       | None \<Rightarrow> Inr parsedAmount)"

text \<open>Step 11.\<close>

definition policy_check ::
  "fetch_clock \<Rightarrow> X402Config option \<Rightarrow> string \<Rightarrow> address \<Rightarrow> PaymentRequirements
    \<Rightarrow> (('c, 'tx) FetchState, x402_error, unit) step" where
  "policy_check clock config urlStr signerAddress selected s =
     (case fs_shield s of
        None \<Rightarrow> (Inr (), s)
      | Some ctx \<Rightarrow>
          (case evaluateX402Payment selected config (Some signerAddress) (fk_policy clock) ctx of
             (Inl e, ctx') \<Rightarrow> (Inl e, s\<lparr>fs_shield := Some ctx'\<rparr>)
           | (Inr violations, ctx') \<Rightarrow>
               let s1 = s\<lparr>fs_shield := Some ctx'\<rparr>
               in if length violations > 0
                  then sbind (emitPaymentEvent config
                         (createPaymentEvent clock urlStr selected False (Some (DeniedByPolicy violations)) None None))
                         (\<lambda>_. sresult (Inl (X402PaymentError (PolicyDenied violations)))) s1
                  else (Inr (), s1)))"

text \<open>Steps 13 and 14, up to the compiled transaction.\<close>

definition payment_decimals :: "PaymentRequirements \<Rightarrow> nat" where
  "payment_decimals selected =
     (case resolveToken (pq_asset selected) ''mainnet-beta'' of Some info \<Rightarrow> rt_decimals info | None \<Rightarrow> 6)"

definition payment_transaction ::
  "('rpc, 'm, 'tx) fetch_env \<Rightarrow> address \<Rightarrow> PaymentRequirements \<Rightarrow> int \<Rightarrow> Blockhash \<Rightarrow> 'tx" where
  "payment_transaction env signerAddress selected parsedAmount blockhash =
     cp_compile (fe_compose env) (cp_message (fe_compose env)
       \<lparr>tm_version = 0, tm_feePayer = signerAddress, tm_lifetime = blockhash,
        tm_instructions = [buildX402TransferInstruction (fe_pda env) (fe_enc env) signerAddress (pq_payTo selected)
          (pq_asset selected) parsedAmount (payment_decimals selected)]\<rparr>)"

definition sign_payment ::
  "('rpc, 'm, 'tx) fetch_env \<Rightarrow> 'tx TransactionSigner \<Rightarrow> 'rpc option \<Rightarrow> PaymentRequirements \<Rightarrow> int
    \<Rightarrow> (('c, 'tx) FetchState, x402_error, string) step" where
  "sign_payment env signer effectiveRpc selected parsedAmount s =
     (case effectiveRpc of
        None \<Rightarrow> (Inl (X402PaymentError RpcRequired), s)
      | Some rpc \<Rightarrow>
          (case fe_blockhash env rpc of
             Inl e \<Rightarrow> (Inl (X402Other (EXTERNAL_ERROR e)), s)
           | Inr blockhash \<Rightarrow>
               let compiledTx = payment_transaction env (ts_address signer) selected parsedAmount blockhash
               in (case signAndEncode (cp_wire64 (fe_compose env)) signer compiledTx of
                     Inl e \<Rightarrow> Inl (X402Other e)
                   | Inr wire \<Rightarrow> Inr wire, effect (SignRequest compiledTx) s)))"

definition expected_sig :: "('rpc, 'm, 'tx) fetch_env \<Rightarrow> string \<Rightarrow> string option" where
  "expected_sig env wireBase64 =
     (case atob wireBase64 of
        None \<Rightarrow> None
      | Some wireBinary \<Rightarrow>
          if length wireBinary > 64 then Some (fe_base58 env (take 64 (drop 1 wireBinary))) else None)"

definition encodePaymentSignatureHeader ::
  "('rpc, 'm, 'tx) fetch_env \<Rightarrow> PaymentRequired \<Rightarrow> PaymentRequirements \<Rightarrow> string \<Rightarrow> string" where
  "encodePaymentSignatureHeader env paymentRequired selected wireBase64 =
     base64Encode (fe_stringify env (JObject
       ([(''x402Version'', JNumber 2)]
        @ (case pd_resource paymentRequired of None \<Rightarrow> [] | Some r \<Rightarrow> [(''resource'', r)])
        @ [(''accepted'', pq_object selected), (''payload'', JObject [(''transaction'', JString wireBase64)])])))"

text \<open>Step 15: the retry loop; \<open>left\<close> is \<open>maxRetries - attempt\<close>.\<close>

definition max_retries :: "X402Config option \<Rightarrow> int" where
  "max_retries config = min (max (case Option.bind config xc_maxRetries of None \<Rightarrow> 1 | Some n \<Rightarrow> n) 1) 3"

fun retry_loop ::
  "('rpc, 'm, 'tx) fetch_env \<Rightarrow> string \<Rightarrow> nat \<Rightarrow> nat \<Rightarrow> Response \<Rightarrow> (('c, 'tx) FetchState, x402_error, Response) step" where
  "retry_loop env payment n 0 response s = (Inr response, s)"
| "retry_loop env payment n (Suc left) response s =
     (if hr_ok response then (Inr response, s)
      else case fetch_request env n (Some payment) s of
             (Inl e, s') \<Rightarrow> (Inl e, s')
           | (Inr r, s') \<Rightarrow> retry_loop env payment (n + 1) left r s')"

text \<open>The flow up to the last answer: it returns a response as it is, or goes on with a payment made.\<close>

record payment =
  pm_selected :: PaymentRequirements
  pm_amount :: int
  pm_expectedSig :: "string option"
  pm_response :: Response

datatype fetch_phase = Return Response | Paid payment

definition effective_rpc :: "'rpc option \<Rightarrow> 'rpc ShieldedFetchOptions \<Rightarrow> 'rpc option" where
  "effective_rpc rpc options = (case fo_rpc options of Some r \<Rightarrow> Some r | None \<Rightarrow> rpc)"

definition fetch_pay ::
  "('rpc, 'm, 'tx) fetch_env \<Rightarrow> 'tx TransactionSigner \<Rightarrow> X402Config option \<Rightarrow> 'rpc option
    \<Rightarrow> 'rpc ShieldedFetchOptions \<Rightarrow> PaymentRequired \<Rightarrow> PaymentRequirements \<Rightarrow> int
    \<Rightarrow> (('c, 'tx) FetchState, x402_error, fetch_phase) step" where
  "fetch_pay env signer config rpc options paymentRequired selected parsedAmount =
     (if fo_dryRun options
      then sresult (Inr (Return \<lparr>hr_status = 402, hr_headers = [], hr_x402 = Some
             \<lparr>xr_paid = False, xr_amountPaid = pq_amount selected, xr_asset = pq_asset selected,
              xr_payTo = pq_payTo selected, xr_settlement = None\<rparr>\<rparr>))
      else
        sbind (sign_payment env signer (effective_rpc rpc options) selected parsedAmount) (\<lambda>wireBase64.
        let encodedPayload = encodePaymentSignatureHeader env paymentRequired selected wireBase64
        in sbind (fetch_request env 1 (Some encodedPayload)) (\<lambda>first.
           sbind (retry_loop env encodedPayload 2 (nat (max_retries config - 1)) first) (\<lambda>retryResponse.
           sresult (Inr (Paid \<lparr>pm_selected = selected, pm_amount = parsedAmount,
              pm_expectedSig = expected_sig env wireBase64, pm_response = retryResponse\<rparr>))))))"

definition fetch_demand ::
  "('rpc, 'm, 'tx) fetch_env \<Rightarrow> fetch_clock \<Rightarrow> 'tx TransactionSigner \<Rightarrow> string \<Rightarrow> X402Config option \<Rightarrow> 'rpc option
    \<Rightarrow> 'rpc ShieldedFetchOptions \<Rightarrow> string \<Rightarrow> (('c, 'tx) FetchState, x402_error, fetch_phase) step" where
  "fetch_demand env clock signer urlStr config rpc options header =
     sbind (sresult (require (\<not> hasPaymentSignatureHeader (fo_headers options)) (X402PaymentError LoopGuard))) (\<lambda>_.
     sbind (sresult (decodePaymentRequiredHeader (fe_parseJson env) header)) (\<lambda>paymentRequired.
     sbind (sresult (selectPaymentOption paymentRequired config)) (\<lambda>selected.
     sbind (replay_check env clock config urlStr selected) (\<lambda>_.
     sbind (\<lambda>s. (amount_check (fs_recent s) config (fo_maxPayment options) selected, s)) (\<lambda>parsedAmount.
     sbind (policy_check clock config urlStr (ts_address signer) selected) (\<lambda>_.
     fetch_pay env signer config rpc options paymentRequired selected parsedAmount))))))"

definition fetch_start ::
  "('rpc, 'm, 'tx) fetch_env \<Rightarrow> fetch_clock \<Rightarrow> 'tx TransactionSigner \<Rightarrow> string \<Rightarrow> X402Config option \<Rightarrow> 'rpc option
    \<Rightarrow> 'rpc ShieldedFetchOptions \<Rightarrow> (('c, 'tx) FetchState, x402_error, fetch_phase) step" where
  "fetch_start env clock signer urlStr config rpc options =
     sbind (\<lambda>s. (Inr (), config_warning config s)) (\<lambda>_.
     sbind (sresult (url_check config urlStr)) (\<lambda>_.
     sbind (fetch_request env 0 None) (\<lambda>response.
     if hr_status response \<noteq> 402 then sresult (Inr (Return response))
     else case payment_header response ''payment-required'' ''PAYMENT-REQUIRED'' of
            Some (c # cs) \<Rightarrow> fetch_demand env clock signer urlStr config rpc options (c # cs)
          | _ \<Rightarrow> sresult (Inr (Return response)))))"

text \<open>
  Step 16. The facilitator's JSON is read at the declared types; a field of another type reads as
  absent, and \<open>null\<close> is no settlement.
\<close>

definition settle_string :: "json \<Rightarrow> string \<Rightarrow> string option" where
  "settle_string j k = (case json_field j k of Inr (Some (JString s)) \<Rightarrow> Some s | _ \<Rightarrow> None)"

definition decodePaymentResponseHeader ::
  "('rpc, 'm, 'tx) fetch_env \<Rightarrow> string \<Rightarrow> (x402_error, SettleResponse option) result" where
  "decodePaymentResponseHeader env header =
     (case Option.bind (base64Decode header) (fe_parseJson env) of
        None \<Rightarrow> Inl (X402ParseError ''Failed to decode PAYMENT-RESPONSE header'')
      | Some JNull \<Rightarrow> Inr None
      | Some j \<Rightarrow> Inr (Some \<lparr>se_success = (json_field j ''success'' = Inr (Some (JBool True))),
            se_transaction = settle_string j ''transaction'', se_network = settle_string j ''network'',
            se_errorReason = settle_string j ''errorReason''\<rparr>))"

definition read_settlement ::
  "('rpc, 'm, 'tx) fetch_env \<Rightarrow> Response \<Rightarrow> ('c, 'tx) FetchState \<Rightarrow> SettleResponse option \<times> ('c, 'tx) FetchState" where
  "read_settlement env response s =
     (case payment_header response ''payment-response'' ''PAYMENT-RESPONSE'' of
        Some (c # cs) \<Rightarrow>
          (case decodePaymentResponseHeader env (c # cs) of
             Inr (Some settlement) \<Rightarrow>
               (case validateSettlement settlement None None None of
                  Some verification \<Rightarrow>
                    (Some settlement, if length (fv_warnings verification) > 0
                       then effect (Warned (SettlementWarnings (fv_warnings verification))) s else s)
                | None \<Rightarrow> (Some settlement, s))
           | _ \<Rightarrow> (None, s))
      | _ \<Rightarrow> (None, s))"

definition settled_tx :: "SettleResponse option \<Rightarrow> string option" where
  "settled_tx settlement = Option.bind settlement se_transaction"

definition mismatch_event ::
  "fetch_clock \<Rightarrow> X402Config option \<Rightarrow> string \<Rightarrow> payment \<Rightarrow> SettleResponse option
    \<Rightarrow> (('c, 'tx) FetchState, x402_error, unit) step" where
  "mismatch_event clock config urlStr p settlement =
     (if truthy (pm_expectedSig p) \<and> truthy (settled_tx settlement) \<and> settled_tx settlement \<noteq> pm_expectedSig p
      then emitPaymentEvent config (createPaymentEvent clock urlStr (pm_selected p) True
             (Some (SignatureMismatch (the (pm_expectedSig p)) (the (settled_tx settlement)))) None None)
      else sresult (Inr ()))"

text \<open>Step 17: the outcome of the on-chain confirmation, \<open>None\<close> inside where it is not asked for.\<close>

definition confirm_outcome ::
  "('rpc, 'm, 'tx) fetch_env \<Rightarrow> fetch_clock \<Rightarrow> X402Config option \<Rightarrow> 'rpc option \<Rightarrow> SettleResponse option
    \<Rightarrow> (js_error, settle_status option) result option" where
  "confirm_outcome env clock config effectiveRpc settlement =
     (case effectiveRpc of
        Some rpc \<Rightarrow>
          if Option.bind config xc_confirmPayment \<noteq> Some False \<and> truthy (settled_tx settlement)
          then map_option (\<lambda>r. case r of Inl e \<Rightarrow> Inl e | Inr status \<Rightarrow> Inr (Some status))
                 (confirmSettlementOnChain (fk_confirm clock)
                   (case Option.bind config xc_confirmPaymentTimeoutMs of None \<Rightarrow> 10000 | Some t \<Rightarrow> t) (fe_poll env rpc))
          else Some (Inr None)
      | None \<Rightarrow> Some (Inr None))"

definition confirm_warning :: "settle_status option \<Rightarrow> ('c, 'tx) FetchState \<Rightarrow> ('c, 'tx) FetchState" where
  "confirm_warning status s =
     (case status of
        Some Failed \<Rightarrow> effect (Warned SpendNotRecorded) s
      | Some TimedOut \<Rightarrow> effect (Warned SpendUnconfirmed) s
      | _ \<Rightarrow> s)"

definition payment_result :: "payment \<Rightarrow> bool \<Rightarrow> SettleResponse option \<Rightarrow> Response" where
  "payment_result p paid settlement =
     (pm_response p)\<lparr>hr_x402 := Some \<lparr>xr_paid = paid, xr_amountPaid = pq_amount (pm_selected p),
        xr_asset = pq_asset (pm_selected p), xr_payTo = pq_payTo (pm_selected p), xr_settlement = settlement\<rparr>\<rparr>"

definition record_payment ::
  "('rpc, 'm, 'tx) fetch_env \<Rightarrow> fetch_clock \<Rightarrow> X402Config option \<Rightarrow> string \<Rightarrow> payment \<Rightarrow> ('c, 'tx) FetchState
    \<Rightarrow> ('c, 'tx) FetchState" where
  "record_payment env clock config urlStr p s =
     (let s1 = (if replay_protected config
                then s\<lparr>fs_nonces := nonce_record (fk_record clock)
                       (buildKey (fe_noQuery env) urlStr (pq_payTo (pm_selected p)) (pq_amount (pm_selected p))) (fs_nonces s)\<rparr>
                else s)
      in s1\<lparr>fs_recent := recordPaymentAmount (pm_amount p) (fs_recent s1)\<rparr>)"

definition record_spend_unless ::
  "fetch_clock \<Rightarrow> settle_status option \<Rightarrow> payment \<Rightarrow> ('c, 'tx) FetchState \<Rightarrow> ('c, 'tx) FetchState" where
  "record_spend_unless clock status p s =
     (case fs_shield s of
        Some ctx \<Rightarrow>
          if status \<noteq> Some Failed
          then s\<lparr>fs_shield := Some (recordX402Spend (pq_asset (pm_selected p)) (pm_amount p) (fk_spend clock) ctx)\<rparr>
          else s
      | None \<Rightarrow> s)"

definition fetch_settle ::
  "('rpc, 'm, 'tx) fetch_env \<Rightarrow> fetch_clock \<Rightarrow> string \<Rightarrow> X402Config option \<Rightarrow> 'rpc option \<Rightarrow> payment
    \<Rightarrow> ('c, 'tx) FetchState \<Rightarrow> ((x402_error, Response) result \<times> ('c, 'tx) FetchState) option" where
  "fetch_settle env clock urlStr config effectiveRpc p s =
     (let (settlement, s1) = read_settlement env (pm_response p) s
      in case mismatch_event clock config urlStr p settlement s1 of
           (Inl e, s2) \<Rightarrow> Some (Inl e, s2)
         | (Inr _, s2) \<Rightarrow>
             if hr_ok (pm_response p)
             then
               let s3 = record_payment env clock config urlStr p s2
               in (case confirm_outcome env clock config effectiveRpc settlement of
                     None \<Rightarrow> None
                   | Some (Inl e) \<Rightarrow> Some (Inl (X402Other (EXTERNAL_ERROR e)), s3)
                   | Some (Inr status) \<Rightarrow>
                       Some (sbind (emitPaymentEvent config (createPaymentEvent clock urlStr (pm_selected p) True None settlement
                              (Some (buildKey (fe_noQuery env) urlStr (pq_payTo (pm_selected p)) (pq_amount (pm_selected p))))))
                            (\<lambda>_. sresult (Inr (payment_result p True settlement)))
                            (record_spend_unless clock status p (confirm_warning status s3))))
             else
               Some (sbind (emitPaymentEvent config (createPaymentEvent clock urlStr (pm_selected p) False
                       (Some (ServerReturned (hr_status (pm_response p)))) None None))
                     (\<lambda>_. sresult (Inr (payment_result p False settlement))) s2))"

definition shieldedFetch ::
  "('rpc, 'm, 'tx) fetch_env \<Rightarrow> fetch_clock \<Rightarrow> 'tx TransactionSigner \<Rightarrow> string \<Rightarrow> X402Config option \<Rightarrow> 'rpc option
    \<Rightarrow> 'rpc ShieldedFetchOptions \<Rightarrow> ('c, 'tx) FetchState
    \<Rightarrow> ((x402_error, Response) result \<times> ('c, 'tx) FetchState) option" where
  "shieldedFetch env clock signer urlStr config rpc options s =
     (case fetch_start env clock signer urlStr config rpc options s of
        (Inl e, s') \<Rightarrow> Some (Inl e, s')
      | (Inr (Return r), s') \<Rightarrow> Some (Inr r, s')
      | (Inr (Paid p), s') \<Rightarrow> fetch_settle env clock urlStr config (effective_rpc rpc options) p s')"

end
