(* ===== verification/X402Props.thy ===== *)
theory X402Props
  imports X402Fetch ShieldRuns
begin

text \<open>
  What \<open>shieldedFetch\<close> guarantees: inversion lemmas for its steps, then the properties, namely that only a
  payment that passed every check is signed and at most once per call, that a paid call protects
  against paying again, that the call returns, and how far the policy bridge sees a payment.
\<close>

section \<open>What each step does to the signatures and paid requests\<close>

definition signed :: "('c, 'tx) FetchState \<Rightarrow> 'tx list" where
  "signed s = List.map_filter (\<lambda>e. case e of SignRequest tx \<Rightarrow> Some tx | _ \<Rightarrow> None) (fs_effects s)"

definition paid_requests :: "('c, 'tx) FetchState \<Rightarrow> string list" where
  "paid_requests s = List.map_filter (\<lambda>e. case e of Request (Some p) \<Rightarrow> Some p | _ \<Rightarrow> None) (fs_effects s)"

lemma map_filter_append: "List.map_filter f (xs @ ys) = List.map_filter f xs @ List.map_filter f ys"
  by (induction xs) (simp_all add: map_filter_simps split: option.split)

lemma signed_effect [simp]:
  "signed (s\<lparr>fs_effects := fs_effects s @ [e]\<rparr>) = signed s @ (case e of SignRequest tx \<Rightarrow> [tx] | _ \<Rightarrow> [])"
  by (simp add: signed_def map_filter_append map_filter_simps split: x402_effect.split)

lemma paid_effect [simp]:
  "paid_requests (s\<lparr>fs_effects := fs_effects s @ [e]\<rparr>) = paid_requests s @ (case e of Request (Some p) \<Rightarrow> [p] | _ \<Rightarrow> [])"
  by (simp add: paid_requests_def map_filter_append map_filter_simps split: x402_effect.split option.split)

lemma signed_other [simp]:
  "signed (s\<lparr>fs_nonces := t\<rparr>) = signed s" "signed (s\<lparr>fs_recent := r\<rparr>) = signed s" "signed (s\<lparr>fs_shield := c\<rparr>) = signed s"
  "paid_requests (s\<lparr>fs_nonces := t\<rparr>) = paid_requests s" "paid_requests (s\<lparr>fs_recent := r\<rparr>) = paid_requests s"
  "paid_requests (s\<lparr>fs_shield := c\<rparr>) = paid_requests s"
  by (simp_all add: signed_def paid_requests_def)

text \<open>A step is quiet when it neither signs nor sends a payment.\<close>

definition quiet :: "('c, 'tx) FetchState \<Rightarrow> ('c, 'tx) FetchState \<Rightarrow> bool" where
  "quiet s s' \<longleftrightarrow> signed s' = signed s \<and> paid_requests s' = paid_requests s"

lemma quiet_refl [simp]: "quiet s s"
  by (simp add: quiet_def)

lemma quiet_trans: "quiet s s1 \<Longrightarrow> quiet s1 s2 \<Longrightarrow> quiet s s2"
  by (simp add: quiet_def)

lemma sbind_cases:
  assumes "sbind m f s = (r, s')"
  obtains (throws) e where "m s = (Inl e, s')" "r = Inl e"
    | (continues) a s1 where "m s = (Inr a, s1)" "f a s1 = (r, s')"
  using assms by (auto simp: sbind_def split: prod.splits sum.splits)

lemma emit_keeps:
  assumes "emitPaymentEvent config event s = (r, s')"
  shows "quiet s s' \<and> fs_nonces s' = fs_nonces s \<and> fs_recent s' = fs_recent s \<and> fs_shield s' = fs_shield s"
  using assms by (auto simp: emitPaymentEvent_def quiet_def split: option.splits)

lemma config_warning_keeps [simp]:
  "quiet s (config_warning config s)" "fs_nonces (config_warning config s) = fs_nonces s"
  "fs_recent (config_warning config s) = fs_recent s" "fs_shield (config_warning config s) = fs_shield s"
  by (simp_all add: config_warning_def quiet_def split: option.split list.split)

lemma first_request_keeps:
  assumes "fetch_request env n None s = (r, s')"
  shows "quiet s s' \<and> fs_nonces s' = fs_nonces s \<and> fs_recent s' = fs_recent s \<and> fs_shield s' = fs_shield s"
  using assms by (auto simp: fetch_request_def quiet_def)

lemma paid_request_adds:
  assumes "fetch_request env n (Some p) s = (r, s')"
  shows "signed s' = signed s \<and> paid_requests s' = paid_requests s @ [p]"
  using assms by (auto simp: fetch_request_def)

lemma replay_check_keeps:
  assumes "replay_check env clock config url selected s = (r, s')"
  shows "quiet s s' \<and> fs_recent s' = fs_recent s \<and> fs_shield s' = fs_shield s"
    and "r = Inr () \<Longrightarrow> replay_protected config \<Longrightarrow>
       \<not> fst (isDuplicate (fk_check clock) (buildKey (fe_noQuery env) url (pq_payTo selected) (pq_amount selected)) (fs_nonces s))"
  using assms by (auto simp: replay_check_def checkOrThrow_def quiet_def split: prod.splits if_splits)

lemma policy_check_keeps:
  assumes "policy_check clock config url a selected s = (r, s')"
  shows "quiet s s'"
  using assms
  by (auto simp: policy_check_def quiet_def Let_def sbind_def sresult_def dest!: emit_keeps
      split: option.splits prod.splits sum.splits if_splits)

lemma retry_loop_adds:
  assumes "retry_loop env p n left resp s = (r, s')"
  shows "signed s' = signed s \<and> (\<exists>k \<le> left. paid_requests s' = paid_requests s @ replicate k p)"
  using assms
proof (induction left arbitrary: n resp s)
  case (Suc left)
  show ?case
  proof (cases "hr_ok resp")
    case False
    obtain x s1 where req: "fetch_request env n (Some p) s = (x, s1)" by fastforce
    note add = paid_request_adds [OF req]
    show ?thesis
    proof (cases x)
      case (Inl e)
      then have "s' = s1" using Suc.prems req False by simp
      then show ?thesis using add by (intro conjI exI [of _ 1]) simp_all
    next
      case (Inr resp1)
      then have "retry_loop env p (n + 1) left resp1 s1 = (r, s')" using Suc.prems req False by simp
      from Suc.IH [OF this] obtain k where "k \<le> left" "signed s' = signed s1"
        "paid_requests s' = paid_requests s1 @ replicate k p" by blast
      then show ?thesis using add by (intro conjI exI [of _ "Suc k"]) simp_all
    qed
  qed (use Suc.prems in \<open>auto intro!: exI [of _ 0]\<close>)
qed (auto intro!: exI [of _ 0])

lemma max_retries_bounds: "1 \<le> max_retries config \<and> max_retries config \<le> 3"
  by (simp add: max_retries_def)

lemma sign_payment_cases:
  assumes "sign_payment env signer rpc selected n s = (r, s')"
  obtains (unsigned) e where "r = Inl e" "s' = s"
    | (asked) bh where "s' = effect (SignRequest (payment_transaction env (ts_address signer) selected n bh)) s"
        "\<And>wire. r = Inr wire \<Longrightarrow>
           signAndEncode (cp_wire64 (fe_compose env)) signer (payment_transaction env (ts_address signer) selected n bh) = Inr wire"
  using assms by (auto simp: sign_payment_def Let_def split: option.splits sum.splits)

text \<open>
  A transaction pays \<open>n\<close> for the selected option: one transfer of its asset from the payer's to the destination's
  token account, which the payer authorises and whose fee it pays. A request header carries a signed transaction when it
  encodes the selected option and the wire form of what the signer returned for that transaction.
\<close>

definition pays :: "('rpc, 'm, 'tx) fetch_env \<Rightarrow> address \<Rightarrow> PaymentRequirements \<Rightarrow> int \<Rightarrow> 'tx \<Rightarrow> bool" where
  "pays env payer selected n tx \<longleftrightarrow>
     (\<exists>msg ix. tx = cp_compile (fe_compose env) (cp_message (fe_compose env) msg)
        \<and> tm_feePayer msg = payer \<and> tm_instructions msg = [ix]
        \<and> transfer_of (transferToInspectable ix) = Some \<lparr>ti_mint = Some (pq_asset selected), ti_amount = n,
            ti_source = deriveAta (fe_pda env) (fe_enc env) payer (pq_asset selected),
            ti_destination = deriveAta (fe_pda env) (fe_enc env) (pq_payTo selected) (pq_asset selected),
            ti_authority = payer\<rparr>)"

definition carries :: "('rpc, 'm, 'tx) fetch_env \<Rightarrow> 'tx TransactionSigner \<Rightarrow> PaymentRequirements \<Rightarrow> 'tx \<Rightarrow> string \<Rightarrow> bool" where
  "carries env signer selected tx payload \<longleftrightarrow>
     (\<exists>members sign signedTx others.
        payload = base64Encode (fe_stringify env (JObject members))
        \<and> map_of members ''accepted'' = Some (pq_object selected)
        \<and> map_of members ''payload'' = Some (JObject [(''transaction'', JString (cp_wire64 (fe_compose env) signedTx))])
        \<and> Some sign \<in> {ts_modifyAndSignTransactions signer, ts_signTransactions signer}
        \<and> sign [tx] = Inr (Some (signedTx # others)))"

lemma payment_transaction_pays:
  assumes "0 < n" "n \<le> U64_MAX"
  shows "pays env payer selected n (payment_transaction env payer selected n bh)"
proof -
  have "is_u64 n" using assms by (simp add: is_u64_def)
  from x402_transfer_of [OF this] show ?thesis
    unfolding pays_def payment_transaction_def
    by (intro exI conjI) (rule refl, simp_all)
qed

lemma signed_payload_carries:
  assumes "signAndEncode (cp_wire64 (fe_compose env)) signer tx = Inr wire"
  shows "carries env signer selected tx (encodePaymentSignatureHeader env pd selected wire)"
proof -
  obtain sign signedTx others where
    s: "Some sign \<in> {ts_modifyAndSignTransactions signer, ts_signTransactions signer}"
      "sign [tx] = Inr (Some (signedTx # others))" "wire = cp_wire64 (fe_compose env) signedTx"
    using assms by (auto simp: signAndEncode_def lift_err_def split: option.splits list.splits sum.splits)
  show ?thesis
    unfolding carries_def encodePaymentSignatureHeader_def s(3)
    by (rule exI, rule exI [of _ sign], rule exI [of _ signedTx], rule exI [of _ others], intro conjI, rule refl)
      (use s(1,2) in \<open>simp_all split: option.split\<close>)
qed

text \<open>One signing request at most, and the payment sent with one to three requests that carry one payload.\<close>

lemma fetch_pay_cases:
  assumes "fetch_pay env signer config rpc options pd selected n s = (r, s')"
  obtains (no_payment) "quiet s s'"
    | (paying) bh payload k where "\<not> fo_dryRun options"
        "signed s' = signed s @ [payment_transaction env (ts_address signer) selected n bh]"
        "k \<le> 3" "paid_requests s' = paid_requests s @ replicate k payload"
        "0 < k \<Longrightarrow> carries env signer selected (payment_transaction env (ts_address signer) selected n bh) payload"
proof (cases "fo_dryRun options")
  case True
  then show ?thesis using assms no_payment by (simp add: fetch_pay_def sresult_def)
next
  case False
  let ?rpc = "effective_rpc rpc options"
  obtain x s1 where sg: "sign_payment env signer ?rpc selected n s = (x, s1)" by fastforce
  show ?thesis
  proof (cases rule: sign_payment_cases [OF sg])
    case (1 e)
    then have "s' = s" using assms sg False by (simp add: fetch_pay_def sbind_def)
    then show ?thesis using no_payment by simp
  next
    case (2 bh)
    let ?tx = "payment_transaction env (ts_address signer) selected n bh"
    have one: "signed s1 = signed s @ [?tx]" "paid_requests s1 = paid_requests s" using 2(1) by simp_all
    have "\<exists>payload. \<exists>k \<le> 3. signed s' = signed s1 \<and> paid_requests s' = paid_requests s1 @ replicate k payload
        \<and> (0 < k \<longrightarrow> carries env signer selected ?tx payload)"
    proof (cases x)
      case (Inl e)
      then have "s' = s1" using assms sg False by (simp add: fetch_pay_def sbind_def)
      then show ?thesis by (intro exI [of _ "[]"] exI [of _ 0]) simp
    next
      case (Inr wire)
      let ?p = "encodePaymentSignatureHeader env pd selected wire"
      have carry: "carries env signer selected ?tx ?p" by (rule signed_payload_carries) (rule 2(2) [OF Inr])
      obtain y s2 where rq: "fetch_request env 1 (Some ?p) s1 = (y, s2)" by fastforce
      note r1 = paid_request_adds [OF rq]
      show ?thesis
      proof (cases y)
        case (Inl e)
        then have "s' = s2" using assms sg rq Inr False by (simp add: fetch_pay_def sbind_def Let_def)
        then show ?thesis using r1 carry by (intro exI [of _ ?p] exI [of _ 1]) simp
      next
        case y: (Inr first)
        obtain z s3 where rt: "retry_loop env ?p 2 (nat (max_retries config - 1)) first s2 = (z, s3)" by fastforce
        then have "s' = s3" using assms sg rq Inr y False
          by (auto simp: fetch_pay_def sbind_def Let_def sresult_def split: sum.splits)
        moreover obtain k where "k \<le> nat (max_retries config - 1)" "signed s3 = signed s2"
          "paid_requests s3 = paid_requests s2 @ replicate k ?p"
          using retry_loop_adds [OF rt] by blast
        ultimately show ?thesis using r1 carry max_retries_bounds [of config]
          by (intro exI [of _ ?p] exI [of _ "Suc k"]) auto
      qed
    qed
    then show ?thesis using paying [OF False] one by (metis (no_types))
  qed
qed

section \<open>What was checked before a signature\<close>

lemma check_verdict: "shield_check ctx ixs a now = (Inr (allowed, vs), ctx') \<Longrightarrow> allowed \<longleftrightarrow> vs = []"
  by (auto simp: shield_check_def Let_def split: if_splits)

lemma evaluate_approves:
  assumes "evaluateX402Payment selected config (Some a) now ctx = (Inr [], ctx')"
    and "bigint_of_string (pq_amount selected) = Some n"
  shows "\<not> sc_paused ctx"
    and "a \<noteq> [] \<Longrightarrow> policy_allows ctx [synthetic_ix selected a] a now"
    and "Option.bind config xc_maxCumulativeSpend = Some limit \<Longrightarrow>
       getTotalSpendInWindow (sc_state ctx)
         (case Option.bind config xc_cumulativeWindowMs of None \<Rightarrow> 86400000 | Some w \<Rightarrow> w) now + n \<le> limit"
proof -
  show np: "\<not> sc_paused ctx"
    using assms(1) by (auto simp: evaluateX402Payment_def)
  show "policy_allows ctx [synthetic_ix selected a] a now" if signer: "a \<noteq> []"
  proof -
    obtain allowed vs c1 where c: "shield_check ctx [synthetic_ix selected a] a now = (Inr (allowed, vs), c1)" "allowed \<or> vs = []"
      using assms(1) np signer
      by (auto simp: evaluateX402Payment_def sbind_def sresult_def split: if_splits prod.splits sum.splits)
    then have allowed using check_verdict by blast
    with c(1) show ?thesis using check_allows [of ctx "[synthetic_ix selected a]" a now vs c1] by simp
  qed
  obtain v1 v2 where v: "cumulative_violation (sc_state ctx) config selected now = Inr v1" "v1 @ v2 = []"
    using assms(1) np
    by (auto simp: evaluateX402Payment_def sbind_eq_Inr split: if_splits prod.splits sum.splits)
  assume "Option.bind config xc_maxCumulativeSpend = Some limit"
  then show "getTotalSpendInWindow (sc_state ctx)
         (case Option.bind config xc_cumulativeWindowMs of None \<Rightarrow> 86400000 | Some w \<Rightarrow> w) now + n \<le> limit"
    using v assms(2) by (auto simp: cumulative_violation_def Let_def split: if_splits)
qed

lemma policy_check_Inr:
  assumes "policy_check clock config url a selected s = (Inr (), s')" and "fs_shield s = Some ctx"
  shows "\<exists>ctx'. evaluateX402Payment selected config (Some a) (fk_policy clock) ctx = (Inr [], ctx')"
  using assms
  by (auto simp: policy_check_def Let_def sbind_def sresult_def split: prod.splits sum.splits if_splits)

lemma amount_check_Inr:
  "amount_check recent config maxPayment selected = Inr n \<longleftrightarrow>
     validatePaymentAmount recent (pq_amount selected) config = Inr n
     \<and> (\<forall>limit. maxPayment = Some limit \<longrightarrow> n \<le> limit)"
  by (auto simp: amount_check_def split: option.splits)

text \<open>The checks of steps 1 to 12, of the state in which the call starts.\<close>

definition payment_checked ::
  "('rpc, 'm, 'tx) fetch_env \<Rightarrow> fetch_clock \<Rightarrow> address \<Rightarrow> string \<Rightarrow> X402Config option \<Rightarrow> 'rpc ShieldedFetchOptions
    \<Rightarrow> ('c, 'tx) FetchState \<Rightarrow> PaymentRequirements \<Rightarrow> int \<Rightarrow> bool" where
  "payment_checked env clock payer url config options s selected n \<longleftrightarrow>
     \<not> fo_dryRun options \<and> url_check config url = Inr ()
     \<and> (\<forall>hs k v. fo_headers options \<in> Some ` {HeadersObject hs, HeadersArray hs, HeadersRecord hs} \<longrightarrow>
          (k, v) \<in> set hs \<longrightarrow> toLowerCase k \<noteq> ''payment-signature'')
     \<and> selectable config selected
     \<and> bigint_of_string (pq_amount selected) = Some n \<and> 0 < n \<and> n \<le> U64_MAX
     \<and> (\<forall>limit. Option.bind config xc_maxPaymentPerRequest = Some limit \<longrightarrow> n \<le> limit)
     \<and> (\<forall>limit. fo_maxPayment options = Some limit \<longrightarrow> n \<le> limit)
     \<and> (3 \<le> length (fs_recent s) \<longrightarrow> 0 < getMedian (fs_recent s) \<longrightarrow> n \<le> 10 * getMedian (fs_recent s))
     \<and> (replay_protected config \<longrightarrow> \<not> fst (isDuplicate (fk_check clock)
          (buildKey (fe_noQuery env) url (pq_payTo selected) (pq_amount selected)) (fs_nonces s)))
     \<and> (\<forall>ctx. fs_shield s = Some ctx \<longrightarrow> \<not> sc_paused ctx
          \<and> (payer \<noteq> [] \<longrightarrow> policy_allows ctx [synthetic_ix selected payer] payer (fk_policy clock))
          \<and> (\<forall>limit. Option.bind config xc_maxCumulativeSpend = Some limit \<longrightarrow>
               getTotalSpendInWindow (sc_state ctx)
                 (case Option.bind config xc_cumulativeWindowMs of None \<Rightarrow> 86400000 | Some w \<Rightarrow> w)
                 (fk_policy clock) + n \<le> limit))"

lemma selected_facts:
  assumes "decodePaymentRequiredHeader parseJson header = Inr pd" and "selectPaymentOption pd config = Inr selected"
    and "bigint_of_string (pq_amount selected) = Some n"
  shows "selectable config selected \<and> n \<le> U64_MAX"
proof -
  have "selectable config selected" "selected \<in> set (pd_accepts pd)"
    using assms(2) by (auto simp: select_payment_find find_Some_iff)
  with decode_header_ok [OF assms(1)] assms(3) show ?thesis
    by (auto simp: entry_ok_def is_u64_def)
qed

lemma fetch_demand_inv:
  assumes "fetch_demand env clock signer url config rpc options header s = (r, s')"
  shows "quiet s s'
    \<or> (\<exists>pd selected n s1 s2. \<not> hasPaymentSignatureHeader (fo_headers options)
         \<and> decodePaymentRequiredHeader (fe_parseJson env) header = Inr pd
         \<and> selectPaymentOption pd config = Inr selected
         \<and> replay_check env clock config url selected s = (Inr (), s1)
         \<and> amount_check (fs_recent s1) config (fo_maxPayment options) selected = Inr n
         \<and> policy_check clock config url (ts_address signer) selected s1 = (Inr (), s2)
         \<and> fetch_pay env signer config rpc options pd selected n s2 = (r, s'))"
  using assms unfolding fetch_demand_def
proof (elim sbind_cases, goal_cases)
  case 1 then show ?case by (simp add: sresult_def)
next
  case 2 then show ?case by (simp add: sresult_def)
next
  case 3 then show ?case by (simp add: sresult_def)
next
  case 4 then show ?case by (simp add: replay_check_keeps)
next
  case 5 then show ?case by (auto dest!: replay_check_keeps(1))
next
  case (6 u s0 pd s00 selected s000 u' s1 n s1' e)
  then have "replay_check env clock config url selected s = (Inr u', s1)"
    "policy_check clock config url (ts_address signer) selected s1 = (Inl e, s')" by (auto simp: sresult_def)
  then have "quiet s s1" "quiet s1 s'" by (auto dest: replay_check_keeps(1) policy_check_keeps)
  then show ?case using quiet_trans [of s s1 s'] by simp
next
  case (7 u s0 pd s00 selected s000 u' s1 n s1' u'' s2)
  then have "replay_check env clock config url selected s = (Inr (), s1)" "s1' = s1" by (auto simp: sresult_def)
  with 7 show ?case by (auto simp: sresult_def)
qed

lemma no_payment_header:
  assumes "\<not> hasPaymentSignatureHeader hs" "hs \<in> Some ` {HeadersObject l, HeadersArray l, HeadersRecord l}" "(k, v) \<in> set l"
  shows "toLowerCase k \<noteq> ''payment-signature''"
  using assms by (auto simp: list_ex_iff)

lemma fetch_demand_cases:
  assumes "fetch_demand env clock signer url config rpc options header s = (r, s')" and "url_check config url = Inr ()"
  obtains (no_payment) "quiet s s'"
    | (paying) selected n bh payload k where "payment_checked env clock (ts_address signer) url config options s selected n"
        "signed s' = signed s @ [payment_transaction env (ts_address signer) selected n bh]"
        "k \<le> 3" "paid_requests s' = paid_requests s @ replicate k payload"
        "0 < k \<Longrightarrow> carries env signer selected (payment_transaction env (ts_address signer) selected n bh) payload"
  using fetch_demand_inv [OF assms(1)]
proof (elim disjE exE conjE)
  fix pd selected n s1 s2
  assume nh: "\<not> hasPaymentSignatureHeader (fo_headers options)"
    and d: "decodePaymentRequiredHeader (fe_parseJson env) header = Inr pd" "selectPaymentOption pd config = Inr selected"
    and rc: "replay_check env clock config url selected s = (Inr (), s1)"
    and ac: "amount_check (fs_recent s1) config (fo_maxPayment options) selected = Inr n"
    and pc: "policy_check clock config url (ts_address signer) selected s1 = (Inr (), s2)"
    and pay: "fetch_pay env signer config rpc options pd selected n s2 = (r, s')"
  note keep = replay_check_keeps [OF rc]
  have q: "quiet s s2" using keep(1) policy_check_keeps [OF pc] quiet_trans by blast
  have n: "bigint_of_string (pq_amount selected) = Some n" "0 < n"
    "\<And>limit. Option.bind config xc_maxPaymentPerRequest = Some limit \<Longrightarrow> n \<le> limit"
    "\<And>limit. fo_maxPayment options = Some limit \<Longrightarrow> n \<le> limit"
    "3 \<le> length (fs_recent s) \<Longrightarrow> 0 < getMedian (fs_recent s) \<Longrightarrow> n \<le> 10 * getMedian (fs_recent s)"
    using ac keep(1) by (simp_all add: amount_check_Inr validate_amount_Inr)
  have shield: "\<not> sc_paused ctx
      \<and> (ts_address signer \<noteq> [] \<longrightarrow> policy_allows ctx [synthetic_ix selected (ts_address signer)] (ts_address signer) (fk_policy clock))
      \<and> (\<forall>limit. Option.bind config xc_maxCumulativeSpend = Some limit \<longrightarrow>
      getTotalSpendInWindow (sc_state ctx) (case Option.bind config xc_cumulativeWindowMs of None \<Rightarrow> 86400000 | Some w \<Rightarrow> w)
        (fk_policy clock) + n \<le> limit)" if sh: "fs_shield s = Some ctx" for ctx
  proof -
    obtain ctx' where ev: "evaluateX402Payment selected config (Some (ts_address signer)) (fk_policy clock) ctx = (Inr [], ctx')"
      using policy_check_Inr [OF pc, of ctx] keep(1) sh by metis
    show ?thesis using evaluate_approves [OF ev n(1)] by blast
  qed
  show thesis
  proof (cases rule: fetch_pay_cases [OF pay])
    case 1
    then show thesis using no_payment q quiet_trans by blast
  next
    case (2 bh payload k)
    have "payment_checked env clock (ts_address signer) url config options s selected n"
      unfolding payment_checked_def
      using 2(1) assms(2) selected_facts [OF d n(1)] n keep(2) shield no_payment_header [OF nh] by blast
    then show thesis
      by (rule paying [where selected = selected and n = n and bh = bh and payload = payload and k = k, OF _ _ 2(3)])
        (use 2(2,4,5) q in \<open>simp_all add: quiet_def\<close>)
  qed
qed (rule no_payment)

lemma fetch_start_cases:
  assumes "fetch_start env clock signer url config rpc options s = (r, s')"
  obtains (no_payment) "quiet s s'"
    | (paying) selected n bh payload k where "payment_checked env clock (ts_address signer) url config options s selected n"
        "signed s' = signed s @ [payment_transaction env (ts_address signer) selected n bh]"
        "k \<le> 3" "paid_requests s' = paid_requests s @ replicate k payload"
        "0 < k \<Longrightarrow> carries env signer selected (payment_transaction env (ts_address signer) selected n bh) payload"
  using assms unfolding fetch_start_def
proof (elim sbind_cases, goal_cases)
  case (4 _ s0 _ s1 response s2)
  then have url: "url_check config url = Inr ()" and s1: "s1 = config_warning config s" by (auto simp: sresult_def)
  have q: "quiet s s2 \<and> fs_nonces s2 = fs_nonces s \<and> fs_recent s2 = fs_recent s \<and> fs_shield s2 = fs_shield s"
    using first_request_keeps [OF 4(5)] quiet_trans [of s s1 s2] by (simp add: s1)
  show ?case
  proof (cases "\<exists>h. fetch_demand env clock signer url config rpc options h s2 = (r, s')")
    case True
    then obtain h where h: "fetch_demand env clock signer url config rpc options h s2 = (r, s')" by blast
    show ?thesis
    proof (cases rule: fetch_demand_cases [OF h url])
      case 1
      then show ?thesis using 4(1) q quiet_trans by blast
    next
      case (2 selected n bh payload k)
      show ?thesis
        by (rule 4(2) [where selected = selected and n = n and bh = bh and payload = payload and k = k, OF _ _ 2(3)])
          (use 2(1,2,4,5) q in \<open>simp_all add: quiet_def payment_checked_def\<close>)
    qed
  next
    case False
    then have "s' = s2" using 4(6) by (auto simp: sresult_def split: if_splits option.splits list.splits)
    then show ?thesis using 4(1) q by simp
  qed
next
  case (3 _ s0 _ s1 e)
  then have "fetch_request env 0 None (config_warning config s) = (Inl e, s')" by (auto simp: sresult_def)
  then have "quiet (config_warning config s) s'" by (auto dest: first_request_keeps)
  then show ?case using 3(1) quiet_trans [OF config_warning_keeps(1)] by blast
qed (auto simp: sresult_def)

section \<open>After the payment\<close>

lemma read_settlement_keeps:
  "quiet s (snd (read_settlement env resp s))" "fs_nonces (snd (read_settlement env resp s)) = fs_nonces s"
  "fs_recent (snd (read_settlement env resp s)) = fs_recent s" "fs_shield (snd (read_settlement env resp s)) = fs_shield s"
  by (auto simp: read_settlement_def quiet_def split: option.split list.split sum.split)

lemma mismatch_event_keeps:
  assumes "mismatch_event clock config url p settlement s = (r, s')"
  shows "quiet s s' \<and> fs_nonces s' = fs_nonces s \<and> fs_recent s' = fs_recent s \<and> fs_shield s' = fs_shield s"
  using assms by (simp add: mismatch_event_def sresult_def emit_keeps split: if_splits)

lemma record_keeps [simp]:
  "quiet s (record_payment env clock config url p s)" "quiet s (confirm_warning status s)"
  "quiet s (record_spend_unless clock status p s)"
  "fs_nonces (confirm_warning status s) = fs_nonces s" "fs_nonces (record_spend_unless clock status p s) = fs_nonces s"
  by (auto simp: record_payment_def confirm_warning_def record_spend_unless_def quiet_def Let_def
      split: option.split settle_status.split)

lemmas record_quiet = record_keeps(1-3) [unfolded quiet_def]

lemma fetch_settle_quiet:
  assumes "fetch_settle env clock url config rpc p s = Some (r, s')"
  shows "quiet s s'"
proof -
  obtain settlement s1 where rs: "read_settlement env (pm_response p) s = (settlement, s1)" by fastforce
  obtain x s2 where me: "mismatch_event clock config url p settlement s1 = (x, s2)" by fastforce
  have q2: "quiet s s2"
    using read_settlement_keeps(1) [of s env "pm_response p"] mismatch_event_keeps [OF me] rs quiet_trans by auto
  have ev: "quiet s3 s4" if "sbind (emitPaymentEvent config e) (\<lambda>_. sresult (Inr y)) s3 = (r', s4)" for e y s3 r' s4
    using that by (auto simp: sbind_def sresult_def dest: emit_keeps split: prod.splits sum.splits)
  have last: "quiet s2 s'" if "x = Inr ()"
  proof (cases "hr_ok (pm_response p)")
    case True
    then show ?thesis
      using assms that rs me
      by (auto simp: fetch_settle_def Let_def quiet_def record_quiet split: option.splits sum.splits
          dest!: ev [unfolded quiet_def])
  next
    case False
    then show ?thesis using assms that rs me ev by (auto simp: fetch_settle_def Let_def)
  qed
  show ?thesis
  proof (cases x)
    case (Inl e)
    then show ?thesis using assms rs me q2 by (simp add: fetch_settle_def)
  next
    case (Inr u)
    then show ?thesis using last q2 quiet_trans by simp
  qed
qed

text \<open>The tracker between the start and the end of a call: expired entries may have been collected.\<close>

definition collected :: "msecs \<Rightarrow> ('c, 'tx) FetchState \<Rightarrow> ('c, 'tx) FetchState \<Rightarrow> bool" where
  "collected now s s' \<longleftrightarrow> fs_nonces s' = fs_nonces s \<or> fs_nonces s' = nonce_gc now (fs_nonces s)"

lemma sign_payment_keeps:
  "sign_payment env signer rpc selected n s = (r, s') \<Longrightarrow>
     fs_nonces s' = fs_nonces s \<and> fs_recent s' = fs_recent s \<and> fs_shield s' = fs_shield s"
  by (auto simp: sign_payment_def Let_def split: option.splits sum.splits)

lemma fetch_request_keeps:
  "fetch_request env n p s = (r, s') \<Longrightarrow>
     fs_nonces s' = fs_nonces s \<and> fs_recent s' = fs_recent s \<and> fs_shield s' = fs_shield s"
  by (auto simp: fetch_request_def)

lemma fetch_request_plain: "fetch_request env n p s = (Inr r, s') \<Longrightarrow> hr_x402 r = None"
  by (auto simp: fetch_request_def split: sum.splits)

lemma retry_loop_keeps:
  assumes "retry_loop env p n left resp s = (r, s')"
  shows "fs_nonces s' = fs_nonces s \<and> fs_recent s' = fs_recent s \<and> fs_shield s' = fs_shield s"
  using assms
proof (induction left arbitrary: n resp s)
  case (Suc left)
  then show ?case
    by (auto split: if_splits prod.splits sum.splits dest!: fetch_request_keeps)
qed simp

lemma fetch_pay_keeps:
  assumes "fetch_pay env signer config rpc options pd selected n s = (r, s')"
  shows "fs_nonces s' = fs_nonces s \<and> fs_recent s' = fs_recent s \<and> fs_shield s' = fs_shield s"
proof (cases "fo_dryRun options")
  case False
  with assms show ?thesis
    unfolding fetch_pay_def Let_def
    by (auto elim!: sbind_cases simp: sresult_def dest!: sign_payment_keeps fetch_request_keeps retry_loop_keeps)
qed (use assms in \<open>simp add: fetch_pay_def sresult_def\<close>)

lemma fetch_pay_Return:
  assumes "fetch_pay env signer config rpc options pd selected n s = (Inr (Return resp), s')"
  shows "\<exists>x. hr_x402 resp = Some x \<and> \<not> xr_paid x \<and> fo_dryRun options"
  using assms by (auto simp: fetch_pay_def sbind_eq_Inr Let_def sresult_def split: if_splits)

lemma fetch_pay_Paid:
  assumes "fetch_pay env signer config rpc options pd selected n s = (Inr (Paid p), s')"
  shows "pm_selected p = selected \<and> pm_amount p = n"
  using assms by (auto simp: fetch_pay_def sbind_eq_Inr Let_def sresult_def split: if_splits)

lemma policy_check_state:
  assumes "policy_check clock config url a selected s = (r, s')"
  shows "fs_nonces s' = fs_nonces s \<and> fs_recent s' = fs_recent s"
  using assms
  by (auto simp: policy_check_def Let_def sbind_def sresult_def dest!: emit_keeps
      split: option.splits prod.splits sum.splits if_splits)

lemma replay_check_collects: "replay_check env clock config url selected s = (r, s') \<Longrightarrow> collected (fk_check clock) s s'"
  by (auto simp: replay_check_def checkOrThrow_def collected_def isDuplicate_def Let_def split: prod.splits if_splits)

lemma fetch_demand_collects:
  assumes "fetch_demand env clock signer url config rpc options h s = (r, s')"
  shows "collected (fk_check clock) s s' \<and> fs_recent s' = fs_recent s"
  using assms unfolding fetch_demand_def
proof (elim sbind_cases, goal_cases)
  case 4
  then show ?case by (auto simp: sresult_def dest: replay_check_collects replay_check_keeps(1))
next
  case 5
  then show ?case by (auto simp: sresult_def dest: replay_check_collects replay_check_keeps(1))
next
  case (6 u s0 pd s00 selected s000 u' s1 n s1' e)
  then have "replay_check env clock config url selected s = (Inr u', s1)"
    "policy_check clock config url (ts_address signer) selected s1 = (Inl e, s')" by (auto simp: sresult_def)
  then show ?case
    using replay_check_collects replay_check_keeps(1) policy_check_state by (metis collected_def)
next
  case (7 u s0 pd s00 selected s000 u' s1 n s1' u'' s2)
  then have "replay_check env clock config url selected s = (Inr u', s1)"
    "policy_check clock config url (ts_address signer) selected s1 = (Inr u'', s2)"
    "fetch_pay env signer config rpc options pd selected n s2 = (r, s')" by (auto simp: sresult_def)
  then show ?case
    using replay_check_collects replay_check_keeps(1) policy_check_state fetch_pay_keeps by (metis collected_def)
qed (simp_all add: sresult_def collected_def)

lemma fetch_start_collects:
  assumes "fetch_start env clock signer url config rpc options s = (r, s')"
  shows "collected (fk_check clock) s s' \<and> fs_recent s' = fs_recent s"
  using assms unfolding fetch_start_def
proof (elim sbind_cases, goal_cases)
  case (4 _ s0 _ s1 response s2)
  then have "fs_nonces s2 = fs_nonces s \<and> fs_recent s2 = fs_recent s"
    by (auto simp: sresult_def dest!: fetch_request_keeps)
  moreover have "s' = s2 \<or> (\<exists>h. fetch_demand env clock signer url config rpc options h s2 = (r, s'))"
    using 4(4) by (auto simp: sresult_def split: if_splits option.splits list.splits)
  ultimately show ?case by (auto simp: collected_def dest!: fetch_demand_collects)
qed (auto simp: sresult_def collected_def dest!: fetch_request_keeps)

lemma fetch_start_Return_unpaid:
  assumes "fetch_start env clock signer url config rpc options s = (Inr (Return resp), s')" and "hr_x402 resp = Some x"
  shows "\<not> xr_paid x"
  using assms(1) unfolding fetch_start_def
proof (elim sbind_cases, goal_cases)
  case (4 _ s0 _ s1 response s2)
  have plain: "hr_x402 response = None" using fetch_request_plain 4(3) .
  have "resp \<noteq> response" using plain assms(2) by auto
  then obtain h where "fetch_demand env clock signer url config rpc options h s2 = (Inr (Return resp), s')"
    using 4(4) by (auto simp: sresult_def split: if_splits option.splits list.splits)
  then show ?case
    using assms(2) by (auto simp: fetch_demand_def sbind_eq_Inr dest!: fetch_pay_Return)
qed simp_all

lemma fetch_settle_Inr:
  assumes "fetch_settle env clock url config rpc p s = Some (Inr resp, s')"
  obtains settlement where "resp = payment_result p (hr_ok (pm_response p)) settlement"
    "\<not> hr_ok (pm_response p) \<Longrightarrow> fs_nonces s' = fs_nonces s \<and> fs_recent s' = fs_recent s \<and> fs_shield s' = fs_shield s"
    "hr_ok (pm_response p) \<Longrightarrow> replay_protected config \<Longrightarrow> fs_nonces s' = nonce_record (fk_record clock)
        (buildKey (fe_noQuery env) url (pq_payTo (pm_selected p)) (pq_amount (pm_selected p))) (fs_nonces s)"
proof -
  obtain settlement s1 where rs: "read_settlement env (pm_response p) s = (settlement, s1)" by fastforce
  obtain x s2 where me: "mismatch_event clock config url p settlement s1 = (x, s2)" by fastforce
  have k: "fs_nonces s2 = fs_nonces s \<and> fs_recent s2 = fs_recent s \<and> fs_shield s2 = fs_shield s"
    using read_settlement_keeps(2-4) [of env "pm_response p" s] mismatch_event_keeps [OF me] rs by simp
  have x: "x = Inr ()" using assms rs me by (cases x) (simp_all add: fetch_settle_def)
  have ev: "r = Inr y' \<Longrightarrow> y' = y \<and> fs_nonces s4 = fs_nonces s3 \<and> fs_recent s4 = fs_recent s3 \<and> fs_shield s4 = fs_shield s3"
    if "sbind (emitPaymentEvent config e) (\<lambda>_. sresult (Inr y)) s3 = (r, s4)" for e y y' s3 s4 and r :: "(x402_error, Response) result"
    using that by (auto simp: sbind_def sresult_def dest: emit_keeps split: prod.splits sum.splits)
  show thesis
  proof (cases "hr_ok (pm_response p)")
    case True
    let ?s3 = "record_payment env clock config url p s2"
    obtain status where "sbind (emitPaymentEvent config (createPaymentEvent clock url (pm_selected p) True None settlement
          (Some (buildKey (fe_noQuery env) url (pq_payTo (pm_selected p)) (pq_amount (pm_selected p))))))
        (\<lambda>_. sresult (Inr (payment_result p True settlement)))
        (record_spend_unless clock status p (confirm_warning status ?s3)) = (Inr resp, s')"
      using assms rs me x True by (auto simp: fetch_settle_def Let_def split: option.splits sum.splits)
    from ev [OF this refl] have "resp = payment_result p True settlement" "fs_nonces s' = fs_nonces ?s3" by simp_all
    then show thesis using that [of settlement] True k by (simp add: record_payment_def Let_def)
  next
    case False
    then have "sbind (emitPaymentEvent config (createPaymentEvent clock url (pm_selected p) False
          (Some (ServerReturned (hr_status (pm_response p)))) None None))
        (\<lambda>_. sresult (Inr (payment_result p False settlement))) s2 = (Inr resp, s')"
      using assms rs me x by (simp add: fetch_settle_def Let_def)
    from ev [OF this refl] show thesis using that [of settlement] False k by simp
  qed
qed

lemma xr_payment_result:
  "hr_x402 (payment_result p b settlement) = Some x \<Longrightarrow>
     xr_paid x = b \<and> xr_payTo x = pq_payTo (pm_selected p) \<and> xr_amountPaid x = pq_amount (pm_selected p)"
  by (auto simp: payment_result_def)

lemma shieldedFetch_paid:
  assumes "shieldedFetch env clock signer url config rpc options s = Some (Inr resp, s')"
    and "hr_x402 resp = Some x" and "xr_paid x" and "replay_protected config"
  shows "\<exists>t. (t = fs_nonces s \<or> t = nonce_gc (fk_check clock) (fs_nonces s))
     \<and> fs_nonces s' = nonce_record (fk_record clock) (buildKey (fe_noQuery env) url (xr_payTo x) (xr_amountPaid x)) t"
proof -
  obtain r s1 where st: "fetch_start env clock signer url config rpc options s = (r, s1)" by fastforce
  obtain p where p: "r = Inr (Paid p)"
    using assms(1-3) st fetch_start_Return_unpaid [of env clock signer url config rpc options s resp s1]
    by (auto simp: shieldedFetch_def split: sum.splits fetch_phase.splits)
  have settle: "fetch_settle env clock url config (effective_rpc rpc options) p s1 = Some (Inr resp, s')"
    using assms(1) st p by (simp add: shieldedFetch_def)
  obtain settlement where f: "resp = payment_result p (hr_ok (pm_response p)) settlement"
    "hr_ok (pm_response p) \<Longrightarrow> replay_protected config \<Longrightarrow> fs_nonces s' = nonce_record (fk_record clock)
        (buildKey (fe_noQuery env) url (pq_payTo (pm_selected p)) (pq_amount (pm_selected p))) (fs_nonces s1)"
    using fetch_settle_Inr [OF settle] by metis
  have "hr_ok (pm_response p)" "xr_payTo x = pq_payTo (pm_selected p)" "xr_amountPaid x = pq_amount (pm_selected p)"
    using xr_payment_result [of p "hr_ok (pm_response p)" settlement x] f(1) assms(2,3) by simp_all
  then show ?thesis
    using f(2) assms(4) fetch_start_collects [OF st] by (intro exI [of _ "fs_nonces s1"]) (simp add: collected_def)
qed

text \<open>What a call leaves in the tracker, whatever its outcome: expired entries collected, at most one entry added.\<close>

lemma fetch_settle_nonces:
  assumes "fetch_settle env clock url config rpc p s = Some (r, s')"
  shows "fs_nonces s' = fs_nonces s \<or> (\<exists>k. fs_nonces s' = nonce_record (fk_record clock) k (fs_nonces s))"
proof -
  obtain settlement s1 where rs: "read_settlement env (pm_response p) s = (settlement, s1)" by fastforce
  obtain x s2 where me: "mismatch_event clock config url p settlement s1 = (x, s2)" by fastforce
  have k: "fs_nonces s2 = fs_nonces s"
    using read_settlement_keeps(2) [of env "pm_response p" s] mismatch_event_keeps [OF me] rs by simp
  have ev: "fs_nonces s4 = fs_nonces s3" if "sbind (emitPaymentEvent config e) (\<lambda>_. sresult (Inr y)) s3 = (r', s4)" for e y s3 r' s4
    using that by (auto simp: sbind_def sresult_def dest: emit_keeps split: prod.splits sum.splits)
  have rec: "fs_nonces (record_payment env clock config url p s2) = fs_nonces s
      \<or> (\<exists>k. fs_nonces (record_payment env clock config url p s2) = nonce_record (fk_record clock) k (fs_nonces s))"
    using k by (auto simp: record_payment_def Let_def)
  show ?thesis
    using assms rs me k rec
    by (auto simp: fetch_settle_def Let_def split: sum.splits if_splits option.splits dest!: ev)
qed

lemma shieldedFetch_nonces:
  assumes "shieldedFetch env clock signer url config rpc options s = Some (r, s')"
  shows "\<exists>t. (t = fs_nonces s \<or> t = nonce_gc (fk_check clock) (fs_nonces s))
     \<and> (fs_nonces s' = t \<or> (\<exists>k. fs_nonces s' = nonce_record (fk_record clock) k t))"
proof -
  obtain q s1 where st: "fetch_start env clock signer url config rpc options s = (q, s1)" by fastforce
  have "fs_nonces s' = fs_nonces s1 \<or> (\<exists>k. fs_nonces s' = nonce_record (fk_record clock) k (fs_nonces s1))"
    using assms st by (auto simp: shieldedFetch_def split: sum.splits fetch_phase.splits dest!: fetch_settle_nonces)
  then show ?thesis using fetch_start_collects [OF st] by (auto simp: collected_def)
qed

lemma shieldedFetch_signs:
  assumes "shieldedFetch env clock signer url config rpc options s = Some (r, s')"
    and "signed s = []" and "paid_requests s = []" and "signed s' \<noteq> []"
  shows "\<exists>selected n tx payload k. payment_checked env clock (ts_address signer) url config options s selected n
     \<and> signed s' = [tx] \<and> pays env (ts_address signer) selected n tx
     \<and> k \<le> 3 \<and> paid_requests s' = replicate k payload \<and> (0 < k \<longrightarrow> carries env signer selected tx payload)"
proof -
  obtain q s1 where st: "fetch_start env clock signer url config rpc options s = (q, s1)" by fastforce
  have q: "quiet s1 s'"
    using assms(1) st by (auto simp: shieldedFetch_def split: sum.splits fetch_phase.splits dest: fetch_settle_quiet)
  from st show ?thesis
  proof (cases rule: fetch_start_cases)
    case no_payment
    then show ?thesis using q assms(2,4) by (simp add: quiet_def)
  next
    case (paying selected n bh payload k)
    have "pays env (ts_address signer) selected n (payment_transaction env (ts_address signer) selected n bh)"
      using paying(1) by (intro payment_transaction_pays) (simp_all add: payment_checked_def)
    then show ?thesis
      using q assms(2,3) paying
      by (intro exI [of _ selected] exI [of _ n] exI [of _ "payment_transaction env (ts_address signer) selected n bh"]
          exI [of _ payload] exI [of _ k]) (auto simp: quiet_def)
  qed
qed

section \<open>Sequences of calls\<close>

text \<open>
  Calls one after the other over the module's tracker and payment history, each with its own environment, clock, signer,
  address, configuration and shield.
\<close>

record ('rpc, 'm, 'c, 'tx) fetch_call =
  fc_env :: "('rpc, 'm, 'tx) fetch_env"
  fc_clock :: fetch_clock
  fc_signer :: "'tx TransactionSigner"
  fc_url :: string
  fc_config :: "X402Config option"
  fc_rpc :: "'rpc option"
  fc_options :: "'rpc ShieldedFetchOptions"
  fc_shield :: "'c ShieldedContext option"

definition run_call :: "('rpc, 'm, 'c, 'tx) fetch_call \<Rightarrow> ('c, 'tx) FetchState
    \<Rightarrow> ((x402_error, Response) result \<times> ('c, 'tx) FetchState) option" where
  "run_call c s = shieldedFetch (fc_env c) (fc_clock c) (fc_signer c) (fc_url c) (fc_config c) (fc_rpc c) (fc_options c)
     (s\<lparr>fs_shield := fc_shield c, fs_effects := []\<rparr>)"

fun run_calls :: "('rpc, 'm, 'c, 'tx) fetch_call list \<Rightarrow> ('c, 'tx) FetchState \<Rightarrow> ('c, 'tx) FetchState option" where
  "run_calls [] s = Some s"
| "run_calls (c # cs) s = (case run_call c s of None \<Rightarrow> None | Some (_, s') \<Rightarrow> run_calls cs s')"

text \<open>An entry of the tracker outlives every call that neither runs after the entry expires nor records before it was made.\<close>

definition remembers :: "string \<Rightarrow> msecs \<Rightarrow> msecs \<Rightarrow> unit NonceTracker \<Rightarrow> bool" where
  "remembers key now ttl t \<longleftrightarrow> nonce_wf t \<and> nt_ttlMs t = ttl \<and> fst (isDuplicate now key t)"

lemma remembers_step:
  assumes "remembers key now ttl t" and "t1 = t \<or> t1 = nonce_gc check t" and "check \<le> now"
    and "t2 = t1 \<or> (\<exists>k. t2 = nonce_record made k t1)" and "now \<le> made + ttl"
  shows "remembers key now ttl t2"
proof -
  have 1: "remembers key now ttl t1"
    using assms(1-3) nonce.ask_keeps [of t check now key key] by (auto simp: remembers_def nonce_gc_wf)
  have "remembers key now ttl (nonce_record made k t1)" for k
    using 1 assms(5) nonce.ask_remember [of t1 now key made k] by (auto simp: remembers_def nonce_record_wf)
  then show ?thesis using 1 assms(4) by auto
qed

lemma run_calls_remember:
  assumes "run_calls calls s = Some s'" "remembers key now ttl (fs_nonces s)"
    and "\<And>c. c \<in> set calls \<Longrightarrow> fk_check (fc_clock c) \<le> now \<and> now \<le> fk_record (fc_clock c) + ttl"
  shows "remembers key now ttl (fs_nonces s')"
  using assms
proof (induction calls arbitrary: s)
  case (Cons c calls)
  obtain r s1 where c: "run_call c s = Some (r, s1)" "run_calls calls s1 = Some s'"
    using Cons.prems(1) by (auto split: option.splits)
  obtain t where t: "t = fs_nonces s \<or> t = nonce_gc (fk_check (fc_clock c)) (fs_nonces s)"
    "fs_nonces s1 = t \<or> (\<exists>k. fs_nonces s1 = nonce_record (fk_record (fc_clock c)) k t)"
    using shieldedFetch_nonces [OF c(1) [unfolded run_call_def]] by auto
  have "remembers key now ttl (fs_nonces s1)"
    using Cons.prems(3) [of c] by (intro remembers_step [OF Cons.prems(2) t(1) _ t(2)]) simp_all
  from Cons.IH [OF c(2) this] Cons.prems(3) show ?case by simp
qed simp

section \<open>A sample run\<close>

text \<open>A shop asks for 250 base units of USDC and answers the paid request with \<open>status\<close>.\<close>

definition shop_demand :: json where
  "shop_demand = JObject [(''x402Version'', JNumber 2), (''accepts'', JArray [JObject
     [(''scheme'', JString ''exact''), (''network'', JString ''solana:main''), (''asset'', JString ''USDC''),
      (''amount'', JString ''250''), (''payTo'', JString ''shop'')]])]"

definition sample_fetch_env :: "int \<Rightarrow> (unit, nat, bytes) fetch_env" where
  "sample_fetch_env status =
     \<lparr>fe_pda = (\<lambda>_ _. (''ata'', 255)), fe_enc = (\<lambda>_. []), fe_parseJson = (\<lambda>_. Some shop_demand),
      fe_stringify = (\<lambda>_. ''{}''), fe_noQuery = Some, fe_base58 = (\<lambda>_. ''sig''),
      fe_compose = sample_compose_env,
      fe_blockhash = (\<lambda>_. Inr \<lparr>bh_blockhash = ''H'', bh_lastValidBlockHeight = 100\<rparr>),
      fe_fetch = (\<lambda>n. Inr (if n = 0 then (402, [(''payment-required'', ''AAAA'')]) else (status, []))),
      fe_poll = (\<lambda>_. sample_poll)\<rparr>"

definition shop_clock :: "msecs \<Rightarrow> fetch_clock" where
  "shop_clock t = \<lparr>fk_start = t, fk_check = t, fk_policy = t, fk_event = t, fk_record = t, fk_confirm = t, fk_spend = t\<rparr>"

definition shop_signer :: "bytes TransactionSigner" where
  "shop_signer = \<lparr>ts_address = ''me'', ts_modifyAndSignTransactions = None, ts_signTransactions = Some (\<lambda>txs. Inr (Some txs))\<rparr>"

definition sample_fetch_options :: "unit ShieldedFetchOptions" where
  "sample_fetch_options = \<lparr>fo_headers = None, fo_rpc = None, fo_dryRun = False, fo_maxPayment = None\<rparr>"

definition sample_fetch_state :: "(unit, bytes) FetchState" where
  "sample_fetch_state = \<lparr>fs_nonces = new_NonceTracker None None, fs_recent = [], fs_shield = None, fs_effects = []\<rparr>"

definition shop_run :: "int \<Rightarrow> ((x402_error, Response) result \<times> (unit, bytes) FetchState) option" where
  "shop_run status =
     shieldedFetch (sample_fetch_env status) (shop_clock 1000) shop_signer ''https://shop'' None (Some ())
       sample_fetch_options sample_fetch_state"

section \<open>Properties\<close>

text \<open>
  C9. \<open>shieldedFetch\<close> asks for at most one signature per call, and only for the transfer of a payment that
  passed every check of the flow: an HTTPS address (or one the configuration allows), not a dry run, no payment header on the
  request already (the loop guard), a Solana option whose token and
  destination the configuration allows, an amount that is a positive u64 within the per-request
  ceiling, the caller's maximum and ten times the median of recent payments, no replay where replay protection is on,
  and, where a shield is given, one that is not paused, has room for it in its cumulative window and whose policy check
  allows it. The signed transaction is one transfer of exactly that amount of the asset to the destination's
  token account; it leaves in at most three requests, all with one payload, which carries that signed transaction.
\<close>
theorem x402_signs_only_checked_payments:
  assumes "shieldedFetch env clock signer url config rpc options s = Some (r, s')"
    and "signed s = []" and "paid_requests s = []"
  shows "signed s' = [] \<and> paid_requests s' = []
     \<or> (\<exists>selected n tx payload k. payment_checked env clock (ts_address signer) url config options s selected n
          \<and> signed s' = [tx] \<and> pays env (ts_address signer) selected n tx
          \<and> k \<le> 3 \<and> paid_requests s' = replicate k payload \<and> (0 < k \<longrightarrow> carries env signer selected tx payload))"
proof (cases "signed s' = []")
  case True
  obtain q s1 where st: "fetch_start env clock signer url config rpc options s = (q, s1)" by fastforce
  have q: "quiet s1 s'"
    using assms(1) st by (auto simp: shieldedFetch_def split: sum.splits fetch_phase.splits dest: fetch_settle_quiet)
  from st show ?thesis
    by (cases rule: fetch_start_cases) (use q True assms(2,3) in \<open>auto simp: quiet_def\<close>)
qed (use shieldedFetch_signs [OF assms] in blast)

lemma ran: "\<not> Option.is_none x \<Longrightarrow> x = Some (fst (the x), snd (the x))"
  by (cases x) simp_all

theorem x402_signs_only_checked_payments_witness:
  "\<exists>selected n tx payload.
     payment_checked (sample_fetch_env 200) (shop_clock 1000) ''me'' ''https://shop'' None sample_fetch_options sample_fetch_state selected n
     \<and> signed (snd (the (shop_run 200))) = [tx] \<and> pays (sample_fetch_env 200) ''me'' selected n tx
     \<and> paid_requests (snd (the (shop_run 200))) = [payload]
     \<and> carries (sample_fetch_env 200) shop_signer selected tx payload"
proof -
  have run: "\<not> Option.is_none (shop_run 200)" by code_simp
  have one: "signed (snd (the (shop_run 200))) \<noteq> []" "length (paid_requests (snd (the (shop_run 200)))) = 1" by code_simp+
  have zero: "signed sample_fetch_state = []" "paid_requests sample_fetch_state = []" by code_simp+
  have me: "ts_address shop_signer = ''me''" by (simp add: shop_signer_def)
  from run have "shieldedFetch (sample_fetch_env 200) (shop_clock 1000) shop_signer ''https://shop'' None (Some ())
      sample_fetch_options sample_fetch_state = Some (fst (the (shop_run 200)), snd (the (shop_run 200)))"
    unfolding shop_run_def by (rule ran)
  from x402_signs_only_checked_payments [OF this zero] one(1)
  obtain selected n tx payload k where h:
    "payment_checked (sample_fetch_env 200) (shop_clock 1000) ''me'' ''https://shop'' None sample_fetch_options sample_fetch_state selected n"
    "signed (snd (the (shop_run 200))) = [tx]" "pays (sample_fetch_env 200) ''me'' selected n tx"
    "paid_requests (snd (the (shop_run 200))) = replicate k payload"
    "0 < k \<longrightarrow> carries (sample_fetch_env 200) shop_signer selected tx payload"
    unfolding me by blast
  have "k = 1" using one(2) h(4) by simp
  with h show ?thesis by (intro exI [of _ selected] exI [of _ n] exI [of _ tx] exI [of _ payload]) simp
qed

text \<open>
  C10. A payment reported as paid is not made again within the replay window: with replay protection on for both calls,
  whatever calls (paid, refused or failed, to any address) come in between, when a later call for the same
  address asks for a signature, it is for another destination or amount, or the first payment was
  recorded longer ago than the window. The clock does not go back: the calls in between record no earlier than the first
  and check no later than the last.
\<close>
theorem x402_no_double_payment:
  assumes "run_call first s = Some (Inr resp, s1)" and "hr_x402 resp = Some x" and "xr_paid x"
    and "replay_protected (fc_config first)" and "nonce_wf (fs_nonces s)"
    and "run_calls calls s1 = Some s2"
    and "\<And>c. c \<in> set calls \<Longrightarrow> fk_record (fc_clock first) \<le> fk_record (fc_clock c) \<and> fk_check (fc_clock c) \<le> fk_check (fc_clock later)"
    and "run_call later s2 = Some (r3, s3)" and "replay_protected (fc_config later)" and "signed s3 \<noteq> []"
    and "fc_url later = fc_url first" and "fe_noQuery (fc_env later) = fe_noQuery (fc_env first)"
  shows "\<exists>selected n tx. signed s3 = [tx] \<and> pays (fc_env later) (ts_address (fc_signer later)) selected n tx
     \<and> (pq_payTo selected \<noteq> xr_payTo x \<or> pq_amount selected \<noteq> xr_amountPaid x
          \<or> fk_record (fc_clock first) + nt_ttlMs (fs_nonces s) < fk_check (fc_clock later))"
proof -
  let ?key = "buildKey (fe_noQuery (fc_env first)) (fc_url first) (xr_payTo x) (xr_amountPaid x)"
  let ?now = "fk_check (fc_clock later)" and ?ttl = "nt_ttlMs (fs_nonces s)"
  let ?start = "s2\<lparr>fs_shield := fc_shield later, fs_effects := []\<rparr>"
  have start: "signed ?start = []" "paid_requests ?start = []"
    by (simp_all add: signed_def paid_requests_def map_filter_simps)
  obtain selected n tx where c: "payment_checked (fc_env later) (fc_clock later) (ts_address (fc_signer later)) (fc_url later)
        (fc_config later) (fc_options later) ?start selected n"
    and sg: "signed s3 = [tx]" "pays (fc_env later) (ts_address (fc_signer later)) selected n tx"
    using shieldedFetch_signs [OF assms(8) [unfolded run_call_def] start assms(10)] by blast
  have fresh: "\<not> fst (isDuplicate ?now
      (buildKey (fe_noQuery (fc_env first)) (fc_url first) (pq_payTo selected) (pq_amount selected)) (fs_nonces s2))"
    using c assms(9,11,12) by (simp add: payment_checked_def)
  obtain t where t: "t = fs_nonces s \<or> t = nonce_gc (fk_check (fc_clock first)) (fs_nonces s)"
    and rec: "fs_nonces s1 = nonce_record (fk_record (fc_clock first)) ?key t"
    using shieldedFetch_paid [OF assms(1) [unfolded run_call_def] assms(2-4)] by auto
  have wf: "nonce_wf t" "nt_ttlMs t = ?ttl" using t assms(5) nonce_gc_wf by auto
  have "remembers ?key ?now ?ttl (fs_nonces s2)" if within: "?now \<le> fk_record (fc_clock first) + ?ttl"
  proof (rule run_calls_remember [OF assms(6)])
    show "remembers ?key ?now ?ttl (fs_nonces s1)"
      using nonce.ask_remember [OF wf(1)] wf within by (simp add: remembers_def rec nonce_record_wf)
  qed (use assms(7) within in force)
  then show ?thesis
    using sg fresh by (intro exI [of _ selected] exI [of _ n] exI [of _ tx]) (auto simp: remembers_def not_le [symmetric])
qed

text \<open>The same demand, again and again, over one tracker.\<close>

definition shop_call :: "msecs \<Rightarrow> (unit, nat, unit, bytes) fetch_call" where
  "shop_call t = \<lparr>fc_env = sample_fetch_env 200, fc_clock = shop_clock t, fc_signer = shop_signer, fc_url = ''https://shop'',
     fc_config = None, fc_rpc = Some (), fc_options = sample_fetch_options, fc_shield = None\<rparr>"

definition shop_response :: Response where
  "shop_response = \<lparr>hr_status = 200, hr_headers = [], hr_x402 = Some
     \<lparr>xr_paid = True, xr_amountPaid = ''250'', xr_asset = ''USDC'', xr_payTo = ''shop'', xr_settlement = None\<rparr>\<rparr>"

text \<open>The call in between, a second after the payment, is refused; the one after the window pays.\<close>

definition shop_first :: "(unit, bytes) FetchState" where
  "shop_first = snd (the (run_call (shop_call 1000) sample_fetch_state))"

definition shop_second :: "(unit, bytes) FetchState" where
  "shop_second = the (run_calls [shop_call 2000] shop_first)"

theorem x402_no_double_payment_witness:
  "fst (the (run_call (shop_call 301000) shop_second)) = Inl (X402ReplayError ''https://shop|shop|250'')
   \<and> (\<exists>selected n tx. signed (snd (the (run_call (shop_call 301001) shop_second))) = [tx]
        \<and> pays (sample_fetch_env 200) ''me'' selected n tx
        \<and> (pq_payTo selected \<noteq> ''shop'' \<or> pq_amount selected \<noteq> ''250''
             \<or> fk_record (shop_clock 1000) + nt_ttlMs (fs_nonces sample_fetch_state) < fk_check (shop_clock 301001)))"
proof -
  have "\<not> Option.is_none (run_call (shop_call 1000) sample_fetch_state)"
    and resp: "fst (the (run_call (shop_call 1000) sample_fetch_state)) = Inr shop_response" by code_simp+
  from ran [OF this(1)] have first: "run_call (shop_call 1000) sample_fetch_state = Some (Inr shop_response, shop_first)"
    unfolding resp shop_first_def .
  have "\<not> Option.is_none (run_calls [shop_call 2000] shop_first)" by code_simp
  then have second: "run_calls [shop_call 2000] shop_first = Some shop_second"
    unfolding shop_second_def by (cases "run_calls [shop_call 2000] shop_first") simp_all
  have "\<not> Option.is_none (run_call (shop_call 301001) shop_second)" by code_simp
  note third = ran [OF this]
  have signs: "signed (snd (the (run_call (shop_call 301001) shop_second))) \<noteq> []" by code_simp
  have refused: "fst (the (run_call (shop_call 301000) shop_second)) = Inl (X402ReplayError ''https://shop|shop|250'')" by code_simp
  have on: "replay_protected (fc_config (shop_call t))" for t by (simp add: shop_call_def replay_protected_def)
  have wf: "nonce_wf (fs_nonces sample_fetch_state)" by code_simp
  have x: "hr_x402 shop_response = Some (the (hr_x402 shop_response))" "xr_paid (the (hr_x402 shop_response))"
    by (simp_all add: shop_response_def)
  have order: "fk_record (fc_clock (shop_call 1000)) \<le> fk_record (fc_clock c)
      \<and> fk_check (fc_clock c) \<le> fk_check (fc_clock (shop_call 301001))" if "c \<in> set [shop_call 2000]" for c
    using that by (simp add: shop_call_def shop_clock_def)
  from x402_no_double_payment [OF first x on wf second order third on signs] refused show ?thesis
    by (simp add: shop_call_def shop_response_def shop_signer_def)
qed

text \<open>
  C25. Every call of \<open>shieldedFetch\<close> returns: when the clock advances between two polls of the chain,
  the call ends with a response or an error, whatever server, facilitator and RPC answer.
\<close>
theorem x402_fetch_returns:
  assumes "\<And>rpc (n :: nat). po_clock (fe_poll env rpc n) + 1 \<le> po_clock (fe_poll env rpc (n + 1))"
  shows "\<exists>r s'. shieldedFetch env clock signer url config rpc options s = Some (r, s')"
proof -
  have "\<exists>c. confirmSettlementOnChain start t (fe_poll env rpc') = Some c" for start t rpc'
    using poll_until_ends [of "fe_poll env rpc'" settlement_verdict "Inr TimedOut" "start + t", OF assms]
    unfolding confirmSettlementOnChain_def by metis
  then have confirm: "\<exists>c. confirm_outcome env clock config rpc' settlement = Some c" for rpc' settlement
    by (cases rpc') (auto simp: confirm_outcome_def)
  have settle: "\<exists>x. fetch_settle env clock url config rpc' p s1 = Some x" for rpc' p s1
  proof -
    obtain settlement s2 where rs: "read_settlement env (pm_response p) s1 = (settlement, s2)" by fastforce
    obtain c where "confirm_outcome env clock config rpc' settlement = Some c" using confirm by blast
    then show ?thesis using rs by (auto simp: fetch_settle_def Let_def split: prod.split sum.split)
  qed
  then show ?thesis
    unfolding shieldedFetch_def by (auto split: prod.split sum.split fetch_phase.split)
qed

theorem x402_fetch_returns_witness:
  "\<exists>r s'. shieldedFetch (sample_fetch_env 500) (shop_clock 7) shop_signer ''https://shop'' None (Some ())
     sample_fetch_options sample_fetch_state = Some (r, s')"
  by (rule x402_fetch_returns) (simp add: sample_fetch_env_def sample_poll_def)

text \<open>
  The policy bridge hands the shield a transfer without data, in which the shield finds no transfer: its
  token spending limits and the on-chain caps never see the payment. As long as what was recorded
  before is within each limit, no limit is reported, whatever the amount of the payment.
\<close>
theorem policy_bridge_blind_to_amount:
  assumes "evaluateInstructions [synthetic_ix selected a] a resolved custom st network now = Inr (vs, analysis)"
    and "\<And>l. l \<in> set (rp_spendLimits resolved) \<Longrightarrow> getSpendInWindow st (sl_mint l) (sl_window l) now \<le> sl_amount l"
  shows "ia_tokenTransfers analysis = [] \<and> spend_violations resolved analysis a st now = []
     \<and> on_chain_violations analysis a st network = []
     \<and> (\<forall>m spent lim. spend_limit m spent lim \<notin> set vs)"
proof -
  obtain an where an: "analyzeInstructions [synthetic_ix selected a] a = Some an"
    "ia_tokenTransfers an = transfers_of [synthetic_ix selected a]"
    by (rule analyze_total)
  obtain cv where cv: "custom_violations custom an a = Inr cv" "analysis = an"
    "vs = allowlist_violations resolved an @ spend_violations resolved an a st now @ rate_violations resolved st now
       @ cv @ on_chain_violations an a st network"
    using assms(1) an(1) by (auto simp: evaluateInstructions_def split: option.splits if_splits)
  have none: "ia_tokenTransfers an = []"
    using an(2) by (simp add: synthetic_ix_def transfer_of_def)
  have sv: "spend_violations resolved an a st now = []"
    using assms(2) by (fastforce simp: spend_violations_def tx_spend_def none Let_def not_less)
  have ov: "on_chain_violations an a st network = []"
    by (simp add: on_chain_violations_def computeStablecoinUsd_def none Let_def split: option.split)
  have "spend_limit m spent lim \<notin> set vs" for m spent lim
    using cv sv ov
    by (auto simp: allowlist_violations_def rate_violations_def custom_violations_def Let_def
        split: option.splits if_splits)
  then show ?thesis using cv(2) none sv ov by simp
qed

text \<open>A shield that limits USDC to 10 base units approves a payment of 250.\<close>

definition tight_shield :: "unit ShieldedContext" where
  "tight_shield = \<lparr>sc_resolved = \<lparr>rp_spendLimits = [\<lparr>sl_mint = ''USDC'', sl_amount = 10, sl_windowMs = None\<rparr>],
       rp_maxTransactionSize = None, rp_allowedProtocols = None, rp_allowedTokens = None, rp_blockUnknownPrograms = False,
       rp_maxTransactions = 5, rp_rateWindowMs = 1000\<rparr>,
     sc_customCheck = None, sc_state = newShieldState, sc_paused = False, sc_sync = None, sc_staleness = 300, sc_events = []\<rparr>"

definition shop_option :: PaymentRequirements where
  "shop_option = \<lparr>pq_scheme = ''exact'', pq_network = ''solana:main'', pq_asset = ''USDC'', pq_amount = ''250'',
     pq_payTo = ''shop'', pq_object = JNull\<rparr>"

theorem policy_bridge_blind_to_amount_witness:
  "fst (evaluateX402Payment shop_option None (Some ''me'') 5000 tight_shield) = Inr []
   \<and> (\<exists>analysis. analyzeInstructions [synthetic_ix shop_option ''me''] ''me'' = Some analysis
        \<and> spend_violations (sc_resolved tight_shield) analysis ''me'' (sc_state tight_shield) 5000 = [])"
proof -
  obtain an where an: "analyzeInstructions [synthetic_ix shop_option ''me''] ''me'' = Some an"
    by (rule analyze_total)
  have ev: "evaluateInstructions [synthetic_ix shop_option ''me''] ''me'' (sc_resolved tight_shield) None
      (sc_state tight_shield) None 5000 = Inr (spend_violations (sc_resolved tight_shield) an ''me'' (sc_state tight_shield) 5000
        @ on_chain_violations an ''me'' (sc_state tight_shield) None, an)"
    by (simp add: evaluateInstructions_def an allowlist_violations_def rate_violations_def custom_violations_def
        tight_shield_def getTransactionCountInWindow_def newShieldState_def Let_def)
  have within: "getSpendInWindow (sc_state tight_shield) (sl_mint l) (sl_window l) 5000 \<le> sl_amount l"
    if "l \<in> set (rp_spendLimits (sc_resolved tight_shield))" for l
    using that by (auto simp: tight_shield_def getSpendInWindow_def newShieldState_def)
  note blind = policy_bridge_blind_to_amount [OF ev within]
  have "evaluateInstructions [synthetic_ix shop_option ''me''] ''me'' (sc_resolved tight_shield) None
      (sc_state tight_shield) None 5000 = Inr ([], an)"
    using ev blind by simp
  then have "fst (evaluateX402Payment shop_option None (Some ''me'') 5000 tight_shield) = Inr []"
    by (simp add: evaluateX402Payment_def cumulative_violation_def ceiling_violation_def shield_check_def stale_warning_def
        sync_network_def sbind_def sresult_def Let_def tight_shield_def newShieldState_def)
  then show ?thesis using an blind by simp
qed

text \<open>
  A payment whose request the server does not accept leaves no trace: when the call returns with
  \<open>paid\<close> false, the payment history and every later replay verdict are as before the call, although
  the signed transfer may have left with the request.
\<close>
theorem x402_unaccepted_untracked:
  assumes "shieldedFetch env clock signer url config rpc options s = Some (Inr resp, s')"
    and "hr_x402 resp = Some x" and "\<not> xr_paid x" and "nonce_wf (fs_nonces s)" and "fk_check clock \<le> now"
  shows "fs_recent s' = fs_recent s
     \<and> fst (isDuplicate now key (fs_nonces s')) = fst (isDuplicate now key (fs_nonces s))"
proof -
  obtain q s1 where st: "fetch_start env clock signer url config rpc options s = (q, s1)" by fastforce
  note c = fetch_start_collects [OF st]
  have "fs_nonces s' = fs_nonces s1 \<and> fs_recent s' = fs_recent s1"
  proof (cases "\<exists>p. q = Inr (Paid p)")
    case True
    then obtain p where "q = Inr (Paid p)" by blast
    then have settle: "fetch_settle env clock url config (effective_rpc rpc options) p s1 = Some (Inr resp, s')"
      using assms(1) st by (simp add: shieldedFetch_def)
    show ?thesis
      using fetch_settle_Inr [OF settle] assms(2,3) xr_payment_result by metis
  next
    case False
    then show ?thesis using assms(1) st by (auto simp: shieldedFetch_def split: sum.splits fetch_phase.splits)
  qed
  moreover have "fst (isDuplicate now key (nonce_gc (fk_check clock) (fs_nonces s))) = fst (isDuplicate now key (fs_nonces s))"
    using nonce.ask_keeps [OF assms(4,5), of key key] by simp
  ultimately show ?thesis using c by (auto simp: collected_def)
qed

definition refused_response :: Response where
  "refused_response = \<lparr>hr_status = 503, hr_headers = [], hr_x402 = Some
     \<lparr>xr_paid = False, xr_amountPaid = ''250'', xr_asset = ''USDC'', xr_payTo = ''shop'', xr_settlement = None\<rparr>\<rparr>"

theorem x402_unaccepted_untracked_witness:
  "signed (snd (the (shop_run 503))) \<noteq> [] \<and> fs_recent (snd (the (shop_run 503))) = []
   \<and> fst (isDuplicate 1001 ''https://shop|shop|250'' (fs_nonces (snd (the (shop_run 503)))))
       = fst (isDuplicate 1001 ''https://shop|shop|250'' (fs_nonces sample_fetch_state))"
proof -
  have "\<not> Option.is_none (shop_run 503)" and resp: "fst (the (shop_run 503)) = Inr refused_response" by code_simp+
  from ran [OF this(1)] have run: "shop_run 503 = Some (Inr refused_response, snd (the (shop_run 503)))"
    unfolding resp .
  have x: "hr_x402 refused_response = Some (the (hr_x402 refused_response))" "\<not> xr_paid (the (hr_x402 refused_response))"
    by (simp_all add: refused_response_def)
  have wf: "nonce_wf (fs_nonces sample_fetch_state)" by code_simp
  have signs: "signed (snd (the (shop_run 503))) \<noteq> []" by code_simp
  have later: "fk_check (shop_clock 1000) \<le> 1001" by (simp add: shop_clock_def)
  from x402_unaccepted_untracked [OF run [unfolded shop_run_def] x wf later] signs show ?thesis
    by (simp add: shop_run_def sample_fetch_state_def)
qed

end
