(* ===== verification/UsdAmounts.thy ===== *)
theory UsdAmounts
  imports SdkTypes JsDouble
begin

text \<open>
  Dollar amounts as the owner writes them: the strict parser of \<open>sdk/kit/src/helpers/parse-usd.ts\<close>,
  the aggregate-cap guard of \<open>sdk/kit/src/helpers/validate-cap-aggregate.ts\<close> and the vault and safety
  presets of \<open>sdk/kit/src/presets.ts\<close>.
\<close>

section \<open>parse-usd.ts\<close>

definition USD_DECIMALS :: nat where "USD_DECIMALS = 6"
definition USD_BASE :: int where "USD_BASE = 1000000"

text \<open>
  \<open>/^\$(0|[1-9]\d{0,14})(\.\d{1,6})?$/\<close> with its two groups, the second without its dot. The digits
  are read greedily: what may follow them (a dot or the end) is never a digit, so no other split matches.
\<close>

definition USD_REGEX :: "string \<Rightarrow> (string \<times> string option) option" where
  "USD_REGEX input =
     (case input of
        [] \<Rightarrow> None
      | c # rest \<Rightarrow>
          let whole = takeWhile is_digit rest; tail = dropWhile is_digit rest
          in if c \<noteq> CHR ''$'' \<or> whole = [] \<or> \<not> (whole = ''0'' \<or> (hd whole \<noteq> CHR ''0'' \<and> length whole \<le> 15))
             then None
             else case tail of
                    [] \<Rightarrow> Some (whole, None)
                  | d # fs \<Rightarrow>
                      if d = CHR ''.'' \<and> fs \<noteq> [] \<and> length fs \<le> 6 \<and> list_all is_digit fs
                      then Some (whole, Some fs) else None)"

text \<open>The argument is \<open>None\<close> when the caller passes something that is not a string.\<close>

definition parseUsd :: "string option \<Rightarrow> (sdk_error, int) result" where
  "parseUsd arg =
     (case arg of
        None \<Rightarrow> Inl (SDK_INVALID_AMOUNT ''typeof'')
      | Some input \<Rightarrow>
          (case USD_REGEX input of
             None \<Rightarrow> Inl (SDK_INVALID_AMOUNT input)
           | Some (whole, fractionPart) \<Rightarrow>
               let result = int (dec_val whole) * USD_BASE
               in Inr (case fractionPart of
                         None \<Rightarrow> result
                       | Some fractionDigits \<Rightarrow>
                           result + int (dec_val (padEnd USD_DECIMALS (CHR ''0'') fractionDigits)))))"

section \<open>validate-cap-aggregate.ts\<close>

fun first_negative :: "int list \<Rightarrow> int option" where
  "first_negative [] = None"
| "first_negative (c # cs) = (if c < 0 then Some c else first_negative cs)"

fun cap_sum :: "int list \<Rightarrow> int \<Rightarrow> int" where
  "cap_sum [] acc = acc"
| "cap_sum (cap # caps) acc = cap_sum caps (acc + cap)"

definition validateAgentCapAggregate :: "int \<Rightarrow> int list \<Rightarrow> int \<Rightarrow> (sdk_error, unit) result" where
  "validateAgentCapAggregate vaultDailyCap existingAgentCaps newAgentCap =
     (if vaultDailyCap < 0 \<or> newAgentCap < 0 then Inl (SDK_CAP_EXCEEDED vaultDailyCap newAgentCap)
      else case first_negative existingAgentCaps of
             Some c \<Rightarrow> Inl (SDK_CAP_EXCEEDED vaultDailyCap c)
           | None \<Rightarrow>
               let total = cap_sum existingAgentCaps newAgentCap
               in if total > vaultDailyCap then Inl (SDK_CAP_EXCEEDED vaultDailyCap total) else Inr ())"

section \<open>presets.ts\<close>

definition FULL_CAPABILITY :: int where "FULL_CAPABILITY = 2"
definition PROTOCOL_MODE_ALL :: nat where "PROTOCOL_MODE_ALL = 0"
definition PROTOCOL_MODE_ALLOWLIST :: nat where "PROTOCOL_MODE_ALLOWLIST = 1"
definition MAX_ALLOWED_PROTOCOLS :: nat where "MAX_ALLOWED_PROTOCOLS = 10"
definition JUPITER_PROGRAM_ADDRESS :: address where
  "JUPITER_PROGRAM_ADDRESS = ''JUP6LkbZbjS1jKKwapdHNy74zcZ3tLUZoi5QNyVTaV4''"
definition FLASH_TRADE_PROGRAM :: address where
  "FLASH_TRADE_PROGRAM = ''FLASH6Lo6h3iasJKWDs2F8TkW2UKf3s15C8PMGuVfgBn''"
definition JUPITER_LEND_PROGRAM :: address where
  "JUPITER_LEND_PROGRAM = ''JLend2fEim9xUFcaHsyGePEoBzFLvkjMi3MnPcSuCdu''"
definition KAMINO_LEND_PROGRAM :: address where
  "KAMINO_LEND_PROGRAM = ''KLend2g3cP87ber8CzRaqeECGwNvLFM9acPVcRkRHvM''"

record VaultPreset =
  vp_label :: string
  vp_capability :: int
  vp_permissions :: int
  vp_dailySpendingCapUsd :: int
  vp_maxTransactionSizeUsd :: int
  vp_maxSlippageBps :: nat
  vp_protocolMode :: nat
  vp_protocols :: "address list"

definition VAULT_PRESETS :: "(string \<times> VaultPreset) list" where
  "VAULT_PRESETS =
    [(''jupiter-swap-bot'',
       \<lparr>vp_label = ''Jupiter Swap Bot'', vp_capability = FULL_CAPABILITY, vp_permissions = FULL_CAPABILITY,
        vp_dailySpendingCapUsd = 500000000, vp_maxTransactionSizeUsd = 100000000, vp_maxSlippageBps = 200,
        vp_protocolMode = PROTOCOL_MODE_ALLOWLIST, vp_protocols = [JUPITER_PROGRAM_ADDRESS]\<rparr>),
     (''perps-trader'',
       \<lparr>vp_label = ''Perps Trader'', vp_capability = FULL_CAPABILITY, vp_permissions = FULL_CAPABILITY,
        vp_dailySpendingCapUsd = 5000000000, vp_maxTransactionSizeUsd = 1000000000, vp_maxSlippageBps = 500,
        vp_protocolMode = PROTOCOL_MODE_ALLOWLIST, vp_protocols = [JUPITER_PROGRAM_ADDRESS, FLASH_TRADE_PROGRAM]\<rparr>),
     (''lending-optimizer'',
       \<lparr>vp_label = ''Lending Optimizer'', vp_capability = FULL_CAPABILITY, vp_permissions = FULL_CAPABILITY,
        vp_dailySpendingCapUsd = 2000000000, vp_maxTransactionSizeUsd = 500000000, vp_maxSlippageBps = 100,
        vp_protocolMode = PROTOCOL_MODE_ALLOWLIST,
        vp_protocols = [JUPITER_PROGRAM_ADDRESS, JUPITER_LEND_PROGRAM, KAMINO_LEND_PROGRAM]\<rparr>),
     (''full-access'',
       \<lparr>vp_label = ''Full Access'', vp_capability = FULL_CAPABILITY, vp_permissions = FULL_CAPABILITY,
        vp_dailySpendingCapUsd = 10000000000, vp_maxTransactionSizeUsd = 5000000000, vp_maxSlippageBps = 500,
        vp_protocolMode = PROTOCOL_MODE_ALL, vp_protocols = []\<rparr>)]"

definition getPreset :: "string \<Rightarrow> VaultPreset option" where
  "getPreset name = map_of VAULT_PRESETS name"

definition listPresets :: "string list" where
  "listPresets = map fst VAULT_PRESETS"

record PresetFields =
  pf_permissions :: int
  pf_dailySpendingCapUsd :: int
  pf_maxTransactionSizeUsd :: int
  pf_maxSlippageBps :: nat
  pf_protocolMode :: nat
  pf_protocols :: "address list"

definition presetToCreateVaultFields :: "VaultPreset \<Rightarrow> PresetFields" where
  "presetToCreateVaultFields preset =
     \<lparr>pf_permissions = vp_permissions preset, pf_dailySpendingCapUsd = vp_dailySpendingCapUsd preset,
      pf_maxTransactionSizeUsd = vp_maxTransactionSizeUsd preset, pf_maxSlippageBps = vp_maxSlippageBps preset,
      pf_protocolMode = vp_protocolMode preset, pf_protocols = vp_protocols preset\<rparr>"

record SafetyPresetFields =
  sf_timelockDuration :: int
  sf_spendingLimitUsd :: "int option"
  sf_dailySpendingCapUsd :: "int option"

definition SAFETY_PRESETS :: "(string \<times> SafetyPresetFields) list" where
  "SAFETY_PRESETS =
    [(''development'', \<lparr>sf_timelockDuration = 1800, sf_spendingLimitUsd = Some 100000000,
                        sf_dailySpendingCapUsd = Some 500000000\<rparr>),
     (''production'', \<lparr>sf_timelockDuration = 86400, sf_spendingLimitUsd = None, sf_dailySpendingCapUsd = None\<rparr>)]"

text \<open>The overrides: a timelock or \<open>None\<close>, and caps where \<open>undefined\<close> and \<open>null\<close> both mean the preset's.\<close>

definition applySafetyPreset ::
  "SafetyPresetFields \<Rightarrow> int option \<Rightarrow> int option \<Rightarrow> int option \<Rightarrow> SafetyPresetFields" where
  "applySafetyPreset preset timelockDuration spendingLimitUsd dailySpendingCapUsd =
     \<lparr>sf_timelockDuration = (case timelockDuration of Some t \<Rightarrow> t | None \<Rightarrow> sf_timelockDuration preset),
      sf_spendingLimitUsd = (case spendingLimitUsd of Some c \<Rightarrow> Some c | None \<Rightarrow> sf_spendingLimitUsd preset),
      sf_dailySpendingCapUsd = (case dailySpendingCapUsd of Some c \<Rightarrow> Some c | None \<Rightarrow> sf_dailySpendingCapUsd preset)\<rparr>"

definition requireResolvedSafetyPreset :: "SafetyPresetFields \<Rightarrow> (sdk_error, int \<times> int \<times> int) result" where
  "requireResolvedSafetyPreset preset =
     (case (sf_spendingLimitUsd preset, sf_dailySpendingCapUsd preset) of
        (Some l, Some d) \<Rightarrow> Inr (sf_timelockDuration preset, l, d)
      | _ \<Rightarrow> Inl (PLAIN_ERROR ''Safety preset has unresolved caps''))"

section \<open>What the parser accepts\<close>

text \<open>A dollar literal: its whole digits, without a leading zero, and its fraction digits.\<close>

definition usd_literal :: "string \<Rightarrow> string \<Rightarrow> string \<Rightarrow> bool" where
  "usd_literal input ds fs \<longleftrightarrow>
     input = CHR ''$'' # ds @ (if fs = [] then [] else CHR ''.'' # fs)
     \<and> list_all is_digit ds \<and> list_all is_digit fs
     \<and> (ds = ''0'' \<or> (ds \<noteq> [] \<and> hd ds \<noteq> CHR ''0'' \<and> length ds \<le> 15)) \<and> length fs \<le> 6"

lemma dec_val_padEnd: "length fs \<le> n \<Longrightarrow> dec_val (padEnd n (CHR ''0'') fs) = dec_val fs * 10 ^ (n - length fs)"
proof -
  have z: "digits_val 10 digit_val (replicate k (CHR ''0'')) acc = acc * 10 ^ k" for k acc
    by (induction k arbitrary: acc) (simp_all add: digit_val_def)
  show ?thesis by (simp add: padEnd_def z)
qed

lemma usd_literal_regex:
  assumes "usd_literal input ds fs"
  shows "USD_REGEX input = Some (ds, if fs = [] then None else Some fs)"
proof -
  have d: "takeWhile is_digit (ds @ t) = ds @ takeWhile is_digit t"
    "dropWhile is_digit (ds @ t) = dropWhile is_digit t" for t
    using assms by (simp_all add: usd_literal_def list_all_iff takeWhile_append2 dropWhile_append2)
  have dot: "\<not> is_digit (CHR ''.'')" by (simp add: is_digit_def)
  show ?thesis
    using assms dot d [of "[]"] by (auto simp: USD_REGEX_def usd_literal_def Let_def d list_all_iff)
qed

lemma regex_usd_literal:
  assumes "USD_REGEX input = Some (ds, f)"
  shows "usd_literal input ds (case f of None \<Rightarrow> [] | Some fs \<Rightarrow> fs) \<and> f \<noteq> Some []"
proof -
  obtain c rest where input: "input = c # rest" using assms by (cases input) (simp_all add: USD_REGEX_def)
  obtain whole tail where w: "takeWhile is_digit rest = whole" and t: "dropWhile is_digit rest = tail" by simp
  have split: "rest = whole @ tail" using w t takeWhile_dropWhile_id [of is_digit rest] by simp
  have digits: "list_all is_digit whole" using w by (auto simp: list_all_iff dest: set_takeWhileD)
  have m: "(case tail of [] \<Rightarrow> Some (whole, None)
        | d # fs \<Rightarrow> if d = CHR ''.'' \<and> fs \<noteq> [] \<and> length fs \<le> 6 \<and> list_all is_digit fs
                   then Some (whole, Some fs) else None) = Some (ds, f)"
    and c: "c = CHR ''$''" "whole \<noteq> []" "whole = ''0'' \<or> (hd whole \<noteq> CHR ''0'' \<and> length whole \<le> 15)"
    using assms unfolding input USD_REGEX_def list.case Let_def w t by (auto split: if_splits)
  show ?thesis
    using m c digits split input by (cases tail) (auto simp: usd_literal_def split: if_splits)
qed

lemma parse_usd_value:
  assumes "usd_literal input ds fs"
  shows "parseUsd (Some input) = Inr (int (dec_val (ds @ fs)) * 10 ^ (6 - length fs))"
proof -
  have len: "length fs \<le> 6" using assms by (simp add: usd_literal_def)
  then have "(10 :: nat) ^ 6 = 10 ^ length fs * 10 ^ (6 - length fs)" by (simp flip: power_add)
  then have p: "dec_val ds * 1000000 + dec_val fs * 10 ^ (6 - length fs) = dec_val (ds @ fs) * 10 ^ (6 - length fs)"
    using digits_val_acc [of 10 digit_val fs "dec_val ds"] by (simp add: algebra_simps)
  show ?thesis
    using arg_cong [OF p, of int] dec_val_padEnd [OF len] usd_literal_regex [OF assms] digits_val_acc [of 10 digit_val fs "dec_val ds"]
    by (simp add: parseUsd_def USD_BASE_def USD_DECIMALS_def Let_def)
qed

text \<open>
  C26. \<open>parseUsd\<close> is exact and strict: it returns \<open>n\<close> precisely when the input is a dollar sign, a whole
  part without leading zeros of at most fifteen digits and at most six fraction digits, and \<open>n\<close> is
  then the written value times a million with no rounding; every other string is rejected as an
  invalid amount.
\<close>
theorem parse_usd_exact:
  "parseUsd (Some input) = Inr n \<longleftrightarrow>
     (\<exists>ds fs. usd_literal input ds fs \<and> of_int n = dec_value ds fs * 1000000)"
proof -
  have v: "of_int (int (dec_val (ds @ fs)) * 10 ^ (6 - length fs)) = dec_value ds fs * 1000000"
    if "usd_literal input ds fs" for ds fs
  proof -
    have "length fs \<le> 6" using that by (simp add: usd_literal_def)
    then have "(10 :: rat) ^ length fs * 10 ^ (6 - length fs) = 10 ^ 6" by (simp flip: power_add)
    then show ?thesis by (simp add: dec_value_def field_simps)
  qed
  show ?thesis
  proof
    assume p: "parseUsd (Some input) = Inr n"
    then obtain ds f where "USD_REGEX input = Some (ds, f)"
      by (auto simp: parseUsd_def split: option.splits)
    then obtain fs where l: "usd_literal input ds fs" using regex_usd_literal by blast
    then have "n = int (dec_val (ds @ fs)) * 10 ^ (6 - length fs)" using p parse_usd_value by simp
    then show "\<exists>ds fs. usd_literal input ds fs \<and> of_int n = dec_value ds fs * 1000000" using l v by blast
  next
    assume "\<exists>ds fs. usd_literal input ds fs \<and> of_int n = dec_value ds fs * 1000000"
    then obtain ds fs where l: "usd_literal input ds fs" and n: "of_int n = dec_value ds fs * 1000000" by blast
    from n v [OF l] have "(of_int n :: rat) = of_int (int (dec_val (ds @ fs)) * 10 ^ (6 - length fs))" by simp
    then have "n = int (dec_val (ds @ fs)) * 10 ^ (6 - length fs)" by (simp only: of_int_eq_iff)
    then show "parseUsd (Some input) = Inr n" using parse_usd_value [OF l] by simp
  qed
qed

lemma parse_usd_bound: "parseUsd (Some input) = Inr n \<Longrightarrow> 0 \<le> n \<and> n < 10 ^ 21"
proof -
  assume p: "parseUsd (Some input) = Inr n"
  then obtain ds f where r: "USD_REGEX input = Some (ds, f)"
    by (auto simp: parseUsd_def split: option.splits)
  then obtain fs where l: "usd_literal input ds fs" using regex_usd_literal by blast
  then have d: "list_all is_digit (ds @ fs)" "length ds \<le> 15" "length fs \<le> 6" by (auto simp: usd_literal_def)
  have "dec_val (ds @ fs) * 10 ^ (6 - length fs) < 10 ^ length (ds @ fs) * 10 ^ (6 - length fs)"
    using dec_val_less [OF d(1)] by simp
  also have "\<dots> = 10 ^ (length ds + 6)" using d by (simp flip: power_add)
  also have "\<dots> \<le> 10 ^ 21" using d by (intro power_increasing) simp_all
  finally have "int (dec_val (ds @ fs) * 10 ^ (6 - length fs)) < int (10 ^ 21)" by (simp only: of_nat_less_iff)
  then show ?thesis using parse_usd_value [OF l] p by simp
qed

section \<open>Aggregate caps\<close>

lemma cap_sum_eq: "cap_sum caps acc = acc + sum_list caps"
  by (induction caps arbitrary: acc) simp_all

lemma first_negative_None: "first_negative caps = None \<longleftrightarrow> (\<forall>c \<in> set caps. 0 \<le> c)"
  by (induction caps) auto

lemma cap_aggregate_iff:
  "validateAgentCapAggregate d caps c = Inr () \<longleftrightarrow>
     0 \<le> c \<and> (\<forall>x \<in> set caps. 0 \<le> x) \<and> c + sum_list caps \<le> d"
proof -
  have "0 \<le> d" if "0 \<le> c" "\<forall>x \<in> set caps. 0 \<le> x" "c + sum_list caps \<le> d"
    using that sum_list_nonneg [of caps] by auto
  then show ?thesis
    using first_negative_None [of caps]
    by (auto simp: validateAgentCapAggregate_def Let_def cap_sum_eq split: option.splits)
qed

text \<open>Registrations one after the other, each guarded by the caps already there.\<close>

fun register_caps :: "int \<Rightarrow> int list \<Rightarrow> int list \<Rightarrow> (sdk_error, int list) result" where
  "register_caps d caps [] = Inr caps"
| "register_caps d caps (c # cs) =
     rbind (validateAgentCapAggregate d caps c) (\<lambda>_. register_caps d (caps @ [c]) cs)"

text \<open>
  The aggregate guard closes concurrent burn: when every agent of a vault was registered through
  \<open>validateAgentCapAggregate\<close> with the caps registered before it, the caps add up to no more than the
  vault's daily cap, and so does what the agents can spend together with each agent inside its own cap.
\<close>
theorem registered_caps_within_vault:
  assumes "register_caps d [] cs = Inr caps" "length spent = length caps"
    and "\<forall>i < length caps. spent ! i \<le> caps ! i"
  shows "caps = cs \<and> sum_list caps \<le> max d 0 \<and> sum_list spent \<le> max d 0"
proof -
  have reg: "caps' @ cs = caps \<and> (sum_list caps' \<le> max d 0 \<longrightarrow> sum_list caps \<le> max d 0)"
    if "register_caps d caps' cs = Inr caps" for caps' cs
    using that
  proof (induction cs arbitrary: caps')
    case (Cons c cs)
    then have "validateAgentCapAggregate d caps' c = Inr ()" "register_caps d (caps' @ [c]) cs = Inr caps"
      by auto
    then show ?case using Cons.IH [of "caps' @ [c]"] by (auto simp: cap_aggregate_iff)
  qed simp
  have "sum_list spent \<le> sum_list caps"
    using assms(2,3) by (intro sum_list_mono2) auto
  then show ?thesis using reg [OF assms(1)] by auto
qed

theorem registered_caps_within_vault_witness:
  "register_caps 500 [] [100, 0, 400] = Inr [100, 0, 400] \<and> sum_list [60, 0, 399] \<le> max (500 :: int) 0"
proof -
  have r: "register_caps 500 [] [100, 0, 400] = Inr [100, 0, 400]" by code_simp
  have "\<forall>i < length [100, 0, 400 :: int]. [60, 0, 399 :: int] ! i \<le> [100, 0, 400] ! i"
    by (simp add: less_Suc_eq numeral_eq_Suc)
  then show ?thesis using registered_caps_within_vault [OF r, of "[60, 0, 399]"] r by simp
qed

end
