(* ===== verification/PriorityFees.thy ===== *)
theory PriorityFees
  imports RpcCaches JsDouble
begin

text \<open>
  \<open>PriorityFeeEstimator\<close> of \<open>sdk/kit/src/priority-fees.ts\<close>: a cache per priority level over three
  layers (Helius, the RPC's recent fees, a static value). The HTTP answer of Helius and the answer of
  \<open>getRecentPrioritizationFees\<close> are arguments. A number is the rational it denotes. The estimator's
  cache is an instance of \<open>ttl_cache\<close>.
\<close>

datatype PriorityLevel = low | medium | high | very_high

instantiation PriorityLevel :: linorder
begin

fun level_rank :: "PriorityLevel \<Rightarrow> nat" where
  "level_rank low = 0"
| "level_rank medium = 1"
| "level_rank high = 2"
| "level_rank very_high = 3"

definition less_eq_PriorityLevel :: "PriorityLevel \<Rightarrow> PriorityLevel \<Rightarrow> bool" where
  "less_eq_PriorityLevel a b \<longleftrightarrow> level_rank a \<le> level_rank b"

definition less_PriorityLevel :: "PriorityLevel \<Rightarrow> PriorityLevel \<Rightarrow> bool" where
  "less_PriorityLevel a b \<longleftrightarrow> level_rank a < level_rank b"

lemma level_rank_inject: "level_rank a = level_rank b \<Longrightarrow> a = b"
  by (cases a; cases b) simp_all

instance
  by standard (auto simp: less_eq_PriorityLevel_def less_PriorityLevel_def intro: level_rank_inject)

end

fun LEVEL_PERCENTILES :: "PriorityLevel \<Rightarrow> nat" where
  "LEVEL_PERCENTILES low = 25"
| "LEVEL_PERCENTILES medium = 50"
| "LEVEL_PERCENTILES high = 75"
| "LEVEL_PERCENTILES very_high = 95"

record PriorityFeeConfig =
  fc_strategy :: string
  fc_cacheTtlMs :: msecs
  fc_fallbackMicroLamports :: rat
  fc_defaultLevel :: PriorityLevel
  fc_maxMicroLamports :: rat

record FeeEntry =
  fe_microLamports :: rat
  fe_expiresAt :: msecs

record PriorityFeeEstimator =
  pe_config :: PriorityFeeConfig
  pe_cache :: "(PriorityLevel \<times> FeeEntry) list"
  pe_isHelius :: bool
  pe_hasRpc :: bool

record PriorityFeeOptions =
  fo_strategy :: "string option"
  fo_cacheTtlMs :: "msecs option"
  fo_fallbackMicroLamports :: "rat option"
  fo_defaultLevel :: "PriorityLevel option"
  fo_maxMicroLamports :: "rat option"

definition or_default :: "'a option \<Rightarrow> 'a \<Rightarrow> 'a" where
  "or_default x d = (case x of Some v \<Rightarrow> v | None \<Rightarrow> d)"

definition new_PriorityFeeEstimator :: "string \<Rightarrow> bool \<Rightarrow> PriorityFeeOptions option \<Rightarrow> PriorityFeeEstimator" where
  "new_PriorityFeeEstimator rpcEndpoint hasRpc opts =
     (let config =
        \<lparr>fc_strategy = or_default (Option.bind opts fo_strategy) ''auto'',
         fc_cacheTtlMs = or_default (Option.bind opts fo_cacheTtlMs) 10000,
         fc_fallbackMicroLamports = or_default (Option.bind opts fo_fallbackMicroLamports) 10000,
         fc_defaultLevel = or_default (Option.bind opts fo_defaultLevel) high,
         fc_maxMicroLamports = or_default (Option.bind opts fo_maxMicroLamports) 1000000\<rparr>
      in \<lparr>pe_config = config, pe_cache = [],
          pe_isHelius = (if fc_strategy config = ''auto'' then str_includes (toLowerCase rpcEndpoint) ''helius''
                         else fc_strategy config = ''helius''),
          pe_hasRpc = hasRpc\<rparr>)"

text \<open>
  What comes back from the HTTP call: nothing usable (the call throws, or the status is not ok, or the
  answer has no numeric estimate) or an estimate.
\<close>

datatype helius_answer = HeliusThrows | HeliusNotOk | HeliusNoNumber | HeliusEstimate rat

fun estimateHelius :: "helius_answer \<Rightarrow> rat option" where
  "estimateHelius (HeliusEstimate estimate) = (if estimate \<ge> 0 then Some (of_int \<lceil>estimate\<rceil>) else None)"
| "estimateHelius _ = None"

text \<open>\<open>Math.min(Math.ceil((percentile / 100) * n) - 1, n - 1)\<close>: the quotient and the product are doubles.\<close>

definition percentile_index :: "nat \<Rightarrow> nat \<Rightarrow> int" where
  "percentile_index percentile n = min (\<lceil>dbl (dbl (of_nat percentile / 100) * of_nat n)\<rceil> - 1) (int n - 1)"

text \<open>The RPC's answer: \<open>Inl\<close> when it throws, \<open>None\<close> when there is no array.\<close>

definition estimateRpc ::
  "PriorityFeeConfig \<Rightarrow> (js_error, int list option) result \<Rightarrow> PriorityLevel \<Rightarrow> rat option" where
  "estimateRpc config answer level =
     (case answer of
        Inl _ \<Rightarrow> None
      | Inr None \<Rightarrow> None
      | Inr (Some fees) \<Rightarrow>
          if length fees = 0 then None
          else
            let sorted = sort (filter (\<lambda>f. f > 0) (map (\<lambda>f. dbl (of_int f)) fees))
            in if length sorted = 0 then Some (fc_fallbackMicroLamports config)
               else Some (sorted ! nat (percentile_index (LEVEL_PERCENTILES level) (length sorted))))"

record fee_answers =
  fa_helius :: "PriorityLevel \<Rightarrow> helius_answer"
  fa_rpc :: "(js_error, int list option) result"

definition fresh_fee :: "PriorityFeeEstimator \<Rightarrow> fee_answers \<Rightarrow> PriorityLevel \<Rightarrow> rat" where
  "fresh_fee est answers targetLevel =
     (let fee1 = (if pe_isHelius est then estimateHelius (fa_helius answers targetLevel) else None);
          fee2 = (if fee1 = None \<and> pe_hasRpc est then estimateRpc (pe_config est) (fa_rpc answers) targetLevel else fee1);
          fee3 = or_default fee2 (fc_fallbackMicroLamports (pe_config est))
      in min fee3 (fc_maxMicroLamports (pe_config est)))"

definition fee_cached :: "msecs \<Rightarrow> PriorityLevel \<Rightarrow> PriorityFeeEstimator \<Rightarrow> rat option" where
  "fee_cached now level est =
     (case map_of (pe_cache est) level of
        Some cached \<Rightarrow> if fe_expiresAt cached > now then Some (fe_microLamports cached) else None
      | None \<Rightarrow> None)"

definition fee_set :: "msecs \<Rightarrow> PriorityLevel \<Rightarrow> rat \<Rightarrow> PriorityFeeEstimator \<Rightarrow> PriorityFeeEstimator" where
  "fee_set now level fee est =
     est\<lparr>pe_cache := AList.update level \<lparr>fe_microLamports = fee, fe_expiresAt = now + fc_cacheTtlMs (pe_config est)\<rparr>
          (pe_cache est)\<rparr>"

text \<open>\<open>estimate\<close>: \<open>now\<close> is the clock at the cache check, \<open>after\<close> when the answers are in.\<close>

definition estimate ::
  "fee_answers \<Rightarrow> msecs \<Rightarrow> msecs \<Rightarrow> PriorityLevel option \<Rightarrow> PriorityFeeEstimator \<Rightarrow> rat \<times> PriorityFeeEstimator" where
  "estimate answers now after level est =
     (let targetLevel = or_default level (fc_defaultLevel (pe_config est))
      in case fee_cached now targetLevel est of
           Some fee \<Rightarrow> (fee, est)
         | None \<Rightarrow> let fee = fresh_fee est answers targetLevel in (fee, fee_set after targetLevel fee est))"

section \<open>The cache as a cache with a time to live\<close>

fun fee_store :: "msecs \<Rightarrow> (PriorityLevel \<times> rat) list \<Rightarrow> PriorityFeeEstimator \<Rightarrow> PriorityFeeEstimator" where
  "fee_store t [] est = est"
| "fee_store t ((level, fee) # kvs) est = fee_store t kvs (fee_set t level fee est)"

definition fee_clear :: "PriorityFeeEstimator \<Rightarrow> PriorityFeeEstimator" where
  "fee_clear est = est\<lparr>pe_cache := []\<rparr>"

lemma fee_cached_set:
  "fee_cached now k (fee_set t k' v est) =
     (if k = k' then (if now < t + fc_cacheTtlMs (pe_config est) then Some v else None) else fee_cached now k est)"
  by (simp add: fee_cached_def fee_set_def update_conv')

lemma fee_store_config [simp]: "pe_config (fee_store t kvs est) = pe_config est"
  by (induction t kvs est rule: fee_store.induct) (simp_all add: fee_set_def)

lemma fee_cached_store:
  "fee_cached now k (fee_store t kvs est) = Some v \<Longrightarrow>
     (k, v) \<in> set kvs \<and> now < t + fc_cacheTtlMs (pe_config est) \<or> fee_cached now k est = Some v"
proof (induction t kvs est rule: fee_store.induct)
  case (2 t level fee kvs est)
  have "pe_config (fee_set t level fee est) = pe_config est" by (simp add: fee_set_def)
  then show ?case using 2 by (auto simp: fee_cached_set split: if_splits)
qed simp

interpretation fee_cache: ttl_cache fee_cached fee_store fee_clear "\<lambda>_. True" "\<lambda>est. fc_cacheTtlMs (pe_config est)"
  by unfold_locales (use fee_cached_store in \<open>auto simp: fee_clear_def fee_cached_def\<close>)

section \<open>Bounds\<close>

definition fees_capped :: "PriorityFeeEstimator \<Rightarrow> bool" where
  "fees_capped est \<longleftrightarrow> (\<forall>(level, entry) \<in> set (pe_cache est). fe_microLamports entry \<le> fc_maxMicroLamports (pe_config est))"

lemma new_fees_capped: "fees_capped (new_PriorityFeeEstimator url rpc opts)"
  by (simp add: fees_capped_def new_PriorityFeeEstimator_def Let_def)

lemma fresh_fee_le: "fresh_fee est answers level \<le> fc_maxMicroLamports (pe_config est)"
  by (simp add: fresh_fee_def Let_def)

lemma fee_cached_le: "fees_capped est \<Longrightarrow> fee_cached now level est = Some fee \<Longrightarrow> fee \<le> fc_maxMicroLamports (pe_config est)"
  by (auto simp: fee_cached_def fees_capped_def split: option.splits if_splits dest!: map_of_SomeD)

lemma fee_set_capped:
  assumes "fees_capped est" "fee \<le> fc_maxMicroLamports (pe_config est)"
  shows "fees_capped (fee_set t level fee est)"
proof -
  have "set (AList.update k e xs) \<subseteq> insert (k, e) (set xs)" for k :: PriorityLevel and e :: FeeEntry and xs
    by (induction xs) auto
  from this [of level "\<lparr>fe_microLamports = fee, fe_expiresAt = t + fc_cacheTtlMs (pe_config est)\<rparr>" "pe_cache est"]
  show ?thesis using assms by (auto simp: fees_capped_def fee_set_def)
qed

text \<open>The percentile index of the lists an RPC can return, against nearest-rank arithmetic on integers.\<close>

definition nearest_rank :: "nat \<Rightarrow> nat \<Rightarrow> nat" where
  "nearest_rank percentile n = (percentile * n + 99) div 100 - 1"

lemma percentile_index_exact:
  assumes "0 < n" "n \<le> 2 ^ 40"
  shows "percentile_index (LEVEL_PERCENTILES level) n = int (nearest_rank (LEVEL_PERCENTILES level) n)"
    and "nearest_rank (LEVEL_PERCENTILES level) n < n"
proof -
  let ?p = "LEVEL_PERCENTILES level" and ?q = "of_nat (LEVEL_PERCENTILES level) / (100 :: rat)"
  have q: "1 / 4 \<le> ?q" "?q \<le> 1" by (cases level; simp)+
  have "\<exists>a. to_double ?q = Some a \<and> a \<le> ?q"
    by (cases level; rule exI, rule conjI, (simp only: LEVEL_PERCENTILES.simps of_nat_numeral to_double_percentiles),
        simp)
  then obtain a where "to_double ?q = Some a" "a \<le> ?q" by blast
  then have c: "\<lceil>dbl (dbl ?q * of_nat n)\<rceil> = int ((?p * n + 99) div 100)"
    using ceil_percent_exact [OF refl q _ _ assms] by blast
  have p: "25 \<le> ?p" "?p \<le> 100" by (cases level; simp)+
  have "25 * n \<le> ?p * n" "?p * n \<le> 100 * n" using p by (intro mult_right_mono; simp)+
  then have "1 \<le> (?p * n + 99) div 100" "(?p * n + 99) div 100 \<le> n" using assms(1) by linarith+
  then show "percentile_index ?p n = int (nearest_rank ?p n)" "nearest_rank ?p n < n"
    unfolding percentile_index_def c nearest_rank_def using assms(1) by (simp_all add: of_nat_diff)
qed

lemma nearest_rank_mono: "p \<le> p' \<Longrightarrow> nearest_rank p n \<le> nearest_rank p' n"
  unfolding nearest_rank_def by (intro diff_le_mono div_le_mono add_right_mono mult_right_mono) simp_all

lemma LEVEL_PERCENTILES_mono: "a \<le> b \<Longrightarrow> LEVEL_PERCENTILES a \<le> LEVEL_PERCENTILES b"
  by (cases a; cases b) (simp_all add: less_eq_PriorityLevel_def)

text \<open>The positive fees an RPC reports, in order.\<close>

definition observed_fees :: "int list \<Rightarrow> rat list" where
  "observed_fees fees = sort (filter (\<lambda>f. f > 0) (map (\<lambda>f. dbl (of_int f)) fees))"

lemma observed_fees_length: "length fees \<le> n \<Longrightarrow> length (observed_fees fees) \<le> n"
  by (simp add: observed_fees_def filter_map order_trans [OF length_filter_le])

lemma set_observed_fees: "set (observed_fees fees) = {f \<in> (\<lambda>f. dbl (of_int f)) ` set fees. 0 < f}"
  by (auto simp: observed_fees_def)

lemma estimateRpc_rank:
  assumes "observed_fees fees \<noteq> []" "length fees \<le> 2 ^ 40"
  shows "estimateRpc config (Inr (Some fees)) level
      = Some (observed_fees fees ! nearest_rank (LEVEL_PERCENTILES level) (length (observed_fees fees)))"
proof -
  note observed_fees_length [OF assms(2)]
  moreover have "fees \<noteq> []" using assms(1) by (auto simp: observed_fees_def)
  ultimately show ?thesis
    using assms(1) percentile_index_exact(1) [of "length (observed_fees fees)" level]
    by (simp add: estimateRpc_def observed_fees_def [symmetric] Let_def)
qed

text \<open>
  The RPC layer's percentile is the nearest-rank percentile: although the code computes
  \<open>Math.ceil((percentile / 100) * n)\<close> in floating point, for every list of fees the index is the
  integer \<open>\<lceil>percentile * n / 100\<rceil> - 1\<close> and in range, so the answer is a fee the RPC reported, positive,
  with at least the level's share of the reported fees at or below it, and a higher priority level
  never gets a lower answer.
\<close>
theorem priority_fee_nearest_rank:
  assumes "\<exists>f \<in> set fees. 0 < dbl (of_int f)" "length fees \<le> 2 ^ 40"
  shows "\<exists>fee. estimateRpc config (Inr (Some fees)) level = Some fee
      \<and> fee \<in> (\<lambda>f. dbl (of_int f)) ` set fees \<and> 0 < fee
      \<and> LEVEL_PERCENTILES level * length (observed_fees fees)
          \<le> 100 * length (filter (\<lambda>f. f \<le> fee) (observed_fees fees))
      \<and> (\<forall>higher fee'. level \<le> higher \<longrightarrow> estimateRpc config (Inr (Some fees)) higher = Some fee' \<longrightarrow> fee \<le> fee')"
proof -
  let ?s = "observed_fees fees"
  let ?rank = "\<lambda>l. nearest_rank (LEVEL_PERCENTILES l) (length ?s)"
  have "set ?s \<noteq> {}" using assms(1) by (auto simp: set_observed_fees)
  then have ne: "?s \<noteq> []" by auto
  note len = observed_fees_length [OF assms(2)]
  have rank: "?rank l < length ?s" for l using percentile_index_exact(2) [of "length ?s" l] ne len by simp
  have srt: "sorted ?s" by (simp add: observed_fees_def)
  have mem: "?s ! ?rank level \<in> set ?s" using rank by simp
  have "set (take (Suc (?rank level)) ?s) \<subseteq> {f. f \<le> ?s ! ?rank level}"
  proof
    fix f assume "f \<in> set (take (Suc (?rank level)) ?s)"
    then obtain i where "i \<le> ?rank level" "f = ?s ! i" using rank [of level] by (auto simp: in_set_conv_nth less_Suc_eq_le)
    then show "f \<in> {f. f \<le> ?s ! ?rank level}" using sorted_nth_mono [OF srt] rank by simp
  qed
  then have "filter (\<lambda>f. f \<le> ?s ! ?rank level) (take (Suc (?rank level)) ?s) = take (Suc (?rank level)) ?s"
    by (auto intro: filter_True)
  then have "Suc (?rank level) \<le> length (filter (\<lambda>f. f \<le> ?s ! ?rank level) ?s)"
    using rank [of level] append_take_drop_id [of "Suc (?rank level)" ?s]
    by (metis Suc_leI filter_append le_add1 length_append length_take min_absorb2)
  moreover have "LEVEL_PERCENTILES level * length ?s \<le> 100 * Suc (?rank level)"
    using ceil_div_100(2) [of "LEVEL_PERCENTILES level * length ?s"] by (simp add: nearest_rank_def)
  ultimately have share: "LEVEL_PERCENTILES level * length ?s \<le> 100 * length (filter (\<lambda>f. f \<le> ?s ! ?rank level) ?s)"
    by (meson le_trans mult_le_mono2)
  have mono: "?s ! ?rank level \<le> ?s ! ?rank higher" if "level \<le> higher" for higher
    using sorted_nth_mono [OF srt nearest_rank_mono [OF LEVEL_PERCENTILES_mono [OF that]]] rank by blast
  show ?thesis
    using estimateRpc_rank [OF ne assms(2)] mem share mono by (auto simp: set_observed_fees)
qed

lemma dbl_one: "dbl 1 = 1" "0 < dbl 1"
proof -
  have "flog2 1 = 0" by (rule flog2_unique) simp_all
  then have "to_double 1 = Some (of_int (round_half_even (2 ^ 52)) / 2 ^ 52)"
    using to_double_scaled [of 1 52] by simp
  moreover have "round_half_even (2 ^ 52) = 2 ^ 52" using round_half_even_below [of 0 "2 ^ 52"] by simp
  ultimately show "dbl 1 = 1" by (simp add: dbl_def)
  then show "0 < dbl 1" by simp
qed

theorem priority_fee_nearest_rank_witness:
  "\<exists>fee. estimateRpc (pe_config (new_PriorityFeeEstimator [] True None)) (Inr (Some [0, 1])) high = Some fee \<and> 0 < fee"
  using priority_fee_nearest_rank [of "[0, 1]" "pe_config (new_PriorityFeeEstimator [] True None)" high] dbl_one by auto

section \<open>Estimates over time\<close>

fun estimates :: "(fee_answers \<times> msecs \<times> msecs \<times> PriorityLevel option) list \<Rightarrow> PriorityFeeEstimator \<Rightarrow> PriorityFeeEstimator" where
  "estimates [] est = est"
| "estimates ((answers, now, after, level) # calls) est = estimates calls (snd (estimate answers now after level est))"

lemma estimate_keeps:
  assumes "fees_capped est" "estimate answers now after level est = (fee, est')"
  shows "fees_capped est' \<and> pe_config est' = pe_config est \<and> fee \<le> fc_maxMicroLamports (pe_config est)"
  using assms fee_cached_le [OF assms(1)] fee_set_capped [OF assms(1) fresh_fee_le]
  by (auto simp: estimate_def Let_def fresh_fee_le fee_set_def split: option.splits)

lemma estimates_keep: "fees_capped est \<Longrightarrow> fees_capped (estimates calls est) \<and> pe_config (estimates calls est) = pe_config est"
proof (induction calls est rule: estimates.induct)
  case (2 answers now after level calls est)
  then show ?case
    using estimate_keeps [of est answers now after level "fst (estimate answers now after level est)"] by simp
qed simp

text \<open>
  Whatever Helius or the RPC answer, and whatever was cached before, an estimate never exceeds the
  configured maximum, so a hostile fee source cannot make the SDK overpay.
\<close>
theorem priority_fee_capped:
  "fst (estimate answers now after level (estimates calls (new_PriorityFeeEstimator url hasRpc opts)))
     \<le> fc_maxMicroLamports (pe_config (new_PriorityFeeEstimator url hasRpc opts))"
  using estimates_keep [OF new_fees_capped, of calls url hasRpc opts]
    estimate_keeps [of "estimates calls (new_PriorityFeeEstimator url hasRpc opts)" answers now after level]
  by (metis prod.collapse)

end
