(* ===== verification/OwnerTransactions.thy ===== *)
theory OwnerTransactions
  imports SigilInstructions PriorityFees
begin

text \<open>
  Transactions of the vault owner: the builder of \<open>sdk/kit/src/owner-transaction.ts\<close> with its shared
  lookup-table cache and the per-client blockhash caches, and the offline composer of
  \<open>sdk/kit/src/build-unsigned.ts\<close>. The kit's message functions are those of \<open>compose_env\<close>; the message
  decoder is the parameter \<open>decode\<close>.
\<close>

section \<open>owner-transaction.ts\<close>

definition CU_OWNER_ACTION :: nat where "CU_OWNER_ACTION = 200000"
definition CU_VAULT_CREATION :: nat where "CU_VAULT_CREATION = 400000"

record 'rpc BuildOwnerTransactionParams =
  op_rpc :: 'rpc
  op_owner :: address
  op_instructions :: "Instruction list"
  op_network :: string
  op_computeUnits :: "nat option"
  op_priorityFeeMicroLamports :: "nat option"
  op_addressLookupTables :: "lookup_tables option"
  op_blockhash :: "Blockhash option"

record 'tx OwnerTransactionResult =
  or_transaction :: 'tx
  or_txSizeBytes :: rat
  or_wireBase64 :: string
  or_blockhash :: Blockhash

text \<open>The caches of the module, and what the RPC client answers during a call, with the clock.\<close>

record 'rpc owner_state =
  ow_blockhashes :: "'rpc \<Rightarrow> BlockhashCache option"
  ow_altCache :: AltCache

record ('m, 'tx) owner_env =
  oe_compose :: "('m, 'tx) compose_env"
  oe_latestBlockhash :: "(js_error, Blockhash) result"
  oe_fetchAlts :: "address list \<Rightarrow> (js_error, lookup_tables) result"
  oe_now :: msecs
  oe_after :: msecs

text \<open>
  The two promises of step 2. The lookup-table address is computed while the array is built: when it
  throws, the blockhash request is already under way and still fills its cache.
\<close>

definition owner_blockhash ::
  "('m, 'tx) owner_env \<Rightarrow> 'rpc BuildOwnerTransactionParams \<Rightarrow> ('rpc owner_state, sdk_error, Blockhash) step" where
  "owner_blockhash env params st =
     (case op_blockhash params of
        Some b \<Rightarrow> (Inr b, st)
      | None \<Rightarrow>
          (case cached_blockhash \<lparr>bx_rpc = op_rpc params, bx_answer = oe_latestBlockhash env, bx_now = oe_now env,
                                   bx_after = oe_after env\<rparr> (ow_blockhashes st) of
             (r, registry) \<Rightarrow> (r, st\<lparr>ow_blockhashes := registry\<rparr>)))"

definition owner_tables ::
  "('m, 'tx) owner_env \<Rightarrow> 'rpc BuildOwnerTransactionParams \<Rightarrow> ('rpc owner_state, sdk_error, lookup_tables) step" where
  "owner_tables env params st =
     (case op_addressLookupTables params of
        Some tables \<Rightarrow> (Inr tables, st)
      | None \<Rightarrow>
          (case getSigilAltAddress (normalizeNetwork (op_network params)) of
             Inl e \<Rightarrow> (Inl e, st)
           | Inr alt \<Rightarrow>
               (case alt_resolve (oe_fetchAlts env) [alt] (oe_now env) (ow_altCache st) of
                  (tables, cache) \<Rightarrow> (Inr tables, st\<lparr>ow_altCache := cache\<rparr>))))"

definition owner_instructions :: "('m, 'tx) compose_env \<Rightarrow> 'rpc BuildOwnerTransactionParams \<Rightarrow> Instruction list" where
  "owner_instructions env params =
     (let computeUnits = (case op_computeUnits params of Some u \<Rightarrow> u | None \<Rightarrow> CU_OWNER_ACTION)
      in [cp_setComputeUnitLimit env computeUnits]
         @ (case op_priorityFeeMicroLamports params of
              Some fee \<Rightarrow> if fee > 0 then [cp_setComputeUnitPrice env fee] else []
            | None \<Rightarrow> [])
         @ op_instructions params)"

definition owner_message ::
  "('m, 'tx) compose_env \<Rightarrow> 'rpc BuildOwnerTransactionParams \<Rightarrow> Blockhash \<Rightarrow> lookup_tables \<Rightarrow> 'm" where
  "owner_message env params blockhash tables =
     (let txMessage = cp_message env
            \<lparr>tm_version = 0, tm_feePayer = op_owner params, tm_lifetime = blockhash,
             tm_instructions = owner_instructions env params\<rparr>
      in if length tables > 0 then cp_compress env txMessage tables else txMessage)"

definition buildOwnerTransaction ::
  "('m, 'tx) owner_env \<Rightarrow> 'rpc BuildOwnerTransactionParams
    \<Rightarrow> ('rpc owner_state, sdk_error, 'tx OwnerTransactionResult) step" where
  "buildOwnerTransaction env params st =
     (if length (op_instructions params) = 0 then (Inl RPC_INSTRUCTION_REQUIRED, st)
      else
        let (b, st1) = owner_blockhash env params st; (t, st2) = owner_tables env params st1
        in (case t of
              Inl e \<Rightarrow> Inl e
            | Inr tables \<Rightarrow>
                rbind b (\<lambda>blockhash.
                  let compiledTx = cp_compile (oe_compose env) (owner_message (oe_compose env) params blockhash tables);
                      size = measureTransactionSize (oe_compose env) compiledTx
                  in if \<not> sz_withinLimit size then Inl (RPC_TX_TOO_LARGE (sz_byteLength size) MAX_TX_SIZE)
                     else Inr \<lparr>or_transaction = compiledTx, or_txSizeBytes = sz_byteLength size,
                               or_wireBase64 = sz_wireBase64 size, or_blockhash = blockhash\<rparr>), st2))"

section \<open>build-unsigned.ts\<close>







section \<open>Properties\<close>

lemma buildOwner_cases:
  assumes "buildOwnerTransaction env params st = (Inr r, st')"
  obtains blockhash tables st1 where
    "op_instructions params \<noteq> []" "owner_blockhash env params st = (Inr blockhash, st1)"
    "owner_tables env params st1 = (Inr tables, st')"
    "or_transaction r = cp_compile (oe_compose env) (owner_message (oe_compose env) params blockhash tables)"
    "or_wireBase64 r = cp_wire64 (oe_compose env) (or_transaction r)"
    "or_txSizeBytes r = base64ByteLength (or_wireBase64 r)" "or_txSizeBytes r \<le> 1232" "or_blockhash r = blockhash"
proof -
  obtain b st1 t st2 where p: "owner_blockhash env params st = (b, st1)" "owner_tables env params st1 = (t, st2)"
    by (cases "owner_blockhash env params st", cases "owner_tables env params (snd (owner_blockhash env params st))") auto
  obtain tables blockhash where "t = Inr tables" "b = Inr blockhash"
    using assms p by (auto simp: buildOwnerTransaction_def split: if_splits sum.splits)
  then show thesis
    using assms p that [of blockhash st1 tables]
    by (auto simp: buildOwnerTransaction_def measureTransactionSize_def MAX_TX_SIZE_def Let_def split: if_splits)
qed

text \<open>
  An owner transaction carries exactly the caller's instructions: it compiles the message whose
  instructions are a compute-unit limit, at most one positive price and then the given list in order,
  paid by the owner, under the blockhash the result reports; it fits the wire limit, and a blockhash
  or lookup tables the caller supplied are the ones used, with the module's caches left as they were.
\<close>
theorem owner_transaction_exact:
  assumes "buildOwnerTransaction env params st = (Inr r, st')"
  shows "\<exists>budget tables.
      or_transaction r = cp_compile (oe_compose env)
        (let message = cp_message (oe_compose env)
               \<lparr>tm_version = 0, tm_feePayer = op_owner params, tm_lifetime = or_blockhash r,
                tm_instructions = budget @ op_instructions params\<rparr>
         in if tables = [] then message else cp_compress (oe_compose env) message tables)
    \<and> (budget = [cp_setComputeUnitLimit (oe_compose env) (or_default (op_computeUnits params) 200000)]
       \<or> (\<exists>fee > 0. op_priorityFeeMicroLamports params = Some fee
            \<and> budget = [cp_setComputeUnitLimit (oe_compose env) (or_default (op_computeUnits params) 200000),
                        cp_setComputeUnitPrice (oe_compose env) fee]))
    \<and> base64ByteLength (cp_wire64 (oe_compose env) (or_transaction r)) \<le> 1232
    \<and> (op_addressLookupTables params \<noteq> None \<longrightarrow> op_addressLookupTables params = Some tables \<and> ow_altCache st' = ow_altCache st)
    \<and> (op_blockhash params \<noteq> None \<longrightarrow> op_blockhash params = Some (or_blockhash r) \<and> ow_blockhashes st' = ow_blockhashes st)"
proof -
  obtain blockhash tables st1 where c: "owner_blockhash env params st = (Inr blockhash, st1)"
    "owner_tables env params st1 = (Inr tables, st')"
    "or_transaction r = cp_compile (oe_compose env) (owner_message (oe_compose env) params blockhash tables)"
    "or_wireBase64 r = cp_wire64 (oe_compose env) (or_transaction r)"
    "or_txSizeBytes r = base64ByteLength (or_wireBase64 r)" "or_txSizeBytes r \<le> 1232" "or_blockhash r = blockhash"
    using assms by (rule buildOwner_cases)
  obtain budget where b: "owner_instructions (oe_compose env) params = budget @ op_instructions params"
    "budget = [cp_setComputeUnitLimit (oe_compose env) (or_default (op_computeUnits params) 200000)]
       \<or> (\<exists>fee > 0. op_priorityFeeMicroLamports params = Some fee
            \<and> budget = [cp_setComputeUnitLimit (oe_compose env) (or_default (op_computeUnits params) 200000),
                        cp_setComputeUnitPrice (oe_compose env) fee])"
    by (auto simp: owner_instructions_def or_default_def CU_OWNER_ACTION_def Let_def split: option.splits if_splits)
  have keepb: "op_blockhash params \<noteq> None \<longrightarrow> op_blockhash params = Some blockhash \<and> st1 = st"
    using c(1) by (auto simp: owner_blockhash_def split: option.splits prod.splits)
  have alts: "op_addressLookupTables params \<noteq> None \<longrightarrow> op_addressLookupTables params = Some tables \<and> st' = st1"
    using c(2) by (auto simp: owner_tables_def split: option.splits prod.splits)
  have frame: "ow_altCache st1 = ow_altCache st" "ow_blockhashes st' = ow_blockhashes st1"
    using c(1,2) by (auto simp: owner_blockhash_def owner_tables_def split: option.splits prod.splits sum.splits)
  show ?thesis
    by (rule exI [of _ budget], rule exI [of _ tables])
      (use c b keepb alts frame in \<open>simp add: owner_message_def Let_def\<close>)
qed

text \<open>The mainnet lookup table is a placeholder: without explicit tables nothing can be built there.\<close>

lemma mainnet_needs_tables:
  assumes "normalizeNetwork (op_network params) \<noteq> ''devnet''" "op_addressLookupTables params = None"
    and "op_instructions params \<noteq> []"
  shows "fst (buildOwnerTransaction env params st) = Inl (PLAIN_ERROR ''Mainnet Sigil ALT not yet deployed'')"
  using assms
  by (simp add: buildOwnerTransaction_def owner_tables_def getSigilAltAddress_def SIGIL_ALT_MAINNET_def
      ALT_PLACEHOLDER_def Let_def split: prod.split)





section \<open>A sample kit\<close>

definition flag_compose_env :: "(bool, bool) compose_env" where
  "flag_compose_env =
     \<lparr>cp_setComputeUnitLimit = \<lambda>u. sample_ix COMPUTE_BUDGET_PROGRAM_ADDRESS [2],
      cp_setComputeUnitPrice = \<lambda>p. sample_ix COMPUTE_BUDGET_PROGRAM_ADDRESS [3],
      cp_message = \<lambda>m. length (tm_instructions m) = 2, cp_compress = \<lambda>m alts. m, cp_compile = \<lambda>m. m,
      cp_wire64 = \<lambda>t. btoa (0 # [] @ [of_bool t])\<rparr>"

definition flag_owner_env :: "(bool, bool) owner_env" where
  "flag_owner_env =
     \<lparr>oe_compose = flag_compose_env, oe_latestBlockhash = Inr \<lparr>bh_blockhash = ''h'', bh_lastValidBlockHeight = 7\<rparr>,
      oe_fetchAlts = \<lambda>as. Inr [], oe_now = 0, oe_after = 1\<rparr>"

definition sample_owner_params :: "string BuildOwnerTransactionParams" where
  "sample_owner_params =
     \<lparr>op_rpc = ''rpc'', op_owner = ''Owner'', op_instructions = [sample_ix ''Prog'' [1]], op_network = ''devnet'',
      op_computeUnits = None, op_priorityFeeMicroLamports = None, op_addressLookupTables = None, op_blockhash = None\<rparr>"

definition new_owner_state :: "'rpc owner_state" where
  "new_owner_state = \<lparr>ow_blockhashes = Map.empty, ow_altCache = new_AltCache None None\<rparr>"

lemma flag_wire_fits: "base64ByteLength (btoa (0 # [] @ [of_bool t])) \<le> 1232"
  by (simp add: base64ByteLength_def Let_def)

lemma flag_builds:
  assumes "op_network params = ''devnet''" "op_instructions params \<noteq> []" "op_blockhash params = None"
  shows "\<exists>r st'. buildOwnerTransaction flag_owner_env params new_owner_state = (Inr r, st')"
proof -
  have b: "owner_blockhash flag_owner_env params new_owner_state
      = (Inr \<lparr>bh_blockhash = ''h'', bh_lastValidBlockHeight = 7\<rparr>, snd (owner_blockhash flag_owner_env params new_owner_state))"
    using assms(3)
    by (simp add: owner_blockhash_def new_owner_state_def cached_blockhash_def getBlockhashCache_def bh_get_def bh_cached_def
        bh_refresh_def new_BlockhashCache_def flag_owner_env_def lift_err_def Let_def)
  have "\<exists>t st2. owner_tables flag_owner_env params st = (Inr t, st2)" for st :: "'a owner_state"
    using assms(1)
    by (simp add: owner_tables_def getSigilAltAddress_def normalizeNetwork_def split: option.split prod.split)
  then obtain t st2 where t: "owner_tables flag_owner_env params (snd (owner_blockhash flag_owner_env params new_owner_state)) = (Inr t, st2)"
    by metis
  have "sz_withinLimit (measureTransactionSize flag_compose_env tx)" for tx
    using flag_wire_fits by (simp add: measureTransactionSize_def flag_compose_env_def MAX_TX_SIZE_def Let_def)
  then show ?thesis
    using assms(2) t by (subst buildOwnerTransaction_def, subst b) (simp add: Let_def flag_owner_env_def)
qed

theorem owner_transaction_exact_witness:
  "\<exists>r st' budget. buildOwnerTransaction flag_owner_env sample_owner_params new_owner_state = (Inr r, st')
     \<and> (budget = [cp_setComputeUnitLimit flag_compose_env 200000] \<or> length budget = 2)
     \<and> base64ByteLength (cp_wire64 flag_compose_env (or_transaction r)) \<le> 1232"
proof -
  obtain r st' where r: "buildOwnerTransaction flag_owner_env sample_owner_params new_owner_state = (Inr r, st')"
    using flag_builds [of sample_owner_params] by (auto simp: sample_owner_params_def)
  have e: "oe_compose flag_owner_env = flag_compose_env" "op_computeUnits sample_owner_params = None"
    by (simp_all add: flag_owner_env_def sample_owner_params_def)
  show ?thesis
    using owner_transaction_exact [OF r] r by (auto simp: e or_default_def)
qed




end
