(* ===== verification/VaultCreation.thy ===== *)
theory VaultCreation
  imports Shield UsdAmounts OwnerTransactions
begin

text \<open>
  Provisioning a vault: \<open>sdk/kit/src/inscribe.ts\<close> (vault id discovery, policy mapping, \<open>inscribe\<close>,
  \<open>withVault\<close>), \<open>sdk/kit/src/create-vault.ts\<close> and the two generated instructions it builds.
  The argument checks of the program's \<open>initialize_vault\<close> (\<open>programs/sigil/src/instructions/initialize_vault.rs\<close>) are
  translated beside them. The kit's integer and array encoders are fields of \<open>codec_env\<close>; the existence of a vault account is
  what \<open>fetchMaybeAgentVault\<close> answers.
\<close>

section \<open>Generated instructions\<close>

record codec_env = builder_env +
  bw_u8 :: "int \<Rightarrow> (js_error, bytes) result"
  bw_u16 :: "int \<Rightarrow> (js_error, bytes) result"
  bw_addresses :: "address list \<Rightarrow> (js_error, bytes) result"
  bw_u64s :: "int list \<Rightarrow> (js_error, bytes) result"

definition INITIALIZE_VAULT_DISCRIMINATOR :: bytes where
  "INITIALIZE_VAULT_DISCRIMINATOR = [48, 191, 163, 44, 71, 129, 63, 164]"

definition REGISTER_AGENT_DISCRIMINATOR :: bytes where
  "REGISTER_AGENT_DISCRIMINATOR = [135, 157, 66, 195, 2, 113, 175, 30]"

record InitializeVaultInput =
  iv_owner :: address
  iv_agentSpendOverlay :: address
  iv_feeDestination :: address
  iv_vaultId :: int
  iv_dailySpendingCapUsd :: int
  iv_maxTransactionSizeUsd :: int
  iv_protocolMode :: int
  iv_protocols :: "address list"
  iv_developerFeeRate :: int
  iv_maxSlippageBps :: int
  iv_timelockDuration :: int
  iv_allowedDestinations :: "address list"
  iv_protocolCaps :: "int list"

definition initialize_data :: "codec_env \<Rightarrow> InitializeVaultInput \<Rightarrow> (sdk_error, bytes) result" where
  "initialize_data env input =
     rbind (lift_err (bv_u64 env (iv_vaultId input))) (\<lambda>vaultId.
     rbind (lift_err (bv_u64 env (iv_dailySpendingCapUsd input))) (\<lambda>dailyCap.
     rbind (lift_err (bv_u64 env (iv_maxTransactionSizeUsd input))) (\<lambda>maxTx.
     rbind (lift_err (bw_u8 env (iv_protocolMode input))) (\<lambda>mode.
     rbind (lift_err (bw_addresses env (iv_protocols input))) (\<lambda>protocols.
     rbind (lift_err (bw_u16 env (iv_developerFeeRate input))) (\<lambda>feeRate.
     rbind (lift_err (bw_u16 env (iv_maxSlippageBps input))) (\<lambda>slippage.
     rbind (lift_err (bv_u64 env (iv_timelockDuration input))) (\<lambda>timelock.
     rbind (lift_err (bw_addresses env (iv_allowedDestinations input))) (\<lambda>destinations.
     rbind (lift_err (bw_u64s env (iv_protocolCaps input))) (\<lambda>caps.
       Inr (INITIALIZE_VAULT_DISCRIMINATOR @ vaultId @ dailyCap @ maxTx @ mode @ protocols @ feeRate @ slippage
            @ timelock @ destinations @ caps)))))))))))"

definition getInitializeVaultInstructionAsync ::
  "codec_env \<Rightarrow> InitializeVaultInput \<Rightarrow> (sdk_error, Instruction) result" where
  "getInitializeVaultInstructionAsync env input =
     (let pda = bv_pda env; enc = bv_enc env; prog = SIGIL_PROGRAM_ADDRESS; meta = bv_meta env
      in rbind (lift_err (bv_u64 env (iv_vaultId input))) (\<lambda>vaultIdSeed.
         let vault = fst (pda prog [[118, 97, 117, 108, 116], enc (iv_owner input), vaultIdSeed]);
             policy = fst (pda prog [[112, 111, 108, 105, 99, 121], enc vault]);
             tracker = fst (pda prog [[116, 114, 97, 99, 107, 101, 114], enc vault])
         in rbind (initialize_data env input) (\<lambda>data.
            Inr \<lparr>ix_programAddress = prog,
                 ix_accounts = Some
                   [meta (Some (iv_owner input)) True True,
                    meta (Some vault) False True,
                    meta (Some policy) False True,
                    meta (Some tracker) False True,
                    meta (Some (iv_agentSpendOverlay input)) False True,
                    meta (Some (iv_feeDestination input)) False False,
                    meta (Some SYSTEM_PROGRAM_ADDRESS) False False],
                 ix_data = Some data\<rparr>)))"

record RegisterAgentInput =
  rg_owner :: address
  rg_vault :: address
  rg_agentSpendOverlay :: address
  rg_agent :: address
  rg_capability :: int
  rg_spendingLimitUsd :: int

definition register_data :: "codec_env \<Rightarrow> RegisterAgentInput \<Rightarrow> (sdk_error, bytes) result" where
  "register_data env input =
     rbind (lift_err (bw_u8 env (rg_capability input))) (\<lambda>capability.
     rbind (lift_err (bv_u64 env (rg_spendingLimitUsd input))) (\<lambda>limit.
       Inr (REGISTER_AGENT_DISCRIMINATOR @ bv_enc env (rg_agent input) @ capability @ limit)))"

definition getRegisterAgentInstruction :: "codec_env \<Rightarrow> RegisterAgentInput \<Rightarrow> (sdk_error, Instruction) result" where
  "getRegisterAgentInstruction env input =
     rbind (register_data env input) (\<lambda>data.
       Inr \<lparr>ix_programAddress = SIGIL_PROGRAM_ADDRESS,
            ix_accounts = Some
              [bv_meta env (Some (rg_owner input)) True False,
               bv_meta env (Some (rg_vault input)) False True,
               bv_meta env (Some (rg_agentSpendOverlay input)) False True],
            ix_data = Some data\<rparr>)"

section \<open>inscribe.ts\<close>

record VaultParams =
  vr_vaultId :: int
  vr_dailySpendingCap :: int
  vr_maxTransactionSize :: int
  vr_protocolMode :: int
  vr_protocols :: "address list"
  vr_feeDestination :: address
  vr_developerFeeRate :: int
  vr_timelockDuration :: int
  vr_allowedDestinations :: "address list"
  vr_maxSlippageBps :: int

record VaultParamOpts =
  vo_developerFeeRate :: "int option"
  vo_timelockDuration :: "int option"
  vo_allowedDestinations :: "address list option"
  vo_maxSlippageBps :: "int option"

fun max_cap :: "SpendLimit list \<Rightarrow> int \<Rightarrow> int" where
  "max_cap [] maxCap = maxCap"
| "max_cap (limit # limits) maxCap = max_cap limits (if sl_amount limit > maxCap then sl_amount limit else maxCap)"

definition mapPoliciesToVaultParams ::
  "ResolvedPolicies \<Rightarrow> int \<Rightarrow> address \<Rightarrow> VaultParamOpts option \<Rightarrow> VaultParams" where
  "mapPoliciesToVaultParams resolved vaultId feeDestination opts =
     (let maxCap = max_cap (rp_spendLimits resolved) 0;
          protocolArr = or_default (rp_allowedProtocols resolved) [];
          protocols = take 10 protocolArr
      in \<lparr>vr_vaultId = vaultId, vr_dailySpendingCap = maxCap,
          vr_maxTransactionSize = or_default (rp_maxTransactionSize resolved) maxCap,
          vr_protocolMode = (if length protocols > 0 then 1 else 0), vr_protocols = protocols,
          vr_feeDestination = feeDestination,
          vr_developerFeeRate = or_default (Option.bind opts vo_developerFeeRate) 0,
          vr_timelockDuration = or_default (Option.bind opts vo_timelockDuration) 0,
          vr_allowedDestinations = or_default (Option.bind opts vo_allowedDestinations) [],
          vr_maxSlippageBps = or_default (Option.bind opts vo_maxSlippageBps) 100\<rparr>)"

text \<open>
  \<open>exists\<close> is the \<open>exists\<close> flag of \<open>fetchMaybeAgentVault\<close>, which may throw. The sequential probe gives the
  first free id among those listed, or \<open>None\<close> after the last.
\<close>

fun probe_ids ::
  "(address \<Rightarrow> (js_error, bool) result) \<Rightarrow> (int \<Rightarrow> address) \<Rightarrow> int list \<Rightarrow> (sdk_error, int option) result" where
  "probe_ids exists vaultPda [] = Inr None"
| "probe_ids exists vaultPda (i # ids) =
     rbind (lift_err (exists (vaultPda i))) (\<lambda>present.
       if \<not> present then Inr (Some i) else probe_ids exists vaultPda ids)"

fun max_id :: "VaultLocator list \<Rightarrow> int \<Rightarrow> int" where
  "max_id [] maxId = maxId"
| "max_id (v # vs) maxId = max_id vs (if vl_vaultId v > maxId then vl_vaultId v else maxId)"

definition findNextVaultId ::
  "(address \<Rightarrow> (js_error, bool) result) \<Rightarrow> gpa_env \<Rightarrow> address \<Rightarrow> address \<Rightarrow> (sdk_error, int) result" where
  "findNextVaultId exists env owner programAddress =
     rbind (probe_ids exists (\<lambda>i. fst (getVaultPDA (ge_pda env) (ge_enc env) owner i programAddress)) [0, 1, 2, 3, 4]) (\<lambda>free.
     case free of
       Some i \<Rightarrow> Inr i
     | None \<Rightarrow>
         rbind (findVaultsByOwner env owner 100) (\<lambda>vaults.
         if length vaults = 0 then Inr 0
         else let nextId = max_id vaults 0 + 1
              in if nextId \<ge> 256 then Inl (SDK_VAULT_SLOTS_EXHAUSTED owner) else Inr nextId))"

record InscribeOptions =
  io_network :: string
  io_owner :: address
  io_agent :: address
  io_vaultId :: "int option"

record InscribeResult =
  ir_vaultAddress :: address
  ir_vaultId :: int
  ir_policyAddress :: address
  ir_pendingPolicyAddress :: address
  ir_agentAddress :: address
  ir_ownerAddress :: address

definition resolve_vault_id ::
  "(address \<Rightarrow> (js_error, bool) result) \<Rightarrow> gpa_env \<Rightarrow> address \<Rightarrow> int option \<Rightarrow> (sdk_error, int) result" where
  "resolve_vault_id exists env owner vaultId =
     (case vaultId of Some i \<Rightarrow> Inr i | None \<Rightarrow> findNextVaultId exists env owner SIGIL_PROGRAM_ADDRESS)"

definition inscribe ::
  "(address \<Rightarrow> (js_error, bool) result) \<Rightarrow> gpa_env \<Rightarrow> InscribeOptions \<Rightarrow> (sdk_error, InscribeResult) result" where
  "inscribe exists env options =
     rbind (validateNetwork (io_network options)) (\<lambda>_.
     if io_owner options = io_agent options
     then Inl (SDK_OWNER_AGENT_COLLISION (io_owner options) (io_agent options))
     else rbind (resolve_vault_id exists env (io_owner options) (io_vaultId options)) (\<lambda>vaultId.
       let pda = ge_pda env; enc = ge_enc env; prog = SIGIL_PROGRAM_ADDRESS;
           vaultAddress = fst (getVaultPDA pda enc (io_owner options) vaultId prog)
       in Inr \<lparr>ir_vaultAddress = vaultAddress, ir_vaultId = vaultId,
               ir_policyAddress = fst (getPolicyPDA pda enc vaultAddress prog),
               ir_pendingPolicyAddress = fst (getPendingPolicyPDA pda enc vaultAddress prog),
               ir_agentAddress = io_agent options, ir_ownerAddress = io_owner options\<rparr>))"

definition withVault ::
  "(address \<Rightarrow> (js_error, bool) result) \<Rightarrow> gpa_env \<Rightarrow> InscribeOptions \<Rightarrow> ShieldPolicies option \<Rightarrow> custom_check option
    \<Rightarrow> int option \<Rightarrow> (shield_error, 'c ShieldedContext \<times> InscribeResult) result" where
  "withVault exists env options policies customCheck staleness =
     (case inscribe exists env options of
        Inl e \<Rightarrow> Inl (SdkError e)
      | Inr inscribeResult \<Rightarrow>
          rbind (shield policies customCheck
            (Some \<lparr>sy_vaultAddress = ir_vaultAddress inscribeResult, sy_agentAddress = io_agent options,
                   sy_network = io_network options\<rparr>) staleness) (\<lambda>shieldCtx. Inr (shieldCtx, inscribeResult)))"

section \<open>create-vault.ts\<close>

text \<open>A required field is \<open>None\<close> when it is missing or of another runtime type.\<close>

record CreateVaultOptions =
  cv_network :: string
  cv_owner :: address
  cv_agent :: address
  cv_permissions :: "int option"
  cv_spendingLimitUsd :: "int option"
  cv_dailySpendingCapUsd :: "int option"
  cv_maxTransactionSizeUsd :: "int option"
  cv_feeDestination :: "address option"
  cv_developerFeeRate :: "int option"
  cv_protocols :: "address list option"
  cv_protocolMode :: "int option"
  cv_protocolCaps :: "int list option"
  cv_maxSlippageBps :: "int option"
  cv_timelockDuration :: "int option"
  cv_allowedDestinations :: "address list option"
  cv_vaultId :: "int option"

record CreateVaultResult =
  cr_vaultAddress :: address
  cr_vaultId :: int
  cr_policyAddress :: address
  cr_agentOverlayAddress :: address
  cr_initializeVaultIx :: Instruction
  cr_registerAgentIx :: Instruction

definition create_check :: "CreateVaultOptions \<Rightarrow> (sdk_error, int \<times> int \<times> int) result" where
  "create_check options =
     (if cv_owner options = cv_agent options
      then Inl (SDK_OWNER_AGENT_COLLISION (cv_owner options) (cv_agent options))
      else case cv_spendingLimitUsd options of
             None \<Rightarrow> Inl (SDK_INVALID_PARAMS ''spendingLimitUsd'' [])
           | Some spendingLimitUsd \<Rightarrow>
               (case cv_dailySpendingCapUsd options of
                  None \<Rightarrow> Inl (SDK_INVALID_PARAMS ''dailySpendingCapUsd'' [])
                | Some dailySpendingCapUsd \<Rightarrow>
                    (case cv_timelockDuration options of
                       None \<Rightarrow> Inl (SDK_INVALID_PARAMS ''timelockDuration'' [])
                     | Some timelockDuration \<Rightarrow>
                         rbind (validateAgentCapAggregate dailySpendingCapUsd [] spendingLimitUsd) (\<lambda>_.
                         case cv_permissions options of
                           None \<Rightarrow> Inr (spendingLimitUsd, dailySpendingCapUsd, timelockDuration)
                         | Some cap \<Rightarrow>
                             if cap < 0 \<or> cap > 2 then Inl (SDK_INVALID_CAPABILITY cap)
                             else Inr (spendingLimitUsd, dailySpendingCapUsd, timelockDuration)))))"

definition initialize_input ::
  "CreateVaultOptions \<Rightarrow> int \<Rightarrow> address \<Rightarrow> int \<Rightarrow> int \<Rightarrow> InitializeVaultInput" where
  "initialize_input options vaultId agentOverlayAddress dailySpendingCapUsd timelockDuration =
     (let protocols = or_default (cv_protocols options) []
      in \<lparr>iv_owner = cv_owner options, iv_agentSpendOverlay = agentOverlayAddress,
          iv_feeDestination = or_default (cv_feeDestination options) (cv_owner options), iv_vaultId = vaultId,
          iv_dailySpendingCapUsd = dailySpendingCapUsd,
          iv_maxTransactionSizeUsd = or_default (cv_maxTransactionSizeUsd options) dailySpendingCapUsd,
          iv_protocolMode = or_default (cv_protocolMode options) 0, iv_protocols = protocols,
          iv_developerFeeRate = or_default (cv_developerFeeRate options) 0,
          iv_maxSlippageBps = or_default (cv_maxSlippageBps options) 100, iv_timelockDuration = timelockDuration,
          iv_allowedDestinations = or_default (cv_allowedDestinations options) [],
          iv_protocolCaps = (case cv_protocolCaps options of Some caps \<Rightarrow> caps | None \<Rightarrow> map (\<lambda>_. 0) protocols)\<rparr>)"

record vault_env =
  ve_codec :: codec_env
  ve_gpa :: gpa_env
  ve_exists :: "address \<Rightarrow> (js_error, bool) result"

definition createVault :: "vault_env \<Rightarrow> CreateVaultOptions \<Rightarrow> (sdk_error, CreateVaultResult) result" where
  "createVault env options =
     rbind (create_check options) (\<lambda>(spendingLimitUsd, dailySpendingCapUsd, timelockDuration).
     rbind (resolve_vault_id (ve_exists env) (ve_gpa env) (cv_owner options) (cv_vaultId options)) (\<lambda>vaultId.
     let pda = bv_pda (ve_codec env); enc = bv_enc (ve_codec env); prog = SIGIL_PROGRAM_ADDRESS;
         vaultAddress = fst (getVaultPDA pda enc (cv_owner options) vaultId prog);
         policyAddress = fst (getPolicyPDA pda enc vaultAddress prog);
         agentOverlayAddress = fst (getAgentOverlayPDA pda enc vaultAddress 0 prog)
     in rbind (getInitializeVaultInstructionAsync (ve_codec env)
            (initialize_input options vaultId agentOverlayAddress dailySpendingCapUsd timelockDuration)) (\<lambda>initializeVaultIx.
        rbind (getRegisterAgentInstruction (ve_codec env)
            \<lparr>rg_owner = cv_owner options, rg_vault = vaultAddress, rg_agentSpendOverlay = agentOverlayAddress,
             rg_agent = cv_agent options, rg_capability = or_default (cv_permissions options) FULL_CAPABILITY,
             rg_spendingLimitUsd = spendingLimitUsd\<rparr>) (\<lambda>registerAgentIx.
        Inr \<lparr>cr_vaultAddress = vaultAddress, cr_vaultId = vaultId, cr_policyAddress = policyAddress,
             cr_agentOverlayAddress = agentOverlayAddress, cr_initializeVaultIx = initializeVaultIx,
             cr_registerAgentIx = registerAgentIx\<rparr>))))"

text \<open>\<open>createAndSendVault\<close>: the call returns (\<open>Some\<close>) unless the confirmation loop never ends.\<close>

record 'rpc SendVaultOptions =
  sv_rpc :: 'rpc
  sv_computeUnits :: "nat option"
  sv_priorityFeeMicroLamports :: "nat option"
  sv_confirmOptions :: "SendOptions option"

record send_answers =
  sa_send :: "string \<Rightarrow> (js_error, string) result"
  sa_sentAt :: msecs
  sa_poll :: "nat \<Rightarrow> poll_round"

definition createAndSendVault ::
  "vault_env \<Rightarrow> ('m, 'tx) owner_env \<Rightarrow> send_answers \<Rightarrow> 'tx TransactionSigner \<Rightarrow> 'rpc SendVaultOptions
    \<Rightarrow> CreateVaultOptions \<Rightarrow> 'rpc owner_state
    \<Rightarrow> ((sdk_error, CreateVaultResult \<times> string) result \<times> 'rpc owner_state) option" where
  "createAndSendVault env oenv answers owner sendOpts options st =
     (case createVault env (options\<lparr>cv_owner := ts_address owner\<rparr>) of
        Inl e \<Rightarrow> Some (Inl e, st)
      | Inr result \<Rightarrow>
          (case buildOwnerTransaction oenv
                  \<lparr>op_rpc = sv_rpc sendOpts, op_owner = ts_address owner,
                   op_instructions = [cr_initializeVaultIx result, cr_registerAgentIx result],
                   op_network = cv_network options, op_computeUnits = sv_computeUnits sendOpts,
                   op_priorityFeeMicroLamports = sv_priorityFeeMicroLamports sendOpts,
                   op_addressLookupTables = None, op_blockhash = None\<rparr> st of
             (Inl e, st1) \<Rightarrow> Some (Inl e, st1)
           | (Inr ownerTx, st1) \<Rightarrow>
               (case signAndEncode (cp_wire64 (oe_compose oenv)) owner (or_transaction ownerTx) of
                  Inl e \<Rightarrow> Some (Inl e, st1)
                | Inr encoded \<Rightarrow>
                    map_option (\<lambda>r. (rbind r (\<lambda>signature. Inr (result, signature)), st1))
                      (sendAndConfirmTransaction (sa_send answers) (sa_sentAt answers) (sa_poll answers) encoded
                        (or_default (sv_confirmOptions sendOpts) \<lparr>so_timeoutMs = None, so_commitment = None\<rparr>)))))"

section \<open>The next vault id\<close>

lemma probe_ids_spec:
  "probe_ids exists vaultPda ids = Inr r \<Longrightarrow>
     (case r of
        Some i \<Rightarrow> (\<exists>pre post. ids = pre @ i # post \<and> (\<forall>j \<in> set pre. exists (vaultPda j) = Inr True)
                     \<and> exists (vaultPda i) = Inr False)
      | None \<Rightarrow> \<forall>j \<in> set ids. exists (vaultPda j) = Inr True)"
proof (induction exists vaultPda ids rule: probe_ids.induct)
  case (2 exists vaultPda i ids)
  then obtain present where p: "exists (vaultPda i) = Inr present"
    by (auto simp: lift_err_def split: sum.splits)
  show ?case
  proof (cases present)
    case True
    then have "probe_ids exists vaultPda ids = Inr r" using 2(2) p by (simp add: lift_err_def)
    note IH = 2(1) [of True, simplified, OF this]
    show ?thesis
    proof (cases r)
      case (Some k)
      with IH obtain pre post where "ids = pre @ k # post" "\<forall>j \<in> set pre. exists (vaultPda j) = Inr True"
        "exists (vaultPda k) = Inr False" by auto
      then have "i # ids = (i # pre) @ k # post \<and> (\<forall>j \<in> set (i # pre). exists (vaultPda j) = Inr True)
        \<and> exists (vaultPda k) = Inr False" using True p by simp
      then show ?thesis using Some by (simp only: option.case) blast
    qed (use IH True p in simp)
  next
    case False
    then have "r = Some i" using 2(2) p by (simp add: lift_err_def)
    have "i # ids = [] @ i # ids \<and> (\<forall>j \<in> set []. exists (vaultPda j) = Inr True) \<and> exists (vaultPda i) = Inr False"
      using False p by simp
    then show ?thesis using \<open>r = Some i\<close> by (simp only: option.case) blast
  qed
qed simp

lemma first_five: "k < 5 \<Longrightarrow> [0, 1, 2, 3, 4 :: int] ! k = int k"
  by (auto simp: less_Suc_eq numeral_eq_Suc)

lemma max_id_bounds: "m \<le> max_id vs m \<and> (\<forall>v \<in> set vs. vl_vaultId v \<le> max_id vs m)"
  by (induction vs m rule: max_id.induct) auto

text \<open>
  \<open>findNextVaultId\<close> gives an unused id, except in one case. From the probe it is the first id whose
  account does not exist, with every smaller one taken; past five vaults it is below 256 and above
  every id discovery found. When discovery answers with no vault although five were just seen, it
  gives 0, whose account exists.
\<close>
theorem next_vault_id_exact:
  assumes "findNextVaultId exists env owner prog = Inr i"
  shows "let pda = \<lambda>j. fst (getVaultPDA (ge_pda env) (ge_enc env) owner j prog) in
      (0 \<le> i \<and> i < 5 \<and> exists (pda i) = Inr False \<and> (\<forall>j \<in> {0 ..< i}. exists (pda j) = Inr True))
    \<or> ((\<forall>j \<in> {0 .. 4}. exists (pda j) = Inr True)
       \<and> (\<exists>vaults. findVaultsByOwner env owner 100 = Inr vaults
            \<and> (if vaults = [] then i = 0 else i < 256 \<and> (\<forall>v \<in> set vaults. vl_vaultId v < i))))"
proof -
  let ?pda = "\<lambda>j. fst (getVaultPDA (ge_pda env) (ge_enc env) owner j prog)"
  obtain free where f: "probe_ids exists ?pda [0, 1, 2, 3, 4] = Inr free"
    using assms by (auto simp: findNextVaultId_def simp del: probe_ids.simps)
  show ?thesis
  proof (cases free)
    case (Some k)
    then have "k = i" using assms f by (simp add: findNextVaultId_def del: probe_ids.simps)
    then obtain pre post where pre: "[0, 1, 2, 3, 4] = pre @ i # post" "\<forall>j \<in> set pre. exists (?pda j) = Inr True"
      "exists (?pda i) = Inr False"
      using probe_ids_spec [OF f] Some by auto
    have i: "i = int (length pre)" "length pre < 5"
    proof -
      have len: "length pre < length [0, 1, 2, 3, 4 :: int]" using arg_cong [OF pre(1), of length] by simp
      have "[0, 1, 2, 3, 4 :: int] ! length pre = int (length pre)" using len by (intro first_five) simp
      moreover have "[0, 1, 2, 3, 4 :: int] ! length pre = i" unfolding pre(1) by simp
      ultimately show "i = int (length pre)" "length pre < 5" using len by simp_all
    qed
    have "j \<in> set pre" if "j \<in> {0 ..< i}" for j
    proof -
      have "nat j < length pre" using that i by auto
      moreover have "[0, 1, 2, 3, 4 :: int] ! nat j = j" using that i first_five [of "nat j"] by auto
      ultimately show ?thesis unfolding pre(1) by (metis nth_append nth_mem)
    qed
    then show ?thesis using pre i by (auto simp: Let_def)
  next
    case None
    have five: "{0 .. 4 :: int} = set [0, 1, 2, 3, 4]" by auto
    have all: "\<forall>j \<in> {0 .. 4}. exists (?pda j) = Inr True"
      unfolding five using probe_ids_spec [OF f] None by (simp only: option.case)
    obtain vaults where v: "findVaultsByOwner env owner 100 = Inr vaults"
      using assms f None by (auto simp: findNextVaultId_def simp del: probe_ids.simps)
    have "if vaults = [] then i = 0 else i < 256 \<and> (\<forall>v \<in> set vaults. vl_vaultId v < i)"
      using assms f None v max_id_bounds [of 0 vaults]
      by (fastforce simp: findNextVaultId_def Let_def simp del: probe_ids.simps split: if_splits)
    then show ?thesis using all v by (auto simp: Let_def)
  qed
qed

text \<open>Five vaults exist and the index of the RPC node knows none of them.\<close>

definition lagging_gpa_env :: gpa_env where
  "lagging_gpa_env = sample_gpa_env\<lparr>ge_gpa := \<lambda>_. Inr []\<rparr>"

theorem next_vault_id_exact_witness:
  "findNextVaultId (\<lambda>_. Inr True) lagging_gpa_env ''O'' SIGIL_PROGRAM_ADDRESS = Inr 0
     \<and> (\<exists>vaults. findVaultsByOwner lagging_gpa_env ''O'' 100 = Inr vaults \<and> vaults = [])"
proof -
  have v: "findVaultsByOwner lagging_gpa_env ''O'' 100 = Inr []"
    by (simp add: findVaultsByOwner_def gpa_strategy_def lagging_gpa_env_def Let_def)
  then have f: "findNextVaultId (\<lambda>_. Inr True) lagging_gpa_env ''O'' SIGIL_PROGRAM_ADDRESS = Inr 0"
    by (simp add: findNextVaultId_def lift_err_def)
  show ?thesis using f next_vault_id_exact [OF f] v by auto
qed

section \<open>createVault\<close>

text \<open>The kit's u64 encoder, as documented: eight little-endian bytes in range, an error otherwise.\<close>

definition u64_codec :: "(int \<Rightarrow> (js_error, bytes) result) \<Rightarrow> bool" where
  "u64_codec f \<longleftrightarrow> (\<forall>n. if is_u64 n then f n = Inr (le_bytes 8 n) else isl (f n))"

lemma create_check_Inr:
  "create_check options = Inr (l, d, t) \<longleftrightarrow>
     cv_owner options \<noteq> cv_agent options \<and> cv_spendingLimitUsd options = Some l \<and> cv_dailySpendingCapUsd options = Some d
     \<and> cv_timelockDuration options = Some t \<and> 0 \<le> l \<and> l \<le> d
     \<and> (\<forall>c. cv_permissions options = Some c \<longrightarrow> 0 \<le> c \<and> c \<le> 2)"
  by (auto simp: create_check_def cap_aggregate_iff split: if_splits option.splits)

lemma createVault_Inr:
  assumes "createVault env options = Inr r"
  obtains l d t where "create_check options = Inr (l, d, t)"
    "resolve_vault_id (ve_exists env) (ve_gpa env) (cv_owner options) (cv_vaultId options) = Inr (cr_vaultId r)"
    "cr_vaultAddress r = fst (getVaultPDA (bv_pda (ve_codec env)) (bv_enc (ve_codec env)) (cv_owner options) (cr_vaultId r) SIGIL_PROGRAM_ADDRESS)"
    "cr_policyAddress r = fst (getPolicyPDA (bv_pda (ve_codec env)) (bv_enc (ve_codec env)) (cr_vaultAddress r) SIGIL_PROGRAM_ADDRESS)"
    "getInitializeVaultInstructionAsync (ve_codec env) (initialize_input options (cr_vaultId r) (cr_agentOverlayAddress r) d t)
       = Inr (cr_initializeVaultIx r)"
    "getRegisterAgentInstruction (ve_codec env)
       \<lparr>rg_owner = cv_owner options, rg_vault = cr_vaultAddress r, rg_agentSpendOverlay = cr_agentOverlayAddress r,
        rg_agent = cv_agent options, rg_capability = or_default (cv_permissions options) FULL_CAPABILITY,
        rg_spendingLimitUsd = l\<rparr> = Inr (cr_registerAgentIx r)"
  using assms that unfolding createVault_def Let_def
  by (auto simp del: getInitializeVaultInstructionAsync_def split: prod.splits)

lemma vault_seed: "[118, 97, 117, 108, 116] = seedString ''vault''"
  by (simp add: seedString_def)

lemma seedU64Le_in_range: "is_u64 n \<Longrightarrow> seedU64Le n = le_bytes 8 n"
  by (simp add: seedU64Le_def is_u64_def U64_MAX_def)

lemma initialize_accounts:
  assumes "getInitializeVaultInstructionAsync env input = Inr ix" "bv_u64 env (iv_vaultId input) = Inr (seedU64Le (iv_vaultId input))"
  shows "\<exists>accounts. ix_accounts ix = Some accounts
      \<and> accounts ! 0 = bv_meta env (Some (iv_owner input)) True True
      \<and> accounts ! 1 = bv_meta env (Some (fst (getVaultPDA (bv_pda env) (bv_enc env) (iv_owner input) (iv_vaultId input) SIGIL_PROGRAM_ADDRESS))) False True
      \<and> accounts ! 2 = bv_meta env (Some (fst (getPolicyPDA (bv_pda env) (bv_enc env)
            (fst (getVaultPDA (bv_pda env) (bv_enc env) (iv_owner input) (iv_vaultId input) SIGIL_PROGRAM_ADDRESS)) SIGIL_PROGRAM_ADDRESS))) False True
      \<and> accounts ! 4 = bv_meta env (Some (iv_agentSpendOverlay input)) False True"
  using assms
  by (auto simp: getInitializeVaultInstructionAsync_def Let_def lift_err_def vault_seed generated_seeds getVaultPDA_def getPolicyPDA_def)

lemma register_accounts:
  assumes "getRegisterAgentInstruction env input = Inr ix"
  shows "\<exists>accounts. ix_accounts ix = Some accounts
      \<and> accounts ! 0 = bv_meta env (Some (rg_owner input)) True False
      \<and> accounts ! 1 = bv_meta env (Some (rg_vault input)) False True
      \<and> accounts ! 2 = bv_meta env (Some (rg_agentSpendOverlay input)) False True"
  using assms by (auto simp: getRegisterAgentInstruction_def)

text \<open>
  C29. A vault is only created with sane authority, and its two instructions agree: the owner is not the
  agent, the agent's limit lies between zero and the daily cap, the capability is one of the three
  tiers, the vault id and caps fit 64 bits, and \<open>initialize_vault\<close> and \<open>register_agent\<close> address the
  same vault and overlay, the ones the result reports, although one derives the vault from the
  generated client and the other from \<open>resolve-accounts.ts\<close>.
\<close>
theorem create_vault_exact:
  assumes "createVault env options = Inr r" and "u64_codec (bv_u64 (ve_codec env))"
  shows "\<exists>l d initAccounts registerAccounts meta.
      cv_owner options \<noteq> cv_agent options \<and> cv_spendingLimitUsd options = Some l \<and> cv_dailySpendingCapUsd options = Some d
    \<and> 0 \<le> l \<and> l \<le> d \<and> d \<le> U64_MAX \<and> is_u64 (cr_vaultId r) \<and> or_default (cv_permissions options) 2 \<in> {0, 1, 2}
    \<and> ix_accounts (cr_initializeVaultIx r) = Some initAccounts \<and> ix_accounts (cr_registerAgentIx r) = Some registerAccounts
    \<and> meta = bv_meta (ve_codec env)
    \<and> initAccounts ! 1 = meta (Some (cr_vaultAddress r)) False True \<and> registerAccounts ! 1 = meta (Some (cr_vaultAddress r)) False True
    \<and> initAccounts ! 2 = meta (Some (cr_policyAddress r)) False True
    \<and> initAccounts ! 4 = meta (Some (cr_agentOverlayAddress r)) False True
    \<and> registerAccounts ! 2 = meta (Some (cr_agentOverlayAddress r)) False True
    \<and> initAccounts ! 0 = meta (Some (cv_owner options)) True True \<and> registerAccounts ! 0 = meta (Some (cv_owner options)) True False"
proof -
  obtain l d t where c: "create_check options = Inr (l, d, t)"
    and va: "cr_vaultAddress r = fst (getVaultPDA (bv_pda (ve_codec env)) (bv_enc (ve_codec env)) (cv_owner options) (cr_vaultId r) SIGIL_PROGRAM_ADDRESS)"
    and po: "cr_policyAddress r = fst (getPolicyPDA (bv_pda (ve_codec env)) (bv_enc (ve_codec env)) (cr_vaultAddress r) SIGIL_PROGRAM_ADDRESS)"
    and ini: "getInitializeVaultInstructionAsync (ve_codec env) (initialize_input options (cr_vaultId r) (cr_agentOverlayAddress r) d t)
       = Inr (cr_initializeVaultIx r)"
    and reg: "getRegisterAgentInstruction (ve_codec env)
       \<lparr>rg_owner = cv_owner options, rg_vault = cr_vaultAddress r, rg_agentSpendOverlay = cr_agentOverlayAddress r,
        rg_agent = cv_agent options, rg_capability = or_default (cv_permissions options) FULL_CAPABILITY,
        rg_spendingLimitUsd = l\<rparr> = Inr (cr_registerAgentIx r)"
    using assms(1) by (rule createVault_Inr)
  let ?in = "initialize_input options (cr_vaultId r) (cr_agentOverlayAddress r) d t"
  have f: "iv_vaultId ?in = cr_vaultId r" "iv_dailySpendingCapUsd ?in = d" "iv_owner ?in = cv_owner options"
    "iv_agentSpendOverlay ?in = cr_agentOverlayAddress r"
    by (simp_all add: initialize_input_def Let_def)
  obtain seed data where s: "bv_u64 (ve_codec env) (cr_vaultId r) = Inr seed" "initialize_data (ve_codec env) ?in = Inr data"
    using ini f by (auto simp: getInitializeVaultInstructionAsync_def Let_def lift_err_def split: sum.splits)
  then obtain cap where cap: "bv_u64 (ve_codec env) d = Inr cap"
    using f by (auto simp: initialize_data_def lift_err_def split: sum.splits)
  have u: "is_u64 n \<and> b = le_bytes 8 n" if "bv_u64 (ve_codec env) n = Inr b" for n b
    using assms(2) that unfolding u64_codec_def by (metis Inr_inject isl_def sum.distinct(1) sum.disc(2))
  have "seed = seedU64Le (cr_vaultId r)" using u [OF s(1)] by (simp add: seedU64Le_in_range)
  note ia = initialize_accounts [OF ini, unfolded f, OF s(1) [unfolded this]] and ra = register_accounts [OF reg, simplified]
  have "or_default (cv_permissions options) 2 \<in> {0, 1, 2}"
    using c by (cases "cv_permissions options") (auto simp: create_check_Inr or_default_def)
  then show ?thesis
    using c u [OF s(1)] u [OF cap] ia ra unfolding va [symmetric] po [symmetric] by (auto simp: create_check_Inr is_u64_def)
qed

definition sample_codec :: codec_env where
  "sample_codec =
     \<lparr>bv_pda = \<lambda>prog seeds. (''PDA'', 255), bv_enc = \<lambda>a. replicate 32 1,
      bv_u64 = \<lambda>n. if is_u64 n then Inr (le_bytes 8 n) else Inl atob_error,
      bv_meta = \<lambda>a signer writable. \<lparr>am_address = (case a of Some x \<Rightarrow> x | None \<Rightarrow> SIGIL_PROGRAM_ADDRESS),
                  am_role = (if writable then WRITABLE else READONLY)\<rparr>,
      bw_u8 = \<lambda>n. Inr (le_bytes 1 n), bw_u16 = \<lambda>n. Inr (le_bytes 2 n),
      bw_addresses = \<lambda>as. Inr (le_bytes 4 (int (length as))), bw_u64s = \<lambda>ns. Inr (le_bytes 4 (int (length ns)))\<rparr>"

definition sample_vault_env :: vault_env where
  "sample_vault_env = \<lparr>ve_codec = sample_codec, ve_gpa = sample_gpa_env, ve_exists = \<lambda>_. Inr False\<rparr>"

lemma sample_creates:
  assumes "create_check options = Inr (l, d, t)" "is_u64 l" "is_u64 d" "is_u64 t" "is_u64 (or_default (cv_maxTransactionSizeUsd options) d)"
    and "resolve_vault_id (ve_exists sample_vault_env) (ve_gpa sample_vault_env) (cv_owner options) (cv_vaultId options) = Inr i" "is_u64 i"
  shows "\<exists>r. createVault sample_vault_env options = Inr r"
proof -
  have "\<exists>ix. getInitializeVaultInstructionAsync (ve_codec sample_vault_env) (initialize_input options i a d t) = Inr ix" for a
    using assms(2-)
    by (simp add: getInitializeVaultInstructionAsync_def initialize_data_def initialize_input_def sample_vault_env_def
        sample_codec_def lift_err_def Let_def)
  moreover have "\<exists>ix. getRegisterAgentInstruction (ve_codec sample_vault_env)
      \<lparr>rg_owner = o', rg_vault = v, rg_agentSpendOverlay = a, rg_agent = g, rg_capability = c, rg_spendingLimitUsd = l\<rparr> = Inr ix"
    for o' v a g c
    using assms(2) by (simp add: getRegisterAgentInstruction_def register_data_def sample_vault_env_def sample_codec_def lift_err_def)
  ultimately show ?thesis
    unfolding createVault_def assms(1,6) by (simp add: Let_def) metis
qed

definition sample_options :: CreateVaultOptions where
  "sample_options =
     \<lparr>cv_network = ''devnet'', cv_owner = ''O'', cv_agent = ''A'', cv_permissions = None, cv_spendingLimitUsd = Some 100,
      cv_dailySpendingCapUsd = Some 500, cv_maxTransactionSizeUsd = None, cv_feeDestination = None,
      cv_developerFeeRate = None, cv_protocols = None, cv_protocolMode = None, cv_protocolCaps = None,
      cv_maxSlippageBps = None, cv_timelockDuration = Some 1800, cv_allowedDestinations = None, cv_vaultId = None\<rparr>"

theorem create_vault_exact_witness:
  "\<exists>r initAccounts. createVault sample_vault_env sample_options = Inr r \<and> ix_accounts (cr_initializeVaultIx r) = Some initAccounts
     \<and> initAccounts ! 1 = bv_meta sample_codec (Some (cr_vaultAddress r)) False True"
proof -
  have c: "u64_codec (bv_u64 (ve_codec sample_vault_env))"
    by (simp add: u64_codec_def sample_vault_env_def sample_codec_def)
  have "create_check sample_options = Inr (100, 500, 1800)"
    by (simp add: create_check_Inr sample_options_def)
  then have "\<exists>r. createVault sample_vault_env sample_options = Inr r"
    by (rule sample_creates [where i = 0])
      (simp_all add: is_u64_def U64_MAX_def or_default_def resolve_vault_id_def sample_options_def sample_vault_env_def
        findNextVaultId_def lift_err_def)
  then obtain r where r: "createVault sample_vault_env sample_options = Inr r" by blast
  have "ve_codec sample_vault_env = sample_codec" by (simp add: sample_vault_env_def)
  then show ?thesis using r create_vault_exact [OF r c] by auto
qed

section \<open>The program's checks\<close>

text \<open>
  The checks of the program's \<open>initialize_vault\<close> handler (\<open>programs/sigil/src/instructions/initialize_vault.rs\<close>), in its
  order, on the decoded arguments; the default public key is the system program's address. That the handler
  refuses to run as an inner instruction does not matter here: the SDK calls it at the top level.
\<close>

datatype vault_error = InvalidProtocolMode | TooManyAllowedProtocols | DeveloperFeeTooHigh | SlippageBpsTooHigh
  | InvalidFeeDestination | TooManyDestinations | TimelockTooShort | ProtocolCapsMismatch

definition initialize_vault :: "InitializeVaultInput \<Rightarrow> (vault_error, unit) result" where
  "initialize_vault args =
     (if \<not> iv_protocolMode args \<le> 2 then Inl InvalidProtocolMode
      else if \<not> length (iv_protocols args) \<le> 10 then Inl TooManyAllowedProtocols
      else if \<not> iv_developerFeeRate args \<le> 500 then Inl DeveloperFeeTooHigh
      else if \<not> iv_maxSlippageBps args \<le> 5000 then Inl SlippageBpsTooHigh
      else if \<not> iv_feeDestination args \<noteq> SYSTEM_PROGRAM_ADDRESS then Inl InvalidFeeDestination
      else if \<not> length (iv_allowedDestinations args) \<le> 10 then Inl TooManyDestinations
      else if \<not> iv_timelockDuration args \<ge> 1800 then Inl TimelockTooShort
      else if iv_protocolCaps args \<noteq> []
      then if \<not> iv_protocolMode args = 1 then Inl ProtocolCapsMismatch
           else if \<not> length (iv_protocolCaps args) = length (iv_protocols args) then Inl ProtocolCapsMismatch
           else Inr ()
      else Inr ())"







text \<open>
  A denylist cannot be created with the default caps: \<open>createVault\<close> fills the caps with one zero per protocol, and the
  program takes caps, whatever their values, for an allowlist only. The same holds for mode 0 with protocols.
\<close>

lemma denylist_needs_empty_caps:
  assumes "cv_protocols options = Some (q # qs)" "cv_protocolMode options = Some m" "m \<noteq> 1" "cv_protocolCaps options = None"
  shows "initialize_vault (initialize_input options i overlay d t) \<noteq> Inr ()"
  using assms by (auto simp: initialize_vault_def initialize_input_def or_default_def Let_def)

section \<open>Policies mapped to a vault\<close>

lemma max_cap_bounds: "m \<le> max_cap ls m \<and> (\<forall>l \<in> set ls. sl_amount l \<le> max_cap ls m)"
  by (induction ls m rule: max_cap.induct) auto

text \<open>
  Mapping client policies to a vault loses two things. An empty client allowlist, which lets the
  shield pass no program at all, becomes protocol mode 0, which lets the vault pass every program; and
  the daily cap in dollars is the largest limit whatever its token, so the default policies, one
  thousand dollars of each stablecoin and ten SOL, become a cap of ten thousand dollars.
\<close>
theorem mapped_policies_widen:
  "vr_protocolMode (mapPoliciesToVaultParams (rp\<lparr>rp_allowedProtocols := Some []\<rparr>) i dest opts) = 0
   \<and> vr_protocols (mapPoliciesToVaultParams (rp\<lparr>rp_allowedProtocols := Some []\<rparr>) i dest opts) = []
   \<and> vr_dailySpendingCap (mapPoliciesToVaultParams DEFAULT_POLICIES i dest opts) = 10000000000"
  by (simp add: mapPoliciesToVaultParams_def or_default_def DEFAULT_POLICIES_def Let_def)

end
