(* ===== verification/VaultPreview.thy ===== *)
theory VaultPreview
  imports VaultCreation "HOL-Library.Char_ord" "HOL-Library.List_Lexorder"
begin

text \<open>
  \<open>sdk/kit/src/preview-create-vault.ts\<close>: the read-only preview of a vault creation. A \<open>number\<close> of the
  configuration is \<open>None\<close> when it is \<open>NaN\<close> or infinite. Of several rent requests that fail, the first in
  the list is the one reported.
\<close>

definition AGENT_VAULT_SIZE :: nat where "AGENT_VAULT_SIZE = 634"
definition POLICY_CONFIG_SIZE :: nat where "POLICY_CONFIG_SIZE = 822"
definition SPEND_TRACKER_SIZE :: nat where "SPEND_TRACKER_SIZE = 2840"
definition AGENT_SPEND_OVERLAY_SIZE :: nat where "AGENT_SPEND_OVERLAY_SIZE = 2528"
definition DEFAULT_PRIORITY_FEE_MICRO_LAMPORTS :: rat where "DEFAULT_PRIORITY_FEE_MICRO_LAMPORTS = 10000"
definition LAMPORTS_PER_SOL :: int where "LAMPORTS_PER_SOL = 1000000000"
definition MICRO_LAMPORTS_PER_LAMPORT :: int where "MICRO_LAMPORTS_PER_LAMPORT = 1000000"
definition DAILY_CAP_HIGH_THRESHOLD :: int where "DAILY_CAP_HIGH_THRESHOLD = 1000000000000"
definition MIN_TIMELOCK_DURATION_SECONDS :: int where "MIN_TIMELOCK_DURATION_SECONDS = 1800"
definition MAX_ALLOWED_DESTINATIONS_COUNT :: nat where "MAX_ALLOWED_DESTINATIONS_COUNT = 10"
definition MAX_SAFE_INTEGER :: int where "MAX_SAFE_INTEGER = 9007199254740991"

record 'rpc PreviewCreateVaultConfig =
  pv_rpc :: 'rpc
  pv_owner :: address
  pv_agentAddress :: address
  pv_network :: string
  pv_vaultId :: int
  pv_dailyCapUsd :: int
  pv_maxTxSizeUsd :: int
  pv_spendingLimitUsd :: int
  pv_developerFeeRate :: js_number
  pv_maxSlippageBps :: js_number
  pv_timelockDuration :: int
  pv_protocolMode :: int
  pv_protocols :: "address list"
  pv_protocolCaps :: "int list"
  pv_allowedDestinations :: "address list"
  pv_feeDestination :: address
  pv_capabilityTier :: "int option"
  pv_solPriceUsd :: int
  pv_priorityFeeMicroLamports :: "js_number option"
  pv_computeUnits :: "js_number option"
  pv_blockhash :: "Blockhash option"
  pv_addressLookupTables :: "lookup_tables option"

section \<open>validateConfig\<close>

definition range_check :: "bool \<Rightarrow> string \<Rightarrow> (sdk_error, unit) result" where
  "range_check bad field = (if bad then Inl (RANGE_ERROR field) else Inr ())"

fun all_checks :: "(sdk_error, unit) result list \<Rightarrow> (sdk_error, unit) result" where
  "all_checks [] = Inr ()"
| "all_checks (c # cs) = rbind c (\<lambda>_. all_checks cs)"

definition caps_check :: "'rpc PreviewCreateVaultConfig \<Rightarrow> (sdk_error, unit) result" where
  "caps_check config =
     (if length (pv_protocolCaps config) > 0
      then rbind (range_check (pv_protocolMode config \<noteq> 1) ''protocolMode'') (\<lambda>_.
           rbind (range_check (length (pv_protocolCaps config) \<noteq> length (pv_protocols config)) ''protocolCaps'') (\<lambda>_.
           all_checks (concat (map (\<lambda>cap. [range_check (cap < 0) ''protocolCaps'', range_check (cap > U64_MAX) ''protocolCaps''])
             (pv_protocolCaps config)))))
      else Inr ())"

definition validateConfig :: "'rpc PreviewCreateVaultConfig \<Rightarrow> (sdk_error, unit) result" where
  "validateConfig config = all_checks
    [validateNetwork (pv_network config),
     range_check (pv_vaultId config < 0) ''vaultId'',
     range_check (pv_dailyCapUsd config < 0) ''dailyCapUsd'',
     range_check (pv_maxTxSizeUsd config < 0) ''maxTxSizeUsd'',
     range_check (pv_spendingLimitUsd config < 0) ''spendingLimitUsd'',
     range_check (pv_solPriceUsd config \<le> 0) ''solPriceUsd'',
     range_check (pv_timelockDuration config < 0) ''timelockDuration'',
     range_check (pv_dailyCapUsd config > U64_MAX) ''dailyCapUsd'',
     range_check (pv_maxTxSizeUsd config > U64_MAX) ''maxTxSizeUsd'',
     range_check (pv_spendingLimitUsd config > U64_MAX) ''spendingLimitUsd'',
     range_check (pv_solPriceUsd config > U64_MAX) ''solPriceUsd'',
     range_check (pv_timelockDuration config > MAX_SAFE_INTEGER) ''timelockDuration'',
     range_check (pv_timelockDuration config < MIN_TIMELOCK_DURATION_SECONDS) ''timelockDuration'',
     range_check (\<not> isInteger (pv_developerFeeRate config) \<or> number_lt (pv_developerFeeRate config) 0) ''developerFeeRate'',
     range_check (number_gt (pv_developerFeeRate config) (of_int MAX_DEVELOPER_FEE_RATE)) ''developerFeeRate'',
     range_check (\<not> isInteger (pv_maxSlippageBps config) \<or> number_lt (pv_maxSlippageBps config) 0) ''maxSlippageBps'',
     range_check (length (pv_protocols config) > MAX_ALLOWED_PROTOCOLS) ''protocols'',
     range_check (length (pv_allowedDestinations config) > MAX_ALLOWED_DESTINATIONS_COUNT) ''allowedDestinations'',
     caps_check config,
     range_check (pv_feeDestination config = SYSTEM_PROGRAM_ADDRESS) ''feeDestination'',
     (case pv_priorityFeeMicroLamports config of
        None \<Rightarrow> Inr ()
      | Some fee \<Rightarrow> range_check (\<not> isInteger fee \<or> number_lt fee 0) ''priorityFeeMicroLamports''),
     (case pv_computeUnits config of
        None \<Rightarrow> Inr ()
      | Some units \<Rightarrow> range_check (\<not> isInteger units \<or> \<not> number_gt units 0) ''computeUnits'')]"

section \<open>Warnings\<close>

datatype PreviewWarning =
    daily_cap_zero
  | daily_cap_unusually_high int
  | no_protocols_approved
  | max_tx_exceeds_daily_cap int

fun warning_code :: "PreviewWarning \<Rightarrow> string" where
  "warning_code daily_cap_zero = ''daily_cap_zero''"
| "warning_code (daily_cap_unusually_high _) = ''daily_cap_unusually_high''"
| "warning_code no_protocols_approved = ''no_protocols_approved''"
| "warning_code (max_tx_exceeds_daily_cap _) = ''max_tx_exceeds_daily_cap''"

definition buildWarnings :: "'rpc PreviewCreateVaultConfig \<Rightarrow> PreviewWarning list" where
  "buildWarnings config = sort_key warning_code
     ((if pv_dailyCapUsd config = 0 then [daily_cap_zero] else [])
      @ (if pv_dailyCapUsd config > DAILY_CAP_HIGH_THRESHOLD then [daily_cap_unusually_high DAILY_CAP_HIGH_THRESHOLD] else [])
      @ (if pv_protocolMode config = 1 \<and> length (pv_protocols config) = 0 then [no_protocols_approved] else [])
      @ (if pv_maxTxSizeUsd config > pv_dailyCapUsd config then [max_tx_exceeds_daily_cap (pv_dailyCapUsd config)] else []))"

section \<open>previewCreateVault\<close>

datatype VaultPdaName = AgentVaultPda | PolicyConfigPda | SpendTrackerPda | AgentSpendOverlayPda

record VaultPdaInfo =
  vi_name :: VaultPdaName
  vi_address :: address
  vi_bump :: nat
  vi_sizeBytes :: nat
  vi_rentLamports :: int

definition makePdaInfo :: "VaultPdaName \<Rightarrow> address \<times> nat \<Rightarrow> nat \<Rightarrow> int \<Rightarrow> VaultPdaInfo" where
  "makePdaInfo name = (\<lambda>(addr, bump) sizeBytes rentLamports.
     \<lparr>vi_name = name, vi_address = addr, vi_bump = bump, vi_sizeBytes = sizeBytes, vi_rentLamports = rentLamports\<rparr>)"

record CreateVaultPreview =
  cw_pdaList :: "VaultPdaInfo list"
  cw_rentLamports :: int
  cw_computeUnits :: int
  cw_feeLamports :: int
  cw_totalCostUsd :: int
  cw_vaultAddress :: address
  cw_unsignedTxBytes :: bytes
  cw_txSizeBytes :: rat
  cw_lastValidBlockHeight :: int
  cw_warnings :: "PreviewWarning list option"

definition toBuildNetwork :: "string \<Rightarrow> string" where
  "toBuildNetwork network = (if network = ''devnet'' then ''devnet'' else ''mainnet'')"

text \<open>The RPC's answer for a size: it throws, or gives something that is not a bigint (\<open>None\<close>).\<close>

definition fetchRentForSize :: "(nat \<Rightarrow> (js_error, int option) result) \<Rightarrow> nat \<Rightarrow> string \<Rightarrow> (sdk_error, int) result" where
  "fetchRentForSize rentFor sizeBytes pdaName =
     rbind (lift_err (rentFor sizeBytes)) (\<lambda>answer.
       case answer of
         None \<Rightarrow> Inl (SDK_INVALID_PARAMS pdaName [])
       | Some rent \<Rightarrow> if rent \<le> 0 then Inl (SDK_INVALID_PARAMS pdaName []) else Inr rent)"

definition preview_options :: "'rpc PreviewCreateVaultConfig \<Rightarrow> CreateVaultOptions" where
  "preview_options config =
     \<lparr>cv_network = toBuildNetwork (pv_network config), cv_owner = pv_owner config, cv_agent = pv_agentAddress config,
      cv_permissions = pv_capabilityTier config, cv_spendingLimitUsd = Some (pv_spendingLimitUsd config),
      cv_dailySpendingCapUsd = Some (pv_dailyCapUsd config), cv_maxTransactionSizeUsd = Some (pv_maxTxSizeUsd config),
      cv_feeDestination = Some (pv_feeDestination config), cv_developerFeeRate = Some (to_int (pv_developerFeeRate config)),
      cv_protocols = Some (pv_protocols config), cv_protocolMode = Some (pv_protocolMode config),
      cv_protocolCaps = (if length (pv_protocolCaps config) > 0 then Some (pv_protocolCaps config) else None),
      cv_maxSlippageBps = Some (to_int (pv_maxSlippageBps config)), cv_timelockDuration = Some (pv_timelockDuration config),
      cv_allowedDestinations = Some (pv_allowedDestinations config), cv_vaultId = Some (pv_vaultId config)\<rparr>"

definition preview_units :: "'rpc PreviewCreateVaultConfig \<Rightarrow> int" where
  "preview_units config = (case pv_computeUnits config of Some u \<Rightarrow> to_int u | None \<Rightarrow> int CU_VAULT_CREATION)"

definition preview_fee :: "'rpc PreviewCreateVaultConfig \<Rightarrow> int" where
  "preview_fee config =
     to_int (case pv_priorityFeeMicroLamports config of Some fee \<Rightarrow> fee | None \<Rightarrow> Some DEFAULT_PRIORITY_FEE_MICRO_LAMPORTS)"

definition preview_owner_params ::
  "'rpc PreviewCreateVaultConfig \<Rightarrow> CreateVaultResult \<Rightarrow> 'rpc BuildOwnerTransactionParams" where
  "preview_owner_params config created =
     \<lparr>op_rpc = pv_rpc config, op_owner = pv_owner config,
      op_instructions = [cr_initializeVaultIx created, cr_registerAgentIx created],
      op_network = toBuildNetwork (pv_network config), op_computeUnits = Some (nat (preview_units config)),
      op_priorityFeeMicroLamports = Some (nat (preview_fee config)),
      op_addressLookupTables = pv_addressLookupTables config, op_blockhash = pv_blockhash config\<rparr>"

definition preview_pdas ::
  "codec_env \<Rightarrow> 'rpc PreviewCreateVaultConfig \<Rightarrow> int \<Rightarrow> int \<Rightarrow> int \<Rightarrow> int \<Rightarrow> VaultPdaInfo list" where
  "preview_pdas env config vaultRent policyRent trackerRent overlayRent =
     (let pda = bv_pda env; enc = bv_enc env; prog = SIGIL_PROGRAM_ADDRESS;
          vault = getVaultPDA pda enc (pv_owner config) (pv_vaultId config) prog
      in [makePdaInfo AgentVaultPda vault AGENT_VAULT_SIZE vaultRent,
          makePdaInfo PolicyConfigPda (getPolicyPDA pda enc (fst vault) prog) POLICY_CONFIG_SIZE policyRent,
          makePdaInfo SpendTrackerPda (getTrackerPDA pda enc (fst vault) prog) SPEND_TRACKER_SIZE trackerRent,
          makePdaInfo AgentSpendOverlayPda (getAgentOverlayPDA pda enc (fst vault) 0 prog) AGENT_SPEND_OVERLAY_SIZE overlayRent])"

definition preview_rents ::
  "(nat \<Rightarrow> (js_error, int option) result) \<Rightarrow> (sdk_error, int \<times> int \<times> int \<times> int) result" where
  "preview_rents rentFor =
     rbind (fetchRentForSize rentFor AGENT_VAULT_SIZE ''AgentVault'') (\<lambda>vaultRent.
     rbind (fetchRentForSize rentFor POLICY_CONFIG_SIZE ''PolicyConfig'') (\<lambda>policyRent.
     rbind (fetchRentForSize rentFor SPEND_TRACKER_SIZE ''SpendTracker'') (\<lambda>trackerRent.
     rbind (fetchRentForSize rentFor AGENT_SPEND_OVERLAY_SIZE ''AgentSpendOverlay'') (\<lambda>overlayRent.
       Inr (vaultRent, policyRent, trackerRent, overlayRent)))))"

definition preview_of ::
  "codec_env \<Rightarrow> 'rpc PreviewCreateVaultConfig \<Rightarrow> int \<times> int \<times> int \<times> int \<Rightarrow> 'tx OwnerTransactionResult \<Rightarrow> bytes \<Rightarrow> CreateVaultPreview" where
  "preview_of env config = (\<lambda>(vaultRent, policyRent, trackerRent, overlayRent) ownerTx unsignedTxBytes.
     let rentLamports = vaultRent + policyRent + trackerRent + overlayRent;
         feeLamports = bdiv (preview_fee config * preview_units config) MICRO_LAMPORTS_PER_LAMPORT;
         warningsRaw = buildWarnings config
     in \<lparr>cw_pdaList = preview_pdas env config vaultRent policyRent trackerRent overlayRent,
         cw_rentLamports = rentLamports, cw_computeUnits = preview_units config, cw_feeLamports = feeLamports,
         cw_totalCostUsd = bdiv ((rentLamports + feeLamports) * pv_solPriceUsd config) LAMPORTS_PER_SOL,
         cw_vaultAddress = fst (getVaultPDA (bv_pda env) (bv_enc env) (pv_owner config) (pv_vaultId config) SIGIL_PROGRAM_ADDRESS),
         cw_unsignedTxBytes = unsignedTxBytes, cw_txSizeBytes = or_txSizeBytes ownerTx,
         cw_lastValidBlockHeight = bh_lastValidBlockHeight (or_blockhash ownerTx),
         cw_warnings = (if length warningsRaw > 0 then Some warningsRaw else None)\<rparr>)"

definition previewCreateVault ::
  "vault_env \<Rightarrow> ('m, 'tx) owner_env \<Rightarrow> (nat \<Rightarrow> (js_error, int option) result) \<Rightarrow> 'rpc PreviewCreateVaultConfig
    \<Rightarrow> ('rpc owner_state, sdk_error, CreateVaultPreview) step" where
  "previewCreateVault env oenv rentFor config =
     sbind (sresult (validateConfig config)) (\<lambda>_.
     sbind (sresult (preview_rents rentFor)) (\<lambda>rents.
     sbind (sresult (createVault env (preview_options config))) (\<lambda>created.
     sbind (buildOwnerTransaction oenv (preview_owner_params config created)) (\<lambda>ownerTx.
     sbind (sresult (lift_err (base64ToUint8 (or_wireBase64 ownerTx)))) (\<lambda>unsignedTxBytes.
     sresult (Inr (preview_of (ve_codec env) config rents ownerTx unsignedTxBytes)))))))"

section \<open>Properties\<close>

lemma range_check_ok [simp]: "range_check bad field = Inr () \<longleftrightarrow> \<not> bad"
  by (simp add: range_check_def)

lemma all_checks_ok: "all_checks cs = Inr () \<longleftrightarrow> (\<forall>c \<in> set cs. c = Inr ())"
  by (induction cs) (auto simp: unit_eq)

lemma caps_check_ok:
  "caps_check config = Inr () \<longleftrightarrow>
     pv_protocolCaps config = [] \<or> (pv_protocolMode config = 1 \<and> length (pv_protocolCaps config) = length (pv_protocols config)
       \<and> (\<forall>cap \<in> set (pv_protocolCaps config). is_u64 cap))"
  by (auto simp: caps_check_def all_checks_ok is_u64_def not_less)

lemma validateConfig_ok:
  assumes "validateConfig config = Inr ()"
  shows "is_u64 (pv_dailyCapUsd config)" "is_u64 (pv_maxTxSizeUsd config)" "is_u64 (pv_spendingLimitUsd config)"
    "0 \<le> pv_vaultId config" "0 < pv_solPriceUsd config" "1800 \<le> pv_timelockDuration config"
    "pv_timelockDuration config \<le> 2 ^ 53 - 1" "length (pv_protocols config) \<le> 10" "length (pv_allowedDestinations config) \<le> 10"
    "caps_check config = Inr ()" "pv_feeDestination config \<noteq> SYSTEM_PROGRAM_ADDRESS"
    "\<not> number_gt (pv_developerFeeRate config) (of_int MAX_DEVELOPER_FEE_RATE)"
    "isInteger (pv_developerFeeRate config)" "\<not> number_lt (pv_developerFeeRate config) 0"
    "isInteger (pv_maxSlippageBps config)" "\<not> number_lt (pv_maxSlippageBps config) 0"
    "\<And>fee. pv_priorityFeeMicroLamports config = Some fee \<Longrightarrow> isInteger fee \<and> \<not> number_lt fee 0"
    "\<And>units. pv_computeUnits config = Some units \<Longrightarrow> isInteger units \<and> number_gt units 0"
  using assms unfolding validateConfig_def
  by (simp_all add: all_checks_ok is_u64_def not_less not_le MIN_TIMELOCK_DURATION_SECONDS_def MAX_SAFE_INTEGER_def
      MAX_ALLOWED_PROTOCOLS_def MAX_ALLOWED_DESTINATIONS_COUNT_def)

lemma fetchRent_pos: "fetchRentForSize rentFor n name = Inr rent \<Longrightarrow> 0 < rent \<and> rentFor n = Inr (Some rent)"
  by (auto simp: fetchRentForSize_def lift_err_def not_le split: sum.splits option.splits if_splits)

lemma preview_rents_Inr:
  assumes "preview_rents rentFor = Inr (a, b, c, d)"
  shows "rentFor 634 = Inr (Some a)" "rentFor 822 = Inr (Some b)" "rentFor 2840 = Inr (Some c)" "rentFor 2528 = Inr (Some d)"
    "0 < a" "0 < b" "0 < c" "0 < d"
  using assms
  by (auto simp: preview_rents_def AGENT_VAULT_SIZE_def POLICY_CONFIG_SIZE_def SPEND_TRACKER_SIZE_def AGENT_SPEND_OVERLAY_SIZE_def
      dest!: fetchRent_pos)

lemma preview_cases:
  assumes "previewCreateVault env oenv rentFor config st = (Inr r, st')"
  obtains a b c d created ownerTx bs where "validateConfig config = Inr ()" "preview_rents rentFor = Inr (a, b, c, d)"
    "createVault env (preview_options config) = Inr created"
    "buildOwnerTransaction oenv (preview_owner_params config created) st = (Inr ownerTx, st')"
    "atob (or_wireBase64 ownerTx) = Some bs" "r = preview_of (ve_codec env) config (a, b, c, d) ownerTx bs"
proof -
  obtain rents created ownerTx bs where h: "validateConfig config = Inr ()" "preview_rents rentFor = Inr rents"
    "createVault env (preview_options config) = Inr created"
    "buildOwnerTransaction oenv (preview_owner_params config created) st = (Inr ownerTx, st')"
    "lift_err (base64ToUint8 (or_wireBase64 ownerTx)) = Inr bs" "r = preview_of (ve_codec env) config rents ownerTx bs"
    using assms by (auto simp: previewCreateVault_def sbind_eq_Inr)
  have "atob (or_wireBase64 ownerTx) = Some bs"
    using h(5) by (auto simp: lift_err_def base64ToUint8_def split: sum.splits option.splits)
  then show thesis using h that by (cases rents) blast
qed

lemma preview_fee_nonneg: "validateConfig config = Inr () \<Longrightarrow> 0 \<le> preview_fee config"
  using validateConfig_ok(17) [of config]
  by (cases "pv_priorityFeeMicroLamports config")
    (auto simp: preview_fee_def to_int_def DEFAULT_PRIORITY_FEE_MICRO_LAMPORTS_def number_lt_def isInteger_def split: option.splits)

lemma preview_units_pos: "validateConfig config = Inr () \<Longrightarrow> 0 < preview_units config"
proof (cases "pv_computeUnits config")
  case (Some u)
  assume "validateConfig config = Inr ()"
  then have "isInteger u" "number_gt u 0" using validateConfig_ok(18) Some by blast+
  then obtain q where q: "u = Some q" "of_int \<lfloor>q\<rfloor> = q" "0 < q"
    unfolding isInteger_def number_gt_def by (cases u) auto
  have "(0 :: rat) < of_int \<lfloor>q\<rfloor>" by (subst q(2)) (rule q(3))
  then have "0 < \<lfloor>q\<rfloor>" by (simp only: of_int_0_less_iff)
  then show ?thesis using Some q(1) by (simp only: preview_units_def to_int_def option.case)
qed (simp add: preview_units_def CU_VAULT_CREATION_def)

text \<open>
  A preview tells the truth about what will be signed: its rent is the sum of four positive answers
  of the RPC for the four account sizes, its fee and its dollar cost are the exact quotients rounded
  down, the vault address is the address of the created vault and the bytes decode from the wire form
  of a transaction whose instructions are the compute budget followed by exactly the two instructions
  \<open>createVault\<close> builds from the same configuration, which passed every limit.
\<close>
theorem preview_exact:
  assumes "previewCreateVault env oenv rentFor config st = (Inr r, st')"
  shows "\<exists>a b c d created tx budget.
      cw_rentLamports r = a + b + c + d \<and> 0 < a \<and> 0 < b \<and> 0 < c \<and> 0 < d
    \<and> map vi_rentLamports (cw_pdaList r) = [a, b, c, d] \<and> map vi_sizeBytes (cw_pdaList r) = [634, 822, 2840, 2528]
    \<and> cw_feeLamports r = preview_fee config * preview_units config div 1000000 \<and> 0 \<le> cw_feeLamports r
    \<and> cw_totalCostUsd r * 1000000000 \<le> (cw_rentLamports r + cw_feeLamports r) * pv_solPriceUsd config
    \<and> (cw_rentLamports r + cw_feeLamports r) * pv_solPriceUsd config < (cw_totalCostUsd r + 1) * 1000000000
    \<and> createVault env (preview_options config) = Inr created \<and> cw_vaultAddress r = cr_vaultAddress created
    \<and> atob (cp_wire64 (oe_compose oenv) tx) = Some (cw_unsignedTxBytes r)
    \<and> (\<exists>blockhash tables. tx = cp_compile (oe_compose oenv) (owner_message (oe_compose oenv) (preview_owner_params config created) blockhash tables)
         \<and> cw_lastValidBlockHeight r = bh_lastValidBlockHeight blockhash)
    \<and> owner_instructions (oe_compose oenv) (preview_owner_params config created)
        = budget @ [cr_initializeVaultIx created, cr_registerAgentIx created]
    \<and> pv_spendingLimitUsd config \<le> pv_dailyCapUsd config \<and> pv_dailyCapUsd config \<le> U64_MAX"
proof -
  obtain a b c d created ownerTx bs where h: "validateConfig config = Inr ()" "preview_rents rentFor = Inr (a, b, c, d)"
    "createVault env (preview_options config) = Inr created"
    "buildOwnerTransaction oenv (preview_owner_params config created) st = (Inr ownerTx, st')"
    "atob (or_wireBase64 ownerTx) = Some bs" "r = preview_of (ve_codec env) config (a, b, c, d) ownerTx bs"
    using assms by (rule preview_cases)
  obtain blockhash tables where o: "or_transaction ownerTx = cp_compile (oe_compose oenv)
      (owner_message (oe_compose oenv) (preview_owner_params config created) blockhash tables)"
    "or_wireBase64 ownerTx = cp_wire64 (oe_compose oenv) (or_transaction ownerTx)" "or_blockhash ownerTx = blockhash"
    using h(4) by (rule buildOwner_cases)
  have va: "cr_vaultAddress created = fst (getVaultPDA (bv_pda (ve_codec env)) (bv_enc (ve_codec env)) (pv_owner config) (pv_vaultId config) SIGIL_PROGRAM_ADDRESS)"
    using h(3) by (rule createVault_Inr) (simp add: preview_options_def resolve_vault_id_def)
  have lim: "pv_spendingLimitUsd config \<le> pv_dailyCapUsd config"
    using h(3) by (rule createVault_Inr) (simp add: create_check_Inr preview_options_def)
  obtain budget where bu: "owner_instructions (oe_compose oenv) (preview_owner_params config created)
      = budget @ [cr_initializeVaultIx created, cr_registerAgentIx created]"
    by (simp add: owner_instructions_def preview_owner_params_def Let_def)
  have fee: "0 \<le> preview_fee config * preview_units config"
    using preview_fee_nonneg [OF h(1)] preview_units_pos [OF h(1)] by simp
  note rents = preview_rents_Inr [OF h(2)]
  let ?fee = "preview_fee config * preview_units config div 1000000"
  have f: "cw_feeLamports r = ?fee" "0 \<le> ?fee"
    using fee by (simp_all add: h(6) preview_of_def Let_def bdiv_nonneg MICRO_LAMPORTS_PER_LAMPORT_def pos_imp_zdiv_nonneg_iff)
  have "0 \<le> (a + b + c + d + ?fee) * pv_solPriceUsd config"
    using rents f(2) validateConfig_ok(5) [OF h(1)] by (intro mult_nonneg_nonneg) linarith+
  then have t: "cw_totalCostUsd r = (a + b + c + d + ?fee) * pv_solPriceUsd config div 1000000000"
    using fee by (simp add: h(6) preview_of_def Let_def bdiv_nonneg MICRO_LAMPORTS_PER_LAMPORT_def LAMPORTS_PER_SOL_def)
  have r: "cw_rentLamports r = a + b + c + d" "cw_vaultAddress r = cr_vaultAddress created" "cw_unsignedTxBytes r = bs"
    "cw_lastValidBlockHeight r = bh_lastValidBlockHeight blockhash"
    "map vi_rentLamports (cw_pdaList r) = [a, b, c, d]" "map vi_sizeBytes (cw_pdaList r) = [634, 822, 2840, 2528]"
    using o(3) by (simp_all add: h(6) preview_of_def Let_def va preview_pdas_def makePdaInfo_def case_prod_beta AGENT_VAULT_SIZE_def
        POLICY_CONFIG_SIZE_def SPEND_TRACKER_SIZE_def AGENT_SPEND_OVERLAY_SIZE_def)
  have q: "x div 1000000000 * 1000000000 \<le> x" "x < (x div 1000000000 + 1) * 1000000000" for x :: int
  proof -
    define k where "k = x div 1000000000"
    have "1000000000 * k + x mod 1000000000 = x" "0 \<le> x mod 1000000000" "x mod 1000000000 < 1000000000"
      by (simp_all add: k_def)
    then show "x div 1000000000 * 1000000000 \<le> x" "x < (x div 1000000000 + 1) * 1000000000"
      unfolding k_def [symmetric] by simp_all
  qed
  show ?thesis
    apply (rule exI [of _ a], rule exI [of _ b], rule exI [of _ c], rule exI [of _ d], rule exI [of _ created],
        rule exI [of _ "or_transaction ownerTx"], rule exI [of _ budget])
    using r rents f t q [of "(a + b + c + d + ?fee) * pv_solPriceUsd config"] h(3,5) o bu lim validateConfig_ok(1) [OF h(1)]
    by (simp add: is_u64_def) blast
qed

definition sample_config :: "string PreviewCreateVaultConfig" where
  "sample_config =
     \<lparr>pv_rpc = ''rpc'', pv_owner = ''O'', pv_agentAddress = ''A'', pv_network = ''devnet'', pv_vaultId = 0,
      pv_dailyCapUsd = 500, pv_maxTxSizeUsd = 100, pv_spendingLimitUsd = 100, pv_developerFeeRate = Some 0,
      pv_maxSlippageBps = Some 100, pv_timelockDuration = 1800, pv_protocolMode = 0, pv_protocols = [], pv_protocolCaps = [],
      pv_allowedDestinations = [], pv_feeDestination = ''O'', pv_capabilityTier = None, pv_solPriceUsd = 250000000,
      pv_priorityFeeMicroLamports = None, pv_computeUnits = None, pv_blockhash = None, pv_addressLookupTables = None\<rparr>"

lemma sample_config_valid: "validateConfig sample_config = Inr ()"
  by (simp add: validateConfig_def all_checks_ok sample_config_def caps_check_def validateNetwork_def U64_MAX_def
      MAX_SAFE_INTEGER_def MIN_TIMELOCK_DURATION_SECONDS_def isInteger_def number_lt_def number_gt_def MAX_DEVELOPER_FEE_RATE_def
      SYSTEM_PROGRAM_ADDRESS_def)

theorem preview_exact_witness:
  "\<exists>r st' a b c d. previewCreateVault sample_vault_env flag_owner_env (\<lambda>n. Inr (Some 7)) sample_config new_owner_state = (Inr r, st')
     \<and> cw_rentLamports r = a + b + c + d \<and> 0 < a
     \<and> cw_totalCostUsd r * 1000000000 \<le> (cw_rentLamports r + cw_feeLamports r) * pv_solPriceUsd sample_config"
proof -
  have "create_check (preview_options sample_config) = Inr (100, 500, 1800)"
    by (simp add: create_check_Inr preview_options_def sample_config_def)
  then obtain created where c: "createVault sample_vault_env (preview_options sample_config) = Inr created"
    using sample_creates [where i = 0 and options = "preview_options sample_config" and l = 100 and d = 500 and t = 1800]
    by (auto simp: is_u64_def U64_MAX_def or_default_def resolve_vault_id_def preview_options_def sample_config_def)
  obtain ownerTx st' where t: "buildOwnerTransaction flag_owner_env (preview_owner_params sample_config created) new_owner_state
      = (Inr ownerTx, st')"
    using flag_builds [of "preview_owner_params sample_config created"]
    by (auto simp: preview_owner_params_def sample_config_def toBuildNetwork_def)
  have "or_wireBase64 ownerTx = btoa [0, of_bool (or_transaction ownerTx)]"
    using t by (rule buildOwner_cases) (simp add: flag_owner_env_def flag_compose_env_def)
  then have w: "base64ToUint8 (or_wireBase64 ownerTx) = Inr [0, of_bool (or_transaction ownerTx)]"
    using atob_btoa [of "[0, of_bool (or_transaction ownerTx)]"] by (simp add: base64ToUint8_def is_bytes_def)
  have r: "preview_rents (\<lambda>n. Inr (Some 7)) = Inr (7, 7, 7, 7)"
    by (simp add: preview_rents_def fetchRentForSize_def lift_err_def)
  have "previewCreateVault sample_vault_env flag_owner_env (\<lambda>n. Inr (Some 7)) sample_config new_owner_state
      = (Inr (preview_of (ve_codec sample_vault_env) sample_config (7, 7, 7, 7) ownerTx [0, of_bool (or_transaction ownerTx)]), st')"
    using t w c r sample_config_valid by (simp add: previewCreateVault_def sbind_def sresult_def lift_err_def)
  then show ?thesis using preview_exact by meson
qed

text \<open>
  The preview's warnings are exact and stable: they are sorted by code without duplicates, each
  appears precisely when its condition holds, and each suggestion is a value that silences it.
\<close>
theorem preview_warnings_exact:
  "sorted (map warning_code (buildWarnings config)) \<and> distinct (map warning_code (buildWarnings config))
   \<and> set (buildWarnings config) =
       {w. case w of
             daily_cap_zero \<Rightarrow> pv_dailyCapUsd config = 0
           | daily_cap_unusually_high v \<Rightarrow> v = 1000000000000 \<and> v < pv_dailyCapUsd config
           | no_protocols_approved \<Rightarrow> pv_protocolMode config = 1 \<and> pv_protocols config = []
           | max_tx_exceeds_daily_cap v \<Rightarrow> v = pv_dailyCapUsd config \<and> v < pv_maxTxSizeUsd config}"
proof -
  let ?raw = "(if pv_dailyCapUsd config = 0 then [daily_cap_zero] else [])
      @ (if pv_dailyCapUsd config > DAILY_CAP_HIGH_THRESHOLD then [daily_cap_unusually_high DAILY_CAP_HIGH_THRESHOLD] else [])
      @ (if pv_protocolMode config = 1 \<and> length (pv_protocols config) = 0 then [no_protocols_approved] else [])
      @ (if pv_maxTxSizeUsd config > pv_dailyCapUsd config then [max_tx_exceeds_daily_cap (pv_dailyCapUsd config)] else [])"
  have "mset (map warning_code (buildWarnings config)) = mset (map warning_code ?raw)"
    by (simp add: buildWarnings_def)
  then have "distinct (map warning_code (buildWarnings config)) \<longleftrightarrow> distinct (map warning_code ?raw)"
    by (rule mset_eq_imp_distinct_iff)
  moreover have "distinct (map warning_code ?raw)" by auto
  moreover have "set (buildWarnings config) = set ?raw" by (simp add: buildWarnings_def)
  moreover have "set ?raw = {w. case w of
             daily_cap_zero \<Rightarrow> pv_dailyCapUsd config = 0
           | daily_cap_unusually_high v \<Rightarrow> v = 1000000000000 \<and> v < pv_dailyCapUsd config
           | no_protocols_approved \<Rightarrow> pv_protocolMode config = 1 \<and> pv_protocols config = []
           | max_tx_exceeds_daily_cap v \<Rightarrow> v = pv_dailyCapUsd config \<and> v < pv_maxTxSizeUsd config}" (is "_ = ?spec")
  proof (rule set_eqI)
    fix w show "w \<in> set ?raw \<longleftrightarrow> w \<in> ?spec" by (cases w) (auto simp: DAILY_CAP_HIGH_THRESHOLD_def)
  qed
  ultimately show ?thesis by (simp add: buildWarnings_def)
qed

text \<open>
  The slippage limit of 5000 basis points the configuration documents is not one of the checks: any
  accepted configuration stays accepted with a slippage of 60000.
\<close>

lemma caps_check_slippage: "caps_check (config\<lparr>pv_maxSlippageBps := v\<rparr>) = caps_check config"
  by (simp add: caps_check_def)

lemma preview_slippage_unbounded:
  "validateConfig config = Inr () \<Longrightarrow> validateConfig (config\<lparr>pv_maxSlippageBps := Some 60000\<rparr>) = Inr ()"
  by (simp add: validateConfig_def all_checks_ok caps_check_slippage) (simp add: isInteger_def number_lt_def)

end
