(* ===== verification/PostAssertions.thy ===== *)
theory PostAssertions
  imports SdkTypes JsDouble "HOL-Library.Word"
begin

text \<open>
  Post-execution assertions: the client-side validator of
  \<open>sdk/kit/src/dashboard/post-assertion-validation.ts\<close>, the ratio builder of
  \<open>sdk/kit/src/post-assertions/cross-field-lte.ts\<close> and the Flash Trade preset of
  \<open>sdk/kit/src/post-assertions/presets/flash-trade.ts\<close>, next to the on-chain rules they mirror:
  \<open>validate_entries\<close> of \<open>programs/sigil/src/state/post_assertions.rs\<close> and the ratio check of
  \<open>finalize_session.rs\<close>, on machine words.
\<close>

unbundle bit_operations_syntax

record PostAssertionEntry =
  pa_targetAccount :: address
  pa_offset :: js_number
  pa_valueLen :: js_number
  pa_operator :: js_number
  pa_expectedValue :: bytes
  pa_assertionMode :: js_number
  pa_crossFieldOffsetB :: js_number
  pa_crossFieldMultiplierBps :: js_number
  pa_crossFieldFlags :: js_number

section \<open>post-assertion-validation.ts\<close>

definition MAX_POST_ASSERTION_ENTRIES :: nat where "MAX_POST_ASSERTION_ENTRIES = 4"
definition MAX_CONSTRAINT_VALUE_LEN :: int where "MAX_CONSTRAINT_VALUE_LEN = 32"
definition MAX_OPERATOR_VALUE :: int where "MAX_OPERATOR_VALUE = 6"
definition MAX_ASSERTION_MODE_VALUE :: int where "MAX_ASSERTION_MODE_VALUE = 3"
definition CROSS_FIELD_LTE_FLAG :: int where "CROSS_FIELD_LTE_FLAG = 1"
definition CROSS_FIELD_MAX_VALUE_LEN :: int where "CROSS_FIELD_MAX_VALUE_LEN = 8"
definition DELTA_MAX_VALUE_LEN :: int where "DELTA_MAX_VALUE_LEN = 8"

datatype PostAssertionValidationCode =
    entries_not_an_array | entries_contain_null | entry_count_out_of_range | value_len_out_of_range
  | expected_value_too_short | operator_out_of_range | assertion_mode_out_of_range | offset_out_of_range
  | cross_field_offset_b_out_of_range | cross_field_multiplier_bps_out_of_range | cross_field_flags_out_of_range
  | delta_mode_value_len_too_large | cross_field_value_len_too_large | cross_field_requires_absolute_mode
  | cross_field_multiplier_must_be_positive | cross_field_unknown_flags | cross_field_disabled_fields_must_be_zero

record PostAssertionValidationError =
  ve_validationCode :: PostAssertionValidationCode
  ve_entryIndex :: "nat option"

definition pa_error :: "PostAssertionValidationCode \<Rightarrow> nat option \<Rightarrow> PostAssertionValidationError" where
  "pa_error code index = \<lparr>ve_validationCode = code, ve_entryIndex = index\<rparr>"

definition requireUintInRange ::
  "js_number \<Rightarrow> int \<Rightarrow> PostAssertionValidationCode \<Rightarrow> nat \<Rightarrow> (PostAssertionValidationError, unit) result" where
  "requireUintInRange v mx code index =
     require (isInteger v \<and> \<not> number_lt v 0 \<and> \<not> number_gt v (of_int mx)) (pa_error code (Some index))"

definition cross_field_rules :: "PostAssertionEntry \<Rightarrow> nat \<Rightarrow> (PostAssertionValidationError, unit) result" where
  "cross_field_rules entry index =
     (if to_int (pa_crossFieldFlags entry) AND CROSS_FIELD_LTE_FLAG \<noteq> 0
      then
        rbind (require (to_int (pa_valueLen entry) \<le> CROSS_FIELD_MAX_VALUE_LEN) (pa_error cross_field_value_len_too_large (Some index))) (\<lambda>_.
        rbind (require (to_int (pa_assertionMode entry) = 0) (pa_error cross_field_requires_absolute_mode (Some index))) (\<lambda>_.
        rbind (require (to_int (pa_crossFieldMultiplierBps entry) \<noteq> 0) (pa_error cross_field_multiplier_must_be_positive (Some index))) (\<lambda>_.
        require (to_int (pa_crossFieldFlags entry) AND 254 = 0) (pa_error cross_field_unknown_flags (Some index)))))
      else
        require (to_int (pa_crossFieldOffsetB entry) = 0 \<and> to_int (pa_crossFieldMultiplierBps entry) = 0)
          (pa_error cross_field_disabled_fields_must_be_zero (Some index)))"

definition validateSingleEntry :: "PostAssertionEntry \<Rightarrow> nat \<Rightarrow> (PostAssertionValidationError, unit) result" where
  "validateSingleEntry entry index =
     rbind (requireUintInRange (pa_offset entry) 65535 offset_out_of_range index) (\<lambda>_.
     rbind (requireUintInRange (pa_valueLen entry) MAX_CONSTRAINT_VALUE_LEN value_len_out_of_range index) (\<lambda>_.
     rbind (requireUintInRange (pa_operator entry) MAX_OPERATOR_VALUE operator_out_of_range index) (\<lambda>_.
     rbind (requireUintInRange (pa_assertionMode entry) MAX_ASSERTION_MODE_VALUE assertion_mode_out_of_range index) (\<lambda>_.
     rbind (requireUintInRange (pa_crossFieldOffsetB entry) 65535 cross_field_offset_b_out_of_range index) (\<lambda>_.
     rbind (requireUintInRange (pa_crossFieldMultiplierBps entry) 4294967295 cross_field_multiplier_bps_out_of_range index) (\<lambda>_.
     rbind (requireUintInRange (pa_crossFieldFlags entry) 255 cross_field_flags_out_of_range index) (\<lambda>_.
     rbind (require (to_int (pa_valueLen entry) \<noteq> 0) (pa_error value_len_out_of_range (Some index))) (\<lambda>_.
     rbind (require (to_int (pa_valueLen entry) \<le> int (length (pa_expectedValue entry)))
              (pa_error expected_value_too_short (Some index))) (\<lambda>_.
     rbind (require (\<not> (1 \<le> to_int (pa_assertionMode entry) \<and> to_int (pa_assertionMode entry) \<le> 3
                       \<and> to_int (pa_valueLen entry) > DELTA_MAX_VALUE_LEN))
              (pa_error delta_mode_value_len_too_large (Some index))) (\<lambda>_.
     cross_field_rules entry index))))))))))"

text \<open>\<open>entries.forEach\<close>: an element is \<open>None\<close> when it is \<open>null\<close> or \<open>undefined\<close>.\<close>

fun validate_each :: "PostAssertionEntry option list \<Rightarrow> nat \<Rightarrow> (PostAssertionValidationError, unit) result" where
  "validate_each [] index = Inr ()"
| "validate_each (None # rest) index = Inl (pa_error entries_contain_null (Some index))"
| "validate_each (Some entry # rest) index = rbind (validateSingleEntry entry index) (\<lambda>_. validate_each rest (Suc index))"

definition validatePostAssertionEntries ::
  "PostAssertionEntry option list option \<Rightarrow> (PostAssertionValidationError, unit) result" where
  "validatePostAssertionEntries arg =
     (case arg of
        None \<Rightarrow> Inl (pa_error entries_not_an_array None)
      | Some entries \<Rightarrow>
          if length entries = 0 \<or> length entries > MAX_POST_ASSERTION_ENTRIES
          then Inl (pa_error entry_count_out_of_range None)
          else validate_each entries 0)"

section \<open>cross-field-lte.ts and the Flash Trade preset\<close>

definition JUPITER_PERPS_PROGRAM_ADDRESS :: address where
  "JUPITER_PERPS_PROGRAM_ADDRESS = ''PERPHjGBqRHArX4DySjwM6UJHiR3sWAatqfdBS2qQJu''"
definition FLASH_TRADE_PROGRAM_ADDRESS :: address where
  "FLASH_TRADE_PROGRAM_ADDRESS = ''FLASH6Lo6h3iasJKWDs2F8TkW2UKf3s15C8PMGuVfgBn''"

datatype leverage_error = JupiterPerpsPostAssertionUnsupportedError | LeverageRangeError string
  | FlashTradeLeverageOutOfRangeError js_number

record LeverageCapLteOpts =
  lo_targetAccount :: address
  lo_targetAccountOwnerProgram :: address
  lo_fieldAOffset :: js_number
  lo_fieldBOffset :: js_number
  lo_maxBps :: js_number

definition requireIntegerInRange :: "js_number \<Rightarrow> string \<Rightarrow> int \<Rightarrow> int \<Rightarrow> (leverage_error, unit) result" where
  "requireIntegerInRange v field mn mx =
     (if \<not> isInteger v then Inl (LeverageRangeError field)
      else if number_lt v (of_int mn) \<or> number_gt v (of_int mx) then Inl (LeverageRangeError field) else Inr ())"

definition leverageCapLteBps :: "LeverageCapLteOpts \<Rightarrow> (leverage_error, PostAssertionEntry) result" where
  "leverageCapLteBps opts =
     (if lo_targetAccountOwnerProgram opts = JUPITER_PERPS_PROGRAM_ADDRESS then Inl JupiterPerpsPostAssertionUnsupportedError
      else
        rbind (requireIntegerInRange (lo_fieldAOffset opts) ''fieldAOffset'' 0 65535) (\<lambda>_.
        rbind (requireIntegerInRange (lo_fieldBOffset opts) ''fieldBOffset'' 0 65535) (\<lambda>_.
        rbind (require (lo_fieldAOffset opts \<noteq> lo_fieldBOffset opts) (LeverageRangeError ''fieldAOffset'')) (\<lambda>_.
        rbind (requireIntegerInRange (lo_maxBps opts) ''maxBps'' 1 4294967295) (\<lambda>_.
        Inr \<lparr>pa_targetAccount = lo_targetAccount opts, pa_offset = lo_fieldAOffset opts, pa_valueLen = Some 8,
             pa_operator = Some 3, pa_expectedValue = replicate 8 0, pa_assertionMode = Some 0,
             pa_crossFieldOffsetB = lo_fieldBOffset opts, pa_crossFieldMultiplierBps = lo_maxBps opts,
             pa_crossFieldFlags = Some 1\<rparr>)))))"

definition FLASH_TRADE_POSITION_SIZE_USD_OFFSET :: rat where "FLASH_TRADE_POSITION_SIZE_USD_OFFSET = 140"
definition FLASH_TRADE_POSITION_COLLATERAL_USD_OFFSET :: rat where "FLASH_TRADE_POSITION_COLLATERAL_USD_OFFSET = 172"

definition flashTradeLeverageCap :: "address \<Rightarrow> js_number \<Rightarrow> (leverage_error, PostAssertionEntry) result" where
  "flashTradeLeverageCap positionAccount maxLeverage =
     (if \<not> isInteger maxLeverage \<or> number_lt maxLeverage 1 \<or> number_gt maxLeverage 100
      then Inl (FlashTradeLeverageOutOfRangeError maxLeverage)
      else leverageCapLteBps
        \<lparr>lo_targetAccount = positionAccount, lo_targetAccountOwnerProgram = FLASH_TRADE_PROGRAM_ADDRESS,
         lo_fieldAOffset = Some FLASH_TRADE_POSITION_SIZE_USD_OFFSET,
         lo_fieldBOffset = Some FLASH_TRADE_POSITION_COLLATERAL_USD_OFFSET,
         lo_maxBps = map_option (\<lambda>x. x * 10000) maxLeverage\<rparr>)"

section \<open>The on-chain rules\<close>

record RustEntry =
  ru_offset :: "16 word"
  ru_value_len :: "8 word"
  ru_operator :: "8 word"
  ru_expected_value :: bytes
  ru_assertion_mode :: "8 word"
  ru_cross_field_offset_b :: "16 word"
  ru_cross_field_multiplier_bps :: "32 word"
  ru_cross_field_flags :: "8 word"

datatype sigil_program_error = InvalidConstraintConfig | InvalidConstraintOperator | PostAssertionFailed | Overflow

definition rust_entry_ok :: "RustEntry \<Rightarrow> (sigil_program_error, unit) result" where
  "rust_entry_ok entry =
     rbind (require (ru_value_len entry > 0 \<and> unat (ru_value_len entry) \<le> 32) InvalidConstraintConfig) (\<lambda>_.
     rbind (require (unat (ru_value_len entry) \<le> length (ru_expected_value entry)) InvalidConstraintConfig) (\<lambda>_.
     rbind (require (ru_operator entry \<le> 6) InvalidConstraintOperator) (\<lambda>_.
     rbind (require (ru_assertion_mode entry \<le> 3) InvalidConstraintConfig) (\<lambda>_.
     rbind (if ru_assertion_mode entry \<ge> 1 \<and> ru_assertion_mode entry \<le> 3
            then require (ru_value_len entry \<le> 8) InvalidConstraintConfig else Inr ()) (\<lambda>_.
     if ru_cross_field_flags entry AND 1 \<noteq> 0
     then
       rbind (require (ru_value_len entry \<le> 8) InvalidConstraintConfig) (\<lambda>_.
       rbind (require (ru_assertion_mode entry = 0) InvalidConstraintConfig) (\<lambda>_.
       rbind (require (ru_cross_field_multiplier_bps entry > 0) InvalidConstraintConfig) (\<lambda>_.
       require (ru_cross_field_flags entry AND 0xFE = 0) InvalidConstraintConfig)))
     else require (ru_cross_field_offset_b entry = 0 \<and> ru_cross_field_multiplier_bps entry = 0) InvalidConstraintConfig)))))"

fun rust_each :: "RustEntry list \<Rightarrow> (sigil_program_error, unit) result" where
  "rust_each [] = Inr ()"
| "rust_each (entry # entries) = rbind (rust_entry_ok entry) (\<lambda>_. rust_each entries)"

definition validate_entries :: "RustEntry list \<Rightarrow> (sigil_program_error, unit) result" where
  "validate_entries entries =
     rbind (require (entries \<noteq> [] \<and> length entries \<le> 4) InvalidConstraintConfig) (\<lambda>_. rust_each entries)"

text \<open>What the codec writes for an entry whose numbers fit their fields.\<close>

definition encode_entry :: "PostAssertionEntry \<Rightarrow> RustEntry" where
  "encode_entry e =
     \<lparr>ru_offset = word_of_int (to_int (pa_offset e)), ru_value_len = word_of_int (to_int (pa_valueLen e)),
      ru_operator = word_of_int (to_int (pa_operator e)), ru_expected_value = pa_expectedValue e,
      ru_assertion_mode = word_of_int (to_int (pa_assertionMode e)),
      ru_cross_field_offset_b = word_of_int (to_int (pa_crossFieldOffsetB e)),
      ru_cross_field_multiplier_bps = word_of_int (to_int (pa_crossFieldMultiplierBps e)),
      ru_cross_field_flags = word_of_int (to_int (pa_crossFieldFlags e))\<rparr>"

definition fits :: "js_number \<Rightarrow> nat \<Rightarrow> bool" where
  "fits v w \<longleftrightarrow> isInteger v \<and> 0 \<le> to_int v \<and> to_int v < 2 ^ w"

definition encodable :: "PostAssertionEntry \<Rightarrow> bool" where
  "encodable e \<longleftrightarrow> fits (pa_offset e) 16 \<and> fits (pa_valueLen e) 8 \<and> fits (pa_operator e) 8 \<and> fits (pa_assertionMode e) 8
     \<and> fits (pa_crossFieldOffsetB e) 16 \<and> fits (pa_crossFieldMultiplierBps e) 32 \<and> fits (pa_crossFieldFlags e) 8"

text \<open>\<open>finalize_session.rs\<close>: the ratio check on the little-endian u64 fields, in u128 arithmetic.\<close>

definition checked_mul :: "128 word \<Rightarrow> 128 word \<Rightarrow> (sigil_program_error, 128 word) result" where
  "checked_mul a b = (if uint a * uint b < 2 ^ 128 then Inr (a * b) else Inl Overflow)"

definition cross_field_lte :: "64 word \<Rightarrow> 64 word \<Rightarrow> 32 word \<Rightarrow> (sigil_program_error, unit) result" where
  "cross_field_lte field_a field_b multiplier_bps =
     (if field_b = 0 then require (field_a = 0) PostAssertionFailed
      else rbind (checked_mul (ucast field_a) 10000) (\<lambda>lhs.
           rbind (checked_mul (ucast multiplier_bps) (ucast field_b)) (\<lambda>rhs.
           require (lhs \<le> rhs) PostAssertionFailed)))"

section \<open>Agreement\<close>

lemma in_range_iff:
  "isInteger v \<and> \<not> number_lt v 0 \<and> \<not> number_gt v (of_int mx) \<longleftrightarrow> isInteger v \<and> 0 \<le> to_int v \<and> to_int v \<le> mx"
proof (cases v)
  case (Some q)
  have "0 \<le> q \<longleftrightarrow> 0 \<le> \<lfloor>q\<rfloor>" "q \<le> of_int mx \<longleftrightarrow> \<lfloor>q\<rfloor> \<le> mx" if "of_int \<lfloor>q\<rfloor> = q"
    using that by (metis of_int_0_le_iff, metis of_int_le_iff)
  then show ?thesis using Some by (auto simp: isInteger_def number_lt_def number_gt_def to_int_def not_less)
qed (simp add: isInteger_def)

lemma requireUint_ok: "requireUintInRange v mx code i = Inr () \<longleftrightarrow> isInteger v \<and> 0 \<le> to_int v \<and> to_int v \<le> mx"
  unfolding requireUintInRange_def require_eq_Inr in_range_iff ..

lemma byte_word:
  fixes n :: int
  assumes "0 \<le> n" "n < 2 ^ 8"
  defines "w \<equiv> (word_of_int n :: 8 word)"
  shows "uint w = n" "unat w = nat n" "w = 0 \<longleftrightarrow> n = 0" "0 < w \<longleftrightarrow> 0 < n" "w \<le> 6 \<longleftrightarrow> n \<le> 6" "w \<le> 3 \<longleftrightarrow> n \<le> 3"
    "w \<le> 8 \<longleftrightarrow> n \<le> 8" "1 \<le> w \<longleftrightarrow> 1 \<le> n" "w AND 1 = 0 \<longleftrightarrow> n AND 1 = 0" "w AND 254 = 0 \<longleftrightarrow> n AND 254 = 0"
proof -
  show u: "uint w = n" using assms by (simp add: w_def unsigned_of_int take_bit_int_eq_self)
  then show "unat w = nat n" by (simp only: unat_eq_nat_uint)
  have z: "x = 0 \<longleftrightarrow> uint x = 0" for x :: "8 word" by (simp add: unsigned_eq_0_iff)
  show "w = 0 \<longleftrightarrow> n = 0" unfolding z u ..
  show "0 < w \<longleftrightarrow> 0 < n" "w \<le> 6 \<longleftrightarrow> n \<le> 6" "w \<le> 3 \<longleftrightarrow> n \<le> 3" "w \<le> 8 \<longleftrightarrow> n \<le> 8" "1 \<le> w \<longleftrightarrow> 1 \<le> n"
    unfolding word_less_def word_le_def u by simp_all
  show "w AND 1 = 0 \<longleftrightarrow> n AND 1 = 0" "w AND 254 = 0 \<longleftrightarrow> n AND 254 = 0"
    unfolding z [of "w AND 1"] z [of "w AND 254"] unsigned_and_eq u by simp_all
qed

lemma wide_word_zero:
  assumes "0 \<le> n" "n < 2 ^ LENGTH('w :: len)"
  shows "(word_of_int n :: 'w word) = 0 \<longleftrightarrow> n = 0" "0 < (word_of_int n :: 'w word) \<longleftrightarrow> 0 < n"
proof -
  have u: "uint (word_of_int n :: 'w word) = n" using assms by (simp add: unsigned_of_int take_bit_int_eq_self)
  show z: "(word_of_int n :: 'w word) = 0 \<longleftrightarrow> n = 0" using u by (metis unsigned_0 word_of_int_0)
  show "0 < (word_of_int n :: 'w word) \<longleftrightarrow> 0 < n" unfolding word_less_def u by simp
qed

lemma single_encodable: "validateSingleEntry e i = Inr () \<Longrightarrow> encodable e"
  by (auto simp: validateSingleEntry_def requireUint_ok encodable_def fits_def MAX_CONSTRAINT_VALUE_LEN_def
      MAX_OPERATOR_VALUE_def MAX_ASSERTION_MODE_VALUE_def)

lemma single_agrees:
  assumes "encodable e"
  shows "validateSingleEntry e i = Inr () \<longleftrightarrow> rust_entry_ok (encode_entry e) = Inr ()"
proof -
  note f = assms [unfolded encodable_def fits_def]
  note vl = byte_word [of "to_int (pa_valueLen e)"] and op = byte_word [of "to_int (pa_operator e)"]
    and am = byte_word [of "to_int (pa_assertionMode e)"] and fl = byte_word [of "to_int (pa_crossFieldFlags e)"]
  have ob: "(word_of_int (to_int (pa_crossFieldOffsetB e)) :: 16 word) = 0 \<longleftrightarrow> to_int (pa_crossFieldOffsetB e) = 0"
    using f by (intro wide_word_zero) simp_all
  have mb: "(word_of_int (to_int (pa_crossFieldMultiplierBps e)) :: 32 word) = 0 \<longleftrightarrow> to_int (pa_crossFieldMultiplierBps e) = 0"
    "0 < (word_of_int (to_int (pa_crossFieldMultiplierBps e)) :: 32 word) \<longleftrightarrow> 0 < to_int (pa_crossFieldMultiplierBps e)"
    using f by (intro wide_word_zero; simp)+
  have le: "nat n \<le> length xs \<longleftrightarrow> n \<le> int (length xs)" "nat n \<le> 32 \<longleftrightarrow> n \<le> 32" if "0 \<le> n" for n and xs :: bytes
    using that by auto
  show ?thesis
    using f
    by (simp add: validateSingleEntry_def rust_entry_ok_def encode_entry_def cross_field_rules_def requireUint_ok vl op am fl ob mb le
        MAX_CONSTRAINT_VALUE_LEN_def MAX_OPERATOR_VALUE_def MAX_ASSERTION_MODE_VALUE_def DELTA_MAX_VALUE_LEN_def
        CROSS_FIELD_MAX_VALUE_LEN_def CROSS_FIELD_LTE_FLAG_def del: of_int_numeral)
      auto
qed

text \<open>
  C30. The dashboard's validator and the on-chain program agree: a batch of entries passes
  \<open>validatePostAssertionEntries\<close> precisely when every number of it fits the width of its on-chain field,
  so that the codec writes it unchanged, and \<open>validate_entries\<close> of the program accepts the written batch.
\<close>
theorem post_assertion_validator_agrees:
  "validatePostAssertionEntries (Some (map Some es)) = Inr () \<longleftrightarrow>
     list_all encodable es \<and> validate_entries (map encode_entry es) = Inr ()"
proof -
  have "validate_each (map Some es) i = Inr () \<longleftrightarrow> list_all encodable es \<and> rust_each (map encode_entry es) = Inr ()" for i
  proof (induction es arbitrary: i)
    case (Cons e es)
    show ?case
    proof (cases "encodable e")
      case True
      then show ?thesis using Cons.IH [of "Suc i"] single_agrees [OF True, of i] by auto
    next
      case False
      then show ?thesis using single_encodable [of e i] by auto
    qed
  qed simp
  then show ?thesis
    by (simp add: validatePostAssertionEntries_def validate_entries_def MAX_POST_ASSERTION_ENTRIES_def not_le)
qed

section \<open>Leverage caps\<close>

lemma rangeInt_ok: "requireIntegerInRange v field 0 mx = Inr () \<longleftrightarrow> isInteger v \<and> 0 \<le> to_int v \<and> to_int v \<le> mx"
  using in_range_iff [of v mx] by (auto simp: requireIntegerInRange_def)

lemma leverage_entry:
  assumes "leverageCapLteBps opts = Inr e"
  shows "encodable e" "validateSingleEntry e i = Inr ()" "0 < to_int (lo_maxBps opts)"
    "pa_crossFieldMultiplierBps e = lo_maxBps opts"
proof -
  have v: "requireIntegerInRange (lo_maxBps opts) ''maxBps'' 1 4294967295 = Inr ()"
    and o: "isInteger (lo_fieldAOffset opts)" "0 \<le> to_int (lo_fieldAOffset opts)" "to_int (lo_fieldAOffset opts) \<le> 65535"
      "isInteger (lo_fieldBOffset opts)" "0 \<le> to_int (lo_fieldBOffset opts)" "to_int (lo_fieldBOffset opts) \<le> 65535"
    using assms by (auto simp: leverageCapLteBps_def rangeInt_ok split: if_splits)
  obtain q where q: "lo_maxBps opts = Some q" "of_int \<lfloor>q\<rfloor> = q" "1 \<le> q" "q \<le> 4294967295"
    using v by (cases "lo_maxBps opts") (auto simp: requireIntegerInRange_def isInteger_def number_lt_def number_gt_def not_less split: if_splits)
  then have m: "isInteger (lo_maxBps opts)" "1 \<le> to_int (lo_maxBps opts)" "to_int (lo_maxBps opts) \<le> 4294967295"
    by (simp_all add: isInteger_def to_int_def le_floor_iff floor_le_iff)
  then show "0 < to_int (lo_maxBps opts)" by simp
  show "pa_crossFieldMultiplierBps e = lo_maxBps opts" using assms by (auto simp: leverageCapLteBps_def split: if_splits)
  have n: "isInteger (Some 8)" "to_int (Some 8) = 8" "isInteger (Some 3)" "to_int (Some 3) = 3" "isInteger (Some 0)" "to_int (Some 0) = 0"
    "isInteger (Some 1)" "to_int (Some 1) = 1"
    by (simp_all add: isInteger_def to_int_def)
  show ok: "validateSingleEntry e i = Inr ()"
    using assms o m
    by (auto simp: leverageCapLteBps_def validateSingleEntry_def requireUint_ok cross_field_rules_def n
        MAX_CONSTRAINT_VALUE_LEN_def MAX_OPERATOR_VALUE_def MAX_ASSERTION_MODE_VALUE_def DELTA_MAX_VALUE_LEN_def
        CROSS_FIELD_MAX_VALUE_LEN_def CROSS_FIELD_LTE_FLAG_def split: if_splits)
  then show "encodable e" by (rule single_encodable)
qed

lemma cross_field_lte_ok:
  "cross_field_lte a b m = Inr () \<longleftrightarrow> uint a * 10000 \<le> uint m * uint b"
proof (cases "b = 0")
  case True
  then show ?thesis
    using uint_ge_0 [of a] unsigned_eq_0_iff [of a, where 'a = int] by (auto simp: cross_field_lte_def)
next
  case False
  have a: "uint (ucast a :: 128 word) = uint a" "uint (ucast b :: 128 word) = uint b" "uint (ucast m :: 128 word) = uint m"
    by (simp_all add: unsigned_ucast_eq take_bit_int_eq_self uint_lt2p order.strict_trans2 [OF uint_lt2p])
  have lt: "uint a < 2 ^ 64" "uint b < 2 ^ 64" "uint m < 2 ^ 32" using uint_lt2p [of a] uint_lt2p [of b] uint_lt2p [of m] by simp_all
  have p: "uint a * 10000 < 2 ^ 128" using lt(1) by simp
  have "uint m * uint b \<le> 2 ^ 32 * 2 ^ 64" using lt by (intro mult_mono) simp_all
  then have q: "uint m * uint b < 2 ^ 128" by simp
  have l: "uint ((ucast a :: 128 word) * 10000) = uint a * 10000"
    using p a by (simp add: uint_word_ariths take_bit_int_eq_self)
  have r: "uint ((ucast m :: 128 word) * ucast b) = uint m * uint b"
    using q a by (simp add: uint_word_ariths)
  show ?thesis using False p q by (simp add: cross_field_lte_def checked_mul_def a word_le_def l r)
qed

text \<open>
  The Flash Trade preset means what it says: for every whole leverage from 1 to 100 it builds an
  entry the validator and the program accept, and the program's check on the two 64-bit fields then
  passes exactly when the position size is at most that many times the collateral, with no overflow
  and no division; any other argument is refused.
\<close>
theorem flash_leverage_cap_exact:
  "if 1 \<le> k \<and> k \<le> 100
   then \<exists>e. flashTradeLeverageCap pos (Some (of_int k)) = Inr e
     \<and> validatePostAssertionEntries (Some [Some e]) = Inr () \<and> validate_entries [encode_entry e] = Inr ()
     \<and> (\<forall>sizeUsd collateralUsd. cross_field_lte sizeUsd collateralUsd (ru_cross_field_multiplier_bps (encode_entry e)) = Inr ()
          \<longleftrightarrow> uint sizeUsd \<le> k * uint collateralUsd)
   else flashTradeLeverageCap pos (Some (of_int k)) = Inl (FlashTradeLeverageOutOfRangeError (Some (of_int k)))"
proof (cases "1 \<le> k \<and> k \<le> 100")
  case True
  have le: "(of_int k :: rat) \<le> 100" "1 \<le> (of_int k :: rat)" using True by simp_all
  have m: "map_option (\<lambda>x. x * 10000) (Some (of_int k)) = Some (of_int (k * 10000) :: rat)" by simp
  have g: "\<not> number_lt (Some (of_int (k * 10000))) 1" "\<not> number_gt (Some (of_int (k * 10000))) 4294967295"
    using le by (simp_all add: number_lt_def number_gt_def)
  obtain e where e: "flashTradeLeverageCap pos (Some (of_int k)) = Inr e"
    using le g
    by (simp add: flashTradeLeverageCap_def leverageCapLteBps_def requireIntegerInRange_def isInteger_def number_lt_def number_gt_def
        FLASH_TRADE_PROGRAM_ADDRESS_def JUPITER_PERPS_PROGRAM_ADDRESS_def FLASH_TRADE_POSITION_SIZE_USD_OFFSET_def
        FLASH_TRADE_POSITION_COLLATERAL_USD_OFFSET_def)
  then obtain opts where o: "leverageCapLteBps opts = Inr e" "lo_maxBps opts = Some (of_int (k * 10000))"
    by (auto simp: flashTradeLeverageCap_def split: if_splits)
  note le = leverage_entry [OF o(1)]
  have t: "validatePostAssertionEntries (Some [Some e]) = Inr ()"
    using le(2) by (simp add: validatePostAssertionEntries_def MAX_POST_ASSERTION_ENTRIES_def)
  have r: "validate_entries [encode_entry e] = Inr ()"
    using le(1,2) single_agrees by (simp add: validate_entries_def)
  have "to_int (Some (of_int (k * 10000))) = k * 10000" by (simp only: to_int_def option.case floor_of_int)
  then have w: "ru_cross_field_multiplier_bps (encode_entry e) = word_of_int (k * 10000)"
    unfolding encode_entry_def le(4) o(2) by simp
  have "uint (ru_cross_field_multiplier_bps (encode_entry e)) = k * 10000"
    unfolding w using True by (subst unsigned_of_int) (simp add: take_bit_int_eq_self)
  then have "cross_field_lte a b (ru_cross_field_multiplier_bps (encode_entry e)) = Inr () \<longleftrightarrow> uint a \<le> k * uint b" for a b
    unfolding cross_field_lte_ok by (simp add: mult.assoc [symmetric] mult.commute [of _ 10000])
  then show ?thesis using True e t r by auto
next
  case False
  then have "number_lt (Some (of_int k)) 1 \<or> number_gt (Some (of_int k)) 100"
    by (simp add: number_lt_def number_gt_def not_le)
  then show ?thesis using False by (auto simp: flashTradeLeverageCap_def)
qed

text \<open>
  The first failure is not always the program's: with an operator out of range and an expected value
  that is too short, the validator reports the operator, the program the configuration.
\<close>

definition two_faults :: PostAssertionEntry where
  "two_faults =
     \<lparr>pa_targetAccount = ''P'', pa_offset = Some 0, pa_valueLen = Some 8, pa_operator = Some 7, pa_expectedValue = [],
      pa_assertionMode = Some 0, pa_crossFieldOffsetB = Some 0, pa_crossFieldMultiplierBps = Some 0, pa_crossFieldFlags = Some 0\<rparr>"

lemma first_failure_differs:
  "validatePostAssertionEntries (Some [Some two_faults]) = Inl (pa_error operator_out_of_range (Some 0))
   \<and> validate_entries [encode_entry two_faults] = Inl InvalidConstraintConfig"
  by (simp add: validatePostAssertionEntries_def MAX_POST_ASSERTION_ENTRIES_def two_faults_def validateSingleEntry_def
      requireUintInRange_def isInteger_def number_lt_def number_gt_def MAX_CONSTRAINT_VALUE_LEN_def MAX_OPERATOR_VALUE_def
      validate_entries_def rust_entry_ok_def encode_entry_def to_int_def)

end
