(* ===== verification/DashboardInstructions.thy ===== *)
theory DashboardInstructions
  imports VaultCreation PostAssertions
begin

text \<open>
  The generated builders of the owner's instructions (\<open>sdk/kit/src/generated/instructions\<close>) the
  dashboard mutations use: the discriminator, the encoded arguments and the account list of each, with
  the accounts that default to a derived address when the caller leaves them out (the byte arrays of
  the generated seeds spell the strings given here). The codecs of the Solana kit are the fields of
  \<open>dash_codec\<close>.
\<close>

section \<open>Codecs\<close>

record dash_codec =
  bx_codec :: codec_env
  bx_u32 :: "int \<Rightarrow> (js_error, bytes) result"
  bx_bool :: "bool \<Rightarrow> bytes"
  bx_enum :: "nat \<Rightarrow> int \<Rightarrow> (js_error, bytes) result"
  bx_sized :: "bytes \<Rightarrow> (js_error, bytes) result"
  bx_option :: "bytes option \<Rightarrow> bytes"
  bx_array :: "bytes list \<Rightarrow> bytes"

text \<open>A struct encoder writes its fields in order and stops at the first that cannot be written.\<close>

fun encode_struct :: "(js_error, bytes) result list \<Rightarrow> (js_error, bytes) result" where
  "encode_struct [] = Inr []"
| "encode_struct (r # rs) = rbind r (\<lambda>b. rbind (encode_struct rs) (\<lambda>bs. Inr (b @ bs)))"

definition encode_option :: "dash_codec \<Rightarrow> ('a \<Rightarrow> (js_error, bytes) result) \<Rightarrow> 'a option \<Rightarrow> (js_error, bytes) result" where
  "encode_option env enc v =
     (case v of None \<Rightarrow> Inr (bx_option env None) | Some x \<Rightarrow> rbind (enc x) (\<lambda>b. Inr (bx_option env (Some b))))"

definition encode_array :: "dash_codec \<Rightarrow> ('a \<Rightarrow> (js_error, bytes) result) \<Rightarrow> 'a list \<Rightarrow> (js_error, bytes) result" where
  "encode_array env enc xs = rbind (rmap enc xs) (\<lambda>bs. Inr (bx_array env bs))"

record DataConstraint =
  dc_offset :: int
  dc_operator :: int
  dc_value :: bytes

record AccountConstraint =
  ac_index :: int
  ac_isWritableRequired :: int
  ac_expected :: address

record ConstraintEntry =
  ce_programId :: address
  ce_dataConstraints :: "DataConstraint list"
  ce_accountConstraints :: "AccountConstraint list"
  ce_discriminatorFormat :: int

definition encode_DataConstraint :: "dash_codec \<Rightarrow> DataConstraint \<Rightarrow> (js_error, bytes) result" where
  "encode_DataConstraint env d =
     encode_struct [bw_u16 (bx_codec env) (dc_offset d), bx_enum env 7 (dc_operator d), bx_sized env (dc_value d)]"

definition encode_AccountConstraint :: "dash_codec \<Rightarrow> AccountConstraint \<Rightarrow> (js_error, bytes) result" where
  "encode_AccountConstraint env a =
     encode_struct [bw_u8 (bx_codec env) (ac_index a), bw_u8 (bx_codec env) (ac_isWritableRequired a),
                    Inr (bv_enc (bx_codec env) (ac_expected a))]"

definition encode_ConstraintEntry :: "dash_codec \<Rightarrow> ConstraintEntry \<Rightarrow> (js_error, bytes) result" where
  "encode_ConstraintEntry env e =
     encode_struct [Inr (bv_enc (bx_codec env) (ce_programId e)),
                    encode_array env (encode_DataConstraint env) (ce_dataConstraints e),
                    encode_array env (encode_AccountConstraint env) (ce_accountConstraints e),
                    bx_enum env 2 (ce_discriminatorFormat e)]"

text \<open>The entries of an assertion set are written after validation, when their numbers are integers.\<close>

definition encode_PostAssertionEntry :: "dash_codec \<Rightarrow> PostAssertionEntry \<Rightarrow> (js_error, bytes) result" where
  "encode_PostAssertionEntry env e =
     (let u8 = bw_u8 (bx_codec env); u16 = bw_u16 (bx_codec env)
      in encode_struct [Inr (bv_enc (bx_codec env) (pa_targetAccount e)), u16 (to_int (pa_offset e)), u8 (to_int (pa_valueLen e)),
           u8 (to_int (pa_operator e)), bx_sized env (pa_expectedValue e), u8 (to_int (pa_assertionMode e)),
           u16 (to_int (pa_crossFieldOffsetB e)), bx_u32 env (to_int (pa_crossFieldMultiplierBps e)),
           u8 (to_int (pa_crossFieldFlags e))])"

section \<open>Instructions\<close>

text \<open>\<open>!accounts.x.value\<close>: an account left out, or the empty string, takes its default.\<close>

definition or_account :: "address option \<Rightarrow> address \<Rightarrow> address" where
  "or_account given fallback = (case given of Some a \<Rightarrow> if a = [] then fallback else a | None \<Rightarrow> fallback)"

definition derived_at :: "dash_codec \<Rightarrow> address \<Rightarrow> bytes list \<Rightarrow> address" where
  "derived_at env prog seeds = fst (bv_pda (bx_codec env) prog seeds)"

abbreviation derived :: "dash_codec \<Rightarrow> bytes list \<Rightarrow> address" where
  "derived env seeds \<equiv> derived_at env SIGIL_PROGRAM_ADDRESS seeds"

text \<open>The token program's address as the generated seeds spell it.\<close>

definition TOKEN_PROGRAM_SEED :: bytes where
  "TOKEN_PROGRAM_SEED =
     [6, 221, 246, 225, 215, 101, 161, 147, 217, 203, 225, 70, 206, 235, 121, 172, 28, 180, 133, 237, 95, 91, 55,
      145, 58, 140, 245, 133, 126, 255, 0, 169]"

text \<open>The accounts are given with whether they sign and whether they are writable.\<close>

definition sigil_instruction ::
  "dash_codec \<Rightarrow> bytes \<Rightarrow> (js_error, bytes) result list \<Rightarrow> (address \<times> bool \<times> bool) list \<Rightarrow> (sdk_error, Instruction) result" where
  "sigil_instruction env discriminator arguments accounts =
     rbind (lift_err (encode_struct arguments)) (\<lambda>data.
       Inr \<lparr>ix_programAddress = SIGIL_PROGRAM_ADDRESS,
            ix_accounts = Some (map (\<lambda>(a, signer, writable). bv_meta (bx_codec env) (Some a) signer writable) accounts),
            ix_data = Some (discriminator @ data)\<rparr>)"

record QueuePolicyUpdateArgs =
  qp_dailySpendingCapUsd :: "int option"
  qp_maxTransactionAmountUsd :: "int option"
  qp_protocolMode :: "int option"
  qp_protocols :: "address list option"
  qp_developerFeeRate :: "int option"
  qp_maxSlippageBps :: "int option"
  qp_timelockDuration :: "int option"
  qp_allowedDestinations :: "address list option"
  qp_sessionExpirySeconds :: "int option"
  qp_hasProtocolCaps :: "bool option"
  qp_protocolCaps :: "int list option"
  qp_destinationMode :: "int option"

definition FREEZE_VAULT_DISCRIMINATOR :: bytes where
  "FREEZE_VAULT_DISCRIMINATOR = [144, 211, 63, 236, 97, 31, 170, 175]"

definition getFreezeVaultInstruction ::
  "dash_codec \<Rightarrow> address \<Rightarrow> address \<Rightarrow> address option \<Rightarrow> (sdk_error, Instruction) result" where
  "getFreezeVaultInstruction env owner vault tokenProgram =
     sigil_instruction env FREEZE_VAULT_DISCRIMINATOR
       []
       [(owner, True, False),
        (vault, False, True),
        (or_account tokenProgram TOKEN_PROGRAM_ADDRESS, False, False)]"

definition REACTIVATE_VAULT_DISCRIMINATOR :: bytes where
  "REACTIVATE_VAULT_DISCRIMINATOR = [245, 50, 143, 70, 114, 220, 25, 251]"

definition getReactivateVaultInstruction ::
  "dash_codec \<Rightarrow> address \<Rightarrow> address \<Rightarrow> address option \<Rightarrow> int option \<Rightarrow> (sdk_error, Instruction) result" where
  "getReactivateVaultInstruction env owner vault newAgent newAgentCapability =
     sigil_instruction env REACTIVATE_VAULT_DISCRIMINATOR
       [encode_option env (Inr \<circ> bv_enc (bx_codec env)) newAgent,
        encode_option env (bw_u8 (bx_codec env)) newAgentCapability]
       [(owner, True, False),
        (vault, False, True)]"

definition CLOSE_VAULT_DISCRIMINATOR :: bytes where
  "CLOSE_VAULT_DISCRIMINATOR = [141, 103, 17, 126, 72, 75, 29, 29]"

definition getCloseVaultInstructionAsync ::
  "dash_codec \<Rightarrow> address \<Rightarrow> address \<Rightarrow> address option \<Rightarrow> address option \<Rightarrow> address \<Rightarrow> address option \<Rightarrow> (sdk_error, Instruction) result" where
  "getCloseVaultInstructionAsync env owner vault policy tracker agentSpendOverlay systemProgram =
     sigil_instruction env CLOSE_VAULT_DISCRIMINATOR
       []
       [(owner, True, True),
        (vault, False, True),
        (or_account policy (derived env [seedString ''policy'', bv_enc (bx_codec env) vault]), False, True),
        (or_account tracker (derived env [seedString ''tracker'', bv_enc (bx_codec env) vault]), False, True),
        (agentSpendOverlay, False, True),
        (or_account systemProgram SYSTEM_PROGRAM_ADDRESS, False, False)]"

definition PAUSE_AGENT_DISCRIMINATOR :: bytes where
  "PAUSE_AGENT_DISCRIMINATOR = [148, 32, 1, 26, 147, 122, 178, 140]"

definition getPauseAgentInstruction ::
  "dash_codec \<Rightarrow> address \<Rightarrow> address \<Rightarrow> address \<Rightarrow> (sdk_error, Instruction) result" where
  "getPauseAgentInstruction env owner vault agentToPause =
     sigil_instruction env PAUSE_AGENT_DISCRIMINATOR
       [Inr (bv_enc (bx_codec env) agentToPause)]
       [(owner, True, False),
        (vault, False, True)]"

definition UNPAUSE_AGENT_DISCRIMINATOR :: bytes where
  "UNPAUSE_AGENT_DISCRIMINATOR = [46, 125, 165, 212, 241, 143, 190, 95]"

definition getUnpauseAgentInstruction ::
  "dash_codec \<Rightarrow> address \<Rightarrow> address \<Rightarrow> address \<Rightarrow> (sdk_error, Instruction) result" where
  "getUnpauseAgentInstruction env owner vault agentToUnpause =
     sigil_instruction env UNPAUSE_AGENT_DISCRIMINATOR
       [Inr (bv_enc (bx_codec env) agentToUnpause)]
       [(owner, True, False),
        (vault, False, True)]"

definition REVOKE_AGENT_DISCRIMINATOR :: bytes where
  "REVOKE_AGENT_DISCRIMINATOR = [227, 60, 209, 125, 240, 117, 163, 73]"

definition getRevokeAgentInstruction ::
  "dash_codec \<Rightarrow> address \<Rightarrow> address \<Rightarrow> address \<Rightarrow> address \<Rightarrow> (sdk_error, Instruction) result" where
  "getRevokeAgentInstruction env owner vault agentSpendOverlay agentToRemove =
     sigil_instruction env REVOKE_AGENT_DISCRIMINATOR
       [Inr (bv_enc (bx_codec env) agentToRemove)]
       [(owner, True, False),
        (vault, False, True),
        (agentSpendOverlay, False, True)]"

definition DEPOSIT_FUNDS_DISCRIMINATOR :: bytes where
  "DEPOSIT_FUNDS_DISCRIMINATOR = [202, 39, 52, 211, 53, 20, 250, 88]"

definition getDepositFundsInstructionAsync ::
  "dash_codec \<Rightarrow> address \<Rightarrow> address \<Rightarrow> address \<Rightarrow> address option \<Rightarrow> address option \<Rightarrow> address option \<Rightarrow> address option \<Rightarrow> address option \<Rightarrow> int \<Rightarrow> (sdk_error, Instruction) result" where
  "getDepositFundsInstructionAsync env owner vault mint ownerTokenAccount vaultTokenAccount tokenProgram associatedTokenProgram systemProgram amount =
     sigil_instruction env DEPOSIT_FUNDS_DISCRIMINATOR
       [bv_u64 (bx_codec env) amount]
       [(owner, True, True),
        (vault, False, True),
        (mint, False, False),
        (or_account ownerTokenAccount (derived_at env ATA_PROGRAM_ADDRESS [bv_enc (bx_codec env) owner, TOKEN_PROGRAM_SEED, bv_enc (bx_codec env) mint]), False, True),
        (or_account vaultTokenAccount (derived_at env ATA_PROGRAM_ADDRESS [bv_enc (bx_codec env) vault, TOKEN_PROGRAM_SEED, bv_enc (bx_codec env) mint]), False, True),
        (or_account tokenProgram TOKEN_PROGRAM_ADDRESS, False, False),
        (or_account associatedTokenProgram ATA_PROGRAM_ADDRESS, False, False),
        (or_account systemProgram SYSTEM_PROGRAM_ADDRESS, False, False)]"

definition WITHDRAW_FUNDS_DISCRIMINATOR :: bytes where
  "WITHDRAW_FUNDS_DISCRIMINATOR = [241, 36, 29, 111, 208, 31, 104, 217]"

definition getWithdrawFundsInstructionAsync ::
  "dash_codec \<Rightarrow> address \<Rightarrow> address \<Rightarrow> address \<Rightarrow> address option \<Rightarrow> address option \<Rightarrow> address option \<Rightarrow> int \<Rightarrow> (sdk_error, Instruction) result" where
  "getWithdrawFundsInstructionAsync env owner vault mint vaultTokenAccount ownerTokenAccount tokenProgram amount =
     sigil_instruction env WITHDRAW_FUNDS_DISCRIMINATOR
       [bv_u64 (bx_codec env) amount]
       [(owner, True, True),
        (vault, False, True),
        (mint, False, False),
        (or_account vaultTokenAccount (derived_at env ATA_PROGRAM_ADDRESS [bv_enc (bx_codec env) vault, TOKEN_PROGRAM_SEED, bv_enc (bx_codec env) mint]), False, True),
        (or_account ownerTokenAccount (derived_at env ATA_PROGRAM_ADDRESS [bv_enc (bx_codec env) owner, TOKEN_PROGRAM_SEED, bv_enc (bx_codec env) mint]), False, True),
        (or_account tokenProgram TOKEN_PROGRAM_ADDRESS, False, False)]"

definition QUEUE_POLICY_UPDATE_DISCRIMINATOR :: bytes where
  "QUEUE_POLICY_UPDATE_DISCRIMINATOR = [149, 18, 76, 197, 179, 193, 91, 77]"

definition getQueuePolicyUpdateInstructionAsync ::
  "dash_codec \<Rightarrow> address \<Rightarrow> address \<Rightarrow> address option \<Rightarrow> address option \<Rightarrow> address option \<Rightarrow> QueuePolicyUpdateArgs \<Rightarrow> (sdk_error, Instruction) result" where
  "getQueuePolicyUpdateInstructionAsync env owner vault policy pendingPolicy systemProgram args =
     sigil_instruction env QUEUE_POLICY_UPDATE_DISCRIMINATOR
       [encode_option env (bv_u64 (bx_codec env)) (qp_dailySpendingCapUsd args),
        encode_option env (bv_u64 (bx_codec env)) (qp_maxTransactionAmountUsd args),
        encode_option env (bw_u8 (bx_codec env)) (qp_protocolMode args),
        encode_option env (bw_addresses (bx_codec env)) (qp_protocols args),
        encode_option env (bw_u16 (bx_codec env)) (qp_developerFeeRate args),
        encode_option env (bw_u16 (bx_codec env)) (qp_maxSlippageBps args),
        encode_option env (bv_u64 (bx_codec env)) (qp_timelockDuration args),
        encode_option env (bw_addresses (bx_codec env)) (qp_allowedDestinations args),
        encode_option env (bv_u64 (bx_codec env)) (qp_sessionExpirySeconds args),
        encode_option env (Inr \<circ> bx_bool env) (qp_hasProtocolCaps args),
        encode_option env (bw_u64s (bx_codec env)) (qp_protocolCaps args),
        encode_option env (bw_u8 (bx_codec env)) (qp_destinationMode args)]
       [(owner, True, True),
        (vault, False, False),
        (or_account policy (derived env [seedString ''policy'', bv_enc (bx_codec env) vault]), False, True),
        (or_account pendingPolicy (derived env [seedString ''pending_policy'', bv_enc (bx_codec env) vault]), False, True),
        (or_account systemProgram SYSTEM_PROGRAM_ADDRESS, False, False)]"

definition APPLY_PENDING_POLICY_DISCRIMINATOR :: bytes where
  "APPLY_PENDING_POLICY_DISCRIMINATOR = [114, 212, 19, 227, 89, 199, 74, 62]"

definition getApplyPendingPolicyInstructionAsync ::
  "dash_codec \<Rightarrow> address \<Rightarrow> address \<Rightarrow> address option \<Rightarrow> address option \<Rightarrow> (sdk_error, Instruction) result" where
  "getApplyPendingPolicyInstructionAsync env owner vault policy pendingPolicy =
     sigil_instruction env APPLY_PENDING_POLICY_DISCRIMINATOR
       []
       [(owner, True, True),
        (vault, False, False),
        (or_account policy (derived env [seedString ''policy'', bv_enc (bx_codec env) vault]), False, True),
        (or_account pendingPolicy (derived env [seedString ''pending_policy'', bv_enc (bx_codec env) vault]), False, True)]"

definition CANCEL_PENDING_POLICY_DISCRIMINATOR :: bytes where
  "CANCEL_PENDING_POLICY_DISCRIMINATOR = [153, 36, 104, 200, 50, 94, 207, 33]"

definition getCancelPendingPolicyInstructionAsync ::
  "dash_codec \<Rightarrow> address \<Rightarrow> address \<Rightarrow> address option \<Rightarrow> address option \<Rightarrow> (sdk_error, Instruction) result" where
  "getCancelPendingPolicyInstructionAsync env owner vault policy pendingPolicy =
     sigil_instruction env CANCEL_PENDING_POLICY_DISCRIMINATOR
       []
       [(owner, True, True),
        (vault, False, False),
        (or_account policy (derived env [seedString ''policy'', bv_enc (bx_codec env) vault]), False, True),
        (or_account pendingPolicy (derived env [seedString ''pending_policy'', bv_enc (bx_codec env) vault]), False, True)]"

definition QUEUE_AGENT_PERMISSIONS_UPDATE_DISCRIMINATOR :: bytes where
  "QUEUE_AGENT_PERMISSIONS_UPDATE_DISCRIMINATOR = [182, 37, 105, 181, 28, 195, 223, 167]"

definition getQueueAgentPermissionsUpdateInstructionAsync ::
  "dash_codec \<Rightarrow> address \<Rightarrow> address \<Rightarrow> address option \<Rightarrow> address option \<Rightarrow> address option \<Rightarrow> address \<Rightarrow> int \<Rightarrow> int \<Rightarrow> (sdk_error, Instruction) result" where
  "getQueueAgentPermissionsUpdateInstructionAsync env owner vault policy pendingAgentPerms systemProgram agent newCapability spendingLimitUsd =
     sigil_instruction env QUEUE_AGENT_PERMISSIONS_UPDATE_DISCRIMINATOR
       [Inr (bv_enc (bx_codec env) agent),
        bw_u8 (bx_codec env) newCapability,
        bv_u64 (bx_codec env) spendingLimitUsd]
       [(owner, True, True),
        (vault, False, False),
        (or_account policy (derived env [seedString ''policy'', bv_enc (bx_codec env) vault]), False, False),
        (or_account pendingAgentPerms (derived env [seedString ''pending_agent_perms'', bv_enc (bx_codec env) vault, bv_enc (bx_codec env) agent]), False, True),
        (or_account systemProgram SYSTEM_PROGRAM_ADDRESS, False, False)]"

definition APPLY_AGENT_PERMISSIONS_UPDATE_DISCRIMINATOR :: bytes where
  "APPLY_AGENT_PERMISSIONS_UPDATE_DISCRIMINATOR = [234, 166, 205, 3, 28, 166, 221, 240]"

definition getApplyAgentPermissionsUpdateInstructionAsync ::
  "dash_codec \<Rightarrow> address \<Rightarrow> address \<Rightarrow> address option \<Rightarrow> address \<Rightarrow> address \<Rightarrow> (sdk_error, Instruction) result" where
  "getApplyAgentPermissionsUpdateInstructionAsync env owner vault policy pendingAgentPerms agentSpendOverlay =
     sigil_instruction env APPLY_AGENT_PERMISSIONS_UPDATE_DISCRIMINATOR
       []
       [(owner, True, True),
        (vault, False, True),
        (or_account policy (derived env [seedString ''policy'', bv_enc (bx_codec env) vault]), False, True),
        (pendingAgentPerms, False, True),
        (agentSpendOverlay, False, True)]"

definition CANCEL_AGENT_PERMISSIONS_UPDATE_DISCRIMINATOR :: bytes where
  "CANCEL_AGENT_PERMISSIONS_UPDATE_DISCRIMINATOR = [92, 232, 92, 115, 110, 238, 235, 55]"

definition getCancelAgentPermissionsUpdateInstruction ::
  "dash_codec \<Rightarrow> address \<Rightarrow> address \<Rightarrow> address \<Rightarrow> (sdk_error, Instruction) result" where
  "getCancelAgentPermissionsUpdateInstruction env owner vault pendingAgentPerms =
     sigil_instruction env CANCEL_AGENT_PERMISSIONS_UPDATE_DISCRIMINATOR
       []
       [(owner, True, True),
        (vault, False, False),
        (pendingAgentPerms, False, True)]"

definition APPLY_CONSTRAINTS_UPDATE_DISCRIMINATOR :: bytes where
  "APPLY_CONSTRAINTS_UPDATE_DISCRIMINATOR = [175, 103, 90, 155, 134, 91, 135, 242]"

definition getApplyConstraintsUpdateInstructionAsync ::
  "dash_codec \<Rightarrow> address \<Rightarrow> address \<Rightarrow> address option \<Rightarrow> address option \<Rightarrow> address option \<Rightarrow> (sdk_error, Instruction) result" where
  "getApplyConstraintsUpdateInstructionAsync env owner vault policy constraints pendingConstraints =
     sigil_instruction env APPLY_CONSTRAINTS_UPDATE_DISCRIMINATOR
       []
       [(owner, True, True),
        (vault, False, False),
        (or_account policy (derived env [seedString ''policy'', bv_enc (bx_codec env) vault]), False, True),
        (or_account constraints (derived env [seedString ''constraints'', bv_enc (bx_codec env) vault]), False, True),
        (or_account pendingConstraints (derived env [seedString ''pending_constraints'', bv_enc (bx_codec env) vault]), False, True)]"

definition CANCEL_CONSTRAINTS_UPDATE_DISCRIMINATOR :: bytes where
  "CANCEL_CONSTRAINTS_UPDATE_DISCRIMINATOR = [169, 121, 85, 230, 154, 2, 78, 61]"

definition getCancelConstraintsUpdateInstructionAsync ::
  "dash_codec \<Rightarrow> address \<Rightarrow> address \<Rightarrow> address option \<Rightarrow> (sdk_error, Instruction) result" where
  "getCancelConstraintsUpdateInstructionAsync env owner vault pendingConstraints =
     sigil_instruction env CANCEL_CONSTRAINTS_UPDATE_DISCRIMINATOR
       []
       [(owner, True, True),
        (vault, False, False),
        (or_account pendingConstraints (derived env [seedString ''pending_constraints'', bv_enc (bx_codec env) vault]), False, True)]"

definition QUEUE_CLOSE_CONSTRAINTS_DISCRIMINATOR :: bytes where
  "QUEUE_CLOSE_CONSTRAINTS_DISCRIMINATOR = [248, 124, 93, 115, 195, 88, 11, 109]"

definition getQueueCloseConstraintsInstructionAsync ::
  "dash_codec \<Rightarrow> address \<Rightarrow> address \<Rightarrow> address option \<Rightarrow> address option \<Rightarrow> address option \<Rightarrow> address option \<Rightarrow> (sdk_error, Instruction) result" where
  "getQueueCloseConstraintsInstructionAsync env owner vault policy constraints pendingCloseConstraints systemProgram =
     sigil_instruction env QUEUE_CLOSE_CONSTRAINTS_DISCRIMINATOR
       []
       [(owner, True, True),
        (vault, False, False),
        (or_account policy (derived env [seedString ''policy'', bv_enc (bx_codec env) vault]), False, False),
        (or_account constraints (derived env [seedString ''constraints'', bv_enc (bx_codec env) vault]), False, False),
        (or_account pendingCloseConstraints (derived env [seedString ''pending_close_constraints'', bv_enc (bx_codec env) vault]), False, True),
        (or_account systemProgram SYSTEM_PROGRAM_ADDRESS, False, False)]"

definition APPLY_CLOSE_CONSTRAINTS_DISCRIMINATOR :: bytes where
  "APPLY_CLOSE_CONSTRAINTS_DISCRIMINATOR = [133, 184, 235, 88, 53, 237, 43, 145]"

definition getApplyCloseConstraintsInstructionAsync ::
  "dash_codec \<Rightarrow> address \<Rightarrow> address \<Rightarrow> address option \<Rightarrow> address option \<Rightarrow> address option \<Rightarrow> (sdk_error, Instruction) result" where
  "getApplyCloseConstraintsInstructionAsync env owner vault policy constraints pendingCloseConstraints =
     sigil_instruction env APPLY_CLOSE_CONSTRAINTS_DISCRIMINATOR
       []
       [(owner, True, True),
        (vault, False, False),
        (or_account policy (derived env [seedString ''policy'', bv_enc (bx_codec env) vault]), False, True),
        (or_account constraints (derived env [seedString ''constraints'', bv_enc (bx_codec env) vault]), False, True),
        (or_account pendingCloseConstraints (derived env [seedString ''pending_close_constraints'', bv_enc (bx_codec env) vault]), False, True)]"

definition CANCEL_CLOSE_CONSTRAINTS_DISCRIMINATOR :: bytes where
  "CANCEL_CLOSE_CONSTRAINTS_DISCRIMINATOR = [150, 125, 186, 114, 40, 105, 237, 184]"

definition getCancelCloseConstraintsInstructionAsync ::
  "dash_codec \<Rightarrow> address \<Rightarrow> address \<Rightarrow> address option \<Rightarrow> (sdk_error, Instruction) result" where
  "getCancelCloseConstraintsInstructionAsync env owner vault pendingCloseConstraints =
     sigil_instruction env CANCEL_CLOSE_CONSTRAINTS_DISCRIMINATOR
       []
       [(owner, True, True),
        (vault, False, False),
        (or_account pendingCloseConstraints (derived env [seedString ''pending_close_constraints'', bv_enc (bx_codec env) vault]), False, True)]"

definition CREATE_POST_ASSERTIONS_DISCRIMINATOR :: bytes where
  "CREATE_POST_ASSERTIONS_DISCRIMINATOR = [204, 21, 218, 182, 202, 140, 239, 63]"

definition getCreatePostAssertionsInstructionAsync ::
  "dash_codec \<Rightarrow> address \<Rightarrow> address \<Rightarrow> address option \<Rightarrow> address option \<Rightarrow> address option \<Rightarrow> PostAssertionEntry list \<Rightarrow> (sdk_error, Instruction) result" where
  "getCreatePostAssertionsInstructionAsync env owner vault policy postAssertions systemProgram entries =
     sigil_instruction env CREATE_POST_ASSERTIONS_DISCRIMINATOR
       [encode_array env (encode_PostAssertionEntry env) entries]
       [(owner, True, True),
        (vault, False, True),
        (or_account policy (derived env [seedString ''policy'', bv_enc (bx_codec env) vault]), False, True),
        (or_account postAssertions (derived env [seedString ''post_assertions'', bv_enc (bx_codec env) vault]), False, True),
        (or_account systemProgram SYSTEM_PROGRAM_ADDRESS, False, False)]"

definition CLOSE_POST_ASSERTIONS_DISCRIMINATOR :: bytes where
  "CLOSE_POST_ASSERTIONS_DISCRIMINATOR = [226, 172, 252, 173, 29, 236, 59, 248]"

definition getClosePostAssertionsInstructionAsync ::
  "dash_codec \<Rightarrow> address \<Rightarrow> address \<Rightarrow> address option \<Rightarrow> address option \<Rightarrow> address option \<Rightarrow> (sdk_error, Instruction) result" where
  "getClosePostAssertionsInstructionAsync env owner vault policy postAssertions systemProgram =
     sigil_instruction env CLOSE_POST_ASSERTIONS_DISCRIMINATOR
       []
       [(owner, True, True),
        (vault, False, True),
        (or_account policy (derived env [seedString ''policy'', bv_enc (bx_codec env) vault]), False, True),
        (or_account postAssertions (derived env [seedString ''post_assertions'', bv_enc (bx_codec env) vault]), False, True),
        (or_account systemProgram SYSTEM_PROGRAM_ADDRESS, False, False)]"

definition ALLOCATE_CONSTRAINTS_PDA_DISCRIMINATOR :: bytes where
  "ALLOCATE_CONSTRAINTS_PDA_DISCRIMINATOR = [55, 127, 43, 98, 168, 156, 152, 157]"

definition getAllocateConstraintsPdaInstructionAsync ::
  "dash_codec \<Rightarrow> address \<Rightarrow> address \<Rightarrow> address option \<Rightarrow> address option \<Rightarrow> address option \<Rightarrow> (sdk_error, Instruction) result" where
  "getAllocateConstraintsPdaInstructionAsync env owner vault policy constraints systemProgram =
     sigil_instruction env ALLOCATE_CONSTRAINTS_PDA_DISCRIMINATOR
       []
       [(owner, True, True),
        (vault, False, False),
        (or_account policy (derived env [seedString ''policy'', bv_enc (bx_codec env) vault]), False, False),
        (or_account constraints (derived env [seedString ''constraints'', bv_enc (bx_codec env) vault]), False, True),
        (or_account systemProgram SYSTEM_PROGRAM_ADDRESS, False, False)]"

definition ALLOCATE_PENDING_CONSTRAINTS_PDA_DISCRIMINATOR :: bytes where
  "ALLOCATE_PENDING_CONSTRAINTS_PDA_DISCRIMINATOR = [211, 244, 224, 20, 224, 183, 236, 165]"

definition getAllocatePendingConstraintsPdaInstructionAsync ::
  "dash_codec \<Rightarrow> address \<Rightarrow> address \<Rightarrow> address option \<Rightarrow> address option \<Rightarrow> address option \<Rightarrow> address option \<Rightarrow> (sdk_error, Instruction) result" where
  "getAllocatePendingConstraintsPdaInstructionAsync env owner vault policy constraints pendingConstraints systemProgram =
     sigil_instruction env ALLOCATE_PENDING_CONSTRAINTS_PDA_DISCRIMINATOR
       []
       [(owner, True, True),
        (vault, False, False),
        (or_account policy (derived env [seedString ''policy'', bv_enc (bx_codec env) vault]), False, False),
        (or_account constraints (derived env [seedString ''constraints'', bv_enc (bx_codec env) vault]), False, False),
        (or_account pendingConstraints (derived env [seedString ''pending_constraints'', bv_enc (bx_codec env) vault]), False, True),
        (or_account systemProgram SYSTEM_PROGRAM_ADDRESS, False, False)]"

definition CREATE_INSTRUCTION_CONSTRAINTS_DISCRIMINATOR :: bytes where
  "CREATE_INSTRUCTION_CONSTRAINTS_DISCRIMINATOR = [13, 182, 97, 5, 57, 136, 26, 152]"

definition getCreateInstructionConstraintsInstructionAsync ::
  "dash_codec \<Rightarrow> address \<Rightarrow> address \<Rightarrow> address option \<Rightarrow> address option \<Rightarrow> ConstraintEntry list \<Rightarrow> bool \<Rightarrow> (sdk_error, Instruction) result" where
  "getCreateInstructionConstraintsInstructionAsync env owner vault policy constraints entries strictMode =
     sigil_instruction env CREATE_INSTRUCTION_CONSTRAINTS_DISCRIMINATOR
       [encode_array env (encode_ConstraintEntry env) entries,
        Inr (bx_bool env strictMode)]
       [(owner, True, True),
        (vault, False, False),
        (or_account policy (derived env [seedString ''policy'', bv_enc (bx_codec env) vault]), False, True),
        (or_account constraints (derived env [seedString ''constraints'', bv_enc (bx_codec env) vault]), False, True)]"

definition EXTEND_PDA_DISCRIMINATOR :: bytes where
  "EXTEND_PDA_DISCRIMINATOR = [13, 211, 140, 90, 104, 28, 141, 200]"

definition getExtendPdaInstruction ::
  "dash_codec \<Rightarrow> address \<Rightarrow> address \<Rightarrow> address \<Rightarrow> address option \<Rightarrow> int \<Rightarrow> (sdk_error, Instruction) result" where
  "getExtendPdaInstruction env owner vault pda systemProgram targetSize =
     sigil_instruction env EXTEND_PDA_DISCRIMINATOR
       [bx_u32 env targetSize]
       [(owner, True, True),
        (vault, False, False),
        (pda, False, True),
        (or_account systemProgram SYSTEM_PROGRAM_ADDRESS, False, False)]"

definition QUEUE_CONSTRAINTS_UPDATE_DISCRIMINATOR :: bytes where
  "QUEUE_CONSTRAINTS_UPDATE_DISCRIMINATOR = [247, 253, 233, 93, 233, 54, 53, 131]"

definition getQueueConstraintsUpdateInstructionAsync ::
  "dash_codec \<Rightarrow> address \<Rightarrow> address \<Rightarrow> address option \<Rightarrow> address option \<Rightarrow> address option \<Rightarrow> ConstraintEntry list \<Rightarrow> bool \<Rightarrow> (sdk_error, Instruction) result" where
  "getQueueConstraintsUpdateInstructionAsync env owner vault policy constraints pendingConstraints entries strictMode =
     sigil_instruction env QUEUE_CONSTRAINTS_UPDATE_DISCRIMINATOR
       [encode_array env (encode_ConstraintEntry env) entries,
        Inr (bx_bool env strictMode)]
       [(owner, True, True),
        (vault, False, False),
        (or_account policy (derived env [seedString ''policy'', bv_enc (bx_codec env) vault]), False, False),
        (or_account constraints (derived env [seedString ''constraints'', bv_enc (bx_codec env) vault]), False, False),
        (or_account pendingConstraints (derived env [seedString ''pending_constraints'', bv_enc (bx_codec env) vault]), False, True)]"

section \<open>Facts\<close>

lemmas owner_builders =
  getFreezeVaultInstruction_def getReactivateVaultInstruction_def getCloseVaultInstructionAsync_def
  getPauseAgentInstruction_def getUnpauseAgentInstruction_def getRevokeAgentInstruction_def
  getDepositFundsInstructionAsync_def getWithdrawFundsInstructionAsync_def getQueuePolicyUpdateInstructionAsync_def
  getApplyPendingPolicyInstructionAsync_def getCancelPendingPolicyInstructionAsync_def getQueueAgentPermissionsUpdateInstructionAsync_def
  getApplyAgentPermissionsUpdateInstructionAsync_def getCancelAgentPermissionsUpdateInstruction_def getApplyConstraintsUpdateInstructionAsync_def
  getCancelConstraintsUpdateInstructionAsync_def getQueueCloseConstraintsInstructionAsync_def getApplyCloseConstraintsInstructionAsync_def
  getCancelCloseConstraintsInstructionAsync_def getCreatePostAssertionsInstructionAsync_def getClosePostAssertionsInstructionAsync_def
  getAllocateConstraintsPdaInstructionAsync_def getAllocatePendingConstraintsPdaInstructionAsync_def getCreateInstructionConstraintsInstructionAsync_def
  getExtendPdaInstruction_def getQueueConstraintsUpdateInstructionAsync_def

lemma sigil_instruction_program [simp]:
  "sigil_instruction env d arguments accounts = Inr ix \<Longrightarrow> ix_programAddress ix = SIGIL_PROGRAM_ADDRESS"
  by (auto simp: sigil_instruction_def)

lemma sigil_instruction_accounts:
  "sigil_instruction env d arguments accounts = Inr ix \<Longrightarrow>
     ix_accounts ix = Some (map (\<lambda>(a, signer, writable). bv_meta (bx_codec env) (Some a) signer writable) accounts)"
  by (auto simp: sigil_instruction_def)

end
