(* ===== verification/ConstraintBuilders.thy ===== *)
theory ConstraintBuilders
  imports DashboardInstructions
begin

text \<open>
  The instruction chains of \<open>sdk/kit/src/dashboard/constraint-builders.ts\<close> and the address helpers of
  \<open>sdk/kit/src/dashboard/constraint-reads.ts\<close>, against the size guards of the on-chain handlers they
  have to satisfy (\<open>allocate_constraints_pda.rs\<close>, \<open>allocate_pending_constraints_pda.rs\<close>,
  \<open>extend_pda.rs\<close>, and the size tests of \<open>create_instruction_constraints.rs\<close> and
  \<open>queue_constraints_update.rs\<close>). An allocated account is given by its size: the chain starts from an
  account that does not exist, so its discriminator is zero and its vault field is the one the
  allocation wrote.
\<close>

section \<open>constraint-reads.ts\<close>

definition findConstraintsPda :: "dash_codec \<Rightarrow> address \<Rightarrow> address" where
  "findConstraintsPda env vault = derived env [seedString ''constraints'', bv_enc (bx_codec env) vault]"

definition findPendingConstraintsPda :: "dash_codec \<Rightarrow> address \<Rightarrow> address" where
  "findPendingConstraintsPda env vault = derived env [seedString ''pending_constraints'', bv_enc (bx_codec env) vault]"

definition findPendingCloseConstraintsPda :: "dash_codec \<Rightarrow> address \<Rightarrow> address" where
  "findPendingCloseConstraintsPda env vault =
     derived env [seedString ''pending_close_constraints'', bv_enc (bx_codec env) vault]"

text \<open>
  What \<open>getAccountInfo\<close> answers: no account, or the \<open>data\<close> field, whose first element is a string when
  the node honours the encoding. \<open>Buffer.from(s, "base64")\<close> never throws; \<open>from64\<close> stands for it.
\<close>

record ConstraintsPdaInfo =
  cpi_exists :: bool
  cpi_data :: "bytes option"
  cpi_address :: address

definition constraints_info :: "(string \<Rightarrow> bytes) \<Rightarrow> (js_error, string option option) result \<Rightarrow> address \<Rightarrow> (sdk_error, ConstraintsPdaInfo) result" where
  "constraints_info from64 answer pda =
     rbind (lift_err answer) (\<lambda>accountInfo.
       case accountInfo of
         None \<Rightarrow> Inr \<lparr>cpi_exists = False, cpi_data = None, cpi_address = pda\<rparr>
       | Some (Some raw) \<Rightarrow> Inr \<lparr>cpi_exists = True, cpi_data = Some (from64 raw), cpi_address = pda\<rparr>
       | Some None \<Rightarrow> Inr \<lparr>cpi_exists = True, cpi_data = None, cpi_address = pda\<rparr>)"

definition fetchConstraints ::
  "dash_codec \<Rightarrow> (string \<Rightarrow> bytes) \<Rightarrow> (address \<Rightarrow> (js_error, string option option) result) \<Rightarrow> address
    \<Rightarrow> (sdk_error, ConstraintsPdaInfo) result" where
  "fetchConstraints env from64 getAccountInfo vault =
     constraints_info from64 (getAccountInfo (findConstraintsPda env vault)) (findConstraintsPda env vault)"

definition fetchPendingConstraintsUpdate ::
  "dash_codec \<Rightarrow> (string \<Rightarrow> bytes) \<Rightarrow> (address \<Rightarrow> (js_error, string option option) result) \<Rightarrow> address
    \<Rightarrow> (sdk_error, ConstraintsPdaInfo) result" where
  "fetchPendingConstraintsUpdate env from64 getAccountInfo vault =
     constraints_info from64 (getAccountInfo (findPendingConstraintsPda env vault)) (findPendingConstraintsPda env vault)"

definition fetchPendingCloseConstraints ::
  "dash_codec \<Rightarrow> (string \<Rightarrow> bytes) \<Rightarrow> (address \<Rightarrow> (js_error, string option option) result) \<Rightarrow> address
    \<Rightarrow> (sdk_error, ConstraintsPdaInfo) result" where
  "fetchPendingCloseConstraints env from64 getAccountInfo vault =
     constraints_info from64 (getAccountInfo (findPendingCloseConstraintsPda env vault)) (findPendingCloseConstraintsPda env vault)"

section \<open>constraint-builders.ts\<close>

definition CONSTRAINTS_SIZE :: int where "CONSTRAINTS_SIZE = 35888"
definition PENDING_CONSTRAINTS_SIZE :: int where "PENDING_CONSTRAINTS_SIZE = 35904"
definition MAX_CPI_ACCOUNT_SIZE :: int where "MAX_CPI_ACCOUNT_SIZE = 10240"

text \<open>The loop of \<open>extendSteps\<close> from the current size.\<close>

function extend_loop :: "int \<Rightarrow> int \<Rightarrow> int list" where
  "extend_loop fullSize current =
     (if current < fullSize
      then let grown = min (current + MAX_CPI_ACCOUNT_SIZE) fullSize in grown # extend_loop fullSize grown
      else [])"
  by pat_completeness auto
termination
  by (relation "measure (\<lambda>(fullSize, current). nat (fullSize - current))") (auto simp: MAX_CPI_ACCOUNT_SIZE_def)

declare extend_loop.simps [simp del]

definition extendSteps :: "int \<Rightarrow> int list" where
  "extendSteps fullSize = extend_loop fullSize MAX_CPI_ACCOUNT_SIZE"

definition stub_blockhash :: Blockhash where
  "stub_blockhash = \<lparr>bh_blockhash = ''11111111111111111111111111111111'', bh_lastValidBlockHeight = 0\<rparr>"

definition assertWithinTxSize :: "('m, 'tx) compose_env \<Rightarrow> address \<Rightarrow> Instruction list \<Rightarrow> (sdk_error, unit) result" where
  "assertWithinTxSize env owner instructions =
     (let compiled = cp_compile env (cp_message env
            \<lparr>tm_version = 0, tm_feePayer = owner, tm_lifetime = stub_blockhash, tm_instructions = instructions\<rparr>);
          measured = measureTransactionSize env compiled
      in if \<not> sz_withinLimit measured then Inl (RPC_TX_TOO_LARGE (sz_byteLength measured) MAX_TX_SIZE) else Inr ())"

record BuildCreateConstraintsInput =
  bc_owner :: address
  bc_vault :: address
  bc_policy :: address
  bc_entries :: "ConstraintEntry list option"
  bc_strictMode :: bool

definition no_entries :: "'a list option \<Rightarrow> bool" where
  "no_entries entries \<longleftrightarrow> entries = None \<or> entries = Some []"

definition buildCreateConstraintsIxs ::
  "('m, 'tx) compose_env \<Rightarrow> dash_codec \<Rightarrow> BuildCreateConstraintsInput \<Rightarrow> (sdk_error, Instruction list) result" where
  "buildCreateConstraintsIxs cenv env input =
     (let owner = bc_owner input; vault = bc_vault input; policy = bc_policy input
      in if no_entries (bc_entries input) then Inl (PLAIN_ERROR ''Constraint entries must be a non-empty array'')
         else
           let constraintsPda = findConstraintsPda env vault
           in rbind (getAllocateConstraintsPdaInstructionAsync env owner vault (Some policy) (Some constraintsPda) None) (\<lambda>allocateIx.
              rbind (rmap (getExtendPdaInstruction env owner vault constraintsPda None) (extendSteps CONSTRAINTS_SIZE)) (\<lambda>extendIxs.
              rbind (getCreateInstructionConstraintsInstructionAsync env owner vault (Some policy) (Some constraintsPda)
                       (the (bc_entries input)) (bc_strictMode input)) (\<lambda>populateIx.
              let ixs = [allocateIx] @ extendIxs @ [populateIx]
              in rbind (assertWithinTxSize cenv owner ixs) (\<lambda>_. Inr ixs)))))"

definition buildQueueConstraintsUpdateIxs ::
  "('m, 'tx) compose_env \<Rightarrow> dash_codec \<Rightarrow> BuildCreateConstraintsInput \<Rightarrow> (sdk_error, Instruction list) result" where
  "buildQueueConstraintsUpdateIxs cenv env input =
     (let owner = bc_owner input; vault = bc_vault input; policy = bc_policy input
      in if no_entries (bc_entries input) then Inl (PLAIN_ERROR ''Constraint entries must be a non-empty array'')
         else
           let constraintsPda = findConstraintsPda env vault; pendingConstraintsPda = findPendingConstraintsPda env vault
           in rbind (getAllocatePendingConstraintsPdaInstructionAsync env owner vault (Some policy) (Some constraintsPda)
                       (Some pendingConstraintsPda) None) (\<lambda>allocateIx.
              rbind (rmap (getExtendPdaInstruction env owner vault pendingConstraintsPda None)
                       (extendSteps PENDING_CONSTRAINTS_SIZE)) (\<lambda>extendIxs.
              rbind (getQueueConstraintsUpdateInstructionAsync env owner vault (Some policy) (Some constraintsPda)
                       (Some pendingConstraintsPda) (the (bc_entries input)) (bc_strictMode input)) (\<lambda>populateIx.
              let ixs = [allocateIx] @ extendIxs @ [populateIx]
              in rbind (assertWithinTxSize cenv owner ixs) (\<lambda>_. Inr ixs)))))"

section \<open>The on-chain size guards\<close>

definition MAX_CONSTRAINT_ENTRIES :: int where "MAX_CONSTRAINT_ENTRIES = 64"

definition InstructionConstraints_SIZE :: int where
  "InstructionConstraints_SIZE = 8 + 32 + (560 * MAX_CONSTRAINT_ENTRIES) + 1 + 1 + 1 + 1 + 4"

definition PendingConstraintsUpdate_SIZE :: int where
  "PendingConstraintsUpdate_SIZE = 8 + 32 + (560 * MAX_CONSTRAINT_ENTRIES) + 1 + 1 + 1 + 5 + 8 + 8 + 8"

text \<open>The program's errors these handlers raise.\<close>

datatype pda_error = Pda_InvalidConstraintConfig | Pda_InvalidConstraintsPda | Pda_InvalidPendingConstraintsPda

text \<open>The handlers on the size of the account: \<open>extend_pda\<close> reallocates to the target.\<close>

definition extend_pda :: "int \<Rightarrow> int \<Rightarrow> (pda_error, int) result" where
  "extend_pda current_size target =
     (if \<not> target \<le> 35912 then Inl Pda_InvalidConstraintConfig
      else if \<not> target > current_size then Inl Pda_InvalidConstraintConfig
      else if \<not> max 0 (target - current_size) \<le> 10240 then Inl Pda_InvalidConstraintConfig
      else Inr target)"

fun extend_all :: "int \<Rightarrow> int list \<Rightarrow> (pda_error, int) result" where
  "extend_all size_now [] = Inr size_now"
| "extend_all size_now (t # ts) = rbind (extend_pda size_now t) (\<lambda>s. extend_all s ts)"

definition populate_constraints :: "int \<Rightarrow> (pda_error, unit) result" where
  "populate_constraints data_len = (if data_len = InstructionConstraints_SIZE then Inr () else Inl Pda_InvalidConstraintsPda)"

definition populate_pending :: "int \<Rightarrow> (pda_error, unit) result" where
  "populate_pending data_len = (if data_len = PendingConstraintsUpdate_SIZE then Inr () else Inl Pda_InvalidPendingConstraintsPda)"

text \<open>A whole chain: allocation at 10,240 bytes, the extensions, and the size test of the populating handler.\<close>

definition run_create_chain :: "int list \<Rightarrow> (pda_error, unit) result" where
  "run_create_chain targets = rbind (extend_all 10240 targets) populate_constraints"

definition run_queue_chain :: "int list \<Rightarrow> (pda_error, unit) result" where
  "run_queue_chain targets = rbind (extend_all 10240 targets) populate_pending"

section \<open>Properties\<close>

lemma extend_loop_accepted:
  assumes "current \<le> fullSize" "fullSize \<le> 35912"
  shows "extend_all current (extend_loop fullSize current) = Inr fullSize"
  using assms
proof (induction fullSize current rule: extend_loop.induct)
  case (1 fullSize current)
  show ?case
  proof (cases "current < fullSize")
    case True
    define grown where "grown = min (current + MAX_CPI_ACCOUNT_SIZE) fullSize"
    have n: "current < grown" "grown \<le> fullSize" "grown - current \<le> 10240"
      using True by (auto simp: grown_def MAX_CPI_ACCOUNT_SIZE_def)
    have "extend_pda current grown = Inr grown" using n 1(3) by (simp add: extend_pda_def)
    moreover have "extend_all grown (extend_loop fullSize grown) = Inr fullSize"
      using 1(1) [OF True refl] n(2) 1(3) by (simp add: grown_def)
    ultimately show ?thesis by (subst extend_loop.simps) (simp add: True Let_def flip: grown_def)
  next
    case False
    then show ?thesis using 1(2) by (subst extend_loop.simps) simp
  qed
qed

text \<open>
  C32. The allocation chains against the program. Every extension the builders emit, for any full size
  between 10,240 and 35,912 bytes, passes the guards of \<open>extend_pda\<close> and the last one reaches that
  size; the create chain then satisfies the size test of \<open>create_instruction_constraints\<close>, but the
  queue chain stops at 35,904 bytes where the program's \<open>PendingConstraintsUpdate\<close> has 35,912: queueing
  a constraints update through the dashboard always ends in \<open>InvalidPendingConstraintsPda\<close>.
\<close>
theorem constraint_chain_sizes:
  "(10240 \<le> fullSize \<and> fullSize \<le> 35912 \<longrightarrow> extend_all 10240 (extendSteps fullSize) = Inr fullSize)
   \<and> run_create_chain (extendSteps CONSTRAINTS_SIZE) = Inr ()
   \<and> run_queue_chain (extendSteps PENDING_CONSTRAINTS_SIZE) = Inl Pda_InvalidPendingConstraintsPda
   \<and> run_queue_chain (extendSteps PendingConstraintsUpdate_SIZE) = Inr ()"
proof -
  have c: "extend_all 10240 (extendSteps fullSize) = Inr fullSize" if "10240 \<le> fullSize" "fullSize \<le> 35912" for fullSize
    unfolding extendSteps_def using extend_loop_accepted [of 10240 fullSize] that by (simp add: MAX_CPI_ACCOUNT_SIZE_def)
  show ?thesis
    using c [of fullSize] c [of 35888] c [of 35904] c [of 35912]
    by (simp add: run_create_chain_def run_queue_chain_def CONSTRAINTS_SIZE_def PENDING_CONSTRAINTS_SIZE_def
        PendingConstraintsUpdate_SIZE_def InstructionConstraints_SIZE_def MAX_CONSTRAINT_ENTRIES_def
        populate_constraints_def populate_pending_def)
qed

theorem constraint_chain_sizes_witness: "extend_all 10240 (extendSteps 20000) = Inr 20000"
  using constraint_chain_sizes [of 20000] by simp

lemma extend_steps_values:
  "extendSteps CONSTRAINTS_SIZE = [20480, 30720, 35888]" "extendSteps PENDING_CONSTRAINTS_SIZE = [20480, 30720, 35904]"
  by (simp_all add: extendSteps_def CONSTRAINTS_SIZE_def PENDING_CONSTRAINTS_SIZE_def MAX_CPI_ACCOUNT_SIZE_def
      extend_loop.simps)

end
