(* ===== verification/ErrorTables.thy ===== *)
theory ErrorTables
  imports SdkTypes
begin

text \<open>
  The error tables of \<open>sdk/kit/src/agent-errors.ts\<close>: one definition per entry of \<open>ON_CHAIN_ERROR_MAP\<close>
  and \<open>SDK_ERRORS\<close>, the numeric codes of \<open>SDK_ERROR_CODES\<close>, and the variants of the on-chain
  program's \<open>SigilError\<close> enum (\<open>programs/sigil/src/errors.rs\<close>) the first table mirrors. The texts
  are kept in UTF-8, with the em dash as a definition of its own. The facts at the end are about the
  tables as a whole: they are complete, their names are distinct, and a delay is given only to errors
  that may be retried.
\<close>

datatype ErrorCategory =
    INPUT_VALIDATION
  | TRANSIENT
  | RATE_LIMIT
  | PERMISSION
  | RESOURCE_NOT_FOUND
  | SPENDING_CAP
  | POLICY_VIOLATION
  | PROTOCOL_NOT_SUPPORTED
  | ESCALATION_REQUIRED
  | FATAL

record RecoveryAction =
  ra_action :: string
  ra_description :: string
  ra_tool :: "string option"

record ErrorMapping =
  em_name :: string
  em_message :: string
  em_category :: ErrorCategory
  em_retryable :: bool
  em_retry_after_ms :: "int option"
  em_recovery_actions :: "RecoveryAction list"

definition recovery :: "string \<Rightarrow> string \<Rightarrow> string option \<Rightarrow> RecoveryAction" where
  "recovery action description tool = \<lparr>ra_action = action, ra_description = description, ra_tool = tool\<rparr>"

definition error_mapping ::
  "string \<Rightarrow> string \<Rightarrow> ErrorCategory \<Rightarrow> bool \<Rightarrow> int option \<Rightarrow> RecoveryAction list \<Rightarrow> ErrorMapping" where
  "error_mapping name message category retryable retry_after_ms recovery_actions =
     \<lparr>em_name = name, em_message = message, em_category = category, em_retryable = retryable,
      em_retry_after_ms = retry_after_ms, em_recovery_actions = recovery_actions\<rparr>"

definition em_dash :: string where
  "em_dash = [CHR 0xE2, CHR 0x80, CHR 0x94]"

section \<open>On-chain errors\<close>

definition on_chain_6000 :: ErrorMapping where
  "on_chain_6000 = error_mapping
     ''VaultNotActive''
     ''Vault is not active''
     RESOURCE_NOT_FOUND False None
    [recovery ''reactivate_vault''
       ''Reactivate the vault if it is frozen'' (Some ''sigil_reactivate_vault''),
     recovery ''create_vault''
       ''Create a new vault if this one is closed'' (Some ''sigil_create_vault'')]"

definition on_chain_6001 :: ErrorMapping where
  "on_chain_6001 = error_mapping
     ''UnauthorizedAgent''
     ''Signer is not a registered agent on this vault''
     PERMISSION False None
    [recovery ''check_agent_registration''
       ''Verify the agent keypair is registered on the target vault'' (Some ''sigil_check_vault''),
     recovery ''register_agent''
       ''Ask the vault owner to register this agent'' (Some ''sigil_register_agent'')]"

definition on_chain_6002 :: ErrorMapping where
  "on_chain_6002 = error_mapping
     ''UnauthorizedOwner''
     ''Signer is not the vault owner''
     PERMISSION False None
    [recovery ''verify_owner''
       ''This operation requires the vault owner's signature'' None]"

definition on_chain_6003 :: ErrorMapping where
  "on_chain_6003 = error_mapping
     ''UnsupportedToken''
     ''Token is not a supported stablecoin (only USDC and USDT)''
     INPUT_VALIDATION False None
    [recovery ''use_stablecoin''
       ''Use USDC or USDT mint address instead'' None]"

definition on_chain_6004 :: ErrorMapping where
  "on_chain_6004 = error_mapping
     ''ProtocolNotAllowed''
     ''Protocol not allowed by vault policy''
     POLICY_VIOLATION False None
    [recovery ''check_policy''
       ''Check which protocols the vault allows'' (Some ''sigil_check_vault''),
     recovery ''change_protocol''
       ''Use a protocol that is on the vault's allowlist'' None]"

definition on_chain_6005 :: ErrorMapping where
  "on_chain_6005 = error_mapping
     ''TransactionTooLarge''
     ''Transaction exceeds maximum single transaction size (USD)''
     SPENDING_CAP False None
    [recovery ''reduce_amount''
       ''Reduce the transaction amount below maxTransactionSizeUsd'' None,
     recovery ''check_limits''
       ''Check the vault's maxTransactionSizeUsd policy'' (Some ''sigil_check_vault'')]"

definition on_chain_6006 :: ErrorMapping where
  "on_chain_6006 = error_mapping
     ''SpendingCapExceeded''
     ''Rolling 24h spending cap would be exceeded''
     SPENDING_CAP True (Some 3600000)
    [recovery ''reduce_amount''
       ''Reduce the amount to fit within remaining daily cap'' None,
     recovery ''check_spending''
       ''Check remaining spending capacity'' (Some ''sigil_check_spending''),
     recovery ''wait''
       ''Wait for the 24h rolling window to release spent capacity'' None]"

definition on_chain_6007 :: ErrorMapping where
  "on_chain_6007 = error_mapping
     ''SessionNotAuthorized''
     ''Session authority not authorized for this action''
     PERMISSION False None
    [recovery ''new_session''
       ''Create a new validate_and_authorize session'' None]"

definition on_chain_6008 :: ErrorMapping where
  "on_chain_6008 = error_mapping
     ''InvalidSession''
     ''Session does not belong to this vault or is invalid''
     PERMISSION False None
    [recovery ''verify_vault''
       ''Ensure the session PDA matches the target vault'' None]"

definition on_chain_6009 :: ErrorMapping where
  "on_chain_6009 = error_mapping
     ''TooManyAllowedProtocols''
     ''Policy configuration has too many allowed protocols (max 10)''
     INPUT_VALIDATION False None
    [recovery ''reduce_protocols''
       ''Reduce the protocol allowlist to 10 or fewer entries'' None]"

definition on_chain_6010 :: ErrorMapping where
  "on_chain_6010 = error_mapping
     ''AgentAlreadyRegistered''
     ''Agent is already registered on this vault''
     INPUT_VALIDATION False None
    [recovery ''check_agents''
       ''Check existing agents on the vault'' (Some ''sigil_check_vault'')]"

definition on_chain_6011 :: ErrorMapping where
  "on_chain_6011 = error_mapping
     ''NoAgentRegistered''
     ''No agent registered on this vault''
     RESOURCE_NOT_FOUND False None
    [recovery ''register_agent''
       ''Register an agent on the vault first'' (Some ''sigil_register_agent'')]"

definition on_chain_6012 :: ErrorMapping where
  "on_chain_6012 = error_mapping
     ''VaultNotFrozen''
     ''Vault is not frozen (expected frozen for reactivation)''
     INPUT_VALIDATION False None
    [recovery ''check_status''
       ''Check the vault's current status'' (Some ''sigil_check_vault'')]"

definition on_chain_6013 :: ErrorMapping where
  "on_chain_6013 = error_mapping
     ''VaultAlreadyClosed''
     ''Vault is permanently closed''
     INPUT_VALIDATION False None
    [recovery ''create_vault''
       (''Create a new vault '' @ em_dash @ '' closed vaults cannot be reopened'') (Some ''sigil_create_vault'')]"

definition on_chain_6014 :: ErrorMapping where
  "on_chain_6014 = error_mapping
     ''InsufficientBalance''
     ''Insufficient vault balance for this operation''
     SPENDING_CAP False None
    [recovery ''reduce_amount''
       ''Reduce the amount to match available balance'' None,
     recovery ''deposit''
       ''Deposit more funds into the vault'' None,
     recovery ''check_balance''
       ''Check vault token balances'' (Some ''sigil_check_vault'')]"

definition on_chain_6015 :: ErrorMapping where
  "on_chain_6015 = error_mapping
     ''DeveloperFeeTooHigh''
     ''Developer fee rate exceeds maximum (500 / 1,000,000 = 5 BPS)''
     INPUT_VALIDATION False None
    [recovery ''reduce_fee''
       ''Set developer_fee_rate to 500 or below'' None]"

definition on_chain_6016 :: ErrorMapping where
  "on_chain_6016 = error_mapping
     ''InvalidFeeDestination''
     ''Fee destination account is invalid''
     INPUT_VALIDATION False None
    [recovery ''verify_fee_destination''
       ''Provide a valid fee destination token account'' None]"

definition on_chain_6017 :: ErrorMapping where
  "on_chain_6017 = error_mapping
     ''InvalidProtocolTreasury''
     ''Protocol treasury account does not match expected address''
     INPUT_VALIDATION False None
    [recovery ''verify_treasury''
       ''Use the correct protocol treasury address'' None]"

definition on_chain_6018 :: ErrorMapping where
  "on_chain_6018 = error_mapping
     ''InvalidAgentKey''
     ''Agent cannot be the zero address''
     INPUT_VALIDATION False None
    [recovery ''provide_valid_agent''
       ''Use a valid non-zero Solana public key for the agent'' None]"

definition on_chain_6019 :: ErrorMapping where
  "on_chain_6019 = error_mapping
     ''AgentIsOwner''
     ''Agent cannot be the vault owner''
     INPUT_VALIDATION False None
    [recovery ''use_different_key''
       ''Use a different keypair for the agent (cannot be the same as owner)'' None]"

definition on_chain_6020 :: ErrorMapping where
  "on_chain_6020 = error_mapping
     ''Overflow''
     ''Arithmetic overflow in on-chain computation''
     FATAL False None
    [recovery ''reduce_amount''
       (''The amount may be too large '' @ em_dash @ '' try a smaller value'') None]"

definition on_chain_6021 :: ErrorMapping where
  "on_chain_6021 = error_mapping
     ''InvalidTokenAccount''
     ''Token account does not belong to vault or has wrong mint''
     INPUT_VALIDATION False None
    [recovery ''verify_token_account''
       ''Ensure the token account is owned by the vault PDA and has the correct mint'' None]"

definition on_chain_6022 :: ErrorMapping where
  "on_chain_6022 = error_mapping
     ''TimelockNotExpired''
     ''Timelock period has not expired yet''
     POLICY_VIOLATION True (Some 60000)
    [recovery ''wait''
       ''Wait for the timelock period to expire before applying the update'' None]"

definition on_chain_6023 :: ErrorMapping where
  "on_chain_6023 = error_mapping
     ''NoTimelockConfigured''
     ''No timelock configured on this vault''
     INPUT_VALIDATION False None
    [recovery ''use_direct_update''
       ''Use direct policy update (no timelock required)'' None]"

definition on_chain_6024 :: ErrorMapping where
  "on_chain_6024 = error_mapping
     ''DestinationNotAllowed''
     ''Destination address not in vault's allowed destinations list''
     POLICY_VIOLATION False None
    [recovery ''check_destinations''
       ''Check the vault's allowedDestinations list'' (Some ''sigil_check_vault''),
     recovery ''use_allowed_destination''
       ''Use a destination that is in the vault's allowlist'' None]"

definition on_chain_6025 :: ErrorMapping where
  "on_chain_6025 = error_mapping
     ''TooManyDestinations''
     ''Too many destinations in allowlist (max 10)''
     INPUT_VALIDATION False None
    [recovery ''reduce_destinations''
       ''Reduce the destination allowlist to 10 or fewer entries'' None]"

definition on_chain_6026 :: ErrorMapping where
  "on_chain_6026 = error_mapping
     ''InvalidProtocolMode''
     ''Invalid protocol mode (must be 0=all, 1=allowlist, or 2=denylist)''
     INPUT_VALIDATION False None
    [recovery ''fix_mode''
       ''Set protocolMode to 0 (all), 1 (allowlist), or 2 (denylist)'' None]"

definition on_chain_6027 :: ErrorMapping where
  "on_chain_6027 = error_mapping
     ''CpiCallNotAllowed''
     ''Instruction must be top-level (CPI calls not allowed for validate/finalize)''
     FATAL False None
    [recovery ''fix_transaction''
       ''Ensure validate_and_authorize is called at the top level, not via CPI'' None]"

definition on_chain_6028 :: ErrorMapping where
  "on_chain_6028 = error_mapping
     ''MissingFinalizeInstruction''
     ''Transaction must include finalize_session after validate_and_authorize''
     INPUT_VALIDATION False None
    [recovery ''use_sdk''
       ''Use the SDK's compose functions which automatically include finalize_session'' None]"

definition on_chain_6029 :: ErrorMapping where
  "on_chain_6029 = error_mapping
     ''NonTrackedSwapMustReturnStablecoin''
     ''Non-stablecoin swap must return stablecoin (vault stablecoin balance did not increase)''
     INPUT_VALIDATION False None
    [recovery ''ensure_stablecoin_output''
       ''Ensure the swap produces stablecoin output (USDC or USDT)'' None]"

definition on_chain_6030 :: ErrorMapping where
  "on_chain_6030 = error_mapping
     ''SwapSlippageExceeded''
     ''Swap slippage exceeds policy max_slippage_bps or quoted output is zero''
     POLICY_VIOLATION False None
    [recovery ''reduce_slippage''
       ''Use a lower slippageBps value within the vault's maxSlippageBps'' None,
     recovery ''check_policy''
       ''Check the vault's maxSlippageBps setting'' (Some ''sigil_check_vault'')]"

definition on_chain_6031 :: ErrorMapping where
  "on_chain_6031 = error_mapping
     ''InvalidJupiterInstruction''
     ''Cannot parse Jupiter swap instruction data''
     INPUT_VALIDATION False None
    [recovery ''use_sdk''
       (''Use the SDK's composeJupiterSwap '' @ em_dash @ '' manual instruction building is error-prone'') None]"

definition on_chain_6032 :: ErrorMapping where
  "on_chain_6032 = error_mapping
     ''UnauthorizedTokenTransfer''
     ''Top-level SPL Token transfer not allowed between validate and finalize''
     POLICY_VIOLATION False None
    [recovery ''use_sdk''
       (''Use the SDK's compose functions '' @ em_dash @ '' do not insert raw SPL transfers in the sandwich'') None]"

definition on_chain_6033 :: ErrorMapping where
  "on_chain_6033 = error_mapping
     ''SlippageBpsTooHigh''
     ''Slippage BPS exceeds maximum allowed (5000 = 50%)''
     INPUT_VALIDATION False None
    [recovery ''reduce_slippage''
       ''Set slippageBps to 5000 or below'' None]"

definition on_chain_6034 :: ErrorMapping where
  "on_chain_6034 = error_mapping
     ''ProtocolMismatch''
     ''DeFi instruction program does not match the declared target_protocol''
     INPUT_VALIDATION False None
    [recovery ''fix_protocol''
       ''Ensure target_protocol matches the actual DeFi instruction's program ID'' None]"

definition on_chain_6035 :: ErrorMapping where
  "on_chain_6035 = error_mapping
     ''TooManyDeFiInstructions''
     ''Non-stablecoin swap allows exactly one DeFi instruction''
     INPUT_VALIDATION False None
    [recovery ''simplify_transaction''
       ''Use a single DeFi instruction for non-stablecoin swaps'' None]"

definition on_chain_6036 :: ErrorMapping where
  "on_chain_6036 = error_mapping
     ''MaxAgentsReached''
     ''Maximum agents per vault reached (limit: 10)''
     INPUT_VALIDATION False None
    [recovery ''revoke_agent''
       ''Revoke an existing agent before registering a new one'' (Some ''sigil_revoke_agent'')]"

definition on_chain_6037 :: ErrorMapping where
  "on_chain_6037 = error_mapping
     ''InsufficientPermissions''
     ''Agent lacks permission for this action type''
     PERMISSION False None
    [recovery ''check_permissions''
       ''Check the agent's permission bitmask'' (Some ''sigil_check_vault''),
     recovery ''request_permissions''
       ''Ask the vault owner to update the agent's permissions'' None]"

definition on_chain_6038 :: ErrorMapping where
  "on_chain_6038 = error_mapping
     ''InvalidPermissions''
     ''Capability exceeds the on-chain maximum (valid values: 0 = Disabled, 1 = Observer, 2 = Operator)''
     INPUT_VALIDATION False None
    [recovery ''fix_permissions''
       (''Pass FULL_CAPABILITY (2n) '' @ em_dash @ '' the Operator enum value '' @ em_dash @ '' when the agent needs spending authority.'') None]"

definition on_chain_6039 :: ErrorMapping where
  "on_chain_6039 = error_mapping
     ''EscrowNotActive''
     ''Escrow is not in Active status''
     RESOURCE_NOT_FOUND False None
    [recovery ''check_escrow''
       ''Verify the escrow exists and is in Active status'' None]"

definition on_chain_6040 :: ErrorMapping where
  "on_chain_6040 = error_mapping
     ''EscrowExpired''
     (''Escrow has expired '' @ em_dash @ '' can only be refunded now'')
     RESOURCE_NOT_FOUND False None
    [recovery ''refund_escrow''
       ''Refund the expired escrow back to the source vault'' (Some ''sigil_refund_escrow'')]"

definition on_chain_6041 :: ErrorMapping where
  "on_chain_6041 = error_mapping
     ''EscrowNotExpired''
     (''Escrow has not expired yet '' @ em_dash @ '' cannot refund before expiry'')
     INPUT_VALIDATION False None
    [recovery ''wait''
       ''Wait for the escrow to expire before requesting a refund'' None,
     recovery ''settle''
       ''Settle the escrow if you are the destination agent'' (Some ''sigil_settle_escrow'')]"

definition on_chain_6042 :: ErrorMapping where
  "on_chain_6042 = error_mapping
     ''InvalidEscrowVault''
     (''Invalid escrow vault '' @ em_dash @ '' source or destination vault mismatch'')
     INPUT_VALIDATION False None
    [recovery ''verify_vaults''
       ''Ensure source and destination vault addresses match the escrow'' None]"

definition on_chain_6043 :: ErrorMapping where
  "on_chain_6043 = error_mapping
     ''EscrowConditionsNotMet''
     ''Escrow settlement conditions not met (SHA-256 proof invalid)''
     INPUT_VALIDATION False None
    [recovery ''provide_proof''
       ''Provide the correct pre-image for the escrow's condition_hash'' None]"

definition on_chain_6044 :: ErrorMapping where
  "on_chain_6044 = error_mapping
     ''EscrowDurationExceeded''
     ''Escrow duration exceeds maximum (30 days)''
     INPUT_VALIDATION False None
    [recovery ''reduce_duration''
       ''Set escrow duration to 2,592,000 seconds (30 days) or less'' None]"

definition on_chain_6045 :: ErrorMapping where
  "on_chain_6045 = error_mapping
     ''InvalidConstraintConfig''
     ''Invalid constraint configuration: bounds exceeded''
     INPUT_VALIDATION False None
    [recovery ''fix_constraints''
       ''Ensure constraint entries are within bounds (max 64 entries, 8 data constraints each)'' None]"

definition on_chain_6046 :: ErrorMapping where
  "on_chain_6046 = error_mapping
     ''ConstraintViolated''
     ''Instruction violated a configured constraint''
     POLICY_VIOLATION False None
    [recovery ''check_constraints''
       ''Review the vault's instruction constraints to understand what is allowed'' (Some ''sigil_check_vault''),
     recovery ''modify_instruction''
       ''Modify the instruction parameters to satisfy the constraints'' None]"

definition on_chain_6047 :: ErrorMapping where
  "on_chain_6047 = error_mapping
     ''InvalidConstraintsPda''
     ''Invalid constraints PDA: wrong owner or vault''
     INPUT_VALIDATION False None
    [recovery ''verify_pda''
       ''Use the correct constraints PDA derived from the vault'' None]"

definition on_chain_6048 :: ErrorMapping where
  "on_chain_6048 = error_mapping
     ''InvalidPendingConstraintsPda''
     ''Invalid pending constraints PDA: wrong owner or vault''
     INPUT_VALIDATION False None
    [recovery ''verify_pda''
       ''Use the correct pending constraints PDA derived from the vault'' None]"

definition on_chain_6049 :: ErrorMapping where
  "on_chain_6049 = error_mapping
     ''AgentSpendLimitExceeded''
     ''Agent's rolling 24h spend exceeds their individual spending limit''
     SPENDING_CAP True (Some 3600000)
    [recovery ''reduce_amount''
       ''Reduce the amount to fit within the agent's remaining limit'' None,
     recovery ''check_spending''
       ''Check the agent's current spend against their limit'' (Some ''sigil_check_spending''),
     recovery ''wait''
       ''Wait for the 24h rolling window to release spent capacity'' None]"

definition on_chain_6050 :: ErrorMapping where
  "on_chain_6050 = error_mapping
     ''OverlaySlotExhausted''
     (''Per-agent overlay is full '' @ em_dash @ '' cannot register agent with spending limit'')
     INPUT_VALIDATION False None
    [recovery ''revoke_agent''
       ''Revoke an unused agent to free an overlay slot'' (Some ''sigil_revoke_agent'')]"

definition on_chain_6051 :: ErrorMapping where
  "on_chain_6051 = error_mapping
     ''AgentSlotNotFound''
     ''Agent has per-agent spending limit but no overlay tracking slot''
     RESOURCE_NOT_FOUND False None
    [recovery ''contact_support''
       (''This is an internal consistency error '' @ em_dash @ '' the overlay may need reinitialization'') None]"

definition on_chain_6052 :: ErrorMapping where
  "on_chain_6052 = error_mapping
     ''UnauthorizedTokenApproval''
     ''Unauthorized SPL Token Approve detected between validate and finalize''
     POLICY_VIOLATION False None
    [recovery ''use_sdk''
       (''Use the SDK's compose functions '' @ em_dash @ '' do not insert raw SPL Approve in the sandwich'') None]"

definition on_chain_6053 :: ErrorMapping where
  "on_chain_6053 = error_mapping
     ''InvalidSessionExpiry''
     ''Session expiry slots out of range (10-450)''
     INPUT_VALIDATION False None
    [recovery ''fix_expiry''
       ''Set session expiry between 10 and 450 slots'' None]"

definition on_chain_6054 :: ErrorMapping where
  "on_chain_6054 = error_mapping
     ''UnconstrainedProgramBlocked''
     ''Program has no constraint entry and strict mode is enabled''
     POLICY_VIOLATION False None
    [recovery ''add_constraint''
       ''Add a constraint entry for this program, or disable strict mode'' None,
     recovery ''check_constraints''
       ''Review the vault's instruction constraints'' (Some ''sigil_check_vault'')]"

definition on_chain_6055 :: ErrorMapping where
  "on_chain_6055 = error_mapping
     ''ProtocolCapExceeded''
     ''Per-protocol rolling 24h spending cap would be exceeded''
     SPENDING_CAP True (Some 3600000)
    [recovery ''reduce_amount''
       ''Reduce the amount to fit within the protocol's remaining cap'' None,
     recovery ''use_different_protocol''
       ''Use a different protocol that has remaining capacity'' None,
     recovery ''wait''
       ''Wait for the 24h rolling window to release spent capacity'' None]"

definition on_chain_6056 :: ErrorMapping where
  "on_chain_6056 = error_mapping
     ''ProtocolCapsMismatch''
     ''protocol_caps length must match protocols length when has_protocol_caps is true''
     INPUT_VALIDATION False None
    [recovery ''fix_config''
       ''Ensure protocol_caps array length matches the protocols array length'' None]"

definition on_chain_6057 :: ErrorMapping where
  "on_chain_6057 = error_mapping
     ''ActiveEscrowsExist''
     (''Active escrow deposits exist '' @ em_dash @ '' close them before closing vault'')
     RESOURCE_NOT_FOUND False None
    [recovery ''close_escrows''
       ''Settle or refund all active escrows before closing the vault'' None]"

definition on_chain_6058 :: ErrorMapping where
  "on_chain_6058 = error_mapping
     ''ConstraintsNotClosed''
     (''Instruction constraints PDA still exists '' @ em_dash @ '' close it before closing vault'')
     RESOURCE_NOT_FOUND False None
    [recovery ''close_constraints''
       ''Close the instruction constraints account before closing the vault'' None]"

definition on_chain_6059 :: ErrorMapping where
  "on_chain_6059 = error_mapping
     ''PendingPolicyExists''
     (''A pending policy update exists '' @ em_dash @ '' apply or cancel it before closing vault'')
     RESOURCE_NOT_FOUND False None
    [recovery ''resolve_pending_policy''
       ''Apply or cancel the pending policy update before closing the vault'' None]"

definition on_chain_6060 :: ErrorMapping where
  "on_chain_6060 = error_mapping
     ''AgentPaused''
     (''Agent is paused '' @ em_dash @ '' unpause before executing actions'')
     PERMISSION False None
    [recovery ''unpause_agent''
       ''Ask the vault owner to unpause this agent'' None]"

definition on_chain_6061 :: ErrorMapping where
  "on_chain_6061 = error_mapping
     ''AgentAlreadyPaused''
     ''Agent is already paused''
     INPUT_VALIDATION False None
    [recovery ''check_agent_status''
       (''Agent is already paused '' @ em_dash @ '' no action needed'') None]"

definition on_chain_6062 :: ErrorMapping where
  "on_chain_6062 = error_mapping
     ''AgentNotPaused''
     (''Agent is not paused '' @ em_dash @ '' cannot unpause'')
     INPUT_VALIDATION False None
    [recovery ''check_agent_status''
       (''Agent is not paused '' @ em_dash @ '' no action needed'') None]"

definition on_chain_6063 :: ErrorMapping where
  "on_chain_6063 = error_mapping
     ''UnauthorizedPostFinalizeInstruction''
     ''Instructions after finalize_session must be ComputeBudget or SystemProgram only''
     POLICY_VIOLATION False None
    [recovery ''remove_post_finalize_instructions''
       ''Remove any instructions placed after finalize_session in the transaction. Only ComputeBudget and SystemProgram instructions are allowed after finalize.'' None]"

definition on_chain_6064 :: ErrorMapping where
  "on_chain_6064 = error_mapping
     ''UnexpectedBalanceDecrease''
     ''Vault stablecoin balance decreased more than the session authorized amount. This indicates a compromised DeFi program attempted to drain vault tokens via CPI.''
     FATAL False None
    [recovery ''investigate_defi_program''
       ''The whitelisted DeFi program may be compromised. The actual vault balance decrease exceeded the authorized delegation amount (fees + DeFi spend). Freeze the vault, investigate the DeFi program, and consider removing it from the protocol allowlist.'' None,
     recovery ''freeze_vault''
       ''Immediately freeze the vault to prevent further transactions until the cause is identified.'' None]"

definition on_chain_6065 :: ErrorMapping where
  "on_chain_6065 = error_mapping
     ''TimelockTooShort''
     ''Timelock duration is below the minimum (1800 seconds / 30 minutes).''
     INPUT_VALIDATION False None
    [recovery ''increase_timelock''
       ''Set timelock_duration to at least 1800 seconds (30 minutes).'' None]"

definition on_chain_6066 :: ErrorMapping where
  "on_chain_6066 = error_mapping
     ''PolicyVersionMismatch''
     ''Policy version changed since agent's last RPC read. Re-resolve vault state and retry.''
     TRANSIENT True (Some 1000)
    [recovery ''re_resolve_state''
       ''Re-fetch vault state via resolveVaultState() to get current policy version, then retry.'' None]"

definition on_chain_6067 :: ErrorMapping where
  "on_chain_6067 = error_mapping
     ''ActiveSessionsExist''
     ''Cannot close vault with active sessions. Finalize all pending sessions first.''
     POLICY_VIOLATION True (Some 10000)
    [recovery ''finalize_sessions''
       ''Wait for active sessions to finalize or expire, then retry close_vault.'' None]"

definition on_chain_6068 :: ErrorMapping where
  "on_chain_6068 = error_mapping
     ''PostAssertionFailed''
     ''Post-execution assertion failed: account state did not satisfy constraint.''
     POLICY_VIOLATION False None
    [recovery ''review_assertions''
       ''Review the vault's post-execution assertions. The trade's resulting account state violated a configured assertion.'' None]"

definition on_chain_6069 :: ErrorMapping where
  "on_chain_6069 = error_mapping
     ''InvalidPostAssertionIndex''
     ''Post-assertion references an invalid instruction index.''
     INPUT_VALIDATION False None
    [recovery ''fix_assertions''
       ''Review and update the vault's post-assertion configuration.'' None]"

definition on_chain_6070 :: ErrorMapping where
  "on_chain_6070 = error_mapping
     ''UnauthorizedPreValidateInstruction''
     ''Non-infrastructure instruction detected before validate_and_authorize.''
     PERMISSION False None
    [recovery ''fix_instruction_order''
       ''Place validate_and_authorize before any DeFi or program instruction.'' None]"

definition on_chain_6071 :: ErrorMapping where
  "on_chain_6071 = error_mapping
     ''SnapshotNotCaptured''
     ''Delta assertion snapshot was not captured in validate_and_authorize.''
     INPUT_VALIDATION False None
    [recovery ''fix_assertions''
       ''Ensure validate_and_authorize captures a snapshot before finalize delta check.'' None]"

definition on_chain_6072 :: ErrorMapping where
  "on_chain_6072 = error_mapping
     ''InvalidConstraintOperator''
     ''Constraint operator value is not a valid ConstraintOperator discriminant.''
     INPUT_VALIDATION False None
    [recovery ''fix_constraints''
       ''Ensure constraint operators are valid (0-6).'' None]"

definition on_chain_6073 :: ErrorMapping where
  "on_chain_6073 = error_mapping
     ''ConstraintsVaultMismatch''
     ''Zero-copy constraints account has wrong vault.''
     INPUT_VALIDATION False None
    [recovery ''verify_pda''
       ''The constraints PDA does not belong to this vault.'' None]"

definition on_chain_6074 :: ErrorMapping where
  "on_chain_6074 = error_mapping
     ''BlockedSplOpcode''
     ''SPL opcode is blocked at runtime and cannot be used in constraints.''
     INPUT_VALIDATION False None
    [recovery ''fix_constraints''
       (''Remove blocked SPL opcode from the constraint entry '' @ em_dash @ '' use allowlisted opcodes only.'') None]"

definition on_chain_6075 :: ErrorMapping where
  "on_chain_6075 = error_mapping
     ''QueuedUpdateExpired''
     (''Queued update is too old (>MAX_APPLY_AGE_SLOTS) '' @ em_dash @ '' re-queue to apply. Defends against durable-nonce pre-signing.'')
     POLICY_VIOLATION False None
    [recovery ''requeue''
       (''Re-queue the update via queue_policy_update / queue_constraints_update / queue_close_constraints / queue_agent_permissions_update '' @ em_dash @ '' the original queued update is past the freshness window.'') None]"

definition on_chain_6076 :: ErrorMapping where
  "on_chain_6076 = error_mapping
     ''AccountWritabilityMismatch''
     ''Account writability flag does not match the constraint requirement (read-only vs writable).''
     INPUT_VALIDATION False None
    [recovery ''fix_constraints''
       ''Match the writability flag (read-only or writable) of the account passed to the instruction with the constraint's is_writable_required value.'' None]"

definition on_chain_6077 :: ErrorMapping where
  "on_chain_6077 = error_mapping
     ''SysvarScanBoundExceeded''
     ''Sysvar instruction scan exceeded the per-tx safety bound (MAX_SYSVAR_SCAN_ITERATIONS=64).''
     INPUT_VALIDATION False None
    [recovery ''fix_transaction_shape''
       ''Reduce the number of instructions in the transaction. The on-chain sysvar walk is bounded at 64 ix to defend against pad-attack DoS (M11 / SIMD-0296). Legitimate flows fit well under this cap.'' None]"

definition on_chain_6078 :: ErrorMapping where
  "on_chain_6078 = error_mapping
     ''AsyncFulfillmentNotPermitted''
     (''Async-fulfillment programs (Jupiter Perps, Drift v2, Drift JIT) are not permitted in V1 '' @ em_dash @ '' keeper-driven settlement happens after finalize_session returns and cannot be measured against the spending cap.'')
     POLICY_VIOLATION False None
    [recovery ''use_supported_protocol''
       ''Use a synchronous protocol (Jupiter swap, Jupiter Lend, etc.). V1.1 will add a sanctioned async-friendly path with settlement-tracked counters or post-execution attestation.'' None]"

definition on_chain_6079 :: ErrorMapping where
  "on_chain_6079 = error_mapping
     ''ConstraintsAlreadyPopulated''
     (''Cannot clean an active constraints PDA via cleanup_orphan_constraints_pda '' @ em_dash @ '' use queue_close_constraints + apply_close_constraints instead.'')
     INPUT_VALIDATION False None
    [recovery ''use_close_path''
       ''Route through the timelocked close-constraints path; the orphan-cleanup instruction only operates on never-populated PDAs (partial allocate+extend chain).'' None]"

definition on_chain_6080 :: ErrorMapping where
  "on_chain_6080 = error_mapping
     ''OrphanPdaWrongOwner''
     ''PDA at the constraints seeds is not owned by the Sigil program.''
     INPUT_VALIDATION False None
    [recovery ''verify_pda''
       ''Verify the PDA derivation: it must be owned by the Sigil program and match seeds (vault, constraints).'' None]"

definition on_chain_6081 :: ErrorMapping where
  "on_chain_6081 = error_mapping
     ''OrphanPdaPopulated''
     (''PDA is fully populated (carries the Anchor discriminator) '' @ em_dash @ '' not an orphan; cannot be cleaned.'')
     INPUT_VALIDATION False None
    [recovery ''use_close_path''
       ''Route fully-populated constraints PDAs through queue_close_constraints + apply_close_constraints.'' None]"

definition on_chain_6082 :: ErrorMapping where
  "on_chain_6082 = error_mapping
     ''ConfidentialTransferBlocked''
     ''Token-2022 ConfidentialTransfer is not permitted between validate_and_authorize and finalize_session.''
     POLICY_VIOLATION False None
    [recovery ''use_supported_protocol''
       ''Token-2022 ConfidentialTransfer (opcode 27/42) hides spending amounts from sysvar accounting and cannot be tracked. Use the standard SPL Token transfer or Jupiter swap path instead.'' None]"

definition on_chain_6083 :: ErrorMapping where
  "on_chain_6083 = error_mapping
     ''PermanentDelegateBlocked''
     ''Token-2022 PermanentDelegate is not permitted between validate_and_authorize and finalize_session.''
     POLICY_VIOLATION False None
    [recovery ''use_supported_protocol''
       ''Token-2022 PermanentDelegate (opcode 35) installs a session-bound delegate that survives finalize. Reject up-front; use a per-tx Approve instead.'' None]"

definition on_chain_6084 :: ErrorMapping where
  "on_chain_6084 = error_mapping
     ''TransferHookBlocked''
     ''Token-2022 TransferHook is not permitted between validate_and_authorize and finalize_session.''
     POLICY_VIOLATION False None
    [recovery ''use_supported_protocol''
       ''Token-2022 TransferHook (opcode 36) routes mid-tx control to attacker-chosen code. Use a non-hook mint or whitelist the hook program in V1.1.'' None]"

definition on_chain_6085 :: ErrorMapping where
  "on_chain_6085 = error_mapping
     ''LamportDrainBlocked''
     ''Token-2022 destructive-balance instruction (opcode 38/45/46) is not permitted between validate_and_authorize and finalize_session.''
     POLICY_VIOLATION False None
    [recovery ''use_supported_protocol''
       ''WithdrawExcessLamports/UnwrapLamports/PermissionedBurnExtension drain SOL or balances outside the spending-cap path. Block at the gate; V1.1 may add an owner-allowlist for legitimate uses.'' None]"

definition on_chain_6086 :: ErrorMapping where
  "on_chain_6086 = error_mapping
     ''BatchInstructionBlocked''
     (''Token-2022 Batch instruction (opcode 255) is blocked outright '' @ em_dash @ '' wraps inner instructions and bypasses the byte-0 blocklist.'')
     POLICY_VIOLATION False None
    [recovery ''use_supported_protocol''
       ''Token-2022 Batch (opcode 255) wraps inner TokenInstructions; the byte-0 blocklist cannot see them. Submit each inner ix as its own top-level instruction so guards can inspect each.'' None]"

definition on_chain_6087 :: ErrorMapping where
  "on_chain_6087 = error_mapping
     ''InvalidDestinationMode''
     ''Invalid destination mode (must be 0 = Restricted or 1 = OpenWithCap).''
     INPUT_VALIDATION False None
    [recovery ''fix_policy''
       ''Pass destination_mode = 0 (Restricted, default) or 1 (OpenWithCap, explicit opt-in to drain blast radius).'' None]"

definition ON_CHAIN_ERROR_MAP :: "(int \<times> ErrorMapping) list" where
  "ON_CHAIN_ERROR_MAP =
    [(6000, on_chain_6000), (6001, on_chain_6001), (6002, on_chain_6002), (6003, on_chain_6003),
     (6004, on_chain_6004), (6005, on_chain_6005), (6006, on_chain_6006), (6007, on_chain_6007),
     (6008, on_chain_6008), (6009, on_chain_6009), (6010, on_chain_6010), (6011, on_chain_6011),
     (6012, on_chain_6012), (6013, on_chain_6013), (6014, on_chain_6014), (6015, on_chain_6015),
     (6016, on_chain_6016), (6017, on_chain_6017), (6018, on_chain_6018), (6019, on_chain_6019),
     (6020, on_chain_6020), (6021, on_chain_6021), (6022, on_chain_6022), (6023, on_chain_6023),
     (6024, on_chain_6024), (6025, on_chain_6025), (6026, on_chain_6026), (6027, on_chain_6027),
     (6028, on_chain_6028), (6029, on_chain_6029), (6030, on_chain_6030), (6031, on_chain_6031),
     (6032, on_chain_6032), (6033, on_chain_6033), (6034, on_chain_6034), (6035, on_chain_6035),
     (6036, on_chain_6036), (6037, on_chain_6037), (6038, on_chain_6038), (6039, on_chain_6039),
     (6040, on_chain_6040), (6041, on_chain_6041), (6042, on_chain_6042), (6043, on_chain_6043),
     (6044, on_chain_6044), (6045, on_chain_6045), (6046, on_chain_6046), (6047, on_chain_6047),
     (6048, on_chain_6048), (6049, on_chain_6049), (6050, on_chain_6050), (6051, on_chain_6051),
     (6052, on_chain_6052), (6053, on_chain_6053), (6054, on_chain_6054), (6055, on_chain_6055),
     (6056, on_chain_6056), (6057, on_chain_6057), (6058, on_chain_6058), (6059, on_chain_6059),
     (6060, on_chain_6060), (6061, on_chain_6061), (6062, on_chain_6062), (6063, on_chain_6063),
     (6064, on_chain_6064), (6065, on_chain_6065), (6066, on_chain_6066), (6067, on_chain_6067),
     (6068, on_chain_6068), (6069, on_chain_6069), (6070, on_chain_6070), (6071, on_chain_6071),
     (6072, on_chain_6072), (6073, on_chain_6073), (6074, on_chain_6074), (6075, on_chain_6075),
     (6076, on_chain_6076), (6077, on_chain_6077), (6078, on_chain_6078), (6079, on_chain_6079),
     (6080, on_chain_6080), (6081, on_chain_6081), (6082, on_chain_6082), (6083, on_chain_6083),
     (6084, on_chain_6084), (6085, on_chain_6085), (6086, on_chain_6086), (6087, on_chain_6087)]"

section \<open>SDK errors\<close>

definition sdk_NETWORK_ERROR :: ErrorMapping where
  "sdk_NETWORK_ERROR = error_mapping
     ''NetworkError''
     ''Network request failed''
     TRANSIENT True (Some 2000)
    [recovery ''retry''
       (''Retry the request '' @ em_dash @ '' the RPC node may be temporarily unavailable'') None]"

definition sdk_RPC_ERROR :: ErrorMapping where
  "sdk_RPC_ERROR = error_mapping
     ''RpcError''
     ''Solana RPC error''
     TRANSIENT True (Some 3000)
    [recovery ''retry''
       ''Retry with a different RPC endpoint if available'' None]"

definition sdk_SIMULATION_FAILED :: ErrorMapping where
  "sdk_SIMULATION_FAILED = error_mapping
     ''SimulationFailed''
     ''Transaction simulation failed''
     TRANSIENT True (Some 2000)
    [recovery ''retry''
       (''Retry '' @ em_dash @ '' blockhash may have expired or state changed'') None,
     recovery ''check_balance''
       ''Verify the agent has enough SOL for transaction fees'' None]"

definition sdk_DRAIN_DETECTED :: ErrorMapping where
  "sdk_DRAIN_DETECTED = error_mapping
     ''DrainDetected''
     ''Potential drain attack detected in transaction simulation''
     FATAL False None
    [recovery ''reject_transaction''
       (''Transaction appears to drain vault funds '' @ em_dash @ '' do not sign or submit'') None]"

definition sdk_INTENT_VALIDATION_FAILED :: ErrorMapping where
  "sdk_INTENT_VALIDATION_FAILED = error_mapping
     ''IntentValidationFailed''
     ''Intent input validation failed''
     INPUT_VALIDATION False None
    [recovery ''fix_inputs''
       ''Fix the invalid parameters identified in the error context'' None]"

definition sdk_INTENT_EXPIRED :: ErrorMapping where
  "sdk_INTENT_EXPIRED = error_mapping
     ''IntentExpired''
     ''Intent has expired and is no longer valid''
     TRANSIENT True (Some 1000)
    [recovery ''retry''
       ''Create a fresh intent with updated parameters'' None]"

definition sdk_PROTOCOL_NOT_SUPPORTED :: ErrorMapping where
  "sdk_PROTOCOL_NOT_SUPPORTED = error_mapping
     ''ProtocolNotSupported''
     ''Protocol is not supported by the SDK''
     PROTOCOL_NOT_SUPPORTED False None
    [recovery ''check_supported_protocols''
       ''Check which protocols are supported by the SDK'' None]"

definition sdk_ADAPTER_VERIFICATION_FAILED :: ErrorMapping where
  "sdk_ADAPTER_VERIFICATION_FAILED = error_mapping
     ''AdapterVerificationFailed''
     ''Protocol adapter output failed safety verification''
     FATAL False None
    [recovery ''report_adapter''
       (''The protocol adapter may be compromised '' @ em_dash @ '' do not retry'') None]"

definition sdk_PRECHECK_FAILED :: ErrorMapping where
  "sdk_PRECHECK_FAILED = error_mapping
     ''PrecheckFailed''
     ''SDK precheck failed before submitting transaction''
     INPUT_VALIDATION False None
    [recovery ''check_inputs''
       (''Review the intent parameters '' @ em_dash @ '' a precondition is not met'') None]"

definition sdk_EXECUTION_FAILED :: ErrorMapping where
  "sdk_EXECUTION_FAILED = error_mapping
     ''ExecutionFailed''
     ''Transaction execution failed on-chain''
     TRANSIENT True (Some 2000)
    [recovery ''retry''
       (''Retry '' @ em_dash @ '' on-chain state may have changed during execution'') None]"

definition sdk_TRANSACTION_TIMEOUT :: ErrorMapping where
  "sdk_TRANSACTION_TIMEOUT = error_mapping
     ''TransactionTimeout''
     ''Transaction submission timed out''
     TRANSIENT True (Some 5000)
    [recovery ''retry''
       ''Retry with a fresh blockhash and higher priority fee'' None]"

definition sdk_CONFIRMATION_TIMEOUT :: ErrorMapping where
  "sdk_CONFIRMATION_TIMEOUT = error_mapping
     ''ConfirmationTimeout''
     ''Transaction confirmation timed out''
     TRANSIENT True (Some 5000)
    [recovery ''check_status''
       (''Check if the transaction landed '' @ em_dash @ '' it may have confirmed after timeout'') None,
     recovery ''retry''
       ''Retry if transaction did not land'' None]"

definition sdk_INSUFFICIENT_FUNDS :: ErrorMapping where
  "sdk_INSUFFICIENT_FUNDS = error_mapping
     ''InsufficientFunds''
     ''Insufficient SOL or token balance for transaction''
     SPENDING_CAP False None
    [recovery ''check_balance''
       ''Check SOL and token balances'' None,
     recovery ''deposit''
       ''Deposit more funds before retrying'' None]"

definition sdk_SLIPPAGE_EXCEEDED :: ErrorMapping where
  "sdk_SLIPPAGE_EXCEEDED = error_mapping
     ''SlippageExceeded''
     ''Swap slippage exceeded the maximum tolerance''
     TRANSIENT True (Some 3000)
    [recovery ''retry''
       (''Retry '' @ em_dash @ '' market may have moved, producing a better quote'') None,
     recovery ''increase_slippage''
       ''Increase slippage tolerance if market is volatile'' None]"

definition sdk_TEE_VERIFICATION_FAILED :: ErrorMapping where
  "sdk_TEE_VERIFICATION_FAILED = error_mapping
     ''TeeVerificationFailed''
     ''TEE attestation verification failed''
     FATAL False None
    [recovery ''verify_tee''
       (''Verify the TEE wallet's attestation '' @ em_dash @ '' the enclave may be compromised'') None]"

definition sdk_SHIELD_DENIED :: ErrorMapping where
  "sdk_SHIELD_DENIED = error_mapping
     ''ShieldDenied''
     ''Shield denied the transaction based on policy evaluation''
     POLICY_VIOLATION False None
    [recovery ''check_policy''
       ''Review shield policies to understand why the transaction was denied'' None]"

definition sdk_SIMULATION_TIMEOUT :: ErrorMapping where
  "sdk_SIMULATION_TIMEOUT = error_mapping
     ''SimulationTimeout''
     ''Transaction simulation RPC call timed out''
     TRANSIENT True (Some 5000)
    [recovery ''retry''
       ''Retry with a different RPC endpoint or increased timeout'' None]"

definition sdk_BLOCKHASH_EXPIRED :: ErrorMapping where
  "sdk_BLOCKHASH_EXPIRED = error_mapping
     ''BlockhashExpired''
     ''Blockhash expired before transaction could be sent''
     TRANSIENT True (Some 1000)
    [recovery ''retry''
       ''Fetch a fresh blockhash and rebuild the transaction'' None]"

definition sdk_CODAMA_DECODE_FAILED :: ErrorMapping where
  "sdk_CODAMA_DECODE_FAILED = error_mapping
     ''CodamaDecodeFailed''
     ''Codama-generated codec failed to decode instruction data''
     FATAL False None
    [recovery ''check_idl''
       ''Verify the IDL matches the deployed program version'' None]"

definition sdk_CODAMA_VERSION_MISMATCH :: ErrorMapping where
  "sdk_CODAMA_VERSION_MISMATCH = error_mapping
     ''CodamaVersionMismatch''
     (''IDL hash mismatch '' @ em_dash @ '' generated code may be stale'')
     FATAL False None
    [recovery ''regenerate''
       ''Regenerate Codama clients from the latest IDL'' None]"

definition sdk_COMPAT_BRIDGE_FAILED :: ErrorMapping where
  "sdk_COMPAT_BRIDGE_FAILED = error_mapping
     ''CompatBridgeFailed''
     ''web3.js compatibility bridge encountered an error''
     FATAL False None
    [recovery ''check_compat''
       ''Check that the compat bridge input types are correct'' None]"

definition sdk_INTENT_DRIFT_DETECTED :: ErrorMapping where
  "sdk_INTENT_DRIFT_DETECTED = error_mapping
     ''IntentDriftDetected''
     ''Transaction diverges from the declared intent''
     POLICY_VIOLATION False None
    [recovery ''review_transaction''
       (''The composed transaction does not match the stated intent '' @ em_dash @ '' review instructions'') None,
     recovery ''rebuild''
       ''Rebuild the transaction from a fresh intent'' None]"

definition sdk_VELOCITY_EXCEEDED :: ErrorMapping where
  "sdk_VELOCITY_EXCEEDED = error_mapping
     ''VelocityExceeded''
     ''Transaction velocity threshold breached''
     RATE_LIMIT True (Some 30000)
    [recovery ''wait''
       ''Wait for the cooldown period before submitting more transactions'' None]"

definition sdk_AGENT_DEFENSE_TRIGGERED :: ErrorMapping where
  "sdk_AGENT_DEFENSE_TRIGGERED = error_mapping
     ''AgentDefenseTriggered''
     ''Pre-sign gate blocked a suspicious transaction''
     POLICY_VIOLATION False None
    [recovery ''review_transaction''
       (''The transaction triggered agent defense '' @ em_dash @ '' review for manipulation'') None,
     recovery ''escalate_to_human''
       ''Escalate to vault owner for manual review'' None]"

definition sdk_X402_PARSE_ERROR :: ErrorMapping where
  "sdk_X402_PARSE_ERROR = error_mapping
     ''X402ParseError''
     ''Malformed x402 PAYMENT-REQUIRED header''
     INPUT_VALIDATION False None
    [recovery ''check_server''
       (''The API server returned an invalid x402 header '' @ em_dash @ '' contact the provider'') None]"

definition sdk_X402_PAYMENT_DENIED :: ErrorMapping where
  "sdk_X402_PAYMENT_DENIED = error_mapping
     ''X402PaymentDenied''
     ''x402 payment blocked by shield policy''
     POLICY_VIOLATION False None
    [recovery ''check_policy''
       ''Review shield spending limits and x402 configuration'' None]"

definition sdk_X402_UNSUPPORTED :: ErrorMapping where
  "sdk_X402_UNSUPPORTED = error_mapping
     ''X402Unsupported''
     ''No compatible Solana payment option in x402 response''
     INPUT_VALIDATION False None
    [recovery ''check_accepts''
       (''The API does not accept any Solana-compatible payment '' @ em_dash @ '' try a different endpoint'') None]"

definition sdk_X402_DESTINATION_BLOCKED :: ErrorMapping where
  "sdk_X402_DESTINATION_BLOCKED = error_mapping
     ''X402DestinationBlocked''
     ''x402 payTo address not in destination allowlist''
     POLICY_VIOLATION False None
    [recovery ''check_allowlist''
       ''Add the payTo address to X402Config.allowedDestinations if trusted'' None]"

definition sdk_X402_REPLAY_DETECTED :: ErrorMapping where
  "sdk_X402_REPLAY_DETECTED = error_mapping
     ''X402ReplayDetected''
     ''Duplicate x402 payment detected within replay window''
     POLICY_VIOLATION False None
    [recovery ''wait''
       (''A payment for this resource was already made '' @ em_dash @ '' wait for the nonce window to expire'') None]"

definition sdk_X402_AMOUNT_SUSPICIOUS :: ErrorMapping where
  "sdk_X402_AMOUNT_SUSPICIOUS = error_mapping
     ''X402AmountSuspicious''
     ''x402 payment amount exceeds sanity threshold''
     POLICY_VIOLATION False None
    [recovery ''review_amount''
       (''The requested amount is suspiciously high '' @ em_dash @ '' verify with the API provider'') None]"

definition sdk_X402_FACILITATOR_UNTRUSTED :: ErrorMapping where
  "sdk_X402_FACILITATOR_UNTRUSTED = error_mapping
     ''X402FacilitatorUntrusted''
     ''x402 settlement response validation failed''
     POLICY_VIOLATION False None
    [recovery ''check_settlement''
       ''Verify the settlement transaction on-chain'' None]"

definition sdk_X402_CONNECTION_REQUIRED :: ErrorMapping where
  "sdk_X402_CONNECTION_REQUIRED = error_mapping
     ''X402ConnectionRequired''
     ''RPC connection required for x402 payment but not provided''
     INPUT_VALIDATION False None
    [recovery ''provide_rpc''
       ''Pass an RPC connection in ShieldedFetchOptions or X402Config'' None]"

definition sdk_X402_SETTLEMENT_FAILED :: ErrorMapping where
  "sdk_X402_SETTLEMENT_FAILED = error_mapping
     ''X402SettlementFailed''
     ''x402 settlement retries exhausted''
     TRANSIENT True (Some 5000)
    [recovery ''retry''
       (''Retry the x402 payment '' @ em_dash @ '' the facilitator may be temporarily unavailable'') None]"

definition sdk_TX_SIZE_OVERFLOW :: ErrorMapping where
  "sdk_TX_SIZE_OVERFLOW = error_mapping
     ''TxSizeOverflow''
     ''Transaction exceeds Solana's 1,232-byte wire size limit''
     INPUT_VALIDATION False None
    [recovery ''use_alt''
       ''Enable address lookup tables to compress the transaction'' None,
     recovery ''simplify_route''
       ''Use a simpler swap route with fewer hops or accounts'' None]"

definition SDK_ERROR_CODES :: "(int \<times> string) list" where
  "SDK_ERROR_CODES =
    [(7000, ''NETWORK_ERROR''), (7001, ''RPC_ERROR''), (7002, ''SIMULATION_FAILED''),
     (7003, ''DRAIN_DETECTED''), (7004, ''INTENT_VALIDATION_FAILED''), (7005, ''INTENT_EXPIRED''),
     (7006, ''PROTOCOL_NOT_SUPPORTED''), (7007, ''ADAPTER_VERIFICATION_FAILED''), (7008, ''PRECHECK_FAILED''),
     (7009, ''EXECUTION_FAILED''), (7010, ''TRANSACTION_TIMEOUT''), (7011, ''CONFIRMATION_TIMEOUT''),
     (7012, ''INSUFFICIENT_FUNDS''), (7013, ''SLIPPAGE_EXCEEDED''), (7014, ''TEE_VERIFICATION_FAILED''),
     (7015, ''SHIELD_DENIED''), (7016, ''SIMULATION_TIMEOUT''), (7017, ''BLOCKHASH_EXPIRED''),
     (7018, ''CODAMA_DECODE_FAILED''), (7019, ''CODAMA_VERSION_MISMATCH''), (7020, ''COMPAT_BRIDGE_FAILED''),
     (7021, ''INTENT_DRIFT_DETECTED''), (7022, ''VELOCITY_EXCEEDED''), (7023, ''AGENT_DEFENSE_TRIGGERED''),
     (7024, ''X402_PARSE_ERROR''), (7025, ''X402_PAYMENT_DENIED''), (7026, ''X402_UNSUPPORTED''),
     (7027, ''X402_DESTINATION_BLOCKED''), (7028, ''X402_REPLAY_DETECTED''), (7029, ''X402_AMOUNT_SUSPICIOUS''),
     (7030, ''X402_FACILITATOR_UNTRUSTED''), (7031, ''X402_CONNECTION_REQUIRED''), (7032, ''X402_SETTLEMENT_FAILED''),
     (7033, ''TX_SIZE_OVERFLOW'')]"

definition SDK_ERRORS :: "(string \<times> ErrorMapping) list" where
  "SDK_ERRORS =
    [(''NETWORK_ERROR'', sdk_NETWORK_ERROR), (''RPC_ERROR'', sdk_RPC_ERROR),
     (''SIMULATION_FAILED'', sdk_SIMULATION_FAILED), (''DRAIN_DETECTED'', sdk_DRAIN_DETECTED),
     (''INTENT_VALIDATION_FAILED'', sdk_INTENT_VALIDATION_FAILED), (''INTENT_EXPIRED'', sdk_INTENT_EXPIRED),
     (''PROTOCOL_NOT_SUPPORTED'', sdk_PROTOCOL_NOT_SUPPORTED), (''ADAPTER_VERIFICATION_FAILED'', sdk_ADAPTER_VERIFICATION_FAILED),
     (''PRECHECK_FAILED'', sdk_PRECHECK_FAILED), (''EXECUTION_FAILED'', sdk_EXECUTION_FAILED),
     (''TRANSACTION_TIMEOUT'', sdk_TRANSACTION_TIMEOUT), (''CONFIRMATION_TIMEOUT'', sdk_CONFIRMATION_TIMEOUT),
     (''INSUFFICIENT_FUNDS'', sdk_INSUFFICIENT_FUNDS), (''SLIPPAGE_EXCEEDED'', sdk_SLIPPAGE_EXCEEDED),
     (''TEE_VERIFICATION_FAILED'', sdk_TEE_VERIFICATION_FAILED), (''SHIELD_DENIED'', sdk_SHIELD_DENIED),
     (''SIMULATION_TIMEOUT'', sdk_SIMULATION_TIMEOUT), (''BLOCKHASH_EXPIRED'', sdk_BLOCKHASH_EXPIRED),
     (''CODAMA_DECODE_FAILED'', sdk_CODAMA_DECODE_FAILED), (''CODAMA_VERSION_MISMATCH'', sdk_CODAMA_VERSION_MISMATCH),
     (''COMPAT_BRIDGE_FAILED'', sdk_COMPAT_BRIDGE_FAILED), (''INTENT_DRIFT_DETECTED'', sdk_INTENT_DRIFT_DETECTED),
     (''VELOCITY_EXCEEDED'', sdk_VELOCITY_EXCEEDED), (''AGENT_DEFENSE_TRIGGERED'', sdk_AGENT_DEFENSE_TRIGGERED),
     (''X402_PARSE_ERROR'', sdk_X402_PARSE_ERROR), (''X402_PAYMENT_DENIED'', sdk_X402_PAYMENT_DENIED),
     (''X402_UNSUPPORTED'', sdk_X402_UNSUPPORTED), (''X402_DESTINATION_BLOCKED'', sdk_X402_DESTINATION_BLOCKED),
     (''X402_REPLAY_DETECTED'', sdk_X402_REPLAY_DETECTED), (''X402_AMOUNT_SUSPICIOUS'', sdk_X402_AMOUNT_SUSPICIOUS),
     (''X402_FACILITATOR_UNTRUSTED'', sdk_X402_FACILITATOR_UNTRUSTED), (''X402_CONNECTION_REQUIRED'', sdk_X402_CONNECTION_REQUIRED),
     (''X402_SETTLEMENT_FAILED'', sdk_X402_SETTLEMENT_FAILED), (''TX_SIZE_OVERFLOW'', sdk_TX_SIZE_OVERFLOW)]"

section \<open>The program's error enum\<close>

text \<open>Anchor numbers the variants from 6000 in order.\<close>

definition SigilError_variants :: "string list" where
  "SigilError_variants =
    [''VaultNotActive'', ''UnauthorizedAgent'', ''UnauthorizedOwner'', ''UnsupportedToken'',
     ''ProtocolNotAllowed'', ''TransactionTooLarge'', ''SpendingCapExceeded'', ''SessionNotAuthorized'',
     ''InvalidSession'', ''TooManyAllowedProtocols'', ''AgentAlreadyRegistered'', ''NoAgentRegistered'',
     ''VaultNotFrozen'', ''VaultAlreadyClosed'', ''InsufficientBalance'', ''DeveloperFeeTooHigh'',
     ''InvalidFeeDestination'', ''InvalidProtocolTreasury'', ''InvalidAgentKey'', ''AgentIsOwner'',
     ''Overflow'', ''InvalidTokenAccount'', ''TimelockNotExpired'', ''NoTimelockConfigured'',
     ''DestinationNotAllowed'', ''TooManyDestinations'', ''InvalidProtocolMode'', ''CpiCallNotAllowed'',
     ''MissingFinalizeInstruction'', ''NonTrackedSwapMustReturnStablecoin'', ''SwapSlippageExceeded'', ''InvalidJupiterInstruction'',
     ''UnauthorizedTokenTransfer'', ''SlippageBpsTooHigh'', ''ProtocolMismatch'', ''TooManyDeFiInstructions'',
     ''MaxAgentsReached'', ''InsufficientPermissions'', ''InvalidPermissions'', ''EscrowNotActive'',
     ''EscrowExpired'', ''EscrowNotExpired'', ''InvalidEscrowVault'', ''EscrowConditionsNotMet'',
     ''EscrowDurationExceeded'', ''InvalidConstraintConfig'', ''ConstraintViolated'', ''InvalidConstraintsPda'',
     ''InvalidPendingConstraintsPda'', ''AgentSpendLimitExceeded'', ''OverlaySlotExhausted'', ''AgentSlotNotFound'',
     ''UnauthorizedTokenApproval'', ''InvalidSessionExpiry'', ''UnconstrainedProgramBlocked'', ''ProtocolCapExceeded'',
     ''ProtocolCapsMismatch'', ''ActiveEscrowsExist'', ''ConstraintsNotClosed'', ''PendingPolicyExists'',
     ''AgentPaused'', ''AgentAlreadyPaused'', ''AgentNotPaused'', ''UnauthorizedPostFinalizeInstruction'',
     ''UnexpectedBalanceDecrease'', ''TimelockTooShort'', ''PolicyVersionMismatch'', ''ActiveSessionsExist'',
     ''PostAssertionFailed'', ''InvalidPostAssertionIndex'', ''UnauthorizedPreValidateInstruction'', ''SnapshotNotCaptured'',
     ''InvalidConstraintOperator'', ''ConstraintsVaultMismatch'', ''BlockedSplOpcode'', ''QueuedUpdateExpired'',
     ''AccountWritabilityMismatch'', ''SysvarScanBoundExceeded'', ''AsyncFulfillmentNotPermitted'', ''ConstraintsAlreadyPopulated'',
     ''OrphanPdaWrongOwner'', ''OrphanPdaPopulated'', ''ConfidentialTransferBlocked'', ''PermanentDelegateBlocked'',
     ''TransferHookBlocked'', ''LamportDrainBlocked'', ''BatchInstructionBlocked'', ''InvalidDestinationMode'']"

section \<open>The tables as a whole\<close>

lemma error_mapping_fields [simp]:
  "em_name (error_mapping n m c r d as) = n" "em_message (error_mapping n m c r d as) = m"
  "em_category (error_mapping n m c r d as) = c" "em_retryable (error_mapping n m c r d as) = r"
  "em_retry_after_ms (error_mapping n m c r d as) = d" "em_recovery_actions (error_mapping n m c r d as) = as"
  by (simp_all add: error_mapping_def)

lemmas on_chain_entries =
  on_chain_6000_def on_chain_6001_def on_chain_6002_def on_chain_6003_def on_chain_6004_def on_chain_6005_def on_chain_6006_def on_chain_6007_def
  on_chain_6008_def on_chain_6009_def on_chain_6010_def on_chain_6011_def on_chain_6012_def on_chain_6013_def on_chain_6014_def on_chain_6015_def
  on_chain_6016_def on_chain_6017_def on_chain_6018_def on_chain_6019_def on_chain_6020_def on_chain_6021_def on_chain_6022_def on_chain_6023_def
  on_chain_6024_def on_chain_6025_def on_chain_6026_def on_chain_6027_def on_chain_6028_def on_chain_6029_def on_chain_6030_def on_chain_6031_def
  on_chain_6032_def on_chain_6033_def on_chain_6034_def on_chain_6035_def on_chain_6036_def on_chain_6037_def on_chain_6038_def on_chain_6039_def
  on_chain_6040_def on_chain_6041_def on_chain_6042_def on_chain_6043_def on_chain_6044_def on_chain_6045_def on_chain_6046_def on_chain_6047_def
  on_chain_6048_def on_chain_6049_def on_chain_6050_def on_chain_6051_def on_chain_6052_def on_chain_6053_def on_chain_6054_def on_chain_6055_def
  on_chain_6056_def on_chain_6057_def on_chain_6058_def on_chain_6059_def on_chain_6060_def on_chain_6061_def on_chain_6062_def on_chain_6063_def
  on_chain_6064_def on_chain_6065_def on_chain_6066_def on_chain_6067_def on_chain_6068_def on_chain_6069_def on_chain_6070_def on_chain_6071_def
  on_chain_6072_def on_chain_6073_def on_chain_6074_def on_chain_6075_def on_chain_6076_def on_chain_6077_def on_chain_6078_def on_chain_6079_def
  on_chain_6080_def on_chain_6081_def on_chain_6082_def on_chain_6083_def on_chain_6084_def on_chain_6085_def on_chain_6086_def on_chain_6087_def

lemmas sdk_entries =
  sdk_NETWORK_ERROR_def sdk_RPC_ERROR_def sdk_SIMULATION_FAILED_def sdk_DRAIN_DETECTED_def sdk_INTENT_VALIDATION_FAILED_def sdk_INTENT_EXPIRED_def sdk_PROTOCOL_NOT_SUPPORTED_def sdk_ADAPTER_VERIFICATION_FAILED_def
  sdk_PRECHECK_FAILED_def sdk_EXECUTION_FAILED_def sdk_TRANSACTION_TIMEOUT_def sdk_CONFIRMATION_TIMEOUT_def sdk_INSUFFICIENT_FUNDS_def sdk_SLIPPAGE_EXCEEDED_def sdk_TEE_VERIFICATION_FAILED_def sdk_SHIELD_DENIED_def
  sdk_SIMULATION_TIMEOUT_def sdk_BLOCKHASH_EXPIRED_def sdk_CODAMA_DECODE_FAILED_def sdk_CODAMA_VERSION_MISMATCH_def sdk_COMPAT_BRIDGE_FAILED_def sdk_INTENT_DRIFT_DETECTED_def sdk_VELOCITY_EXCEEDED_def sdk_AGENT_DEFENSE_TRIGGERED_def
  sdk_X402_PARSE_ERROR_def sdk_X402_PAYMENT_DENIED_def sdk_X402_UNSUPPORTED_def sdk_X402_DESTINATION_BLOCKED_def sdk_X402_REPLAY_DETECTED_def sdk_X402_AMOUNT_SUSPICIOUS_def sdk_X402_FACILITATOR_UNTRUSTED_def sdk_X402_CONNECTION_REQUIRED_def
  sdk_X402_SETTLEMENT_FAILED_def sdk_TX_SIZE_OVERFLOW_def

lemma on_chain_codes: "map fst ON_CHAIN_ERROR_MAP = [6000..6087]"
  by (simp add: ON_CHAIN_ERROR_MAP_def upto.simps)

lemma on_chain_names: "map (em_name \<circ> snd) ON_CHAIN_ERROR_MAP = SigilError_variants"
  by (simp only: ON_CHAIN_ERROR_MAP_def SigilError_variants_def on_chain_entries list.map comp_def snd_conv error_mapping_fields)

lemma on_chain_delay: "list_all (\<lambda>(c, e). em_retry_after_ms e \<noteq> None \<longrightarrow> em_retryable e) ON_CHAIN_ERROR_MAP"
  by (simp only: ON_CHAIN_ERROR_MAP_def on_chain_entries list.pred_inject split_conv error_mapping_fields)
    simp

lemma sdk_names: "map snd SDK_ERROR_CODES = map fst SDK_ERRORS"
  by (simp only: SDK_ERROR_CODES_def SDK_ERRORS_def list.map fst_conv snd_conv)

lemma sdk_codes: "map fst SDK_ERROR_CODES = [7000..7033]"
  by (simp add: SDK_ERROR_CODES_def upto.simps)

lemma sdk_names_distinct: "distinct (map snd SDK_ERROR_CODES)"
  by (simp add: SDK_ERROR_CODES_def)

lemma sdk_delay: "list_all (\<lambda>(n, e). em_retry_after_ms e \<noteq> None \<longrightarrow> em_retryable e) SDK_ERRORS"
  by (simp only: SDK_ERRORS_def sdk_entries list.pred_inject split_conv error_mapping_fields)
    simp

end
