(* ===== verification/JsErrors.thy ===== *)
theory JsErrors
  imports SdkTypes
begin

text \<open>
  Thrown values and what the SDK reads of them: JavaScript values as trees, the structural transport
  classification and the redaction of \<open>sdk/kit/src/network-errors.ts\<close>, the error class of
  \<open>sdk/kit/src/errors/base.ts\<close> and the cause-chain walk of \<open>sdk/kit/src/errors/walk.ts\<close>.

  Numbers carried by an error (codes, status codes) are integers or NaN. Values are trees, so a cause
  chain has no cycle and the visited sets of the source never decide anything; proxies and throwing
  getters, against which the source guards every access, have no counterpart.
\<close>

section \<open>Values\<close>

datatype js_class = PlainObject | ErrorClass | TypeErrorClass | AggregateErrorClass | DOMExceptionClass

datatype jsv =
    JsUndefined
  | JsNull
  | JsBool bool
  | JsNum "int option"
  | JsBig int
  | JsStr string
  | JsArr "jsv list"
  | JsObj js_class "(string \<times> jsv) list"

fun js_truthy :: "jsv \<Rightarrow> bool" where
  "js_truthy JsUndefined = False"
| "js_truthy JsNull = False"
| "js_truthy (JsBool b) = b"
| "js_truthy (JsNum n) = (n \<noteq> None \<and> n \<noteq> Some 0)"
| "js_truthy (JsBig n) = (n \<noteq> 0)"
| "js_truthy (JsStr s) = (s \<noteq> [])"
| "js_truthy (JsArr vs) = True"
| "js_truthy (JsObj c ps) = True"

fun js_typeof :: "jsv \<Rightarrow> string" where
  "js_typeof JsUndefined = ''undefined''"
| "js_typeof JsNull = ''object''"
| "js_typeof (JsBool b) = ''boolean''"
| "js_typeof (JsNum n) = ''number''"
| "js_typeof (JsBig n) = ''bigint''"
| "js_typeof (JsStr s) = ''string''"
| "js_typeof (JsArr vs) = ''object''"
| "js_typeof (JsObj c ps) = ''object''"

text \<open>\<open>v && typeof v === "object"\<close>, and \<open>v instanceof Error\<close>: the three other classes extend it.\<close>

definition js_isObject :: "jsv \<Rightarrow> bool" where
  "js_isObject v = (case v of JsArr _ \<Rightarrow> True | JsObj _ _ \<Rightarrow> True | _ \<Rightarrow> False)"

definition js_isError :: "jsv \<Rightarrow> bool" where
  "js_isError v = (case v of JsObj c _ \<Rightarrow> c \<noteq> PlainObject | _ \<Rightarrow> False)"

definition js_instanceOf :: "jsv \<Rightarrow> js_class \<Rightarrow> bool" where
  "js_instanceOf v cls = (case v of JsObj c _ \<Rightarrow> c = cls | _ \<Rightarrow> False)"

fun class_name :: "js_class \<Rightarrow> string" where
  "class_name PlainObject = ''Object''"
| "class_name ErrorClass = ''Error''"
| "class_name TypeErrorClass = ''TypeError''"
| "class_name AggregateErrorClass = ''AggregateError''"
| "class_name DOMExceptionClass = ''Error''"

text \<open>
  A property and whether it is there: \<open>Error.prototype\<close> supplies \<open>message\<close> and the class its \<open>name\<close>
  to errors that do not carry their own.
\<close>

definition js_prop :: "jsv \<Rightarrow> string \<Rightarrow> jsv option" where
  "js_prop v k =
     (case v of
        JsObj c ps \<Rightarrow>
          (case map_of ps k of
             Some x \<Rightarrow> Some x
           | None \<Rightarrow>
               if c = PlainObject then None
               else if k = ''message'' then Some (JsStr [])
               else if k = ''name'' then Some (JsStr (class_name c))
               else None)
      | _ \<Rightarrow> None)"

definition js_get :: "jsv \<Rightarrow> string \<Rightarrow> jsv" where
  "js_get v k = (case js_prop v k of Some x \<Rightarrow> x | None \<Rightarrow> JsUndefined)"

definition show_num :: "int option \<Rightarrow> string" where
  "show_num n = (case n of None \<Rightarrow> ''NaN'' | Some i \<Rightarrow> show_int i)"

text \<open>\<open>String(v)\<close>; the \<open>name\<close> and \<open>message\<close> of an error are strings.\<close>

definition str_or_empty :: "jsv \<Rightarrow> string" where
  "str_or_empty v = (case v of JsStr s \<Rightarrow> s | _ \<Rightarrow> [])"

fun js_join :: "string list \<Rightarrow> string" where
  "js_join [] = []"
| "js_join [s] = s"
| "js_join (s # ss) = s @ '','' @ js_join ss"

fun js_String :: "jsv \<Rightarrow> string" where
  "js_String JsUndefined = ''undefined''"
| "js_String JsNull = ''null''"
| "js_String (JsBool b) = (if b then ''true'' else ''false'')"
| "js_String (JsNum n) = show_num n"
| "js_String (JsBig n) = show_int n"
| "js_String (JsStr s) = s"
| "js_String (JsArr vs) = js_join (map (\<lambda>v. if v = JsUndefined \<or> v = JsNull then [] else js_String v) vs)"
| "js_String (JsObj c ps) =
     (if c = PlainObject then ''[object Object]''
      else
        let name = str_or_empty (js_get (JsObj c ps) ''name''); message = str_or_empty (js_get (JsObj c ps) ''message'')
        in if name = [] then message else if message = [] then name else name @ '': '' @ message)"

definition js_error_of :: "string \<Rightarrow> jsv" where
  "js_error_of message = JsObj ErrorClass [(''message'', JsStr message)]"

section \<open>network-errors.ts\<close>

definition PROVIDER_DENIAL_NAMES :: "string list" where
  "PROVIDER_DENIAL_NAMES = [''ProviderDeniedError'', ''CustodyDeniedError'', ''UnauthorizedError'', ''ForbiddenError'']"

definition TRANSPORT_CODES :: "string list" where
  "TRANSPORT_CODES =
    [''ECONNREFUSED'', ''ECONNRESET'', ''ETIMEDOUT'', ''ENOTFOUND'', ''EAI_AGAIN'', ''ENETUNREACH'', ''EPIPE'',
     ''UND_ERR_CONNECT_TIMEOUT'', ''UND_ERR_HEADERS_TIMEOUT'', ''UND_ERR_BODY_TIMEOUT'', ''UND_ERR_SOCKET'',
     ''UND_ERR_ABORTED'',
     ''CERT_HAS_EXPIRED'', ''UNABLE_TO_VERIFY_LEAF_SIGNATURE'', ''DEPTH_ZERO_SELF_SIGNED_CERT'',
     ''ERR_TLS_CERT_ALTNAME_INVALID'',
     ''ERR_HTTP2_STREAM_ERROR'', ''ERR_HTTP2_SESSION_ERROR'', ''ERR_HTTP2_GOAWAY_SESSION'',
     ''HTTP_5XX'']"

definition TRANSPORT_CAUSE_NAMES :: "string list" where
  "TRANSPORT_CAUSE_NAMES = [''ConnectTimeoutError'', ''HeadersTimeoutError'', ''BodyTimeoutError'', ''SocketError'']"

definition safeGetName :: "jsv \<Rightarrow> string option" where
  "safeGetName v = (case js_prop v ''name'' of Some (JsStr n) \<Rightarrow> Some n | _ \<Rightarrow> None)"

definition safeGetCause :: "jsv \<Rightarrow> jsv" where
  "safeGetCause v = js_get v ''cause''"

definition safeGetCode :: "jsv \<Rightarrow> string option" where
  "safeGetCode v =
     (case js_prop v ''code'' of
        Some (JsStr c) \<Rightarrow> Some c
      | Some (JsNum n) \<Rightarrow> Some (show_num n)
      | Some (JsBig n) \<Rightarrow> Some (show_int n)
      | _ \<Rightarrow> None)"

definition safeGetStatusCode :: "jsv \<Rightarrow> int option" where
  "safeGetStatusCode v =
     (case js_prop v ''statusCode'' of
        Some (JsNum (Some n)) \<Rightarrow> Some n
      | _ \<Rightarrow> (case js_prop v ''status'' of Some (JsNum (Some n)) \<Rightarrow> Some n | _ \<Rightarrow> None))"

text \<open>The signals read from one error that is neither a \<open>DOMException\<close> nor an \<open>AggregateError\<close>.\<close>

definition transport_signals :: "jsv \<Rightarrow> bool" where
  "transport_signals err =
     (let name = safeGetName err; cause = safeGetCause err
      in js_isError err
         \<and> (name = Some ''AbortError'' \<or> name = Some ''TimeoutError''
            \<or> (cause \<noteq> JsUndefined \<and> cause \<noteq> JsNull
                \<and> ((case safeGetName cause of Some n \<Rightarrow> n \<in> set TRANSPORT_CAUSE_NAMES | None \<Rightarrow> False)
                   \<or> (case safeGetCode cause of Some c \<Rightarrow> c \<in> set TRANSPORT_CODES | None \<Rightarrow> False)))
            \<or> (case safeGetCode err of Some c \<Rightarrow> c \<in> set TRANSPORT_CODES | None \<Rightarrow> False)
            \<or> (case safeGetStatusCode err of Some n \<Rightarrow> 500 \<le> n \<and> n < 600 | None \<Rightarrow> False)
            \<or> (js_instanceOf err TypeErrorClass \<and> cause = JsUndefined \<and> js_get err ''message'' = JsStr ''fetch failed'')))"

definition wrapped_errors :: "jsv \<Rightarrow> jsv list" where
  "wrapped_errors err = (case js_prop err ''errors'' of Some (JsArr es) \<Rightarrow> es | _ \<Rightarrow> [])"

lemma wrapped_errors_smaller: "e \<in> set (wrapped_errors err) \<Longrightarrow> size e < size err"
proof (cases err)
  case (JsObj c ps)
  assume "e \<in> set (wrapped_errors err)"
  then obtain es where es: "map_of ps ''errors'' = Some (JsArr es)" "e \<in> set es"
    by (auto simp: JsObj wrapped_errors_def js_prop_def split: option.splits jsv.splits if_splits)
  have "size e < size (JsArr es)" using es(2) size_list_estimation' [of e es "size e" size] by simp
  also have "size (JsArr es) \<le> size_prod (\<lambda>_. 0) size (''errors'', JsArr es)" by simp
  also have "\<dots> \<le> size_list (size_prod (\<lambda>_. 0) size) ps"
    using map_of_SomeD [OF es(1)] by (intro size_list_estimation') auto
  finally show ?thesis by (simp add: JsObj)
qed (simp_all add: wrapped_errors_def js_prop_def)

function isTransportError :: "jsv \<Rightarrow> bool" where
  "isTransportError err =
     (if err = JsNull \<or> err = JsUndefined then False
      else if (case safeGetName err of Some n \<Rightarrow> n \<in> set PROVIDER_DENIAL_NAMES | None \<Rightarrow> False) then False
      else if js_instanceOf err DOMExceptionClass
        then safeGetName err = Some ''AbortError'' \<or> safeGetName err = Some ''TimeoutError''
      else if js_instanceOf err AggregateErrorClass then list_ex isTransportError (wrapped_errors err)
      else transport_signals err)"
  by pat_completeness auto
termination
  by (relation "measure size") (auto dest: wrapped_errors_smaller)

declare isTransportError.simps [simp del]

record RedactedCause =
  rc_name :: "string option"
  rc_message :: "string option"
  rc_code :: "string option"

definition MAX_CAUSE_WALK_DEPTH :: nat where "MAX_CAUSE_WALK_DEPTH = 16"

text \<open>The loop over the cause chain; the number is the iterations that remain.\<close>

fun cause_code :: "nat \<Rightarrow> jsv \<Rightarrow> string option" where
  "cause_code 0 current = None"
| "cause_code (Suc n) current =
     (if \<not> js_isObject current then None
      else
        let nextCause = safeGetCause current
        in if nextCause = JsUndefined \<or> nextCause = JsNull then None
           else case safeGetCode nextCause of Some c \<Rightarrow> Some c | None \<Rightarrow> cause_code n nextCause)"

definition redactCause :: "jsv \<Rightarrow> RedactedCause" where
  "redactCause err =
     (case err of
        JsStr s \<Rightarrow> \<lparr>rc_name = None, rc_message = Some (take 200 s), rc_code = None\<rparr>
      | JsNum n \<Rightarrow> \<lparr>rc_name = None, rc_message = None, rc_code = Some (show_num n)\<rparr>
      | JsBig n \<Rightarrow> \<lparr>rc_name = None, rc_message = None, rc_code = Some (show_int n)\<rparr>
      | _ \<Rightarrow>
          if \<not> js_isObject err then \<lparr>rc_name = None, rc_message = None, rc_code = None\<rparr>
          else
            \<lparr>rc_name = safeGetName err,
             rc_message =
               (case js_prop err ''message'' of
                  Some (JsStr m) \<Rightarrow> Some (take 200 m)
                | Some JsUndefined \<Rightarrow> None
                | Some JsNull \<Rightarrow> None
                | Some m \<Rightarrow> Some (''<non-string '' @ js_typeof m @ ''>'')
                | None \<Rightarrow> None),
             rc_code =
               (case safeGetCode err of
                  Some c \<Rightarrow> Some c
                | None \<Rightarrow> cause_code MAX_CAUSE_WALK_DEPTH err)\<rparr>)"

section \<open>errors/base.ts\<close>

definition SIGIL_KIT_VERSION :: string where "SIGIL_KIT_VERSION = ''0.4.0''"

definition ellipsis :: string where "ellipsis = [CHR 0xE2, CHR 0x80, CHR 0xA6]"

definition sigil_truncate :: "string \<Rightarrow> nat \<Rightarrow> string" where
  "sigil_truncate s mx = (if length s > mx then take mx s @ ellipsis else s)"

text \<open>\<open>instanceof SigilError\<close>: the class gives every instance a \<open>shortMessage\<close>.\<close>

definition is_SigilError :: "jsv \<Rightarrow> bool" where
  "is_SigilError v \<longleftrightarrow> js_isError v \<and> js_prop v ''shortMessage'' \<noteq> None"

definition extractDetails :: "jsv \<Rightarrow> string" where
  "extractDetails cause =
     (if cause = JsUndefined then []
      else if is_SigilError cause
        then (case js_get cause ''details'' of
                JsStr d \<Rightarrow> if d \<noteq> [] then d else str_or_empty (js_get cause ''shortMessage'')
              | _ \<Rightarrow> str_or_empty (js_get cause ''shortMessage''))
      else if js_isError cause then sigil_truncate (str_or_empty (js_get cause ''message'')) 500
      else case cause of JsStr s \<Rightarrow> sigil_truncate s 500 | _ \<Rightarrow> [])"

definition extractDocsPath :: "jsv \<Rightarrow> jsv" where
  "extractDocsPath cause = (if is_SigilError cause then js_get cause ''docsPath'' else JsUndefined)"

fun join_lines :: "string list \<Rightarrow> string" where
  "join_lines [] = []"
| "join_lines [l] = l"
| "join_lines (l # ls) = l @ [CHR 0x0A] @ join_lines ls"

definition formatMessage :: "string \<Rightarrow> string list option \<Rightarrow> jsv \<Rightarrow> string \<Rightarrow> string" where
  "formatMessage shortMessage metaMessages docsPath details =
     join_lines
       ([shortMessage]
        @ (case metaMessages of Some ms \<Rightarrow> if length ms > 0 then [] # ms else [] | None \<Rightarrow> [])
        @ (case docsPath of JsStr p \<Rightarrow> if p \<noteq> [] then [[], ''Docs: https://docs.sigil.trade'' @ p] else [] | _ \<Rightarrow> [])
        @ (if details \<noteq> [] \<and> details \<noteq> shortMessage then [[], ''Details: '' @ details] else [])
        @ [[], ''Version: @usesigil/kit@'' @ SIGIL_KIT_VERSION])"

record SigilErrorParameters =
  sp_cause :: jsv
  sp_metaMessages :: "string list option"
  sp_docsPath :: "string option"
  sp_context :: jsv

definition new_SigilError :: "string \<Rightarrow> string \<Rightarrow> SigilErrorParameters \<Rightarrow> jsv" where
  "new_SigilError code shortMessage args =
     (let details = extractDetails (sp_cause args);
          docsPath = (case sp_docsPath args of Some p \<Rightarrow> JsStr p | None \<Rightarrow> extractDocsPath (sp_cause args))
      in JsObj ErrorClass
           [(''message'', JsStr (formatMessage shortMessage (sp_metaMessages args) docsPath details)),
            (''code'', JsStr code), (''shortMessage'', JsStr shortMessage), (''details'', JsStr details),
            (''version'', JsStr SIGIL_KIT_VERSION),
            (''metaMessages'', (case sp_metaMessages args of Some ms \<Rightarrow> JsArr (map JsStr ms) | None \<Rightarrow> JsUndefined)),
            (''docsPath'', docsPath), (''context'', sp_context args), (''cause'', sp_cause args),
            (''name'', JsStr ''SigilError'')])"

section \<open>errors/walk.ts\<close>

definition MAX_WALK_DEPTH :: nat where "MAX_WALK_DEPTH = 32"

text \<open>Each walk gives its result and whether the depth fuse tripped (the one-shot warning's trigger).\<close>

function walkPredicate :: "(jsv \<Rightarrow> bool) \<Rightarrow> jsv \<Rightarrow> nat \<Rightarrow> jsv option \<times> bool" where
  "walkPredicate fn err depth =
     (if depth \<ge> MAX_WALK_DEPTH then (None, True)
      else if fn err then (Some (if js_isError err then err else js_error_of (js_String err)), False)
      else if js_isError err \<and> js_get err ''cause'' \<noteq> JsUndefined
        then walkPredicate fn (js_get err ''cause'') (depth + 1)
      else (None, False))"
  by pat_completeness auto
termination
  by (relation "measure (\<lambda>(fn, err, depth). MAX_WALK_DEPTH - depth)") (auto simp: MAX_WALK_DEPTH_def)

function walkRoot :: "jsv \<Rightarrow> nat \<Rightarrow> jsv \<times> bool" where
  "walkRoot err depth =
     (if \<not> js_isError err then (js_error_of (case err of JsStr s \<Rightarrow> s | _ \<Rightarrow> ''non-Error cause''), False)
      else if depth \<ge> MAX_WALK_DEPTH then (err, True)
      else if js_get err ''cause'' \<noteq> JsUndefined then walkRoot (js_get err ''cause'') (depth + 1)
      else (err, False))"
  by pat_completeness auto
termination
  by (relation "measure (\<lambda>(err, depth). MAX_WALK_DEPTH - depth)") (auto simp: MAX_WALK_DEPTH_def)

declare walkPredicate.simps [simp del] walkRoot.simps [simp del]

section \<open>Properties\<close>

lemma js_cause_smaller: "js_get err ''cause'' \<noteq> JsUndefined \<Longrightarrow> size (js_get err ''cause'') < size err"
proof (cases err)
  case (JsObj c ps)
  assume "js_get err ''cause'' \<noteq> JsUndefined"
  then obtain v where v: "map_of ps ''cause'' = Some v" "js_get err ''cause'' = v"
    by (auto simp: JsObj js_get_def js_prop_def split: option.splits if_splits)
  have "size v \<le> size_list (size_prod (\<lambda>_. 0) size) ps"
    using map_of_SomeD [OF v(1)] by (intro size_list_estimation') auto
  then show ?thesis unfolding v(2) unfolding JsObj by simp
qed (simp_all add: js_get_def js_prop_def)

text \<open>The chain a walk follows: the error, then the cause of each \<open>Error\<close> that has one.\<close>

function cause_chain :: "jsv \<Rightarrow> jsv list" where
  "cause_chain err =
     err # (if js_isError err \<and> js_get err ''cause'' \<noteq> JsUndefined then cause_chain (js_get err ''cause'') else [])"
  by pat_completeness auto
termination
  by (relation "measure size") (auto intro: js_cause_smaller)

declare cause_chain.simps [simp del]

definition as_error :: "jsv \<Rightarrow> jsv" where
  "as_error e = (if js_isError e then e else js_error_of (js_String e))"

text \<open>
  Walking a cause chain with a predicate ends and finds the first of its first 32 links the predicate
  accepts, wrapped when it is no \<open>Error\<close>; the depth fuse trips exactly when none of them is accepted
  and the chain is longer.
\<close>
theorem walk_finds_first:
  "walkPredicate fn err 0 =
     (case find fn (take 32 (cause_chain err)) of
        Some e \<Rightarrow> (Some (as_error e), False)
      | None \<Rightarrow> (None, length (cause_chain err) > 32))"
proof -
  have "walkPredicate fn err d =
     (case find fn (take (32 - d) (cause_chain err)) of
        Some e \<Rightarrow> (Some (as_error e), False)
      | None \<Rightarrow> (None, length (cause_chain err) > 32 - d))" if "d \<le> 32" for d
    using that
  proof (induction "32 - d" arbitrary: d err)
    case 0
    then show ?case by (subst walkPredicate.simps, subst cause_chain.simps) (simp add: MAX_WALK_DEPTH_def)
  next
    case (Suc n)
    then have d: "\<not> MAX_WALK_DEPTH \<le> d" "32 - d = Suc n" by (simp_all add: MAX_WALK_DEPTH_def)
    have "n = 32 - Suc d" "Suc d \<le> 32" using Suc.hyps(2) by simp_all
    note ih = Suc.hyps(1) [OF this, folded this(1)]
    show ?case
      unfolding d(2) walkPredicate.simps [of fn err d] cause_chain.simps [of err]
      by (cases "js_isError err \<and> js_get err ''cause'' \<noteq> JsUndefined") (auto simp: d(1) ih as_error_def split: option.split)
  qed
  from this [of 0] show ?thesis by (simp only: minus_nat.diff_0 le0)
qed

text \<open>The redacted message is short whatever was thrown.\<close>

lemma js_typeof_short: "length (js_typeof v) \<le> 9"
  by (cases v) simp_all

lemma redacted_message_bounded:
  assumes "rc_message (redactCause err) = Some m"
  shows "length m \<le> 200"
  using assms js_typeof_short
  by (auto simp: redactCause_def split: jsv.splits if_splits option.splits intro: le_trans)

text \<open>A provider's denial is never taken for a transport failure, alone or inside an aggregate.\<close>

lemma denial_not_transport:
  assumes "safeGetName err = Some n" "n \<in> set PROVIDER_DENIAL_NAMES"
  shows "\<not> isTransportError err"
  using assms by (subst isTransportError.simps) simp

lemma aggregate_transport_iff:
  assumes "js_instanceOf err AggregateErrorClass" "\<forall>n. safeGetName err = Some n \<longrightarrow> n \<notin> set PROVIDER_DENIAL_NAMES"
  shows "isTransportError err \<longleftrightarrow> (\<exists>e \<in> set (wrapped_errors err). isTransportError e)"
  using assms
  by (subst isTransportError.simps) (auto simp: js_instanceOf_def list_ex_iff split: jsv.splits option.splits)

end
