(* ===== verification/AgentErrors.thy ===== *)
theory AgentErrors
  imports ErrorTables JsErrors JsDouble "HOL-Library.AList"
begin

text \<open>
  The normalisation of errors: \<open>toAgentError\<close>, \<open>toSigilAgentError\<close> and the typed categories of
  \<open>sdk/kit/src/agent-errors.ts\<close>, and the numeric codes, categories and \<open>toDxError\<close> of
  \<open>sdk/kit/src/dashboard/errors.ts\<close>, over the values of \<open>JsErrors\<close> and the tables of \<open>ErrorTables\<close>.
  Object literals are looked up by their own keys; a code that names a member of \<open>Object.prototype\<close>
  is outside the model.
\<close>

section \<open>Agent errors\<close>

fun category_name :: "ErrorCategory \<Rightarrow> string" where
  "category_name INPUT_VALIDATION = ''INPUT_VALIDATION''"
| "category_name TRANSIENT = ''TRANSIENT''"
| "category_name RATE_LIMIT = ''RATE_LIMIT''"
| "category_name PERMISSION = ''PERMISSION''"
| "category_name RESOURCE_NOT_FOUND = ''RESOURCE_NOT_FOUND''"
| "category_name SPENDING_CAP = ''SPENDING_CAP''"
| "category_name POLICY_VIOLATION = ''POLICY_VIOLATION''"
| "category_name PROTOCOL_NOT_SUPPORTED = ''PROTOCOL_NOT_SUPPORTED''"
| "category_name ESCALATION_REQUIRED = ''ESCALATION_REQUIRED''"
| "category_name FATAL = ''FATAL''"

text \<open>
  An \<open>AgentError\<close> may come from outside (\<open>isAgentError\<close> only looks at the types of its fields), so
  its category is a string and its recovery actions are arbitrary values.
\<close>

record AgentError =
  ae_code :: string
  ae_message :: string
  ae_category :: string
  ae_retryable :: bool
  ae_retry_after_ms :: jsv
  ae_recovery_actions :: "jsv list"
  ae_context :: "(string \<times> jsv) list"

definition action_value :: "RecoveryAction \<Rightarrow> jsv" where
  "action_value a = JsObj PlainObject
     ([(''action'', JsStr (ra_action a)), (''description'', JsStr (ra_description a))]
      @ (case ra_tool a of Some t \<Rightarrow> [(''tool'', JsStr t)] | None \<Rightarrow> []))"

text \<open>\<open>{...context, k: v}\<close>.\<close>

definition with_key :: "(string \<times> jsv) list \<Rightarrow> string \<Rightarrow> jsv \<Rightarrow> (string \<times> jsv) list" where
  "with_key ps k v = AList.update k v ps"

definition from_mapping :: "string \<Rightarrow> ErrorMapping \<Rightarrow> (string \<times> jsv) list \<Rightarrow> AgentError" where
  "from_mapping code mapping context =
     \<lparr>ae_code = code, ae_message = em_message mapping, ae_category = category_name (em_category mapping),
      ae_retryable = em_retryable mapping,
      ae_retry_after_ms = (case em_retry_after_ms mapping of Some d \<Rightarrow> JsNum (Some d) | None \<Rightarrow> JsUndefined),
      ae_recovery_actions = map action_value (em_recovery_actions mapping), ae_context = context\<rparr>"

fun as_AgentError :: "jsv \<Rightarrow> AgentError option" where
  "as_AgentError v =
     (if \<not> js_truthy v \<or> js_typeof v \<noteq> ''object'' then None
      else
        case (js_get v ''code'', js_get v ''message'', js_get v ''category'', js_get v ''retryable'',
              js_get v ''recovery_actions'', js_get v ''context'') of
          (JsStr code, JsStr message, JsStr category, JsBool retryable, JsArr actions, context) \<Rightarrow>
            (case context of
               JsObj _ ps \<Rightarrow> Some \<lparr>ae_code = code, ae_message = message, ae_category = category, ae_retryable = retryable,
                 ae_retry_after_ms = js_get v ''retry_after_ms'', ae_recovery_actions = actions, ae_context = ps\<rparr>
             | JsArr _ \<Rightarrow> Some \<lparr>ae_code = code, ae_message = message, ae_category = category, ae_retryable = retryable,
                 ae_retry_after_ms = js_get v ''retry_after_ms'', ae_recovery_actions = actions, ae_context = []\<rparr>
             | _ \<Rightarrow> None)
        | _ \<Rightarrow> None)"

definition isAgentError :: "jsv \<Rightarrow> bool" where
  "isAgentError v \<longleftrightarrow> as_AgentError v \<noteq> None"

declare as_AgentError.simps [simp del]

section \<open>Extraction\<close>

text \<open>
  \<open>message.match(/custom program error: 0x([0-9a-fA-F]+)/)\<close>: the digits after the first place where
  the literal is followed by at least one of them.
\<close>

definition custom_error_literal :: string where
  "custom_error_literal = ''custom program error: 0x''"

fun match_custom_error :: "string \<Rightarrow> string option" where
  "match_custom_error [] = None"
| "match_custom_error (c # cs) =
     (if startsWith (c # cs) custom_error_literal
         \<and> takeWhile is_hex_digit (drop (length custom_error_literal) (c # cs)) \<noteq> []
      then Some (takeWhile is_hex_digit (drop (length custom_error_literal) (c # cs)))
      else match_custom_error cs)"

definition in_on_chain_range :: "int \<Rightarrow> bool" where
  "in_on_chain_range code \<longleftrightarrow> 6000 \<le> code \<and> code \<le> 6087"

definition extract_from_message :: "jsv \<Rightarrow> int option option" where
  "extract_from_message e =
     (case js_get e ''message'' of
        JsStr m \<Rightarrow>
          (case match_custom_error m of
             Some ds \<Rightarrow>
               (let code = int (digits_val 16 hex_val ds 0) in if in_on_chain_range code then Some (Some code) else None)
           | None \<Rightarrow> None)
      | _ \<Rightarrow> None)"

definition anchor_code :: "jsv \<Rightarrow> int option option" where
  "anchor_code e =
     (let inner = js_get e ''error''; ec = js_get inner ''errorCode''
      in if js_isObject inner \<and> js_isObject ec then (case js_get ec ''number'' of JsNum n \<Rightarrow> Some n | _ \<Rightarrow> None)
         else None)"

definition direct_code :: "jsv \<Rightarrow> (int \<Rightarrow> bool) \<Rightarrow> int option" where
  "direct_code e ok = (case js_get e ''code'' of JsNum (Some n) \<Rightarrow> if ok n then Some n else None | _ \<Rightarrow> None)"

text \<open>The outer option is \<open>null\<close>, the inner one a NaN carried by an Anchor error.\<close>

definition extractErrorCode :: "jsv \<Rightarrow> int option option" where
  "extractErrorCode e =
     (if \<not> js_isObject e then None
      else
        case direct_code e in_on_chain_range of
          Some n \<Rightarrow> Some (Some n)
        | None \<Rightarrow> (case anchor_code e of Some n \<Rightarrow> Some n | None \<Rightarrow> extract_from_message e))"

definition extractSdkCode :: "jsv \<Rightarrow> int option" where
  "extractSdkCode e = (if \<not> js_isObject e then None else direct_code e (\<lambda>n. 7000 \<le> n \<and> n \<le> 7033))"

definition extractMessage :: "jsv \<Rightarrow> string" where
  "extractMessage e =
     (if \<not> js_truthy e then []
      else case e of
          JsStr s \<Rightarrow> s
        | _ \<Rightarrow>
            if js_isError e then str_or_empty (js_get e ''message'')
            else if js_isObject e then (case js_get e ''message'' of JsStr m \<Rightarrow> m | _ \<Rightarrow> js_String e)
            else js_String e)"

section \<open>toAgentError\<close>

definition fromSdkMapping :: "string \<Rightarrow> (string \<times> jsv) list \<Rightarrow> string \<Rightarrow> AgentError option" where
  "fromSdkMapping code context originalMessage =
     map_option
       (\<lambda>mapping. from_mapping code mapping
          (with_key (with_key context ''error_name'' (JsStr (em_name mapping))) ''original_message'' (JsStr originalMessage)))
       (map_of SDK_ERRORS code)"

definition on_chain_agent_error :: "int option \<Rightarrow> (string \<times> jsv) list \<Rightarrow> AgentError" where
  "on_chain_agent_error onChainCode context =
     (case Option.bind onChainCode (map_of ON_CHAIN_ERROR_MAP) of
        Some mapping \<Rightarrow>
          from_mapping (show_num onChainCode) mapping
            (with_key (with_key context ''error_name'' (JsStr (em_name mapping))) ''on_chain_code'' (JsNum onChainCode))
      | None \<Rightarrow>
          \<lparr>ae_code = show_num onChainCode, ae_message = ''Unknown on-chain error code '' @ show_num onChainCode,
           ae_category = ''FATAL'', ae_retryable = False, ae_retry_after_ms = JsUndefined, ae_recovery_actions = [],
           ae_context = with_key context ''on_chain_code'' (JsNum onChainCode)\<rparr>)"

text \<open>The SDK code the message patterns select; \<open>None\<close> when none matches.\<close>

definition message_class :: "string \<Rightarrow> string option" where
  "message_class message =
     (let has = str_includes message
      in if has ''429'' \<or> has ''rate limit'' then Some ''RPC_ERROR''
         else if has ''fetch'' \<or> has ''ECONNREFUSED'' \<or> has ''ETIMEDOUT'' \<or> has ''network'' then Some ''NETWORK_ERROR''
         else if has ''blockhash'' \<and> has ''not found'' then Some ''EXECUTION_FAILED''
         else if has ''simulation'' \<or> has ''SimulateTransaction'' then Some ''SIMULATION_FAILED''
         else if has ''Precheck failed'' then Some ''PRECHECK_FAILED''
         else if has ''adapter'' \<and> has ''verif'' then Some ''ADAPTER_VERIFICATION_FAILED''
         else None)"

definition unknown_error :: "string \<Rightarrow> (string \<times> jsv) list \<Rightarrow> AgentError" where
  "unknown_error message context =
     \<lparr>ae_code = ''UNKNOWN'', ae_message = (if message \<noteq> [] then message else ''An unknown error occurred''),
      ae_category = ''FATAL'', ae_retryable = False, ae_retry_after_ms = JsUndefined, ae_recovery_actions = [],
      ae_context = with_key context ''original_error'' (JsStr message)\<rparr>"

text \<open>\<open>None\<close> is the TypeError of reading a mapping that is not there.\<close>

definition message_agent_error :: "jsv \<Rightarrow> (string \<times> jsv) list \<Rightarrow> AgentError option" where
  "message_agent_error error context =
     (let message = extractMessage error
      in case message_class message of
           Some code \<Rightarrow> fromSdkMapping code context message
         | None \<Rightarrow> Some (unknown_error message context))"

definition toAgentError :: "jsv \<Rightarrow> (string \<times> jsv) list \<Rightarrow> AgentError option" where
  "toAgentError error extraContext =
     (case as_AgentError error of
        Some e \<Rightarrow> Some e
      | None \<Rightarrow>
          (case extractErrorCode error of
             Some onChainCode \<Rightarrow> Some (on_chain_agent_error onChainCode extraContext)
           | None \<Rightarrow>
               (case Option.bind (extractSdkCode error)
                       (\<lambda>n. map_option (\<lambda>sdkName. (n, sdkName)) (map_of SDK_ERROR_CODES n)) of
                  Some (sdkNumericCode, sdkName) \<Rightarrow>
                    map_option
                      (\<lambda>mapping. from_mapping sdkName mapping
                         (with_key (with_key extraContext ''error_name'' (JsStr (em_name mapping)))
                            ''sdk_code'' (JsNum (Some sdkNumericCode))))
                      (map_of SDK_ERRORS sdkName)
                | None \<Rightarrow> message_agent_error error extraContext)))"

definition protocolEscalationError :: "string \<Rightarrow> string list \<Rightarrow> jsv list option \<Rightarrow> AgentError" where
  "protocolEscalationError message requiredActions alternatives =
     (let action = (\<lambda>a d. JsObj PlainObject [(''action'', JsStr a), (''description'', JsStr d)])
      in \<lparr>ae_code = ''PROTOCOL_ESCALATION'', ae_message = message, ae_category = ''ESCALATION_REQUIRED'',
          ae_retryable = False, ae_retry_after_ms = JsUndefined,
          ae_recovery_actions =
            [action ''escalate_to_human'' (''TELL THE USER: '' @ message)]
            @ map (action ''required_vault_change'') requiredActions
            @ (case alternatives of
                 Some alts \<Rightarrow>
                   if length alts > 0
                   then [action ''suggest_alternatives_secondary''
                           (''ONLY IF USER AGREES TO SWITCH: '' @ show_nat (length alts) @ '' alternative(s) available'')]
                   else []
               | None \<Rightarrow> []),
          ae_context =
            [(''required_actions'', JsArr (map JsStr requiredActions)),
             (''alternatives'', JsArr (case alternatives of Some alts \<Rightarrow> alts | None \<Rightarrow> [])),
             (''IMPORTANT'',
              JsStr ''Do NOT silently switch to an alternative protocol. The user explicitly requested this protocol.'')]\<rparr>)"

text \<open>\<open>parseInt(s, 10)\<close> and \<open>parseInt(s, 16)\<close> of a string that starts with \<open>0x\<close>; \<open>None\<close> is NaN.\<close>

definition parseInt10 :: "string \<Rightarrow> int option" where
  "parseInt10 str =
     (let s = dropWhile is_js_space str;
          t = (case s of c # cs \<Rightarrow> if c = CHR ''-'' \<or> c = CHR ''+'' then cs else s | [] \<Rightarrow> []);
          ds = takeWhile is_digit t
      in if ds = [] then None
         else Some (if s \<noteq> [] \<and> hd s = CHR ''-'' then - int (dec_val ds) else int (dec_val ds)))"

definition parseInt16_prefixed :: "string \<Rightarrow> int option" where
  "parseInt16_prefixed str =
     (let ds = takeWhile is_hex_digit (drop 2 str) in if ds = [] then None else Some (int (digits_val 16 hex_val ds 0)))"

definition parseOnChainErrorCode :: "int option + string \<Rightarrow> AgentError option" where
  "parseOnChainErrorCode codeOrHex =
     (let code = (case codeOrHex of
                    Inr s \<Rightarrow> if startsWith s ''0x'' \<or> startsWith s ''0X'' then parseInt16_prefixed s else parseInt10 s
                  | Inl n \<Rightarrow> n)
      in Option.bind code (\<lambda>c.
         map_option
           (\<lambda>mapping. from_mapping (show_int c) mapping
              [(''error_name'', JsStr (em_name mapping)), (''on_chain_code'', JsNum (Some c))])
           (map_of ON_CHAIN_ERROR_MAP c)))"

definition getAllOnChainErrorCodes :: "int list" where
  "getAllOnChainErrorCodes = sort (map fst ON_CHAIN_ERROR_MAP)"

definition getAllSdkErrorCodes :: "(int \<times> string) list" where
  "getAllSdkErrorCodes = sort_key fst SDK_ERROR_CODES"

section \<open>Typed categories\<close>

datatype SigilErrorCategory =
    SpendingCategory int int int
  | PermissionCategory int jsv
  | ProtocolCategory int jsv
  | VaultCategory int jsv
  | NetworkCategory int bool

definition CATEGORY_TYPE_MAP :: "(string \<times> string) list" where
  "CATEGORY_TYPE_MAP =
    [(''SPENDING_CAP'', ''spending''), (''PERMISSION'', ''permission''), (''PROTOCOL_NOT_SUPPORTED'', ''protocol''),
     (''RESOURCE_NOT_FOUND'', ''vault''), (''INPUT_VALIDATION'', ''vault''), (''POLICY_VIOLATION'', ''permission''),
     (''ESCALATION_REQUIRED'', ''permission''), (''TRANSIENT'', ''network''), (''RATE_LIMIT'', ''network''),
     (''FATAL'', ''network'')]"

definition safeBigInt :: "jsv \<Rightarrow> int" where
  "safeBigInt v =
     (case v of
        JsBig n \<Rightarrow> n
      | JsNum (Some n) \<Rightarrow> n
      | JsStr s \<Rightarrow> (case bigint_of_string s of Some n \<Rightarrow> n | None \<Rightarrow> 0)
      | _ \<Rightarrow> 0)"

definition nullish :: "jsv \<Rightarrow> jsv \<Rightarrow> jsv" where
  "nullish v d = (if v = JsUndefined \<or> v = JsNull then d else v)"

definition context_get :: "AgentError \<Rightarrow> string \<Rightarrow> jsv" where
  "context_get err k = (case map_of (ae_context err) k of Some v \<Rightarrow> v | None \<Rightarrow> JsUndefined)"

definition categorizeError :: "AgentError \<Rightarrow> SigilErrorCategory" where
  "categorizeError err =
     (let code = (case parseInt10 (ae_code err) of Some n \<Rightarrow> n | None \<Rightarrow> 0);
          categoryType = (case map_of CATEGORY_TYPE_MAP (ae_category err) of Some t \<Rightarrow> t | None \<Rightarrow> ''network'')
      in if categoryType = ''spending''
           then SpendingCategory code (safeBigInt (context_get err ''remaining'')) (safeBigInt (context_get err ''cap''))
         else if categoryType = ''permission''
           then PermissionCategory code (nullish (context_get err ''required_permission'') (JsStr (ae_message err)))
         else if categoryType = ''protocol''
           then ProtocolCategory code (nullish (context_get err ''protocol'') (JsStr ''unknown''))
         else if categoryType = ''vault''
           then VaultCategory code (nullish (context_get err ''vault_status'') (JsStr (ae_message err)))
         else NetworkCategory code (ae_retryable err))"

section \<open>SDK error patterns\<close>

text \<open>The regular expressions of the table: a literal, or two literals with \<open>.+\<close> between them.\<close>

datatype error_regex = Literal string | Gap string string

definition no_newline :: "char \<Rightarrow> bool" where
  "no_newline c \<longleftrightarrow> c \<noteq> CHR 0x0A \<and> c \<noteq> CHR 0x0D"

fun regex_test :: "error_regex \<Rightarrow> string \<Rightarrow> bool" where
  "regex_test (Literal a) s = str_includes s a"
| "regex_test (Gap a b) s =
     list_ex (\<lambda>i. startsWith (drop i s) a
       \<and> list_ex (\<lambda>j. startsWith (drop j s) b \<and> list_all no_newline (take (j - (i + length a)) (drop (i + length a) s)))
           [i + length a + 1 ..< Suc (length s)]) [0 ..< Suc (length s)]"

record SdkErrorPattern =
  ep_pattern :: error_regex
  ep_category :: ErrorCategory
  ep_retryable :: bool
  ep_recovery_actions :: "RecoveryAction list"

definition error_pattern :: "error_regex \<Rightarrow> ErrorCategory \<Rightarrow> RecoveryAction list \<Rightarrow> SdkErrorPattern" where
  "error_pattern pattern category actions =
     \<lparr>ep_pattern = pattern, ep_category = category, ep_retryable = False, ep_recovery_actions = actions\<rparr>"

definition SDK_ERROR_PATTERNS :: "SdkErrorPattern list" where
  "SDK_ERROR_PATTERNS =
    [error_pattern (Literal ''Vault is not active'') RESOURCE_NOT_FOUND
       [recovery ''check_vault_status'' ''Verify vault status. It may be frozen or closed.'' None,
        recovery ''reactivate_vault'' ''If frozen, ask the vault owner to reactivate.'' (Some ''reactivateVault'')],
     error_pattern (Gap ''Agent '' '' is not registered'') PERMISSION
       [recovery ''register_agent'' ''Register this agent in the vault.'' (Some ''registerAgent'')],
     error_pattern (Gap ''Agent '' '' is paused'') PERMISSION
       [recovery ''unpause_agent'' ''Ask the vault owner to unpause this agent.'' (Some ''unpauseAgent'')],
     error_pattern (Literal ''lacks permission for action'') PERMISSION
       [recovery ''update_permissions'' ''Request permission for this action type from the vault owner.'' None],
     error_pattern (Gap ''Protocol '' '' is not allowed'') PROTOCOL_NOT_SUPPORTED
       [recovery ''add_protocol'' ''Add this protocol to the vault's allowlist.'' None],
     error_pattern (Gap ''Transaction size '' '' exceeds'') INPUT_VALIDATION
       [recovery ''add_alts'' ''Pass protocolAltAddresses from your DeFi API response.'' None,
        recovery ''reduce_instructions'' ''Reduce instruction count or split across multiple transactions.'' None],
     error_pattern (Gap ''Spending action '' '' requires amount > 0'') INPUT_VALIDATION
       [recovery ''fix_amount'' ''Set amount to the transaction value in token base units.'' None],
     error_pattern (Gap ''Non-spending action '' '' requires amount === 0'') INPUT_VALIDATION
       [recovery ''set_zero_amount'' ''Non-spending actions (close, withdraw, etc.) require amount = 0n.'' None],
     error_pattern (Literal ''No target protocol'') INPUT_VALIDATION
       [recovery ''add_instructions''
          ''Include DeFi instructions in the wrap call, or set targetProtocol explicitly.'' None],
     error_pattern (Literal ''Escrow action'') INPUT_VALIDATION
       [recovery ''use_escrow_api'' ''Use createEscrow/settleEscrow/refundEscrow instead of wrap().'' None]]"

text \<open>A \<open>SigilSdkError\<close> is an \<open>Error\<close> with the fields of the agent error it was made from.\<close>

definition new_SigilSdkError :: "AgentError \<Rightarrow> AgentError" where
  "new_SigilSdkError agentError =
     (if js_truthy (ae_retry_after_ms agentError) then agentError else agentError\<lparr>ae_retry_after_ms := JsUndefined\<rparr>)"

definition toSigilAgentError :: "jsv \<Rightarrow> AgentError option" where
  "toSigilAgentError err =
     map_option
       (\<lambda>onChain.
          if ae_code onChain \<noteq> ''UNKNOWN'' then new_SigilSdkError onChain
          else
            let message = (if js_isError err then str_or_empty (js_get err ''message'') else js_String err)
            in case find (\<lambda>p. regex_test (ep_pattern p) message) SDK_ERROR_PATTERNS of
                 Some p \<Rightarrow> new_SigilSdkError
                   \<lparr>ae_code = ''SDK_'' @ category_name (ep_category p), ae_message = message,
                    ae_category = category_name (ep_category p), ae_retryable = ep_retryable p,
                    ae_retry_after_ms = JsUndefined, ae_recovery_actions = map action_value (ep_recovery_actions p),
                    ae_context = []\<rparr>
               | None \<Rightarrow> new_SigilSdkError
                   \<lparr>ae_code = ''UNKNOWN'', ae_message = message, ae_category = ''FATAL'', ae_retryable = False,
                    ae_retry_after_ms = JsUndefined, ae_recovery_actions = [], ae_context = []\<rparr>)
       (toAgentError err [])"

section \<open>dashboard/errors.ts\<close>

definition SIGIL_ERROR_TO_NUMERIC :: "(string \<times> int) list" where
  "SIGIL_ERROR_TO_NUMERIC =
    [(''SIGIL_ERROR__SHIELD__POLICY_DENIED'', 7015),
     (''SIGIL_ERROR__SHIELD__CONFIG_INVALID'', 7008),
     (''SIGIL_ERROR__SHIELD__RATE_LIMIT_EXCEEDED'', 7022),
     (''SIGIL_ERROR__SHIELD__SESSION_BINDING'', 7015),
     (''SIGIL_ERROR__TEE__ATTESTATION_FAILED'', 7014),
     (''SIGIL_ERROR__TEE__CERT_CHAIN_INVALID'', 7014),
     (''SIGIL_ERROR__TEE__PCR_MISMATCH'', 7014),
     (''SIGIL_ERROR__COMPOSE__MISSING_PARAM'', 7008),
     (''SIGIL_ERROR__COMPOSE__INVALID_BIGINT'', 7008),
     (''SIGIL_ERROR__COMPOSE__UNSUPPORTED_ACTION'', 7006),
     (''SIGIL_ERROR__X402__HEADER_MALFORMED'', 7024),
     (''SIGIL_ERROR__X402__PAYMENT_FAILED'', 7025),
     (''SIGIL_ERROR__X402__UNSUPPORTED'', 7026),
     (''SIGIL_ERROR__X402__DESTINATION_BLOCKED'', 7027),
     (''SIGIL_ERROR__X402__REPLAY'', 7028),
     (''SIGIL_ERROR__SDK__INVALID_CONFIG'', 7008),
     (''SIGIL_ERROR__SDK__INVALID_PARAMS'', 7008),
     (''SIGIL_ERROR__SDK__INVALID_NETWORK'', 7008),
     (''SIGIL_ERROR__SDK__INVALID_AMOUNT'', 7008),
     (''SIGIL_ERROR__SDK__INVALID_CAPABILITY'', 7008),
     (''SIGIL_ERROR__SDK__INVALID_ACTION_TYPE'', 7008),
     (''SIGIL_ERROR__SDK__OWNER_AGENT_COLLISION'', 7008),
     (''SIGIL_ERROR__SDK__VAULT_NOT_FOUND'', 7009),
     (''SIGIL_ERROR__SDK__VAULT_INACTIVE'', 7009),
     (''SIGIL_ERROR__SDK__VAULT_SLOTS_EXHAUSTED'', 7009),
     (''SIGIL_ERROR__SDK__POLICY_NOT_FOUND'', 7009),
     (''SIGIL_ERROR__SDK__AGENT_NOT_REGISTERED'', 7009),
     (''SIGIL_ERROR__SDK__AGENT_PAUSED'', 7009),
     (''SIGIL_ERROR__SDK__AGENT_ZERO_CAPABILITY'', 7009),
     (''SIGIL_ERROR__SDK__SIGNER_INVALID'', 7008),
     (''SIGIL_ERROR__SDK__SIGNATURE_INVALID'', 7008),
     (''SIGIL_ERROR__SDK__SPL_TOKEN_OP_BLOCKED'', 7015),
     (''SIGIL_ERROR__SDK__PROTOCOL_NOT_ALLOWED'', 7015),
     (''SIGIL_ERROR__SDK__PROTOCOL_NOT_TARGETED'', 7008),
     (''SIGIL_ERROR__SDK__INSTRUCTION_COUNT'', 7008),
     (''SIGIL_ERROR__SDK__CAP_EXCEEDED'', 7012),
     (''SIGIL_ERROR__SDK__ATA_NON_CANONICAL'', 7008),
     (''SIGIL_ERROR__SDK__ALT_INTEGRITY'', 7009),
     (''SIGIL_ERROR__SDK__ALT_NOT_DEPLOYED'', 7009),
     (''SIGIL_ERROR__SDK__SEAL_FAILED'', 7009),
     (''SIGIL_ERROR__SDK__UNKNOWN'', 7999),
     (''SIGIL_ERROR__RPC__TX_FAILED'', 7009),
     (''SIGIL_ERROR__RPC__CONFIRMATION_TIMEOUT'', 7011),
     (''SIGIL_ERROR__RPC__SIMULATION_FAILED'', 7002),
     (''SIGIL_ERROR__RPC__DRAIN_DETECTED'', 7003),
     (''SIGIL_ERROR__RPC__TX_TOO_LARGE'', 7033),
     (''SIGIL_ERROR__RPC__RATE_LIMITED'', 7001),
     (''SIGIL_ERROR__RPC__INSTRUCTION_REQUIRED'', 7008),
     (''SIGIL_ERROR__PROGRAM__GENERIC'', 7999)]"

definition SDK_CODE_BY_NAME :: "string \<Rightarrow> int option" where
  "SDK_CODE_BY_NAME name =
     (case map_of SIGIL_ERROR_TO_NUMERIC name of
        Some n \<Rightarrow> Some n
      | None \<Rightarrow> map_of (map (\<lambda>(num, name). (name, num)) SDK_ERROR_CODES) name)"

definition DX_ERROR_CODE_UNMAPPED :: int where "DX_ERROR_CODE_UNMAPPED = 7999"

text \<open>
  \<open>Number(s)\<close> of a string: white space is dropped, the empty string is 0, a prefix selects another
  base, and a decimal literal has an optional sign, fraction and exponent; \<open>None\<close> is NaN or an infinity.
\<close>

definition number_value :: "rat \<Rightarrow> js_number" where
  "number_value q =
     (if of_int \<lfloor>q\<rfloor> = q \<and> \<bar>q\<bar> < 2 ^ 53 then Some q
      else if q < 0 then map_option uminus (to_double (- q)) else to_double q)"

definition exponent_of :: "string \<Rightarrow> int option" where
  "exponent_of s =
     (case s of
        [] \<Rightarrow> Some 0
      | e # ds \<Rightarrow>
          if e = CHR ''e'' \<or> e = CHR ''E''
          then let sign = (case ds of c # _ \<Rightarrow> c = CHR ''-'' | [] \<Rightarrow> False);
                   digits = (case ds of c # cs \<Rightarrow> if c = CHR ''-'' \<or> c = CHR ''+'' then cs else ds | [] \<Rightarrow> [])
               in if digits \<noteq> [] \<and> list_all is_digit digits
                  then Some (if sign then - int (dec_val digits) else int (dec_val digits)) else None
          else None)"

definition decimal_literal :: "string \<Rightarrow> rat option" where
  "decimal_literal s =
     (let ds = takeWhile is_digit s; rest = dropWhile is_digit s;
          fs = (case rest of c # cs \<Rightarrow> if c = CHR ''.'' then takeWhile is_digit cs else [] | [] \<Rightarrow> []);
          ex = (case rest of c # cs \<Rightarrow> if c = CHR ''.'' then dropWhile is_digit cs else rest | [] \<Rightarrow> [])
      in if ds @ fs = [] then None
         else map_option (\<lambda>e. dec_value ds fs * 10 powi e) (exponent_of ex))"

definition number_of_string :: "string \<Rightarrow> js_number" where
  "number_of_string str =
     (let s = js_trim str
      in if s = [] then Some 0
         else if take 2 s \<in> {''0x'', ''0X'', ''0o'', ''0O'', ''0b'', ''0B''}
           then Option.bind (bigint_of_string s) (\<lambda>n. number_value (of_int n))
         else if hd s = CHR ''-'' then Option.bind (decimal_literal (tl s)) (\<lambda>q. number_value (- q))
         else if hd s = CHR ''+'' then Option.bind (decimal_literal (tl s)) number_value
         else Option.bind (decimal_literal s) number_value)"

text \<open>The code of an agent error is a string, so the branch for a numeric code is never taken.\<close>

definition resolveDxCode :: "string \<Rightarrow> rat" where
  "resolveDxCode rawCode =
     (case SDK_CODE_BY_NAME rawCode of
        Some n \<Rightarrow> of_int n
      | None \<Rightarrow> (case number_of_string rawCode of Some n \<Rightarrow> n | None \<Rightarrow> of_int DX_ERROR_CODE_UNMAPPED))"

text \<open>
  The typed codes of \<open>@solana/errors\<close> and \<open>isSolanaError\<close>, which may throw through a hostile value.
\<close>

definition ACCOUNT_NOT_FOUND_CODES :: "int list" where
  "ACCOUNT_NOT_FOUND_CODES = [3, 3230000, 7050003, 7050004]"

definition isAccountNotFoundError :: "(jsv \<Rightarrow> int \<Rightarrow> (unit, bool) result) \<Rightarrow> jsv \<Rightarrow> bool" where
  "isAccountNotFoundError isSolanaError err \<longleftrightarrow>
     list_ex (\<lambda>code. isSolanaError err code = Inr True) ACCOUNT_NOT_FOUND_CODES
     \<or> (let message = (if js_isError err then str_or_empty (js_get err ''message'') else [])
        in str_includes message ''could not find'' \<or> str_includes message ''Account does not exist'')"

definition ANCHOR_ERROR_MIN :: rat where "ANCHOR_ERROR_MIN = 6000"
definition ANCHOR_ERROR_MAX :: rat where "ANCHOR_ERROR_MAX = 6074"
definition SDK_ERROR_MIN :: rat where "SDK_ERROR_MIN = 7000"
definition SDK_ERROR_MAX :: rat where "SDK_ERROR_MAX = 7099"
definition NETWORK_ERROR_MIN :: rat where "NETWORK_ERROR_MIN = 7100"
definition NETWORK_ERROR_MAX :: rat where "NETWORK_ERROR_MAX = 7199"

definition isOnChainReverted :: "js_number \<Rightarrow> bool" where
  "isOnChainReverted code = (case code of None \<Rightarrow> False | Some c \<Rightarrow> c \<ge> ANCHOR_ERROR_MIN \<and> c \<le> ANCHOR_ERROR_MAX)"

datatype DxErrorCategory = UserError | NetworkError | ProgramError | UnknownError

definition categorizeDxError :: "js_number \<Rightarrow> DxErrorCategory" where
  "categorizeDxError code =
     (case code of
        None \<Rightarrow> UnknownError
      | Some c \<Rightarrow>
          if c \<ge> ANCHOR_ERROR_MIN \<and> c \<le> ANCHOR_ERROR_MAX then ProgramError
          else if c \<ge> NETWORK_ERROR_MIN \<and> c \<le> NETWORK_ERROR_MAX then NetworkError
          else if c \<ge> SDK_ERROR_MIN \<and> c \<le> SDK_ERROR_MAX then UserError
          else UnknownError)"

record DxError =
  dx_code :: rat
  dx_message :: string
  dx_recovery :: "jsv list"
  dx_onChainReverted :: bool

definition with_prefix :: "string option \<Rightarrow> string \<Rightarrow> string" where
  "with_prefix context message = (if truthy context then the context @ '': '' @ message else message)"

text \<open>\<open>a.description ?? a.action ?? ""\<close>: reading a property of \<open>null\<close> or \<open>undefined\<close> throws.\<close>

definition recovery_text :: "jsv \<Rightarrow> jsv option" where
  "recovery_text a =
     (if a = JsNull \<or> a = JsUndefined then None
      else Some (nullish (js_get a ''description'') (nullish (js_get a ''action'') (JsStr []))))"

definition toDxError :: "jsv \<Rightarrow> string option \<Rightarrow> DxError" where
  "toDxError err context =
     (case Option.bind (toAgentError err [])
             (\<lambda>agentErr. map_option (\<lambda>steps. (agentErr, steps)) (those (map recovery_text (ae_recovery_actions agentErr)))) of
        Some (agentErr, steps) \<Rightarrow>
          (let code = resolveDxCode (ae_code agentErr)
           in \<lparr>dx_code = code, dx_message = with_prefix context (ae_message agentErr), dx_recovery = steps,
               dx_onChainReverted = isOnChainReverted (Some code)\<rparr>)
      | None \<Rightarrow>
          (let msg = (if js_isError err then str_or_empty (js_get err ''message'') else js_String err)
           in \<lparr>dx_code = of_int DX_ERROR_CODE_UNMAPPED, dx_message = with_prefix context msg,
               dx_recovery = [JsStr ''Check transaction logs for details''], dx_onChainReverted = False\<rparr>))"

section \<open>Properties\<close>

lemma on_chain_lookup: "map_of ON_CHAIN_ERROR_MAP c = None \<longleftrightarrow> \<not> in_on_chain_range c"
proof -
  have "fst ` set ON_CHAIN_ERROR_MAP = {6000..6087}"
    using arg_cong [OF on_chain_codes, of set] by (simp only: list.set_map set_upto)
  then show ?thesis by (auto simp: map_of_eq_None_iff in_on_chain_range_def)
qed

lemma sdk_code_lookup: "map_of SDK_ERROR_CODES n = None \<longleftrightarrow> \<not> (7000 \<le> n \<and> n \<le> 7033)"
proof -
  have "fst ` set SDK_ERROR_CODES = {7000..7033}"
    using arg_cong [OF sdk_codes, of set] by (simp only: list.set_map set_upto)
  then show ?thesis by (auto simp: map_of_eq_None_iff)
qed

lemma sdk_name_mapped: "map_of SDK_ERROR_CODES n = Some name \<Longrightarrow> map_of SDK_ERRORS name \<noteq> None"
proof -
  assume "map_of SDK_ERROR_CODES n = Some name"
  then have "name \<in> set (map snd SDK_ERROR_CODES)" by (force dest: map_of_SomeD)
  then show ?thesis unfolding sdk_names by (simp add: map_of_eq_None_iff)
qed

lemma message_class_mapped: "message_class m = Some code \<Longrightarrow> map_of SDK_ERRORS code \<noteq> None"
  by (auto simp: message_class_def Let_def SDK_ERRORS_def split: if_splits)

lemma toAgentError_total: "toAgentError e context \<noteq> None"
  using sdk_name_mapped message_class_mapped
  by (auto simp: toAgentError_def message_agent_error_def fromSdkMapping_def Let_def bind_eq_Some_conv
      split: option.split)

lemma mapped_recovery:
  "those (map recovery_text (map action_value actions)) = Some (map (JsStr \<circ> ra_description) actions)"
  by (induction actions)
    (simp_all add: recovery_text_def action_value_def nullish_def js_get_def js_prop_def)

lemma numeric_name_free:
  "list_all (\<lambda>k. k \<noteq> [] \<and> \<not> is_digit (hd k)) (map fst SIGIL_ERROR_TO_NUMERIC @ map snd SDK_ERROR_CODES)"
  by (simp add: SIGIL_ERROR_TO_NUMERIC_def SDK_ERROR_CODES_def is_digit_def)

lemma show_nat_not_Nil: "show_nat n \<noteq> []"
  by (subst show_nat.simps) simp

lemma digits_not_named:
  assumes "list_all is_digit s" "s \<noteq> []"
  shows "SDK_CODE_BY_NAME s = None"
proof -
  have d: "is_digit (hd s)" using assms by (cases s) simp_all
  have "s \<notin> set (map fst SIGIL_ERROR_TO_NUMERIC @ map snd SDK_ERROR_CODES)"
    using numeric_name_free d unfolding list_all_iff by blast
  then show ?thesis
    by (auto simp: SDK_CODE_BY_NAME_def map_of_eq_None_iff image_image case_prod_unfold split: option.splits dest: map_of_SomeD)
qed

lemma number_of_show:
  assumes "0 \<le> n" "n < 2 ^ 53"
  shows "number_of_string (show_int n) = Some (of_int n)"
proof -
  define s where "s = show_nat (nat n)"
  have ds: "list_all is_digit s" "s \<noteq> []" "dec_val s = nat n"
    unfolding s_def using show_nat_digits [of "nat n"] show_nat_not_Nil dec_val_show_nat by simp_all
  have h: "is_digit (hd s)" "hd s \<noteq> CHR ''-''" "hd s \<noteq> CHR ''+''"
    using ds(1,2) by (cases s; auto simp: is_digit_def)+
  have p: "take 2 s \<notin> {''0x'', ''0X'', ''0o'', ''0O'', ''0b'', ''0B''}"
  proof -
    have "list_all is_digit (take 2 s)" using ds(1) by (auto simp: list_all_iff dest: in_set_takeD)
    then show ?thesis by (auto simp: is_digit_def)
  qed
  have t: "js_trim s = s" by (rule js_trim_id) (use ds(1) in \<open>auto simp: list_all_iff dest: is_digit_not_special\<close>)
  have w: "takeWhile is_digit s = s" "dropWhile is_digit s = []"
    using ds(1) by (simp_all add: list_all_iff)
  have "decimal_literal s = Some (of_int n)"
    using ds(2,3) assms(1) by (simp add: decimal_literal_def w exponent_of_def dec_value_def)
  moreover have "number_value (of_int n) = Some (of_int n)"
  proof -
    have "(of_int n :: rat) < of_int (2 ^ 53)" using assms(2) by (simp only: of_int_less_iff)
    then have "(of_int n :: rat) < 2 ^ 53" by (simp only: of_int_power of_int_numeral)
    then show ?thesis using assms(1) unfolding number_value_def by (simp del: power_numeral)
  qed
  ultimately show ?thesis
    using assms(1) h(2,3) p ds(2) t by (simp add: number_of_string_def show_int_def flip: s_def)
qed

lemma resolve_show:
  assumes "0 \<le> n" "n < 2 ^ 53"
  shows "resolveDxCode (show_int n) = of_int n"
  using digits_not_named [OF show_nat_digits(2,1), of "nat n"] number_of_show [OF assms] assms(1)
  by (simp add: resolveDxCode_def show_int_def)

lemma sigil_code_prefix: "list_all (\<lambda>k. take 5 k = ''SIGIL'') (map fst SIGIL_ERROR_TO_NUMERIC)"
  by (simp add: SIGIL_ERROR_TO_NUMERIC_def)

lemma sdk_name_prefix: "list_all (\<lambda>k. take 5 k \<noteq> ''SIGIL'') (map snd SDK_ERROR_CODES)"
  by (simp add: SDK_ERROR_CODES_def)

lemma sdk_names_not_sigil: "k \<in> set (map snd SDK_ERROR_CODES) \<Longrightarrow> map_of SIGIL_ERROR_TO_NUMERIC k = None"
  using sigil_code_prefix sdk_name_prefix unfolding list_all_iff map_of_eq_None_iff list.set_map by blast

lemma resolve_sdk_name:
  assumes "map_of SDK_ERROR_CODES n = Some name"
  shows "resolveDxCode name = of_int n"
proof -
  have in_set: "(n, name) \<in> set SDK_ERROR_CODES" using assms by (rule map_of_SomeD)
  then have "map_of SIGIL_ERROR_TO_NUMERIC name = None"
    by (intro sdk_names_not_sigil) force
  moreover have "map_of (map (\<lambda>(num, name). (name, num)) SDK_ERROR_CODES) name = Some n"
    using in_set sdk_names_distinct
    by (intro map_of_is_SomeI) (auto simp: comp_def case_prod_unfold intro!: image_eqI [of _ _ "(n, name)"])
  ultimately show ?thesis by (simp add: resolveDxCode_def SDK_CODE_BY_NAME_def)
qed

lemma on_chain_dx:
  assumes "as_AgentError e = None" "extractErrorCode e = Some (Some c)" "0 \<le> c" "c < 2 ^ 53"
  shows "dx_code (toDxError e context) = of_int c"
    and "dx_onChainReverted (toDxError e context) \<longleftrightarrow> 6000 \<le> c \<and> c \<le> 6074"
proof -
  have a: "toAgentError e [] = Some (on_chain_agent_error (Some c) [])" by (simp add: toAgentError_def assms(1,2))
  have code: "ae_code (on_chain_agent_error (Some c) []) = show_int c"
    by (simp add: on_chain_agent_error_def from_mapping_def show_num_def split: option.split)
  have "\<exists>steps. those (map recovery_text (ae_recovery_actions (on_chain_agent_error (Some c) []))) = Some steps"
    using mapped_recovery by (auto simp: on_chain_agent_error_def from_mapping_def simp del: list.map_comp map_map split: option.split)
  then obtain steps where
    "those (map recovery_text (ae_recovery_actions (on_chain_agent_error (Some c) []))) = Some steps" ..
  note t = this
  show "dx_code (toDxError e context) = of_int c"
    using resolve_show [OF assms(3,4)] by (simp add: toDxError_def a t code Let_def)
  show "dx_onChainReverted (toDxError e context) \<longleftrightarrow> 6000 \<le> c \<and> c \<le> 6074"
    using resolve_show [OF assms(3,4)]
    by (simp add: toDxError_def a t code Let_def isOnChainReverted_def ANCHOR_ERROR_MIN_def ANCHOR_ERROR_MAX_def)
qed

lemma sdk_dx:
  assumes "as_AgentError e = None" "extractErrorCode e = None" "extractSdkCode e = Some c"
  shows "dx_code (toDxError e context) = of_int c"
proof -
  have "7000 \<le> c \<and> c \<le> 7033"
    using assms(3) by (auto simp: extractSdkCode_def direct_code_def split: if_splits jsv.splits option.splits)
  then obtain name where n: "map_of SDK_ERROR_CODES c = Some name"
    using sdk_code_lookup [of c] by (cases "map_of SDK_ERROR_CODES c") auto
  then obtain mapping where "map_of SDK_ERRORS name = Some mapping" using sdk_name_mapped by blast
  note m = this
  show ?thesis
    using resolve_sdk_name [OF n]
    by (simp add: toDxError_def toAgentError_def assms n m from_mapping_def mapped_recovery Let_def del: map_map)
qed

text \<open>
  The error tables cover the program and the normaliser is total: the on-chain table lists, in order
  and under Anchor's numbering from 6000, exactly the variants of the program's \<open>SigilError\<close> enum; every
  SDK code has a mapping under its name; and \<open>toAgentError\<close> gives an agent error for whatever was thrown.
\<close>
theorem error_tables_complete:
  "map (\<lambda>(code, mapping). (code, em_name mapping)) ON_CHAIN_ERROR_MAP = zip [6000..6087] SigilError_variants
   \<and> map fst SDK_ERRORS = map snd SDK_ERROR_CODES \<and> map fst SDK_ERROR_CODES = [7000..7033]
   \<and> toAgentError e context \<noteq> None"
proof -
  have "map (\<lambda>(code, mapping). (code, em_name mapping)) ON_CHAIN_ERROR_MAP
      = zip (map fst ON_CHAIN_ERROR_MAP) (map (em_name \<circ> snd) ON_CHAIN_ERROR_MAP)"
    by (simp add: zip_map_map case_prod_unfold zip_same_conv_map)
  then show ?thesis unfolding on_chain_codes on_chain_names using sdk_names sdk_codes toAgentError_total by simp
qed

text \<open>
  C31. Codes survive the trip through agent errors: when the thrown value is not already an agent error, an
  on-chain code it carries (as a number, inside an Anchor error or in a log line) and an SDK code
  between 7000 and 7033 come out of \<open>toDxError\<close> as the same number, although the intermediate agent
  error holds them as decimal text or by name.
\<close>
theorem dx_codes_kept:
  assumes "\<not> isAgentError e"
  shows "(extractErrorCode e = Some (Some c) \<and> 0 \<le> c \<and> c < 2 ^ 53 \<longrightarrow> dx_code (toDxError e context) = of_int c)
    \<and> (extractErrorCode e = None \<and> extractSdkCode e = Some c \<longrightarrow> dx_code (toDxError e context) = of_int c)"
  using assms on_chain_dx(1) sdk_dx by (auto simp: isAgentError_def)

theorem dx_codes_kept_witness:
  "dx_code (toDxError (JsObj ErrorClass [(''code'', JsNum (Some 6006))]) None) = 6006
   \<and> dx_code (toDxError (JsObj ErrorClass [(''code'', JsNum (Some 7033))]) None) = 7033"
proof -
  let ?e = "\<lambda>n. JsObj ErrorClass [(''code'', JsNum (Some n))]"
  have a: "\<not> isAgentError (?e n)" for n
    by (simp add: isAgentError_def as_AgentError.simps js_get_def js_prop_def)
  have "extractErrorCode (?e 6006) = Some (Some 6006)" "extractErrorCode (?e 7033) = None" "extractSdkCode (?e 7033) = Some 7033"
    by (simp_all add: extractErrorCode_def extractSdkCode_def js_isObject_def direct_code_def js_get_def js_prop_def
        in_on_chain_range_def anchor_code_def extract_from_message_def)
  then show ?thesis using dx_codes_kept [OF a, of 6006 6006 None] dx_codes_kept [OF a, of 7033 7033 None] by simp
qed

text \<open>
  The dashboard's on-chain range stops short of the program's errors: a rejection by the program is
  reported as an on-chain revert and as a program error exactly up to code 6074, while the enum goes on
  to 6087; the thirteen later codes, among them the blocked-instruction errors, come out as "unknown".
\<close>
theorem dx_on_chain_category_exact:
  assumes "\<not> isAgentError e" "extractErrorCode e = Some (Some c)" "6000 \<le> c" "c \<le> 6087"
  shows "map_of ON_CHAIN_ERROR_MAP c \<noteq> None
    \<and> dx_onChainReverted (toDxError e context) = (c \<le> 6074)
    \<and> categorizeDxError (Some (dx_code (toDxError e context))) = (if c \<le> 6074 then ProgramError else UnknownError)"
proof -
  have "dx_code (toDxError e context) = of_int c"
    by (rule on_chain_dx(1)) (use assms in \<open>simp_all add: isAgentError_def\<close>)
  moreover have "dx_onChainReverted (toDxError e context) \<longleftrightarrow> 6000 \<le> c \<and> c \<le> 6074"
    by (rule on_chain_dx(2)) (use assms in \<open>simp_all add: isAgentError_def\<close>)
  moreover have "map_of ON_CHAIN_ERROR_MAP c \<noteq> None"
    using assms(3,4) on_chain_lookup by (simp add: in_on_chain_range_def)
  ultimately show ?thesis
    using assms(3,4)
    by (simp add: categorizeDxError_def ANCHOR_ERROR_MIN_def ANCHOR_ERROR_MAX_def SDK_ERROR_MIN_def NETWORK_ERROR_MIN_def)
qed

theorem dx_on_chain_category_exact_witness:
  "categorizeDxError (Some (dx_code (toDxError (JsObj ErrorClass [(''code'', JsNum (Some 6086))]) None))) = UnknownError"
proof -
  let ?e = "JsObj ErrorClass [(''code'', JsNum (Some 6086))]"
  have "\<not> isAgentError ?e" "extractErrorCode ?e = Some (Some 6086)"
    by (simp_all add: isAgentError_def as_AgentError.simps js_get_def js_prop_def extractErrorCode_def js_isObject_def
        direct_code_def in_on_chain_range_def)
  then show ?thesis using dx_on_chain_category_exact [of ?e 6086 None] by simp
qed

lemma sigil_error_agent:
  "toAgentError (new_SigilError code shortMessage args) context = toAgentError (new_SigilError code' shortMessage args) context"
proof -
  have p: "as_AgentError (new_SigilError c shortMessage args) = None"
      "direct_code (new_SigilError c shortMessage args) ok = None" for c ok
    by (simp_all add: as_AgentError.simps new_SigilError_def direct_code_def js_get_def js_prop_def Let_def)
  have m: "js_get (new_SigilError c shortMessage args) ''message'' = js_get (new_SigilError c' shortMessage args) ''message''"
      "js_get (new_SigilError c shortMessage args) ''error'' = JsUndefined" for c c'
    by (simp_all add: new_SigilError_def js_get_def js_prop_def Let_def)
  have undefined: "\<not> js_isObject JsUndefined" by (simp add: js_isObject_def)
  have ob: "js_isObject (new_SigilError c shortMessage args)" "js_isError (new_SigilError c shortMessage args)"
      "js_truthy (new_SigilError c shortMessage args)" for c
    by (simp_all add: new_SigilError_def js_isObject_def js_isError_def Let_def)
  have "extractErrorCode (new_SigilError code shortMessage args) = extractErrorCode (new_SigilError code' shortMessage args)"
    using m(1) [of code code'] by (simp add: extractErrorCode_def ob p m(2) anchor_code_def undefined extract_from_message_def)
  moreover have "extractMessage (new_SigilError code shortMessage args) = extractMessage (new_SigilError code' shortMessage args)"
    using m(1) [of code code'] by (simp add: extractMessage_def ob split: jsv.split) (simp add: new_SigilError_def Let_def)
  ultimately show ?thesis
    by (simp add: toAgentError_def message_agent_error_def p extractSdkCode_def ob cong: option.case_cong)
qed

text \<open>
  The numeric table for the \<open>SIGIL_ERROR__\<close> codes is never consulted for the errors it was written for:
  what \<open>toDxError\<close> makes of a \<open>SigilError\<close> does not depend on its code, because \<open>toAgentError\<close> drops it.
\<close>
theorem sigil_error_codes_unused:
  "toDxError (new_SigilError code shortMessage args) context = toDxError (new_SigilError code' shortMessage args) context"
proof -
  have "js_isError (new_SigilError c shortMessage args)" "js_get (new_SigilError c shortMessage args) ''message''
      = JsStr (formatMessage shortMessage (sp_metaMessages args)
          (case sp_docsPath args of Some p \<Rightarrow> JsStr p | None \<Rightarrow> extractDocsPath (sp_cause args)) (extractDetails (sp_cause args)))" for c
    by (simp_all add: new_SigilError_def js_isError_def js_get_def js_prop_def Let_def)
  note f = this
  show ?thesis by (simp only: toDxError_def sigil_error_agent [of code shortMessage args "[]" code'] f if_True)
qed

end
