(* ===== verification/DashboardMutations.thy ===== *)
theory DashboardMutations
  imports ConstraintBuilders AgentErrors
begin

text \<open>
  The owner's mutations of \<open>sdk/kit/src/dashboard/mutations.ts\<close>: the client-side checks, the
  transaction each one submits through \<open>run\<close>, and the mutating methods of \<open>OwnerClient\<close>
  (\<open>sdk/kit/src/dashboard/index.ts\<close>) as a datatype of calls. The state holds the blockhash caches of the
  module and the wire transactions handed to the RPC node. A result is \<open>None\<close> when confirmation never
  ends.

  The kit's message signing, the RPC answers and the clock are parameters. \<open>de_thrown\<close> gives the
  JavaScript value of an error of the model: its text, which \<open>toDxError\<close> reads, is not part of it.
\<close>

section \<open>run\<close>

record TxOpts =
  to_computeUnits :: "nat option"
  to_priorityFeeMicroLamports :: "nat option"
  to_strictMode :: "bool option"

datatype dash_error =
    Dx DxError
  | Thrown sdk_error
  | InvalidAssertions PostAssertionValidationError

record 'rpc dash_state =
  ds_blockhashes :: "'rpc \<Rightarrow> BlockhashCache option"
  ds_sent :: "string list"

record ('rpc, 'm, 'tx) dash_env =
  de_rpc :: 'rpc
  de_vault :: address
  de_owner :: address
  de_codec :: dash_codec
  de_compose :: "('m, 'tx) compose_env"
  de_sign :: "'m \<Rightarrow> (js_error, 'tx) result"
  de_latestBlockhash :: "(js_error, Blockhash) result"
  de_now :: msecs
  de_after :: msecs
  de_send :: "string \<Rightarrow> (js_error, string) result"
  de_sentAt :: msecs
  de_poll :: "nat \<Rightarrow> poll_round"
  de_thrown :: "sdk_error \<Rightarrow> jsv"
  de_vaultState :: "(sdk_error, AgentVault) result"
  de_accountExists :: "address \<Rightarrow> (js_error, bool) result"

type_synonym 'rpc mutation = "'rpc dash_state \<Rightarrow> (dash_error, string) result option \<times> 'rpc dash_state"

definition dx_plain :: "string \<Rightarrow> dash_error" where
  "dx_plain message = Dx (toDxError (js_error_of message) None)"

definition dx_thrown :: "('rpc, 'm, 'tx) dash_env \<Rightarrow> sdk_error \<Rightarrow> dash_error" where
  "dx_thrown env e = Dx (toDxError (de_thrown env e) None)"

definition failed :: "dash_error \<Rightarrow> 'rpc mutation" where
  "failed e st = (Some (Inl e), st)"

definition run_instructions :: "('rpc, 'm, 'tx) dash_env \<Rightarrow> Instruction list \<Rightarrow> TxOpts option \<Rightarrow> Instruction list" where
  "run_instructions env instructions opts =
     [cp_setComputeUnitLimit (de_compose env) (or_default (Option.bind opts to_computeUnits) CU_OWNER_ACTION)]
     @ (case Option.bind opts to_priorityFeeMicroLamports of
          Some fee \<Rightarrow> if fee > 0 then [cp_setComputeUnitPrice (de_compose env) fee] else []
        | None \<Rightarrow> [])
     @ instructions"

definition run_message :: "('rpc, 'm, 'tx) dash_env \<Rightarrow> Blockhash \<Rightarrow> Instruction list \<Rightarrow> TxOpts option \<Rightarrow> 'm" where
  "run_message env blockhash instructions opts =
     cp_message (de_compose env)
       \<lparr>tm_version = 0, tm_feePayer = de_owner env, tm_lifetime = blockhash,
        tm_instructions = run_instructions env instructions opts\<rparr>"

definition run :: "('rpc, 'm, 'tx) dash_env \<Rightarrow> Instruction list \<Rightarrow> TxOpts option \<Rightarrow> 'rpc mutation" where
  "run env instructions opts st =
     (case cached_blockhash \<lparr>bx_rpc = de_rpc env, bx_answer = de_latestBlockhash env, bx_now = de_now env,
                             bx_after = de_after env\<rparr> (ds_blockhashes st) of
        (r, registry) \<Rightarrow>
          let st1 = st\<lparr>ds_blockhashes := registry\<rparr>
          in case r of
               Inl e \<Rightarrow> (Some (Inl (dx_thrown env e)), st1)
             | Inr blockhash \<Rightarrow>
                 (case de_sign env (run_message env blockhash instructions opts) of
                    Inl e \<Rightarrow> (Some (Inl (dx_thrown env (EXTERNAL_ERROR e))), st1)
                  | Inr signedTx \<Rightarrow>
                      let wire = cp_wire64 (de_compose env) signedTx
                      in (map_option (\<lambda>outcome. case outcome of Inl e \<Rightarrow> Inl (dx_thrown env e) | Inr signature \<Rightarrow> Inr signature)
                            (sendAndConfirmTransaction (de_send env) (de_sentAt env) (de_poll env) wire
                               \<lparr>so_timeoutMs = None, so_commitment = None\<rparr>),
                          st1\<lparr>ds_sent := ds_sent st1 @ [wire]\<rparr>)))"

text \<open>An instruction is built outside \<open>run\<close>: what its builder throws is not normalised.\<close>

definition submit :: "('rpc, 'm, 'tx) dash_env \<Rightarrow> (sdk_error, Instruction) result \<Rightarrow> TxOpts option \<Rightarrow> 'rpc mutation" where
  "submit env ix opts =
     (case ix of Inl e \<Rightarrow> failed (Thrown e) | Inr i \<Rightarrow> run env [i] opts)"

section \<open>Client-side validation\<close>

text \<open>Each check gives the error it throws, if any; \<open>checked\<close> runs them in order before the rest.\<close>

fun checked :: "dash_error option list \<Rightarrow> 'rpc mutation \<Rightarrow> 'rpc mutation" where
  "checked [] k = k"
| "checked (None # cs) k = checked cs k"
| "checked (Some e # cs) k = failed e"

definition requirePositiveAmount :: "int \<Rightarrow> string \<Rightarrow> dash_error option" where
  "requirePositiveAmount amount field =
     (if amount \<le> 0 then Some (dx_plain (field @ '' must be positive, got '' @ show_int amount))
      else if amount > U64_MAX then Some (dx_plain (field @ '' exceeds u64 maximum ('' @ show_int U64_MAX @ '')''))
      else None)"

definition requireValidAddress :: "string \<Rightarrow> string \<Rightarrow> dash_error option" where
  "requireValidAddress addr field =
     (if addr = [] \<or> length addr < 32 \<or> length addr > 44
      then Some (dx_plain (field @ '' is not a valid Solana address (got '' @ show_nat (length addr) @ '' chars)''))
      else None)"

definition MAX_CAPABILITY :: int where "MAX_CAPABILITY = 2"

definition requireValidPermissions :: "int \<Rightarrow> dash_error option" where
  "requireValidPermissions perms =
     (if perms < 0 then Some (dx_plain ''Capability cannot be negative'')
      else if perms = 0
        then Some (dx_plain (''Capability is 0 (Disabled) '' @ em_dash
               @ '' agent would have no permissions. Use 1 (Observer) or 2 (Operator).''))
      else if perms > MAX_CAPABILITY
        then Some (dx_plain (''Capability exceeds maximum ('' @ show_int MAX_CAPABILITY
               @ ''). Valid values: 0=Disabled, 1=Observer, 2=Operator.''))
      else None)"

definition PROTOCOL_MODES :: "(string \<times> int) list" where
  "PROTOCOL_MODES = [(''unrestricted'', 0), (''whitelist'', 1), (''blacklist'', 2)]"

text \<open>
  \<open>mode in map\<close> also holds for the names an object inherits from \<open>Object.prototype\<close>. \<open>map[mode]\<close> is then a
  function or an object instead of a number; the u8 codec compares it as NaN, which passes its range check, and writes
  \<open>Number(NaN)\<close>, the byte 0.
\<close>

definition OBJECT_PROTOTYPE_NAMES :: "string list" where
  "OBJECT_PROTOTYPE_NAMES =
     [''constructor'', ''toString'', ''toLocaleString'', ''valueOf'', ''hasOwnProperty'', ''isPrototypeOf'',
      ''propertyIsEnumerable'', ''__proto__'', ''__defineGetter__'', ''__defineSetter__'', ''__lookupGetter__'',
      ''__lookupSetter__'']"

definition mapProtocolMode :: "string \<Rightarrow> (dash_error, int) result" where
  "mapProtocolMode mode =
     (case map_of PROTOCOL_MODES mode of
        Some n \<Rightarrow> Inr n
      | None \<Rightarrow>
          if mode \<in> set OBJECT_PROTOTYPE_NAMES then Inr 0
          else Inl (dx_plain (''Invalid protocolMode: '' @ [CHR 0x22] @ mode @ [CHR 0x22] @ ''. Must be '' @ [CHR 0x22]
            @ ''unrestricted'' @ [CHR 0x22] @ '', '' @ [CHR 0x22] @ ''whitelist'' @ [CHR 0x22] @ '', or '' @ [CHR 0x22]
            @ ''blacklist'' @ [CHR 0x22] @ ''.'')))"

definition derivePendingAgentPermsPDA :: "dash_codec \<Rightarrow> address \<Rightarrow> address \<Rightarrow> address" where
  "derivePendingAgentPermsPDA env vault agent =
     derived env [seedString ''pending_agent_perms'', bv_enc (bx_codec env) vault, bv_enc (bx_codec env) agent]"

definition overlay_pda :: "('rpc, 'm, 'tx) dash_env \<Rightarrow> address" where
  "overlay_pda env =
     fst (getAgentOverlayPDA (bv_pda (bx_codec (de_codec env))) (bv_enc (bx_codec (de_codec env))) (de_vault env) 0
        SIGIL_PROGRAM_ADDRESS)"

section \<open>Simple mutations\<close>



text \<open>The existence check of one address: an RPC failure counts as absent.\<close>

definition existing :: "('rpc, 'm, 'tx) dash_env \<Rightarrow> address \<Rightarrow> address option" where
  "existing env pda = (case de_accountExists env pda of Inr True \<Rightarrow> Some pda | _ \<Rightarrow> None)"

definition close_candidates :: "('rpc, 'm, 'tx) dash_env \<Rightarrow> AgentVault \<Rightarrow> address list" where
  "close_candidates env vaultData =
     (let c = bx_codec (de_codec env)
      in [fst (getPendingPolicyPDA (bv_pda c) (bv_enc c) (de_vault env) SIGIL_PROGRAM_ADDRESS)]
         @ map (\<lambda>agent. derivePendingAgentPermsPDA (de_codec env) (de_vault env) (ae_pubkey agent)) (av_agents vaultData)
         @ [fst (getPendingCloseConstraintsPDA (bv_pda c) (bv_enc c) (de_vault env) SIGIL_PROGRAM_ADDRESS)])"

text \<open>\<open>AccountRole.WRITABLE\<close> metas of the accounts found, in the order of the checks.\<close>

definition remaining_accounts :: "('rpc, 'm, 'tx) dash_env \<Rightarrow> AgentVault \<Rightarrow> AccountMeta list" where
  "remaining_accounts env vaultData =
     (let checks = map (existing env) (close_candidates env vaultData); agents = length (av_agents vaultData);
          meta = (\<lambda>a. \<lparr>am_address = a, am_role = WRITABLE\<rparr>)
      in (case checks ! 0 of Some a \<Rightarrow> [meta a] | None \<Rightarrow> [])
         @ concat (map (\<lambda>i. case checks ! (1 + i) of Some a \<Rightarrow> [meta a] | None \<Rightarrow> []) [0 ..< agents])
         @ (case checks ! (1 + agents) of Some a \<Rightarrow> [meta a] | None \<Rightarrow> []))"


definition pauseAgent :: "('rpc, 'm, 'tx) dash_env \<Rightarrow> address \<Rightarrow> TxOpts option \<Rightarrow> 'rpc mutation" where
  "pauseAgent env agent opts =
     checked [requireValidAddress agent ''Agent address'']
       (submit env (getPauseAgentInstruction (de_codec env) (de_owner env) (de_vault env) agent) opts)"



definition addAgent :: "('rpc, 'm, 'tx) dash_env \<Rightarrow> address \<Rightarrow> int \<Rightarrow> int \<Rightarrow> TxOpts option \<Rightarrow> 'rpc mutation" where
  "addAgent env agent permissions spendingLimit opts =
     checked [requireValidAddress agent ''Agent address'', requireValidPermissions permissions]
       (submit env (getRegisterAgentInstruction (bx_codec (de_codec env))
          \<lparr>rg_owner = de_owner env, rg_vault = de_vault env, rg_agentSpendOverlay = overlay_pda env, rg_agent = agent,
           rg_capability = permissions, rg_spendingLimitUsd = spendingLimit\<rparr>) opts)"

section \<open>Complex mutations\<close>









definition queueAgentPermissions ::
  "('rpc, 'm, 'tx) dash_env \<Rightarrow> address \<Rightarrow> int \<Rightarrow> int \<Rightarrow> TxOpts option \<Rightarrow> 'rpc mutation" where
  "queueAgentPermissions env agent permissions spendingLimit opts =
     checked [requireValidAddress agent ''Agent address'', requireValidPermissions permissions]
       (submit env (getQueueAgentPermissionsUpdateInstructionAsync (de_codec env) (de_owner env) (de_vault env) None None None
          agent permissions spendingLimit) opts)"











definition createPostAssertions ::
  "('rpc, 'm, 'tx) dash_env \<Rightarrow> PostAssertionEntry option list option \<Rightarrow> TxOpts option \<Rightarrow> 'rpc mutation" where
  "createPostAssertions env entries opts =
     (case validatePostAssertionEntries entries of
        Inl e \<Rightarrow> failed (InvalidAssertions e)
      | Inr _ \<Rightarrow>
          submit env (getCreatePostAssertionsInstructionAsync (de_codec env) (de_owner env) (de_vault env) None None None
            (map the (the entries))) opts)"

definition closePostAssertions :: "('rpc, 'm, 'tx) dash_env \<Rightarrow> TxOpts option \<Rightarrow> 'rpc mutation" where
  "closePostAssertions env opts =
     submit env (getClosePostAssertionsInstructionAsync (de_codec env) (de_owner env) (de_vault env) None None None) opts"

section \<open>OwnerClient\<close>



section \<open>Valid calls\<close>

text \<open>What a call has to satisfy for the client to build its transaction.\<close>

definition address_ok :: "address \<Rightarrow> bool" where
  "address_ok a \<longleftrightarrow> 32 \<le> length a \<and> length a \<le> 44"

definition amount_ok :: "int \<Rightarrow> bool" where
  "amount_ok a \<longleftrightarrow> 0 < a \<and> a < 2 ^ 64"



lemma requirePositiveAmount_None [simp]: "requirePositiveAmount a field = None \<longleftrightarrow> amount_ok a"
  by (auto simp: requirePositiveAmount_def amount_ok_def U64_MAX_def)

lemma requireValidAddress_None [simp]: "requireValidAddress a field = None \<longleftrightarrow> address_ok a"
  by (auto simp: requireValidAddress_def address_ok_def)

lemma requireValidPermissions_None [simp]: "requireValidPermissions p = None \<longleftrightarrow> p \<in> {1, 2}"
  by (auto simp: requireValidPermissions_def MAX_CAPABILITY_def)

lemma checked_cases: "checked cs k = k \<and> list_all (\<lambda>c. c = None) cs \<or> (\<exists>e. Some e \<in> set cs \<and> checked cs k = failed e)"
  by (induction cs k rule: checked.induct) auto

section \<open>What each call sends\<close>


text \<open>The fields after the tag, encoded, in order. A mode that is not one of the last two is sent as 0.\<close>

definition mode_number :: "string \<Rightarrow> int" where
  "mode_number m = (if m = ''whitelist'' then 1 else if m = ''blacklist'' then 2 else 0)"







text \<open>
  At most one transaction: the call fails having sent nothing, or it hands exactly one wire to the
  node, a message with instructions and options for which \<open>P\<close> holds, signed.
\<close>

definition at_most_one :: "('rpc, 'm, 'tx) dash_env \<Rightarrow> (Instruction list \<Rightarrow> TxOpts option \<Rightarrow> bool) \<Rightarrow> 'rpc mutation \<Rightarrow> bool" where
  "at_most_one env P m \<longleftrightarrow>
     (\<forall>st. (ds_sent (snd (m st)) = ds_sent st \<and> (\<exists>e. fst (m st) = Some (Inl e)))
         \<or> (\<exists>blockhash ixs opts tx. P ixs opts
             \<and> de_sign env (run_message env blockhash ixs opts) = Inr tx
             \<and> ds_sent (snd (m st)) = ds_sent st @ [cp_wire64 (de_compose env) tx]))"

lemma at_most_one_failed [simp]: "at_most_one env P (failed e)"
  by (simp add: at_most_one_def failed_def)





lemma ex_bool [simp]: "\<exists>w. w" "Ex Not"
  by auto



















section \<open>Properties\<close>


text \<open>An inherited name is taken for a protocol mode, and asks for the mode that allows every program.\<close>

lemma inherited_mode_accepted: "mapProtocolMode ''toString'' = Inr (mode_number ''unrestricted'')"
  by code_simp

lemma checked_fails:
  assumes "\<not> list_all (\<lambda>c. c = None) cs"
  shows "\<exists>e. checked cs k st = (Some (Inl e), st)"
  using checked_cases [of cs k] assms by (auto simp: failed_def)

text \<open>Invalid arguments are refused before anything is asked of the node, and the state is unchanged.\<close>

lemma invalid_address_refused:
  assumes "\<not> address_ok agent"
  shows "\<exists>e. addAgent env agent p l opts st = (Some (Inl e), st)" "\<exists>e. pauseAgent env agent opts st = (Some (Inl e), st)"
    "\<exists>e. queueAgentPermissions env agent p l opts st = (Some (Inl e), st)"
  unfolding addAgent_def pauseAgent_def queueAgentPermissions_def
  by (rule checked_fails, simp add: assms)+

lemma remaining_accounts_eq:
  "remaining_accounts env v =
     map (\<lambda>a. \<lparr>am_address = a, am_role = WRITABLE\<rparr>)
       (filter (\<lambda>a. de_accountExists env a = Inr True) (close_candidates env v))"
proof -
  define meta where "meta = (\<lambda>a :: address. \<lparr>am_address = a, am_role = WRITABLE\<rparr>)"
  have one: "(case existing env a of Some b \<Rightarrow> [meta b] | None \<Rightarrow> []) =
      map meta (filter (\<lambda>a. de_accountExists env a = Inr True) [a])" for a
    by (auto simp: existing_def split: sum.split bool.split)
  have many: "concat (map (\<lambda>i. case (map (existing env) xs) ! i of Some b \<Rightarrow> [meta b] | None \<Rightarrow> []) [0 ..< length xs]) =
      map meta (filter (\<lambda>a. de_accountExists env a = Inr True) xs)" for xs
  proof -
    have "map (\<lambda>i. case (map (existing env) xs) ! i of Some b \<Rightarrow> [meta b] | None \<Rightarrow> []) [0 ..< length xs]
        = map (\<lambda>a. map meta (filter (\<lambda>a. de_accountExists env a = Inr True) [a])) xs"
      by (rule nth_equalityI) (simp_all add: one)
    also have "concat \<dots> = map meta (filter (\<lambda>a. de_accountExists env a = Inr True) xs)"
      by (induction xs) simp_all
    finally show ?thesis .
  qed
  obtain p as q where c: "close_candidates env v = [p] @ as @ [q]" "length as = length (av_agents v)"
    by (auto simp: close_candidates_def Let_def)
  have nths: "map (existing env) ([p] @ as @ [q]) ! 0 = existing env p"
      "map (existing env) ([p] @ as @ [q]) ! (1 + length as) = existing env q"
      "i < length as \<Longrightarrow> map (existing env) ([p] @ as @ [q]) ! (1 + i) = map (existing env) as ! i" for i
    by (simp_all add: nth_append)
  have "map (\<lambda>i. case map (existing env) ([p] @ as @ [q]) ! (1 + i) of Some b \<Rightarrow> [meta b] | None \<Rightarrow> []) [0 ..< length as]
      = map (\<lambda>i. case map (existing env) as ! i of Some b \<Rightarrow> [meta b] | None \<Rightarrow> []) [0 ..< length as]"
    using nths(3) by simp
  then show ?thesis
    unfolding remaining_accounts_def Let_def c(1) c(2) [symmetric] meta_def [symmetric] nths(1,2)
    by (simp only: many one) simp
qed

lemma map_filter_head:
  assumes "inj g"
  shows "(\<exists>zs. map g (filter P (x # xs)) = g x # zs) \<longleftrightarrow> P x"
proof
  assume "\<exists>zs. map g (filter P (x # xs)) = g x # zs"
  then have "g x \<in> g ` set (filter P (x # xs))" by (metis list.set_intros(1) set_map)
  then have "x \<in> set (filter P (x # xs))" using assms by (simp only: inj_image_mem_iff)
  then show "P x" by (simp only: set_filter mem_Collect_eq)
qed simp

text \<open>
  Closing a vault cleans up exactly what is there: the accounts appended to the close instruction are
  the pending policy, the pending permissions of each agent in vault order and the pending constraints
  closure, as far as the node reports them to exist, each writable; and the first of them is the
  pending policy, where the program looks for it, exactly when a policy update is pending.
\<close>

theorem close_vault_accounts_exact:
  "remaining_accounts env v =
     map (\<lambda>a. \<lparr>am_address = a, am_role = WRITABLE\<rparr>)
       (filter (\<lambda>a. de_accountExists env a = Inr True) (close_candidates env v))
   \<and> (let pending = derived (de_codec env) [seedString ''pending_policy'', bv_enc (bx_codec (de_codec env)) (de_vault env)]
      in de_accountExists env pending = Inr True \<longleftrightarrow>
         (\<exists>rest. remaining_accounts env v = \<lparr>am_address = pending, am_role = WRITABLE\<rparr> # rest))"
proof -
  let ?pending = "derived (de_codec env) [seedString ''pending_policy'', bv_enc (bx_codec (de_codec env)) (de_vault env)]"
  have "\<exists>rest. close_candidates env v = ?pending # rest"
    by (simp add: close_candidates_def Let_def getPendingPolicyPDA_def derived_at_def)
  then obtain rest where c: "close_candidates env v = ?pending # rest" ..
  have inj: "inj (\<lambda>a. \<lparr>am_address = a, am_role = WRITABLE\<rparr>)" by (simp add: inj_def)
  show ?thesis unfolding remaining_accounts_eq Let_def c map_filter_head [OF inj] by simp
qed

end
