(* ===== verification/JsNumber.thy ===== *)
theory JsNumber
  imports JsDouble
begin

text \<open>
  \<open>Number(bigint)\<close> and the double arithmetic of the display and analytics modules, over \<open>dbl\<close>: values
  stay below \<open>2 ^ 1000\<close> in magnitude, so no operation overflows to an infinity. The facts say which integers are exact,
  bound the error of one operation and decide when a rounded quotient stays below an integer.
\<close>

definition Number :: "int \<Rightarrow> rat" where
  "Number n = dbl (of_int n)"

lemma dbl_0 [simp]: "dbl 0 = 0"
  by (simp add: dbl_def to_double_def)

lemma Number_0 [simp]: "Number 0 = 0"
  by (simp add: Number_def)

lemma to_double_of_int:
  assumes "0 \<le> n" "n \<le> 2 ^ 53"
  shows "to_double (of_int n) = Some (of_int n)"
proof (cases "n = 0 \<or> n = 2 ^ 53")
  case True
  moreover have "flog2 (2 ^ 53) = 53" by (rule flog2_unique) (simp_all add: power_int_def)
  moreover have "round_half_even (4503599627370496 :: rat) = 4503599627370496"
    using round_half_even_below [of 0 4503599627370496] by simp
  ultimately show ?thesis by (auto simp: to_double_def)
next
  case False
  then have n: "0 < n" "n < 2 ^ 53" using assms by simp_all
  let ?x = "of_int n :: rat"
  have x0: "0 < ?x" using n by simp
  note fl = flog2_bounds [OF x0]
  have "?x < of_int (2 ^ 53)" using n(2) by (simp only: of_int_less_iff)
  then have "(2 :: rat) powi flog2 ?x < 2 powi 53" using fl by (simp add: power_int_def)
  then have hi: "flog2 ?x < 53" by (rule powi_less_imp)
  have "1 \<le> ?x" using n by simp
  then have "(2 :: rat) powi 0 < 2 powi (flog2 ?x + 1)" using fl by simp
  then have lo: "0 < flog2 ?x + 1" by (rule powi_less_imp)
  define k where "k = nat (52 - flog2 ?x)"
  have k: "flog2 ?x = 52 - int k" "k \<le> 1074" using hi lo by (simp_all add: k_def)
  have "?x * 2 ^ k = of_int (n * 2 ^ k) + 0" by simp
  then have "round_half_even (?x * 2 ^ k) = n * 2 ^ k"
    using round_half_even_below [of 0 "n * 2 ^ k"] by simp
  then show ?thesis using to_double_scaled [OF x0 k] by simp
qed

lemma Number_exact: "0 \<le> n \<Longrightarrow> n \<le> 2 ^ 53 \<Longrightarrow> Number n = of_int n"
  by (simp add: Number_def dbl_def to_double_of_int)

lemma dbl_error:
  assumes "x = 0 \<or> 1 / 10 ^ 22 \<le> x" "x < 2 ^ 1000"
  shows "\<bar>dbl x - x\<bar> \<le> x / 2 ^ 53"
proof (cases "x = 0")
  case False
  then have x: "1 / 10 ^ 22 \<le> x" using assms(1) by simp
  have "(0 :: rat) < 1 / 10 ^ 22" by simp
  then have x0: "0 < x" using x by (rule less_le_trans)
  then obtain r where r: "to_double x = Some r" using to_double_finite assms(2) by blast
  have "2 powi (- 1022) \<le> x" using small_powi_le x by (rule order_trans)
  then have "\<bar>r - x\<bar> \<le> x / 2 ^ 53" using r by (rule to_double_error)
  then show ?thesis using r x0 by (simp add: dbl_def)
qed simp

lemma dbl_ge_int:
  assumes "of_int K \<le> x" "0 \<le> K" "K \<le> 2 ^ 40" "x < 2 ^ 1000" "x = 0 \<or> 1 / 10 ^ 22 \<le> x"
  shows "of_int K \<le> dbl x"
proof (cases "x < 2 ^ 50")
  case False
  have "of_int K \<le> (2 :: rat) ^ 40"
    using assms(3) by (metis of_int_le_iff of_int_numeral of_int_power)
  moreover have "x - dbl x \<le> x / 2 ^ 53"
    using dbl_error [OF assms(5,4)] unfolding abs_le_iff by linarith
  ultimately show ?thesis using False by simp
next
  case True
  show ?thesis
  proof (cases "x = 0")
    case False
    then have x0: "0 < x" using assms(1,2) by (metis of_int_0_le_iff order_le_less order_trans)
    define e where "e = max (flog2 x - 52) (- 1074)"
    have "(2 :: rat) powi flog2 x < 2 powi 50"
      using flog2_bounds [OF x0] True by (simp add: power_int_def)
    then have "flog2 x < 50" by (rule powi_less_imp)
    then have "e \<le> 0" by (simp add: e_def)
    define k where "k = nat (- e)"
    have E: "(2 :: rat) powi e = 1 / 2 ^ k" using \<open>e \<le> 0\<close> by (simp add: k_def power_int_def power_one_over)
    obtain r where r: "to_double x = Some r" using to_double_finite [OF x0] assms(4) by blast
    have rr: "r = of_int (round_half_even (x * 2 ^ k)) / 2 ^ k"
      using x0 r by (simp add: to_double_def Let_def e_def [symmetric] E split: if_splits)
    have "(of_int (K * 2 ^ k) :: rat) \<le> x * 2 ^ k" using assms(1) by simp
    then have "K * 2 ^ k \<le> \<lfloor>x * 2 ^ k\<rfloor>" by (simp only: le_floor_iff)
    then have "K * 2 ^ k \<le> round_half_even (x * 2 ^ k)" by (auto simp: round_half_even_def Let_def)
    then have "(of_int (K * 2 ^ k) :: rat) \<le> of_int (round_half_even (x * 2 ^ k))" by (simp only: of_int_le_iff)
    then have "of_int K \<le> r" unfolding rr by (simp add: field_simps)
    then show ?thesis using x0 r by (simp add: dbl_def)
  qed (use assms in simp)
qed

text \<open>The two-decimal percentage \<open>Number(n) / 100\<close> against a whole threshold.\<close>

lemma percent_less_iff:
  assumes "0 \<le> n" "n < 2 ^ 500" "0 \<le> K" "K \<le> 2 ^ 30"
  shows "dbl (Number n / 100) < of_int K \<longleftrightarrow> n < 100 * K"
proof (cases "n \<le> 2 ^ 53")
  case True
  have N: "Number n = of_int n" using True assms(1) by (rule Number_exact [rotated])
  define x where "x = (of_int n :: rat) / 100"
  have small: "x = 0 \<or> 1 / 10 ^ 22 \<le> x"
  proof (cases "n = 0")
    case False
    then have "(1 :: rat) \<le> of_int n" using assms(1) by simp
    then have "1 / 100 \<le> x" by (simp add: x_def)
    moreover have "(1 :: rat) / 10 ^ 22 \<le> 1 / 100" by simp
    ultimately show ?thesis by linarith
  qed (simp add: x_def)
  have n53: "(of_int n :: rat) \<le> 2 ^ 53"
    using True by (metis of_int_le_iff of_int_numeral of_int_power)
  then have big: "x < 2 ^ 1000" by (simp add: x_def)
  show ?thesis
  proof
    assume "dbl (Number n / 100) < of_int K"
    moreover have "of_int K \<le> dbl x" if "of_int K \<le> x"
      by (rule dbl_ge_int [OF that assms(3) _ big small]) (use assms(4) in simp)
    ultimately have "x < of_int K" unfolding N x_def by linarith
    then have "(of_int n :: rat) < of_int (100 * K)" by (simp add: x_def)
    then show "n < 100 * K" by (simp only: of_int_less_iff)
  next
    assume "n < 100 * K"
    then have "(of_int n :: rat) \<le> of_int (100 * K - 1)" by (simp only: of_int_le_iff)
    then have x: "x \<le> of_int K - 1 / 100" by (simp add: x_def)
    have "(of_int K :: rat) \<le> of_int (2 ^ 30)" using assms(4) by (simp only: of_int_le_iff)
    then have "x + x / 2 ^ 53 < of_int K" using x by simp
    then show "dbl (Number n / 100) < of_int K"
      using dbl_error [OF small big] unfolding N x_def [symmetric] abs_le_iff by linarith
  qed
next
  case False
  then have "(2 :: int) ^ 53 \<le> n" by simp
  then have n53: "(of_int (2 ^ 53) :: rat) \<le> of_int n" by (simp only: of_int_le_iff)
  have nbig: "(of_int n :: rat) < of_int (2 ^ 500)" using assms(2) by (simp only: of_int_less_iff)
  have e1: "\<bar>Number n - of_int n\<bar> \<le> of_int n / 2 ^ 53"
    unfolding Number_def by (rule dbl_error) (use n53 nbig in \<open>simp_all add: field_simps\<close>)
  define y where "y = Number n / 100"
  have y: "2 ^ 45 \<le> y" "y < 2 ^ 1000"
    using e1 n53 nbig unfolding y_def abs_le_iff by (simp_all add: field_simps)
  have "\<bar>dbl y - y\<bar> \<le> y / 2 ^ 53" by (rule dbl_error) (use y in \<open>simp_all add: field_simps\<close>)
  then have "2 ^ 44 \<le> dbl y" using y unfolding abs_le_iff by (simp add: field_simps)
  moreover have "(of_int K :: rat) \<le> of_int (2 ^ 30)" using assms(4) by (simp only: of_int_le_iff)
  ultimately have "\<not> dbl y < of_int K" by simp
  moreover have "\<not> n < 100 * K" using False assms(4) by simp
  ultimately show ?thesis by (simp add: y_def)
qed

end
