(* ===== verification/Formatting.thy ===== *)
theory Formatting
  imports JsNumber SdkTypes
begin

text \<open>
  \<open>sdk/kit/src/formatting.ts\<close>: the conversions between base units and dollar Numbers, and the text the
  dashboard shows. \<open>Intl.NumberFormat\<close> is a parameter: \<open>usd\<close> renders a dollar amount with the given
  fraction digits, \<open>usdCompact\<close>, \<open>grouped\<close> and \<open>short\<close> are the other three formatters.
  \<open>protocol-names.ts\<close> follows, which falls back on the truncated address.
\<close>

section \<open>Base units and dollars\<close>

definition STABLECOIN_USD_FACTOR :: int where "STABLECOIN_USD_FACTOR = 1000000"

definition toUsdNumber :: "int \<Rightarrow> (sdk_error, rat) result" where
  "toUsdNumber absAmount =
     (if absAmount < 0 then Inl (RANGE_ERROR ''toUsdNumber requires a non-negative bigint'')
      else Inr (dbl (Number (bdiv absAmount STABLECOIN_USD_FACTOR)
                     + dbl (Number (bmod absAmount STABLECOIN_USD_FACTOR) / 1000000))))"

definition SAFE_INTEGER_MAX :: int where "SAFE_INTEGER_MAX = 9007199254740991"

definition FROM_USD_NUMBER_MAX :: rat where
  "FROM_USD_NUMBER_MAX = dbl (of_int SAFE_INTEGER_MAX / 1000000)"

text \<open>\<open>Math.round\<close> of a double: the nearest integer, halves upwards.\<close>

definition math_round :: "rat \<Rightarrow> int" where
  "math_round x = \<lfloor>x + 1 / 2\<rfloor>"

definition fromUsdNumber :: "js_number \<Rightarrow> (sdk_error, int) result" where
  "fromUsdNumber v =
     (case v of
        None \<Rightarrow> Inl JS_TYPE_ERROR
      | Some x \<Rightarrow>
          if \<bar>x\<bar> \<ge> FROM_USD_NUMBER_MAX
          then Inl (RANGE_ERROR ''fromUsdNumber: |value| meets or exceeds precision ceiling'')
          else Inr (math_round (dbl (x * 1000000))))"

section \<open>Dollar text\<close>

text \<open>\<open>toUsdNumber\<close> cannot throw here: its argument is an absolute value.\<close>

definition usd_value :: "int \<Rightarrow> rat" where
  "usd_value absAmount = (case toUsdNumber absAmount of Inl e \<Rightarrow> 0 | Inr x \<Rightarrow> x)"

definition formatUsd :: "(nat \<Rightarrow> rat \<Rightarrow> string) \<Rightarrow> int \<Rightarrow> nat \<Rightarrow> string" where
  "formatUsd usd amount decimals =
     (let isNegative = amount < 0;
          absAmount = (if isNegative then - amount else amount);
          formatted = usd decimals (usd_value absAmount)
      in if isNegative then CHR ''-'' # formatted else formatted)"

definition formatUsdCompact :: "(rat \<Rightarrow> string) \<Rightarrow> int \<Rightarrow> string" where
  "formatUsdCompact usdCompact amount =
     (let isNegative = amount < 0;
          absAmount = (if isNegative then - amount else amount);
          formatted = usdCompact (usd_value absAmount)
      in if isNegative then CHR ''-'' # formatted else formatted)"

definition formatUsdSigned :: "(nat \<Rightarrow> rat \<Rightarrow> string) \<Rightarrow> int \<Rightarrow> nat \<Rightarrow> string" where
  "formatUsdSigned usd amount decimals =
     (if amount = 0 then formatUsd usd 0 decimals
      else if amount > 0 then CHR ''+'' # formatUsd usd amount decimals
      else formatUsd usd amount decimals)"

section \<open>Percentages\<close>

text \<open>\<open>x.toFixed(f)\<close> below \<open>10 ^ 21\<close>: the integer nearest to \<open>x * 10 ^ f\<close>, the larger one on a tie.\<close>

definition fixed_digits :: "nat \<Rightarrow> nat \<Rightarrow> string" where
  "fixed_digits f n =
     (let s = padStart (Suc f) (CHR ''0'') (show_nat n); k = length s - f
      in if f = 0 then s else take k s @ CHR ''.'' # drop k s)"

definition toFixed :: "nat \<Rightarrow> rat \<Rightarrow> string" where
  "toFixed f x =
     (if x < 0 then CHR ''-'' # fixed_digits f (nat \<lfloor>- x * 10 ^ f + 1 / 2\<rfloor>)
      else fixed_digits f (nat \<lfloor>x * 10 ^ f + 1 / 2\<rfloor>))"

definition formatPercent :: "rat \<Rightarrow> nat \<Rightarrow> string" where
  "formatPercent v decimals = toFixed decimals v @ ''%''"

definition formatPercentSigned :: "rat \<Rightarrow> nat \<Rightarrow> string" where
  "formatPercentSigned v decimals =
     (let threshold = dbl (1 / 2 * dbl (1 / 10 ^ decimals))
      in if \<bar>v\<bar> < threshold then ''0.'' @ replicate decimals (CHR ''0'') @ ''%''
         else if v > 0 then CHR ''+'' # toFixed decimals v @ ''%''
         else toFixed decimals v @ ''%'')"

section \<open>Times\<close>

text \<open>\<open>Math.floor(a / b)\<close>, and \<open>a % b\<close>, which is exact on doubles.\<close>

definition floor_div :: "rat \<Rightarrow> rat \<Rightarrow> int" where
  "floor_div a b = \<lfloor>dbl (a / b)\<rfloor>"

definition fmod :: "rat \<Rightarrow> rat \<Rightarrow> rat" where
  "fmod a b = a - b * of_int \<lfloor>a / b\<rfloor>"

definition formatDuration :: "rat \<Rightarrow> string" where
  "formatDuration seconds =
     (if seconds < 0 then ''0m''
      else if seconds < 60 then ''< 1m''
      else
        let days = floor_div seconds 86400;
            hours = floor_div (fmod seconds 86400) 3600;
            minutes = floor_div (fmod seconds 3600) 60
        in if days > 0
           then (if hours > 0 then show_int days @ ''d '' @ show_int hours @ ''h'' else show_int days @ ''d'')
           else if hours > 0
           then (if minutes > 0 then show_int hours @ ''h '' @ show_int minutes @ ''m'' else show_int hours @ ''h'')
           else show_int minutes @ ''m'')"

text \<open>\<open>nowMs\<close> is \<open>Date.now()\<close>; timestamps are whole seconds.\<close>

definition formatRelativeTime :: "msecs \<Rightarrow> int \<Rightarrow> string" where
  "formatRelativeTime nowMs timestamp =
     (let diff = floor_div (of_int nowMs) 1000 - timestamp
      in if diff < 60 then ''just now''
         else if diff < 3600 then show_int (floor_div (of_int diff) 60) @ ''m ago''
         else if diff < 86400 then show_int (floor_div (of_int diff) 3600) @ ''h ago''
         else if diff < 2592000 then show_int (floor_div (of_int diff) 86400) @ ''d ago''
         else show_int (floor_div (of_int diff) 2592000) @ ''mo ago'')"

definition formatTimeUntil :: "msecs \<Rightarrow> int \<Rightarrow> string" where
  "formatTimeUntil nowMs timestamp =
     (let diff = timestamp - floor_div (of_int nowMs) 1000
      in if diff \<le> 0 then ''expired'' else ''in '' @ formatDuration (of_int diff))"

section \<open>Addresses and token amounts\<close>

text \<open>With the default of four characters; \<open>slice(-4)\<close> is the suffix.\<close>

definition formatAddress :: "address \<Rightarrow> string" where
  "formatAddress a = (if length a \<le> 11 then a else take 4 a @ ''...'' @ slice_last 4 a)"

definition formatTokenAmount :: "(rat \<Rightarrow> string) \<Rightarrow> int \<Rightarrow> nat \<Rightarrow> string \<Rightarrow> nat option \<Rightarrow> string" where
  "formatTokenAmount grouped amount decimals symbol displayDecimals =
     (let isNegative = amount < 0;
          absAmount = (if isNegative then - amount else amount);
          factor = 10 ^ decimals;
          whole = bdiv absAmount factor;
          frac = bmod absAmount factor;
          fracDigits = (case displayDecimals of None \<Rightarrow> decimals | Some d \<Rightarrow> d);
          fracStr = take fracDigits (padStart decimals (CHR ''0'') (show_int frac));
          wholeFormatted = grouped (Number whole);
          result = (if fracDigits > 0 then wholeFormatted @ ''.'' @ fracStr @ '' '' @ symbol
                    else wholeFormatted @ '' '' @ symbol)
      in if isNegative then CHR ''-'' # result else result)"

definition formatTokenAmountCompact :: "(rat \<Rightarrow> string) \<Rightarrow> int \<Rightarrow> nat \<Rightarrow> string \<Rightarrow> string" where
  "formatTokenAmountCompact short amount decimals symbol =
     (let factor = 10 ^ decimals;
          v = dbl (Number (bdiv amount factor) + dbl (Number (bmod amount factor) / Number factor))
      in short v @ '' '' @ symbol)"

section \<open>protocol-names.ts\<close>

definition PROTOCOL_NAMES :: "(address \<times> string) list" where
  "PROTOCOL_NAMES = map (\<lambda>(addr, meta). (addr, pm_name meta)) SUPPORTED_PROTOCOLS"

definition resolveProtocolName :: "address \<Rightarrow> string" where
  "resolveProtocolName protocol =
     (case map_of PROTOCOL_NAMES protocol of Some n \<Rightarrow> n | None \<Rightarrow> formatAddress protocol)"

section \<open>Facts\<close>

lemma floor_div_int:
  assumes "0 \<le> n" "n \<le> 2 ^ 50" "0 < d" "d \<le> 10 ^ 7" "n div d \<le> 2 ^ 40"
  shows "floor_div (of_int n) (of_int d) = n div d"
proof (cases "n = 0")
  case False
  define x where "x = (of_int n :: rat) / of_int d"
  define K where "K = n div d"
  have d: "0 < (of_int d :: rat)" "(of_int d :: rat) \<le> 10 ^ 7"
    using assms(3,4) by simp_all
  have n: "1 \<le> (of_int n :: rat)" "(of_int n :: rat) \<le> 2 ^ 50"
    using False assms(1,2) by simp_all
  have K: "0 \<le> K" "K \<le> 2 ^ 40" using assms(1,3,5) by (simp_all add: K_def pos_imp_zdiv_nonneg_iff)
  have "n = K * d + n mod d" "0 \<le> n mod d" "n mod d < d" "(K + 1) * d = K * d + d"
    using assms(3) by (simp_all add: K_def algebra_simps)
  then have "K * d \<le> n" "n + 1 \<le> (K + 1) * d" by linarith+
  then have Kr: "(of_int (K * d) :: rat) \<le> of_int n" "(of_int (n + 1) :: rat) \<le> of_int ((K + 1) * d)"
    by (simp_all only: of_int_le_iff)
  have lo: "of_int K \<le> x" using Kr(1) d by (simp add: x_def field_simps)
  have hi: "x + 1 / of_int d \<le> of_int K + 1" using Kr(2) d by (simp add: x_def field_simps)
  have "1 / 10 ^ 7 \<le> x" unfolding x_def using n d by (intro frac_le) simp_all
  then have small: "x = 0 \<or> 1 / 10 ^ 22 \<le> x" by (simp add: order_trans [rotated])
  have "1 \<le> (of_int d :: rat)" using assms(3) by simp
  then have "x \<le> of_int n / 1" unfolding x_def using n by (intro frac_le) simp_all
  then have big: "x < 2 ^ 1000" using n by simp
  have "x / 2 ^ 53 = of_int n / 2 ^ 53 * (1 / of_int d)" by (simp add: x_def)
  also have "\<dots> < 1 * (1 / of_int d)" using n d by (intro mult_strict_right_mono) simp_all
  finally have "dbl x < of_int K + 1" using hi dbl_error [OF small big] unfolding abs_le_iff by linarith
  moreover have "of_int K \<le> dbl x" using dbl_ge_int [OF lo K big small] .
  ultimately have "\<lfloor>dbl x\<rfloor> = K" by (intro floor_unique) simp_all
  then show ?thesis by (simp add: floor_div_def x_def K_def)
qed (simp add: floor_div_def)

lemma fmod_int: "0 < d \<Longrightarrow> fmod (of_int n) (of_int d) = of_int (n mod d)"
  by (simp add: fmod_def floor_divide_of_int_eq minus_mult_div_eq_mod [symmetric])

section \<open>Properties\<close>

text \<open>
  C33. Dollars survive the trip through a JavaScript Number: an amount of at most \<open>2 ^ 50\<close> base units (over
  a billion dollars), split into whole dollars and microdollars, added in double
  precision, multiplied back and rounded, is the amount one started from.
\<close>

theorem usd_number_roundtrip:
  assumes "0 \<le> n" "n \<le> 2 ^ 50"
  shows "rbind (toUsdNumber n) (\<lambda>x. fromUsdNumber (Some x)) = Inr n"
proof -
  define w r where "w = n div 1000000" and "r = n mod 1000000"
  have wr: "n = 1000000 * w + r" "0 \<le> w" "w \<le> 2 ^ 50" "0 \<le> r" "r < 1000000"
    using assms by (simp_all add: w_def r_def)
  have W: "Number w = of_int w" and R: "Number r = of_int r"
    using wr by (simp_all add: Number_exact)
  define v where "v = (of_int n :: rat) / 1000000"
  define f where "f = dbl (of_int r / 1000000)"
  define s where "s = dbl (of_int w + f)"
  have nn: "0 \<le> (of_int n :: rat)" "(of_int n :: rat) \<le> 2 ^ 50"
    using assms by simp_all
  have veq: "v = of_int w + of_int r / 1000000" using wr(1) by (simp add: v_def add_divide_distrib)
  have rr: "(0 :: rat) \<le> of_int r" "(of_int r :: rat) < 1000000" "r = 0 \<or> (1 :: rat) \<le> of_int r"
    "(0 :: rat) \<le> of_int w"
    using wr by auto
  have ef: "\<bar>f - of_int r / 1000000\<bar> \<le> of_int r / 1000000 / 2 ^ 53"
    unfolding f_def by (rule dbl_error) (use rr in \<open>auto simp: field_simps\<close>)
  have x: "\<bar>(of_int w + f) - v\<bar> \<le> v / 2 ^ 53"
    using ef rr unfolding veq abs_le_iff by simp
  have cap: "of_int 9007199254 \<le> FROM_USD_NUMBER_MAX"
    unfolding FROM_USD_NUMBER_MAX_def SAFE_INTEGER_MAX_def by (rule dbl_ge_int) simp_all
  show ?thesis
  proof (cases "n = 0")
    case True
    moreover have "\<lfloor>1 / 2 :: rat\<rfloor> = 0" by (rule floor_unique) simp_all
    ultimately show ?thesis
      using cap by (simp add: toUsdNumber_def bdiv_def bmod_def fromUsdNumber_def math_round_def)
  next
    case False
    then have v: "1 / 1000000 \<le> v" "v \<le> 2 ^ 50 / 1000000" using assms(1) nn by (simp_all add: v_def)
    have y: "v / 2 \<le> of_int w + f" "of_int w + f \<le> v + v / 2 ^ 53" using x v unfolding abs_le_iff by simp_all
    have es: "\<bar>s - (of_int w + f)\<bar> \<le> (of_int w + f) / 2 ^ 53"
      unfolding s_def by (rule dbl_error) (use y v in simp_all)
    have sv: "\<bar>s - v\<bar> \<le> 17 / 8 * (v / 2 ^ 53)" using es x y v unfolding abs_le_iff by simp
    define z where "z = s * 1000000"
    have zn: "\<bar>z - of_int n\<bar> \<le> 17 / 8 * (of_int n / 2 ^ 53)"
      using sv unfolding z_def v_def abs_le_iff by simp
    have z: "1 / 2 \<le> z" "z \<le> 2 ^ 51" using zn nn False assms(1) unfolding abs_le_iff by simp_all
    have "\<bar>dbl z - z\<bar> \<le> z / 2 ^ 53" by (rule dbl_error) (use z in simp_all)
    then have "\<bar>dbl z - of_int n\<bar> < 1 / 2" using zn nn z unfolding abs_le_iff abs_less_iff by simp
    then have m: "math_round (dbl z) = n"
      unfolding math_round_def abs_less_iff by (intro floor_unique) linarith+
    have "\<bar>s\<bar> < 2000000000" using sv v unfolding abs_le_iff by simp
    then have "\<not> FROM_USD_NUMBER_MAX \<le> \<bar>s\<bar>" using cap by simp
    moreover have "toUsdNumber n = Inr s"
      using assms(1) by (simp add: toUsdNumber_def STABLECOIN_USD_FACTOR_def bdiv_nonneg bmod_nonneg
          w_def [symmetric] r_def [symmetric] W R s_def f_def)
    ultimately show ?thesis using m by (simp add: fromUsdNumber_def z_def)
  qed
qed

theorem usd_number_roundtrip_witness:
  "rbind (toUsdNumber 1234567890123) (\<lambda>x. fromUsdNumber (Some x)) = Inr 1234567890123"
  by (rule usd_number_roundtrip) simp_all

text \<open>
  On a whole number of seconds the floating point quotients of \<open>formatDuration\<close> are the exact ones: an hour or
  more below a day is shown as its whole hours and the minutes left over, when there are any.
\<close>

theorem duration_hours_exact:
  assumes "3600 \<le> n" "n < 86400"
  shows "formatDuration (of_int n) =
    (if n div 60 mod 60 > 0 then show_int (n div 3600) @ ''h '' @ show_int (n div 60 mod 60) @ ''m''
     else show_int (n div 3600) @ ''h'')"
proof -
  have f: "floor_div (of_int a) (of_int b) = a div b" if "0 \<le> a" "a \<le> 86400" "0 < b" "b \<le> 86400" for a b
  proof (rule floor_div_int)
    show "a div b \<le> 2 ^ 40" using that zdiv_mono2 [of a 1 b] by simp
  qed (use that in simp_all)
  have q: "floor_div (of_int n) 86400 = 0" "floor_div (fmod (of_int n) 86400) 3600 = n div 3600"
    "floor_div (fmod (of_int n) 3600) 60 = n mod 3600 div 60"
    using assms f [of n 86400] f [of n 3600] f [of "n mod 3600" 60] fmod_int [of 86400 n] fmod_int [of 3600 n]
    by simp_all
  moreover have "n mod 3600 div 60 = n div 60 mod 60" using zmod_zmult2_eq [of 60 n 60] by simp
  moreover have "0 < n div 3600" using assms by simp
  ultimately show ?thesis using assms by (simp add: formatDuration_def Let_def)
qed

theorem duration_hours_exact_witness: "formatDuration 8100 = ''2h 15m''"
  using duration_hours_exact [of 8100] by (simp add: show_int_def show_nat.simps digit_char_def char_of_def bit_0)

end
