(* ===== verification/Analytics.thy ===== *)
theory Analytics
  imports StateResolver UsdAmounts Formatting
begin

text \<open>
  The read-only analytics over a resolved vault: \<open>math-utils.ts\<close>, \<open>spending-analytics.ts\<close>,
  \<open>agent-analytics.ts\<close> (all but the event counts), \<open>protocol-analytics.ts\<close> and \<open>vault-analytics.ts\<close>
  of \<open>sdk/kit/src\<close>.

  Percentages are doubles (\<open>rat\<close> through \<open>dbl\<close>), amounts are bigints. \<open>dec\<close> is \<open>bytesToAddress\<close>, \<open>None\<close> where
  it throws, and \<open>fmt\<close> the six-decimal \<open>formatUsd\<close>. A JavaScript \<open>Map\<close> is its entries in insertion order.
\<close>

section \<open>math-utils.ts\<close>

definition computeUtilizationPercent :: "int \<Rightarrow> int \<Rightarrow> rat" where
  "computeUtilizationPercent spent cap = (if cap > 0 then dbl (Number (bdiv (spent * 10000) cap) / 100) else 0)"

definition computePnlPercent :: "int \<Rightarrow> int \<Rightarrow> rat" where
  "computePnlPercent pnl investment = (if investment > 0 then dbl (Number (bdiv (pnl * 10000) investment) / 100) else 0)"

fun herfindahl_loop :: "int \<Rightarrow> int list \<Rightarrow> rat \<Rightarrow> rat" where
  "herfindahl_loop tot [] sumSquares = sumSquares"
| "herfindahl_loop tot (v # vs) sumSquares =
     (if v = 0 then herfindahl_loop tot vs sumSquares
      else
        let shareBps = Number (bdiv (v * 10000) tot);
            share = dbl (shareBps / 10000)
        in herfindahl_loop tot vs (dbl (sumSquares + dbl (share * share))))"

definition computeHerfindahl :: "int list \<Rightarrow> rat" where
  "computeHerfindahl vs = (let tot = sum_list vs in if tot = 0 then 0 else herfindahl_loop tot vs 0)"

section \<open>spending-analytics.ts\<close>

record SpendingVelocity =
  sv_currentRate :: int
  sv_averageRate :: int
  sv_peakRate :: int
  sv_peakTimestamp :: rat
  sv_isAccelerating :: bool
  sv_timeToCapSeconds :: "rat option"
  sv_projectedCapHitTime :: "rat option"

definition zero_velocity :: SpendingVelocity where
  "zero_velocity = \<lparr>sv_currentRate = 0, sv_averageRate = 0, sv_peakRate = 0, sv_peakTimestamp = 0,
     sv_isAccelerating = False, sv_timeToCapSeconds = None, sv_projectedCapHitTime = None\<rparr>"

text \<open>One pass over the buckets: the valid ones in order, the peak amount and its epoch.\<close>

definition valid_bucket :: "int \<Rightarrow> EpochBucket \<Rightarrow> bool" where
  "valid_bucket currentEpoch b \<longleftrightarrow>
     \<not> (eb_epochId b < currentEpoch - NUM_EPOCHS \<or> eb_epochId b > currentEpoch) \<and> eb_usdAmount b \<noteq> 0"

fun velocity_loop ::
  "int \<Rightarrow> EpochBucket list \<Rightarrow> EpochBucket list \<times> int \<times> int \<Rightarrow> EpochBucket list \<times> int \<times> int" where
  "velocity_loop currentEpoch [] acc = acc"
| "velocity_loop currentEpoch (b # bs) (validBuckets, peakAmount, peakEpochId) =
     (if \<not> valid_bucket currentEpoch b
      then velocity_loop currentEpoch bs (validBuckets, peakAmount, peakEpochId)
      else velocity_loop currentEpoch bs
        (validBuckets @ [b],
         if eb_usdAmount b > peakAmount then eb_usdAmount b else peakAmount,
         if eb_usdAmount b > peakAmount then eb_epochId b else peakEpochId))"

definition hourly_rate :: "EpochBucket list \<Rightarrow> int" where
  "hourly_rate recentEpochs =
     (if recentEpochs \<noteq> [] then bdiv (sum_list (map eb_usdAmount recentEpochs) * 6) (int (length recentEpochs)) else 0)"

definition getSpendingVelocity :: "SpendTracker option \<Rightarrow> int \<Rightarrow> EffectiveBudget \<Rightarrow> SpendingVelocity" where
  "getSpendingVelocity tracker nowUnix globalBudget =
     (case tracker of None \<Rightarrow> zero_velocity
      | Some t \<Rightarrow>
        if nowUnix \<le> 0 then zero_velocity
        else
          let currentEpoch = bdiv nowUnix EPOCH_DURATION;
              (validBuckets, peakAmount, peakEpochId) = velocity_loop currentEpoch (st_buckets t) ([], 0, 0);
              recentEpochs = take 3 (sort_key (\<lambda>b. - eb_epochId b) validBuckets);
              currentRate = hourly_rate recentEpochs;
              averageRate = bdiv (bu_spent24h globalBudget) 24;
              isAccelerating = (if averageRate > 0 then currentRate > bdiv (averageRate * 3) 2 else currentRate > 0);
              timeToCap = (if currentRate > 0 \<and> bu_remaining globalBudget > 0
                then Some (dbl (dbl (Number (bdiv (bu_remaining globalBudget * 1000) currentRate) * 3600) / 1000))
                else None)
          in \<lparr>sv_currentRate = currentRate, sv_averageRate = averageRate, sv_peakRate = peakAmount,
              sv_peakTimestamp = Number (peakEpochId * EPOCH_DURATION), sv_isAccelerating = isAccelerating,
              sv_timeToCapSeconds = timeToCap,
              sv_projectedCapHitTime = map_option (\<lambda>secs. dbl (Number nowUnix + secs)) timeToCap\<rparr>)"

text \<open>The lifetime spend of an agent's overlay slot, as four of the modules look it up.\<close>

definition lifetime_spend :: "(bytes \<Rightarrow> address option) \<Rightarrow> AgentSpendOverlay option \<Rightarrow> address \<Rightarrow> int" where
  "lifetime_spend dec overlay agent =
     (case overlay of None \<Rightarrow> 0
      | Some ov \<Rightarrow>
          (case find_index (\<lambda>e. dec (ace_agent e) = Some agent) (aso_entries ov) of
             None \<Rightarrow> 0
           | Some slotIdx \<Rightarrow> nth_or_zero (aso_lifetimeSpend ov) slotIdx))"

record AgentBreakdown =
  ab_agent :: address
  ab_spent24h :: int
  ab_cap :: int
  ab_utilization :: rat
  ab_lifetimeSpend :: int

record ProtocolBreakdown =
  pbd_protocol :: address
  pbd_protocolName :: string
  pbd_spent24h :: int
  pbd_cap :: int
  pbd_utilization :: rat

record SpendingBreakdown =
  sb_globalSpent24h :: int
  sb_globalCap :: int
  sb_globalUtilization :: rat
  sb_byAgent :: "AgentBreakdown list"
  sb_byProtocol :: "ProtocolBreakdown list"
  sb_agentConcentration :: rat
  sb_protocolConcentration :: rat
  sb_topAgent :: "address option"
  sb_topProtocol :: "address option"

text \<open>
  The running maximum of the two loops, and of the portfolio: the first entry with the largest positive amount.
\<close>

fun top_loop :: "(address \<times> int) list \<Rightarrow> address option \<times> int \<Rightarrow> address option \<times> int" where
  "top_loop [] acc = acc"
| "top_loop ((a, n) # rest) (topAddr, topSpend) =
     (if n > topSpend then top_loop rest (Some a, n) else top_loop rest (topAddr, topSpend))"

definition getSpendingBreakdown :: "(bytes \<Rightarrow> address option) \<Rightarrow> ('c, 'm) ResolvedVaultState_scheme \<Rightarrow> SpendingBreakdown" where
  "getSpendingBreakdown dec state =
     (let globalBudget = rv_globalBudget state;
          byAgent = map (\<lambda>(agent, budget).
            \<lparr>ab_agent = agent, ab_spent24h = bu_spent24h budget, ab_cap = bu_cap budget,
             ab_utilization = computeUtilizationPercent (bu_spent24h budget) (bu_cap budget),
             ab_lifetimeSpend = lifetime_spend dec (rv_overlay state) agent\<rparr>) (rv_allAgentBudgets state);
          byProtocol = map (\<lambda>pb.
            \<lparr>pbd_protocol = pb_protocol pb, pbd_protocolName = resolveProtocolName (pb_protocol pb),
             pbd_spent24h = pb_spent24h pb, pbd_cap = pb_cap pb,
             pbd_utilization = computeUtilizationPercent (pb_spent24h pb) (pb_cap pb)\<rparr>) (rv_protocolBudgets state)
      in \<lparr>sb_globalSpent24h = bu_spent24h globalBudget, sb_globalCap = bu_cap globalBudget,
          sb_globalUtilization = computeUtilizationPercent (bu_spent24h globalBudget) (bu_cap globalBudget),
          sb_byAgent = byAgent, sb_byProtocol = byProtocol,
          sb_agentConcentration = computeHerfindahl (map ab_spent24h byAgent),
          sb_protocolConcentration = computeHerfindahl (map pbd_spent24h byProtocol),
          sb_topAgent = fst (top_loop (map (\<lambda>(a, b). (a, bu_spent24h b)) (rv_allAgentBudgets state)) (None, 0)),
          sb_topProtocol = fst (top_loop (map (\<lambda>pb. (pb_protocol pb, pb_spent24h pb)) (rv_protocolBudgets state)) (None, 0))\<rparr>)"

text \<open>
  \<open>getAgentSpendingHistory\<close>. The loop breaks at the first epoch outside the window and skips future and empty
  ones; a contribution past the end of the array is \<open>undefined\<close>, and \<open>formatUsd\<close> throws on it (\<open>None\<close>).
\<close>

definition MAX_AGENTS_PER_VAULT :: int where "MAX_AGENTS_PER_VAULT = 10"

fun agent_history_loop ::
  "(int \<Rightarrow> string) \<Rightarrow> AgentContributionEntry \<Rightarrow> int \<Rightarrow> int \<Rightarrow> nat list \<Rightarrow> SpendingEpoch list \<Rightarrow> SpendingEpoch list option" where
  "agent_history_loop fmt entry windowStartEpoch currentEpoch [] results = Some results"
| "agent_history_loop fmt entry windowStartEpoch currentEpoch (k # ks) results =
     (let epochForK = ace_lastWriteEpoch entry - int k
      in if epochForK < 0 \<or> epochForK \<le> windowStartEpoch then Some results
         else if epochForK > currentEpoch then agent_history_loop fmt entry windowStartEpoch currentEpoch ks results
         else
           let bucketIdx = nat (bmod epochForK OVERLAY_NUM_EPOCHS)
           in if bucketIdx \<ge> length (ace_contributions entry) then None
              else
                let contribution = ace_contributions entry ! bucketIdx
                in if contribution = 0 then agent_history_loop fmt entry windowStartEpoch currentEpoch ks results
                   else agent_history_loop fmt entry windowStartEpoch currentEpoch ks
                     (results @ [\<lparr>se_epochId = epochForK, se_timestamp = epochForK * OVERLAY_EPOCH_DURATION,
                                  se_usdAmount = contribution, se_usdAmountFormatted = fmt contribution\<rparr>]))"

definition getAgentSpendingHistory ::
  "(int \<Rightarrow> string) \<Rightarrow> AgentSpendOverlay option \<Rightarrow> int \<Rightarrow> int \<Rightarrow> SpendingEpoch list option" where
  "getAgentSpendingHistory fmt overlay agentSlot nowUnix =
     (case overlay of None \<Rightarrow> Some []
      | Some ov \<Rightarrow>
        if agentSlot < 0 \<or> agentSlot \<ge> MAX_AGENTS_PER_VAULT \<or> nowUnix \<le> 0 then Some []
        else if nat agentSlot \<ge> length (aso_entries ov) then Some []
        else
          let entry = aso_entries ov ! nat agentSlot
          in if ace_lastWriteEpoch entry = 0 then Some []
             else
               let currentEpoch = bdiv nowUnix OVERLAY_EPOCH_DURATION;
                   windowStartEpoch = currentEpoch - OVERLAY_NUM_EPOCHS
               in map_option (sort_key se_timestamp)
                    (agent_history_loop fmt entry windowStartEpoch currentEpoch [0 ..< nat OVERLAY_NUM_EPOCHS] []))"

section \<open>agent-analytics.ts\<close>

record AgentProfile =
  ap_address :: address
  ap_capability :: nat
  ap_capabilityLabel :: string
  ap_spendingLimitUsd :: int
  ap_paused :: bool
  ap_budget :: EffectiveBudget
  ap_lifetimeSpend :: int
  ap_lifetimeTxCount :: int
  ap_avgTransactionSize :: int
  ap_capUtilization :: rat
  ap_isApproachingCap :: bool
  ap_hasFullCapability :: bool

definition capabilityToLabel :: "nat \<Rightarrow> string" where
  "capabilityToLabel capability =
     (if capability = 0 then ''Disabled''
      else if capability = 1 then ''Observer''
      else if capability = 2 then ''Operator''
      else ''Unknown('' @ show_nat capability @ '')'')"

definition zero_budget :: EffectiveBudget where
  "zero_budget = \<lparr>bu_spent24h = 0, bu_cap = 0, bu_remaining = 0\<rparr>"

definition budget_entry :: "('c, 'm) ResolvedVaultState_scheme \<Rightarrow> address \<Rightarrow> EffectiveBudget" where
  "budget_entry state a = (case map_of (rv_allAgentBudgets state) a of Some b \<Rightarrow> b | None \<Rightarrow> zero_budget)"

definition getAgentProfile ::
  "(bytes \<Rightarrow> address option) \<Rightarrow> ('c, 'm) ResolvedVaultState_scheme \<Rightarrow> address \<Rightarrow> AgentProfile option" where
  "getAgentProfile dec state agentAddress =
     (case find (\<lambda>a. ae_pubkey a = agentAddress) (av_agents (rv_vault state)) of
        None \<Rightarrow> None
      | Some agentEntry \<Rightarrow>
          let budget = budget_entry state agentAddress;
              overlaySlot = findAgentOverlaySlot dec (rv_overlay state) agentAddress;
              lifetimeSpend = (case overlaySlot of None \<Rightarrow> 0 | Some s \<Rightarrow> os_lifetimeSpend s);
              lifetimeTxCount = (case overlaySlot of None \<Rightarrow> 0 | Some s \<Rightarrow> os_lifetimeTxCount s);
              capUtilization = computeUtilizationPercent (bu_spent24h budget) (bu_cap budget)
          in Some \<lparr>ap_address = agentAddress, ap_capability = ae_capability agentEntry,
               ap_capabilityLabel = capabilityToLabel (ae_capability agentEntry),
               ap_spendingLimitUsd = ae_spendingLimitUsd agentEntry, ap_paused = ae_paused agentEntry,
               ap_budget = budget, ap_lifetimeSpend = lifetimeSpend, ap_lifetimeTxCount = lifetimeTxCount,
               ap_avgTransactionSize = (if lifetimeTxCount > 0 then bdiv lifetimeSpend lifetimeTxCount else 0),
               ap_capUtilization = capUtilization, ap_isApproachingCap = capUtilization > 80,
               ap_hasFullCapability = (int (ae_capability agentEntry) = FULL_CAPABILITY)\<rparr>)"

record AgentRanking =
  ar_address :: address
  ar_rank :: nat
  ar_spend24h :: int
  ar_lifetimeSpend :: int
  ar_capUtilization :: rat
  ar_paused :: bool
  ar_capability :: nat

text \<open>The stable descending sort and the rank pass that the leaderboards share.\<close>

definition ranked :: "('a \<Rightarrow> int) \<Rightarrow> (nat \<Rightarrow> 'a \<Rightarrow> 'a) \<Rightarrow> 'a list \<Rightarrow> 'a list" where
  "ranked spend set_rank rs = map (\<lambda>(i, r). set_rank (i + 1) r) (enumerate 0 (sort_key (\<lambda>r. - spend r) rs))"

definition getAgentLeaderboard ::
  "(bytes \<Rightarrow> address option) \<Rightarrow> ('c, 'm) ResolvedVaultState_scheme \<Rightarrow> AgentRanking list" where
  "getAgentLeaderboard dec state =
     ranked ar_spend24h (\<lambda>i r. r\<lparr>ar_rank := i\<rparr>)
       (map (\<lambda>agentEntry.
          let budget = budget_entry state (ae_pubkey agentEntry)
          in \<lparr>ar_address = ae_pubkey agentEntry, ar_rank = 0, ar_spend24h = bu_spent24h budget,
              ar_lifetimeSpend = lifetime_spend dec (rv_overlay state) (ae_pubkey agentEntry),
              ar_capUtilization = computeUtilizationPercent (bu_spent24h budget) (bu_cap budget),
              ar_paused = ae_paused agentEntry, ar_capability = ae_capability agentEntry\<rparr>)
         (av_agents (rv_vault state)))"

record AgentComparisonData =
  ac_agents :: "AgentRanking list"
  ac_totalAgentSpend24h :: int
  ac_spendConcentration :: rat
  ac_mostActiveAgent :: "address option"
  ac_leastActiveAgent :: "address option"

definition getAgentComparison ::
  "(bytes \<Rightarrow> address option) \<Rightarrow> ('c, 'm) ResolvedVaultState_scheme \<Rightarrow> AgentComparisonData" where
  "getAgentComparison dec state =
     (let rankings = getAgentLeaderboard dec state;
          activeAgents = filter (\<lambda>r. ar_spend24h r > 0) rankings
      in \<lparr>ac_agents = rankings, ac_totalAgentSpend24h = sum_list (map ar_spend24h rankings),
          ac_spendConcentration = computeHerfindahl (map ar_spend24h rankings),
          ac_mostActiveAgent = (if activeAgents \<noteq> [] then Some (ar_address (hd activeAgents)) else None),
          ac_leastActiveAgent = (if activeAgents \<noteq> [] then Some (ar_address (last activeAgents)) else None)\<rparr>)"

section \<open>protocol-analytics.ts\<close>

record ProtocolBreakdownItem =
  pbi_protocol :: address
  pbi_protocolName :: string
  pbi_spent24h :: int
  pbi_cap :: "int option"
  pbi_utilization :: rat
  pbi_percentOfTotalSpend :: rat

definition getProtocolBreakdown :: "('c, 'm) ResolvedVaultState_scheme \<Rightarrow> ProtocolBreakdownItem list" where
  "getProtocolBreakdown state =
     map (\<lambda>pb. \<lparr>pbi_protocol = pb_protocol pb, pbi_protocolName = resolveProtocolName (pb_protocol pb),
        pbi_spent24h = pb_spent24h pb, pbi_cap = (if pb_cap pb > 0 then Some (pb_cap pb) else None),
        pbi_utilization = computeUtilizationPercent (pb_spent24h pb) (pb_cap pb),
        pbi_percentOfTotalSpend = computeUtilizationPercent (pb_spent24h pb) (bu_spent24h (rv_globalBudget state))\<rparr>)
      (rv_protocolBudgets state)"

record PlatformProtocolUsage =
  ppu_protocol :: address
  ppu_protocolName :: string
  ppu_vaultCount :: nat
  ppu_totalSpend24h :: int

definition usage_add :: "(address \<times> nat \<times> int) list \<Rightarrow> ProtocolBudget \<Rightarrow> (address \<times> nat \<times> int) list" where
  "usage_add m pb =
     (let (vaultCount, totalSpend) = (case map_of m (pb_protocol pb) of Some e \<Rightarrow> e | None \<Rightarrow> (0, 0))
      in AList.update (pb_protocol pb) (vaultCount + 1, totalSpend + pb_spent24h pb) m)"

text \<open>
  \<open>getProtocolUsageAcrossVaults\<close> from the settled resolutions on: a vault that failed to resolve is left out.
\<close>

definition getProtocolUsageAcrossVaults ::
  "('e, ('c, 'm) ResolvedVaultState_scheme) result list \<Rightarrow> PlatformProtocolUsage list" where
  "getProtocolUsageAcrossVaults results =
     (let states = concat (map (\<lambda>r. case r of Inl e \<Rightarrow> [] | Inr st \<Rightarrow> [st]) results);
          protocolMap = fold (\<lambda>pb m. usage_add m pb) (concat (map rv_protocolBudgets states)) [];
          usage = map (\<lambda>(protocol, vaultCount, totalSpend).
            \<lparr>ppu_protocol = protocol, ppu_protocolName = resolveProtocolName protocol,
             ppu_vaultCount = vaultCount, ppu_totalSpend24h = totalSpend\<rparr>) protocolMap
      in sort_key (\<lambda>u. - ppu_totalSpend24h u) usage)"

section \<open>Facts\<close>

lemma zdiv_less_iff: "0 < c \<Longrightarrow> (a div c < b) = (a < b * (c :: int))"
  using pos_imp_zdiv_neg_iff [of c "a - b * c"] div_mult_self1 [of c a "- b"] by simp

text \<open>The percentage is below a whole threshold exactly when the amounts are.\<close>

lemma utilization_less_iff:
  assumes "0 \<le> spent" "spent < 2 ^ 400" "0 < cap" "0 \<le> K" "K \<le> 2 ^ 30"
  shows "computeUtilizationPercent spent cap < of_int K \<longleftrightarrow> spent * 100 < K * cap"
proof -
  let ?n = "spent * 10000 div cap"
  have "?n \<le> spent * 10000" using assms(1,3) zdiv_mono2 [of "spent * 10000" 1 cap] by simp
  then have n: "0 \<le> ?n" "?n < 2 ^ 500"
    using assms(1-3) by (simp_all add: pos_imp_zdiv_nonneg_iff)
  have "computeUtilizationPercent spent cap < of_int K \<longleftrightarrow> ?n < 100 * K"
    using percent_less_iff [OF n assms(4,5)] assms(1,3) by (simp add: computeUtilizationPercent_def bdiv_nonneg)
  also have "\<dots> \<longleftrightarrow> spent * 10000 < 100 * K * cap" by (rule zdiv_less_iff [OF assms(3)])
  finally show ?thesis by (simp add: mult.commute)
qed

lemma velocity_loop_valid: "fst (velocity_loop ce bs (vs, p, e)) = vs @ filter (valid_bucket ce) bs"
  by (induction bs arbitrary: vs p e) simp_all

lemma velocity_loop_peak:
  "velocity_loop ce bs (vs, p, e) = (ws, q, f) \<Longrightarrow>
     p \<le> q \<and> (\<forall>b \<in> set (filter (valid_bucket ce) bs). eb_usdAmount b \<le> q)
     \<and> ((q, f) = (p, e) \<or> (\<exists>b \<in> set (filter (valid_bucket ce) bs). (q, f) = (eb_usdAmount b, eb_epochId b)))"
proof (induction bs arbitrary: vs p e)
  case (Cons b bs)
  show ?case
  proof (cases "valid_bucket ce b")
    case True
    let ?p = "if eb_usdAmount b > p then eb_usdAmount b else p"
    let ?e = "if eb_usdAmount b > p then eb_epochId b else e"
    have "velocity_loop ce bs (vs @ [b], ?p, ?e) = (ws, q, f)" using Cons.prems True by simp
    from Cons.IH [OF this] show ?thesis using True by (auto split: if_splits)
  next
    case False
    then have "velocity_loop ce bs (vs, p, e) = (ws, q, f)" using Cons.prems by simp
    from Cons.IH [OF this] show ?thesis using False by simp
  qed
qed simp

lemma top_loop_max:
  assumes "top_loop xs (a, m) = (a', m')"
  shows "m \<le> m' \<and> (\<forall>(b, n) \<in> set xs. n \<le> m')
    \<and> ((a', m') = (a, m) \<or> (\<exists>b. a' = Some b \<and> (b, m') \<in> set xs \<and> m < m'))"
  using assms
proof (induction xs arbitrary: a m)
  case (Cons x xs)
  obtain b n where x: "x = (b, n)" by (cases x)
  show ?case
  proof (cases "n > m")
    case True
    then have "top_loop xs (Some b, n) = (a', m')" using Cons.prems x by simp
    from Cons.IH [OF this] show ?thesis using True x by auto
  next
    case False
    then have "top_loop xs (a, m) = (a', m')" using Cons.prems x by simp
    from Cons.IH [OF this] show ?thesis using False x by auto
  qed
qed simp

text \<open>What \<open>ranked\<close> does, for a rank that leaves the rest of the entry alone.\<close>

lemma ranked_props:
  assumes "\<And>i r. spend (set_rank i r) = spend r" "\<And>i r. forget (set_rank i r) = forget r"
  shows "sorted_wrt (\<lambda>x y. spend x \<ge> spend y) (ranked spend set_rank rs)
    \<and> mset (map forget (ranked spend set_rank rs)) = mset (map forget rs)"
proof -
  let ?s = "sort_key (\<lambda>r. - spend r) rs"
  have m: "map g (ranked spend set_rank rs) = map g ?s" if "\<And>i r. g (set_rank i r) = g r" for g :: "'a \<Rightarrow> 'c"
  proof -
    have "map g (ranked spend set_rank rs) = map (g \<circ> snd) (enumerate 0 ?s)"
      using that by (simp add: ranked_def case_prod_beta comp_def)
    then show ?thesis by (simp only: map_map [symmetric] map_snd_enumerate)
  qed
  have "sorted (map (\<lambda>r. - spend r) ?s)" by simp
  then have "sorted_wrt (\<ge>) (map spend ?s)"
    by (simp add: sorted_wrt_map)
  then have "sorted_wrt (\<ge>) (map spend (ranked spend set_rank rs))"
    using m [of spend] assms(1) by simp
  moreover have "map forget (ranked spend set_rank rs) = map forget ?s" using m [of forget] assms(2) by simp
  ultimately show ?thesis by (simp add: sorted_wrt_map)
qed

end
