(* ===== verification/BalanceTracker.thy ===== *)
theory BalanceTracker
  imports Analytics
begin

text \<open>
  \<open>sdk/kit/src/balance-tracker.ts\<close>: lifetime profit and loss from the vault's counters, the token balances
  of a vault, the snapshot store behind the charts with its JSON form, and the session profit and loss read from it.
  \<open>toBaseUnits\<close> and \<open>fromBaseUnits\<close> of \<open>tokens.ts\<close> stand here too.

  The store's eviction loop runs as long as it holds more than \<open>maxEntries\<close> timestamps; with a negative
  maximum it never ends, so it is a partial function whose \<open>None\<close> is that it does not return.
\<close>

section \<open>tokens.ts: amounts\<close>

text \<open>\<open>num\<close> is the amount as a Number; \<open>Math.pow(10, decimals)\<close> is exact up to 22 decimals.\<close>

definition toBaseUnits :: "js_number \<Rightarrow> nat \<Rightarrow> (sdk_error, int) result" where
  "toBaseUnits num decimals =
     (case num of
        None \<Rightarrow> Inl (SDK_INVALID_AMOUNT ''Must be a finite non-negative number.'')
      | Some x \<Rightarrow>
          if x < 0 then Inl (SDK_INVALID_AMOUNT ''Must be a finite non-negative number.'')
          else Inr (math_round (dbl (x * 10 ^ decimals))))"

definition fromBaseUnits :: "int \<Rightarrow> nat \<Rightarrow> rat" where
  "fromBaseUnits amount decimals = dbl (Number amount / 10 ^ decimals)"

section \<open>Lifetime profit and loss\<close>

record VaultPnL =
  vp_totalDeposited :: int
  vp_totalWithdrawn :: int
  vp_currentBalance :: int
  vp_netInvestment :: int
  vp_pnl :: int
  vp_pnlPercent :: rat

definition getVaultPnLFromState :: "int \<Rightarrow> int \<Rightarrow> int \<Rightarrow> int \<Rightarrow> VaultPnL" where
  "getVaultPnLFromState totalDepositedUsd totalWithdrawnUsd usdc usdt =
     (let currentBalance = usdc + usdt;
          netInvestment = totalDepositedUsd - totalWithdrawnUsd;
          pnl = currentBalance - netInvestment
      in \<lparr>vp_totalDeposited = totalDepositedUsd, vp_totalWithdrawn = totalWithdrawnUsd,
          vp_currentBalance = currentBalance, vp_netInvestment = netInvestment, vp_pnl = pnl,
          vp_pnlPercent = computePnlPercent pnl netInvestment\<rparr>)"

section \<open>Token balances\<close>

record TokenBalance =
  tb_mint :: address
  tb_balance :: int
  tb_symbol :: string
  tb_decimals :: nat

text \<open>
  The \<open>jsonParsed\<close> answer: an account whose data has no \<open>parsed.info.tokenAmount\<close> is \<open>None\<close>.
  \<open>BigInt\<close> throws a SyntaxError on an amount that is not an integer literal.
\<close>

record ParsedTokenAmount =
  pta_mint :: address
  pta_amount :: string
  pta_decimals :: nat

fun token_balances :: "string \<Rightarrow> ParsedTokenAmount option list \<Rightarrow> (sdk_error, TokenBalance list) result" where
  "token_balances network [] = Inr []"
| "token_balances network (None # items) = token_balances network items"
| "token_balances network (Some info # items) =
     (case bigint_of_string (pta_amount info) of
        None \<Rightarrow> Inl (PLAIN_ERROR ''SyntaxError'')
      | Some amount \<Rightarrow>
          if amount = 0 then token_balances network items
          else
            let resolved = resolveToken (pta_mint info) network;
                symbol = (case resolved of Some r \<Rightarrow> rt_symbol r | None \<Rightarrow> take 4 (pta_mint info) @ ''...'');
                decimals = (case resolved of Some r \<Rightarrow> rt_decimals r | None \<Rightarrow> pta_decimals info)
            in rbind (token_balances network items) (\<lambda>balances.
                 Inr (\<lparr>tb_mint = pta_mint info, tb_balance = amount, tb_symbol = symbol, tb_decimals = decimals\<rparr>
                      # balances)))"

definition getVaultTokenBalances ::
  "(address \<Rightarrow> (js_error, ParsedTokenAmount option list) result) \<Rightarrow> address \<Rightarrow> string \<Rightarrow> (sdk_error, TokenBalance list) result" where
  "getVaultTokenBalances rpc vault network = rbind (lift_err (rpc vault)) (token_balances network)"

section \<open>BalanceSnapshotStore\<close>

record BalanceSnapshot =
  bn_timestamp :: int
  bn_balances :: "TokenBalance list"

type_synonym snapshots = "(int \<times> TokenBalance list) list"

record BalanceSnapshotStore =
  bs_baseline :: "BalanceSnapshot option"
  bs_maxEntries :: int
  bs_snapshots :: snapshots
  bs_orderedTimestamps :: "int list"

definition new_store :: "int \<Rightarrow> BalanceSnapshotStore" where
  "new_store maxEntries = \<lparr>bs_baseline = None, bs_maxEntries = maxEntries, bs_snapshots = [], bs_orderedTimestamps = []\<rparr>"

text \<open>On an empty array \<open>shift()\<close> is \<open>undefined\<close> and deletes nothing.\<close>

partial_function (option) evict :: "int \<Rightarrow> int list \<Rightarrow> snapshots \<Rightarrow> (int list \<times> snapshots) option" where
  "evict maxEntries ts snaps =
     (if int (length ts) > maxEntries
      then (case ts of [] \<Rightarrow> evict maxEntries [] snaps | oldest # rest \<Rightarrow> evict maxEntries rest (AList.delete oldest snaps))
      else Some (ts, snaps))"

definition snapshot :: "BalanceSnapshotStore \<Rightarrow> int \<Rightarrow> TokenBalance list \<Rightarrow> BalanceSnapshotStore option" where
  "snapshot store timestamp balances =
     (let store1 = (if bs_baseline store = None
                    then store\<lparr>bs_baseline := Some \<lparr>bn_timestamp = timestamp, bn_balances = balances\<rparr>\<rparr> else store)
      in if map_of (bs_snapshots store) timestamp \<noteq> None
         then Some (store1\<lparr>bs_snapshots := AList.update timestamp balances (bs_snapshots store)\<rparr>)
         else
           map_option (\<lambda>(ts, snaps). store1\<lparr>bs_snapshots := snaps, bs_orderedTimestamps := ts\<rparr>)
             (evict (bs_maxEntries store) (bs_orderedTimestamps store @ [timestamp])
                (AList.update timestamp balances (bs_snapshots store))))"

text \<open>\<open>snapshots.get(ts)!\<close>; the invariant below says it is never \<open>undefined\<close>.\<close>

definition snapshot_at :: "BalanceSnapshotStore \<Rightarrow> int \<Rightarrow> BalanceSnapshot" where
  "snapshot_at store ts = \<lparr>bn_timestamp = ts, bn_balances = the (map_of (bs_snapshots store) ts)\<rparr>"

definition getFirst :: "BalanceSnapshotStore \<Rightarrow> BalanceSnapshot option" where
  "getFirst store = (if bs_orderedTimestamps store = [] then None else Some (snapshot_at store (hd (bs_orderedTimestamps store))))"

definition getLatest :: "BalanceSnapshotStore \<Rightarrow> BalanceSnapshot option" where
  "getLatest store = (if bs_orderedTimestamps store = [] then None else Some (snapshot_at store (last (bs_orderedTimestamps store))))"

definition clear :: "BalanceSnapshotStore \<Rightarrow> BalanceSnapshotStore" where
  "clear store = store\<lparr>bs_baseline := None, bs_snapshots := [], bs_orderedTimestamps := []\<rparr>"

text \<open>
  The JSON document: bigints travel as strings. \<open>JSON.stringify\<close> and \<open>JSON.parse\<close> preserve such a document; what a
  damaged one may hold is a string that is no bigint, or a missing or fractional \<open>maxEntries\<close> (\<open>None\<close>).
\<close>

record TokenBalanceJson =
  tj_mint :: address
  tj_balance :: string
  tj_symbol :: string
  tj_decimals :: nat

record StoreJson =
  sj_baseline :: "(string \<times> TokenBalanceJson list) option"
  sj_snapshots :: "(string \<times> TokenBalanceJson list) list"
  sj_maxEntries :: "int option"

definition balance_json :: "TokenBalance \<Rightarrow> TokenBalanceJson" where
  "balance_json b = \<lparr>tj_mint = tb_mint b, tj_balance = show_int (tb_balance b), tj_symbol = tb_symbol b, tj_decimals = tb_decimals b\<rparr>"

definition toJSON :: "BalanceSnapshotStore \<Rightarrow> StoreJson" where
  "toJSON store =
     \<lparr>sj_baseline = map_option (\<lambda>b. (show_int (bn_timestamp b), map balance_json (bn_balances b))) (bs_baseline store),
      sj_snapshots = map (\<lambda>(ts, bals). (show_int ts, map balance_json bals)) (bs_snapshots store),
      sj_maxEntries = Some (bs_maxEntries store)\<rparr>"

definition safeBigInt_store :: "string \<Rightarrow> int" where
  "safeBigInt_store val = (case bigint_of_string val of Some n \<Rightarrow> n | None \<Rightarrow> 0)"

definition balance_of_json :: "TokenBalanceJson \<Rightarrow> TokenBalance" where
  "balance_of_json b = \<lparr>tb_mint = tj_mint b, tb_balance = safeBigInt_store (tj_balance b), tb_symbol = tj_symbol b, tb_decimals = tj_decimals b\<rparr>"

definition restore_snapshot :: "BalanceSnapshotStore \<Rightarrow> string \<times> TokenBalanceJson list \<Rightarrow> BalanceSnapshotStore" where
  "restore_snapshot store snap =
     (let ts = safeBigInt_store (fst snap); bals = map balance_of_json (snd snap)
      in store\<lparr>bs_snapshots := AList.update ts bals (bs_snapshots store),
               bs_orderedTimestamps := bs_orderedTimestamps store @ [ts]\<rparr>)"

definition fromJSON :: "StoreJson \<Rightarrow> BalanceSnapshotStore" where
  "fromJSON data =
     (let maxEntries = (case sj_maxEntries data of Some n \<Rightarrow> n | None \<Rightarrow> 144);
          store = (new_store maxEntries)\<lparr>bs_baseline := map_option (\<lambda>(ts, bals).
              \<lparr>bn_timestamp = safeBigInt_store ts, bn_balances = map balance_of_json bals\<rparr>) (sj_baseline data)\<rparr>
      in foldl restore_snapshot store (sj_snapshots data))"

record BalancePnL =
  bp_startBalance :: int
  bp_currentBalance :: int
  bp_delta :: int
  bp_percentChange :: rat

definition sumStablecoins :: "string \<Rightarrow> TokenBalance list \<Rightarrow> int" where
  "sumStablecoins network balances =
     foldl (\<lambda>acc b. if isStablecoinMint (tb_mint b) network then acc + tb_balance b else acc) 0 balances"

definition getBalancePnL :: "BalanceSnapshotStore \<Rightarrow> string \<Rightarrow> BalancePnL" where
  "getBalancePnL store network =
     (case (bs_baseline store, getLatest store) of
        (Some baseline, Some latest) \<Rightarrow>
          if bn_timestamp baseline = bn_timestamp latest
          then \<lparr>bp_startBalance = 0, bp_currentBalance = 0, bp_delta = 0, bp_percentChange = 0\<rparr>
          else
            let startBalance = sumStablecoins network (bn_balances baseline);
                currentBalance = sumStablecoins network (bn_balances latest);
                delta = currentBalance - startBalance
            in \<lparr>bp_startBalance = startBalance, bp_currentBalance = currentBalance, bp_delta = delta,
                bp_percentChange = computePnlPercent delta startBalance\<rparr>
      | _ \<Rightarrow> \<lparr>bp_startBalance = 0, bp_currentBalance = 0, bp_delta = 0, bp_percentChange = 0\<rparr>)"

section \<open>Facts\<close>

definition wf_store :: "BalanceSnapshotStore \<Rightarrow> bool" where
  "wf_store store \<longleftrightarrow> bs_orderedTimestamps store = map fst (bs_snapshots store) \<and> distinct (map fst (bs_snapshots store))
     \<and> (bs_snapshots store \<noteq> [] \<longrightarrow> bs_baseline store \<noteq> None)"

lemma AList_delete_head: "distinct (map fst ((k, v) # m)) \<Longrightarrow> AList.delete k ((k, v) # m) = m"
  by (force simp: AList.delete_eq intro: filter_True)

lemma AList_update_new: "map_of m k = None \<Longrightarrow> AList.update k v m = m @ [(k, v)]"
  by (induction m) (auto split: if_splits)

text \<open>Eviction returns exactly the newest \<open>maxEntries\<close> snapshots.\<close>

lemma evict_newest:
  assumes "0 \<le> m" "distinct (map fst snaps)"
  shows "evict m (map fst snaps) snaps =
    Some (map fst (slice_last (nat m) snaps), slice_last (nat m) snaps)"
  using assms(2)
proof (induction snaps)
  case Nil
  then show ?case using assms(1) by (simp add: evict.simps slice_last_def)
next
  case (Cons kv snaps)
  obtain k v where kv: "kv = (k, v)" by (cases kv)
  show ?case
  proof (cases "int (length (kv # snaps)) > m")
    case True
    have "evict m (map fst (kv # snaps)) (kv # snaps) = evict m (map fst snaps) snaps"
      using True AList_delete_head [of k v snaps] Cons.prems kv
      by (subst evict.simps) simp
    also have "\<dots> = Some (map fst (slice_last (nat m) snaps), slice_last (nat m) snaps)"
      using Cons by simp
    also have "slice_last (nat m) snaps = slice_last (nat m) (kv # snaps)"
      using True assms(1) by (auto simp: slice_last_def drop_Cons' nat_le_iff)
    finally show ?thesis .
  next
    case False
    then show ?thesis by (subst evict.simps) (auto simp: slice_last_def)
  qed
qed

lemma evict_returns_nonneg:
  assumes "evict m ts snaps = Some y"
  shows "0 \<le> m"
  by (rule evict.raw_induct [where P = "\<lambda>m ts snaps y. 0 \<le> m", OF _ assms]) (auto split: if_splits list.splits)

lemma balance_json_roundtrip: "map balance_of_json (map balance_json bs) = bs"
  by (induction bs) (simp_all add: balance_of_json_def balance_json_def safeBigInt_store_def bigint_of_show_int)

lemma restore_all:
  assumes "distinct (map fst (bs_snapshots s) @ map fst snaps)"
  shows "foldl restore_snapshot s (map (\<lambda>(ts, bals). (show_int ts, map balance_json bals)) snaps)
    = s\<lparr>bs_snapshots := bs_snapshots s @ snaps, bs_orderedTimestamps := bs_orderedTimestamps s @ map fst snaps\<rparr>"
  using assms
proof (induction snaps arbitrary: s)
  case (Cons kv snaps)
  obtain k v where kv: "kv = (k, v)" by (cases kv)
  have "map_of (bs_snapshots s) k = None" using Cons.prems kv by (simp add: map_of_eq_None_iff)
  then have r: "restore_snapshot s (show_int k, map balance_json v)
      = s\<lparr>bs_snapshots := bs_snapshots s @ [(k, v)], bs_orderedTimestamps := bs_orderedTimestamps s @ [k]\<rparr>"
    by (simp only: restore_snapshot_def Let_def fst_conv snd_conv balance_json_roundtrip safeBigInt_store_def
        bigint_of_show_int option.case AList_update_new)
  have "foldl restore_snapshot (restore_snapshot s (show_int k, map balance_json v))
      (map (\<lambda>(ts, bals). (show_int ts, map balance_json bals)) snaps)
    = s\<lparr>bs_snapshots := bs_snapshots s @ kv # snaps, bs_orderedTimestamps := bs_orderedTimestamps s @ map fst (kv # snaps)\<rparr>"
    unfolding r by (subst Cons.IH) (use Cons.prems kv in simp_all)
  then show ?case by (simp add: kv)
qed simp

lemma json_roundtrip:
  assumes "wf_store s"
  shows "fromJSON (toJSON s) = s"
proof -
  have "map_option (\<lambda>(ts, bals). \<lparr>bn_timestamp = safeBigInt_store ts, bn_balances = map balance_of_json bals\<rparr>)
      (map_option (\<lambda>b. (show_int (bn_timestamp b), map balance_json (bn_balances b))) (bs_baseline s)) = bs_baseline s"
    using balance_json_roundtrip by (cases "bs_baseline s") (simp_all add: safeBigInt_store_def bigint_of_show_int del: map_map)
  then show ?thesis
    using assms by (simp add: fromJSON_def toJSON_def new_store_def restore_all wf_store_def)
qed

lemma distinct_slice_last: "distinct (map f xs) \<Longrightarrow> distinct (map f (slice_last n xs))"
  by (simp add: slice_last_def drop_map [symmetric])

definition kept_or :: "'a option \<Rightarrow> 'a \<Rightarrow> 'a" where
  "kept_or x d = (case x of None \<Rightarrow> d | Some a \<Rightarrow> a)"

lemma snapshot_step:
  assumes "wf_store s" "length (bs_snapshots s) \<le> nat (bs_maxEntries s)" "0 \<le> bs_maxEntries s"
  shows "\<exists>s'. snapshot s t b = Some s' \<and> wf_store s' \<and> length (bs_snapshots s') \<le> nat (bs_maxEntries s')
    \<and> bs_maxEntries s' = bs_maxEntries s
    \<and> bs_baseline s' = Some (kept_or (bs_baseline s) \<lparr>bn_timestamp = t, bn_balances = b\<rparr>)
    \<and> (0 < bs_maxEntries s \<longrightarrow> map_of (bs_snapshots s') t = Some b)"
proof (cases "map_of (bs_snapshots s) t")
  case None
  let ?snaps = "bs_snapshots s @ [(t, b)]"
  have ts: "bs_orderedTimestamps s @ [t] = map fst ?snaps" using assms(1) by (simp add: wf_store_def)
  have d: "distinct (map fst ?snaps)" using assms(1) None by (simp add: wf_store_def map_of_eq_None_iff)
  let ?kept = "slice_last (nat (bs_maxEntries s)) ?snaps"
  have dk: "distinct (map fst ?kept)" using d by (rule distinct_slice_last)
  have last: "(t, b) \<in> set ?kept" if "0 < bs_maxEntries s" using that by (simp add: slice_last_def)
  show ?thesis
    using None evict_newest [OF assms(3) d] dk last
    by (auto simp: snapshot_def Let_def AList_update_new ts kept_or_def wf_store_def
        simp del: map_append split: option.splits)
next
  case (Some b0)
  then have "t \<in> fst ` set (bs_snapshots s)" by (metis map_of_SomeD image_eqI fst_conv)
  then have k: "map fst (AList.update t b (bs_snapshots s)) = map fst (bs_snapshots s)"
    by (simp add: update_keys)
  then have l: "length (AList.update t b (bs_snapshots s)) = length (bs_snapshots s)"
    by (metis length_map)
  show ?thesis
    using Some assms k l by (auto simp: snapshot_def Let_def kept_or_def wf_store_def update_conv split: option.splits)
qed

text \<open>A sequence of recordings, \<open>None\<close> when one of them does not return.\<close>

fun record_snapshots :: "BalanceSnapshotStore \<Rightarrow> (int \<times> TokenBalance list) list \<Rightarrow> BalanceSnapshotStore option" where
  "record_snapshots s [] = Some s"
| "record_snapshots s ((t, b) # xs) = Option.bind (snapshot s t b) (\<lambda>s'. record_snapshots s' xs)"

lemma record_snapshots_run:
  assumes "wf_store s" "length (bs_snapshots s) \<le> nat (bs_maxEntries s)" "0 \<le> bs_maxEntries s"
  shows "\<exists>s'. record_snapshots s xs = Some s' \<and> wf_store s' \<and> length (bs_snapshots s') \<le> nat (bs_maxEntries s)
    \<and> bs_baseline s' = (case xs of [] \<Rightarrow> bs_baseline s
        | (t, b) # _ \<Rightarrow> Some (kept_or (bs_baseline s) \<lparr>bn_timestamp = t, bn_balances = b\<rparr>))
    \<and> (0 < bs_maxEntries s \<and> xs \<noteq> [] \<longrightarrow> map_of (bs_snapshots s') (fst (last xs)) = Some (snd (last xs)))"
  using assms
proof (induction xs arbitrary: s)
  case (Cons x xs)
  obtain t b where x: "x = (t, b)" by (cases x)
  obtain s1 where s1: "snapshot s t b = Some s1" "wf_store s1" "length (bs_snapshots s1) \<le> nat (bs_maxEntries s1)"
    "bs_maxEntries s1 = bs_maxEntries s" "bs_baseline s1 = Some (kept_or (bs_baseline s) \<lparr>bn_timestamp = t, bn_balances = b\<rparr>)"
    "0 < bs_maxEntries s \<longrightarrow> map_of (bs_snapshots s1) t = Some b"
    using snapshot_step [OF Cons.prems, of t b] by blast
  have "0 \<le> bs_maxEntries s1" using s1(4) Cons.prems(3) by simp
  from Cons.IH [OF s1(2,3) this] obtain s2 where "record_snapshots s1 xs = Some s2" "wf_store s2"
    "length (bs_snapshots s2) \<le> nat (bs_maxEntries s)"
    "bs_baseline s2 = (case xs of [] \<Rightarrow> bs_baseline s1
        | (t, b) # _ \<Rightarrow> Some (kept_or (bs_baseline s1) \<lparr>bn_timestamp = t, bn_balances = b\<rparr>))"
    "0 < bs_maxEntries s \<and> xs \<noteq> [] \<longrightarrow> map_of (bs_snapshots s2) (fst (last xs)) = Some (snd (last xs))"
    using s1(4) by auto
  then show ?case using s1 x by (cases xs) (auto simp: kept_or_def)
qed simp

section \<open>Properties\<close>

text \<open>
  C34. The snapshot store is a bounded window over what was recorded. With a maximum that is not negative
  every sequence of recordings returns; the store then holds at most the maximum, its baseline is the
  first recording ever, the last recording is present unless the maximum is zero, and writing it as
  JSON and reading it back gives the same store. With a negative maximum, which \<open>fromJSON\<close> accepts,
  the first recording never returns.
\<close>

theorem snapshot_store_bounded:
  "(record_snapshots (new_store m) ((t, b) # xs) = None \<longleftrightarrow> m < 0)
   \<and> (0 \<le> m \<longrightarrow> (\<exists>s. record_snapshots (new_store m) ((t, b) # xs) = Some s \<and> int (length (bs_snapshots s)) \<le> m
       \<and> bs_baseline s = Some \<lparr>bn_timestamp = t, bn_balances = b\<rparr>
       \<and> (0 < m \<longrightarrow> map_of (bs_snapshots s) (fst (last ((t, b) # xs))) = Some (snd (last ((t, b) # xs))))
       \<and> fromJSON (toJSON s) = s))"
proof (cases "m < 0")
  case True
  then have "evict m [t] [(t, b)] = None" using evict_returns_nonneg by (metis not_less option.exhaust)
  then show ?thesis using True by (simp add: snapshot_def new_store_def)
next
  case False
  then have "\<exists>s. record_snapshots (new_store m) ((t, b) # xs) = Some s \<and> wf_store s \<and> length (bs_snapshots s) \<le> nat m
     \<and> bs_baseline s = Some \<lparr>bn_timestamp = t, bn_balances = b\<rparr>
     \<and> (0 < m \<longrightarrow> map_of (bs_snapshots s) (fst (last ((t, b) # xs))) = Some (snd (last ((t, b) # xs))))"
    using record_snapshots_run [of "new_store m" "(t, b) # xs"]
    by (simp add: new_store_def wf_store_def kept_or_def)
  then obtain s where s: "record_snapshots (new_store m) ((t, b) # xs) = Some s" "wf_store s" "length (bs_snapshots s) \<le> nat m"
    "bs_baseline s = Some \<lparr>bn_timestamp = t, bn_balances = b\<rparr>"
    "0 < m \<longrightarrow> map_of (bs_snapshots s) (fst (last ((t, b) # xs))) = Some (snd (last ((t, b) # xs)))"
    by blast
  have "int (length (bs_snapshots s)) \<le> m" using s(3) False by simp
  then show ?thesis unfolding s(1) using False s(4,5) json_roundtrip [OF s(2)] by blast
qed

theorem snapshot_store_bounded_witness:
  "\<exists>s. record_snapshots (new_store 1) [(10, []), (20, []), (30, [])] = Some s \<and> length (bs_snapshots s) \<le> 1
     \<and> bs_baseline s = Some \<lparr>bn_timestamp = 10, bn_balances = []\<rparr> \<and> map_of (bs_snapshots s) 30 = Some []"
  using snapshot_store_bounded [of 1 10 "[]" "[(20, []), (30, [])]"] by (auto simp del: record_snapshots.simps)

text \<open>
  No token of a vault is ever listed under its own symbol or decimals: a mint is a base58 address, the table of
  well-known tokens is keyed by symbol, and an unknown address resolves to six decimals and a truncated
  mint, whatever decimals the node reported.
\<close>

theorem token_balance_decimals:
  assumes "token_balances network items = Inr balances" "bal \<in> set balances"
    and "\<And>info. Some info \<in> set items \<Longrightarrow> isBase58Address (pta_mint info)"
  shows "tb_decimals bal = 6 \<and> tb_symbol bal = take 4 (tb_mint bal) @ ''...''"
proof -
  have sym: "length t \<le> 4" if "map_of WELL_KNOWN_TOKENS t = Some x" for t x
  proof -
    have "t \<in> fst ` set WELL_KNOWN_TOKENS" using that by (metis map_of_SomeD image_eqI fst_conv)
    then show ?thesis by (auto simp: WELL_KNOWN_TOKENS_def)
  qed
  have unknown: "resolveToken m network = Some \<lparr>rt_mint = m, rt_decimals = 6, rt_symbol = take 4 m @ ''...''\<rparr>"
    if "isBase58Address m" for m
    using that sym [of "map ascii_upper_char m"]
    by (cases "map_of WELL_KNOWN_TOKENS (map ascii_upper_char m)") (auto simp: resolveToken_def Let_def isBase58Address_def)
  show ?thesis
    using assms
  proof (induction items arbitrary: balances)
    case (Cons item items)
    show ?case
    proof (cases item)
      case None
      then show ?thesis using Cons by simp
    next
      case (Some info)
      then have u: "resolveToken (pta_mint info) network =
          Some \<lparr>rt_mint = pta_mint info, rt_decimals = 6, rt_symbol = take 4 (pta_mint info) @ ''...''\<rparr>"
        using Cons.prems(3) by (intro unknown) simp
      obtain amount where a: "bigint_of_string (pta_amount info) = Some amount"
        using Cons.prems(1) Some by (cases "bigint_of_string (pta_amount info)") simp_all
      show ?thesis
      proof (cases "amount = 0")
        case True
        then show ?thesis using Cons Some a by simp
      next
        case False
        then obtain rest where "token_balances network items = Inr rest"
          "balances = \<lparr>tb_mint = pta_mint info, tb_balance = amount, tb_symbol = take 4 (pta_mint info) @ ''...'', tb_decimals = 6\<rparr> # rest"
          using Cons.prems(1) Some a u by auto
        then show ?thesis using Cons.IH [of rest] Cons.prems(2,3) by auto
      qed
    qed
  qed simp
qed

theorem token_balance_decimals_witness:
  "token_balances ''mainnet-beta'' [Some \<lparr>pta_mint = ''So11111111111111111111111111111111111111112'',
      pta_amount = ''5000000000'', pta_decimals = 9\<rparr>]
   = Inr [\<lparr>tb_mint = ''So11111111111111111111111111111111111111112'', tb_balance = 5000000000,
      tb_symbol = ''So11...'', tb_decimals = 6\<rparr>]"
proof -
  let ?items = "[Some \<lparr>pta_mint = ''So11111111111111111111111111111111111111112'', pta_amount = ''5000000000'', pta_decimals = 9\<rparr>]"
  have "bigint_of_string ''5000000000'' = Some 5000000000"
    using bigint_of_show_int [of 5000000000] by (simp add: show_int_def show_nat.simps digit_char_def char_of_def bit_0)
  then obtain b where "token_balances ''mainnet-beta'' ?items = Inr [b]" "tb_mint b = ''So11111111111111111111111111111111111111112''"
    "tb_balance b = 5000000000" by (auto simp: Let_def)
  moreover from token_balance_decimals [OF this(1), of b]
  have "tb_decimals b = 6 \<and> tb_symbol b = take 4 (tb_mint b) @ ''...''"
    by (simp add: isBase58Address_def base58_alphabet_def)
  ultimately show ?thesis by (cases b) simp
qed

end
