(* ===== verification/VaultAnalytics.thy ===== *)
theory VaultAnalytics
  imports BalanceTracker
begin

text \<open>
  \<open>sdk/kit/src/vault-analytics.ts\<close>: the health card of a vault and the summary of its detail page.
  The fields of the vault and policy accounts that only the analytics read extend the resolved state.
\<close>

record 'c AnalyticsState = "'c ResolvedVaultState" +
  as_timelockDuration :: int
  as_maxSlippageBps :: nat
  as_activeEscrowCount :: nat
  as_totalTransactions :: int
  as_totalVolume :: int
  as_totalFeesCollected :: int
  as_totalDepositedUsd :: int
  as_totalWithdrawnUsd :: int
  as_createdAt :: int
  as_sessionExpirySeconds :: int
  as_allowedDestinations :: "address list"

section \<open>Health\<close>

datatype severity = critical | warning | info

record VaultSecurityCheck =
  vc_id :: string
  vc_label :: string
  vc_passed :: bool
  vc_severity :: severity

record VaultHealth =
  vh_status :: VaultStatus
  vh_isHealthy :: bool
  vh_agentCount :: nat
  vh_pausedAgentCount :: nat
  vh_activeEscrowCount :: nat
  vh_capUtilization :: rat
  vh_capRemaining :: int
  vh_capResetsIn :: rat
  vh_timeToCapAtCurrentRate :: "rat option"
  vh_hasConstraints :: bool
  vh_hasTimelock :: bool
  vh_timelockDuration :: rat
  vh_hasPendingPolicyChange :: bool
  vh_lastActivityTimestamp :: rat
  vh_securityChecks :: "VaultSecurityCheck list"

text \<open>The oldest epoch with spend in the window, starting from the current one.\<close>

fun oldest_loop :: "int \<Rightarrow> EpochBucket list \<Rightarrow> int \<Rightarrow> int" where
  "oldest_loop currentEpoch [] oldestEpoch = oldestEpoch"
| "oldest_loop currentEpoch (b # bs) oldestEpoch =
     oldest_loop currentEpoch bs
       (if eb_usdAmount b > 0 \<and> eb_epochId b > 0 \<and> eb_epochId b \<ge> currentEpoch - NUM_EPOCHS \<and> eb_epochId b < oldestEpoch
        then eb_epochId b else oldestEpoch)"

definition cap_resets_in :: "SpendTracker option \<Rightarrow> int \<Rightarrow> rat" where
  "cap_resets_in tracker nowUnix =
     (case tracker of None \<Rightarrow> 0
      | Some t \<Rightarrow>
          let currentEpoch = bdiv nowUnix EPOCH_DURATION;
              oldestEpoch = oldest_loop currentEpoch (st_buckets t) currentEpoch;
              expiresAt = (oldestEpoch + NUM_EPOCHS) * EPOCH_DURATION
          in max 0 (Number (expiresAt - nowUnix)))"

definition health_checks :: "('c, 'm) AnalyticsState_scheme \<Rightarrow> VaultSecurityCheck list" where
  "health_checks state =
     [\<lparr>vc_id = ''no-full-perms'', vc_label = ''No agent has full capability'',
       vc_passed = (\<not> list_ex (\<lambda>a. int (ae_capability a) = FULL_CAPABILITY) (av_agents (rv_vault state))),
       vc_severity = critical\<rparr>,
      \<lparr>vc_id = ''cap-configured'', vc_label = ''Daily spending cap is configured'',
       vc_passed = pc_dailySpendingCapUsd (rv_policy state) > 0, vc_severity = critical\<rparr>,
      \<lparr>vc_id = ''agent-limits'', vc_label = ''All agents have spending limits'',
       vc_passed = list_all (\<lambda>a. ae_spendingLimitUsd a > 0) (av_agents (rv_vault state)), vc_severity = warning\<rparr>,
      \<lparr>vc_id = ''protocol-allowlist'', vc_label = ''Protocol mode is allowlist'',
       vc_passed = (pc_protocolMode (rv_policy state) = PROTOCOL_MODE_ALLOWLIST), vc_severity = warning\<rparr>,
      \<lparr>vc_id = ''timelock-enabled'', vc_label = ''Policy timelock is enabled'',
       vc_passed = as_timelockDuration state > 0, vc_severity = warning\<rparr>,
      \<lparr>vc_id = ''slippage-reasonable'', vc_label = ''Max slippage below 10%'',
       vc_passed = as_maxSlippageBps state < 1000, vc_severity = warning\<rparr>,
      \<lparr>vc_id = ''constraints-configured'', vc_label = ''Instruction constraints are set'',
       vc_passed = (rv_constraints state \<noteq> None), vc_severity = info\<rparr>]"

definition getVaultHealth :: "('c, 'm) AnalyticsState_scheme \<Rightarrow> int \<Rightarrow> VaultHealth" where
  "getVaultHealth state nowUnix =
     (let vault = rv_vault state;
          budget = rv_globalBudget state;
          agentCount = length (av_agents vault);
          pausedAgentCount = length (filter ae_paused (av_agents vault));
          capUtilization = computeUtilizationPercent (bu_spent24h budget) (bu_cap budget);
          velocity = getSpendingVelocity (rv_tracker state) nowUnix budget;
          securityChecks = health_checks state;
          criticalFailures = filter (\<lambda>c. vc_severity c = critical \<and> \<not> vc_passed c) securityChecks
      in \<lparr>vh_status = av_status vault,
          vh_isHealthy = (av_status vault = Active \<and> agentCount > 0 \<and> pausedAgentCount < agentCount
            \<and> capUtilization < 95 \<and> length criticalFailures = 0),
          vh_agentCount = agentCount, vh_pausedAgentCount = pausedAgentCount,
          vh_activeEscrowCount = as_activeEscrowCount state, vh_capUtilization = capUtilization,
          vh_capRemaining = bu_remaining budget, vh_capResetsIn = cap_resets_in (rv_tracker state) nowUnix,
          vh_timeToCapAtCurrentRate = sv_timeToCapSeconds velocity,
          vh_hasConstraints = (rv_constraints state \<noteq> None), vh_hasTimelock = as_timelockDuration state > 0,
          vh_timelockDuration = Number (as_timelockDuration state), vh_hasPendingPolicyChange = False,
          vh_lastActivityTimestamp = (case rv_tracker state of None \<Rightarrow> 0
            | Some t \<Rightarrow> if st_lastWriteEpoch t > 0 then Number (st_lastWriteEpoch t * EPOCH_DURATION) else 0),
          vh_securityChecks = securityChecks\<rparr>)"

section \<open>Summary\<close>

record VaultStats =
  vs_totalTransactions :: int
  vs_totalVolume :: int
  vs_totalFeesCollected :: int
  vs_totalDeposited :: int
  vs_totalWithdrawn :: int
  vs_createdAt :: int
  vs_ageInDays :: int
  vs_avgDailyVolume :: int
  vs_avgTransactionSize :: int
  vs_feeRate :: rat

definition vault_stats :: "('c, 'm) AnalyticsState_scheme \<Rightarrow> VaultStats" where
  "vault_stats state =
     (let createdAtSec = Number (as_createdAt state);
          nowSec = Number (rv_resolvedAtTimestamp state);
          ageInDays = max 1 \<lfloor>dbl (dbl (nowSec - createdAtSec) / 86400)\<rfloor>
      in \<lparr>vs_totalTransactions = as_totalTransactions state, vs_totalVolume = as_totalVolume state,
          vs_totalFeesCollected = as_totalFeesCollected state, vs_totalDeposited = as_totalDepositedUsd state,
          vs_totalWithdrawn = as_totalWithdrawnUsd state, vs_createdAt = as_createdAt state, vs_ageInDays = ageInDays,
          vs_avgDailyVolume = (if ageInDays > 0 then bdiv (as_totalVolume state) ageInDays else 0),
          vs_avgTransactionSize = (if as_totalTransactions state > 0
            then bdiv (as_totalVolume state) (as_totalTransactions state) else 0),
          vs_feeRate = (if as_totalVolume state > 0
            then Number (bdiv (as_totalFeesCollected state * 10000) (as_totalVolume state)) else 0)\<rparr>)"

record 'c VaultSummary =
  vy_address :: address
  vy_owner :: address
  vy_vaultId :: int
  vy_health :: VaultHealth
  vy_pnl :: VaultPnL
  vy_tokenBalances :: "TokenBalance list"
  vy_totalValueUsd :: int
  vy_state :: "'c AnalyticsState"
  vy_stats :: VaultStats

text \<open>
  \<open>getVaultSummary\<close> once its four requests have answered: the state, the profit and loss of the same counters,
  the balances, and whether a policy update is pending.
\<close>

definition vault_summary :: "address \<Rightarrow> 'c AnalyticsState \<Rightarrow> TokenBalance list \<Rightarrow> 'p option \<Rightarrow> 'c VaultSummary" where
  "vault_summary vault state tokenBalances pendingPolicy =
     \<lparr>vy_address = vault, vy_owner = av_owner (rv_vault state), vy_vaultId = av_vaultId (rv_vault state),
      vy_health = (getVaultHealth state (rv_resolvedAtTimestamp state))\<lparr>vh_hasPendingPolicyChange := pendingPolicy \<noteq> None\<rparr>,
      vy_pnl = getVaultPnLFromState (as_totalDepositedUsd state) (as_totalWithdrawnUsd state) (rv_usdcBalance state) (rv_usdtBalance state),
      vy_tokenBalances = tokenBalances,
      vy_totalValueUsd = rv_usdcBalance state + rv_usdtBalance state,
      vy_state = state, vy_stats = vault_stats state\<rparr>"

section \<open>Facts\<close>

lemma unpaused_iff: "(as \<noteq> [] \<and> length (filter ae_paused as) < length as) = (\<exists>a \<in> set as. \<not> ae_paused a)"
  by (induction as) (auto simp: length_filter_le le_imp_less_Suc)

lemma oldest_loop_eq:
  "oldest_loop ce bs old = Min (insert old {eb_epochId b |b. b \<in> set bs \<and> eb_usdAmount b > 0 \<and> eb_epochId b > 0 \<and> eb_epochId b \<ge> ce - NUM_EPOCHS})"
proof (induction bs arbitrary: old)
  case (Cons b bs)
  let ?ok = "\<lambda>b. eb_usdAmount b > 0 \<and> eb_epochId b > 0 \<and> eb_epochId b \<ge> ce - NUM_EPOCHS"
  let ?S = "\<lambda>bs. {eb_epochId b |b. b \<in> set bs \<and> ?ok b}"
  have fin: "finite (?S bs)" by (rule finite_subset [of _ "eb_epochId ` set bs"]) auto
  show ?case
  proof (cases "?ok b")
    case True
    then have "?S (b # bs) = insert (eb_epochId b) (?S bs)" by auto
    moreover have "oldest_loop ce (b # bs) old = oldest_loop ce bs (min old (eb_epochId b))" using True by simp
    ultimately show ?thesis using fin unfolding Cons.IH
      by (cases "?S bs = {}") (simp_all add: min.assoc insert_commute)
  next
    case False
    then have "?S (b # bs) = ?S bs" "oldest_loop ce (b # bs) old = oldest_loop ce bs old" by auto
    then show ?thesis using Cons.IH by simp
  qed
qed simp

section \<open>Properties\<close>

text \<open>
  A vault is reported healthy exactly when it is active, some agent is not paused, a daily cap is set, less
  than 95 per cent of it is used (on the amounts, whatever the floating point percentage shows) and no agent has the Operator
  capability. As Operator is the one capability that lets an agent spend, no vault whose agents can spend is ever healthy.
\<close>

theorem vault_health_exact:
  assumes "is_u64 (bu_spent24h (rv_globalBudget state))"
    and "bu_cap (rv_globalBudget state) = pc_dailySpendingCapUsd (rv_policy state)"
  shows "vh_isHealthy (getVaultHealth state nowUnix) \<longleftrightarrow>
    av_status (rv_vault state) = Active
    \<and> (\<exists>a \<in> set (av_agents (rv_vault state)). \<not> ae_paused a)
    \<and> 0 < pc_dailySpendingCapUsd (rv_policy state)
    \<and> bu_spent24h (rv_globalBudget state) * 100 < 95 * pc_dailySpendingCapUsd (rv_policy state)
    \<and> (\<forall>a \<in> set (av_agents (rv_vault state)). ae_capability a \<noteq> 2)"
proof -
  let ?b = "rv_globalBudget state"
  have s: "0 \<le> bu_spent24h ?b" "bu_spent24h ?b < 2 ^ 400" using assms(1) by (simp_all add: is_u64_def U64_MAX_def)
  have u: "computeUtilizationPercent (bu_spent24h ?b) (bu_cap ?b) < 95 \<longleftrightarrow> bu_spent24h ?b * 100 < 95 * bu_cap ?b" if "0 < bu_cap ?b"
    using utilization_less_iff [OF s that, of 95] by simp
  show ?thesis
    unfolding unpaused_iff [symmetric] using u assms(2)
    by (auto simp: getVaultHealth_def Let_def health_checks_def list_ex_iff FULL_CAPABILITY_def)
qed

text \<open>A vault with one Observer that spent 100 of 500 in a single epoch, 24 hours before the state was resolved.\<close>

definition old_spend_tracker :: SpendTracker where
  "old_spend_tracker = \<lparr>st_buckets = [\<lparr>eb_epochId = 1000, eb_usdAmount = 100\<rparr>], st_protocolCounters = [], st_lastWriteEpoch = 1000\<rparr>"

definition sample_analytics :: "'c AnalyticsState" where
  "sample_analytics = \<lparr>rv_vault = \<lparr>av_owner = ''O'', av_vaultId = 0,
       av_agents = [\<lparr>ae_pubkey = ''A'', ae_capability = 1, ae_spendingLimitUsd = 100, ae_paused = False\<rparr>],
       av_feeDestination = ''F'', av_status = Active\<rparr>,
     rv_policy = sample_policy, rv_tracker = Some old_spend_tracker, rv_overlay = None, rv_constraints = None,
     rv_globalBudget = \<lparr>bu_spent24h = 100, bu_cap = 500, bu_remaining = 400\<rparr>, rv_agentBudget = None,
     rv_allAgentBudgets = [], rv_protocolBudgets = [], rv_maxTransactionUsd = 200, rv_usdcBalance = 0, rv_usdtBalance = 0,
     rv_resolvedAtTimestamp = 686400, as_timelockDuration = 3600, as_maxSlippageBps = 100, as_activeEscrowCount = 0,
     as_totalTransactions = 1, as_totalVolume = 100, as_totalFeesCollected = 0, as_totalDepositedUsd = 1000,
     as_totalWithdrawnUsd = 0, as_createdAt = 0, as_sessionExpirySeconds = 60, as_allowedDestinations = []\<rparr>"

theorem vault_health_exact_witness: "vh_isHealthy (getVaultHealth (sample_analytics :: unit AnalyticsState) 686400)"
  using vault_health_exact [of "sample_analytics :: unit AnalyticsState" 686400]
  by (simp add: sample_analytics_def sample_policy_def is_u64_def U64_MAX_def)

end
