(* ===== verification/SecurityAnalytics.thy ===== *)
theory SecurityAnalytics
  imports VaultAnalytics
begin

text \<open>
  \<open>getSecurityPosture\<close> and \<open>evaluateAlertConditions\<close> of \<open>sdk/kit/src/security-analytics.ts\<close>, with the texts
  the dashboard shows. \<open>enc\<close> is the address encoder, \<open>usd\<close> the currency formatter of \<open>Formatting\<close>. Alert
  percentages are whole Numbers below \<open>2 ^ 53\<close>, printed as integers. Texts are UTF-8.
\<close>

section \<open>Posture\<close>

text \<open>What the checks read of the decoded constraints account: fixed arrays, of which \<open>entryCount\<close> entries are in use.\<close>

record ConstraintEntryZC =
  cz_programId :: bytes
  cz_dataConstraints :: "bytes list"
  cz_accountConstraints :: "bytes list"

record InstructionConstraints =
  cn_entries :: "ConstraintEntryZC list"
  cn_entryCount :: nat
  cn_strictMode :: nat

type_synonym analytics_state = "InstructionConstraints AnalyticsState"

record SecurityCheck = VaultSecurityCheck +
  vc_detail :: string
  vc_remediation :: "string option"

definition only_if :: "bool \<Rightarrow> string \<Rightarrow> string option" where
  "only_if b s = (if b then Some s else None)"

definition show_hundredths :: "nat \<Rightarrow> string" where
  "show_hundredths n =
     (if n mod 100 = 0 then show_nat (n div 100)
      else if n mod 10 = 0 then show_nat (n div 100) @ ''.'' @ show_nat (n mod 100 div 10)
      else show_nat (n div 100) @ ''.'' @ padStart 2 (CHR ''0'') (show_nat (n mod 100)))"

text \<open>The byte loop over the 32 positions after the length test.\<close>

definition same_program :: "bytes \<Rightarrow> bytes \<Rightarrow> bool" where
  "same_program a b = (if length a \<noteq> length b then False else take 32 a = take 32 b)"

definition limits_sum_ok :: "AgentEntry list \<Rightarrow> int \<Rightarrow> bool" where
  "limits_sum_ok agents cap =
     (if agents = [] then True
      else
        let sumLimits = sum_list (map ae_spendingLimitUsd agents);
            allHaveLimits = list_all (\<lambda>a. ae_spendingLimitUsd a > 0) agents
        in \<not> allHaveLimits \<or> sumLimits \<le> cap)"

definition recently_active :: "SpendTracker option \<Rightarrow> int \<Rightarrow> bool" where
  "recently_active tracker resolvedAt =
     (case tracker of None \<Rightarrow> True
      | Some t \<Rightarrow> st_lastWriteEpoch t * EPOCH_DURATION > resolvedAt - 604800 \<or> st_lastWriteEpoch t = 0)"

definition constraints_aligned :: "(address \<Rightarrow> bytes) \<Rightarrow> InstructionConstraints option \<Rightarrow> PolicyConfig \<Rightarrow> bool" where
  "constraints_aligned enc constraints policy =
     (case constraints of None \<Rightarrow> True
      | Some c \<Rightarrow>
          if pc_protocolMode policy \<noteq> PROTOCOL_MODE_ALLOWLIST then True
          else list_all (\<lambda>entry. list_ex (\<lambda>ab. same_program ab (cz_programId entry)) (map enc (pc_protocols policy)))
                 (take (cn_entryCount c) (cn_entries c)))"

definition constraints_current :: "InstructionConstraints option \<Rightarrow> bool" where
  "constraints_current constraints =
     (case constraints of None \<Rightarrow> True
      | Some c \<Rightarrow> cn_entries c = []
          \<or> list_all (\<lambda>entry. \<not> (cz_dataConstraints entry = [] \<and> cz_accountConstraints entry = [])) (cn_entries c))"

definition constraints_cover :: "(address \<Rightarrow> bytes) \<Rightarrow> InstructionConstraints option \<Rightarrow> PolicyConfig \<Rightarrow> bool" where
  "constraints_cover enc constraints policy =
     (case constraints of None \<Rightarrow> True
      | Some c \<Rightarrow>
          if pc_protocolMode policy \<noteq> PROTOCOL_MODE_ALLOWLIST then True
          else list_all (\<lambda>p. list_ex (\<lambda>e. same_program (enc p) (cz_programId e)) (take (cn_entryCount c) (cn_entries c)))
                 (pc_protocols policy))"

definition security_check :: "string \<Rightarrow> string \<Rightarrow> bool \<Rightarrow> severity \<Rightarrow> string \<Rightarrow> string option \<Rightarrow> SecurityCheck" where
  "security_check i l p s d r = \<lparr>vc_id = i, vc_label = l, vc_passed = p, vc_severity = s, vc_detail = d, vc_remediation = r\<rparr>"

definition base_checks :: "analytics_state \<Rightarrow> SecurityCheck list" where
  "base_checks state =
     (let vault = rv_vault state; policy = rv_policy state; agents = av_agents vault;
          full = list_ex (\<lambda>a. int (ae_capability a) = FULL_CAPABILITY) agents
      in
      [security_check ''no-full-perms'' ''No agent has full capability'' (\<not> full) critical
         ''An agent with full capability can perform any action including transfers.''
         (only_if full ''Restrict agent capability to only the actions they need.''),
       security_check ''cap-configured'' ''Daily spending cap is configured'' (pc_dailySpendingCapUsd policy > 0) critical
         ''Without a cap, agents can spend unlimited amounts in 24 hours.''
         (only_if (pc_dailySpendingCapUsd policy = 0)
            ''Set a daily spending cap. Start with your expected daily volume + 20% buffer.''),
       security_check ''fee-destination-valid'' ''Fee destination is not system program''
         (av_feeDestination vault \<noteq> SYSTEM_PROGRAM_ADDRESS) critical
         ''Fees sent to the system program address are effectively burned.''
         (Some ''Fee destination is immutable after vault creation. If incorrect, close and recreate the vault.''),
       security_check ''agent-limits'' ''All agents have spending limits''
         (agents = [] \<or> list_all (\<lambda>a. ae_spendingLimitUsd a > 0) agents) warning
         ''Per-agent limits prevent any single agent from consuming the entire vault cap.''
         (only_if (list_ex (\<lambda>a. ae_spendingLimitUsd a = 0) agents) ''Set per-agent spending limits.''),
       security_check ''protocol-allowlist'' ''Protocol mode is allowlist'' (pc_protocolMode policy = PROTOCOL_MODE_ALLOWLIST) warning
         ''Allowlist mode restricts agents to approved protocols only.''
         (only_if (pc_protocolMode policy \<noteq> PROTOCOL_MODE_ALLOWLIST)
            ''Switch to Allowlist mode and add only the protocols your agents need.''),
       security_check ''timelock-enabled'' ''Policy changes require waiting period'' (as_timelockDuration state > 0) warning
         ''A timelock prevents instant policy changes. Gives time to respond if owner key is compromised.''
         (only_if (as_timelockDuration state = 0) ''Enable timelock (recommended: 1-24 hours).''),
       security_check ''slippage-reasonable'' ''Max slippage below 10%'' (as_maxSlippageBps state < 1000) warning
         ''High slippage tolerance allows agents to accept unfavorable trade prices.''
         (only_if (as_maxSlippageBps state \<ge> 1000)
            (''Current max slippage is '' @ show_hundredths (as_maxSlippageBps state) @ ''%. Reduce to 1-3% for most strategies.'')),
       security_check ''agent-limits-sum'' ''Agent limits don't exceed vault cap''
         (limits_sum_ok agents (pc_dailySpendingCapUsd policy)) warning
         ''If per-agent limits sum to more than the vault cap, agents may assume they have more budget than exists.''
         (Some ''Reduce per-agent limits so their sum is at or below the vault daily cap.''),
       security_check ''constraints-configured'' ''Instruction constraints are set'' (rv_constraints state \<noteq> None) info
         ''Instruction constraints add byte-level validation on DeFi instructions.''
         (only_if (rv_constraints state = None) ''Consider adding instruction constraints for high-value vaults.''),
       security_check ''has-agents'' ''At least one agent is registered'' (agents \<noteq> []) info
         ''A vault without agents cannot execute any DeFi operations.''
         (only_if (agents = []) ''Register an agent to start using this vault.''),
       security_check ''not-all-paused'' ''At least one agent is active''
         (agents = [] \<or> list_ex (\<lambda>a. \<not> ae_paused a) agents) info
         ''If all agents are paused, no DeFi operations can be executed.''
         (only_if (agents \<noteq> [] \<and> list_all ae_paused agents) ''Unpause at least one agent to resume operations.''),
       security_check ''vault-has-balance'' ''Vault has non-zero token balance''
         (rv_usdcBalance state > 0 \<or> rv_usdtBalance state > 0) info
         ''A vault with zero balance cannot execute any DeFi operations.''
         (Some ''Deposit funds to the vault to enable agent trading.''),
       security_check ''recent-activity'' ''Vault has recent activity (within 7 days)''
         (recently_active (rv_tracker state) (rv_resolvedAtTimestamp state)) info
         ''A vault with no recent activity may indicate a broken or stopped agent.''
         (Some ''Check agent health and ensure it's connected and running.'')])"

definition later_checks :: "(address \<Rightarrow> bytes) \<Rightarrow> analytics_state \<Rightarrow> SecurityCheck list" where
  "later_checks enc state =
     (let policy = rv_policy state; agents = av_agents (rv_vault state); constraints = rv_constraints state;
          timelock = as_timelockDuration state; feeRate = int (pc_developerFeeRate policy)
      in
      [security_check ''timelock-meaningful'' ''Timelock is at least 1 hour'' (timelock = 0 \<or> timelock \<ge> 3600) warning
         (''A timelock under 1 hour may not provide enough reaction time if the owner key is compromised. '' @
          ''A zero timelock (disabled) is caught by the 'timelock-enabled' check above.'')
         (only_if (timelock > 0 \<and> timelock < 3600)
            (''Current timelock is '' @ show_int timelock @ ''s. Increase to at least 3600s (1 hour).'')),
       security_check ''fee-rate-reasonable'' ''Developer fee rate is at or below maximum'' (feeRate \<le> MAX_DEVELOPER_FEE_RATE) info
         (''Developer fee rate must be at or below 500 (5 BPS = 0.05%). '' @
          ''A zero rate is valid (no developer revenue). A rate at the maximum is valid but should be intentional.'')
         (if feeRate > MAX_DEVELOPER_FEE_RATE
          then Some (''Fee rate '' @ show_int feeRate @ '' exceeds maximum '' @ show_int MAX_DEVELOPER_FEE_RATE
                     @ ''. This should not be possible on-chain.'')
          else only_if (feeRate = MAX_DEVELOPER_FEE_RATE)
                 ''Developer fee rate is at the maximum (5 BPS). Verify this is intentional.''),
       security_check ''constraints-protocol-aligned'' ''Constraint programs are in allowlist'' (constraints_aligned enc constraints policy) warning
         (''Instruction constraints reference program addresses not in the protocol allowlist. '' @
          ''These constraints will never trigger because the protocol is already blocked.'')
         (Some ''Update the allowlist to include constrained programs, or remove stale constraints.''),
       security_check ''no-permission-concentration'' ''No agent has full Operator capability''
         (\<not> list_ex (\<lambda>a. int (ae_capability a) \<ge> FULL_CAPABILITY) agents) warning
         (''An agent with Operator capability can perform any spending action. '' @
          ''Use Observer capability for agents that only need non-spending access.'')
         (Some ''Downgrade agent capability to Observer (1) if spending is not required.''),
       security_check ''constraints-current'' ''Constraint discriminators are current'' (constraints_current constraints) warning
         (''Stale or empty constraint entries may not match current protocol instruction formats. '' @
          ''Review constraints when protocols upgrade.'')
         (Some ''Review and update InstructionConstraints entries. Remove empty entries.''),
       security_check ''constraints-cover-allowlist'' ''All allowlisted protocols have constraint entries'' (constraints_cover enc constraints policy) info
         ''Protocols on the allowlist without constraint entries rely solely on spending caps for protection.''
         (Some ''Add InstructionConstraints entries for all allowlisted protocols.''),
       security_check ''mode-all-unguarded'' ''Protocol mode ALL has constraint protection''
         (pc_protocolMode policy \<noteq> 0 \<or> (case constraints of None \<Rightarrow> False | Some c \<Rightarrow> cn_strictMode c \<noteq> 0)) critical
         (''Protocol mode ALL allows agents to call any program. Without strict-mode constraints, '' @
          ''agents have unrestricted program access beyond spending caps and SPL transfer blocking.'')
         (Some ''Switch to Allowlist mode, or enable InstructionConstraints with strict_mode=true.'')])"

record SecurityPosture =
  sp_checks :: "SecurityCheck list"
  sp_passCount :: nat
  sp_failCount :: nat
  sp_criticalFailures :: "SecurityCheck list"

definition getSecurityPosture :: "(address \<Rightarrow> bytes) \<Rightarrow> analytics_state \<Rightarrow> SecurityPosture" where
  "getSecurityPosture enc state =
     (let checks = base_checks state @ later_checks enc state
      in \<lparr>sp_checks = checks, sp_passCount = length (filter vc_passed checks),
          sp_failCount = length (filter (\<lambda>c. \<not> vc_passed c) checks),
          sp_criticalFailures = filter (\<lambda>c. vc_severity c = critical \<and> \<not> vc_passed c) checks\<rparr>)"

section \<open>Alerts\<close>

record Alert =
  al_id :: string
  al_severity :: severity
  al_title :: string
  al_description :: string
  al_vaultAddress :: address
  al_agentAddress :: "address option"
  al_actionHref :: string
  al_actionLabel :: string

definition long_dash :: string where
  "long_dash = map char_of [226, 128, 148 :: nat]"

definition vault_href :: "address \<Rightarrow> string \<Rightarrow> string" where
  "vault_href vault tab = ''/dashboard/vault/'' @ vault @ ''?tab='' @ tab"

definition cap_alerts :: "(int \<Rightarrow> string) \<Rightarrow> address \<Rightarrow> EffectiveBudget \<Rightarrow> Alert list" where
  "cap_alerts usd2 vaultAddress b =
     (if bu_cap b > 0
      then
        let util = bdiv (bu_spent24h b * 100) (bu_cap b)
        in if util \<ge> 95
           then [\<lparr>al_id = ''cap-critical-'' @ vaultAddress, al_severity = critical,
                  al_title = ''Daily budget nearly exhausted'',
                  al_description = show_int util @ ''% of daily budget used '' @ long_dash @ '' '' @ usd2 (bu_remaining b) @ '' remaining.'',
                  al_vaultAddress = vaultAddress, al_agentAddress = None,
                  al_actionHref = vault_href vaultAddress ''policy'', al_actionLabel = ''Adjust budget''\<rparr>]
           else if util \<ge> 80
           then [\<lparr>al_id = ''cap-warning-'' @ vaultAddress, al_severity = warning,
                  al_title = ''Daily budget '' @ show_int util @ ''% used'',
                  al_description = usd2 (bu_remaining b) @ '' remaining of '' @ usd2 (bu_cap b) @ '' daily budget.'',
                  al_vaultAddress = vaultAddress, al_agentAddress = None,
                  al_actionHref = vault_href vaultAddress ''spending'', al_actionLabel = ''Review spending''\<rparr>]
           else []
      else [])"

definition frozen_alerts :: "address \<Rightarrow> VaultStatus \<Rightarrow> Alert list" where
  "frozen_alerts vaultAddress status =
     (if status = Frozen
      then [\<lparr>al_id = ''frozen-'' @ vaultAddress, al_severity = critical, al_title = ''Vault is paused'',
             al_description = ''All agent activity is stopped. Reactivate when ready.'',
             al_vaultAddress = vaultAddress, al_agentAddress = None,
             al_actionHref = vault_href vaultAddress ''security'', al_actionLabel = ''Review security''\<rparr>]
      else [])"

definition paused_alerts :: "address \<Rightarrow> AgentEntry list \<Rightarrow> Alert list" where
  "paused_alerts vaultAddress agents =
     map (\<lambda>agent. \<lparr>al_id = ''agent-paused-'' @ ae_pubkey agent, al_severity = info,
            al_title = ''Agent '' @ formatAddress (ae_pubkey agent) @ '' is paused'',
            al_description = ''This agent cannot execute any actions until resumed.'',
            al_vaultAddress = vaultAddress, al_agentAddress = Some (ae_pubkey agent),
            al_actionHref = vault_href vaultAddress ''agents'', al_actionLabel = ''Manage agents''\<rparr>)
       (filter ae_paused agents)"

definition agent_cap_alert :: "(int \<Rightarrow> string) \<Rightarrow> address \<Rightarrow> address \<times> EffectiveBudget \<Rightarrow> Alert list" where
  "agent_cap_alert usd2 vaultAddress ab =
     (let (agentAddr, b) = ab
      in if bu_cap b > 0
         then
           let util = bdiv (bu_spent24h b * 100) (bu_cap b)
           in if util \<ge> 80
              then [\<lparr>al_id = ''agent-cap-'' @ agentAddr, al_severity = (if util \<ge> 95 then critical else warning),
                     al_title = ''Agent '' @ formatAddress agentAddr @ '' at '' @ show_int util @ ''% of spending limit'',
                     al_description = usd2 (bu_remaining b) @ '' remaining of '' @ usd2 (bu_cap b) @ '' daily limit.'',
                     al_vaultAddress = vaultAddress, al_agentAddress = Some agentAddr,
                     al_actionHref = ''/dashboard/vault/'' @ vaultAddress @ ''/agent/'' @ agentAddr, al_actionLabel = ''View agent''\<rparr>]
              else []
         else [])"

definition roster_alerts :: "address \<Rightarrow> VaultStatus \<Rightarrow> AgentEntry list \<Rightarrow> Alert list" where
  "roster_alerts vaultAddress status agents =
     (if agents = [] \<and> status = Active
      then [\<lparr>al_id = ''no-agents-'' @ vaultAddress, al_severity = warning, al_title = ''No agents registered'',
             al_description = ''This vault has no agents and cannot execute any DeFi operations.'',
             al_vaultAddress = vaultAddress, al_agentAddress = None,
             al_actionHref = vault_href vaultAddress ''agents'', al_actionLabel = ''Register agent''\<rparr>]
      else [])
     @ (if agents \<noteq> [] \<and> list_all ae_paused agents
        then [\<lparr>al_id = ''all-paused-'' @ vaultAddress, al_severity = warning, al_title = ''All agents are paused'',
               al_description = ''No agent can execute actions. Unpause at least one to resume operations.'',
               al_vaultAddress = vaultAddress, al_agentAddress = None,
               al_actionHref = vault_href vaultAddress ''agents'', al_actionLabel = ''Manage agents''\<rparr>]
        else [])"

definition velocity_alerts :: "address \<Rightarrow> SpendTracker option \<Rightarrow> int \<Rightarrow> EffectiveBudget \<Rightarrow> Alert list" where
  "velocity_alerts vaultAddress tracker resolvedAt b =
     (if tracker \<noteq> None \<and> bu_cap b > 0
      then
        let velocity = getSpendingVelocity tracker resolvedAt b
        in (if sv_averageRate velocity > 0 \<and> sv_currentRate velocity > sv_averageRate velocity * 2
            then [\<lparr>al_id = ''high-velocity-'' @ vaultAddress, al_severity = warning,
                   al_title = ''Unusual spending velocity detected'',
                   al_description = ''Current spend rate is '' @ show_int (bdiv (sv_currentRate velocity) (sv_averageRate velocity))
                     @ ''x the 24h average.'',
                   al_vaultAddress = vaultAddress, al_agentAddress = None,
                   al_actionHref = vault_href vaultAddress ''spending'', al_actionLabel = ''Review spending''\<rparr>]
            else [])
           @ (if sv_currentRate velocity > 0 \<and> sv_currentRate velocity > bdiv (bu_cap b) 2
              then [\<lparr>al_id = ''drain-detected-'' @ vaultAddress, al_severity = critical,
                     al_title = ''Potential drain detected'',
                     al_description = ''Spending rate would consume over 50% of daily budget in one hour. Consider freezing the vault.'',
                     al_vaultAddress = vaultAddress, al_agentAddress = None,
                     al_actionHref = vault_href vaultAddress ''security'', al_actionLabel = ''Freeze vault''\<rparr>]
              else [])
      else [])"

fun severityOrder :: "severity \<Rightarrow> nat" where
  "severityOrder critical = 0"
| "severityOrder warning = 1"
| "severityOrder info = 2"

definition evaluateAlertConditions ::
  "(nat \<Rightarrow> rat \<Rightarrow> string) \<Rightarrow> ('c, 'm) ResolvedVaultState_scheme \<Rightarrow> address \<Rightarrow> Alert list" where
  "evaluateAlertConditions usd state vaultAddress =
     (let vault = rv_vault state; globalBudget = rv_globalBudget state;
          usd2 = (\<lambda>n. formatUsd usd n 2);
          alerts = cap_alerts usd2 vaultAddress globalBudget
            @ frozen_alerts vaultAddress (av_status vault)
            @ paused_alerts vaultAddress (av_agents vault)
            @ concat (map (agent_cap_alert usd2 vaultAddress) (rv_allAgentBudgets state))
            @ roster_alerts vaultAddress (av_status vault) (av_agents vault)
            @ velocity_alerts vaultAddress (rv_tracker state) (rv_resolvedAtTimestamp state) globalBudget
      in sort_key (\<lambda>a. severityOrder (al_severity a)) alerts)"

section \<open>Facts\<close>

lemma pass_fail_count: "length (filter P xs) + length (filter (\<lambda>x. \<not> P x) xs) = length xs"
  by (rule sum_length_filter_compl)

lemma critical_base:
  "filter (\<lambda>c. vc_severity c = critical \<and> \<not> vc_passed c) (base_checks state) = [] \<longleftrightarrow>
     (\<forall>a \<in> set (av_agents (rv_vault state)). ae_capability a \<noteq> 2)
     \<and> 0 < pc_dailySpendingCapUsd (rv_policy state) \<and> av_feeDestination (rv_vault state) \<noteq> SYSTEM_PROGRAM_ADDRESS"
  by (auto simp: base_checks_def Let_def security_check_def list_ex_iff FULL_CAPABILITY_def)

lemma critical_later:
  "filter (\<lambda>c. vc_severity c = critical \<and> \<not> vc_passed c) (later_checks enc state) = [] \<longleftrightarrow>
     pc_protocolMode (rv_policy state) \<noteq> 0 \<or> (\<exists>c. rv_constraints state = Some c \<and> cn_strictMode c \<noteq> 0)"
  by (auto simp: later_checks_def Let_def security_check_def split: option.splits)

abbreviation titled :: "string \<Rightarrow> Alert list \<Rightarrow> bool" where
  "titled t as \<equiv> \<exists>a \<in> set as. al_title a = t"

lemma drain_title:
  "\<not> titled ''Potential drain detected'' (cap_alerts usd2 v b)"
  "\<not> titled ''Potential drain detected'' (frozen_alerts v s)"
  "\<not> titled ''Potential drain detected'' (paused_alerts v agents)"
  "\<not> titled ''Potential drain detected'' (concat (map (agent_cap_alert usd2 v) bs))"
  "\<not> titled ''Potential drain detected'' (roster_alerts v s agents)"
  by (auto simp: cap_alerts_def frozen_alerts_def paused_alerts_def agent_cap_alert_def roster_alerts_def Let_def split: if_splits)

lemma velocity_drain:
  assumes "0 < bu_cap b"
  shows "titled ''Potential drain detected'' (velocity_alerts v (Some t) now b) \<longleftrightarrow>
    sv_currentRate (getSpendingVelocity (Some t) now b) > 0
    \<and> sv_currentRate (getSpendingVelocity (Some t) now b) > bu_cap b div 2"
  using assms by (auto simp: velocity_alerts_def Let_def bdiv_nonneg)

text \<open>The buckets whose mean is the current rate: at most three, the most recent with spend, however old.\<close>

definition recent_buckets :: "SpendTracker \<Rightarrow> int \<Rightarrow> EpochBucket list" where
  "recent_buckets t now =
     take 3 (sort_key (\<lambda>b. - eb_epochId b) (filter (valid_bucket (now div EPOCH_DURATION)) (st_buckets t)))"

lemma current_rate:
  assumes "0 < now"
  shows "sv_currentRate (getSpendingVelocity (Some t) now b) = hourly_rate (recent_buckets t now)"
proof -
  have "bdiv now EPOCH_DURATION = now div EPOCH_DURATION"
    using assms by (intro bdiv_nonneg) (simp_all add: EPOCH_DURATION_def)
  then show ?thesis
    using assms velocity_loop_valid [of "now div EPOCH_DURATION" "st_buckets t" "[]" 0 0]
    by (simp add: getSpendingVelocity_def recent_buckets_def Let_def case_prod_beta)
qed

lemma recent_amounts:
  "\<forall>b \<in> set (st_buckets t). is_u64 (eb_usdAmount b) \<Longrightarrow> b \<in> set (recent_buckets t now) \<Longrightarrow> 0 \<le> eb_usdAmount b"
  by (auto simp: recent_buckets_def is_u64_def dest: in_set_takeD)

text \<open>A decoded constraints account always passes the staleness check: its arrays have a fixed length.\<close>

lemma constraints_current_decoded:
  assumes "\<And>e. e \<in> set (cn_entries c) \<Longrightarrow> length (cz_dataConstraints e) = 8"
  shows "constraints_current (Some c)"
  using assms by (fastforce simp: constraints_current_def list_all_iff)

section \<open>Properties\<close>

text \<open>
  The posture is a list of twenty checks, each passed or failed, and it shows no critical failure exactly when no agent
  has the Operator capability, a daily cap is set, fees do not go to the system program, and the protocol
  mode is not ALL or strict constraints are in place.
\<close>

theorem posture_critical_exact:
  "sp_passCount (getSecurityPosture enc state) + sp_failCount (getSecurityPosture enc state) = 20
   \<and> (sp_criticalFailures (getSecurityPosture enc state) = [] \<longleftrightarrow>
        (\<forall>a \<in> set (av_agents (rv_vault state)). ae_capability a \<noteq> 2)
        \<and> 0 < pc_dailySpendingCapUsd (rv_policy state)
        \<and> av_feeDestination (rv_vault state) \<noteq> SYSTEM_PROGRAM_ADDRESS
        \<and> (pc_protocolMode (rv_policy state) \<noteq> 0
           \<or> (\<exists>c. rv_constraints state = Some c \<and> cn_strictMode c \<noteq> 0)))"
proof -
  have "length (base_checks state @ later_checks enc state) = 20"
    by (simp add: base_checks_def later_checks_def Let_def)
  then show ?thesis
    by (simp add: getSecurityPosture_def Let_def pass_fail_count critical_base critical_later del: filter_append)
      (simp add: filter_append critical_base critical_later)
qed

text \<open>
  The drain alert is raised exactly when six times the mean of the three most recent buckets with spend
  exceeds half the daily cap. The buckets may lie anywhere in the 24 hour window: one old payment of more
  than a twelfth of the cap raises the alert until it leaves the window.
\<close>

theorem drain_alert_exact:
  assumes "rv_tracker state = Some t" "0 < rv_resolvedAtTimestamp state" "0 < bu_cap (rv_globalBudget state)"
    and "\<forall>b \<in> set (st_buckets t). is_u64 (eb_usdAmount b)"
  shows "titled ''Potential drain detected'' (evaluateAlertConditions usd state v) \<longleftrightarrow>
    (let recent = recent_buckets t (rv_resolvedAtTimestamp state)
     in recent \<noteq> [] \<and> bu_cap (rv_globalBudget state) div 2
          < sum_list (map eb_usdAmount recent) * 6 div int (length recent))"
proof -
  let ?recent = "recent_buckets t (rv_resolvedAtTimestamp state)"
  have "0 \<le> sum_list (map eb_usdAmount ?recent)"
    using recent_amounts [OF assms(4)] by (intro sum_list_nonneg) auto
  then have rate: "hourly_rate ?recent = (if ?recent = [] then 0
      else sum_list (map eb_usdAmount ?recent) * 6 div int (length ?recent))"
    by (simp add: hourly_rate_def bdiv_nonneg)
  have "0 \<le> bu_cap (rv_globalBudget state) div 2" using assms(3) by simp
  then have "titled ''Potential drain detected'' (evaluateAlertConditions usd state v) \<longleftrightarrow>
      hourly_rate ?recent > bu_cap (rv_globalBudget state) div 2"
    using velocity_drain [OF assms(3), of v t] current_rate [OF assms(2)] drain_title
    by (auto simp: evaluateAlertConditions_def Let_def assms(1) bex_Un simp del: split_paired_All)
  then show ?thesis unfolding rate Let_def using assms(3) by auto
qed

theorem drain_alert_exact_witness:
  "titled ''Potential drain detected'' (evaluateAlertConditions (\<lambda>_ _. []) (sample_analytics :: unit AnalyticsState) ''V'')"
proof -
  have "recent_buckets old_spend_tracker 686400 = [\<lparr>eb_epochId = 1000, eb_usdAmount = 100\<rparr>]"
    by (simp add: recent_buckets_def old_spend_tracker_def valid_bucket_def EPOCH_DURATION_def NUM_EPOCHS_def)
  then show ?thesis
    using drain_alert_exact [of "sample_analytics :: unit AnalyticsState" old_spend_tracker "\<lambda>_ _. []" "''V''"]
    by (simp add: sample_analytics_def old_spend_tracker_def is_u64_def U64_MAX_def)
qed

end
