(* ===== verification/EventAnalytics.thy ===== *)
theory EventAnalytics
  imports SecurityAnalytics JsErrors
begin

text \<open>
  Events: the log parser and decoder of \<open>sdk/kit/src/events.ts\<close>, categories, descriptions and the activity feed
  of \<open>event-analytics.ts\<close>, the audit trail of \<open>security-analytics.ts\<close> and the session counts of
  \<open>agent-analytics.ts\<close>.

  The generated struct decoders are the parameter \<open>decode\<close>: from an event name and its bytes to the fields, \<open>None\<close>
  where the decoder throws. A field is absent or has its declared type; a text built from an absent
  address or amount throws, which is \<open>None\<close> again. \<open>usd\<close> and \<open>grouped\<close> are the formatters of \<open>Formatting\<close>.
\<close>

section \<open>events.ts\<close>

definition EVENT_DISCRIMINATOR_MAP :: "(string \<times> string) list" where
  "EVENT_DISCRIMINATOR_MAP =
    [(''555a3bda7e08b33f'', ''ActionAuthorized''), (''274a945ec6a67917'', ''AgentPausedEvent''),
     (''e9f7671e82adc4b7'', ''AgentPermissionsChangeApplied''),
     (''6b15814d018844d8'', ''AgentPermissionsChangeCancelled''),
     (''d3f2edd948349650'', ''AgentPermissionsChangeQueued''), (''bf4ed936e864bd55'', ''AgentRegistered''),
     (''0cfbf9a67a53a274'', ''AgentRevoked''), (''6b803c90a3532dd7'', ''AgentSpendLimitChecked''),
     (''583475457098a728'', ''AgentTransferExecuted''), (''dabbfd7c4fc02ab5'', ''AgentUnpausedEvent''),
     (''ba3e196d90cf530d'', ''CloseConstraintsApplied''), (''66e2abbf6362ff86'', ''CloseConstraintsCancelled''),
     (''4d17e8996c2ef335'', ''CloseConstraintsQueued''), (''70966f7df3852337'', ''ConstraintsChangeApplied''),
     (''0f4b68de68c14191'', ''ConstraintsChangeCancelled''), (''6fdd6495341758d4'', ''ConstraintsChangeQueued''),
     (''3b9e8e31a474dc08'', ''DelegationRevoked''), (''467f69665c6107ad'', ''EscrowCreated''),
     (''84d1316d878a1c51'', ''EscrowRefunded''), (''611b9637cbb3ad17'', ''EscrowSettled''),
     (''e91775e16bb2fe08'', ''FeesCollected''), (''9dd1645f3b640344'', ''FundsDeposited''),
     (''3882e69a235c0b76'', ''FundsWithdrawn''), (''08aa63e81fd8391a'', ''InstructionConstraintsCreated''),
     (''a1ea93831fa39119'', ''OrphanConstraintsPdaCleaned''), (''1b63c3c6ee3503b5'', ''PdaAllocated''),
     (''43975f4f0c0b33f2'', ''PdaExtended''), (''68590564b4ca3449'', ''PolicyChangeApplied''),
     (''c89ee2ff19d31e97'', ''PolicyChangeCancelled''), (''49e7b6888d78204f'', ''PolicyChangeQueued''),
     (''a66a5c0ac33cf77d'', ''PostAssertionChecked''), (''0714e066503c4e0b'', ''PostAssertionsClosed''),
     (''3159986e3a14441f'', ''PostAssertionsCreated''), (''210cf25bce2aa3eb'', ''SessionFinalized''),
     (''ee8126e4e376f9d7'', ''VaultClosed''), (''751978fe4bec4e73'', ''VaultCreated''),
     (''0dc7ac6f580a97f7'', ''VaultFrozen''), (''c534a0939f595a1c'', ''VaultReactivated'')]"

record SigilEvent =
  ev_name :: string
  ev_data :: bytes

definition PROGRAM_DATA_PREFIX :: string where
  "PROGRAM_DATA_PREFIX = ''Program data: ''"

text \<open>\<open>log.slice(log.indexOf(prefix) + prefix.length)\<close>, \<open>None\<close> when the prefix does not occur.\<close>

fun after_first :: "string \<Rightarrow> string \<Rightarrow> string option" where
  "after_first p [] = (if p = [] then Some [] else None)"
| "after_first p (c # cs) = (if startsWith (c # cs) p then Some (drop (length p) (c # cs)) else after_first p cs)"

definition hex_digit :: "nat \<Rightarrow> char" where
  "hex_digit n = ''0123456789abcdef'' ! (n mod 16)"

definition bytesToHex :: "bytes \<Rightarrow> string" where
  "bytesToHex bs = concat (map (\<lambda>b. [hex_digit (b div 16), hex_digit b]) bs)"

definition parse_log :: "string \<Rightarrow> SigilEvent list" where
  "parse_log log_line =
     (case after_first PROGRAM_DATA_PREFIX log_line of
        None \<Rightarrow> []
      | Some base64Data \<Rightarrow>
          (case atob base64Data of
             None \<Rightarrow> []
           | Some bs \<Rightarrow>
               if length bs < 8 then []
               else (case map_of EVENT_DISCRIMINATOR_MAP (bytesToHex (take 8 bs)) of
                       None \<Rightarrow> []
                     | Some eventName \<Rightarrow> [\<lparr>ev_name = eventName, ev_data = drop 8 bs\<rparr>])))"

definition parseSigilEvents :: "string list \<Rightarrow> SigilEvent list" where
  "parseSigilEvents logs = concat (map parse_log logs)"

definition filterEvents :: "string list \<Rightarrow> string \<Rightarrow> SigilEvent list" where
  "filterEvents logs eventName = filter (\<lambda>e. ev_name e = eventName) (parseSigilEvents logs)"

definition getEventNames :: "string list" where
  "getEventNames = map snd EVENT_DISCRIMINATOR_MAP"

text \<open>The keys of \<open>EVENT_DECODER_MAP\<close>, and the check at module load that both tables name the same events.\<close>

definition EVENT_DECODER_NAMES :: "string list" where
  "EVENT_DECODER_NAMES =
    [''ActionAuthorized'', ''SessionFinalized'', ''FeesCollected'', ''FundsDeposited'', ''FundsWithdrawn'',
     ''AgentTransferExecuted'', ''VaultCreated'', ''VaultFrozen'', ''VaultReactivated'', ''VaultClosed'',
     ''AgentRegistered'', ''AgentRevoked'', ''AgentPausedEvent'', ''AgentUnpausedEvent'',
     ''AgentSpendLimitChecked'', ''EscrowCreated'', ''EscrowSettled'', ''EscrowRefunded'', ''PolicyChangeQueued'',
     ''PolicyChangeApplied'', ''PolicyChangeCancelled'', ''ConstraintsChangeQueued'',
     ''ConstraintsChangeApplied'', ''ConstraintsChangeCancelled'', ''InstructionConstraintsCreated'',
     ''AgentPermissionsChangeQueued'', ''AgentPermissionsChangeApplied'', ''AgentPermissionsChangeCancelled'',
     ''CloseConstraintsQueued'', ''CloseConstraintsApplied'', ''CloseConstraintsCancelled'',
     ''DelegationRevoked'', ''PdaAllocated'', ''PdaExtended'', ''PostAssertionChecked'',
     ''PostAssertionsCreated'', ''PostAssertionsClosed'', ''OrphanConstraintsPdaCleaned'']"

definition decoder_map_complete :: bool where
  "decoder_map_complete \<longleftrightarrow>
     list_all (\<lambda>n. n \<in> set EVENT_DECODER_NAMES) (map snd EVENT_DISCRIMINATOR_MAP)
     \<and> list_all (\<lambda>n. n \<in> set (map snd EVENT_DISCRIMINATOR_MAP)) EVENT_DECODER_NAMES"

type_synonym event_fields = "(string \<times> jsv) list"
type_synonym event_decoder = "string \<Rightarrow> bytes \<Rightarrow> event_fields option"

record DecodedSigilEvent = SigilEvent +
  ev_fields :: "event_fields option"

definition decodeSigilEvent :: "event_decoder \<Rightarrow> SigilEvent \<Rightarrow> DecodedSigilEvent" where
  "decodeSigilEvent decode event =
     \<lparr>ev_name = ev_name event, ev_data = ev_data event,
      ev_fields = (if ev_name event \<in> set EVENT_DECODER_NAMES then decode (ev_name event) (ev_data event) else None)\<rparr>"

definition parseAndDecodeSigilEvents :: "event_decoder \<Rightarrow> string list \<Rightarrow> DecodedSigilEvent list" where
  "parseAndDecodeSigilEvents decode logs = map (decodeSigilEvent decode) (parseSigilEvents logs)"

section \<open>Fields\<close>

definition field :: "event_fields \<Rightarrow> string \<Rightarrow> jsv" where
  "field f k = (case map_of f k of Some v \<Rightarrow> v | None \<Rightarrow> JsUndefined)"

definition str_of :: "jsv \<Rightarrow> string option" where
  "str_of v = (case v of JsStr s \<Rightarrow> Some s | _ \<Rightarrow> None)"

definition big_of :: "jsv \<Rightarrow> int option" where
  "big_of v = (case v of JsBig n \<Rightarrow> Some n | _ \<Rightarrow> None)"

definition is_nullish :: "jsv \<Rightarrow> bool" where
  "is_nullish v \<longleftrightarrow> v = JsUndefined \<or> v = JsNull"

text \<open>\<open>a ?? b ?? ...\<close> over the fields of an event.\<close>

fun first_field :: "event_fields \<Rightarrow> string list \<Rightarrow> jsv \<Rightarrow> jsv" where
  "first_field f [] d = d"
| "first_field f (k # ks) d = (if is_nullish (field f k) then first_field f ks d else field f k)"

section \<open>event-analytics.ts\<close>

datatype EventCategory =
  cat_trade | cat_deposit | cat_withdrawal | cat_policy | cat_agent | cat_escrow | cat_security | cat_fee

definition EVENT_CATEGORY_MAP :: "(string \<times> EventCategory) list" where
  "EVENT_CATEGORY_MAP =
    [(''ActionAuthorized'', cat_trade), (''SessionFinalized'', cat_trade), (''DelegationRevoked'', cat_trade),
     (''AgentTransferExecuted'', cat_trade), (''AgentSpendLimitChecked'', cat_trade),
     (''FundsDeposited'', cat_deposit), (''FundsWithdrawn'', cat_withdrawal), (''PolicyUpdated'', cat_policy),
     (''PolicyChangeQueued'', cat_policy), (''PolicyChangeApplied'', cat_policy),
     (''PolicyChangeCancelled'', cat_policy), (''InstructionConstraintsCreated'', cat_policy),
     (''InstructionConstraintsUpdated'', cat_policy), (''InstructionConstraintsClosed'', cat_policy),
     (''ConstraintsChangeQueued'', cat_policy), (''ConstraintsChangeApplied'', cat_policy),
     (''ConstraintsChangeCancelled'', cat_policy), (''AgentRegistered'', cat_agent),
     (''AgentRevoked'', cat_agent), (''AgentPermissionsUpdated'', cat_agent), (''AgentUnpausedEvent'', cat_agent),
     (''VaultCreated'', cat_security), (''VaultFrozen'', cat_security), (''VaultReactivated'', cat_security),
     (''VaultClosed'', cat_security), (''AgentPausedEvent'', cat_security), (''FeesCollected'', cat_fee),
     (''EscrowCreated'', cat_escrow), (''EscrowSettled'', cat_escrow), (''EscrowRefunded'', cat_escrow)]"

definition categorizeEvent :: "string \<Rightarrow> EventCategory" where
  "categorizeEvent eventName = (case map_of EVENT_CATEGORY_MAP eventName of Some c \<Rightarrow> c | None \<Rightarrow> cat_trade)"

fun countBits :: "nat \<Rightarrow> nat" where
  "countBits v = (if v = 0 then 0 else v mod 2 + countBits (v div 2))"

declare countBits.simps [simp del]

record formatters =
  ft_usd :: "nat \<Rightarrow> rat \<Rightarrow> string"
  ft_grouped :: "rat \<Rightarrow> string"

definition fmtUsd2 :: "formatters \<Rightarrow> jsv \<Rightarrow> string option" where
  "fmtUsd2 ft v = map_option (\<lambda>n. formatUsd (ft_usd ft) n 2) (big_of v)"

definition fmtAddress :: "jsv \<Rightarrow> string option" where
  "fmtAddress v = map_option formatAddress (str_of v)"

text \<open>A mint that is absent makes \<open>resolveToken\<close> throw, which \<open>resolveTokenSafe\<close> turns into null.\<close>

definition resolveTokenSafe :: "string option \<Rightarrow> string \<Rightarrow> ResolvedToken option" where
  "resolveTokenSafe mint network = Option.bind mint (\<lambda>m. resolveToken m network)"

definition formatTokenDisplay :: "formatters \<Rightarrow> int \<Rightarrow> ResolvedToken option \<Rightarrow> string" where
  "formatTokenDisplay ft amount token =
     (case token of None \<Rightarrow> formatUsd (ft_usd ft) amount 6
      | Some t \<Rightarrow> formatTokenAmount (ft_grouped ft) amount (rt_decimals t) (rt_symbol t) (Some 2))"

text \<open>Texts with holes: the pieces are joined, and one that throws makes the whole throw.\<close>

fun join_texts :: "string option list \<Rightarrow> string option" where
  "join_texts [] = Some []"
| "join_texts (p # ps) = Option.bind p (\<lambda>s. map_option ((@) s) (join_texts ps))"

definition show_field :: "jsv \<Rightarrow> string" where
  "show_field v = (case v of JsNum (Some n) \<Rightarrow> show_int n | JsBig n \<Rightarrow> show_int n | _ \<Rightarrow> ''undefined'')"

definition describe_session :: "formatters \<Rightarrow> event_fields \<Rightarrow> string option" where
  "describe_session ft f =
     (let who = fmtAddress (field f ''agent'');
          spend = first_field f [''actualSpendUsd''] (JsBig 0)
      in if who = None then None
         else if js_truthy (field f ''isExpired'') then join_texts [Some ''Session for agent '', who, Some '' expired and was cleaned up'']
         else if \<not> js_truthy (field f ''success'') then join_texts [Some ''Agent '', who, Some '' session finalized (action failed)'']
         else if (case spend of JsBig n \<Rightarrow> n > 0 | _ \<Rightarrow> False)
         then join_texts [Some ''Agent '', who, Some ('' completed trade '' @ long_dash @ '' ''), fmtUsd2 ft spend, Some '' spent'']
         else join_texts [Some ''Agent '', who, Some '' completed action successfully''])"

definition token_text :: "formatters \<Rightarrow> event_fields \<Rightarrow> string \<Rightarrow> string option" where
  "token_text ft f network =
     map_option (\<lambda>amount. formatTokenDisplay ft amount (resolveTokenSafe (str_of (field f ''tokenMint'')) network))
       (big_of (field f ''amount''))"

definition fees_text :: "formatters \<Rightarrow> event_fields \<Rightarrow> string option" where
  "fees_text ft f =
     (case (big_of (field f ''protocolFeeAmount''), big_of (field f ''developerFeeAmount'')) of
        (Some protocolFee, Some devFee) \<Rightarrow>
          Some (''Fees collected: '' @ formatUsd (ft_usd ft) (protocolFee + devFee) 2 @ '' (''
            @ formatUsd (ft_usd ft) protocolFee 2 @ '' protocol + '' @ formatUsd (ft_usd ft) devFee 2 @ '' developer)'')
      | _ \<Rightarrow> None)"

text \<open>The events whose text depends on no field.\<close>

definition FIXED_DESCRIPTIONS :: "(string \<times> string) list" where
  "FIXED_DESCRIPTIONS =
    [(''VaultFrozen'', ''Vault paused '' @ long_dash @ '' all agent activity stopped''),
     (''VaultReactivated'', ''Vault reactivated '' @ long_dash @ '' agent activity resumed''),
     (''VaultClosed'', ''Vault permanently closed''),
     (''VaultCreated'', ''Vault created and ready for configuration''),
     (''PolicyUpdated'', ''Vault policy updated '' @ long_dash @ '' new spending rules active''),
     (''PolicyChangeQueued'', ''Policy change queued '' @ long_dash @ '' waiting for timelock to expire''),
     (''PolicyChangeApplied'', ''Queued policy change applied''),
     (''PolicyChangeCancelled'', ''Queued policy change cancelled''),
     (''DelegationRevoked'', ''Token delegation revoked after session completion''),
     (''InstructionConstraintsCreated'', ''Instruction constraints configured for this vault''),
     (''InstructionConstraintsUpdated'', ''Instruction constraints updated''),
     (''InstructionConstraintsClosed'', ''Instruction constraints removed''),
     (''ConstraintsChangeQueued'', ''Constraint change queued '' @ long_dash @ '' waiting for timelock''),
     (''ConstraintsChangeApplied'', ''Queued constraint change applied''),
     (''ConstraintsChangeCancelled'', ''Queued constraint change cancelled'')]"

definition describe_fields :: "formatters \<Rightarrow> string \<Rightarrow> string \<Rightarrow> event_fields \<Rightarrow> string option" where
  "describe_fields ft network name f =
     (let agentText = fmtAddress (field f ''agent''); amountText = fmtUsd2 ft (field f ''amount'') in
      if name = ''ActionAuthorized'' then
        join_texts [Some ''Agent '', agentText, Some '' authorized '', fmtUsd2 ft (field f ''usdAmount''), Some '' '',
          Some (case field f ''actionType'' of
                  JsObj c ps \<Rightarrow> (case map_of ps ''__kind'' of Some (JsStr s) \<Rightarrow> s | _ \<Rightarrow> ''action'') | _ \<Rightarrow> ''action''),
          Some '' on '', map_option resolveProtocolName (str_of (field f ''protocol''))]
      else if name = ''SessionFinalized'' then describe_session ft f
      else if name = ''FundsDeposited'' then join_texts [Some ''Owner deposited '', token_text ft f network]
      else if name = ''FundsWithdrawn'' then join_texts [Some ''Owner withdrew '', token_text ft f network]
      else if name = ''AgentRegistered'' then join_texts [Some ''New agent '', agentText, Some '' registered with vault access'']
      else if name = ''AgentRevoked'' then
        join_texts [Some ''Agent '', agentText, Some '' removed from vault ('', Some (show_field (field f ''remainingAgents'')), Some '' remaining)'']
      else if name = ''AgentPermissionsUpdated'' then
        join_texts [Some ''Agent '', agentText, Some '' capability updated ('',
          Some (show_nat (case field f ''newPermissions'' of JsBig n \<Rightarrow> countBits (nat n) | _ \<Rightarrow> 0)), Some '' bits set)'']
      else if name = ''AgentPausedEvent'' then
        join_texts [Some ''Agent '', agentText, Some ('' paused '' @ long_dash @ '' cannot execute actions'')]
      else if name = ''AgentUnpausedEvent'' then
        join_texts [Some ''Agent '', agentText, Some ('' resumed '' @ long_dash @ '' can execute actions'')]
      else if name = ''FeesCollected'' then fees_text ft f
      else if name = ''EscrowCreated'' then
        join_texts [Some ''Escrow created: '', amountText, Some '' held for vault '', fmtAddress (field f ''destinationVault'')]
      else if name = ''EscrowSettled'' then join_texts [Some (''Escrow settled '' @ long_dash @ '' ''), amountText, Some '' released to destination'']
      else if name = ''EscrowRefunded'' then join_texts [Some (''Escrow refunded '' @ long_dash @ '' ''), amountText, Some '' returned to vault'']
      else if name = ''AgentTransferExecuted'' then
        join_texts [Some ''Agent transferred '', amountText, Some '' to '', fmtAddress (field f ''destination'')]
      else if name = ''AgentSpendLimitChecked'' then
        join_texts [Some ''Agent '', agentText, Some '' spend check: '', fmtUsd2 ft (field f ''agentRollingSpend''), Some '' of '',
          fmtUsd2 ft (field f ''spendingLimitUsd''), Some '' daily limit used'']
      else (case map_of FIXED_DESCRIPTIONS name of Some s \<Rightarrow> Some s | None \<Rightarrow> Some (name @ '' event'')))"

definition describeEvent :: "formatters \<Rightarrow> ('m) DecodedSigilEvent_scheme \<Rightarrow> string \<Rightarrow> string option" where
  "describeEvent ft decoded network =
     (case ev_fields decoded of
        None \<Rightarrow> Some (ev_name decoded @ '' event (details unavailable)'')
      | Some f \<Rightarrow> describe_fields ft network (ev_name decoded) f)"

record VaultActivityItem =
  va_timestamp :: int
  va_txSignature :: string
  va_eventType :: string
  va_category :: EventCategory
  va_agent :: "address option"
  va_amount :: "int option"
  va_amountDisplay :: "string option"
  va_tokenMint :: "address option"
  va_tokenSymbol :: "string option"
  va_isSpending :: bool
  va_actionType :: "string option"
  va_protocol :: "address option"
  va_protocolName :: "string option"
  va_success :: bool
  va_description :: string

definition extractAddress :: "event_fields option \<Rightarrow> string \<Rightarrow> address option" where
  "extractAddress fs k =
     (case fs of None \<Rightarrow> None
      | Some f \<Rightarrow> (case field f k of JsStr s \<Rightarrow> if s \<noteq> [] then Some s else None | _ \<Rightarrow> None))"

definition extractBigInt :: "event_fields option \<Rightarrow> string \<Rightarrow> int option" where
  "extractBigInt fs k = (case fs of None \<Rightarrow> None | Some f \<Rightarrow> big_of (field f k))"

definition or_else :: "'a option \<Rightarrow> 'a option \<Rightarrow> 'a option" where
  "or_else a b = (case a of None \<Rightarrow> b | Some x \<Rightarrow> Some x)"

definition legacy_action :: "jsv \<Rightarrow> string option" where
  "legacy_action act =
     (case act of
        JsObj c ps \<Rightarrow> (case map_of ps ''__kind'' of Some (JsStr s) \<Rightarrow> Some s | _ \<Rightarrow> None)
      | JsNum (Some n) \<Rightarrow> parseActionType (Inl n)
      | JsBig n \<Rightarrow> parseActionType (Inl n)
      | _ \<Rightarrow> None)"

definition LEGACY_SPENDING :: "string list" where
  "LEGACY_SPENDING =
    [''swap'', ''Swap'', ''openPosition'', ''OpenPosition'', ''increasePosition'', ''IncreasePosition'', ''deposit'', ''Deposit'',
     ''transfer'', ''Transfer'', ''addCollateral'', ''AddCollateral'', ''placeLimitOrder'', ''PlaceLimitOrder'',
     ''swapAndOpenPosition'', ''SwapAndOpenPosition'', ''createEscrow'', ''CreateEscrow'']"

text \<open>\<open>isSpending\<close> and \<open>actionType\<close> from the event's fields, before the amount is looked at.\<close>

definition declared_spending :: "event_fields option \<Rightarrow> bool \<times> string option" where
  "declared_spending fs =
     (let get = (\<lambda>k. case fs of None \<Rightarrow> JsUndefined | Some f \<Rightarrow> field f k)
      in if \<not> is_nullish (get ''isSpending'') then (js_truthy (get ''isSpending''), None)
         else if \<not> is_nullish (get ''actionType'')
         then (let actionType = legacy_action (get ''actionType'')
               in (case actionType of Some s \<Rightarrow> s \<noteq> [] \<and> s \<in> set LEGACY_SPENDING | None \<Rightarrow> False, actionType))
         else (False, None))"

definition buildActivityItem :: "formatters \<Rightarrow> DecodedSigilEvent \<Rightarrow> string \<Rightarrow> int \<Rightarrow> string \<Rightarrow> VaultActivityItem option" where
  "buildActivityItem ft decoded txSignature blockTime network =
     (let f = ev_fields decoded;
          amount = or_else (extractBigInt f ''amount'') (extractBigInt f ''usdAmount'');
          tokenMint = or_else (extractAddress f ''tokenMint'') (extractAddress f ''mint'');
          protocol = extractAddress f ''protocol'';
          success = (case f of None \<Rightarrow> True | Some fs \<Rightarrow> field fs ''success'' \<noteq> JsBool False);
          token = resolveTokenSafe tokenMint network;
          amountDisplay = (case amount of None \<Rightarrow> None
            | Some n \<Rightarrow> Some (if token \<noteq> None then formatTokenDisplay ft n token else formatUsd (ft_usd ft) n 2));
          (declared, actionType) = declared_spending f;
          isSpending = (if \<not> declared \<and> (case amount of Some n \<Rightarrow> n > 0 | None \<Rightarrow> False) then True else declared)
      in map_option (\<lambda>description.
           \<lparr>va_timestamp = blockTime, va_txSignature = txSignature, va_eventType = ev_name decoded,
            va_category = categorizeEvent (ev_name decoded), va_agent = extractAddress f ''agent'', va_amount = amount,
            va_amountDisplay = amountDisplay, va_tokenMint = tokenMint, va_tokenSymbol = map_option rt_symbol token,
            va_isSpending = isSpending, va_actionType = actionType, va_protocol = protocol,
            va_protocolName = map_option resolveProtocolName protocol, va_success = success, va_description = description\<rparr>)
          (describeEvent ft decoded network))"

text \<open>
  The feed: \<open>getTransaction\<close> throws (\<open>None\<close>) or answers, with or without log messages. Items of one transaction are
  pushed until one throws, and the next transaction follows.
\<close>

fun build_until :: "('a \<Rightarrow> 'b option) \<Rightarrow> 'a list \<Rightarrow> 'b list" where
  "build_until f [] = []"
| "build_until f (x # xs) = (case f x of None \<Rightarrow> [] | Some y \<Rightarrow> y # build_until f xs)"

definition activity_of ::
  "formatters \<Rightarrow> event_decoder \<Rightarrow> (string \<Rightarrow> string list option option) \<Rightarrow> string \<Rightarrow> string \<times> int option \<Rightarrow> VaultActivityItem list" where
  "activity_of ft decode getTransaction network sigInfo =
     (case getTransaction (fst sigInfo) of
        Some (Some logs) \<Rightarrow>
          build_until (\<lambda>e. buildActivityItem ft e (fst sigInfo) (case snd sigInfo of Some t \<Rightarrow> t | None \<Rightarrow> 0) network)
            (parseAndDecodeSigilEvents decode logs)
      | _ \<Rightarrow> [])"

definition getVaultActivity ::
  "formatters \<Rightarrow> event_decoder \<Rightarrow> (string \<Rightarrow> string list option option) \<Rightarrow> string \<Rightarrow> (string \<times> int option) list \<Rightarrow> VaultActivityItem list" where
  "getVaultActivity ft decode getTransaction network signatures =
     sort_key (\<lambda>i. - va_timestamp i) (concat (map (activity_of ft decode getTransaction network) signatures))"

section \<open>Sessions of an agent\<close>

record AgentErrorBreakdown =
  eb_agent :: address
  eb_totalSessions :: nat
  eb_failedSessions :: nat
  eb_expiredSessions :: nat
  eb_successfulSessions :: nat
  eb_successRate :: int

definition session_of :: "address \<Rightarrow> DecodedSigilEvent \<Rightarrow> event_fields option" where
  "session_of agentAddress e =
     (case ev_fields e of
        None \<Rightarrow> None
      | Some f \<Rightarrow> if ev_name e = ''SessionFinalized'' \<and> field f ''agent'' = JsStr agentAddress then Some f else None)"

definition session_expired :: "event_fields \<Rightarrow> bool" where
  "session_expired f = js_truthy (field f ''isExpired'')"

definition session_failed :: "event_fields \<Rightarrow> bool" where
  "session_failed f \<longleftrightarrow> \<not> js_truthy (field f ''isExpired'') \<and> \<not> js_truthy (field f ''success'')"

definition session_succeeded :: "event_fields \<Rightarrow> bool" where
  "session_succeeded f \<longleftrightarrow> \<not> js_truthy (field f ''isExpired'') \<and> js_truthy (field f ''success'')"

definition getAgentErrorBreakdown :: "DecodedSigilEvent list \<Rightarrow> address \<Rightarrow> AgentErrorBreakdown" where
  "getAgentErrorBreakdown events agentAddress =
     (let sessions = List.map_filter (session_of agentAddress) events;
          successful = length (filter session_succeeded sessions)
      in \<lparr>eb_agent = agentAddress, eb_totalSessions = length sessions,
          eb_failedSessions = length (filter session_failed sessions),
          eb_expiredSessions = length (filter session_expired sessions),
          eb_successfulSessions = successful,
          eb_successRate = (if length sessions > 0
            then math_round (dbl (dbl (of_nat successful / of_nat (length sessions)) * 100)) else 100)\<rparr>)"

section \<open>Audit trail\<close>

datatype AuditCategory = policy_change | agent_change | emergency | escrow_change | constraint_change

definition AUDIT_EVENTS :: "(string \<times> AuditCategory) list" where
  "AUDIT_EVENTS =
    [(''PolicyUpdated'', policy_change), (''PolicyChangeQueued'', policy_change),
     (''PolicyChangeApplied'', policy_change), (''PolicyChangeCancelled'', policy_change),
     (''AgentRegistered'', agent_change), (''AgentRevoked'', agent_change),
     (''AgentPermissionsUpdated'', agent_change), (''AgentPausedEvent'', emergency),
     (''AgentUnpausedEvent'', agent_change), (''VaultFrozen'', emergency), (''VaultReactivated'', emergency),
     (''VaultClosed'', emergency), (''VaultCreated'', emergency), (''EscrowCreated'', escrow_change),
     (''EscrowSettled'', escrow_change), (''EscrowRefunded'', escrow_change),
     (''InstructionConstraintsCreated'', constraint_change),
     (''InstructionConstraintsUpdated'', constraint_change),
     (''InstructionConstraintsClosed'', constraint_change), (''ConstraintsChangeQueued'', constraint_change),
     (''ConstraintsChangeApplied'', constraint_change), (''ConstraintsChangeCancelled'', constraint_change)]"

record AuditEntry =
  au_timestamp :: int
  au_txSignature :: string
  au_category :: AuditCategory
  au_action :: string
  au_actor :: jsv
  au_details :: event_fields
  au_description :: string

record AuditOptions =
  ao_categories :: "AuditCategory list option"
  ao_since :: int
  ao_actor :: string

text \<open>
  An absent \<open>since\<close> is 0 and an absent \<open>actor\<close> the empty string, which the source treats alike. The events carry
  no signature unless the caller enriched them.
\<close>

record AuditedEvent = DecodedSigilEvent +
  ev_txSignature :: "string option"

definition audit_timestamp :: "event_fields \<Rightarrow> int" where
  "audit_timestamp f =
     (case first_field f [''timestamp'', ''executes_at'', ''applied_at''] (JsBig 0) of
        JsBig n \<Rightarrow> n | JsNum (Some n) \<Rightarrow> n | _ \<Rightarrow> 0)"

definition audit_actor :: "event_fields \<Rightarrow> jsv" where
  "audit_actor f = first_field f [''owner'', ''agent'', ''settled_by'', ''refunded_by'', ''vault''] (JsStr ''unknown'')"

definition audit_entry :: "formatters \<Rightarrow> AuditOptions \<Rightarrow> AuditedEvent \<Rightarrow> AuditEntry option list" where
  "audit_entry ft options e =
     (case map_of AUDIT_EVENTS (ev_name e) of
        None \<Rightarrow> []
      | Some category \<Rightarrow>
          if (case ao_categories options of Some cs \<Rightarrow> category \<notin> set cs | None \<Rightarrow> False) then []
          else
            let f = (case ev_fields e of Some fs \<Rightarrow> fs | None \<Rightarrow> []);
                timestamp = audit_timestamp f;
                actor = audit_actor f
            in if ao_since options \<noteq> 0 \<and> timestamp > 0 \<and> timestamp < ao_since options then []
               else if ao_actor options \<noteq> [] \<and> actor \<noteq> JsStr (ao_actor options) then []
               else [map_option (\<lambda>description.
                  \<lparr>au_timestamp = timestamp, au_txSignature = (case ev_txSignature e of Some s \<Rightarrow> s | None \<Rightarrow> []),
                   au_category = category, au_action = ev_name e, au_actor = actor, au_details = f,
                   au_description = description\<rparr>) (describeEvent ft e ''mainnet-beta'')])"

text \<open>\<open>None\<close> when a description throws.\<close>

definition getAuditTrail :: "formatters \<Rightarrow> AuditOptions \<Rightarrow> AuditedEvent list \<Rightarrow> AuditEntry list option" where
  "getAuditTrail ft options events = those (concat (map (audit_entry ft options) events))"

record AuditTrailSummary =
  as_totalEntries :: nat
  as_byCategory :: "(AuditCategory \<times> nat) list"
  as_latestTimestamp :: int
  as_uniqueActors :: "jsv list"

definition getAuditTrailSummary :: "AuditEntry list \<Rightarrow> AuditTrailSummary" where
  "getAuditTrailSummary trail =
     \<lparr>as_totalEntries = length trail,
      as_byCategory = map (\<lambda>c. (c, length (filter (\<lambda>entry. au_category entry = c) trail)))
        [policy_change, agent_change, emergency, escrow_change, constraint_change],
      as_latestTimestamp = foldl (\<lambda>latest entry. if au_timestamp entry > latest then au_timestamp entry else latest) 0 trail,
      as_uniqueActors = foldl set_add [] (map au_actor trail)\<rparr>"

section \<open>Facts\<close>

lemma after_first_start: "startsWith s p \<Longrightarrow> after_first p s = Some (drop (length p) s)"
  by (cases s) (auto simp: startsWith_def)

lemma after_first_prefix: "after_first p (p @ s) = Some s"
  by (subst after_first_start) (simp_all add: startsWith_def)

lemma those_eq_Some: "those xs = Some ys \<Longrightarrow> xs = map Some ys"
  by (induction xs arbitrary: ys) (auto split: option.splits)

lemma session_partition:
  "length (filter session_failed fs) + length (filter session_expired fs) + length (filter session_succeeded fs) = length fs"
  by (induction fs) (auto simp: session_failed_def session_expired_def session_succeeded_def)

text \<open>A queued policy change supplies \<open>executesAt\<close>, not \<open>executes_at\<close>: it is dated 0 and attributed to the vault.\<close>

lemma queued_change_undated:
  "audit_timestamp [(''vault'', JsStr v), (''executesAt'', JsBig n)] = 0"
  "audit_actor [(''vault'', JsStr v), (''executesAt'', JsBig n)] = JsStr v"
  by (simp_all add: audit_timestamp_def audit_actor_def field_def is_nullish_def)

text \<open>The specification of the trail, over the event alone: its category from the family of its name, its date and its actor.\<close>

definition audit_category :: "string \<Rightarrow> AuditCategory option" where
  "audit_category n =
     (if startsWith n ''Policy'' then Some policy_change
      else if startsWith n ''Vault'' \<or> n = ''AgentPausedEvent'' then Some emergency
      else if n \<in> {''AgentRegistered'', ''AgentRevoked'', ''AgentUnpausedEvent''} then Some agent_change
      else if startsWith n ''Escrow'' then Some escrow_change
      else if startsWith n ''InstructionConstraints'' \<or> startsWith n ''ConstraintsChange'' then Some constraint_change
      else None)"

definition given_fields :: "AuditedEvent \<Rightarrow> event_fields" where
  "given_fields e = (case ev_fields e of Some fs \<Rightarrow> fs | None \<Rightarrow> [])"

definition supplies :: "AuditedEvent \<Rightarrow> string \<Rightarrow> bool" where
  "supplies e k \<longleftrightarrow> (\<exists>v. map_of (given_fields e) k = Some v \<and> v \<noteq> JsUndefined \<and> v \<noteq> JsNull)"

definition dated :: "AuditedEvent \<Rightarrow> int \<Rightarrow> bool" where
  "dated e t \<longleftrightarrow>
     (if supplies e ''timestamp'' then map_of (given_fields e) ''timestamp'' = Some (JsBig t)
      else if supplies e ''executes_at'' then map_of (given_fields e) ''executes_at'' = Some (JsBig t)
      else if supplies e ''applied_at'' then map_of (given_fields e) ''applied_at'' = Some (JsBig t)
      else t = 0)"

definition acted_by :: "AuditedEvent \<Rightarrow> jsv \<Rightarrow> bool" where
  "acted_by e a \<longleftrightarrow>
     (if supplies e ''owner'' then map_of (given_fields e) ''owner'' = Some a
      else if supplies e ''agent'' then map_of (given_fields e) ''agent'' = Some a
      else if supplies e ''settled_by'' then map_of (given_fields e) ''settled_by'' = Some a
      else if supplies e ''refunded_by'' then map_of (given_fields e) ''refunded_by'' = Some a
      else if supplies e ''vault'' then map_of (given_fields e) ''vault'' = Some a
      else a = JsStr ''unknown'')"

text \<open>
  The events the trail is specified for: of the program, dated by an integer that \<open>Number\<close> represents exactly, and with the
  fields under the names the trail reads.
\<close>

definition audited_event :: "AuditedEvent \<Rightarrow> bool" where
  "audited_event e \<longleftrightarrow> ev_name e \<in> set getEventNames
     \<and> (\<exists>t. dated e t \<and> \<bar>t\<bar> \<le> 2 ^ 53)
     \<and> (\<forall>k \<in> {''executesAt'', ''appliedAt'', ''settledBy'', ''refundedBy''}. \<not> supplies e k)"

definition asked_for :: "AuditOptions \<Rightarrow> AuditedEvent \<Rightarrow> bool" where
  "asked_for options e \<longleftrightarrow>
     (\<exists>c t a. audit_category (ev_name e) = Some c \<and> dated e t \<and> acted_by e a
        \<and> (ao_categories options = None \<or> (\<exists>cs. ao_categories options = Some cs \<and> c \<in> set cs))
        \<and> (t \<le> 0 \<or> ao_since options \<le> t)
        \<and> (ao_actor options = [] \<or> a = JsStr (ao_actor options)))"

definition entry_of :: "formatters \<Rightarrow> AuditedEvent \<Rightarrow> AuditEntry \<Rightarrow> bool" where
  "entry_of ft e x \<longleftrightarrow>
     dated e (au_timestamp x) \<and> acted_by e (au_actor x) \<and> audit_category (ev_name e) = Some (au_category x)
     \<and> au_action x = ev_name e \<and> au_details x = given_fields e
     \<and> (ev_txSignature e = Some (au_txSignature x) \<or> ev_txSignature e = None \<and> au_txSignature x = [])
     \<and> describeEvent ft e ''mainnet-beta'' = Some (au_description x)"

lemma audit_category_table:
  assumes "n \<in> set getEventNames"
  shows "map_of AUDIT_EVENTS n = audit_category n"
proof -
  have "list_all (\<lambda>n. map_of AUDIT_EVENTS n = audit_category n) getEventNames" by code_simp
  then show ?thesis using assms by (simp add: list_all_iff)
qed

lemma supplies_field: "supplies e k \<longleftrightarrow> \<not> is_nullish (field (given_fields e) k)"
  by (auto simp: supplies_def field_def is_nullish_def split: option.splits)

lemma carried_value: "supplies e k \<Longrightarrow> map_of (given_fields e) k = Some v \<longleftrightarrow> field (given_fields e) k = v"
  by (auto simp: supplies_def field_def split: option.splits)

lemma dated_timestamp: "dated e t \<Longrightarrow> audit_timestamp (given_fields e) = t"
  by (auto simp: dated_def audit_timestamp_def supplies_field carried_value split: if_splits)

lemma acted_by_actor: "acted_by e a \<longleftrightarrow> a = audit_actor (given_fields e)"
  by (auto simp: acted_by_def audit_actor_def supplies_field carried_value)

lemma audit_entry_spec:
  assumes "audited_event e"
  shows "if asked_for options e then \<exists>r. audit_entry ft options e = [r] \<and> (\<forall>x. r = Some x \<longrightarrow> entry_of ft e x)
    else audit_entry ft options e = []"
proof -
  obtain t where t: "dated e t" using assms by (auto simp: audited_event_def)
  then have unique: "dated e t' \<longleftrightarrow> t' = t" for t' using dated_timestamp by blast
  have cat: "map_of AUDIT_EVENTS (ev_name e) = audit_category (ev_name e)"
    using assms audit_category_table by (auto simp: audited_event_def)
  note spec = asked_for_def entry_of_def unique acted_by_actor
  show ?thesis
    unfolding audit_entry_def cat given_fields_def [symmetric] dated_timestamp [OF t] Let_def
    by (cases "audit_category (ev_name e)") (auto simp: spec not_le split: option.splits)
qed

lemma trail_spec:
  assumes "concat (map (audit_entry ft options) events) = map Some trail" "list_all audited_event events"
  shows "list_all2 (entry_of ft) (filter (asked_for options) events) trail"
  using assms
proof (induction events arbitrary: trail)
  case (Cons e events)
  show ?case
  proof (cases "asked_for options e")
    case True
    then obtain r where r: "audit_entry ft options e = [r]" "\<And>x. r = Some x \<Longrightarrow> entry_of ft e x"
      using audit_entry_spec [of e options ft] Cons.prems(2) by auto
    then obtain x rest where "trail = x # rest" "r = Some x" "concat (map (audit_entry ft options) events) = map Some rest"
      using Cons.prems(1) by (cases trail) auto
    then show ?thesis using True r(2) Cons.IH [of rest] Cons.prems(2) by simp
  next
    case False
    then show ?thesis using audit_entry_spec [of e options ft] Cons by auto
  qed
qed simp

text \<open>The table was not extended with the program: these events are never listed.\<close>

lemma unlisted_events:
  "filter (\<lambda>n. n \<notin> set (map fst AUDIT_EVENTS)) getEventNames =
      [''ActionAuthorized'', ''AgentPermissionsChangeApplied'', ''AgentPermissionsChangeCancelled'',
       ''AgentPermissionsChangeQueued'', ''AgentSpendLimitChecked'', ''AgentTransferExecuted'', ''CloseConstraintsApplied'',
       ''CloseConstraintsCancelled'', ''CloseConstraintsQueued'', ''DelegationRevoked'', ''FeesCollected'', ''FundsDeposited'',
       ''FundsWithdrawn'', ''OrphanConstraintsPdaCleaned'', ''PdaAllocated'', ''PdaExtended'', ''PostAssertionChecked'',
       ''PostAssertionsClosed'', ''PostAssertionsCreated'', ''SessionFinalized'']"
  by code_simp

section \<open>Properties\<close>

text \<open>
  What the program emits is what the parser reads: a log line with the base64 of a known event's
  discriminator and any payload gives that event with that payload, and decoding looks up a decoder that exists.
\<close>

theorem emitted_event_parsed:
  assumes "(bytesToHex disc, name) \<in> set EVENT_DISCRIMINATOR_MAP" "length disc = 8" "is_bytes (disc @ payload)"
  shows "parseAndDecodeSigilEvents decode [PROGRAM_DATA_PREFIX @ btoa (disc @ payload)]
    = [\<lparr>ev_name = name, ev_data = payload, ev_fields = decode name payload\<rparr>]"
proof -
  have "distinct (map fst EVENT_DISCRIMINATOR_MAP)" by code_simp
  then have n: "map_of EVENT_DISCRIMINATOR_MAP (bytesToHex disc) = Some name"
    using assms(1) by (rule map_of_is_SomeI)
  have "decoder_map_complete" by code_simp
  then have "name \<in> set EVENT_DECODER_NAMES"
    using assms(1) unfolding decoder_map_complete_def list_all_iff by force
  then show ?thesis
    using n assms(2) atob_btoa [OF assms(3)]
    by (simp add: parseAndDecodeSigilEvents_def parseSigilEvents_def parse_log_def after_first_prefix decodeSigilEvent_def)
qed

theorem emitted_event_parsed_witness:
  "parseAndDecodeSigilEvents (\<lambda>_ _. None) [PROGRAM_DATA_PREFIX @ btoa ([13, 199, 172, 111, 88, 10, 151, 247] @ [1, 2])]
    = [\<lparr>ev_name = ''VaultFrozen'', ev_data = [1, 2], ev_fields = None\<rparr>]"
proof (rule emitted_event_parsed)
  have "bytesToHex [13, 199, 172, 111, 88, 10, 151, 247] = ''0dc7ac6f580a97f7''" by code_simp
  then show "(bytesToHex [13, 199, 172, 111, 88, 10, 151, 247], ''VaultFrozen'') \<in> set EVENT_DISCRIMINATOR_MAP"
    by (simp add: EVENT_DISCRIMINATOR_MAP_def)
qed (simp_all add: is_bytes_def)

text \<open>
  C35. The audit trail of decoded events, whose fields have the names it reads, is exactly what was asked for: in
  order, one entry for every event of an audited family whose category is among the requested ones, whose date is unknown or not
  before \<open>since\<close> and whose actor is the requested one, and no other entry. Each entry carries the event's category, name,
  fields, date, actor, description and signature, with the documented fallbacks for the date (0), the actor
  (the vault, then \<open>unknown\<close>) and the signature (empty).
\<close>

theorem audit_trail_exact:
  assumes "getAuditTrail ft options events = Some trail" "list_all audited_event events"
  shows "list_all2 (entry_of ft) (filter (asked_for options) events) trail"
  using those_eq_Some [OF assms(1) [unfolded getAuditTrail_def]] assms(2) by (rule trail_spec)

definition sample_trail :: "AuditedEvent list" where
  "sample_trail =
     [\<lparr>ev_name = ''VaultFrozen'', ev_data = [], ev_fields = Some [(''owner'', JsStr ''O''), (''timestamp'', JsBig 40)], ev_txSignature = None\<rparr>,
      \<lparr>ev_name = ''VaultFrozen'', ev_data = [], ev_fields = Some [(''owner'', JsStr ''O''), (''timestamp'', JsBig 60)], ev_txSignature = None\<rparr>,
      \<lparr>ev_name = ''VaultReactivated'', ev_data = [], ev_fields = Some [(''vault'', JsStr ''V''), (''timestamp'', JsBig 70)], ev_txSignature = None\<rparr>,
      \<lparr>ev_name = ''AgentRevoked'', ev_data = [], ev_fields = Some [(''owner'', JsStr ''O''), (''timestamp'', JsBig 80)], ev_txSignature = None\<rparr>]"

theorem audit_trail_exact_witness:
  "\<exists>x. getAuditTrail \<lparr>ft_usd = \<lambda>_ _. [], ft_grouped = \<lambda>_. []\<rparr> \<lparr>ao_categories = Some [emergency], ao_since = 50, ao_actor = ''O''\<rparr>
      sample_trail = Some [x] \<and> au_category x = emergency \<and> au_timestamp x = 60 \<and> au_actor x = JsStr ''O''"
proof -
  let ?ft = "\<lparr>ft_usd = \<lambda>_ _. [], ft_grouped = \<lambda>_. []\<rparr>"
  let ?o = "\<lparr>ao_categories = Some [emergency], ao_since = 50, ao_actor = ''O''\<rparr>"
  let ?e = "sample_trail ! 1"
  have table: "map_of AUDIT_EVENTS ''VaultFrozen'' = Some emergency" "map_of AUDIT_EVENTS ''VaultReactivated'' = Some emergency"
    "map_of AUDIT_EVENTS ''AgentRevoked'' = Some agent_change" by code_simp+
  have cat: "audit_category ''VaultFrozen'' = Some emergency" "audit_category ''VaultReactivated'' = Some emergency"
    "audit_category ''AgentRevoked'' = Some agent_change" by code_simp+
  have names: "''VaultFrozen'' \<in> set getEventNames" "''VaultReactivated'' \<in> set getEventNames" "''AgentRevoked'' \<in> set getEventNames"
    by code_simp+
  have "describe_fields ?ft ''mainnet-beta'' ''VaultFrozen'' [(''owner'', JsStr ''O''), (''timestamp'', JsBig 60)] \<noteq> None" by code_simp
  then have "\<exists>x. getAuditTrail ?ft ?o sample_trail = Some [x]"
    by (auto simp add: getAuditTrail_def sample_trail_def audit_entry_def describeEvent_def Let_def table audit_timestamp_def audit_actor_def
        field_def is_nullish_def)
  then obtain x where x: "getAuditTrail ?ft ?o sample_trail = Some [x]" by blast
  have "list_all audited_event sample_trail"
    by (simp add: sample_trail_def audited_event_def names dated_def supplies_def given_fields_def)
  from audit_trail_exact [OF x this] have "list_all2 (entry_of ?ft) (filter (asked_for ?o) sample_trail) [x]" .
  moreover have "filter (asked_for ?o) sample_trail = [?e]"
    by (simp add: sample_trail_def asked_for_def cat dated_def acted_by_def supplies_def given_fields_def)
  ultimately have "entry_of ?ft ?e x" by simp
  then have "au_category x = emergency \<and> au_timestamp x = 60 \<and> au_actor x = JsStr ''O''"
    by (simp add: sample_trail_def entry_of_def cat dated_def acted_by_def supplies_def given_fields_def)
  with x show ?thesis by (intro exI [of _ x] conjI) auto
qed

text \<open>
  An activity item counts as spending exactly when the event declares it or its amount is positive: an explicit
  \<open>isSpending: false\<close> does not hold against a positive amount, and neither does the direction of the transfer.
\<close>

lemma activity_spending:
  assumes "buildActivityItem ft decoded sig blockTime network = Some item"
  shows "va_isSpending item \<longleftrightarrow> fst (declared_spending (ev_fields decoded)) \<or> (\<exists>n > 0. va_amount item = Some n)"
  using assms by (auto simp: buildActivityItem_def Let_def split: prod.splits option.splits if_splits)

text \<open>Every finalized session of the agent is counted once.\<close>

lemma sessions_counted:
  "eb_failedSessions (getAgentErrorBreakdown events a) + eb_expiredSessions (getAgentErrorBreakdown events a)
     + eb_successfulSessions (getAgentErrorBreakdown events a) = eb_totalSessions (getAgentErrorBreakdown events a)"
  by (simp add: getAgentErrorBreakdown_def Let_def session_partition)

end
