(* ===== verification/AdvancedAnalytics.thy ===== *)
theory AdvancedAnalytics
  imports EventAnalytics
begin

text \<open>
  \<open>sdk/kit/src/advanced-analytics.ts\<close>: the compliance metrics over decoded events, and the risk class of the
  rate at which the cap is approached. Events carry their declared fields: an \<open>ActionAuthorized\<close> has an
  agent and a bigint \<open>usdAmount\<close>. Counts, basis points and timestamps are whole Numbers.
\<close>

section \<open>Pairing authorizations with finalizations\<close>

definition fields_of :: "string \<Rightarrow> DecodedSigilEvent \<Rightarrow> event_fields option" where
  "fields_of name e = (if ev_name e = name then ev_fields e else None)"

definition big_or_zero :: "jsv \<Rightarrow> int" where
  "big_or_zero v = (case v of JsBig n \<Rightarrow> n | _ \<Rightarrow> 0)"

definition agent_key :: "event_fields \<Rightarrow> string" where
  "agent_key f = (case field f ''agent'' of JsStr s \<Rightarrow> s | _ \<Rightarrow> ''undefined'')"

record trade_pair =
  tp_agent :: string
  tp_authorized :: int
  tp_actual :: int

text \<open>
  Both loops look at most four events ahead of an authorization for the first finalization of the same agent;
  \<open>accept\<close> is the extra condition on it. A finalization is not used up by a pair.
\<close>

fun find_final :: "(event_fields \<Rightarrow> bool) \<Rightarrow> event_fields \<Rightarrow> DecodedSigilEvent list \<Rightarrow> event_fields option" where
  "find_final accept auth [] = None"
| "find_final accept auth (e # es) =
     (case fields_of ''SessionFinalized'' e of
        None \<Rightarrow> find_final accept auth es
      | Some fin \<Rightarrow> if field auth ''agent'' = field fin ''agent'' \<and> accept fin then Some fin else find_final accept auth es)"

fun trade_pairs :: "(event_fields \<Rightarrow> bool) \<Rightarrow> DecodedSigilEvent list \<Rightarrow> trade_pair list" where
  "trade_pairs accept [] = []"
| "trade_pairs accept (e # es) =
     (case fields_of ''ActionAuthorized'' e of
        None \<Rightarrow> trade_pairs accept es
      | Some auth \<Rightarrow>
          (case find_final accept auth (take 4 es) of
             None \<Rightarrow> trade_pairs accept es
           | Some fin \<Rightarrow>
               \<lparr>tp_agent = agent_key auth, tp_authorized = big_or_zero (field auth ''usdAmount''),
                tp_actual = big_or_zero (field fin ''actualSpendUsd'')\<rparr> # trade_pairs accept es))"

section \<open>getSlippageEfficiency\<close>

record AgentSlippage =
  sl_agent :: string
  sl_avgSlippageBps :: rat
  sl_worstSlippageBps :: rat
  sl_tradeCount :: nat
  sl_estimatedWasteUsd :: int

record SlippageReport =
  sr_byAgent :: "AgentSlippage list"
  sr_vaultAvgSlippageBps :: rat

definition group_add :: "(string \<times> trade_pair list) list \<Rightarrow> trade_pair \<Rightarrow> (string \<times> trade_pair list) list" where
  "group_add m p =
     AList.update (tp_agent p) ((case map_of m (tp_agent p) of Some ps \<Rightarrow> ps | None \<Rightarrow> []) @ [p]) m"

text \<open>One pass over an agent's trades: worst, total and waste.\<close>

fun slippage_loop :: "trade_pair list \<Rightarrow> rat \<times> rat \<times> int \<Rightarrow> rat \<times> rat \<times> int" where
  "slippage_loop [] acc = acc"
| "slippage_loop (p # ps) (worstBps, totalBps, totalWaste) =
     (if tp_authorized p = 0 then slippage_loop ps (worstBps, totalBps, totalWaste)
      else
        let diff = monus (tp_actual p) (tp_authorized p);
            bps = Number (bdiv (diff * 10000) (tp_authorized p))
        in slippage_loop ps (if bps > worstBps then bps else worstBps, dbl (totalBps + bps), totalWaste + diff))"

definition agent_slippage :: "string \<times> trade_pair list \<Rightarrow> AgentSlippage \<times> rat" where
  "agent_slippage row =
     (let (a, trades) = row; (worstBps, totalBps, totalWaste) = slippage_loop trades (0, 0, 0)
      in (\<lparr>sl_agent = a, sl_avgSlippageBps = (if trades \<noteq> [] then dbl (totalBps / of_nat (length trades)) else 0),
           sl_worstSlippageBps = worstBps, sl_tradeCount = length trades, sl_estimatedWasteUsd = totalWaste\<rparr>, totalBps))"

definition getSlippageEfficiency :: "DecodedSigilEvent list \<Rightarrow> SlippageReport" where
  "getSlippageEfficiency events =
     (let agentTrades = foldl group_add [] (trade_pairs (\<lambda>_. True) events);
          rows = map agent_slippage agentTrades;
          totalSlippageBps = foldl (\<lambda>acc r. dbl (acc + snd r)) 0 rows;
          totalTrades = sum_list (map (length \<circ> snd) agentTrades)
      in \<lparr>sr_byAgent = map fst rows,
          sr_vaultAvgSlippageBps = (if totalTrades > 0 then dbl (totalSlippageBps / of_nat totalTrades) else 0)\<rparr>)"

section \<open>getCapVelocity\<close>

datatype riskLevel = risk_low | risk_moderate | risk_high | risk_critical

record CapVelocityReport =
  cv_currentRate :: int
  cv_avgRate :: int
  cv_acceleration :: rat
  cv_projectedCapHitTime :: "rat option"
  cv_riskLevel :: riskLevel

definition getCapVelocity :: "SpendTracker option \<Rightarrow> int \<Rightarrow> EffectiveBudget \<Rightarrow> CapVelocityReport" where
  "getCapVelocity tracker nowUnix b =
     (let currentEpoch = bdiv nowUnix EPOCH_DURATION;
          recent = (case tracker of None \<Rightarrow> []
            | Some t \<Rightarrow> filter (\<lambda>k. eb_epochId k \<ge> currentEpoch - 3 \<and> eb_epochId k \<le> currentEpoch \<and> eb_usdAmount k > 0) (st_buckets t));
          currentRate = hourly_rate recent;
          avgRate = bdiv (bu_spent24h b) 24;
          acceleration = (if avgRate > 0 then dbl (Number currentRate / Number avgRate) else 0);
          projectedCapHitTime = (if currentRate > 0 \<and> bu_remaining b > 0
            then Some (dbl (Number nowUnix + dbl (dbl (Number (bu_remaining b) / Number currentRate) * 3600))) else None);
          util = (if bu_cap b > 0 then bdiv (bu_spent24h b * 100) (bu_cap b) else 0);
          soon = (case projectedCapHitTime of None \<Rightarrow> False | Some t \<Rightarrow> dbl (t - Number nowUnix) < 3600)
      in \<lparr>cv_currentRate = currentRate, cv_avgRate = avgRate, cv_acceleration = acceleration,
          cv_projectedCapHitTime = projectedCapHitTime,
          cv_riskLevel = (if util \<ge> 95 \<or> soon then risk_critical
            else if util \<ge> 80 \<and> acceleration > 3 / 2 then risk_high
            else if util \<ge> 50 \<or> acceleration > 3 / 2 then risk_moderate
            else risk_low)\<rparr>)"

section \<open>getSessionDeviationRate\<close>

record Deviation =
  dv_agent :: string
  dv_authorizedAmount :: int
  dv_actualSpend :: int
  dv_deviationBps :: rat

record DeviationReport =
  dr_totalSessions :: nat
  dr_deviatedSessions :: nat
  dr_deviationRate :: rat
  dr_maxDeviationBps :: rat
  dr_deviations :: "Deviation list"

definition deviation_of :: "trade_pair \<Rightarrow> Deviation option" where
  "deviation_of p =
     (if tp_authorized p = 0 then None
      else if tp_actual p > tp_authorized p
      then
        let bps = Number (bdiv ((tp_actual p - tp_authorized p) * 10000) (tp_authorized p))
        in if bps > 200
           then Some \<lparr>dv_agent = tp_agent p, dv_authorizedAmount = tp_authorized p, dv_actualSpend = tp_actual p, dv_deviationBps = bps\<rparr>
           else None
      else None)"

definition getSessionDeviationRate :: "DecodedSigilEvent list \<Rightarrow> DeviationReport" where
  "getSessionDeviationRate events =
     (let pairs = trade_pairs (\<lambda>fin. big_or_zero (field fin ''actualSpendUsd'') > 0) events;
          deviations = List.map_filter deviation_of pairs
      in \<lparr>dr_totalSessions = length pairs, dr_deviatedSessions = length deviations,
          dr_deviationRate = (if pairs \<noteq> [] then dbl (dbl (of_nat (length deviations) / of_nat (length pairs)) * 100) else 0),
          dr_maxDeviationBps = foldl (\<lambda>m d. if dv_deviationBps d > m then dv_deviationBps d else m) 0 deviations,
          dr_deviations = deviations\<rparr>)"

section \<open>getIdleCapitalDuration\<close>

record IdleCapitalReport =
  ic_avgIdleHours :: rat
  ic_maxIdleHours :: rat
  ic_lastActivityTimestamp :: int
  ic_idleSinceHours :: rat

definition trade_timestamp :: "DecodedSigilEvent \<Rightarrow> int option" where
  "trade_timestamp e =
     (if ev_name e = ''SessionFinalized'' \<or> ev_name e = ''ActionAuthorized''
      then (case ev_fields e of None \<Rightarrow> None
            | Some f \<Rightarrow> if is_nullish (field f ''timestamp'') then None else Some (big_or_zero (field f ''timestamp'')))
      else None)"

fun gaps :: "int list \<Rightarrow> int list" where
  "gaps (a # b # ts) = (b - a) # gaps (b # ts)"
| "gaps ts = []"

text \<open>\<open>Math.round((s / 3600) * 10) / 10\<close>.\<close>

definition tenth_hours :: "rat \<Rightarrow> rat" where
  "tenth_hours s = dbl (of_int (math_round (dbl (dbl (s / 3600) * 10))) / 10)"

definition getIdleCapitalDuration :: "DecodedSigilEvent list \<Rightarrow> int \<Rightarrow> IdleCapitalReport" where
  "getIdleCapitalDuration events nowUnix =
     (let tradeTimestamps = sort (List.map_filter trade_timestamp events)
      in if tradeTimestamps = []
         then \<lparr>ic_avgIdleHours = 0, ic_maxIdleHours = 0, ic_lastActivityTimestamp = 0, ic_idleSinceHours = 0\<rparr>
         else
           let gs = gaps tradeTimestamps;
               avgGapSeconds = (if gs \<noteq> [] then dbl (of_int (sum_list gs) / of_nat (length gs)) else 0);
               maxGapSeconds = (if gs \<noteq> [] then Max (set gs) else 0);
               lastTimestamp = last tradeTimestamps
           in \<lparr>ic_avgIdleHours = tenth_hours avgGapSeconds, ic_maxIdleHours = tenth_hours (of_int maxGapSeconds),
               ic_lastActivityTimestamp = lastTimestamp, ic_idleSinceHours = tenth_hours (of_int (nowUnix - lastTimestamp))\<rparr>)"

section \<open>getPermissionEscalationLatency\<close>

record Escalation_entry =
  ee_agent :: jsv
  ee_grantTimestamp :: int
  ee_firstUseTimestamp :: "int option"
  ee_latencySeconds :: "int option"
  ee_suspicious :: bool

definition first_use :: "jsv \<Rightarrow> DecodedSigilEvent list \<Rightarrow> int option" where
  "first_use agent es =
     (case find (\<lambda>e. ev_name e = ''ActionAuthorized''
            \<and> (case ev_fields e of None \<Rightarrow> agent = JsUndefined | Some f \<Rightarrow> field f ''agent'' = agent)) es of
        None \<Rightarrow> None
      | Some e \<Rightarrow> map_option (\<lambda>f. big_or_zero (field f ''timestamp'')) (ev_fields e))"

fun getPermissionEscalationLatency :: "DecodedSigilEvent list \<Rightarrow> Escalation_entry list" where
  "getPermissionEscalationLatency [] = []"
| "getPermissionEscalationLatency (e # es) =
     (case fields_of ''AgentPermissionsUpdated'' e of
        None \<Rightarrow> getPermissionEscalationLatency es
      | Some permEvent \<Rightarrow>
          let grantTimestamp = big_or_zero (field permEvent ''timestamp'');
              firstUse = first_use (field permEvent ''agent'') es;
              latency = map_option (\<lambda>t. t - grantTimestamp) firstUse
          in \<lparr>ee_agent = field permEvent ''agent'', ee_grantTimestamp = grantTimestamp, ee_firstUseTimestamp = firstUse,
              ee_latencySeconds = latency, ee_suspicious = (case latency of None \<Rightarrow> False | Some l \<Rightarrow> l < 60)\<rparr>
             # getPermissionEscalationLatency es)"

section \<open>getInstructionCoverageRatio\<close>

record CoverageReport =
  cr_totalComposed :: nat
  cr_orphanedValidates :: nat
  cr_coverageRate :: rat

definition named_agent :: "string \<Rightarrow> DecodedSigilEvent \<Rightarrow> string option" where
  "named_agent name e =
     (case fields_of name e of None \<Rightarrow> None
      | Some f \<Rightarrow> if js_truthy (field f ''agent'') then Some (agent_key f) else None)"

definition count_add :: "(string \<times> nat) list \<Rightarrow> string \<Rightarrow> (string \<times> nat) list" where
  "count_add m a = AList.update a ((case map_of m a of Some n \<Rightarrow> n | None \<Rightarrow> 0) + 1) m"

definition counts :: "string \<Rightarrow> DecodedSigilEvent list \<Rightarrow> (string \<times> nat) list" where
  "counts name events = foldl count_add [] (List.map_filter (named_agent name) events)"

definition getInstructionCoverageRatio :: "DecodedSigilEvent list \<Rightarrow> CoverageReport" where
  "getInstructionCoverageRatio events =
     (let authorized = counts ''ActionAuthorized'' events; finalized = counts ''SessionFinalized'' events;
          finCount = (\<lambda>a. case map_of finalized a of Some n \<Rightarrow> n | None \<Rightarrow> 0);
          totalComposed = sum_list (map (\<lambda>(a, authCount). min authCount (finCount a)) authorized);
          orphanedValidates = sum_list (map (\<lambda>(a, authCount). authCount - min authCount (finCount a)) authorized);
          tot = totalComposed + orphanedValidates
      in \<lparr>cr_totalComposed = totalComposed, cr_orphanedValidates = orphanedValidates,
          cr_coverageRate = (if tot > 0 then dbl (dbl (of_nat totalComposed / of_nat tot) * 100) else 100)\<rparr>)"

section \<open>getPermissionUtilizationRate\<close>

record AgentUtilization =
  pu_agent :: address
  pu_grantedPermissions :: "string list"
  pu_exercisedPermissions :: "string list"
  pu_utilizationRate :: rat
  pu_unusedPermissions :: "string list"

record PermissionUtilization =
  pu_byAgent :: "AgentUtilization list"
  pu_mostUsedActionType :: "string option"
  pu_leastUsedActionType :: "string option"

definition ACTION_NAMES :: "string list" where
  "ACTION_NAMES =
    [''Swap'', ''OpenPosition'', ''ClosePosition'', ''IncreasePosition'', ''DecreasePosition'', ''Deposit'', ''Withdraw'',
     ''Transfer'', ''AddCollateral'', ''RemoveCollateral'', ''PlaceTriggerOrder'', ''EditTriggerOrder'', ''CancelTriggerOrder'',
     ''PlaceLimitOrder'', ''EditLimitOrder'', ''CancelLimitOrder'', ''SwapAndOpenPosition'', ''CloseAndSwapPosition'',
     ''CreateEscrow'', ''SettleEscrow'', ''RefundEscrow'']"

definition action_label :: "jsv \<Rightarrow> string" where
  "action_label act =
     (case act of
        JsObj c ps \<Rightarrow> (case map_of ps ''__kind'' of Some (JsStr s) \<Rightarrow> s | _ \<Rightarrow> ''Unknown'')
      | JsNum (Some n) \<Rightarrow> (if 0 \<le> n \<and> nat n < length ACTION_NAMES then ACTION_NAMES ! nat n else ''Unknown'')
      | JsBig n \<Rightarrow> (if 0 \<le> n \<and> nat n < length ACTION_NAMES then ACTION_NAMES ! nat n else ''Unknown'')
      | _ \<Rightarrow> ''Unknown'')"

text \<open>The labels an agent used, in order of first use.\<close>

definition used_label :: "string \<Rightarrow> DecodedSigilEvent \<Rightarrow> string option" where
  "used_label a e =
     (if named_agent ''ActionAuthorized'' e = Some a
      then (case ev_fields e of None \<Rightarrow> None
            | Some f \<Rightarrow>
                if \<not> is_nullish (field f ''isSpending'')
                then Some (if js_truthy (field f ''isSpending'') then ''Spending'' else ''NonSpending'')
                else if js_truthy (field f ''actionType'') then Some (action_label (field f ''actionType''))
                else None)
      else None)"

definition CAPABILITY_GRANTS :: "nat \<Rightarrow> string list" where
  "CAPABILITY_GRANTS capability =
     (if capability = 1 then [''NonSpending''] else if capability = 2 then [''Spending'', ''NonSpending''] else [])"

definition agent_utilization :: "DecodedSigilEvent list \<Rightarrow> AgentEntry \<Rightarrow> AgentUtilization" where
  "agent_utilization events entry =
     (let granted = CAPABILITY_GRANTS (ae_capability entry);
          exercised = foldl set_add [] (List.map_filter (used_label (ae_pubkey entry)) events);
          exercisedArr = filter (\<lambda>a. a \<in> set granted) exercised
      in \<lparr>pu_agent = ae_pubkey entry, pu_grantedPermissions = granted, pu_exercisedPermissions = exercisedArr,
          pu_utilizationRate = (if granted \<noteq> [] then dbl (dbl (of_nat (length exercisedArr) / of_nat (length granted)) * 100) else 0),
          pu_unusedPermissions = filter (\<lambda>a. a \<notin> set exercised) granted\<rparr>)"

fun extremes_loop :: "(string \<times> nat) list \<Rightarrow> (string \<times> nat) option \<times> (string \<times> nat) option \<Rightarrow> (string \<times> nat) option \<times> (string \<times> nat) option" where
  "extremes_loop [] acc = acc"
| "extremes_loop ((a, n) # rest) (most, least) =
     extremes_loop rest
       (if n > (case most of None \<Rightarrow> 0 | Some (_, m) \<Rightarrow> m) then Some (a, n) else most,
        if (case least of None \<Rightarrow> True | Some (_, m) \<Rightarrow> n < m) then Some (a, n) else least)"

definition getPermissionUtilizationRate :: "AgentEntry list \<Rightarrow> DecodedSigilEvent list \<Rightarrow> PermissionUtilization" where
  "getPermissionUtilizationRate agents events =
     (let byAgent = map (agent_utilization events) agents;
          globalActionCounts = foldl count_add [] (concat (map pu_exercisedPermissions byAgent));
          (most, least) = extremes_loop globalActionCounts (None, None)
      in \<lparr>pu_byAgent = byAgent, pu_mostUsedActionType = map_option fst most, pu_leastUsedActionType = map_option fst least\<rparr>)"

section \<open>Facts\<close>

lemma count_add_sum:
  assumes "distinct (map fst m)"
  shows "sum_list (map snd (count_add m a)) = Suc (sum_list (map snd m)) \<and> distinct (map fst (count_add m a))"
  using assms
proof (induction m)
  case (Cons x m)
  obtain k n where x: "x = (k, n)" by (cases x)
  show ?case
  proof (cases "k = a")
    case True
    then show ?thesis using Cons.prems x by (simp add: count_add_def)
  next
    case False
    then have "count_add (x # m) a = x # count_add m a" using x by (simp add: count_add_def)
    moreover have "set (map fst (count_add m a)) = insert a (set (map fst m))"
      by (simp add: count_add_def dom_update)
    ultimately show ?thesis using Cons False x by auto
  qed
qed (simp add: count_add_def)

lemma counts_sum: "sum_list (map snd (counts name events)) = length (List.map_filter (named_agent name) events)"
proof -
  have "sum_list (map snd (foldl count_add m as)) = sum_list (map snd m) + length as" if "distinct (map fst m)" for m as
    using that by (induction as arbitrary: m) (simp_all add: count_add_sum)
  then show ?thesis by (simp add: counts_def)
qed

lemma parsed_name: "e \<in> set (parse_log l) \<Longrightarrow> ev_name e \<in> set getEventNames"
proof -
  assume e: "e \<in> set (parse_log l)"
  obtain bs where "Some (ev_name e) = map_of EVENT_DISCRIMINATOR_MAP bs"
    using e unfolding parse_log_def
    by (cases "after_first PROGRAM_DATA_PREFIX l"; cases "atob (the (after_first PROGRAM_DATA_PREFIX l))")
      (auto split: if_splits option.splits)
  then have "(bs, ev_name e) \<in> set EVENT_DISCRIMINATOR_MAP" by (metis map_of_SomeD)
  then show ?thesis by (force simp: getEventNames_def)
qed

lemma decoded_names: "e \<in> set (parseAndDecodeSigilEvents decode logs) \<Longrightarrow> ev_name e \<in> set getEventNames"
  by (auto simp: parseAndDecodeSigilEvents_def parseSigilEvents_def decodeSigilEvent_def parsed_name)

section \<open>Properties\<close>

text \<open>
  Coverage adds up, and escalation reports are empty: every authorization of a named agent is counted once, as composed
  or as orphaned; and as the program emits no \<open>AgentPermissionsUpdated\<close> event, the search for
  suspicious grants reports nothing on any transaction log.
\<close>

theorem compliance_reports_exact:
  "cr_totalComposed (getInstructionCoverageRatio events) + cr_orphanedValidates (getInstructionCoverageRatio events)
     = length (List.map_filter (named_agent ''ActionAuthorized'') events)
   \<and> getPermissionEscalationLatency (parseAndDecodeSigilEvents decode logs) = []"
proof
  let ?fin = "\<lambda>a. case map_of (counts ''SessionFinalized'' events) a of Some n \<Rightarrow> n | None \<Rightarrow> 0"
  have "sum_list (map (\<lambda>(a, n). min n (?fin a)) as) + sum_list (map (\<lambda>(a, n). n - min n (?fin a)) as) = sum_list (map snd as)" for as
    by (induction as) auto
  then show "cr_totalComposed (getInstructionCoverageRatio events) + cr_orphanedValidates (getInstructionCoverageRatio events)
      = length (List.map_filter (named_agent ''ActionAuthorized'') events)"
    by (simp add: getInstructionCoverageRatio_def Let_def counts_sum)
  have "''AgentPermissionsUpdated'' \<notin> set getEventNames" by code_simp
  then have "ev_name e \<noteq> ''AgentPermissionsUpdated''" if "e \<in> set (parseAndDecodeSigilEvents decode logs)" for e
    using decoded_names [OF that] by metis
  moreover have "getPermissionEscalationLatency es = []" if "\<And>e. e \<in> set es \<Longrightarrow> ev_name e \<noteq> ''AgentPermissionsUpdated''" for es
    using that by (induction es) (simp_all add: fields_of_def)
  ultimately show "getPermissionEscalationLatency (parseAndDecodeSigilEvents decode logs) = []" by blast
qed

end
