(* ===== verification/Portfolio.thy ===== *)
theory Portfolio
  imports AdvancedAnalytics
begin

text \<open>
  \<open>sdk/kit/src/portfolio-analytics.ts\<close>: totals, alerts, rankings and the spending series over all vaults of an
  owner. The vaults arrive as settled requests; one that failed is left out and does not fail the portfolio.
\<close>

section \<open>Totals\<close>

record PortfolioTotals =
  pt_vaultCount :: nat
  pt_activeVaultCount :: nat
  pt_totalValueUsd :: int
  pt_totalAgents :: nat
  pt_totalSpend24h :: int
  pt_totalVolume :: int
  pt_totalFeesCollected :: int
  pt_totalPnl :: int
  pt_totalDeposited :: int
  pt_totalWithdrawn :: int
  pt_overallPnlPercent :: rat

record 'c PortfolioOverview =
  po_vaults :: "'c VaultSummary list"
  po_totals :: PortfolioTotals
  po_topVaultByValue :: "address option"
  po_topVaultBySpending :: "address option"
  po_alerts :: "Alert list"

definition zero_totals :: PortfolioTotals where
  "zero_totals = \<lparr>pt_vaultCount = 0, pt_activeVaultCount = 0, pt_totalValueUsd = 0, pt_totalAgents = 0, pt_totalSpend24h = 0,
     pt_totalVolume = 0, pt_totalFeesCollected = 0, pt_totalPnl = 0, pt_totalDeposited = 0, pt_totalWithdrawn = 0,
     pt_overallPnlPercent = 0\<rparr>"

text \<open>One round of the loop over the vaults.\<close>

definition vault_spent :: "'c VaultSummary \<Rightarrow> int" where
  "vault_spent v = bu_spent24h (rv_globalBudget (vy_state v))"

definition add_vault :: "PortfolioTotals \<Rightarrow> 'c VaultSummary \<Rightarrow> PortfolioTotals" where
  "add_vault t v = t\<lparr>
     pt_totalValueUsd := pt_totalValueUsd t + vy_totalValueUsd v,
     pt_totalAgents := pt_totalAgents t + vh_agentCount (vy_health v),
     pt_totalSpend24h := pt_totalSpend24h t + vault_spent v,
     pt_totalVolume := pt_totalVolume t + vs_totalVolume (vy_stats v),
     pt_totalFeesCollected := pt_totalFeesCollected t + vs_totalFeesCollected (vy_stats v),
     pt_totalPnl := pt_totalPnl t + vp_pnl (vy_pnl v),
     pt_totalDeposited := pt_totalDeposited t + vp_totalDeposited (vy_pnl v),
     pt_totalWithdrawn := pt_totalWithdrawn t + vp_totalWithdrawn (vy_pnl v),
     pt_activeVaultCount := (if vh_status (vy_health v) = Active then pt_activeVaultCount t + 1 else pt_activeVaultCount t)\<rparr>"

definition aggregatePortfolio :: "'c VaultSummary list \<Rightarrow> 'c PortfolioOverview" where
  "aggregatePortfolio vaults =
     (if vaults = []
      then \<lparr>po_vaults = [], po_totals = zero_totals, po_topVaultByValue = None, po_topVaultBySpending = None, po_alerts = []\<rparr>
      else
        let t = foldl add_vault zero_totals vaults;
            netInvestment = pt_totalDeposited t - pt_totalWithdrawn t
        in \<lparr>po_vaults = vaults,
            po_totals = t\<lparr>pt_vaultCount := length vaults,
              pt_overallPnlPercent := computeUtilizationPercent (pt_totalPnl t) netInvestment\<rparr>,
            po_topVaultByValue = fst (top_loop (map (\<lambda>v. (vy_address v, vy_totalValueUsd v)) vaults) (None, 0)),
            po_topVaultBySpending = fst (top_loop (map (\<lambda>v. (vy_address v, vault_spent v)) vaults) (None, 0)),
            po_alerts = []\<rparr>)"

text \<open>\<open>getPortfolioOverview\<close> once the summaries have settled.\<close>

definition fulfilled :: "('e, 'a) result list \<Rightarrow> 'a list" where
  "fulfilled results = List.map_filter (\<lambda>r. case r of Inl e \<Rightarrow> None | Inr v \<Rightarrow> Some v) results"

definition getPortfolioOverview :: "(nat \<Rightarrow> rat \<Rightarrow> string) \<Rightarrow> ('e, 'c VaultSummary) result list \<Rightarrow> 'c PortfolioOverview" where
  "getPortfolioOverview usd results =
     (let vaults = fulfilled results
      in (aggregatePortfolio vaults)\<lparr>po_alerts :=
           concat (map (\<lambda>v. evaluateAlertConditions usd (vy_state v) (vy_address v)) vaults)\<rparr>)"

section \<open>Rankings\<close>

record CrossVaultAgentRanking =
  xr_agent :: address
  xr_vaultAddress :: address
  xr_vaultId :: int
  xr_spend24h :: int
  xr_lifetimeSpend :: int
  xr_capUtilization :: rat
  xr_paused :: bool
  xr_rank :: nat

definition vault_rows ::
  "(bytes \<Rightarrow> address option) \<Rightarrow> address \<times> ('c, 'm) ResolvedVaultState_scheme \<Rightarrow> CrossVaultAgentRanking list" where
  "vault_rows dec av =
     (let (vaultAddress, state) = av
      in concat (map (\<lambda>(agentAddr, budget).
           case find (\<lambda>a. ae_pubkey a = agentAddr) (av_agents (rv_vault state)) of
             None \<Rightarrow> []
           | Some agentEntry \<Rightarrow>
               [\<lparr>xr_agent = agentAddr, xr_vaultAddress = vaultAddress, xr_vaultId = av_vaultId (rv_vault state),
                 xr_spend24h = bu_spent24h budget, xr_lifetimeSpend = lifetime_spend dec (rv_overlay state) agentAddr,
                 xr_capUtilization = computeUtilizationPercent (bu_spent24h budget) (bu_cap budget),
                 xr_paused = ae_paused agentEntry, xr_rank = 0\<rparr>]) (rv_allAgentBudgets state)))"

definition getAgentLeaderboardAcrossVaults ::
  "(bytes \<Rightarrow> address option) \<Rightarrow> (address \<times> ('c, 'm) ResolvedVaultState_scheme) list \<Rightarrow> CrossVaultAgentRanking list" where
  "getAgentLeaderboardAcrossVaults dec vaultStates =
     ranked xr_spend24h (\<lambda>i r. r\<lparr>xr_rank := i\<rparr>) (concat (map (vault_rows dec) vaultStates))"

definition getCrossVaultAgentRanking :: "(bytes \<Rightarrow> address option) \<Rightarrow> 'c PortfolioOverview \<Rightarrow> CrossVaultAgentRanking list" where
  "getCrossVaultAgentRanking dec overview =
     ranked xr_spend24h (\<lambda>i r. r\<lparr>xr_rank := i\<rparr>)
       (concat (map (\<lambda>v. vault_rows dec (vy_address v, vy_state v)) (po_vaults overview)))"

section \<open>Time series\<close>

record EpochTotal =
  et_timestamp :: int
  et_totalUsd :: int
  et_vaultBreakdown :: "(address \<times> int) list"

record PortfolioTimeSeries =
  ts_spendingByEpoch :: "EpochTotal list"
  ts_totalSpend24h :: int
  ts_totalCap24h :: int
  ts_utilization :: rat

type_synonym epoch_map = "(int \<times> int \<times> (address \<times> int) list) list"

definition add_epoch :: "address \<Rightarrow> epoch_map \<Rightarrow> SpendingEpoch \<Rightarrow> epoch_map" where
  "add_epoch a m epoch =
     (let (totalUsd, breakdown) = (case map_of m (se_timestamp epoch) of Some e \<Rightarrow> e | None \<Rightarrow> (0, []));
          own = (case map_of breakdown a of Some n \<Rightarrow> n | None \<Rightarrow> 0)
      in AList.update (se_timestamp epoch)
           (totalUsd + se_usdAmount epoch, AList.update a (own + se_usdAmount epoch) breakdown) m)"

definition vault_history :: "int \<Rightarrow> address \<times> ('c, 'm) ResolvedVaultState_scheme \<Rightarrow> (address \<times> SpendingEpoch) list" where
  "vault_history nowUnix av = map (Pair (fst av)) (getSpendingHistory (\<lambda>_. []) (rv_tracker (snd av)) nowUnix)"

definition getPortfolioTimeSeries :: "(address \<times> ('c, 'm) ResolvedVaultState_scheme) list \<Rightarrow> int \<Rightarrow> PortfolioTimeSeries" where
  "getPortfolioTimeSeries vaultStates nowUnix =
     (let epochMap = foldl (\<lambda>m (a, epoch). add_epoch a m epoch) [] (concat (map (vault_history nowUnix) vaultStates));
          totalSpend24h = sum_list (map (\<lambda>av. bu_spent24h (rv_globalBudget (snd av))) vaultStates);
          totalCap24h = sum_list (map (\<lambda>av. bu_cap (rv_globalBudget (snd av))) vaultStates)
      in \<lparr>ts_spendingByEpoch = sort_key et_timestamp
            (map (\<lambda>(t, tot, b). \<lparr>et_timestamp = t, et_totalUsd = tot, et_vaultBreakdown = b\<rparr>) epochMap),
          ts_totalSpend24h = totalSpend24h, ts_totalCap24h = totalCap24h,
          ts_utilization = computeUtilizationPercent totalSpend24h totalCap24h\<rparr>)"

section \<open>Facts\<close>

lemma add_vaults:
  "pt_totalValueUsd (foldl add_vault t vs) = pt_totalValueUsd t + sum_list (map vy_totalValueUsd vs)"
  "pt_totalSpend24h (foldl add_vault t vs) = pt_totalSpend24h t + sum_list (map vault_spent vs)"
  "pt_totalPnl (foldl add_vault t vs) = pt_totalPnl t + sum_list (map (\<lambda>v. vp_pnl (vy_pnl v)) vs)"
  "pt_activeVaultCount (foldl add_vault t vs)
     = pt_activeVaultCount t + length (filter (\<lambda>v. vh_status (vy_health v) = Active) vs)"
  by (induction vs arbitrary: t) (simp_all add: add_vault_def)

text \<open>Adding to an entry of a table with distinct keys adds to its total and keeps the keys distinct.\<close>

lemma update_add_sum:
  fixes g :: "'v \<Rightarrow> int"
  assumes "distinct (map fst m)" "g (f (case map_of m k of Some v \<Rightarrow> v | None \<Rightarrow> z)) = g (case map_of m k of Some v \<Rightarrow> v | None \<Rightarrow> z) + d" "g z = 0"
  shows "sum_list (map (\<lambda>kv. g (snd kv)) (AList.update k (f (case map_of m k of Some v \<Rightarrow> v | None \<Rightarrow> z)) m))
    = sum_list (map (\<lambda>kv. g (snd kv)) m) + d"
  using assms(1,2)
proof (induction m)
  case (Cons x m)
  then show ?case by (cases x) (auto simp: assms(3))
qed (simp add: assms(3))

lemma epoch_total:
  assumes "distinct (map fst m)"
  shows "distinct (map fst (add_epoch a m e))
    \<and> sum_list (map (\<lambda>x. fst (snd x)) (add_epoch a m e)) = sum_list (map (\<lambda>x. fst (snd x)) m) + se_usdAmount e"
proof -
  define f where "f = (\<lambda>(tot, b). (tot + se_usdAmount e, AList.update a ((case map_of b a of Some n \<Rightarrow> n | None \<Rightarrow> 0) + se_usdAmount e) b))"
  have eq: "add_epoch a m e = AList.update (se_timestamp e) (f (case map_of m (se_timestamp e) of Some v \<Rightarrow> v | None \<Rightarrow> (0, []))) m"
    by (simp add: add_epoch_def f_def Let_def case_prod_beta)
  have "fst (f p) = fst p + se_usdAmount e" for p by (simp add: f_def case_prod_beta)
  then show ?thesis
    unfolding eq using update_add_sum [OF assms, where g = fst and f = f and k = "se_timestamp e" and z = "(0, [])" and d = "se_usdAmount e"] assms
    by (simp add: distinct_update)
qed

lemma epoch_fold_total:
  assumes "distinct (map fst m)"
  shows "sum_list (map (\<lambda>x. fst (snd x)) (foldl (\<lambda>m (a, e). add_epoch a m e) m xs))
    = sum_list (map (\<lambda>x. fst (snd x)) m) + sum_list (map (\<lambda>x. se_usdAmount (snd x)) xs)"
  using assms by (induction xs arbitrary: m) (auto simp: epoch_total)

section \<open>Properties\<close>

text \<open>
  The portfolio adds up: value, spend, profit and active vaults are the sums over the vaults that resolved, the
  vault named as most valuable is one of them and none holds more, and every agent with a budget is ranked once, by spend.
\<close>

theorem portfolio_adds_up:
  "let vs = fulfilled results; p = getPortfolioOverview usd results; r = getCrossVaultAgentRanking dec p in
     pt_vaultCount (po_totals p) = length vs
     \<and> pt_totalValueUsd (po_totals p) = sum_list (map vy_totalValueUsd vs)
     \<and> pt_totalSpend24h (po_totals p) = sum_list (map vault_spent vs)
     \<and> pt_totalPnl (po_totals p) = sum_list (map (\<lambda>v. vp_pnl (vy_pnl v)) vs)
     \<and> pt_activeVaultCount (po_totals p) = length (filter (\<lambda>v. vh_status (vy_health v) = Active) vs)
     \<and> (case po_topVaultByValue p of
          None \<Rightarrow> list_all (\<lambda>v. vy_totalValueUsd v \<le> 0) vs
        | Some a \<Rightarrow> (\<exists>v \<in> set vs. vy_address v = a \<and> list_all (\<lambda>w. vy_totalValueUsd w \<le> vy_totalValueUsd v) vs))
     \<and> sorted_wrt (\<lambda>x y. xr_spend24h x \<ge> xr_spend24h y) r
     \<and> mset (map (\<lambda>x. x\<lparr>xr_rank := 0\<rparr>) r) = mset (map (\<lambda>x. x\<lparr>xr_rank := 0\<rparr>) (concat (map (\<lambda>v. vault_rows dec (vy_address v, vy_state v)) vs)))"
proof -
  define vs where "vs = fulfilled results"
  define p where "p = getPortfolioOverview usd results"
  have p: "p = (aggregatePortfolio vs)\<lparr>po_alerts := concat (map (\<lambda>v. evaluateAlertConditions usd (vy_state v) (vy_address v)) vs)\<rparr>"
    by (simp add: p_def vs_def getPortfolioOverview_def Let_def)
  have vaults: "po_vaults p = vs" by (simp add: p aggregatePortfolio_def Let_def)
  obtain a m where tl: "top_loop (map (\<lambda>v. (vy_address v, vy_totalValueUsd v)) vs) (None, 0) = (a, m)"
    by (cases "top_loop (map (\<lambda>v. (vy_address v, vy_totalValueUsd v)) vs) (None, 0)")
  note mx = top_loop_max [OF tl]
  have bound: "vy_totalValueUsd v \<le> m" if "v \<in> set vs" for v using mx that by auto
  have "po_topVaultByValue p = a" using tl by (cases "vs = []") (auto simp: p aggregatePortfolio_def Let_def)
  then have top: "case po_topVaultByValue p of None \<Rightarrow> list_all (\<lambda>v. vy_totalValueUsd v \<le> 0) vs
      | Some a \<Rightarrow> (\<exists>v \<in> set vs. vy_address v = a \<and> list_all (\<lambda>w. vy_totalValueUsd w \<le> vy_totalValueUsd v) vs)"
    using mx bound by (cases a) (force simp: list_all_iff)+
  have tot: "pt_vaultCount (po_totals p) = length vs" "pt_totalValueUsd (po_totals p) = sum_list (map vy_totalValueUsd vs)"
    "pt_totalSpend24h (po_totals p) = sum_list (map vault_spent vs)"
    "pt_totalPnl (po_totals p) = sum_list (map (\<lambda>v. vp_pnl (vy_pnl v)) vs)"
    "pt_activeVaultCount (po_totals p) = length (filter (\<lambda>v. vh_status (vy_health v) = Active) vs)"
    by (cases "vs = []"; simp add: p aggregatePortfolio_def Let_def add_vaults zero_totals_def)+
  have rank: "sorted_wrt (\<lambda>x y. xr_spend24h x \<ge> xr_spend24h y) (getCrossVaultAgentRanking dec p)
     \<and> mset (map (\<lambda>x. x\<lparr>xr_rank := 0\<rparr>) (getCrossVaultAgentRanking dec p))
       = mset (map (\<lambda>x. x\<lparr>xr_rank := 0\<rparr>) (concat (map (\<lambda>v. vault_rows dec (vy_address v, vy_state v)) vs)))"
    unfolding getCrossVaultAgentRanking_def vaults by (rule ranked_props) simp_all
  show ?thesis unfolding Let_def vs_def [symmetric] p_def [symmetric] using tot top rank by blast
qed

text \<open>
  The chart holds all spending: the epochs of the portfolio series sum to what the vaults' histories hold.
\<close>

theorem time_series_complete:
  "sum_list (map et_totalUsd (ts_spendingByEpoch (getPortfolioTimeSeries vaultStates now)))
    = sum_list (map (\<lambda>av. sum_list (map se_usdAmount (getSpendingHistory (\<lambda>_. []) (rv_tracker (snd av)) now))) vaultStates)"
proof -
  let ?xs = "concat (map (vault_history now) vaultStates)"
  let ?m = "foldl (\<lambda>m (a, e). add_epoch a m e) [] ?xs"
  let ?row = "\<lambda>(t, tot, b). \<lparr>et_timestamp = t, et_totalUsd = tot, et_vaultBreakdown = b\<rparr>"
  have "sum_list (map et_totalUsd (sort_key et_timestamp (map ?row ?m))) = sum_list (map et_totalUsd (map ?row ?m))"
    by (simp only: sum_mset_sum_list [symmetric] mset_map mset_sort)
  also have "map et_totalUsd (map ?row ?m) = map (\<lambda>x. fst (snd x)) ?m" by (simp add: case_prod_beta)
  also have "sum_list \<dots> = sum_list (map (\<lambda>x. se_usdAmount (snd x)) ?xs)"
    using epoch_fold_total [of "[]" ?xs] by simp
  also have "\<dots> = sum_list (map (\<lambda>av. sum_list (map se_usdAmount (getSpendingHistory (\<lambda>_. []) (rv_tracker (snd av)) now))) vaultStates)"
    by (induction vaultStates) (simp_all add: vault_history_def comp_def)
  finally show ?thesis by (simp add: getPortfolioTimeSeries_def Let_def)
qed

end
