(* ===== verification/DashboardReads.thy ===== *)
theory DashboardReads
  imports Portfolio AgentErrors
begin

text \<open>
  \<open>sdk/kit/src/dashboard/reads.ts\<close>, the views the owner's dashboard and the MCP tools read, and
  \<open>dashboard/from-json.ts\<close>, which rebuilds them from JSON; \<open>dashboard/discover.ts\<close> closes the file.

  A view is a record over the type of its amounts: bigints in the live view, strings in the serialized one. \<open>toJSON\<close> and
  \<open>fromJSON\<close> are the two maps between them. \<open>nowMs\<close> is \<open>Date.now()\<close>, \<open>isoTime\<close> renders a time in milliseconds, \<open>enc\<close>, \<open>dec\<close> and \<open>usd\<close>
  are as in the analytics. The requests of a read arrive as their outcomes.
\<close>

section \<open>Helpers\<close>

definition toNet :: "string \<Rightarrow> string" where
  "toNet network = (if network = ''mainnet'' then ''mainnet-beta'' else ''devnet'')"

definition DEFAULT_OVERVIEW_ACTIVITY_LIMIT :: nat where "DEFAULT_OVERVIEW_ACTIVITY_LIMIT = 100"

primrec serializeBigints :: "jsv \<Rightarrow> jsv" where
  "serializeBigints JsUndefined = JsUndefined"
| "serializeBigints JsNull = JsNull"
| "serializeBigints (JsBool b) = JsBool b"
| "serializeBigints (JsNum n) = JsNum n"
| "serializeBigints (JsBig n) = JsStr (show_int n)"
| "serializeBigints (JsStr s) = JsStr s"
| "serializeBigints (JsArr vs) = JsArr (map serializeBigints vs)"
| "serializeBigints (JsObj c ps) = JsObj PlainObject (map (map_prod id serializeBigints) ps)"

text \<open>\<open>bi\<close>: an empty or unreadable string is \<open>0n\<close>.\<close>

definition bi :: "string \<Rightarrow> int" where
  "bi s = (if s = [] then 0 else case bigint_of_string s of Some n \<Rightarrow> n | None \<Rightarrow> 0)"

definition mapCategory :: "EventCategory \<Rightarrow> string \<Rightarrow> string option \<Rightarrow> string" where
  "mapCategory cat evt actionType =
     (if cat = cat_trade
      then (case actionType of
              Some a \<Rightarrow>
                if a \<noteq> [] \<and> (let l = toLowerCase a in str_includes l ''lend'' \<or> str_includes l ''deposit'' \<or> str_includes l ''withdraw'')
                then ''lend'' else ''swap''
            | None \<Rightarrow> ''swap'')
      else if cat = cat_deposit then ''deposit''
      else if cat = cat_withdrawal then ''withdraw''
      else if evt = ''AgentTransferExecuted'' then ''transfer''
      else ''swap'')"

definition rangeToMs :: "string \<Rightarrow> int" where
  "rangeToMs r =
     (if r = ''1h'' then 3600000 else if r = ''6h'' then 21600000 else if r = ''24h'' then 86400000
      else if r = ''7d'' then 604800000 else if r = ''30d'' then 2592000000 else 86400000)"

section \<open>Context\<close>

record PendingPolicyUpdate =
  pp_executesAt :: int
  pp_dailySpendingCapUsd :: "int option"
  pp_maxTransactionAmountUsd :: "int option"
  pp_protocolMode :: "nat option"
  pp_protocols :: "address list option"
  pp_developerFeeRate :: "int option"
  pp_maxSlippageBps :: "int option"
  pp_timelockDuration :: "int option"
  pp_allowedDestinations :: "address list option"
  pp_sessionExpirySeconds :: "int option"
  pp_hasProtocolCaps :: "bool option"
  pp_protocolCaps :: "int list option"
  pp_destinationMode :: "nat option"

record OverviewContext =
  oc_vault :: address
  oc_state :: analytics_state
  oc_pnl :: "VaultPnL option"
  oc_activity :: "VaultActivityItem list option"
  oc_pendingPolicy :: "PendingPolicyUpdate option"
  oc_posture :: "SecurityPosture option"
  oc_breakdown :: "SpendingBreakdown option"
  oc_alerts :: "Alert list option"

definition minimal_ctx :: "address \<Rightarrow> analytics_state \<Rightarrow> OverviewContext" where
  "minimal_ctx vault state = \<lparr>oc_vault = vault, oc_state = state, oc_pnl = None, oc_activity = None, oc_pendingPolicy = None,
     oc_posture = None, oc_breakdown = None, oc_alerts = None\<rparr>"

definition ctx_posture :: "(address \<Rightarrow> bytes) \<Rightarrow> OverviewContext \<Rightarrow> SecurityPosture" where
  "ctx_posture enc ctx = (case oc_posture ctx of Some p \<Rightarrow> p | None \<Rightarrow> getSecurityPosture enc (oc_state ctx))"

definition ctx_alerts :: "(nat \<Rightarrow> rat \<Rightarrow> string) \<Rightarrow> OverviewContext \<Rightarrow> Alert list" where
  "ctx_alerts usd ctx = (case oc_alerts ctx of Some a \<Rightarrow> a | None \<Rightarrow> evaluateAlertConditions usd (oc_state ctx) (oc_vault ctx))"

datatype level = level_critical | level_elevated | level_healthy

definition posture_level :: "SecurityPosture \<Rightarrow> level" where
  "posture_level posture =
     (if sp_criticalFailures posture \<noteq> [] then level_critical
      else if sp_failCount posture > 0 then level_elevated else level_healthy)"

definition posture_checks :: "SecurityPosture \<Rightarrow> (string \<times> bool) list" where
  "posture_checks posture = map (\<lambda>c. (vc_id c, vc_passed c)) (sp_checks posture)"

section \<open>Views\<close>

record 'n VaultView =
  vv_address :: address
  vv_status :: VaultStatus
  vv_owner :: address
  vv_agentCount :: nat
  vv_totalVolume :: 'n
  vv_totalFees :: 'n
  vv_total :: 'n
  vv_tokens :: "(string \<times> 'n \<times> nat) list"
  vv_pnlPercent :: rat
  vv_pnlAbsolute :: 'n
  vv_level :: level
  vv_alertCount :: nat
  vv_checks :: "(string \<times> bool) list"

text \<open>A percentage is a rational here, hence finite, as \<open>Number.isFinite\<close> asks.\<close>

definition buildVaultState :: "(address \<Rightarrow> bytes) \<Rightarrow> OverviewContext \<Rightarrow> int VaultView" where
  "buildVaultState enc ctx =
     (let state = oc_state ctx; v = rv_vault state; posture = ctx_posture enc ctx;
          usdc = rv_usdcBalance state; usdt = rv_usdtBalance state
      in \<lparr>vv_address = oc_vault ctx, vv_status = av_status v, vv_owner = av_owner v, vv_agentCount = length (av_agents v),
          vv_totalVolume = as_totalVolume state, vv_totalFees = as_totalFeesCollected state,
          vv_total = usdc + usdt,
          vv_tokens = (if usdc > 0 then [(''USDC'', usdc, 6)] else []) @ (if usdt > 0 then [(''USDT'', usdt, 6)] else []),
          vv_pnlPercent = (case oc_pnl ctx of None \<Rightarrow> 0 | Some p \<Rightarrow> vp_pnlPercent p),
          vv_pnlAbsolute = (case oc_pnl ctx of None \<Rightarrow> 0 | Some p \<Rightarrow> vp_pnl p),
          vv_level = posture_level posture, vv_alertCount = sp_failCount posture, vv_checks = posture_checks posture\<rparr>)"

record 'n AgentView =
  gv_address :: address
  gv_paused :: bool
  gv_capabilityLabel :: string
  gv_capability :: nat
  gv_amount :: 'n
  gv_limit :: 'n
  gv_percent :: rat
  gv_lastActionType :: string
  gv_lastActionProtocol :: string
  gv_lastActionTimestamp :: int
  gv_blockedCount24h :: nat

definition build_agent ::
  "(bytes \<Rightarrow> address option) \<Rightarrow> msecs \<Rightarrow> OverviewContext \<Rightarrow> AgentEntry \<Rightarrow> int AgentView" where
  "build_agent dec nowMs ctx entry =
     (let state = oc_state ctx; addr = ae_pubkey entry;
          profile = getAgentProfile dec state addr;
          budget = map_of (rv_allAgentBudgets state) addr;
          spentAmt = (case budget of None \<Rightarrow> 0 | Some b \<Rightarrow> bu_spent24h b);
          capAmt = (case budget of None \<Rightarrow> 0 | Some b \<Rightarrow> bu_cap b);
          activity = (case oc_activity ctx of None \<Rightarrow> [] | Some a \<Rightarrow> a);
          agentActivity = filter (\<lambda>item. va_agent item = Some addr) activity;
          lastItem = (case agentActivity of [] \<Rightarrow> None | i # _ \<Rightarrow> Some i)
      in \<lparr>gv_address = addr, gv_paused = (case profile of None \<Rightarrow> False | Some p \<Rightarrow> ap_paused p),
          gv_capabilityLabel = (case profile of None \<Rightarrow> ''Disabled'' | Some p \<Rightarrow> ap_capabilityLabel p),
          gv_capability = (case profile of None \<Rightarrow> 0 | Some p \<Rightarrow> ap_capability p),
          gv_amount = spentAmt, gv_limit = capAmt, gv_percent = computeUtilizationPercent spentAmt capAmt,
          gv_lastActionType = (case lastItem of None \<Rightarrow> [] | Some i \<Rightarrow> mapCategory (va_category i) (va_eventType i) (va_actionType i)),
          gv_lastActionProtocol = (case lastItem of None \<Rightarrow> [] | Some i \<Rightarrow> (case va_protocolName i of None \<Rightarrow> [] | Some n \<Rightarrow> n)),
          gv_lastActionTimestamp = (case lastItem of None \<Rightarrow> 0 | Some i \<Rightarrow> va_timestamp i * 1000),
          gv_blockedCount24h = length (filter (\<lambda>item. \<not> va_success item \<and> va_timestamp item * 1000 \<ge> nowMs - 24 * 3600 * 1000) agentActivity)\<rparr>)"

definition buildAgents :: "(bytes \<Rightarrow> address option) \<Rightarrow> msecs \<Rightarrow> OverviewContext \<Rightarrow> int AgentView list" where
  "buildAgents dec nowMs ctx = map (build_agent dec nowMs ctx) (av_agents (rv_vault (oc_state ctx)))"

definition buildAgentDetail :: "(bytes \<Rightarrow> address option) \<Rightarrow> msecs \<Rightarrow> OverviewContext \<Rightarrow> address \<Rightarrow> int AgentView option" where
  "buildAgentDetail dec nowMs ctx a = find (\<lambda>v. gv_address v = a) (buildAgents dec nowMs ctx)"

record 'n SpendingView =
  dv_today :: 'n
  dv_cap :: 'n
  dv_remaining :: 'n
  dv_percent :: rat
  dv_rundownMs :: int
  dv_chart :: "(string \<times> rat) list"
  dv_protocolBreakdown :: "(string \<times> address \<times> 'n \<times> rat) list"

definition buildSpending ::
  "(bytes \<Rightarrow> address option) \<Rightarrow> (int \<Rightarrow> string) \<Rightarrow> msecs \<Rightarrow> OverviewContext \<Rightarrow> int SpendingView" where
  "buildSpending dec isoTime nowMs ctx =
     (let state = oc_state ctx;
          breakdown = (case oc_breakdown ctx of Some b \<Rightarrow> b | None \<Rightarrow> getSpendingBreakdown dec state);
          epochs = getSpendingHistory (\<lambda>_. []) (rv_tracker state) (nowMs div 1000);
          spent = bu_spent24h (rv_globalBudget state); cap = bu_cap (rv_globalBudget state); remaining = bu_remaining (rv_globalBudget state);
          velocityPerMs = (if spent > 0 then dbl (Number spent / 86400000) else 0)
      in \<lparr>dv_today = spent, dv_cap = cap, dv_remaining = remaining, dv_percent = computeUtilizationPercent spent cap,
          dv_rundownMs = (if velocityPerMs > 0 \<and> remaining > 0 then \<lfloor>dbl (Number remaining / velocityPerMs)\<rfloor> else 0),
          dv_chart = map (\<lambda>e. (isoTime (se_timestamp e * 1000), dbl (Number (se_usdAmount e) / 1000000))) epochs,
          dv_protocolBreakdown = map (\<lambda>p. (resolveProtocolName (pbd_protocol p), pbd_protocol p, pbd_spent24h p, pbd_utilization p))
            (sb_byProtocol breakdown)\<rparr>)"

record 'n BlockView =
  bk_agent :: string
  bk_reason :: string
  bk_amount :: 'n
  bk_timestamp :: int

record 'n HealthView =
  hv_level :: level
  hv_blockedCount24h :: nat
  hv_checks :: "(string \<times> bool) list"
  hv_lastBlock :: "'n BlockView option"

definition buildHealth ::
  "(address \<Rightarrow> bytes) \<Rightarrow> (nat \<Rightarrow> rat \<Rightarrow> string) \<Rightarrow> msecs \<Rightarrow> OverviewContext \<Rightarrow> int HealthView" where
  "buildHealth enc usd nowMs ctx =
     (let posture = ctx_posture enc ctx;
          critAlerts = filter (\<lambda>a. al_severity a = critical) (ctx_alerts usd ctx)
      in \<lparr>hv_level = posture_level posture, hv_blockedCount24h = length critAlerts, hv_checks = posture_checks posture,
          hv_lastBlock = (case critAlerts of [] \<Rightarrow> None
            | a # _ \<Rightarrow> Some \<lparr>bk_agent = (case al_agentAddress a of None \<Rightarrow> [] | Some g \<Rightarrow> g), bk_reason = al_title a,
                bk_amount = 0, bk_timestamp = nowMs\<rparr>)\<rparr>)"

record PendingView =
  pv_changes :: jsv
  pv_appliesAt :: int
  pv_canApply :: bool
  pv_canCancel :: bool

record 'n PolicyView =
  pw_dailyCap :: 'n
  pw_maxPerTrade :: 'n
  pw_approvedApps :: "(string \<times> address) list"
  pw_protocolMode :: string
  pw_hasProtocolCaps :: bool
  pw_protocolCaps :: "'n list"
  pw_maxSlippageBps :: nat
  pw_allowedDestinations :: "address list"
  pw_developerFeeRate :: nat
  pw_sessionExpirySeconds :: 'n
  pw_timelockSeconds :: rat
  pw_policyVersion :: 'n
  pw_pendingUpdate :: "PendingView option"

definition mode_name :: "nat \<Rightarrow> string" where
  "mode_name m = (if m = 1 then ''whitelist'' else if m = 2 then ''blacklist'' else ''unrestricted'')"

definition change :: "string \<Rightarrow> ('a \<Rightarrow> jsv) \<Rightarrow> 'a option \<Rightarrow> (string \<times> jsv) list" where
  "change k f x = (case x of None \<Rightarrow> [] | Some a \<Rightarrow> [(k, f a)])"

definition pending_changes :: "PendingPolicyUpdate \<Rightarrow> (string \<times> jsv) list" where
  "pending_changes pp =
     change ''dailyCap'' JsBig (pp_dailySpendingCapUsd pp)
     @ change ''maxPerTrade'' JsBig (pp_maxTransactionAmountUsd pp)
     @ change ''approvedApps'' (\<lambda>as. JsArr (map JsStr as)) (pp_protocols pp)
     @ change ''protocolMode'' (\<lambda>m. JsStr (mode_name m)) (pp_protocolMode pp)
     @ change ''hasProtocolCaps'' JsBool (pp_hasProtocolCaps pp)
     @ change ''protocolCaps'' (\<lambda>cs. JsArr (map JsBig cs)) (pp_protocolCaps pp)
     @ change ''maxSlippageBps'' (\<lambda>n. JsNum (Some n)) (pp_maxSlippageBps pp)
     @ change ''allowedDestinations'' (\<lambda>as. JsArr (map JsStr as)) (pp_allowedDestinations pp)
     @ change ''developerFeeRate'' (\<lambda>n. JsNum (Some n)) (pp_developerFeeRate pp)
     @ change ''sessionExpirySeconds'' JsBig (pp_sessionExpirySeconds pp)
     @ change ''timelock'' (\<lambda>n. JsNum (Some n)) (pp_timelockDuration pp)"

definition pending_view :: "msecs \<Rightarrow> PendingPolicyUpdate \<Rightarrow> PendingView" where
  "pending_view nowMs pp =
     \<lparr>pv_changes = JsObj PlainObject (pending_changes pp), pv_appliesAt = pp_executesAt pp * 1000,
      pv_canApply = (pp_executesAt pp > 0 \<and> pp_executesAt pp \<le> nowMs div 1000), pv_canCancel = True\<rparr>"

definition buildPolicy :: "msecs \<Rightarrow> OverviewContext \<Rightarrow> int PolicyView" where
  "buildPolicy nowMs ctx =
     (let state = oc_state ctx; p = rv_policy state
      in \<lparr>pw_dailyCap = pc_dailySpendingCapUsd p, pw_maxPerTrade = pc_maxTransactionSizeUsd p,
          pw_approvedApps = map (\<lambda>a. (resolveProtocolName a, a)) (pc_protocols p),
          pw_protocolMode = mode_name (pc_protocolMode p), pw_hasProtocolCaps = pc_hasProtocolCaps p,
          pw_protocolCaps = pc_protocolCaps p, pw_maxSlippageBps = as_maxSlippageBps state,
          pw_allowedDestinations = as_allowedDestinations state, pw_developerFeeRate = pc_developerFeeRate p,
          pw_sessionExpirySeconds = as_sessionExpirySeconds state, pw_timelockSeconds = Number (as_timelockDuration state),
          pw_policyVersion = pc_policyVersion p, pw_pendingUpdate = map_option (pending_view nowMs) (oc_pendingPolicy ctx)\<rparr>)"

record 'n ActivityRow =
  rw_id :: string
  rw_timestamp :: int
  rw_type :: string
  rw_protocol :: string
  rw_protocolId :: string
  rw_agent :: string
  rw_amount :: 'n
  rw_approved :: bool
  rw_reason :: "string option"
  rw_txSignature :: string

definition text_of :: "string option \<Rightarrow> string" where
  "text_of s = (case s of None \<Rightarrow> [] | Some t \<Rightarrow> t)"

definition activity_row :: "VaultActivityItem \<Rightarrow> int ActivityRow" where
  "activity_row item =
     \<lparr>rw_id = (if va_txSignature item \<noteq> [] then va_txSignature item
               else ''evt-'' @ show_int (va_timestamp item) @ ''-'' @ va_eventType item),
      rw_timestamp = va_timestamp item * 1000,
      rw_type = mapCategory (va_category item) (va_eventType item) (va_actionType item),
      rw_protocol = text_of (va_protocolName item), rw_protocolId = text_of (va_protocol item), rw_agent = text_of (va_agent item),
      rw_amount = (case va_amount item of None \<Rightarrow> 0 | Some n \<Rightarrow> n), rw_approved = va_success item,
      rw_reason = (if va_success item then None else Some (va_description item)), rw_txSignature = va_txSignature item\<rparr>"

definition buildActivityRows :: "VaultActivityItem list \<Rightarrow> int ActivityRow list" where
  "buildActivityRows items = map activity_row items"

section \<open>getActivity\<close>

text \<open>An absent filter and the empty string are alike.\<close>

record ActivityFilters =
  af_agent :: string
  af_protocol :: string
  af_status :: "bool option"
  af_type :: string
  af_timeRange :: string

record ActivitySummary =
  ay_total :: nat
  ay_approved :: nat
  ay_blocked :: nat
  ay_volume :: int

definition row_kept :: "msecs \<Rightarrow> ActivityFilters \<Rightarrow> int ActivityRow \<Rightarrow> bool" where
  "row_kept nowMs filters r \<longleftrightarrow>
     (af_agent filters = [] \<or> rw_agent r = af_agent filters)
     \<and> (af_protocol filters = [] \<or> rw_protocolId r = af_protocol filters \<or> rw_protocol r = af_protocol filters)
     \<and> (case af_status filters of None \<Rightarrow> True | Some s \<Rightarrow> rw_approved r = s)
     \<and> (af_type filters = [] \<or> rw_type r = af_type filters)
     \<and> (af_timeRange filters = [] \<or> rw_timestamp r \<ge> nowMs - rangeToMs (af_timeRange filters))"

definition getActivity :: "msecs \<Rightarrow> VaultActivityItem list \<Rightarrow> ActivityFilters \<Rightarrow> int ActivityRow list \<times> ActivitySummary" where
  "getActivity nowMs items filters =
     (let rows = filter (row_kept nowMs filters) (buildActivityRows items);
          approved = length (filter rw_approved rows)
      in (rows, \<lparr>ay_total = length rows, ay_approved = approved, ay_blocked = length rows - approved,
                 ay_volume = foldl (\<lambda>s r. s + rw_amount r) 0 rows\<rparr>))"

section \<open>Risk and audit\<close>

datatype risk_badge = badge_critical | badge_high | badge_elevated | badge_low

fun risk_loop :: "Alert list \<Rightarrow> bool \<Rightarrow> bool \<Rightarrow> risk_badge" where
  "risk_loop [] hasWarning hasInfo = (if hasWarning then badge_high else if hasInfo then badge_elevated else badge_low)"
| "risk_loop (a # as) hasWarning hasInfo =
     (if al_severity a = critical then badge_critical
      else risk_loop as (hasWarning \<or> al_severity a = warning) (hasInfo \<or> al_severity a = info))"

definition deriveRiskLevel :: "Alert list \<Rightarrow> risk_badge" where
  "deriveRiskLevel alerts = risk_loop alerts False False"

record RiskMetrics =
  rm_capVelocity :: rat
  rm_spendingVelocity :: int
  rm_riskLevel :: risk_badge
  rm_isAccelerating :: bool
  rm_timeToCapSeconds :: "rat option"

definition buildRiskMetrics :: "(nat \<Rightarrow> rat \<Rightarrow> string) \<Rightarrow> msecs \<Rightarrow> OverviewContext \<Rightarrow> RiskMetrics" where
  "buildRiskMetrics usd nowMs ctx =
     (let state = oc_state ctx; cap = bu_cap (rv_globalBudget state);
          velocity = getSpendingVelocity (rv_tracker state) (nowMs div 1000) (rv_globalBudget state)
      in \<lparr>rm_capVelocity = (if cap > 0 \<and> sv_currentRate velocity > 0
            then dbl (dbl (Number (sv_currentRate velocity * 24) / Number cap) * 100) else 0),
          rm_spendingVelocity = sv_currentRate velocity, rm_riskLevel = deriveRiskLevel (ctx_alerts usd ctx),
          rm_isAccelerating = sv_isAccelerating velocity, rm_timeToCapSeconds = sv_timeToCapSeconds velocity\<rparr>)"

definition AUDIT_CATEGORY_TO_TYPE :: "(EventCategory \<times> string) list" where
  "AUDIT_CATEGORY_TO_TYPE = [(cat_policy, ''policy_change''), (cat_agent, ''agent_change''), (cat_security, ''vault_security''), (cat_escrow, ''escrow'')]"

record AuditTrailEntry =
  at_timestamp :: int
  at_eventType :: string
  at_eventName :: string
  at_actor :: string
  at_details :: string
  at_txSignature :: string

definition audit_row :: "VaultActivityItem \<Rightarrow> AuditTrailEntry option" where
  "audit_row item =
     map_option (\<lambda>eventType. \<lparr>at_timestamp = va_timestamp item * 1000, at_eventType = eventType, at_eventName = va_eventType item,
         at_actor = text_of (va_agent item), at_details = va_description item, at_txSignature = va_txSignature item\<rparr>)
       (map_of AUDIT_CATEGORY_TO_TYPE (va_category item))"

definition buildAuditTrail :: "VaultActivityItem list \<Rightarrow> AuditTrailEntry list" where
  "buildAuditTrail items = List.map_filter audit_row items"

definition audit_since :: "VaultActivityItem list \<Rightarrow> int option \<Rightarrow> AuditTrailEntry list" where
  "audit_since items since =
     (case since of None \<Rightarrow> buildAuditTrail items | Some s \<Rightarrow> filter (\<lambda>e. at_timestamp e \<ge> s) (buildAuditTrail items))"

section \<open>getOverview and the single reads\<close>

record 'n OverviewView =
  ov_vault :: "'n VaultView"
  ov_agents :: "'n AgentView list"
  ov_spending :: "'n SpendingView"
  ov_health :: "'n HealthView"
  ov_policy :: "'n PolicyView"
  ov_activity :: "'n ActivityRow list"

record read_env =
  rd_enc :: "address \<Rightarrow> bytes"
  rd_dec :: "bytes \<Rightarrow> address option"
  rd_usd :: "nat \<Rightarrow> rat \<Rightarrow> string"
  rd_iso :: "int \<Rightarrow> string"
  rd_isSolanaError :: "jsv \<Rightarrow> int \<Rightarrow> (unit, bool) result"

text \<open>
  The outcomes: resolution, the activity request (\<open>None\<close> when it was not made) and the pending policy. A failed
  activity request gives no items; a missing pending policy account is no pending policy; any other failure is thrown.
\<close>

definition degraded :: "('e, 'a list) result option \<Rightarrow> 'a list option" where
  "degraded r = (case r of None \<Rightarrow> None | Some (Inl e) \<Rightarrow> Some [] | Some (Inr xs) \<Rightarrow> Some xs)"

definition pending_or_none :: "read_env \<Rightarrow> (jsv, 'p option) result \<Rightarrow> (jsv, 'p option) result" where
  "pending_or_none env r =
     (case r of Inl e \<Rightarrow> if isAccountNotFoundError (rd_isSolanaError env) e then Inr None else Inl e | Inr p \<Rightarrow> Inr p)"

definition read_result :: "string \<Rightarrow> (jsv, 'a) result \<Rightarrow> (DxError, 'a) result" where
  "read_result name r = (case r of Inl e \<Rightarrow> Inl (toDxError e (Some name)) | Inr a \<Rightarrow> Inr a)"

definition overview_ctx ::
  "read_env \<Rightarrow> address \<Rightarrow> analytics_state \<Rightarrow> VaultActivityItem list option \<Rightarrow> PendingPolicyUpdate option \<Rightarrow> OverviewContext" where
  "overview_ctx env vault state activity pendingPolicy =
     \<lparr>oc_vault = vault, oc_state = state,
      oc_pnl = Some (getVaultPnLFromState (as_totalDepositedUsd state) (as_totalWithdrawnUsd state) (rv_usdcBalance state) (rv_usdtBalance state)),
      oc_activity = activity, oc_pendingPolicy = pendingPolicy,
      oc_posture = Some (getSecurityPosture (rd_enc env) state), oc_breakdown = Some (getSpendingBreakdown (rd_dec env) state),
      oc_alerts = Some (evaluateAlertConditions (rd_usd env) state vault)\<rparr>"

definition overview_of :: "read_env \<Rightarrow> msecs \<Rightarrow> OverviewContext \<Rightarrow> int OverviewView" where
  "overview_of env nowMs ctx =
     \<lparr>ov_vault = buildVaultState (rd_enc env) ctx, ov_agents = buildAgents (rd_dec env) nowMs ctx,
      ov_spending = buildSpending (rd_dec env) (rd_iso env) nowMs ctx, ov_health = buildHealth (rd_enc env) (rd_usd env) nowMs ctx,
      ov_policy = buildPolicy nowMs ctx,
      ov_activity = buildActivityRows (case oc_activity ctx of None \<Rightarrow> [] | Some a \<Rightarrow> a)\<rparr>"

definition getOverview ::
  "read_env \<Rightarrow> msecs \<Rightarrow> address \<Rightarrow> (jsv, analytics_state) result \<Rightarrow> (jsv, VaultActivityItem list) result option
    \<Rightarrow> (jsv, PendingPolicyUpdate option) result \<Rightarrow> (DxError, int OverviewView) result" where
  "getOverview env nowMs vault stateR activityR pendingR =
     read_result ''OwnerClient.getOverview''
       (rbind stateR (\<lambda>state. rbind (pending_or_none env pendingR) (\<lambda>pendingPolicy.
          Inr (overview_of env nowMs (overview_ctx env vault state (degraded activityR) pendingPolicy)))))"

definition getHealth :: "read_env \<Rightarrow> msecs \<Rightarrow> address \<Rightarrow> (jsv, analytics_state) result \<Rightarrow> (DxError, int HealthView) result" where
  "getHealth env nowMs vault stateR =
     read_result ''OwnerClient.getHealth'' (rbind stateR (\<lambda>state. Inr (buildHealth (rd_enc env) (rd_usd env) nowMs (minimal_ctx vault state))))"

definition getSpending :: "read_env \<Rightarrow> msecs \<Rightarrow> address \<Rightarrow> (jsv, analytics_state) result \<Rightarrow> (DxError, int SpendingView) result" where
  "getSpending env nowMs vault stateR =
     read_result ''OwnerClient.getSpending'' (rbind stateR (\<lambda>state. Inr (buildSpending (rd_dec env) (rd_iso env) nowMs (minimal_ctx vault state))))"

definition getVaultState :: "read_env \<Rightarrow> address \<Rightarrow> (jsv, analytics_state) result \<Rightarrow> (jsv, VaultPnL) result \<Rightarrow> (DxError, int VaultView) result" where
  "getVaultState env vault stateR pnlR =
     read_result ''OwnerClient.getVaultState'' (rbind stateR (\<lambda>state. rbind pnlR (\<lambda>pnl.
       Inr (buildVaultState (rd_enc env) ((minimal_ctx vault state)\<lparr>oc_pnl := Some pnl\<rparr>)))))"

definition getAgents ::
  "read_env \<Rightarrow> msecs \<Rightarrow> address \<Rightarrow> (jsv, analytics_state) result \<Rightarrow> (jsv, VaultActivityItem list) result \<Rightarrow> (DxError, int AgentView list) result" where
  "getAgents env nowMs vault stateR activityR =
     read_result ''OwnerClient.getAgents'' (rbind stateR (\<lambda>state.
       Inr (buildAgents (rd_dec env) nowMs ((minimal_ctx vault state)\<lparr>oc_activity := degraded (Some activityR)\<rparr>))))"

definition getPolicy ::
  "read_env \<Rightarrow> msecs \<Rightarrow> address \<Rightarrow> (jsv, analytics_state) result \<Rightarrow> (jsv, PendingPolicyUpdate option) result \<Rightarrow> (DxError, int PolicyView) result" where
  "getPolicy env nowMs vault stateR pendingR =
     read_result ''OwnerClient.getPolicy'' (rbind stateR (\<lambda>state. rbind (pending_or_none env pendingR) (\<lambda>pendingPolicy.
       Inr (buildPolicy nowMs ((minimal_ctx vault state)\<lparr>oc_pendingPolicy := pendingPolicy\<rparr>)))))"

text \<open>\<open>not_registered\<close> is the domain error with code \<open>SDK__INVALID_PARAMS\<close> the read throws.\<close>

definition getAgentDetail ::
  "read_env \<Rightarrow> jsv \<Rightarrow> msecs \<Rightarrow> address \<Rightarrow> address \<Rightarrow> (jsv, analytics_state) result \<Rightarrow> (jsv, VaultActivityItem list) result \<Rightarrow> (DxError, int AgentView) result" where
  "getAgentDetail env not_registered nowMs vault a stateR activityR =
     read_result ''OwnerClient.getAgentDetail'' (rbind stateR (\<lambda>state.
       case buildAgentDetail (rd_dec env) nowMs ((minimal_ctx vault state)\<lparr>oc_activity := degraded (Some activityR)\<rparr>) a of
         None \<Rightarrow> Inl not_registered
       | Some detail \<Rightarrow> Inr detail))"

definition getRiskMetrics :: "read_env \<Rightarrow> msecs \<Rightarrow> address \<Rightarrow> (jsv, analytics_state) result \<Rightarrow> (DxError, RiskMetrics) result" where
  "getRiskMetrics env nowMs vault stateR =
     read_result ''OwnerClient.getRiskMetrics'' (rbind stateR (\<lambda>state. Inr (buildRiskMetrics (rd_usd env) nowMs (minimal_ctx vault state))))"

section \<open>toJSON and from-json.ts\<close>

definition vault_map :: "('a \<Rightarrow> 'b) \<Rightarrow> 'a VaultView \<Rightarrow> 'b VaultView" where
  "vault_map f v = \<lparr>vv_address = vv_address v, vv_status = vv_status v, vv_owner = vv_owner v, vv_agentCount = vv_agentCount v,
     vv_totalVolume = f (vv_totalVolume v), vv_totalFees = f (vv_totalFees v), vv_total = f (vv_total v),
     vv_tokens = map (\<lambda>(m, n, d). (m, f n, d)) (vv_tokens v), vv_pnlPercent = vv_pnlPercent v,
     vv_pnlAbsolute = f (vv_pnlAbsolute v), vv_level = vv_level v, vv_alertCount = vv_alertCount v, vv_checks = vv_checks v\<rparr>"

definition agent_map :: "('a \<Rightarrow> 'b) \<Rightarrow> 'a AgentView \<Rightarrow> 'b AgentView" where
  "agent_map f v = \<lparr>gv_address = gv_address v, gv_paused = gv_paused v, gv_capabilityLabel = gv_capabilityLabel v,
     gv_capability = gv_capability v, gv_amount = f (gv_amount v), gv_limit = f (gv_limit v), gv_percent = gv_percent v,
     gv_lastActionType = gv_lastActionType v, gv_lastActionProtocol = gv_lastActionProtocol v,
     gv_lastActionTimestamp = gv_lastActionTimestamp v, gv_blockedCount24h = gv_blockedCount24h v\<rparr>"

definition spending_map :: "('a \<Rightarrow> 'b) \<Rightarrow> 'a SpendingView \<Rightarrow> 'b SpendingView" where
  "spending_map f v = \<lparr>dv_today = f (dv_today v), dv_cap = f (dv_cap v), dv_remaining = f (dv_remaining v), dv_percent = dv_percent v,
     dv_rundownMs = dv_rundownMs v, dv_chart = dv_chart v,
     dv_protocolBreakdown = map (\<lambda>(n, p, a, u). (n, p, f a, u)) (dv_protocolBreakdown v)\<rparr>"

definition block_map :: "('a \<Rightarrow> 'b) \<Rightarrow> 'a BlockView \<Rightarrow> 'b BlockView" where
  "block_map f b = \<lparr>bk_agent = bk_agent b, bk_reason = bk_reason b, bk_amount = f (bk_amount b), bk_timestamp = bk_timestamp b\<rparr>"

definition health_map :: "('a \<Rightarrow> 'b) \<Rightarrow> 'a HealthView \<Rightarrow> 'b HealthView" where
  "health_map f v = \<lparr>hv_level = hv_level v, hv_blockedCount24h = hv_blockedCount24h v, hv_checks = hv_checks v,
     hv_lastBlock = map_option (block_map f) (hv_lastBlock v)\<rparr>"

definition policy_map :: "('a \<Rightarrow> 'b) \<Rightarrow> (jsv \<Rightarrow> jsv) \<Rightarrow> 'a PolicyView \<Rightarrow> 'b PolicyView" where
  "policy_map f g v = \<lparr>pw_dailyCap = f (pw_dailyCap v), pw_maxPerTrade = f (pw_maxPerTrade v), pw_approvedApps = pw_approvedApps v,
     pw_protocolMode = pw_protocolMode v, pw_hasProtocolCaps = pw_hasProtocolCaps v, pw_protocolCaps = map f (pw_protocolCaps v),
     pw_maxSlippageBps = pw_maxSlippageBps v, pw_allowedDestinations = pw_allowedDestinations v,
     pw_developerFeeRate = pw_developerFeeRate v, pw_sessionExpirySeconds = f (pw_sessionExpirySeconds v),
     pw_timelockSeconds = pw_timelockSeconds v, pw_policyVersion = f (pw_policyVersion v),
     pw_pendingUpdate = map_option (\<lambda>p. p\<lparr>pv_changes := g (pv_changes p)\<rparr>) (pw_pendingUpdate v)\<rparr>"

definition row_map :: "('a \<Rightarrow> 'b) \<Rightarrow> 'a ActivityRow \<Rightarrow> 'b ActivityRow" where
  "row_map f r = \<lparr>rw_id = rw_id r, rw_timestamp = rw_timestamp r, rw_type = rw_type r, rw_protocol = rw_protocol r,
     rw_protocolId = rw_protocolId r, rw_agent = rw_agent r, rw_amount = f (rw_amount r), rw_approved = rw_approved r,
     rw_reason = rw_reason r, rw_txSignature = rw_txSignature r\<rparr>"

text \<open>Live to serialized.\<close>

definition overview_toJSON :: "int OverviewView \<Rightarrow> string OverviewView" where
  "overview_toJSON v = \<lparr>ov_vault = vault_map show_int (ov_vault v), ov_agents = map (agent_map show_int) (ov_agents v),
     ov_spending = spending_map show_int (ov_spending v), ov_health = health_map show_int (ov_health v),
     ov_policy = policy_map show_int serializeBigints (ov_policy v), ov_activity = map (row_map show_int) (ov_activity v)\<rparr>"

text \<open>Serialized to live: the pending update is passed on as it is.\<close>

definition vaultStateFromJSON :: "string VaultView \<Rightarrow> int VaultView" where
  "vaultStateFromJSON = vault_map bi"

definition agentDataFromJSON :: "string AgentView \<Rightarrow> int AgentView" where
  "agentDataFromJSON = agent_map bi"

definition spendingDataFromJSON :: "string SpendingView \<Rightarrow> int SpendingView" where
  "spendingDataFromJSON = spending_map bi"

definition healthDataFromJSON :: "string HealthView \<Rightarrow> int HealthView" where
  "healthDataFromJSON = health_map bi"

definition policyDataFromJSON :: "string PolicyView \<Rightarrow> int PolicyView" where
  "policyDataFromJSON = policy_map bi id"

definition activityRowFromJSON :: "string ActivityRow \<Rightarrow> int ActivityRow" where
  "activityRowFromJSON = row_map bi"

definition overviewDataFromJSON :: "string OverviewView \<Rightarrow> int OverviewView" where
  "overviewDataFromJSON v = \<lparr>ov_vault = vaultStateFromJSON (ov_vault v), ov_agents = map agentDataFromJSON (ov_agents v),
     ov_spending = spendingDataFromJSON (ov_spending v), ov_health = healthDataFromJSON (ov_health v),
     ov_policy = policyDataFromJSON (ov_policy v), ov_activity = map activityRowFromJSON (ov_activity v)\<rparr>"

section \<open>discover.ts\<close>

record DiscoveredVault =
  di_address :: address
  di_vaultId :: int
  di_status :: VaultStatus
  di_agentCount :: nat

text \<open>\<open>fetch\<close> is \<open>fetchMaybeAgentVault\<close>: it throws, finds no account, or decodes one. A failure drops the vault.\<close>

definition discovered :: "(address \<Rightarrow> (jsv, AgentVault option) result) \<Rightarrow> VaultLocator \<Rightarrow> DiscoveredVault option" where
  "discovered fetch v =
     (case fetch (vl_vaultAddress v) of
        Inl e \<Rightarrow> None
      | Inr None \<Rightarrow> None
      | Inr (Some data) \<Rightarrow>
          Some \<lparr>di_address = vl_vaultAddress v, di_vaultId = vl_vaultId v, di_status = av_status data, di_agentCount = length (av_agents data)\<rparr>)"

definition discoverVaults ::
  "(address \<Rightarrow> (jsv, AgentVault option) result) \<Rightarrow> gpa_env \<Rightarrow> address \<Rightarrow> (sdk_error, DiscoveredVault list) result" where
  "discoverVaults fetch env owner =
     rbind (findVaultsByOwner env owner 20) (\<lambda>sdkVaults. Inr (List.map_filter (discovered fetch) sdkVaults))"

section \<open>Facts\<close>

lemma show_int_nonempty: "show_int n \<noteq> []"
proof -
  have "show_nat k \<noteq> []" for k by (subst show_nat.simps) simp
  then show ?thesis by (simp add: show_int_def)
qed

lemma bi_show_int [simp]: "bi (show_int n) = n"
  by (simp add: bi_def show_int_nonempty bigint_of_show_int)

lemma view_roundtrips:
  "vaultStateFromJSON (vault_map show_int v) = v"
  "agentDataFromJSON (agent_map show_int a) = a"
  "spendingDataFromJSON (spending_map show_int s) = s"
  "activityRowFromJSON (row_map show_int r) = r"
  by (simp_all add: vaultStateFromJSON_def vault_map_def agentDataFromJSON_def agent_map_def spendingDataFromJSON_def
      spending_map_def activityRowFromJSON_def row_map_def comp_def case_prod_beta)

lemma health_roundtrip: "healthDataFromJSON (health_map show_int h) = h"
proof -
  have "block_map bi (block_map show_int b) = b" for b by (simp add: block_map_def)
  then show ?thesis by (simp add: healthDataFromJSON_def health_map_def option.map_comp comp_def option.map_ident)
qed

lemma policy_roundtrip:
  "policyDataFromJSON (policy_map show_int serializeBigints p) = p \<longleftrightarrow>
     (case pw_pendingUpdate p of None \<Rightarrow> True | Some u \<Rightarrow> serializeBigints (pv_changes u) = pv_changes u)"
proof (cases "pw_pendingUpdate p")
  case None
  then show ?thesis by (cases p) (simp add: policyDataFromJSON_def policy_map_def comp_def)
next
  case (Some u)
  then show ?thesis by (cases p; cases u) (auto simp: policyDataFromJSON_def policy_map_def comp_def)
qed

text \<open>A value that holds a bigint, at any depth, and the values JSON can carry once their bigints are strings.\<close>

primrec holds_bigint :: "jsv \<Rightarrow> bool" where
  "holds_bigint JsUndefined = False"
| "holds_bigint JsNull = False"
| "holds_bigint (JsBool b) = False"
| "holds_bigint (JsNum n) = False"
| "holds_bigint (JsBig n) = True"
| "holds_bigint (JsStr s) = False"
| "holds_bigint (JsArr vs) = list_ex id (map holds_bigint vs)"
| "holds_bigint (JsObj c ps) = list_ex snd (map (map_prod id holds_bigint) ps)"

primrec plain_value :: "jsv \<Rightarrow> bool" where
  "plain_value JsUndefined = False"
| "plain_value JsNull = True"
| "plain_value (JsBool b) = True"
| "plain_value (JsNum n) = (n \<noteq> None)"
| "plain_value (JsBig n) = True"
| "plain_value (JsStr s) = True"
| "plain_value (JsArr vs) = list_all id (map plain_value vs)"
| "plain_value (JsObj c ps) = (c = PlainObject \<and> list_all snd (map (map_prod id plain_value) ps))"

lemma map_fixpoint: "map f xs = xs \<longleftrightarrow> (\<forall>x \<in> set xs. f x = x)"
  by (induction xs) auto

lemma serialize_fixpoint: "plain_value v \<Longrightarrow> serializeBigints v = v \<longleftrightarrow> \<not> holds_bigint v"
proof (induction v)
  case (JsArr vs)
  then have "v \<in> set vs \<Longrightarrow> serializeBigints v = v \<longleftrightarrow> \<not> holds_bigint v" for v by (simp add: list_all_iff)
  then show ?case by (auto simp: map_fixpoint list_ex_iff)
next
  case (JsObj c ps)
  then have "p \<in> set ps \<Longrightarrow> serializeBigints (snd p) = snd p \<longleftrightarrow> \<not> holds_bigint (snd p)" for p
    by (cases p) (auto simp: list_all_iff)
  then show ?case using JsObj.prems by (fastforce simp: map_fixpoint list_ex_iff)
qed auto

definition without_pending :: "'n OverviewView \<Rightarrow> 'n OverviewView" where
  "without_pending v = v\<lparr>ov_policy := (ov_policy v)\<lparr>pw_pendingUpdate := None\<rparr>\<rparr>"

lemma pending_changes_plain: "plain_value (pv_changes (pending_view nowMs pp))"
  by (cases pp) (auto simp: pending_view_def pending_changes_def change_def list_all_iff split: option.splits)

lemma policy_roundtrip_settled:
  "(policyDataFromJSON (policy_map show_int serializeBigints p))\<lparr>pw_pendingUpdate := None\<rparr> = p\<lparr>pw_pendingUpdate := None\<rparr>"
  by (cases p) (simp add: policyDataFromJSON_def policy_map_def comp_def)

lemma categorize_transfer: "categorizeEvent ''AgentTransferExecuted'' = cat_trade"
  by code_simp

lemma built_item:
  assumes "buildActivityItem ft e sig t net = Some item"
  shows "va_eventType item = ev_name e \<and> va_category item = categorizeEvent (ev_name e)"
  using assms by (auto simp: buildActivityItem_def Let_def split: prod.splits)

section \<open>Properties\<close>

text \<open>
  C36. The overview is the bundle of the single reads: from the same answers of the node, whatever \<open>getOverview\<close> returns has as its
  parts what \<open>getVaultState\<close>, \<open>getAgents\<close>, \<open>getSpending\<close>, \<open>getHealth\<close> and \<open>getPolicy\<close> return, although it
  shares one posture, one breakdown and one list of alerts among them.
\<close>

theorem overview_bundles_reads:
  assumes "getOverview env nowMs vault stateR (Some activityR) pendingR = Inr v"
  shows "getVaultState env vault stateR (rbind stateR (\<lambda>s. Inr (getVaultPnLFromState (as_totalDepositedUsd s) (as_totalWithdrawnUsd s)
           (rv_usdcBalance s) (rv_usdtBalance s)))) = Inr (ov_vault v)
    \<and> getAgents env nowMs vault stateR activityR = Inr (ov_agents v)
    \<and> getSpending env nowMs vault stateR = Inr (ov_spending v)
    \<and> getHealth env nowMs vault stateR = Inr (ov_health v)
    \<and> getPolicy env nowMs vault stateR pendingR = Inr (ov_policy v)"
proof -
  obtain state where st: "stateR = Inr state"
    using assms by (cases stateR) (simp_all add: getOverview_def read_result_def)
  obtain pending where p: "pending_or_none env pendingR = Inr pending"
    using assms st by (cases "pending_or_none env pendingR") (simp_all add: getOverview_def read_result_def)
  have v: "v = overview_of env nowMs (overview_ctx env vault state (degraded (Some activityR)) pending)"
    using assms st p by (simp add: getOverview_def read_result_def)
  have agents: "buildAgents (rd_dec env) nowMs (overview_ctx env vault state (degraded (Some activityR)) pending)
      = buildAgents (rd_dec env) nowMs ((minimal_ctx vault state)\<lparr>oc_activity := degraded (Some activityR)\<rparr>)"
    by (simp add: buildAgents_def build_agent_def overview_ctx_def minimal_ctx_def)
  show ?thesis
    unfolding v overview_of_def OverviewView.simps agents
    by (simp add: st p getVaultState_def getAgents_def getSpending_def getHealth_def getPolicy_def read_result_def
        overview_ctx_def minimal_ctx_def buildVaultState_def buildSpending_def buildHealth_def buildPolicy_def ctx_posture_def ctx_alerts_def Let_def)
qed

definition sample_read_env :: read_env where
  "sample_read_env = \<lparr>rd_enc = (\<lambda>_. []), rd_dec = (\<lambda>_. None), rd_usd = (\<lambda>_ _. []), rd_iso = (\<lambda>_. []), rd_isSolanaError = (\<lambda>_ _. Inr False)\<rparr>"

theorem overview_bundles_reads_witness:
  "\<exists>v. getOverview sample_read_env 686400000 ''V'' (Inr sample_analytics) (Some (Inr [])) (Inr None) = Inr v
     \<and> getHealth sample_read_env 686400000 ''V'' (Inr sample_analytics) = Inr (ov_health v)"
proof -
  have "\<exists>v. getOverview sample_read_env 686400000 ''V'' (Inr sample_analytics) (Some (Inr [])) (Inr None) = Inr v"
    by (simp add: getOverview_def read_result_def pending_or_none_def)
  then obtain v where v: "getOverview sample_read_env 686400000 ''V'' (Inr sample_analytics) (Some (Inr [])) (Inr None) = Inr v" ..
  from overview_bundles_reads [OF v] have "getHealth sample_read_env 686400000 ''V'' (Inr sample_analytics) = Inr (ov_health v)"
    by (elim conjE)
  with v show ?thesis by (intro exI [of _ v] conjI)
qed

text \<open>
  C37. \<open>toJSON\<close> and back restores every part of an overview but the pending policy update; the whole
  overview comes back exactly when that update, whose changes are a plain value, holds no bigint at any depth.
\<close>

theorem overview_json_roundtrip:
  assumes "\<And>u. pw_pendingUpdate (ov_policy v) = Some u \<Longrightarrow> plain_value (pv_changes u)"
  shows "without_pending (overviewDataFromJSON (overview_toJSON v)) = without_pending v
    \<and> (overviewDataFromJSON (overview_toJSON v) = v \<longleftrightarrow>
         (\<forall>u. pw_pendingUpdate (ov_policy v) = Some u \<longrightarrow> \<not> holds_bigint (pv_changes u)))"
proof
  have agents: "map agentDataFromJSON (map (agent_map show_int) as) = as" for as by (induction as) (simp_all add: view_roundtrips)
  have rows: "map activityRowFromJSON (map (row_map show_int) rs) = rs" for rs by (induction rs) (simp_all add: view_roundtrips)
  note views = overviewDataFromJSON_def overview_toJSON_def view_roundtrips health_roundtrip agents rows
  show "without_pending (overviewDataFromJSON (overview_toJSON v)) = without_pending v"
    by (cases v) (simp add: views without_pending_def policy_roundtrip_settled del: map_map)
  have "overviewDataFromJSON (overview_toJSON v) = v
      \<longleftrightarrow> policyDataFromJSON (policy_map show_int serializeBigints (ov_policy v)) = ov_policy v"
    by (cases v) (simp add: views del: map_map)
  then show "overviewDataFromJSON (overview_toJSON v) = v \<longleftrightarrow>
      (\<forall>u. pw_pendingUpdate (ov_policy v) = Some u \<longrightarrow> \<not> holds_bigint (pv_changes u))"
    using assms by (auto simp: policy_roundtrip serialize_fixpoint split: option.splits)
qed

text \<open>An overview whose pending update changes only the fee rate comes back; one that changes the daily cap does not.\<close>

definition fee_change :: PendingPolicyUpdate where
  "fee_change = \<lparr>pp_executesAt = 0, pp_dailySpendingCapUsd = None, pp_maxTransactionAmountUsd = None, pp_protocolMode = None,
     pp_protocols = None, pp_developerFeeRate = Some 100, pp_maxSlippageBps = None, pp_timelockDuration = None,
     pp_allowedDestinations = None, pp_sessionExpirySeconds = None, pp_hasProtocolCaps = None, pp_protocolCaps = None,
     pp_destinationMode = None\<rparr>"

definition sample_overview :: "PendingPolicyUpdate \<Rightarrow> int OverviewView" where
  "sample_overview pp = overview_of sample_read_env 0 (overview_ctx sample_read_env ''V'' sample_analytics None (Some pp))"

theorem overview_json_roundtrip_witness:
  "overviewDataFromJSON (overview_toJSON (sample_overview fee_change)) = sample_overview fee_change
   \<and> overviewDataFromJSON (overview_toJSON (sample_overview (fee_change\<lparr>pp_protocolCaps := Some [5]\<rparr>)))
       \<noteq> sample_overview (fee_change\<lparr>pp_protocolCaps := Some [5]\<rparr>)"
proof -
  have pending: "pw_pendingUpdate (ov_policy (sample_overview pp)) = Some (pending_view 0 pp)" for pp
    by (simp add: sample_overview_def overview_of_def buildPolicy_def overview_ctx_def Let_def)
  have plain: "pw_pendingUpdate (ov_policy (sample_overview pp)) = Some u \<Longrightarrow> plain_value (pv_changes u)" for pp u
    using pending_changes_plain by (auto simp: pending)
  have "\<not> holds_bigint (pv_changes (pending_view 0 fee_change))"
    "holds_bigint (pv_changes (pending_view 0 (fee_change\<lparr>pp_protocolCaps := Some [5]\<rparr>)))"
    by (simp_all add: pending_view_def pending_changes_def change_def fee_change_def)
  with overview_json_roundtrip [of "sample_overview fee_change", OF plain]
    overview_json_roundtrip [of "sample_overview (fee_change\<lparr>pp_protocolCaps := Some [5]\<rparr>)", OF plain]
  show ?thesis by (simp add: pending)
qed

text \<open>
  No event of any log is shown as a transfer, and the change feed shows an event exactly when its name is in
  the policy, agent, security or escrow rows of the category table: a change of an agent's
  permissions or a closing of the constraints counts as a trade and is left out.
\<close>

theorem change_feed_exact:
  assumes "buildActivityItem ft e sig t net = Some item"
  shows "rw_type (activity_row item) \<noteq> ''transfer''
    \<and> (audit_row item \<noteq> None \<longleftrightarrow> categorizeEvent (ev_name e) \<in> {cat_policy, cat_agent, cat_security, cat_escrow})
    \<and> list_all (\<lambda>n. categorizeEvent n = cat_trade)
        [''AgentPermissionsChangeQueued'', ''AgentPermissionsChangeApplied'', ''CloseConstraintsQueued'', ''CloseConstraintsApplied'',
         ''PostAssertionsCreated'', ''PostAssertionsClosed'']"
proof -
  note b = built_item [OF assms]
  have "mapCategory (categorizeEvent n) n a \<noteq> ''transfer''" for n a
    using categorize_transfer by (auto simp: mapCategory_def Let_def split: option.splits)
  then have "rw_type (activity_row item) \<noteq> ''transfer''" using b by (simp add: activity_row_def)
  moreover have "audit_row item \<noteq> None \<longleftrightarrow> categorizeEvent (ev_name e) \<in> {cat_policy, cat_agent, cat_security, cat_escrow}"
    using b by (auto simp: audit_row_def AUDIT_CATEGORY_TO_TYPE_def)
  moreover have "list_all (\<lambda>n. categorizeEvent n = cat_trade)
        [''AgentPermissionsChangeQueued'', ''AgentPermissionsChangeApplied'', ''CloseConstraintsQueued'', ''CloseConstraintsApplied'',
         ''PostAssertionsCreated'', ''PostAssertionsClosed'']" by code_simp
  ultimately show ?thesis by blast
qed

theorem change_feed_exact_witness:
  "\<exists>item. buildActivityItem \<lparr>ft_usd = \<lambda>_ _. [], ft_grouped = \<lambda>_. []\<rparr>
       \<lparr>ev_name = ''AgentTransferExecuted'', ev_data = [], ev_fields = None\<rparr> ''S'' 0 ''devnet'' = Some item
     \<and> rw_type (activity_row item) \<noteq> ''transfer''"
proof -
  let ?e = "\<lparr>ev_name = ''AgentTransferExecuted'', ev_data = [], ev_fields = None\<rparr>"
  let ?ft = "\<lparr>ft_usd = \<lambda>_ _. [], ft_grouped = \<lambda>_. []\<rparr>"
  have "\<exists>item. buildActivityItem ?ft ?e ''S'' 0 ''devnet'' = Some item"
    by (simp add: buildActivityItem_def Let_def describeEvent_def case_prod_beta)
  then obtain item where i: "buildActivityItem ?ft ?e ''S'' 0 ''devnet'' = Some item" ..
  from change_feed_exact [OF i] have "rw_type (activity_row item) \<noteq> ''transfer''" by (elim conjE)
  with i show ?thesis by (intro exI [of _ item] conjI)
qed

text \<open>
  A queued change of the destination mode alone is shown to the owner as a pending update that changes nothing.
\<close>

lemma destination_mode_hidden: "pending_changes (pp\<lparr>pp_destinationMode := m\<rparr>) = pending_changes pp"
  by (simp add: pending_changes_def)

lemma risk_level_exact:
  "deriveRiskLevel as = (if list_ex (\<lambda>a. al_severity a = critical) as then badge_critical
     else if list_ex (\<lambda>a. al_severity a = warning) as then badge_high
     else if as \<noteq> [] then badge_elevated else badge_low)"
proof -
  have "risk_loop as w i = (if list_ex (\<lambda>a. al_severity a = critical) as then badge_critical
     else if w \<or> list_ex (\<lambda>a. al_severity a = warning) as then badge_high
     else if i \<or> as \<noteq> [] then badge_elevated else badge_low)" for w i
  proof (induction as arbitrary: w i)
    case (Cons a as)
    then show ?case by (cases "al_severity a") auto
  qed simp
  then show ?thesis by (simp add: deriveRiskLevel_def)
qed

end
