(* ===== verification/TurnkeyAttestation.thy ===== *)
theory TurnkeyAttestation
  imports EventAnalytics
begin

text \<open>
  The types of \<open>sdk/kit/src/tee/types.ts\<close> and \<open>tee/wallet-types.ts\<close>, and the attestation verifier of
  \<open>tee/providers/turnkey.ts\<close>: the boot proof (a COSE_Sign1 document signed under a certificate chain that ends
  at the AWS Nitro root), the PCR3 check and the optional app proof.

  CBOR decoding (\<open>cbor-x\<close>), X.509 and ECDSA (\<open>node:crypto\<close>) and the address encoder are the fields of
  \<open>tee_platform\<close>; what the source does with their answers is written out, down to the conversion of a raw
  signature to DER. A property of a wallet object answers every read alike, by a value or by throwing.
\<close>

section \<open>Types\<close>

datatype TeeProvider = Crossmint | Turnkey | Privy

fun provider_name :: "TeeProvider \<Rightarrow> string" where
  "provider_name Crossmint = ''crossmint''"
| "provider_name Turnkey = ''turnkey''"
| "provider_name Privy = ''privy''"

datatype AttestationStatus = CryptographicallyVerified | ProviderVerified | ProviderTrusted | Failed | Unavailable

fun status_text :: "AttestationStatus \<Rightarrow> string" where
  "status_text CryptographicallyVerified = ''cryptographically_verified''"
| "status_text ProviderVerified = ''provider_verified''"
| "status_text ProviderTrusted = ''provider_trusted''"
| "status_text Failed = ''failed''"
| "status_text Unavailable = ''unavailable''"

record NitroPcrValues =
  pcr0 :: "string option"
  pcr1 :: "string option"
  pcr2 :: "string option"
  pcr3 :: "string option"

datatype RawAttestation =
    IntrospectionFailed RedactedCause
  | CustodyApiError bool RedactedCause

record AttestationMetadata =
  am_provider :: TeeProvider
  am_enclaveType :: "string option"
  am_pcrValues :: "NitroPcrValues option"
  am_certChainLength :: "nat option"
  am_verifiedAt :: msecs
  am_rawAttestation :: "RawAttestation option"

record AttestationResult =
  ar_status :: AttestationStatus
  ar_provider :: TeeProvider
  ar_publicKey :: string
  ar_metadata :: AttestationMetadata
  ar_message :: string

datatype AttestationLevel = LevelProviderTrusted | LevelProviderVerified | LevelCryptographic

text \<open>A callback is present or absent; what it does is not visible to the dispatcher, which swallows its throws.\<close>

record AttestationConfig =
  cf_requireAttestation :: "bool option"
  cf_cacheTtlMs :: "js_number option"
  cf_onVerified :: bool
  cf_onDegraded :: bool
  cf_expectedPcr3 :: "string option"
  cf_minAttestationLevel :: "AttestationLevel option"

definition no_config :: AttestationConfig where
  "no_config = \<lparr>cf_requireAttestation = None, cf_cacheTtlMs = None, cf_onVerified = False, cf_onDegraded = False,
     cf_expectedPcr3 = None, cf_minAttestationLevel = None\<rparr>"

text \<open>The three error classes, all instances of the first; and any other thrown value.\<close>

datatype TeeAttestationError =
    TeeError string "AttestationResult option"
  | CertChainError string
  | PcrMismatchError nat string string

datatype tee_throw = TeeThrow TeeAttestationError | RawThrow jsv

definition tee_fail :: "string \<Rightarrow> (tee_throw, 'a) result" where
  "tee_fail message = Inl (TeeThrow (TeeError message None))"

definition cert_fail :: "string \<Rightarrow> (tee_throw, 'a) result" where
  "cert_fail message = Inl (TeeThrow (CertChainError message))"

definition raw_result :: "(jsv, 'a) result \<Rightarrow> (tee_throw, 'a) result" where
  "raw_result x = (case x of Inl e \<Rightarrow> Inl (RawThrow e) | Inr a \<Rightarrow> Inr a)"

datatype 'a wallet_method = NoMethod | GetterThrows jsv | Method 'a

datatype attestation_answer = Bundle jsv | Rejects jsv | RejectsTee TeeAttestationError | TimesOut

record TeeWallet =
  w_publicKey :: "(jsv, jsv) result"
  w_provider :: "(jsv, jsv) result option"
  w_verifyProviderCustody :: "(jsv, jsv) result wallet_method"
  w_getAttestation :: "attestation_answer wallet_method"

section \<open>Decoded CBOR and the platform\<close>

text \<open>
  A decoded item as \<open>cbor-x\<close> hands it out. \<open>CborNum None\<close> is NaN, an infinity counts as some non-zero number; only
  numeric keys of a \<open>Map\<close> are ever looked up, and the entries of an object stand in the order of
  \<open>Object.entries\<close>.
\<close>

datatype cbor =
    CborUndefined
  | CborNull
  | CborBool bool
  | CborNum "rat option"
  | CborText string
  | CborBytes bytes
  | CborArr "cbor list"
  | CborMap "(int \<times> cbor) list"
  | CborObj "(string \<times> cbor) list"
  | CborTag int cbor

fun cbor_truthy :: "cbor \<Rightarrow> bool" where
  "cbor_truthy CborUndefined = False"
| "cbor_truthy CborNull = False"
| "cbor_truthy (CborBool b) = b"
| "cbor_truthy (CborNum n) = (n \<noteq> None \<and> n \<noteq> Some 0)"
| "cbor_truthy (CborText s) = (s \<noteq> [])"
| "cbor_truthy _ = True"

text \<open>An own property of an object, and a property read, which throws on \<open>null\<close> and \<open>undefined\<close>.\<close>

fun cbor_member :: "cbor \<Rightarrow> string \<Rightarrow> cbor option" where
  "cbor_member (CborObj ps) k = map_of ps k"
| "cbor_member (CborTag t v) k =
     (if k = ''value'' then Some v else if k = ''tag'' then Some (CborNum (Some (of_int t))) else None)"
| "cbor_member _ k = None"

definition type_error :: "string \<Rightarrow> jsv" where
  "type_error message = JsObj TypeErrorClass [(''message'', JsStr message)]"

definition cbor_get :: "cbor \<Rightarrow> string \<Rightarrow> (jsv, cbor) result" where
  "cbor_get v k =
     (case v of
        CborNull \<Rightarrow> Inl (type_error (''Cannot read properties of null (reading '' @ [CHR 0x27] @ k @ [CHR 0x27] @ '')''))
      | CborUndefined \<Rightarrow> Inl (type_error (''Cannot read properties of undefined (reading '' @ [CHR 0x27] @ k @ [CHR 0x27] @ '')''))
      | _ \<Rightarrow> Inr (case cbor_member v k of Some x \<Rightarrow> x | None \<Rightarrow> CborUndefined))"

text \<open>
  What the source calls outside the repository. \<open>tp_base64\<close> is \<open>Buffer.from(s, "base64")\<close> on strings that are not
  well-formed base64, \<open>tp_bufferFrom\<close> is \<open>Buffer.from(v)\<close> on values that are not byte strings, \<open>tp_Date\<close> is
  \<open>new Date(text)\<close>, \<open>None\<close> when the text is no date.
\<close>

record ('c, 'k) tee_platform =
  tp_cborDecode :: "bytes \<Rightarrow> (jsv, cbor) result"
  tp_cborEncode :: "cbor \<Rightarrow> bytes"
  tp_String :: "cbor \<Rightarrow> string"
  tp_bufferFrom :: "cbor \<Rightarrow> (jsv, bytes) result"
  tp_base64 :: "string \<Rightarrow> bytes"
  tp_X509 :: "string \<Rightarrow> (jsv, 'c) result"
  tp_checkIssued :: "'c \<Rightarrow> 'c \<Rightarrow> bool"
  tp_certKey :: "'c \<Rightarrow> 'k"
  tp_certVerify :: "'c \<Rightarrow> 'k \<Rightarrow> bool"
  tp_validFrom :: "'c \<Rightarrow> string"
  tp_validTo :: "'c \<Rightarrow> string"
  tp_Date :: "string \<Rightarrow> msecs option"
  tp_verify :: "string \<Rightarrow> bytes \<Rightarrow> 'k \<Rightarrow> bytes \<Rightarrow> bool"
  tp_createPublicKey :: "bytes \<Rightarrow> (jsv, 'k) result"
  tp_addressBytes :: "string \<Rightarrow> (jsv, bytes) result"

definition buffer_base64 :: "('c, 'k) tee_platform \<Rightarrow> string \<Rightarrow> bytes" where
  "buffer_base64 env s = (case atob s of Some bs \<Rightarrow> bs | None \<Rightarrow> tp_base64 env s)"

definition buffer_from :: "('c, 'k) tee_platform \<Rightarrow> cbor \<Rightarrow> (jsv, bytes) result" where
  "buffer_from env v = (case v of CborBytes bs \<Rightarrow> Inr bs | _ \<Rightarrow> tp_bufferFrom env v)"

text \<open>\<open>Buffer.from(s, "hex")\<close> reads pairs of hexadecimal digits and stops at the first that is none.\<close>

fun buffer_hex :: "string \<Rightarrow> bytes" where
  "buffer_hex (a # b # cs) =
     (if is_hex_digit a \<and> is_hex_digit b then (hex_val a * 16 + hex_val b) # buffer_hex cs else [])"
| "buffer_hex _ = []"

text \<open>
  The clock of a call: the cache read, \<open>new Date()\<close> in turn \<open>i\<close> of the chain loop, the stamp of the result and
  the cache write.
\<close>

record tee_clock =
  tk_read :: msecs
  tk_cert :: "nat \<Rightarrow> msecs"
  tk_verified :: msecs
  tk_store :: msecs

section \<open>Raw signatures as DER\<close>

fun strip_leading_zeros :: "bytes \<Rightarrow> bytes" where
  "strip_leading_zeros (a # b # bs) = (if a = 0 then strip_leading_zeros (b # bs) else a # b # bs)"
| "strip_leading_zeros bs = bs"

definition encodeInt :: "bytes \<Rightarrow> bytes" where
  "encodeInt val =
     (let v = strip_leading_zeros val;
          content = (if v \<noteq> [] \<and> hd v \<ge> 128 then 0 # v else v)
      in 2 # length content mod 256 # content)"

definition rawSigToDer :: "bytes \<Rightarrow> nat \<Rightarrow> (tee_throw, bytes) result" where
  "rawSigToDer rawSig curveByteLen =
     (if length rawSig \<noteq> curveByteLen * 2
      then tee_fail (''Invalid raw ECDSA signature: expected '' @ show_nat (curveByteLen * 2) @ '' bytes, got ''
             @ show_nat (length rawSig))
      else
        let rDer = encodeInt (take curveByteLen rawSig);
            sDer = encodeInt (drop curveByteLen rawSig);
            seqLen = length rDer + length sDer;
            header = (if seqLen < 128 then [48, seqLen] else [48, 129, seqLen mod 256])
        in Inr (header @ rDer @ sDer))"

section \<open>COSE_Sign1\<close>

record CoseSign1 =
  cs_protectedHeaders :: bytes
  cs_unprotectedHeaders :: "(int option \<times> cbor) list"
  cs_payload :: bytes
  cs_signature :: bytes

definition cose_elements :: "('c, 'k) tee_platform \<Rightarrow> cbor \<Rightarrow> (tee_throw, cbor list) result" where
  "cose_elements env decoded =
     (case decoded of
        CborArr arr \<Rightarrow> Inr arr
      | _ \<Rightarrow>
          (case cbor_member decoded ''value'' of
             Some (CborArr arr) \<Rightarrow>
               (case cbor_member decoded ''tag'' of
                  Some t \<Rightarrow>
                    if t \<noteq> CborNum (Some 18)
                    then tee_fail (''Invalid COSE tag: expected 18 (COSE_Sign1), got '' @ tp_String env t)
                    else Inr arr
                | None \<Rightarrow> Inr arr)
           | _ \<Rightarrow> tee_fail ''Invalid COSE_Sign1: expected 4-element array''))"

definition assertByteString :: "cbor \<Rightarrow> string \<Rightarrow> (tee_throw, bytes) result" where
  "assertByteString val name =
     (case val of
        CborBytes bs \<Rightarrow> Inr bs
      | _ \<Rightarrow> tee_fail (''Invalid COSE_Sign1: '' @ name @ '' must be a byte string''))"

text \<open>\<open>parseInt(k, 10)\<close>, \<open>None\<close> for NaN.\<close>

definition parse_int10 :: "string \<Rightarrow> int option" where
  "parse_int10 s =
     (let t = dropWhile is_js_space s;
          (neg, body) = (case t of
              c # cs \<Rightarrow> if c = CHR ''-'' then (True, cs) else if c = CHR ''+'' then (False, cs) else (False, t)
            | [] \<Rightarrow> (False, t));
          ds = takeWhile is_digit body
      in if ds = [] then None else Some (if neg then - int (dec_val ds) else int (dec_val ds)))"

text \<open>
  The headers as the \<open>Map\<close> is filled: a \<open>Map\<close> as it is, the entries of any other object with their keys read as
  numbers (array and byte string entries have their indices for keys).
\<close>

definition unprotected_headers :: "cbor \<Rightarrow> (int option \<times> cbor) list" where
  "unprotected_headers v =
     (case v of
        CborMap ps \<Rightarrow> rev (map (\<lambda>(k, x). (Some k, x)) ps)
      | CborObj ps \<Rightarrow> map (\<lambda>(k, x). (parse_int10 k, x)) ps
      | CborArr vs \<Rightarrow> map (\<lambda>i. (Some (int i), vs ! i)) [0 ..< length vs]
      | CborBytes bs \<Rightarrow> map (\<lambda>i. (Some (int i), CborNum (Some (of_nat (bs ! i))))) [0 ..< length bs]
      | CborTag t x \<Rightarrow> [(None, x), (None, CborNum (Some (of_int t)))]
      | _ \<Rightarrow> [])"

text \<open>\<open>Map.prototype.get\<close>: the value set last for the key.\<close>

definition cose_header :: "(int option \<times> cbor) list \<Rightarrow> int \<Rightarrow> cbor option" where
  "cose_header hs k = map_of (rev hs) (Some k)"

definition decodeCoseSign1 :: "('c, 'k) tee_platform \<Rightarrow> bytes \<Rightarrow> (tee_throw, CoseSign1) result" where
  "decodeCoseSign1 env cborBytes =
     rbind (raw_result (tp_cborDecode env cborBytes)) (\<lambda>decoded.
     rbind (cose_elements env decoded) (\<lambda>arr.
       if length arr \<noteq> 4
       then tee_fail (''Invalid COSE_Sign1: expected 4 elements, got '' @ show_nat (length arr))
       else
         rbind (assertByteString (arr ! 0) ''protected_headers'') (\<lambda>protectedHeaders.
         rbind (assertByteString (arr ! 2) ''payload'') (\<lambda>payload.
         rbind (assertByteString (arr ! 3) ''signature'') (\<lambda>signature.
           Inr \<lparr>cs_protectedHeaders = protectedHeaders, cs_unprotectedHeaders = unprotected_headers (arr ! 1),
                cs_payload = payload, cs_signature = signature\<rparr>)))))"

definition buildSigStructure :: "('c, 'k) tee_platform \<Rightarrow> bytes \<Rightarrow> bytes \<Rightarrow> bytes" where
  "buildSigStructure env protectedHeaders payload =
     tp_cborEncode env (CborArr [CborText ''Signature1'', CborBytes protectedHeaders, CborBytes [], CborBytes payload])"

section \<open>Certificate chain\<close>

text \<open>The lines of \<open>.match(/.{1,64}/g)\<close>; it answers \<open>null\<close> on an empty text, on which \<open>join\<close> throws.\<close>

fun lines64 :: "string \<Rightarrow> string list" where
  "lines64 [] = []"
| "lines64 (c # cs) = take 64 (c # cs) # lines64 (drop 64 (c # cs))"

definition cert_pem :: "bytes \<Rightarrow> (tee_throw, string) result" where
  "cert_pem certDer =
     (if certDer = []
      then Inl (RawThrow (type_error (''Cannot read properties of null (reading '' @ [CHR 0x27] @ ''join'' @ [CHR 0x27] @ '')'')))
      else Inr (''-----BEGIN CERTIFICATE-----'' @ [CHR 0x0A] @ join_lines (lines64 (btoa certDer)) @ [CHR 0x0A]
                @ ''-----END CERTIFICATE-----''))"

definition outside_validity :: "('c, 'k) tee_platform \<Rightarrow> msecs \<Rightarrow> 'c \<Rightarrow> bool" where
  "outside_validity env now cert \<longleftrightarrow>
     (case tp_Date env (tp_validFrom env cert) of Some a \<Rightarrow> now < a | None \<Rightarrow> False)
     \<or> (case tp_Date env (tp_validTo env cert) of Some b \<Rightarrow> now > b | None \<Rightarrow> False)"

fun chain_loop :: "('c, 'k) tee_platform \<Rightarrow> (nat \<Rightarrow> msecs) \<Rightarrow> 'c \<Rightarrow> nat \<Rightarrow> 'c list \<Rightarrow> (tee_throw, unit) result" where
  "chain_loop env now rootCert i [] = Inr ()"
| "chain_loop env now rootCert i (cert # rest) =
     (let issuer = (case rest of c # _ \<Rightarrow> c | [] \<Rightarrow> rootCert)
      in if \<not> tp_checkIssued env cert issuer
         then cert_fail (''Certificate at index '' @ show_nat i @ '' was not issued by certificate at index ''
                @ show_nat (i + 1))
         else if \<not> tp_certVerify env cert (tp_certKey env issuer)
         then cert_fail (''Certificate signature verification failed at chain index '' @ show_nat i)
         else if outside_validity env (now i) cert
         then cert_fail (''Certificate at index '' @ show_nat i @ '' is outside its validity period ('' @ tp_validFrom env cert
                @ '' to '' @ tp_validTo env cert @ '')'')
         else chain_loop env now rootCert (i + 1) rest)"

definition validateCertChain ::
  "('c, 'k) tee_platform \<Rightarrow> string \<Rightarrow> (nat \<Rightarrow> msecs) \<Rightarrow> bytes list \<Rightarrow> (tee_throw, 'c) result" where
  "validateCertChain env rootCaPem now certs =
     (if certs = [] then cert_fail ''Empty certificate chain''
      else
        rbind (rmap (\<lambda>certDer. rbind (cert_pem certDer) (\<lambda>pem. raw_result (tp_X509 env pem))) certs) (\<lambda>x509Certs.
        rbind (raw_result (tp_X509 env rootCaPem)) (\<lambda>rootCert.
        rbind (chain_loop env now rootCert 0 x509Certs) (\<lambda>_.
          if \<not> tp_checkIssued env (last x509Certs) rootCert \<or> \<not> tp_certVerify env (last x509Certs) (tp_certKey env rootCert)
          then cert_fail ''Certificate chain does not terminate at the AWS Nitro Root CA''
          else Inr (hd x509Certs)))))"

definition x5chain_certs :: "cbor option \<Rightarrow> (tee_throw, bytes list) result" where
  "x5chain_certs x5chain =
     (case x5chain of
        Some (CborArr cs) \<Rightarrow>
          rmap (\<lambda>i. case cs ! i of
                    CborBytes bs \<Rightarrow> Inr bs
                  | _ \<Rightarrow> cert_fail (''x5chain entry at index '' @ show_nat i @ '' is not a byte string'')) [0 ..< length cs]
      | _ \<Rightarrow> cert_fail ''No x5chain (key 33) in COSE_Sign1 unprotected headers'')"

section \<open>PCR values and the app proof\<close>

fun cbor_index :: "cbor \<Rightarrow> nat \<Rightarrow> cbor" where
  "cbor_index (CborMap ps) i = (case map_of ps (int i) of Some x \<Rightarrow> x | None \<Rightarrow> CborUndefined)"
| "cbor_index (CborObj ps) i = (case map_of ps (show_nat i) of Some x \<Rightarrow> x | None \<Rightarrow> CborUndefined)"
| "cbor_index (CborArr vs) i = (if i < length vs then vs ! i else CborUndefined)"
| "cbor_index (CborBytes bs) i = (if i < length bs then CborNum (Some (of_nat (bs ! i))) else CborUndefined)"
| "cbor_index (CborText s) i = (if i < length s then CborText [s ! i] else CborUndefined)"
| "cbor_index _ i = CborUndefined"

definition pcr_hex :: "('c, 'k) tee_platform \<Rightarrow> cbor \<Rightarrow> nat \<Rightarrow> (jsv, string option) result" where
  "pcr_hex env pcrs i =
     (let val = cbor_index pcrs i
      in if cbor_truthy val then rbind (buffer_from env val) (\<lambda>bs. Inr (Some (bytesToHex bs))) else Inr None)"

definition extractPcrValues :: "('c, 'k) tee_platform \<Rightarrow> cbor \<Rightarrow> (jsv, NitroPcrValues) result" where
  "extractPcrValues env attestationDoc =
     rbind (cbor_get attestationDoc ''pcrs'') (\<lambda>pcrs.
       if \<not> cbor_truthy pcrs then Inr \<lparr>pcr0 = None, pcr1 = None, pcr2 = None, pcr3 = None\<rparr>
       else
         rbind (pcr_hex env pcrs 0) (\<lambda>p0. rbind (pcr_hex env pcrs 1) (\<lambda>p1.
         rbind (pcr_hex env pcrs 2) (\<lambda>p2. rbind (pcr_hex env pcrs 3) (\<lambda>p3.
           Inr \<lparr>pcr0 = p0, pcr1 = p1, pcr2 = p2, pcr3 = p3\<rparr>)))))"

definition check_pcr3 :: "AttestationConfig \<Rightarrow> NitroPcrValues \<Rightarrow> (tee_throw, unit) result" where
  "check_pcr3 config pcrValues =
     (if truthy (cf_expectedPcr3 config)
      then
        let expected = the (cf_expectedPcr3 config)
        in if \<not> truthy (pcr3 pcrValues) then Inl (TeeThrow (PcrMismatchError 3 expected ''<absent>''))
           else if toLowerCase (the (pcr3 pcrValues)) \<noteq> toLowerCase expected
           then Inl (TeeThrow (PcrMismatchError 3 expected (the (pcr3 pcrValues))))
           else Inr ()
      else Inr ())"

definition P256_SPKI_HEADER :: bytes where
  "P256_SPKI_HEADER = buffer_hex ''3059301306072a8648ce3d020106082a8648ce3d030107034200''"

definition hasAppProof :: "jsv \<Rightarrow> bool" where
  "hasAppProof bundle \<longleftrightarrow> js_get bundle ''appSignature'' \<noteq> JsUndefined \<and> js_get bundle ''appPublicKey'' \<noteq> JsUndefined"

definition boot_key_present :: "('c, 'k) tee_platform \<Rightarrow> cbor \<Rightarrow> (jsv, bool) result" where
  "boot_key_present env bootPublicKeyBytes =
     (if \<not> cbor_truthy bootPublicKeyBytes then Inr False
      else rbind (buffer_from env bootPublicKeyBytes) (\<lambda>bs. Inr (bs \<noteq> [])))"

definition verify_app_signature ::
  "('c, 'k) tee_platform \<Rightarrow> string \<Rightarrow> string \<Rightarrow> string \<Rightarrow> (tee_throw, unit) result" where
  "verify_app_signature env publicKey appSignature appPublicKey =
     (let appPubKeyBytes = buffer_hex appPublicKey
      in if length appPubKeyBytes \<noteq> 65
         then tee_fail (''Invalid app public key: expected 65 bytes (uncompressed P-256), got '' @ show_nat (length appPubKeyBytes))
         else
           rbind (raw_result (tp_addressBytes env publicKey)) (\<lambda>walletPubKeyBytes.
           rbind (raw_result (tp_createPublicKey env (P256_SPKI_HEADER @ appPubKeyBytes))) (\<lambda>keyObj.
             if tp_verify env ''SHA256'' walletPubKeyBytes keyObj (buffer_hex appSignature) then Inr ()
             else tee_fail ''App proof P-256 signature verification failed'')))"

definition verify_app_proof ::
  "('c, 'k) tee_platform \<Rightarrow> string \<Rightarrow> jsv \<Rightarrow> cbor \<Rightarrow> (tee_throw, unit) result" where
  "verify_app_proof env publicKey bundle bootPublicKeyBytes =
     (if \<not> hasAppProof bundle then Inr ()
      else
        rbind (raw_result (boot_key_present env bootPublicKeyBytes)) (\<lambda>present.
          if \<not> present
          then tee_fail (''App proof provided but attestation document lacks public_key '' @ long_dash @ '' cannot bind enclave to wallet'')
          else if \<not> js_truthy (js_get bundle ''appSignature'') \<or> \<not> js_truthy (js_get bundle ''appPublicKey'')
          then tee_fail (''App proof fields present but empty '' @ long_dash @ '' possible attestation tampering'')
          else (case (js_get bundle ''appSignature'', js_get bundle ''appPublicKey'') of
                  (JsStr appSignature, JsStr appPublicKey) \<Rightarrow> verify_app_signature env publicKey appSignature appPublicKey
                | _ \<Rightarrow> tee_fail ''Invalid attestation bundle: appSignature and appPublicKey must be strings'')))"

section \<open>verifyTurnkey\<close>

definition MAX_ATTESTATION_BYTES :: nat where "MAX_ATTESTATION_BYTES = 64 * 1024"

text \<open>The body of the second \<open>try\<close>: the PCR values and the length of the chain.\<close>

definition verify_bundle ::
  "('c, 'k) tee_platform \<Rightarrow> string \<Rightarrow> tee_clock \<Rightarrow> AttestationConfig \<Rightarrow> string \<Rightarrow> jsv
     \<Rightarrow> (tee_throw, NitroPcrValues \<times> nat) result" where
  "verify_bundle env rootCaPem clk config publicKey bundle =
     (case js_get bundle ''bootProof'' of
        JsStr bootProof \<Rightarrow>
          if bootProof = [] then tee_fail ''Invalid attestation bundle: bootProof must be a non-empty base64 string''
          else
            let bootBytes = buffer_base64 env bootProof
            in if length bootBytes > MAX_ATTESTATION_BYTES
               then tee_fail (''Boot proof exceeds maximum size ('' @ show_nat (length bootBytes) @ '' > ''
                      @ show_nat MAX_ATTESTATION_BYTES @ '' bytes)'')
               else
                 rbind (decodeCoseSign1 env bootBytes) (\<lambda>cose.
                 rbind (x5chain_certs (cose_header (cs_unprotectedHeaders cose) 33)) (\<lambda>certBuffers.
                 rbind (validateCertChain env rootCaPem (tk_cert clk) certBuffers) (\<lambda>signingCert.
                 rbind (rawSigToDer (cs_signature cose) 48) (\<lambda>derSig.
                   if \<not> tp_verify env ''SHA384'' (buildSigStructure env (cs_protectedHeaders cose) (cs_payload cose))
                          (tp_certKey env signingCert) derSig
                   then tee_fail ''COSE_Sign1 signature verification failed''
                   else
                     rbind (raw_result (tp_cborDecode env (cs_payload cose))) (\<lambda>attestationDoc.
                     rbind (raw_result (extractPcrValues env attestationDoc)) (\<lambda>pcrValues.
                     rbind (check_pcr3 config pcrValues) (\<lambda>_.
                     rbind (raw_result (cbor_get attestationDoc ''public_key'')) (\<lambda>bootPublicKeyBytes.
                     rbind (verify_app_proof env publicKey bundle bootPublicKeyBytes) (\<lambda>_.
                       Inr (pcrValues, length certBuffers))))))))))
      | _ \<Rightarrow> tee_fail ''Invalid attestation bundle: bootProof must be a non-empty base64 string'')"

definition cause_text :: "RedactedCause \<Rightarrow> string" where
  "cause_text cause =
     (case rc_message cause of
        Some m \<Rightarrow> m
      | None \<Rightarrow> (case rc_name cause of
                    Some n \<Rightarrow> n
                  | None \<Rightarrow> (case rc_code cause of Some c \<Rightarrow> c | None \<Rightarrow> ''unknown'')))"

definition turnkey_result ::
  "tee_clock \<Rightarrow> string \<Rightarrow> AttestationStatus \<Rightarrow> RawAttestation option \<Rightarrow> string \<Rightarrow> AttestationResult" where
  "turnkey_result clk publicKey status raw message =
     \<lparr>ar_status = status, ar_provider = Turnkey, ar_publicKey = publicKey,
      ar_metadata = \<lparr>am_provider = Turnkey, am_enclaveType = Some ''nitro'', am_pcrValues = None, am_certChainLength = None,
                     am_verifiedAt = tk_verified clk, am_rawAttestation = raw\<rparr>,
      ar_message = message\<rparr>"

definition turnkey_verified ::
  "tee_clock \<Rightarrow> string \<Rightarrow> NitroPcrValues \<times> nat \<Rightarrow> AttestationResult" where
  "turnkey_verified clk publicKey proof =
     \<lparr>ar_status = CryptographicallyVerified, ar_provider = Turnkey, ar_publicKey = publicKey,
      ar_metadata = \<lparr>am_provider = Turnkey, am_enclaveType = Some ''nitro'', am_pcrValues = Some (fst proof),
                     am_certChainLength = Some (snd proof), am_verifiedAt = tk_verified clk, am_rawAttestation = None\<rparr>,
      ar_message = ''Turnkey attestation cryptographically verified: COSE_Sign1 P-384 signature valid, cert chain trusted, ''
        @ ''PCR values checked.''\<rparr>"

definition verifyTurnkey ::
  "('c, 'k) tee_platform \<Rightarrow> string \<Rightarrow> tee_clock \<Rightarrow> AttestationConfig \<Rightarrow> string \<Rightarrow> TeeWallet
     \<Rightarrow> (tee_throw, AttestationResult) result" where
  "verifyTurnkey env rootCaPem clk config publicKey wallet =
     (case w_getAttestation wallet of
        GetterThrows e \<Rightarrow> Inl (RawThrow e)
      | NoMethod \<Rightarrow>
          Inr (turnkey_result clk publicKey Unavailable None
            (''Turnkey wallet does not expose getAttestation() '' @ long_dash @ '' cannot verify enclave identity. ''
             @ ''Pass a wallet with getAttestation() for cryptographic verification.''))
      | Method TimesOut \<Rightarrow> tee_fail ''Turnkey getAttestation() timed out after 30s''
      | Method (RejectsTee e) \<Rightarrow> Inl (TeeThrow e)
      | Method (Rejects err) \<Rightarrow>
          let transport = isTransportError err; cause = redactCause err
          in Inr (turnkey_result clk publicKey Failed (Some (CustodyApiError transport cause))
               (if transport
                then ''Turnkey attestation fetch failed: transport error reaching the attestation API. Retry after network recovery.''
                else ''Turnkey attestation fetch failed: '' @ cause_text cause))
      | Method (Bundle bundle) \<Rightarrow>
          if \<not> js_truthy bundle
          then Inr (turnkey_result clk publicKey Unavailable None
                 (''Turnkey getAttestation() returned null '' @ long_dash @ '' cannot verify enclave identity.''))
          else (case verify_bundle env rootCaPem clk config publicKey bundle of
                  Inr proof \<Rightarrow> Inr (turnkey_verified clk publicKey proof)
                | Inl (TeeThrow e) \<Rightarrow> Inl (TeeThrow e)
                | Inl (RawThrow err) \<Rightarrow>
                    tee_fail (''Turnkey attestation verification failed: '' @ cause_text (redactCause err))))"

section \<open>DER signatures\<close>

text \<open>A strict reader of DER: minimal non-negative integers, and a sequence of exactly two of them.\<close>

definition be_value :: "bytes \<Rightarrow> nat" where
  "be_value bs = foldl (\<lambda>acc b. acc * 256 + b) 0 bs"

fun der_integer :: "bytes \<Rightarrow> (nat \<times> bytes) option" where
  "der_integer (t # n # rest) =
     (if t = 2 \<and> 0 < n \<and> n < 128 \<and> n \<le> length rest \<and> hd rest < 128 \<and> \<not> (1 < n \<and> hd rest = 0 \<and> rest ! 1 < 128)
      then Some (be_value (take n rest), drop n rest) else None)"
| "der_integer _ = None"

fun der_signature :: "bytes \<Rightarrow> (nat \<times> nat) option" where
  "der_signature (t # n # rest) =
     (if t = 48 \<and> n < 128 \<and> n = length rest
      then (case der_integer rest of
              Some (r, rest') \<Rightarrow> (case der_integer rest' of Some (s, []) \<Rightarrow> Some (r, s) | _ \<Rightarrow> None)
            | None \<Rightarrow> None)
      else None)"
| "der_signature _ = None"

lemma be_value_zero [simp]: "be_value (0 # bs) = be_value bs"
  by (simp add: be_value_def)

lemma strip_leading_zeros_keeps:
  "be_value (strip_leading_zeros bs) = be_value bs" "strip_leading_zeros bs = [] \<longleftrightarrow> bs = []"
  "length (strip_leading_zeros bs) \<le> length bs"
  by (induction bs rule: strip_leading_zeros.induct) (auto simp: le_Suc_eq)

lemma strip_leading_zeros_minimal: "1 < length (strip_leading_zeros bs) \<Longrightarrow> hd (strip_leading_zeros bs) \<noteq> 0"
  by (induction bs rule: strip_leading_zeros.induct) (auto split: if_splits)

lemma length_encodeInt: "bs \<noteq> [] \<Longrightarrow> length bs \<le> 48 \<Longrightarrow> length (encodeInt bs) \<le> 51"
  using strip_leading_zeros_keeps(3) [of bs] by (simp add: encodeInt_def Let_def)

lemma encodeInt_read:
  assumes "bs \<noteq> []" "length bs \<le> 48"
  shows "der_integer (encodeInt bs @ rest) = Some (be_value bs, rest)"
proof -
  obtain b v where v: "strip_leading_zeros bs = b # v" using strip_leading_zeros_keeps(2) [of bs] assms(1) by (cases "strip_leading_zeros bs") auto
  have len: "length v < 48" using strip_leading_zeros_keeps(3) [of bs] assms(2) v by simp
  have nz: "v \<noteq> [] \<Longrightarrow> b \<noteq> 0" using strip_leading_zeros_minimal [of bs] v by simp
  have "be_value (b # v) = be_value bs" using strip_leading_zeros_keeps(1) [of bs] v by simp
  then show ?thesis using len nz by (auto simp: encodeInt_def Let_def v)
qed

lemma raw_signature_der_roundtrip:
  assumes "length sig = 96"
  shows "\<exists>der. rawSigToDer sig 48 = Inr der \<and> der_signature der = Some (be_value (take 48 sig), be_value (drop 48 sig))"
proof -
  have "take 48 sig \<noteq> []" "drop 48 sig \<noteq> []" using assms by auto
  then have "length (encodeInt (take 48 sig)) \<le> 51" "length (encodeInt (drop 48 sig)) \<le> 51"
    "der_integer (encodeInt (take 48 sig) @ encodeInt (drop 48 sig)) = Some (be_value (take 48 sig), encodeInt (drop 48 sig))"
    "der_integer (encodeInt (drop 48 sig)) = Some (be_value (drop 48 sig), [])"
    using assms length_encodeInt [of "take 48 sig"] length_encodeInt [of "drop 48 sig"] encodeInt_read [of "take 48 sig"]
      encodeInt_read [of "drop 48 sig" "[]"] by simp_all
  then show ?thesis using assms by (simp add: rawSigToDer_def Let_def)
qed

lemma tee_fail_not_Inr [simp]: "tee_fail m \<noteq> Inr a" "cert_fail m \<noteq> Inr b"
  by (simp_all add: tee_fail_def cert_fail_def)

lemma raw_result_eq_Inr [simp]: "raw_result x = Inr a \<longleftrightarrow> x = Inr a"
  by (cases x) (simp_all add: raw_result_def)

lemma tee_guard_eq_Inr [simp]: "(if b then tee_fail m else x) = Inr a \<longleftrightarrow> \<not> b \<and> x = Inr a"
  by simp

section \<open>Verified bundles\<close>

text \<open>Every certificate is issued and signed by the next one, the last by the root, and all are in date.\<close>

definition chain_ok :: "('c, 'k) tee_platform \<Rightarrow> (nat \<Rightarrow> msecs) \<Rightarrow> 'c \<Rightarrow> 'c list \<Rightarrow> bool" where
  "chain_ok env now rootCert certs \<longleftrightarrow>
     (\<forall>i < length certs.
        let cert = certs ! i; issuer = (certs @ [rootCert]) ! Suc i
        in tp_checkIssued env cert issuer \<and> tp_certVerify env cert (tp_certKey env issuer) \<and> \<not> outside_validity env (now i) cert)"

lemma chain_loop_exact:
  "chain_loop env now rootCert k certs = Inr () \<longleftrightarrow> chain_ok env (\<lambda>i. now (k + i)) rootCert certs"
proof (induction certs arbitrary: k)
  case (Cons cert rest)
  have "(case rest of c # _ \<Rightarrow> c | [] \<Rightarrow> rootCert) = (rest @ [rootCert]) ! 0" by (cases rest) simp_all
  then show ?case
    unfolding chain_ok_def using Cons.IH [of "Suc k"]
    by (auto simp: chain_ok_def Let_def cert_fail_def All_less_Suc2)
qed (simp add: chain_ok_def)

definition parsed_certs :: "('c, 'k) tee_platform \<Rightarrow> bytes list \<Rightarrow> (tee_throw, 'c list) result" where
  "parsed_certs env ders = rmap (\<lambda>der. rbind (cert_pem der) (\<lambda>pem. raw_result (tp_X509 env pem))) ders"

lemma validateCertChain_exact:
  "validateCertChain env rootCaPem now ders = Inr leaf \<longleftrightarrow>
     ders \<noteq> [] \<and> (\<exists>certs rootCert. parsed_certs env ders = Inr certs \<and> tp_X509 env rootCaPem = Inr rootCert
       \<and> chain_ok env now rootCert certs \<and> leaf = hd certs)"
proof (cases "parsed_certs env ders")
  case (Inr certs)
  show ?thesis
  proof (cases "tp_X509 env rootCaPem")
    case root: (Inr rootCert)
    have "chain_ok env now rootCert certs \<Longrightarrow> certs \<noteq> [] \<Longrightarrow>
        tp_checkIssued env (last certs) rootCert \<and> tp_certVerify env (last certs) (tp_certKey env rootCert)"
      unfolding chain_ok_def by (drule spec [of _ "length certs - 1"]) (auto simp: Let_def last_conv_nth nth_append)
    moreover have "ders \<noteq> [] \<Longrightarrow> certs \<noteq> []" using rmap_Inr_length [OF Inr [unfolded parsed_certs_def]] by auto
    ultimately show ?thesis
      using Inr root chain_loop_exact [of env now rootCert 0 certs]
      by (auto simp: validateCertChain_def parsed_certs_def raw_result_def rbind_def cert_fail_def split: sum.splits)
  qed (use Inr in \<open>auto simp: validateCertChain_def parsed_certs_def raw_result_def rbind_def cert_fail_def\<close>)
qed (auto simp: validateCertChain_def parsed_certs_def rbind_def cert_fail_def)

definition pcr3_matches :: "AttestationConfig \<Rightarrow> NitroPcrValues \<Rightarrow> bool" where
  "pcr3_matches config pcrs \<longleftrightarrow>
     (truthy (cf_expectedPcr3 config) \<longrightarrow>
        (\<exists>p. pcr3 pcrs = Some p \<and> p \<noteq> [] \<and> toLowerCase p = toLowerCase (the (cf_expectedPcr3 config))))"

lemma check_pcr3_exact: "check_pcr3 config pcrs = Inr () \<longleftrightarrow> pcr3_matches config pcrs"
  by (cases "pcr3 pcrs") (auto simp: check_pcr3_def pcr3_matches_def Let_def truthy_def)

text \<open>
  An app proof, when there is one, is a signature over the bytes of the wallet's address that verifies under the P-256
  key the bundle itself carries.
\<close>

definition app_proof_ok :: "('c, 'k) tee_platform \<Rightarrow> string \<Rightarrow> jsv \<Rightarrow> cbor \<Rightarrow> bool" where
  "app_proof_ok env publicKey bundle doc \<longleftrightarrow>
     (hasAppProof bundle \<longrightarrow>
        (\<exists>sig key w k. rbind (cbor_get doc ''public_key'') (boot_key_present env) = Inr True
           \<and> js_get bundle ''appSignature'' = JsStr sig \<and> sig \<noteq> [] \<and> js_get bundle ''appPublicKey'' = JsStr key
           \<and> length (buffer_hex key) = 65 \<and> tp_addressBytes env publicKey = Inr w
           \<and> tp_createPublicKey env (P256_SPKI_HEADER @ buffer_hex key) = Inr k
           \<and> tp_verify env ''SHA256'' w k (buffer_hex sig)))"

lemma verify_app_signature_exact:
  "verify_app_signature env publicKey sig key = Inr () \<longleftrightarrow>
     length (buffer_hex key) = 65
     \<and> (\<exists>w k. tp_addressBytes env publicKey = Inr w \<and> tp_createPublicKey env (P256_SPKI_HEADER @ buffer_hex key) = Inr k
          \<and> tp_verify env ''SHA256'' w k (buffer_hex sig))"
  by (auto simp: verify_app_signature_def Let_def raw_result_def rbind_def tee_fail_def split: sum.splits)

lemma verify_app_proof_exact:
  assumes "cbor_get doc ''public_key'' = Inr boot"
  shows "verify_app_proof env publicKey bundle boot = Inr () \<longleftrightarrow> app_proof_ok env publicKey bundle doc"
proof (cases "hasAppProof bundle \<and> boot_key_present env boot = Inr True")
  case True
  have "buffer_hex [] = []" by simp
  then show ?thesis
    using True assms verify_app_signature_exact
    by (cases "js_get bundle ''appSignature''"; cases "js_get bundle ''appPublicKey''")
       (auto simp: verify_app_proof_def app_proof_ok_def raw_result_def tee_fail_def rbind_def)
next
  case False
  then show ?thesis
    using assms by (auto simp: verify_app_proof_def app_proof_ok_def raw_result_def tee_fail_def rbind_def split: sum.splits)
qed

lemma verify_bundle_exact:
  "verify_bundle env rootCaPem clk config publicKey bundle = Inr (pcrs, n) \<longleftrightarrow>
     (\<exists>bootProof cose ders leaf der doc.
        js_get bundle ''bootProof'' = JsStr bootProof \<and> bootProof \<noteq> []
        \<and> length (buffer_base64 env bootProof) \<le> MAX_ATTESTATION_BYTES
        \<and> decodeCoseSign1 env (buffer_base64 env bootProof) = Inr cose
        \<and> x5chain_certs (cose_header (cs_unprotectedHeaders cose) 33) = Inr ders \<and> n = length ders
        \<and> validateCertChain env rootCaPem (tk_cert clk) ders = Inr leaf
        \<and> rawSigToDer (cs_signature cose) 48 = Inr der
        \<and> tp_verify env ''SHA384'' (buildSigStructure env (cs_protectedHeaders cose) (cs_payload cose)) (tp_certKey env leaf) der
        \<and> tp_cborDecode env (cs_payload cose) = Inr doc \<and> extractPcrValues env doc = Inr pcrs
        \<and> pcr3_matches config pcrs \<and> app_proof_ok env publicKey bundle doc)"
proof (cases "js_get bundle ''bootProof''")
  case (JsStr bootProof)
  have "extractPcrValues env doc = Inr p \<Longrightarrow> \<exists>boot. cbor_get doc ''public_key'' = Inr boot" for doc p
    by (auto simp: extractPcrValues_def cbor_get_def split: cbor.splits)
  then have app: "extractPcrValues env doc = Inr p \<Longrightarrow> app_proof_ok env publicKey bundle doc \<Longrightarrow>
      \<exists>boot. cbor_get doc ''public_key'' = Inr boot \<and> verify_app_proof env publicKey bundle boot = Inr ()" for doc p
    using verify_app_proof_exact by blast
  show ?thesis
    unfolding verify_bundle_def JsStr
    by (auto simp: Let_def check_pcr3_exact not_less verify_app_proof_exact intro!: app)
qed (simp_all add: verify_bundle_def)

text \<open>
  C40. A Turnkey wallet is reported as cryptographically verified exactly when its bundle holds a boot proof of at most
  64 KB that decodes, whose certificates chain to the root in date, whose signature verifies under the leaf
  certificate, whose PCR3 is the expected one if one is expected, and whose app proof verifies if there is one.
\<close>

theorem turnkey_verified_exact:
  "(\<exists>r. verifyTurnkey env rootCaPem clk config publicKey wallet = Inr r \<and> ar_status r = CryptographicallyVerified) \<longleftrightarrow>
   (\<exists>bundle bootProof cose ders certs rootCert der doc pcrs.
      w_getAttestation wallet = Method (Bundle bundle)
      \<and> js_get bundle ''bootProof'' = JsStr bootProof \<and> bootProof \<noteq> []
      \<and> length (buffer_base64 env bootProof) \<le> 65536
      \<and> decodeCoseSign1 env (buffer_base64 env bootProof) = Inr cose
      \<and> x5chain_certs (cose_header (cs_unprotectedHeaders cose) 33) = Inr ders \<and> ders \<noteq> []
      \<and> parsed_certs env ders = Inr certs \<and> tp_X509 env rootCaPem = Inr rootCert
      \<and> chain_ok env (tk_cert clk) rootCert certs
      \<and> rawSigToDer (cs_signature cose) 48 = Inr der
      \<and> tp_verify env ''SHA384'' (buildSigStructure env (cs_protectedHeaders cose) (cs_payload cose))
          (tp_certKey env (hd certs)) der
      \<and> tp_cborDecode env (cs_payload cose) = Inr doc \<and> extractPcrValues env doc = Inr pcrs
      \<and> pcr3_matches config pcrs \<and> app_proof_ok env publicKey bundle doc)"
  (is "?lhs \<longleftrightarrow> ?rhs")
proof -
  have "?lhs \<longleftrightarrow> (\<exists>bundle proof. w_getAttestation wallet = Method (Bundle bundle) \<and> js_truthy bundle
      \<and> verify_bundle env rootCaPem clk config publicKey bundle = Inr proof)"
    by (auto simp: verifyTurnkey_def turnkey_result_def turnkey_verified_def Let_def
        split: wallet_method.splits attestation_answer.splits sum.splits tee_throw.splits)
  also have "\<dots> \<longleftrightarrow> (\<exists>bundle pcrs n. w_getAttestation wallet = Method (Bundle bundle)
      \<and> verify_bundle env rootCaPem clk config publicKey bundle = Inr (pcrs, n))"
  proof -
    have "verify_bundle env rootCaPem clk config publicKey b = Inr ev \<Longrightarrow> js_truthy b" for b ev
      by (cases b) (simp_all add: verify_bundle_def js_get_def js_prop_def)
    then show ?thesis by force
  qed
  also have "\<dots> \<longleftrightarrow> ?rhs"
    unfolding verify_bundle_exact validateCertChain_exact MAX_ATTESTATION_BYTES_def by (simp, blast)
  finally show ?thesis .
qed

text \<open>
  Nothing ties the attested enclave to the wallet. Without an app proof the verdict does not read the public key at
  all; with one, the boot document's own key only has to be there, and the key that signs is the bundle's.
\<close>

lemma no_app_proof [simp]: "\<not> hasAppProof b \<Longrightarrow> verify_app_proof env publicKey b boot = Inr ()"
  by (simp add: verify_app_proof_def)

lemma turnkey_key_not_bound:
  assumes "w_getAttestation wallet = Method (Bundle bundle)" "\<not> hasAppProof bundle"
    and "verifyTurnkey env rootCaPem clk config publicKey wallet = Inr r" "ar_status r = CryptographicallyVerified"
  shows "verifyTurnkey env rootCaPem clk config otherKey wallet = Inr (r\<lparr>ar_publicKey := otherKey\<rparr>)"
proof -
  have "verify_bundle env rootCaPem clk config otherKey bundle = verify_bundle env rootCaPem clk config publicKey bundle"
    using assms(2) by (cases "js_get bundle ''bootProof''") (simp_all add: verify_bundle_def Let_def cong: if_cong)
  then show ?thesis
    using assms(1,3,4)
    by (auto simp: verifyTurnkey_def turnkey_result_def turnkey_verified_def split: sum.splits tee_throw.splits if_splits)
qed

lemma app_proof_ignores_boot_key:
  "boot_key_present env boot = Inr True \<Longrightarrow> boot_key_present env boot' = Inr True \<Longrightarrow>
     verify_app_proof env publicKey bundle boot' = verify_app_proof env publicKey bundle boot"
  by (simp add: verify_app_proof_def)

end
