(* ===== verification/TeeAttestation.thy ===== *)
theory TeeAttestation
  imports TurnkeyAttestation "HOL-Library.AList"
begin

text \<open>
  The dispatcher of \<open>sdk/kit/src/tee/verify.ts\<close> with its module state (the attestation cache of \<open>tee/cache.ts\<close>
  and the root certificate of \<open>tee/providers/turnkey.ts\<close>), and the managed providers of
  \<open>tee/providers/managed-verifier.ts\<close>.

  A call answers with a result or an error, and with the callbacks it fires in order; the state is passed
  explicitly. The clock of a call has one reading for each place that reads it. Expiry times are doubles.
\<close>

section \<open>Managed providers\<close>

record ManagedProviderConfig =
  mp_provider :: TeeProvider
  mp_enclaveType :: string
  mp_infrastructureDescription :: string

definition capitalize :: "string \<Rightarrow> string" where
  "capitalize s =
     (case s of
        [] \<Rightarrow> []
      | c # cs \<Rightarrow> (if 97 \<le> (of_char c :: nat) \<and> (of_char c :: nat) \<le> 122 then char_of (of_char c - 32 :: nat) else c) # cs)"

definition managed_result ::
  "ManagedProviderConfig \<Rightarrow> tee_clock \<Rightarrow> string \<Rightarrow> AttestationStatus \<Rightarrow> string option \<Rightarrow> RawAttestation option \<Rightarrow> string
     \<Rightarrow> AttestationResult" where
  "managed_result mp clk publicKey status enclave raw message =
     \<lparr>ar_status = status, ar_provider = mp_provider mp, ar_publicKey = publicKey,
      ar_metadata = \<lparr>am_provider = mp_provider mp, am_enclaveType = enclave, am_pcrValues = None, am_certChainLength = None,
                     am_verifiedAt = tk_verified clk, am_rawAttestation = raw\<rparr>,
      ar_message = message\<rparr>"

definition createManagedVerifier ::
  "ManagedProviderConfig \<Rightarrow> tee_clock \<Rightarrow> string \<Rightarrow> TeeWallet \<Rightarrow> (tee_throw, AttestationResult) result" where
  "createManagedVerifier mp clk publicKey wallet =
     (let name = capitalize (provider_name (mp_provider mp))
      in case w_verifyProviderCustody wallet of
           GetterThrows e \<Rightarrow> Inl (RawThrow e)
         | Method (Inr custody) \<Rightarrow>
             if js_truthy custody
             then Inr (managed_result mp clk publicKey ProviderVerified (Some (mp_enclaveType mp)) None
                    (name @ '' wallet custody verified via API '' @ long_dash @ '' address matches TEE-managed key.''))
             else Inr (managed_result mp clk publicKey Failed None None
                    (name @ '' custody verification failed: address mismatch.''))
         | Method (Inl err) \<Rightarrow>
             let transport = isTransportError err; cause = redactCause err
             in Inr (managed_result mp clk publicKey Failed (Some (mp_enclaveType mp)) (Some (CustodyApiError transport cause))
                  (if transport
                   then name @ '' custody verification failed: transport error reaching the custody API. Retry after network recovery.''
                   else name @ '' custody verification failed: unexpected error from custody API. Cause: '' @ cause_text cause))
         | NoMethod \<Rightarrow>
             Inr (managed_result mp clk publicKey ProviderTrusted (Some (mp_enclaveType mp)) None
               (name @ '' wallet trusted via managed '' @ mp_infrastructureDescription mp @ ''. Custody verification unavailable ''
                @ long_dash @ '' implement verifyProviderCustody() for ProviderVerified status.'')))"

definition verifyCrossmint :: "tee_clock \<Rightarrow> string \<Rightarrow> TeeWallet \<Rightarrow> (tee_throw, AttestationResult) result" where
  "verifyCrossmint = createManagedVerifier
     \<lparr>mp_provider = Crossmint, mp_enclaveType = ''tdx'', mp_infrastructureDescription = ''Intel TDX infrastructure''\<rparr>"

definition verifyPrivy :: "tee_clock \<Rightarrow> string \<Rightarrow> TeeWallet \<Rightarrow> (tee_throw, AttestationResult) result" where
  "verifyPrivy = createManagedVerifier
     \<lparr>mp_provider = Privy, mp_enclaveType = ''nitro'', mp_infrastructureDescription = ''AWS Nitro Enclave infrastructure''\<rparr>"

section \<open>tee/cache.ts\<close>

record CacheEntry =
  ce_result :: AttestationResult
  ce_expiresAt :: rat

text \<open>A JavaScript \<open>Map\<close> keeps insertion order; setting a key that is there keeps its place.\<close>

record AttestationCache =
  tc_cache :: "(string \<times> CacheEntry) list"
  tc_ttlMs :: rat
  tc_maxEntries :: rat

definition DEFAULT_CACHE_TTL_MS :: rat where "DEFAULT_CACHE_TTL_MS = 3600000"

definition MAX_CACHE_ENTRIES :: rat where "MAX_CACHE_ENTRIES = 1000"

definition positive_or :: "rat \<Rightarrow> js_number \<Rightarrow> rat" where
  "positive_or d n = (case n of Some x \<Rightarrow> if x > 0 then x else d | None \<Rightarrow> d)"

definition new_AttestationCache :: "js_number \<Rightarrow> js_number \<Rightarrow> AttestationCache" where
  "new_AttestationCache ttlMs maxEntries =
     \<lparr>tc_cache = [], tc_ttlMs = positive_or DEFAULT_CACHE_TTL_MS ttlMs, tc_maxEntries = positive_or MAX_CACHE_ENTRIES maxEntries\<rparr>"

definition cache_get :: "msecs \<Rightarrow> string \<Rightarrow> AttestationCache \<Rightarrow> AttestationResult option \<times> AttestationCache" where
  "cache_get now publicKey c =
     (case map_of (tc_cache c) publicKey of
        None \<Rightarrow> (None, c)
      | Some entry \<Rightarrow>
          if of_int now \<ge> ce_expiresAt entry then (None, c\<lparr>tc_cache := AList.delete publicKey (tc_cache c)\<rparr>)
          else (Some (ce_result entry), c))"

definition cache_set :: "msecs \<Rightarrow> string \<Rightarrow> AttestationResult \<Rightarrow> js_number option \<Rightarrow> AttestationCache \<Rightarrow> AttestationCache" where
  "cache_set now publicKey res ttlMs c =
     (let kept = (if of_nat (length (tc_cache c)) \<ge> tc_maxEntries c \<and> map_of (tc_cache c) publicKey = None
                  then tl (tc_cache c) else tc_cache c);
          effectiveTtl = (case ttlMs of Some n \<Rightarrow> positive_or (tc_ttlMs c) n | None \<Rightarrow> tc_ttlMs c)
      in c\<lparr>tc_cache := AList.update publicKey \<lparr>ce_result = res, ce_expiresAt = dbl (of_int now + effectiveTtl)\<rparr> kept\<rparr>)"

definition cache_delete :: "string \<Rightarrow> AttestationCache \<Rightarrow> bool \<times> AttestationCache" where
  "cache_delete publicKey c =
     (map_of (tc_cache c) publicKey \<noteq> None, c\<lparr>tc_cache := AList.delete publicKey (tc_cache c)\<rparr>)"

definition deleteByPrefix :: "string \<Rightarrow> AttestationCache \<Rightarrow> nat \<times> AttestationCache" where
  "deleteByPrefix pre c =
     (length (filter (\<lambda>(k, _). startsWith k pre) (tc_cache c)),
      c\<lparr>tc_cache := filter (\<lambda>(k, _). \<not> startsWith k pre) (tc_cache c)\<rparr>)"

definition cache_clear :: "AttestationCache \<Rightarrow> AttestationCache" where
  "cache_clear c = c\<lparr>tc_cache := []\<rparr>"

definition cache_size :: "AttestationCache \<Rightarrow> nat" where
  "cache_size c = length (tc_cache c)"

section \<open>Module state\<close>

record tee_state =
  ts_cache :: AttestationCache
  ts_rootCaPem :: string

definition AWS_NITRO_ROOT_CA_PEM :: string where
  "AWS_NITRO_ROOT_CA_PEM = join_lines
    [''-----BEGIN CERTIFICATE-----'',
     ''MIICETCCAZagAwIBAgIRAPkxdWgbkK/hHUbMtOTn+FYwCgYIKoZIzj0EAwMwSTEL'',
     ''MAkGA1UEBhMCVVMxDzANBgNVBAoMBkFtYXpvbjEMMAoGA1UECwwDQVdTMRswGQYD'',
     ''VQQDDBJhd3Mubml0cm8tZW5jbGF2ZXMwHhcNMTkxMDI4MTMyODA1WhcNNDkxMDI4'',
     ''MTQyODA1WjBJMQswCQYDVQQGEwJVUzEPMA0GA1UECgwGQW1hem9uMQwwCgYDVQQL'',
     ''DANBV1MxGzAZBgNVBAMMEmF3cy5uaXRyby1lbmNsYXZlczB2MBAGByqGSM49AgEG'',
     ''BSuBBAAiA2IABPwCVOumCMHzaHDimtqQvkY4MpJzbolL//Zy2YlES1BR5TSksfbb'',
     ''48C8WBoyt7F2Bw7eEtaaP+ohG2bnUs990d0JX28TcPQXCEPZ3BABIeTPYwEoCWZE'',
     ''h8l5YoQwTcU/9KNCMEAwDwYDVR0TAQH/BAUwAwEB/zAdBgNVHQ4EFgQUkCW1DdkF'',
     ''R+eWw5b6cp3PmanfS5YwDgYDVR0PAQH/BAQDAgGGMAoGCCqGSM49BAMDA2kAMGYC'',
     ''MQCjfy+Rocm9Xue4YnwWmNJVA44fA0P5W2OpYow9OYCVRaEevL8uO1XYru5xtMPW'',
     ''rfMCMQCi85sWBbJwKKXdS6BptQFuZbT73o/gBh1qUxl/nNr12UO8Yfwr6wPLb+6N'',
     ''IwLz3/Y='',
     ''-----END CERTIFICATE-----'']"

definition initial_tee_state :: tee_state where
  "initial_tee_state = \<lparr>ts_cache = new_AttestationCache (Some DEFAULT_CACHE_TTL_MS) (Some MAX_CACHE_ENTRIES),
     ts_rootCaPem = AWS_NITRO_ROOT_CA_PEM\<rparr>"

text \<open>\<open>NODE_ENV\<close> is \<open>None\<close> without a \<open>process\<close>.\<close>

definition setTestRootCa :: "string option \<Rightarrow> string \<Rightarrow> tee_state \<Rightarrow> (jsv, tee_state) result" where
  "setTestRootCa nodeEnv pem st =
     (if nodeEnv \<noteq> Some ''test''
      then Inl (js_error_of ''setTestRootCa() is only available in test environments (NODE_ENV=test)'')
      else Inr (st\<lparr>ts_rootCaPem := pem\<rparr>))"

definition restoreProductionRootCa :: "tee_state \<Rightarrow> tee_state" where
  "restoreProductionRootCa st = st\<lparr>ts_rootCaPem := AWS_NITRO_ROOT_CA_PEM\<rparr>"

section \<open>tee/verify.ts\<close>

definition VALID_TEE_PROVIDERS :: "string list" where
  "VALID_TEE_PROVIDERS = [''crossmint'', ''privy'', ''turnkey'']"

definition isTeeWallet :: "TeeWallet \<Rightarrow> (jsv, bool) result" where
  "isTeeWallet wallet =
     (case w_provider wallet of
        None \<Rightarrow> Inr False
      | Some (Inl e) \<Rightarrow> Inl e
      | Some (Inr (JsStr p)) \<Rightarrow> Inr (p \<in> set VALID_TEE_PROVIDERS)
      | Some (Inr _) \<Rightarrow> Inr False)"

definition detectProvider :: "TeeWallet \<Rightarrow> (jsv, TeeProvider option) result" where
  "detectProvider wallet =
     rbind (isTeeWallet wallet) (\<lambda>tee.
       if \<not> tee then Inr None
       else (case w_provider wallet of
               Some (Inr (JsStr p)) \<Rightarrow>
                 let provider = toLowerCase p
                 in Inr (if provider = ''crossmint'' then Some Crossmint
                         else if provider = ''turnkey'' then Some Turnkey
                         else if provider = ''privy'' then Some Privy
                         else None)
             | _ \<Rightarrow> Inr None))"

definition readWalletIdentity :: "TeeWallet \<Rightarrow> (jsv, string \<times> TeeProvider option) result" where
  "readWalletIdentity wallet =
     rbind (w_publicKey wallet) (\<lambda>key.
       case key of
         JsStr publicKey \<Rightarrow>
           if publicKey = [] then Inl (js_error_of ''wallet.publicKey is not a non-empty string'')
           else rbind (detectProvider wallet) (\<lambda>detected. Inr (publicKey, detected))
       | _ \<Rightarrow> Inl (js_error_of ''wallet.publicKey is not a non-empty string''))"

fun levelOrder :: "AttestationLevel \<Rightarrow> nat" where
  "levelOrder LevelProviderTrusted = 0"
| "levelOrder LevelProviderVerified = 1"
| "levelOrder LevelCryptographic = 2"

fun level_text :: "AttestationLevel \<Rightarrow> string" where
  "level_text LevelProviderTrusted = ''provider_trusted''"
| "level_text LevelProviderVerified = ''provider_verified''"
| "level_text LevelCryptographic = ''cryptographic''"

fun statusToLevel :: "AttestationStatus \<Rightarrow> nat option" where
  "statusToLevel ProviderTrusted = Some 0"
| "statusToLevel ProviderVerified = Some 1"
| "statusToLevel CryptographicallyVerified = Some 2"
| "statusToLevel _ = None"

definition attestationStatusMeetsLevel :: "AttestationStatus \<Rightarrow> AttestationLevel \<Rightarrow> bool" where
  "attestationStatusMeetsLevel status level =
     (case statusToLevel status of None \<Rightarrow> False | Some l \<Rightarrow> l \<ge> levelOrder level)"

definition isVerifiedStatus :: "AttestationStatus \<Rightarrow> bool" where
  "isVerifiedStatus status \<longleftrightarrow> status \<in> {CryptographicallyVerified, ProviderVerified, ProviderTrusted}"

definition CACHE_KEY_DELIMITER :: char where "CACHE_KEY_DELIMITER = CHR ''|''"

definition cache_key :: "AttestationConfig \<Rightarrow> string \<Rightarrow> string" where
  "cache_key config publicKey =
     (if truthy (cf_expectedPcr3 config)
      then publicKey @ [CACHE_KEY_DELIMITER] @ ''pcr3='' @ the (cf_expectedPcr3 config)
      else publicKey)"

datatype tee_callback = OnVerified AttestationResult | OnDegraded AttestationResult

definition degraded_call :: "AttestationConfig \<Rightarrow> AttestationResult \<Rightarrow> tee_callback list" where
  "degraded_call config res = (if cf_onDegraded config then [OnDegraded res] else [])"

definition verified_call :: "AttestationConfig \<Rightarrow> AttestationResult \<Rightarrow> tee_callback list" where
  "verified_call config res = (if cf_onVerified config then [OnVerified res] else [])"

definition requires :: "AttestationConfig \<Rightarrow> bool" where
  "requires config = (case cf_requireAttestation config of Some b \<Rightarrow> b | None \<Rightarrow> True)"

definition no_provider_result :: "tee_clock \<Rightarrow> string \<Rightarrow> AttestationResult" where
  "no_provider_result clk publicKey =
     \<lparr>ar_status = Unavailable, ar_provider = Crossmint, ar_publicKey = publicKey,
      ar_metadata = \<lparr>am_provider = Crossmint, am_enclaveType = None, am_pcrValues = None, am_certChainLength = None,
                     am_verifiedAt = tk_verified clk, am_rawAttestation = None\<rparr>,
      ar_message = ''Wallet does not expose a recognized TEE provider.''\<rparr>"

definition unreadable_result :: "tee_clock \<Rightarrow> jsv \<Rightarrow> AttestationResult" where
  "unreadable_result clk err =
     \<lparr>ar_status = Failed, ar_provider = Crossmint, ar_publicKey = ''<unreadable>'',
      ar_metadata = \<lparr>am_provider = Crossmint, am_enclaveType = None, am_pcrValues = None, am_certChainLength = None,
                     am_verifiedAt = tk_verified clk, am_rawAttestation = Some (IntrospectionFailed (redactCause err))\<rparr>,
      ar_message = ''Wallet rejected attestation introspection '' @ long_dash @ '' `publicKey` or `provider` getter threw. ''
        @ ''This indicates a hostile or buggy wallet adapter.''\<rparr>"

text \<open>Steps 2 and 3: the provider's verifier.\<close>

definition verify_provider ::
  "('c, 'k) tee_platform \<Rightarrow> string \<Rightarrow> tee_clock \<Rightarrow> AttestationConfig \<Rightarrow> string \<Rightarrow> TeeProvider option \<Rightarrow> TeeWallet
     \<Rightarrow> (tee_throw, AttestationResult) result" where
  "verify_provider env rootCaPem clk config publicKey detected wallet =
     (case detected of
        None \<Rightarrow> Inr (no_provider_result clk publicKey)
      | Some Crossmint \<Rightarrow> verifyCrossmint clk publicKey wallet
      | Some Privy \<Rightarrow> verifyPrivy clk publicKey wallet
      | Some Turnkey \<Rightarrow> verifyTurnkey env rootCaPem clk config publicKey wallet)"

text \<open>Steps 1 to 4: the cache around the verifier.\<close>

definition attest ::
  "('c, 'k) tee_platform \<Rightarrow> tee_clock \<Rightarrow> AttestationConfig \<Rightarrow> string \<Rightarrow> TeeProvider option \<Rightarrow> TeeWallet
     \<Rightarrow> tee_state \<Rightarrow> (tee_throw, AttestationResult) result \<times> tee_state" where
  "attest env clk config publicKey detected wallet st =
     (let cacheTtlMs = (case cf_cacheTtlMs config of Some n \<Rightarrow> n | None \<Rightarrow> Some DEFAULT_CACHE_TTL_MS);
          useCache = (case cacheTtlMs of Some x \<Rightarrow> x > 0 | None \<Rightarrow> False);
          key = cache_key config publicKey;
          (hit, c) = (if useCache then cache_get (tk_read clk) key (ts_cache st) else (None, ts_cache st))
      in case hit of
           Some res \<Rightarrow> (Inr res, st\<lparr>ts_cache := c\<rparr>)
         | None \<Rightarrow>
             (case verify_provider env (ts_rootCaPem st) clk config publicKey detected wallet of
                Inl e \<Rightarrow> (Inl e, st\<lparr>ts_cache := c\<rparr>)
              | Inr res \<Rightarrow>
                  (Inr res, st\<lparr>ts_cache := (if useCache \<and> isVerifiedStatus (ar_status res)
                                           then cache_set (tk_store clk) key res (Some cacheTtlMs) c else c)\<rparr>)))"

text \<open>Step 5: what the dispatcher does with a result.\<close>

definition tee_verdict :: "AttestationConfig \<Rightarrow> AttestationResult \<Rightarrow> (tee_throw, AttestationResult) result \<times> tee_callback list" where
  "tee_verdict config res =
     (let isVerified = isVerifiedStatus (ar_status res);
          effectiveMinLevel = (case cf_minAttestationLevel config of
              Some l \<Rightarrow> Some l
            | None \<Rightarrow> if requires config then Some LevelProviderVerified else None)
      in if requires config \<and> \<not> isVerified
         then (Inl (TeeThrow (TeeError
                 (''TEE attestation required but verification '' @ status_text (ar_status res) @ '': '' @ ar_message res
                  @ '' Set `requireAttestation: false` with an `onDegraded` callback to proceed without verification.'') (Some res))),
               degraded_call config res)
         else (case effectiveMinLevel of
                 Some l \<Rightarrow>
                   if \<not> attestationStatusMeetsLevel (ar_status res) l
                   then (Inl (TeeThrow (TeeError
                           (''Attestation level '' @ status_text (ar_status res) @ '' does not meet minimum required level: ''
                            @ level_text l) (Some res))),
                         degraded_call config res)
                   else (Inr res, if isVerified then verified_call config res else degraded_call config res)
               | None \<Rightarrow> (Inr res, if isVerified then verified_call config res else degraded_call config res)))"

definition verifyTeeAttestation ::
  "('c, 'k) tee_platform \<Rightarrow> tee_clock \<Rightarrow> TeeWallet \<Rightarrow> AttestationConfig \<Rightarrow> tee_state
     \<Rightarrow> ((tee_throw, AttestationResult) result \<times> tee_callback list) \<times> tee_state" where
  "verifyTeeAttestation env clk wallet config st =
     (if \<not> requires config \<and> \<not> cf_onDegraded config
      then ((tee_fail
              (''verifyTeeAttestation called with `requireAttestation: false` but no `onDegraded` callback. ''
               @ ''Omitting the callback is a silent-degradation vector '' @ long_dash
               @ '' supply `onDegraded` to observe degraded results, ''
               @ ''or remove `requireAttestation: false` to fail closed.''), []), st)
      else (case readWalletIdentity wallet of
              Inl err \<Rightarrow>
                let res = unreadable_result clk err
                in if requires config then ((Inl (TeeThrow (TeeError (ar_message res) (Some res))), []), st)
                   else ((Inr res, degraded_call config res), st)
            | Inr (publicKey, detected) \<Rightarrow>
                (case attest env clk config publicKey detected wallet st of
                   (Inl e, st') \<Rightarrow> ((Inl e, []), st')
                 | (Inr res, st') \<Rightarrow> (tee_verdict config res, st'))))"

definition clearAttestationCache :: "tee_state \<Rightarrow> tee_state" where
  "clearAttestationCache st = st\<lparr>ts_cache := cache_clear (ts_cache st)\<rparr>"

definition deleteFromAttestationCache :: "string \<Rightarrow> tee_state \<Rightarrow> bool \<times> tee_state" where
  "deleteFromAttestationCache publicKey st =
     (let (directDeleted, c) = cache_delete publicKey (ts_cache st);
          (prefixDeleted, c') = deleteByPrefix (publicKey @ '':'') c
      in (directDeleted \<or> prefixDeleted > 0, st\<lparr>ts_cache := c'\<rparr>))"

section \<open>Runs of the dispatcher\<close>

text \<open>
  Every sequence of calls, cache clearings, deletions and root changes, with the calls made so far: clock, wallet,
  configuration and the root certificate at the time.
\<close>

type_synonym tee_calls = "(tee_clock \<times> TeeWallet \<times> AttestationConfig \<times> string) list"

inductive tee_run :: "('c, 'k) tee_platform \<Rightarrow> tee_state \<Rightarrow> tee_calls \<Rightarrow> bool" for env where
  tee_start: "tee_run env initial_tee_state []"
| tee_call: "tee_run env st h \<Longrightarrow> verifyTeeAttestation env clk wallet config st = (out, st')
    \<Longrightarrow> tee_run env st' ((clk, wallet, config, ts_rootCaPem st) # h)"
| tee_clear: "tee_run env st h \<Longrightarrow> tee_run env (clearAttestationCache st) h"
| tee_delete: "tee_run env st h \<Longrightarrow> tee_run env (snd (deleteFromAttestationCache publicKey st)) h"
| tee_set_root: "tee_run env st h \<Longrightarrow> setTestRootCa nodeEnv pem st = Inr st' \<Longrightarrow> tee_run env st' h"
| tee_restore_root: "tee_run env st h \<Longrightarrow> tee_run env (restoreProductionRootCa st) h"

definition ttl_of :: "AttestationConfig \<Rightarrow> js_number" where
  "ttl_of config = (case cf_cacheTtlMs config of Some n \<Rightarrow> n | None \<Rightarrow> Some DEFAULT_CACHE_TTL_MS)"

text \<open>
  Where an entry comes from: one of the calls had this cache key, its provider's verifier answered with the result, which
  is verified, and the entry expires the configured time after it was stored.
\<close>

definition attested_by :: "('c, 'k) tee_platform \<Rightarrow> tee_calls \<Rightarrow> string \<Rightarrow> CacheEntry \<Rightarrow> bool" where
  "attested_by env h key entry \<longleftrightarrow>
     (\<exists>(clk, wallet, config, rootCaPem) \<in> set h. \<exists>publicKey detected x.
        readWalletIdentity wallet = Inr (publicKey, detected) \<and> cache_key config publicKey = key
        \<and> verify_provider env rootCaPem clk config publicKey detected wallet = Inr (ce_result entry)
        \<and> isVerifiedStatus (ar_status (ce_result entry))
        \<and> ttl_of config = Some x \<and> 0 < x \<and> ce_expiresAt entry = dbl (of_int (tk_store clk) + x))"

definition tee_cache_ok :: "('c, 'k) tee_platform \<Rightarrow> tee_calls \<Rightarrow> AttestationCache \<Rightarrow> bool" where
  "tee_cache_ok env h c \<longleftrightarrow>
     distinct (map fst (tc_cache c)) \<and> length (tc_cache c) \<le> 1000 \<and> tc_maxEntries c = 1000
     \<and> (\<forall>(key, entry) \<in> set (tc_cache c). attested_by env h key entry)"

lemma attested_by_mono: "attested_by env h key entry \<Longrightarrow> set h \<subseteq> set h' \<Longrightarrow> attested_by env h' key entry"
  unfolding attested_by_def by blast

lemma tee_cache_ok_sub:
  assumes "tee_cache_ok env h c" "set h \<subseteq> set h'" "set (tc_cache c') \<subseteq> set (tc_cache c)" "distinct (map fst (tc_cache c'))"
    "tc_maxEntries c' = tc_maxEntries c" "length (tc_cache c') \<le> length (tc_cache c)"
  shows "tee_cache_ok env h' c'"
  using assms attested_by_mono [of env h _ _ h'] by (fastforce simp: tee_cache_ok_def)

lemma tee_cache_ok_more: "tee_cache_ok env h c \<Longrightarrow> tee_cache_ok env (x # h) c"
  by (rule tee_cache_ok_sub [of env h c]) (auto simp: tee_cache_ok_def)

lemma cache_get_ok:
  "tee_cache_ok env h c \<Longrightarrow> set h \<subseteq> set h' \<Longrightarrow> tee_cache_ok env h' (snd (cache_get now key c))"
  by (rule tee_cache_ok_sub [of env h c]; assumption?)
     (auto simp: cache_get_def tee_cache_ok_def AList.delete_eq distinct_map_filter length_filter_le split: option.splits)

lemma length_update: "length (AList.update k v xs) = (if map_of xs k = None then Suc (length xs) else length xs)"
  by (induction xs) auto

lemma set_update_sub: "set (AList.update k v xs) \<subseteq> insert (k, v) (set xs)"
  by (induction xs) auto

lemma cache_set_ok:
  assumes "tee_cache_ok env h c"
    and "attested_by env h key \<lparr>ce_result = res, ce_expiresAt = dbl (of_int now + x)\<rparr>" "0 < x"
  shows "tee_cache_ok env h (cache_set now key res (Some (Some x)) c)"
proof -
  define kept where "kept = (if of_nat (length (tc_cache c)) \<ge> tc_maxEntries c \<and> map_of (tc_cache c) key = None
    then tl (tc_cache c) else tc_cache c)"
  let ?entry = "\<lparr>ce_result = res, ce_expiresAt = dbl (of_int now + x)\<rparr>"
  have max: "tc_maxEntries c = 1000" "length (tc_cache c) \<le> 1000" using assms(1) by (auto simp: tee_cache_ok_def)
  have kept: "distinct (map fst kept)" "set kept \<subseteq> set (tc_cache c)"
    using assms(1) by (auto simp: kept_def tee_cache_ok_def map_tl distinct_tl dest: list.set_sel(2) [rotated])
  have "map_of kept key = None \<Longrightarrow> length kept < 1000"
    using max by (cases "tc_cache c") (auto simp: kept_def split: if_splits)
  moreover have "length kept \<le> 1000" using max by (auto simp: kept_def)
  ultimately have len: "length (AList.update key ?entry kept) \<le> 1000" by (simp add: length_update Suc_le_eq)
  have "\<forall>(k, e) \<in> set (AList.update key ?entry kept). attested_by env h k e"
    using kept(2) set_update_sub [of key ?entry kept] assms(1,2) by (fastforce simp: tee_cache_ok_def)
  moreover have "cache_set now key res (Some (Some x)) c = c\<lparr>tc_cache := AList.update key ?entry kept\<rparr>"
    using assms(3) by (simp add: cache_set_def Let_def positive_or_def kept_def)
  ultimately show ?thesis
    using max kept(1) len by (simp add: tee_cache_ok_def AList.distinct_update)
qed

text \<open>What a call that reaches the verifier or the cache answers, and what it leaves behind.\<close>

lemma attest_cases:
  assumes "tee_cache_ok env h (ts_cache st)" "readWalletIdentity wallet = Inr (publicKey, detected)"
    and "attest env clk config publicKey detected wallet st = (out, st')"
  shows "tee_cache_ok env ((clk, wallet, config, ts_rootCaPem st) # h) (ts_cache st')" (is "tee_cache_ok env ?h _")
    and "out = Inr r \<Longrightarrow> verify_provider env (ts_rootCaPem st) clk config publicKey detected wallet = Inr r
      \<or> (\<exists>entry. attested_by env h (cache_key config publicKey) entry \<and> ce_result entry = r
            \<and> of_int (tk_read clk) < ce_expiresAt entry)"
proof -
  let ?key = "cache_key config publicKey"
  let ?use = "case ttl_of config of Some x \<Rightarrow> x > 0 | None \<Rightarrow> False"
  obtain hit c where hit: "(if ?use then cache_get (tk_read clk) ?key (ts_cache st) else (None, ts_cache st)) = (hit, c)" by fastforce
  have c: "tee_cache_ok env ?h c"
    using cache_get_ok [OF assms(1), of ?h "tk_read clk" ?key] tee_cache_ok_more [OF assms(1)] hit
    by (auto split: if_splits)
  have hit_ok: "hit = Some r \<Longrightarrow> \<exists>entry. attested_by env h ?key entry \<and> ce_result entry = r \<and> of_int (tk_read clk) < ce_expiresAt entry" for r
    using hit assms(1) by (fastforce simp: cache_get_def tee_cache_ok_def not_le dest: map_of_SomeD split: if_splits option.splits)
  have eq: "attest env clk config publicKey detected wallet st =
      (case hit of
         Some res \<Rightarrow> (Inr res, st\<lparr>ts_cache := c\<rparr>)
       | None \<Rightarrow>
           (case verify_provider env (ts_rootCaPem st) clk config publicKey detected wallet of
              Inl e \<Rightarrow> (Inl e, st\<lparr>ts_cache := c\<rparr>)
            | Inr res \<Rightarrow> (Inr res, st\<lparr>ts_cache := (if ?use \<and> isVerifiedStatus (ar_status res)
                                         then cache_set (tk_store clk) ?key res (Some (ttl_of config)) c else c)\<rparr>)))"
    using hit unfolding attest_def ttl_of_def [symmetric] by (simp add: Let_def)
  have set_ok: "tee_cache_ok env ?h (cache_set (tk_store clk) ?key res (Some (ttl_of config)) c)"
    if v: "verify_provider env (ts_rootCaPem st) clk config publicKey detected wallet = Inr res" "isVerifiedStatus (ar_status res)"
      and u: "?use" for res
  proof -
    obtain x where x: "ttl_of config = Some x" "0 < x" using u by (auto split: option.splits)
    then show ?thesis using cache_set_ok [OF c] v assms(2) by (auto simp: attested_by_def)
  qed
  show "tee_cache_ok env ?h (ts_cache st')" using assms(3) c set_ok unfolding eq by (auto split: option.splits sum.splits if_splits)
  show "out = Inr r \<Longrightarrow> verify_provider env (ts_rootCaPem st) clk config publicKey detected wallet = Inr r
      \<or> (\<exists>entry. attested_by env h ?key entry \<and> ce_result entry = r \<and> of_int (tk_read clk) < ce_expiresAt entry)"
    using assms(3) hit_ok unfolding eq by (auto split: option.splits sum.splits)
qed

lemma tee_run_cache: "tee_run env st h \<Longrightarrow> tee_cache_ok env h (ts_cache st)"
proof (induction rule: tee_run.induct)
  case (tee_call st h clk wallet config out st')
  show ?case
  proof (cases "readWalletIdentity wallet")
    case (Inr id)
    obtain o1 s1 where a: "attest env clk config (fst id) (snd id) wallet st = (o1, s1)" by fastforce
    have "st' = st \<or> st' = s1"
      using tee_call.hyps(2) Inr a
      by (auto simp: verifyTeeAttestation_def Let_def split: if_splits prod.splits sum.splits)
    then show ?thesis
      using attest_cases(1) [OF tee_call.IH _ a] Inr tee_cache_ok_more [OF tee_call.IH] by auto
  next
    case (Inl e)
    then have "st' = st" using tee_call.hyps(2) by (auto simp: verifyTeeAttestation_def Let_def split: if_splits)
    then show ?thesis using tee_cache_ok_more [OF tee_call.IH] by simp
  qed
next
  case (tee_delete st h publicKey)
  show ?case
    by (rule tee_cache_ok_sub [OF tee_delete.IH])
       (use tee_delete.IH in \<open>auto simp: deleteFromAttestationCache_def cache_delete_def deleteByPrefix_def Let_def AList.delete_eq
          tee_cache_ok_def distinct_map_filter intro: le_trans [OF length_filter_le]\<close>)
qed (auto simp: tee_cache_ok_def initial_tee_state_def new_AttestationCache_def positive_or_def MAX_CACHE_ENTRIES_def
     clearAttestationCache_def cache_clear_def setTestRootCa_def restoreProductionRootCa_def split: if_splits)

lemma requires_iff: "requires config \<longleftrightarrow> cf_requireAttestation config \<noteq> Some False"
  by (auto simp: requires_def split: option.splits)

lemma verdict_Inr:
  assumes "tee_verdict config r0 = (Inr r, calls)" "requires config \<or> cf_onDegraded config"
  shows "r = r0" "requires config \<Longrightarrow> isVerifiedStatus (ar_status r)"
    "calls = (if isVerifiedStatus (ar_status r) then verified_call config r else [OnDegraded r])"
    "attestationStatusMeetsLevel (ar_status r)
       (case cf_minAttestationLevel config of Some l \<Rightarrow> l | None \<Rightarrow> LevelProviderVerified)
     \<or> cf_minAttestationLevel config = None \<and> \<not> requires config"
  using assms by (auto simp: tee_verdict_def Let_def degraded_call_def split: if_splits option.splits)

text \<open>What a returned result went through, whatever the wallet.\<close>

lemma returned_result:
  assumes "tee_run env st h" "verifyTeeAttestation env clk wallet config st = ((Inr r, calls), st')"
    and "readWalletIdentity wallet = Inr (publicKey, detected)"
  shows "tee_verdict config r = (Inr r, calls)" "requires config \<or> cf_onDegraded config"
    "verify_provider env (ts_rootCaPem st) clk config publicKey detected wallet = Inr r
      \<or> (\<exists>entry. attested_by env h (cache_key config publicKey) entry \<and> ce_result entry = r
            \<and> of_int (tk_read clk) < ce_expiresAt entry)"
proof -
  obtain out s1 where a: "attest env clk config publicKey detected wallet st = (out, s1)" by fastforce
  show guard: "requires config \<or> cf_onDegraded config"
    using assms(2,3) a by (auto simp: verifyTeeAttestation_def tee_fail_def split: if_splits)
  have "\<exists>r0. out = Inr r0 \<and> tee_verdict config r0 = (Inr r, calls)"
    using assms(2,3) a by (auto simp: verifyTeeAttestation_def tee_fail_def split: if_splits prod.splits sum.splits)
  then have out: "out = Inr r" and v: "tee_verdict config r = (Inr r, calls)" using verdict_Inr(1) guard by auto
  from v show "tee_verdict config r = (Inr r, calls)" .
  show "verify_provider env (ts_rootCaPem st) clk config publicKey detected wallet = Inr r
      \<or> (\<exists>entry. attested_by env h (cache_key config publicKey) entry \<and> ce_result entry = r
            \<and> of_int (tk_read clk) < ce_expiresAt entry)"
    using attest_cases(2) [OF tee_run_cache [OF assms(1)] assms(3) a out] .
qed

text \<open>Two behaviours the documentation of the options says otherwise: the default level, and who hears of a trusted provider.\<close>

lemma default_level_provider_verified:
  assumes "tee_verdict config r = (Inr r, calls)" "cf_minAttestationLevel config = None" "requires config"
  shows "ar_status r \<in> {ProviderVerified, CryptographicallyVerified}"
  using assms by (cases "ar_status r") (auto simp: tee_verdict_def Let_def attestationStatusMeetsLevel_def split: if_splits)

lemma trusted_provider_not_degraded:
  assumes "tee_verdict config r = (Inr r, calls)" "ar_status r = ProviderTrusted"
  shows "calls = verified_call config r"
  using assms by (auto simp: tee_verdict_def Let_def isVerifiedStatus_def split: if_splits option.splits)

text \<open>A wallet that cannot be read is answered before the level is looked at.\<close>

lemma unreadable_ignores_level:
  assumes "readWalletIdentity wallet = Inl err" "cf_requireAttestation config = Some False" "cf_onDegraded config"
  shows "verifyTeeAttestation env clk wallet config st = ((Inr (unreadable_result clk err), [OnDegraded (unreadable_result clk err)]), st)"
  using assms by (simp add: verifyTeeAttestation_def requires_def degraded_call_def Let_def)

text \<open>
  C38. After any sequence of calls, a result returned for a wallet whose identity can be read: if the enclave or the
  provider verified it, \<open>onVerified\<close> heard of it once and \<open>onDegraded\<close> never; if it failed or is unavailable, the caller said
  \<open>requireAttestation: false\<close> and \<open>onDegraded\<close> heard of it once; it reaches the \<open>minAttestationLevel\<close> the caller set; and it is what the
  provider's verifier answers for this wallet now or answered in an earlier call with the same cache key whose time to
  live has not run out.
\<close>

theorem tee_attestation_gate:
  assumes "tee_run env st h" "verifyTeeAttestation env clk wallet config st = ((Inr r, calls), st')"
    and "readWalletIdentity wallet = Inr (publicKey, detected)"
  shows "(ar_status r \<in> {CryptographicallyVerified, ProviderVerified} \<longrightarrow>
         calls = (if cf_onVerified config then [OnVerified r] else []))
    \<and> (ar_status r \<in> {Failed, Unavailable} \<longrightarrow> cf_requireAttestation config = Some False \<and> calls = [OnDegraded r])
    \<and> (cf_minAttestationLevel config = Some LevelCryptographic \<longrightarrow> ar_status r = CryptographicallyVerified)
    \<and> (cf_minAttestationLevel config = Some LevelProviderVerified \<longrightarrow>
         ar_status r \<in> {CryptographicallyVerified, ProviderVerified})
    \<and> (cf_minAttestationLevel config = Some LevelProviderTrusted \<longrightarrow> ar_status r \<notin> {Failed, Unavailable})
    \<and> (verify_provider env (ts_rootCaPem st) clk config publicKey detected wallet = Inr r
       \<or> (\<exists>entry. attested_by env h (cache_key config publicKey) entry \<and> ce_result entry = r
             \<and> of_int (tk_read clk) < ce_expiresAt entry))"
proof -
  note ret = returned_result [OF assms]
  note v = verdict_Inr(2-4) [OF ret(1,2)]
  have "\<forall>l. cf_minAttestationLevel config = Some l \<longrightarrow> attestationStatusMeetsLevel (ar_status r) l" using v(3) by auto
  then show ?thesis
    using v(1,2) ret(3)
    by (cases "ar_status r") (auto simp: isVerifiedStatus_def requires_iff verified_call_def attestationStatusMeetsLevel_def)
qed


section \<open>Results belong to the wallet\<close>

lemma verify_provider_key:
  "verify_provider env rootCaPem clk config publicKey detected wallet = Inr r \<Longrightarrow> ar_publicKey r = publicKey"
  by (auto simp: verify_provider_def verifyCrossmint_def verifyPrivy_def createManagedVerifier_def verifyTurnkey_def
      managed_result_def turnkey_result_def turnkey_verified_def no_provider_result_def Let_def
      split: option.splits TeeProvider.splits wallet_method.splits attestation_answer.splits sum.splits tee_throw.splits if_splits)

lemma verify_provider_pcr3:
  assumes "verify_provider env rootCaPem clk config publicKey detected wallet = Inr r" "ar_status r = CryptographicallyVerified"
  shows "\<exists>pcrs. am_pcrValues (ar_metadata r) = Some pcrs \<and> pcr3_matches config pcrs"
proof -
  have "verifyTurnkey env rootCaPem clk config publicKey wallet = Inr r"
    using assms by (auto simp: verify_provider_def verifyCrossmint_def verifyPrivy_def createManagedVerifier_def
        managed_result_def no_provider_result_def Let_def
        split: option.splits TeeProvider.splits wallet_method.splits sum.splits if_splits)
  then obtain b pcrs n where "verify_bundle env rootCaPem clk config publicKey b = Inr (pcrs, n)"
    "r = turnkey_verified clk publicKey (pcrs, n)"
    using assms(2) by (auto simp: verifyTurnkey_def turnkey_result_def Let_def
        split: wallet_method.splits attestation_answer.splits sum.splits tee_throw.splits if_splits)
  then show ?thesis unfolding verify_bundle_exact by (auto simp: turnkey_verified_def)
qed

lemma cache_key_inj:
  assumes "cache_key config publicKey = cache_key config' publicKey'"
    and "CACHE_KEY_DELIMITER \<notin> set publicKey" "CACHE_KEY_DELIMITER \<notin> set publicKey'"
  shows "publicKey = publicKey' \<and> truthy (cf_expectedPcr3 config) = truthy (cf_expectedPcr3 config')
    \<and> (truthy (cf_expectedPcr3 config) \<longrightarrow> the (cf_expectedPcr3 config) = the (cf_expectedPcr3 config'))"
proof -
  have cut: "takeWhile (\<lambda>c. c \<noteq> CACHE_KEY_DELIMITER) (cache_key cfg k) = k
      \<and> dropWhile (\<lambda>c. c \<noteq> CACHE_KEY_DELIMITER) (cache_key cfg k) =
          (if truthy (cf_expectedPcr3 cfg) then [CACHE_KEY_DELIMITER] @ ''pcr3='' @ the (cf_expectedPcr3 cfg) else [])"
    if "CACHE_KEY_DELIMITER \<notin> set k" for cfg k
    using that by (auto simp: cache_key_def takeWhile_append dropWhile_append)
  show ?thesis using cut [OF assms(2), of config] cut [OF assms(3), of config'] assms(1) by (auto split: if_splits)
qed

lemma pcr3_matches_same:
  "truthy (cf_expectedPcr3 config) = truthy (cf_expectedPcr3 config') \<Longrightarrow>
   (truthy (cf_expectedPcr3 config) \<Longrightarrow> the (cf_expectedPcr3 config) = the (cf_expectedPcr3 config')) \<Longrightarrow>
   pcr3_matches config pcrs = pcr3_matches config' pcrs"
  by (auto simp: pcr3_matches_def)

definition key_is_plain :: "TeeWallet \<Rightarrow> bool" where
  "key_is_plain wallet =
     (case w_publicKey wallet of Inr (JsStr k) \<Rightarrow> CACHE_KEY_DELIMITER \<notin> set k | _ \<Rightarrow> True)"

lemma plain_identity: "key_is_plain wallet \<Longrightarrow> readWalletIdentity wallet = Inr (publicKey, detected) \<Longrightarrow> CACHE_KEY_DELIMITER \<notin> set publicKey"
  by (auto simp: key_is_plain_def readWalletIdentity_def split: jsv.splits if_splits sum.splits)

text \<open>
  C39. As long as no wallet's public key contains the delimiter \<open>|\<close> (base58 has none), the cache never mixes wallets or
  configurations: a returned result is about the wallet's own key, and one reported as cryptographically verified
  carries PCR values that match the PCR3 this call expects, also when it was cached by another call.
\<close>

theorem tee_result_is_for_wallet:
  assumes "tee_run env st h" "verifyTeeAttestation env clk wallet config st = ((Inr r, calls), st')"
    and "readWalletIdentity wallet = Inr (publicKey, detected)"
    and "key_is_plain wallet" "\<forall>(clk, w, cfg, root) \<in> set h. key_is_plain w"
  shows "ar_publicKey r = publicKey
    \<and> (ar_status r = CryptographicallyVerified \<longrightarrow>
         (\<exists>pcrs. am_pcrValues (ar_metadata r) = Some pcrs \<and> pcr3_matches config pcrs))"
proof -
  from returned_result(3) [OF assms(1-3)]
  consider (now) "verify_provider env (ts_rootCaPem st) clk config publicKey detected wallet = Inr r"
    | (cached) entry where "attested_by env h (cache_key config publicKey) entry" "ce_result entry = r" by blast
  then show ?thesis
  proof cases
    case now
    then show ?thesis using verify_provider_key verify_provider_pcr3 by blast
  next
    case cached
    then obtain clk' w cfg root key det where mem: "(clk', w, cfg, root) \<in> set h" "readWalletIdentity w = Inr (key, det)"
      and key: "cache_key cfg key = cache_key config publicKey"
      and res: "verify_provider env root clk' cfg key det w = Inr r"
      unfolding attested_by_def by blast
    have "CACHE_KEY_DELIMITER \<notin> set key" using assms(5) mem plain_identity by fastforce
    from cache_key_inj [OF key this plain_identity [OF assms(4,3)]]
    show ?thesis using verify_provider_key [OF res] verify_provider_pcr3 [OF res] pcr3_matches_same [of cfg config] by auto
  qed
qed

text \<open>
  Deleting a wallet from the cache leaves every entry that was stored under an expected PCR3: the keys use \<open>|\<close>, the
  deletion looks for \<open>:\<close>.
\<close>

lemma delete_keeps_pcr3_entries:
  assumes "truthy (cf_expectedPcr3 config)"
  shows "map_of (tc_cache (ts_cache (snd (deleteFromAttestationCache publicKey st)))) (cache_key config publicKey) =
         map_of (tc_cache (ts_cache st)) (cache_key config publicKey)"
proof -
  have "cache_key config publicKey \<noteq> publicKey" "\<not> startsWith (cache_key config publicKey) (publicKey @ '':'')"
    using assms by (auto simp: cache_key_def startsWith_def CACHE_KEY_DELIMITER_def)
  moreover have "map_of (filter (\<lambda>(k, _). P k) xs) k = map_of xs k" if "P k" for P :: "string \<Rightarrow> bool" and xs :: "(string \<times> CacheEntry) list" and k
    using that by (induction xs) auto
  ultimately show ?thesis
    by (simp add: deleteFromAttestationCache_def cache_delete_def deleteByPrefix_def)
qed

section \<open>Samples\<close>

text \<open>
  A platform whose certificates all verify, with one boot proof: the byte 1 decodes to a signed document with one
  certificate and the payload byte 2, which decodes to a document whose PCR3 is the byte 171.
\<close>

definition sample_platform :: "(nat, nat) tee_platform" where
  "sample_platform =
     \<lparr>tp_cborDecode = (\<lambda>bs.
        if bs = [1] then Inr (CborArr [CborBytes [9], CborMap [(33, CborArr [CborBytes [7]])], CborBytes [2], CborBytes (replicate 96 1)])
        else if bs = [2] then Inr (CborObj [(''pcrs'', CborMap [(3, CborBytes [171])])])
        else Inl (js_error_of ''Unexpected end of CBOR data'')),
      tp_cborEncode = (\<lambda>_. [1, 2, 3]), tp_String = (\<lambda>_. []), tp_bufferFrom = (\<lambda>_. Inr []), tp_base64 = (\<lambda>_. []),
      tp_X509 = (\<lambda>_. Inr 0), tp_checkIssued = (\<lambda>_ _. True), tp_certKey = id, tp_certVerify = (\<lambda>_ _. True),
      tp_validFrom = (\<lambda>_. ''2024''), tp_validTo = (\<lambda>_. ''2049''),
      tp_Date = (\<lambda>t. if t = ''2024'' then Some 1000 else Some 9000),
      tp_verify = (\<lambda>_ _ _ _. True), tp_createPublicKey = (\<lambda>_. Inr 0), tp_addressBytes = (\<lambda>_. Inr [])\<rparr>"

definition tee_sample_clock :: tee_clock where
  "tee_sample_clock = \<lparr>tk_read = 2000, tk_cert = (\<lambda>_. 2001), tk_verified = 2002, tk_store = 2003\<rparr>"

definition turnkey_wallet :: TeeWallet where
  "turnkey_wallet = \<lparr>w_publicKey = Inr (JsStr ''Agent2''), w_provider = Some (Inr (JsStr ''turnkey'')),
     w_verifyProviderCustody = NoMethod,
     w_getAttestation = Method (Bundle (JsObj PlainObject [(''bootProof'', JsStr ''AQ=='')]))\<rparr>"

definition pcr3_config :: AttestationConfig where
  "pcr3_config = no_config\<lparr>cf_expectedPcr3 := Some ''AB''\<rparr>"

lemma initial_cache_misses: "cache_get now key (ts_cache initial_tee_state) = (None, ts_cache initial_tee_state)"
  by (simp add: cache_get_def initial_tee_state_def new_AttestationCache_def)

lemma initial_root: "ts_rootCaPem initial_tee_state = AWS_NITRO_ROOT_CA_PEM"
  by (simp add: initial_tee_state_def)

lemma first_call:
  assumes "readWalletIdentity wallet = Inr (publicKey, detected)" "requires config"
    and "verify_provider env AWS_NITRO_ROOT_CA_PEM clk config publicKey detected wallet = Inr r"
    and "tee_verdict config r = (Inr r, calls)"
  shows "\<exists>st'. verifyTeeAttestation env clk wallet config initial_tee_state = ((Inr r, calls), st')"
  using assms by (simp add: verifyTeeAttestation_def attest_def initial_cache_misses initial_root Let_def split: option.splits)

lemma turnkey_first_call:
  assumes "case verifyTurnkey sample_platform AWS_NITRO_ROOT_CA_PEM tee_sample_clock config ''Agent2'' turnkey_wallet of
      Inr r \<Rightarrow> ar_status r = CryptographicallyVerified | Inl _ \<Rightarrow> False"
    and "cf_requireAttestation config = None" "\<not> cf_onVerified config"
  shows "\<exists>r st'. verifyTeeAttestation sample_platform tee_sample_clock turnkey_wallet config initial_tee_state = ((Inr r, []), st')
     \<and> ar_status r = CryptographicallyVerified"
proof -
  obtain r where r: "verifyTurnkey sample_platform AWS_NITRO_ROOT_CA_PEM tee_sample_clock config ''Agent2'' turnkey_wallet = Inr r"
    "ar_status r = CryptographicallyVerified" using assms(1) by (auto split: sum.splits)
  have "readWalletIdentity turnkey_wallet = Inr (''Agent2'', Some Turnkey)" by code_simp
  moreover have "attestationStatusMeetsLevel CryptographicallyVerified l" for l
    by (cases l) (simp_all add: attestationStatusMeetsLevel_def)
  then have "tee_verdict config r = (Inr r, [])"
    by (simp add: tee_verdict_def requires_def assms(2,3) isVerifiedStatus_def r(2) verified_call_def split: option.splits)
  ultimately show ?thesis
    using first_call [of turnkey_wallet "''Agent2''" "Some Turnkey" config sample_platform tee_sample_clock r "[]"] r
    by (auto simp: verify_provider_def requires_def assms(2))
qed

lemma turnkey_calls:
  assumes "config \<in> {pcr3_config, pcr3_config\<lparr>cf_minAttestationLevel := Some LevelCryptographic\<rparr>}"
  shows "\<exists>r st'. verifyTeeAttestation sample_platform tee_sample_clock turnkey_wallet config initial_tee_state = ((Inr r, []), st')
     \<and> ar_status r = CryptographicallyVerified"
proof (rule turnkey_first_call)
  have "list_all (\<lambda>config. case verifyTurnkey sample_platform AWS_NITRO_ROOT_CA_PEM tee_sample_clock config ''Agent2'' turnkey_wallet of
        Inr r \<Rightarrow> ar_status r = CryptographicallyVerified | Inl _ \<Rightarrow> False)
      [pcr3_config, pcr3_config\<lparr>cf_minAttestationLevel := Some LevelCryptographic\<rparr>]" by code_simp
  then show "case verifyTurnkey sample_platform AWS_NITRO_ROOT_CA_PEM tee_sample_clock config ''Agent2'' turnkey_wallet of
      Inr r \<Rightarrow> ar_status r = CryptographicallyVerified | Inl _ \<Rightarrow> False"
    using assms by auto
qed (use assms in \<open>auto simp: pcr3_config_def no_config_def\<close>)

theorem tee_attestation_gate_witness:
  "\<exists>r st'. verifyTeeAttestation sample_platform tee_sample_clock turnkey_wallet
       (pcr3_config\<lparr>cf_minAttestationLevel := Some LevelCryptographic\<rparr>) initial_tee_state = ((Inr r, []), st')
     \<and> ar_status r = CryptographicallyVerified"
proof -
  let ?config = "pcr3_config\<lparr>cf_minAttestationLevel := Some LevelCryptographic\<rparr>"
  obtain r st' where call: "verifyTeeAttestation sample_platform tee_sample_clock turnkey_wallet ?config initial_tee_state = ((Inr r, []), st')"
    using turnkey_calls [of ?config] by blast
  have "readWalletIdentity turnkey_wallet = Inr (''Agent2'', Some Turnkey)" by code_simp
  from tee_attestation_gate [OF tee_start call this]
  have "ar_status r = CryptographicallyVerified" by simp
  with call show ?thesis by blast
qed

theorem tee_result_is_for_wallet_witness:
  "\<exists>r st' pcrs. verifyTeeAttestation sample_platform tee_sample_clock turnkey_wallet pcr3_config initial_tee_state = ((Inr r, []), st')
     \<and> ar_publicKey r = ''Agent2'' \<and> am_pcrValues (ar_metadata r) = Some pcrs \<and> pcr3_matches pcr3_config pcrs"
proof -
  obtain r st' where call: "verifyTeeAttestation sample_platform tee_sample_clock turnkey_wallet pcr3_config initial_tee_state = ((Inr r, []), st')"
    "ar_status r = CryptographicallyVerified" using turnkey_calls [of pcr3_config] by blast
  have "readWalletIdentity turnkey_wallet = Inr (''Agent2'', Some Turnkey)" "key_is_plain turnkey_wallet" by code_simp+
  from tee_result_is_for_wallet [OF tee_start call(1) this] call show ?thesis by auto
qed

end
