(* ===== verification/Onboarding.thy ===== *)
theory Onboarding
  imports UsdAmounts Composer SecurityAnalytics
begin

text \<open>
  What surrounds the creation of a vault: the handoff prompt of \<open>sdk/kit/src/agent-bootstrap.ts\<close>, with the single
  pass that fills its slots, and the token accounts of \<open>sdk/kit/src/helpers/ata.ts\<close>.
\<close>

section \<open>agent-bootstrap.ts\<close>

definition HANDOFF_PROMPT_TEMPLATE :: string where
  "HANDOFF_PROMPT_TEMPLATE =
     ''You are an autonomous agent operating a Sigil vault on '' @ ''${'' @ ''network'' @ ''}'' @ ''.'' @ [CHR 0x0A, CHR 0x0A]
     @ ''Your wallet: '' @ ''${'' @ ''agentAddress'' @ ''}'' @ [CHR 0x0A]
     @ ''The vault you control: '' @ ''${'' @ ''vaultAddress'' @ ''}'' @ [CHR 0x0A]
     @ ''Your owner'' @ [CHR 0x27] @ ''s wallet (read-only reference): '' @ ''${'' @ ''ownerAddress'' @ ''}'' @ [CHR 0x0A, CHR 0x0A]
     @ ''Daily spending limit: '' @ ''${'' @ ''dailyLimitUsd'' @ ''}'' @ [CHR 0x0A]
     @ ''Approved protocols: '' @ ''${'' @ ''protocolNames'' @ ''}'' @ [CHR 0x0A]
     @ ''Permissions: '' @ ''${'' @ ''capabilityNames'' @ ''}'' @ [CHR 0x0A, CHR 0x0A]
     @ ''Use the Sigil MCP tool `seal_transaction` to execute any on-chain action.'' @ [CHR 0x0A]
     @ ''The vault will reject any tx that exceeds the rules above '' @ long_dash @ '' this is by design.'' @ [CHR 0x0A, CHR 0x0A]
     @ ''If you need help, use `request_help` to surface a question to your owner.''"

definition getHandoffPromptTemplate :: string where
  "getHandoffPromptTemplate = HANDOFF_PROMPT_TEMPLATE"

definition capabilityTierToNames :: "int \<Rightarrow> string list" where
  "capabilityTierToNames tier =
     (if tier = 0 then []
      else if tier = 1 then [''NonSpending'']
      else if tier = 2 then [''Spending'', ''NonSpending'']
      else [])"

record AgentBootstrapConfig =
  ab_vaultAddress :: string
  ab_agentAddress :: string
  ab_ownerAddress :: string
  ab_network :: string
  ab_dailyLimitUsd :: int
  ab_approvedProtocols :: "string list"
  ab_capabilityTier :: int

record AgentBootstrap =
  bs_agentWallet :: string
  bs_vaultPubkey :: string
  bs_onboardingPrompt :: string
  bs_capabilities :: "string list"

text \<open>\<open>.replace(/0+$/, "")\<close>\<close>

definition drop_trailing_zeros :: "string \<Rightarrow> string" where
  "drop_trailing_zeros s = rev (dropWhile (\<lambda>c. c = CHR ''0'') (rev s))"

definition formatDailyLimitUsd :: "int \<Rightarrow> (string, string) result" where
  "formatDailyLimitUsd amount =
     (if amount < 0
      then Inl (''composeAgentBootstrap: dailyLimitUsd must be >= 0 (got '' @ show_int amount
             @ ''). Negative USD limits are not a valid vault config.'')
      else
        let dollars = bdiv amount 1000000; fractional = bmod amount 1000000
        in if fractional = 0 then Inr (''$'' @ show_int dollars)
           else Inr (''$'' @ show_int dollars @ ''.'' @ drop_trailing_zeros (padStart 6 (CHR ''0'') (show_int fractional))))"

text \<open>
  The match of \<open>/\$\{(\w+)\}/\<close> at the head of a text, and the global replacement with a callback: a match is
  replaced by the value of its name, or kept, and the scan goes on behind it.
\<close>

definition slot_name :: "string \<Rightarrow> string option" where
  "slot_name s =
     (case s of
        a # b # rest \<Rightarrow>
          let name = takeWhile is_word_char rest
          in if a = CHR ''$'' \<and> b = CHR ''{'' \<and> name \<noteq> [] \<and> take 1 (drop (length name) rest) = ''}'' then Some name else None
      | _ \<Rightarrow> None)"

function replace_slots :: "(string \<times> string) list \<Rightarrow> string \<Rightarrow> string" where
  "replace_slots subs [] = []"
| "replace_slots subs (c # cs) =
     (case slot_name (c # cs) of
        None \<Rightarrow> c # replace_slots subs cs
      | Some name \<Rightarrow>
          (case map_of subs name of Some v \<Rightarrow> v | None \<Rightarrow> ''${'' @ name @ ''}'')
          @ replace_slots subs (drop (length name + 2) cs))"
  by pat_completeness auto
termination
  by (relation "measure (\<lambda>(subs, s). length s)") auto

fun join_with :: "string \<Rightarrow> string list \<Rightarrow> string" where
  "join_with sep [] = []"
| "join_with sep [s] = s"
| "join_with sep (s # t # ss) = s @ sep @ join_with sep (t # ss)"

definition composeAgentBootstrap :: "AgentBootstrapConfig \<Rightarrow> (string, AgentBootstrap) result" where
  "composeAgentBootstrap config =
     (let capabilities = capabilityTierToNames (ab_capabilityTier config)
      in rbind (formatDailyLimitUsd (ab_dailyLimitUsd config)) (\<lambda>dailyLimitUsd.
           Inr \<lparr>bs_agentWallet = ab_agentAddress config, bs_vaultPubkey = ab_vaultAddress config,
                bs_onboardingPrompt = replace_slots
                  [(''network'', ab_network config), (''agentAddress'', ab_agentAddress config),
                   (''vaultAddress'', ab_vaultAddress config), (''ownerAddress'', ab_ownerAddress config),
                   (''dailyLimitUsd'', dailyLimitUsd), (''protocolNames'', join_with '', '' (ab_approvedProtocols config)),
                   (''capabilityNames'', join_with '', '' capabilities)] HANDOFF_PROMPT_TEMPLATE,
                bs_capabilities = capabilities\<rparr>))"

section \<open>helpers/ata.ts\<close>

definition buildCreateIdempotentIx :: "address \<Rightarrow> address \<Rightarrow> address \<Rightarrow> address \<Rightarrow> Instruction" where
  "buildCreateIdempotentIx payer ata owner mint =
     \<lparr>ix_programAddress = ATA_PROGRAM_ADDRESS,
      ix_accounts = Some
        [\<lparr>am_address = payer, am_role = WRITABLE_SIGNER\<rparr>, \<lparr>am_address = ata, am_role = WRITABLE\<rparr>,
         \<lparr>am_address = owner, am_role = READONLY\<rparr>, \<lparr>am_address = mint, am_role = READONLY\<rparr>,
         \<lparr>am_address = SYSTEM_PROGRAM_ADDRESS, am_role = READONLY\<rparr>, \<lparr>am_address = TOKEN_PROGRAM_ADDRESS, am_role = READONLY\<rparr>],
      ix_data = Some [1]\<rparr>"

fun first_blocked :: "address list \<Rightarrow> address list \<Rightarrow> address option" where
  "first_blocked allowed [] = None"
| "first_blocked allowed (mint # mints) = (if mint \<notin> set allowed then Some mint else first_blocked allowed mints)"

text \<open>The error is the mint that is not allowed; \<open>ata\<close> is \<open>deriveAta\<close> with its derivation.\<close>

definition initializeVaultAtas ::
  "(address \<Rightarrow> address \<Rightarrow> address) \<Rightarrow> address \<Rightarrow> address \<Rightarrow> address list \<Rightarrow> address list \<Rightarrow> (address, Instruction list) result" where
  "initializeVaultAtas ata vault payer mints allowedMints =
     (if mints = [] then Inr []
      else case first_blocked allowedMints mints of
             Some mint \<Rightarrow> Inl mint
           | None \<Rightarrow>
               Inr (map (\<lambda>mint. buildCreateIdempotentIx payer (ata vault mint) vault mint) (foldl set_add [] mints)))"

section \<open>The prompt\<close>

lemma replace_literal:
  "CHR ''$'' \<notin> set lit \<Longrightarrow> replace_slots subs (lit @ rest) = lit @ replace_slots subs rest"
proof (induction lit)
  case (Cons c lit)
  then have "slot_name (c # lit @ rest) = None" by (auto simp: slot_name_def Let_def split: list.splits)
  then show ?case using Cons by simp
qed simp

lemma replace_slot:
  assumes "name \<noteq> []" "list_all is_word_char name"
  shows "replace_slots subs (''${'' @ name @ ''}'' @ rest) =
    (case map_of subs name of Some v \<Rightarrow> v | None \<Rightarrow> ''${'' @ name @ ''}'') @ replace_slots subs rest"
proof -
  have "\<not> is_word_char (CHR ''}'')" by (simp add: is_word_char_def is_digit_def)
  then have "takeWhile is_word_char (name @ ''}'' @ rest) = name"
    using assms(2) by (simp add: list_all_iff takeWhile_append2)
  then have "slot_name (''${'' @ name @ ''}'' @ rest) = Some name" using assms(1) by (simp add: slot_name_def Let_def)
  then show ?thesis by simp
qed

text \<open>Templates as lists of literals and slots.\<close>

datatype segment = Lit string | Slot string

fun render :: "segment list \<Rightarrow> string" where
  "render [] = []"
| "render (Lit s # segs) = s @ render segs"
| "render (Slot n # segs) = ''${'' @ n @ ''}'' @ render segs"

fun fill :: "(string \<times> string) list \<Rightarrow> segment list \<Rightarrow> string" where
  "fill subs [] = []"
| "fill subs (Lit s # segs) = s @ fill subs segs"
| "fill subs (Slot n # segs) = (case map_of subs n of Some v \<Rightarrow> v | None \<Rightarrow> ''${'' @ n @ ''}'') @ fill subs segs"

fun segment_ok :: "segment \<Rightarrow> bool" where
  "segment_ok (Lit s) \<longleftrightarrow> CHR ''$'' \<notin> set s"
| "segment_ok (Slot n) \<longleftrightarrow> n \<noteq> [] \<and> list_all is_word_char n"

lemma replace_render: "list_all segment_ok segs \<Longrightarrow> replace_slots subs (render segs) = fill subs segs"
proof (induction segs)
  case (Cons seg segs)
  then show ?case
    using replace_literal [of _ subs "render segs"] replace_slot [of _ subs "render segs"]
    by (cases seg) (simp_all del: append_Cons append_Cons)
qed simp

definition handoff_segments :: "segment list" where
  "handoff_segments =
     [Lit ''You are an autonomous agent operating a Sigil vault on '', Slot ''network'', Lit ''.'', Lit [CHR 0x0A, CHR 0x0A],
      Lit ''Your wallet: '', Slot ''agentAddress'', Lit [CHR 0x0A],
      Lit ''The vault you control: '', Slot ''vaultAddress'', Lit [CHR 0x0A],
      Lit ''Your owner'', Lit [CHR 0x27], Lit ''s wallet (read-only reference): '', Slot ''ownerAddress'', Lit [CHR 0x0A, CHR 0x0A],
      Lit ''Daily spending limit: '', Slot ''dailyLimitUsd'', Lit [CHR 0x0A],
      Lit ''Approved protocols: '', Slot ''protocolNames'', Lit [CHR 0x0A],
      Lit ''Permissions: '', Slot ''capabilityNames'', Lit [CHR 0x0A, CHR 0x0A],
      Lit ''Use the Sigil MCP tool `seal_transaction` to execute any on-chain action.'', Lit [CHR 0x0A],
      Lit ''The vault will reject any tx that exceeds the rules above '', Lit long_dash, Lit '' this is by design.'', Lit [CHR 0x0A, CHR 0x0A],
      Lit ''If you need help, use `request_help` to surface a question to your owner.'']"

lemma handoff_template: "HANDOFF_PROMPT_TEMPLATE = render handoff_segments" "list_all segment_ok handoff_segments"
  by code_simp+

text \<open>
  The prompt is the template's text with every slot filled by its value as it is: a value that itself contains a
  slot or a dollar sign is neither expanded nor read as a back reference.
\<close>

theorem bootstrap_prompt_exact:
  assumes "formatDailyLimitUsd (ab_dailyLimitUsd config) = Inr limit"
  shows "\<exists>b. composeAgentBootstrap config = Inr b
    \<and> bs_agentWallet b = ab_agentAddress config \<and> bs_vaultPubkey b = ab_vaultAddress config
    \<and> bs_onboardingPrompt b =
        ''You are an autonomous agent operating a Sigil vault on '' @ ab_network config @ ''.'' @ [CHR 0x0A, CHR 0x0A]
        @ ''Your wallet: '' @ ab_agentAddress config @ [CHR 0x0A]
        @ ''The vault you control: '' @ ab_vaultAddress config @ [CHR 0x0A]
        @ ''Your owner'' @ [CHR 0x27] @ ''s wallet (read-only reference): '' @ ab_ownerAddress config @ [CHR 0x0A, CHR 0x0A]
        @ ''Daily spending limit: '' @ limit @ [CHR 0x0A]
        @ ''Approved protocols: '' @ join_with '', '' (ab_approvedProtocols config) @ [CHR 0x0A]
        @ ''Permissions: '' @ join_with '', '' (capabilityTierToNames (ab_capabilityTier config)) @ [CHR 0x0A, CHR 0x0A]
        @ ''Use the Sigil MCP tool `seal_transaction` to execute any on-chain action.'' @ [CHR 0x0A]
        @ ''The vault will reject any tx that exceeds the rules above '' @ long_dash @ '' this is by design.'' @ [CHR 0x0A, CHR 0x0A]
        @ ''If you need help, use `request_help` to surface a question to your owner.''"
  unfolding composeAgentBootstrap_def handoff_template(1) replace_render [OF handoff_template(2)] assms
  by (simp add: Let_def handoff_segments_def)

section \<open>The daily limit in the prompt\<close>

lemma show_nat_hd: "hd (show_nat n) = CHR ''0'' \<longleftrightarrow> n = 0"
proof (induction n rule: show_nat.induct)
  case (1 n)
  show ?case
  proof (cases "n < 10")
    case True
    then have "of_char (digit_char n) = 48 + n" by (simp add: digit_char_def)
    then have "digit_char n = CHR ''0'' \<longleftrightarrow> n = 0" by (auto simp flip: of_char_eq_iff [where 'a = nat])
    then show ?thesis using True by (simp add: show_nat.simps [of n])
  next
    case False
    then show ?thesis using 1 by (subst show_nat.simps) (simp add: show_nat_digits)
  qed
qed

lemma show_nat_length: "n < 10 ^ k \<Longrightarrow> 0 < k \<Longrightarrow> length (show_nat n) \<le> k"
proof (induction n arbitrary: k rule: show_nat.induct)
  case (1 n)
  show ?case
  proof (cases "n < 10")
    case False
    then have "n div 10 < 10 ^ (k - 1)" "0 < k - 1" using 1(2,3) by (cases k; cases "k - 1"; simp add: div_less_iff_less_mult mult.commute)+
    then show ?thesis using 1(1) [OF False, of "k - 1"] False by (subst show_nat.simps) simp
  qed (use 1 in \<open>simp add: show_nat.simps [of n]\<close>)
qed

lemma drop_trailing_zeros_split:
  "\<exists>k. s = drop_trailing_zeros s @ replicate k (CHR ''0'')"
proof -
  have "rev s = takeWhile (\<lambda>c. c = CHR ''0'') (rev s) @ dropWhile (\<lambda>c. c = CHR ''0'') (rev s)" by simp
  moreover have "takeWhile (\<lambda>c. c = CHR ''0'') (rev s) = replicate (length (takeWhile (\<lambda>c. c = CHR ''0'') (rev s))) (CHR ''0'')"
    by (rule replicate_length_same [symmetric]) (auto dest: set_takeWhileD)
  ultimately show ?thesis unfolding drop_trailing_zeros_def by (metis rev_append rev_replicate rev_rev_ident)
qed

text \<open>
  The limit the prompt states is the limit of the vault: read back with the owner's own parser it is the same amount,
  for every amount of at most fifteen whole digits.
\<close>

theorem daily_limit_roundtrip:
  assumes "0 \<le> amount" "amount < 10 ^ 21"
  shows "\<exists>limit. formatDailyLimitUsd amount = Inr limit \<and> parseUsd (Some limit) = Inr amount"
proof -
  define d f where "d = nat (amount div 1000000)" and "f = nat (amount mod 1000000)"
  have amount: "amount = int d * 1000000 + int f" "f < 10 ^ 6" "d < 10 ^ 15" using assms by (auto simp: d_def f_def)
  have ds: "list_all is_digit (show_nat d)" "show_nat d = ''0'' \<or> (show_nat d \<noteq> [] \<and> hd (show_nat d) \<noteq> CHR ''0'' \<and> length (show_nat d) \<le> 15)"
    using show_nat_digits [of d] show_nat_hd [of d] show_nat_length [OF amount(3)]
    by (auto simp: show_nat.simps [of 0] digit_char_def)
  have div: "bdiv amount 1000000 = int d" "bmod amount 1000000 = int f"
    using assms(1) by (simp_all add: bdiv_nonneg bmod_nonneg d_def f_def)
  have fmt: "formatDailyLimitUsd amount = Inr (if f = 0 then ''$'' @ show_nat d
      else ''$'' @ show_nat d @ ''.'' @ drop_trailing_zeros (padStart 6 (CHR ''0'') (show_nat f)))"
    using assms(1) by (simp add: formatDailyLimitUsd_def div Let_def show_int_def)
  show ?thesis
  proof (cases "f = 0")
    case True
    then have "usd_literal (''$'' @ show_nat d) (show_nat d) []" using ds by (simp add: usd_literal_def)
    from parse_usd_value [OF this] True have "parseUsd (Some (''$'' @ show_nat d)) = Inr amount" by (simp add: amount(1))
    then show ?thesis unfolding fmt using True by simp
  next
    case False
    let ?p = "padStart 6 (CHR ''0'') (show_nat f)"
    obtain t k where t: "t = drop_trailing_zeros ?p" "?p = t @ replicate k (CHR ''0'')" using drop_trailing_zeros_split by blast
    have len: "length ?p = 6" using show_nat_length [OF amount(2)] by (simp add: padStart_def)
    have digits: "list_all is_digit ?p" using show_nat_digits(2) [of f] by (auto simp: padStart_def list_all_iff is_digit_def)
    have zero: "digits_val 10 digit_val (replicate n (CHR ''0'')) acc = acc * 10 ^ n" for n acc
      by (induction n arbitrary: acc) (simp_all add: digit_val_def)
    have k: "k = 6 - length t" "length t \<le> 6" using len t(2) by (metis add_diff_cancel_left' length_append length_replicate) (use len t(2) in simp)
    have val: "dec_val t * 10 ^ k = f" using arg_cong [OF t(2), of dec_val] by (simp add: padStart_def zero)
    then have "t \<noteq> []" using False by auto
    then have "usd_literal (''$'' @ show_nat d @ ''.'' @ t) (show_nat d) t"
      using ds digits k(2) by (simp add: usd_literal_def t(2))
    from parse_usd_value [OF this]
    have "parseUsd (Some (''$'' @ show_nat d @ ''.'' @ t)) = Inr (int (dec_val (show_nat d @ t) * 10 ^ k))"
      using k by simp
    also have "dec_val (show_nat d @ t) * 10 ^ k = d * 10 ^ 6 + f"
    proof -
      have "10 ^ length t * 10 ^ k = (10 :: nat) ^ 6" using k by (simp flip: power_add)
      then show ?thesis using digits_val_acc [of 10 digit_val t d] val by (simp add: algebra_simps)
    qed
    finally have "parseUsd (Some (''$'' @ show_nat d @ ''.'' @ t)) = Inr amount" by (simp add: amount(1))
    then show ?thesis unfolding fmt using False t(1) by simp
  qed
qed

section \<open>Token accounts\<close>

lemma set_add_fold: "set (foldl set_add acc xs) = set acc \<union> set xs" "distinct acc \<Longrightarrow> distinct (foldl set_add acc xs)"
  by (induction xs arbitrary: acc) auto

lemma first_blocked_None: "first_blocked allowed mints = None \<longleftrightarrow> set mints \<subseteq> set allowed"
  by (induction mints) auto

text \<open>Accounts are created exactly when every mint is allowed, once for each mint, owned by the vault and paid by the payer.\<close>

theorem vault_atas_exact:
  "initializeVaultAtas ata vault payer mints allowed = Inr ixs \<longleftrightarrow>
     set mints \<subseteq> set allowed
     \<and> (\<exists>ms. distinct ms \<and> set ms = set mints \<and> ms = foldl set_add [] mints
          \<and> ixs = map (\<lambda>m. buildCreateIdempotentIx payer (ata vault m) vault m) ms)"
  using set_add_fold [of "[]" mints] first_blocked_None [of allowed mints]
  by (cases mints) (auto simp: initializeVaultAtas_def split: option.splits if_splits)

end
