(* ===== verification/Spec2Isabelle.thy ===== *)
theory Spec2Isabelle
  imports CoreEngine ShieldedSigner SigilClient X402Props VaultPreview DashboardMutations DashboardReads TeeAttestation Onboarding
begin

text \<open>
  A verification library for Sigil, a client-side and on-chain guard for autonomous agents that spend from Solana
  vaults. The sources are under \<open>src/\<close>; paths below are relative to \<open>src/sdk/kit/src/\<close> unless they say otherwise.

  \<^bold>\<open>The program.\<close> An owner creates a vault with a policy (daily cap, per-transaction cap, protocol allowlist,
  agents with their own limits). An agent asks \<open>seal()\<close> for a transaction: it resolves the vault's state from
  chain accounts, runs hooks and plugins, checks status, budget, protocols and blocked instructions, rewrites token
  accounts, and frames the agent's instructions between \<open>validate_and_authorize\<close> and \<open>finalize_session\<close>.
  \<open>createSigilClient\<close> and \<open>TransactionExecutor\<close> sign, simulate and send such transactions. Independently
  of the chain, \<open>shield.ts\<close> and \<open>core/\<close> keep client-side spend ledgers with policy engines, the shielded
  signer refuses to sign what breaks them, and \<open>x402/\<close> pays HTTP 402 requests under the same checks. \<open>tee/\<close>
  verifies that an agent's key is held by an enclave. The owner's side is \<open>dashboard/\<close>: mutations that send owner
  instructions and reads that present the vault, built on the analytics modules.

  \<^bold>\<open>Conventions.\<close> A \<open>bigint\<close> is \<open>int\<close>, or \<open>nat\<close> where a check or a decoder makes it so; u64 bounds
  and truncating division (\<open>bdiv\<close>) are written out. A \<open>number\<close> that takes part in arithmetic is a rational that
  passes through \<open>dbl\<close>, rounding to the nearest double, after every operation; \<open>js_number\<close> adds the non-finite
  values. Strings are byte strings, \<open>Map\<close> and \<open>Set\<close> are lists in insertion order. A throw is \<open>Inl\<close> of the
  component's error type; state (caches, ledgers, trackers) is passed and returned; one reading of the clock is one
  argument; the answers of RPC nodes, servers, wallets and custody services are arguments or fields of an
  environment record, with every way they can fail. Callbacks and sends are recorded as lists of events.

  \<^bold>\<open>Theories, in the order of their dependencies.\<close>

  \<^item> \<open>Prelude\<close>, \<open>JsLib\<close>, \<open>JsDouble\<close>, \<open>JsNumber\<close>, \<open>JsErrors\<close>: results and their simplification rules, the parts of
    JavaScript the sources use (byte reads, base64, decimal and bigint texts, double rounding, values as trees),
    \<open>network-errors.ts\<close>, \<open>errors/base.ts\<close>, \<open>errors/walk.ts\<close>.
  \<^item> \<open>SdkTypes\<close>, \<open>Accounts\<close>: \<open>types.ts\<close>, \<open>core/registry.ts\<close>, \<open>resolve-accounts.ts\<close>, \<open>tokens.ts\<close>,
    \<open>protocol-resolver.ts\<close>, \<open>protocol-tier.ts\<close>. No two address requests hash the same seeds.
  \<^item> \<open>RollingWindow\<close>, \<open>StateResolver\<close>: \<open>state-resolver.ts\<close>. The 24h sums equal a reference sum over all
    buckets, proved once in the locale \<open>epoch_window\<close> and interpreted for the tracker and the per-agent overlay;
    resolved budgets are consistent.
  \<^item> \<open>SpendLedger\<close>, \<open>CorePolicies\<close>, \<open>CoreEngine\<close>: \<open>core/\<close>, \<open>policies.ts\<close>. The locale \<open>spend_ledger\<close> states
    what a spend tracker promises; both trackers are interpretations, and the limits hold over every run.
  \<^item> \<open>Inspector\<close>, \<open>ShieldTracker\<close>, \<open>Shield\<close>, \<open>ShieldRuns\<close>, \<open>ShieldedSigner\<close>: \<open>inspector.ts\<close>, \<open>shield.ts\<close>,
    \<open>velocity-tracker.ts\<close>. Runs of a shield are an inductive relation with ghost history; caps and limits are
    invariants of it, denials change nothing, and a signature is given only past every gate: velocity, policy
    (stated by \<open>policy_allows\<close>, apart from the code's order of checks), simulation and session binding.
  \<^item> \<open>SealPlugins\<close>, \<open>RpcCaches\<close>, \<open>RpcHelpers\<close>, \<open>Composer\<close>, \<open>Simulation\<close>, \<open>SigilInstructions\<close>,
    \<open>SealPreflight\<close>, \<open>Seal\<close>, \<open>SealProps\<close>: \<open>hooks.ts\<close>, \<open>plugin.ts\<close>, \<open>alt-config.ts\<close>, \<open>alt-loader.ts\<close>,
    \<open>rpc-helpers.ts\<close>, \<open>composer.ts\<close>, \<open>simulation.ts\<close>, two generated instructions and \<open>seal.ts\<close>. The locale
    \<open>ttl_cache\<close> (interpreted for lookup tables, blockhashes and fees) gives freshness of every hit. A sealed transaction has
    passed the gates, has the sandwich shape around the caller's instructions, whose accounts change only as the
    redirection of token accounts says, and, for a stablecoin, stays within the daily cap, fees included.
  \<^item> \<open>Executor\<close>, \<open>SigilClient\<close>: \<open>transaction-executor.ts\<close> and \<open>createSigilClient\<close> of \<open>seal.ts\<close>. Only
    simulated, sealed transactions are signed and sent.
  \<^item> \<open>X402Guards\<close>, \<open>X402Fetch\<close>, \<open>X402Props\<close>: \<open>x402/\<close>. The locale \<open>replay_window\<close> is the specification of the
    nonce tracker. Only checked payments are signed, at most one per call, the signed transfer is the one sent, a
    payment is not repeated within the replay window whatever calls come in between, and every call returns.
  \<^item> \<open>UsdAmounts\<close>, \<open>PriorityFees\<close>, \<open>OwnerTransactions\<close>, \<open>VaultCreation\<close>, \<open>VaultPreview\<close>, \<open>PostAssertions\<close>:
    \<open>helpers/parse-usd.ts\<close>, \<open>helpers/validate-cap-aggregate.ts\<close>, \<open>presets.ts\<close>, \<open>priority-fees.ts\<close>, \<open>owner-transaction.ts\<close>, \<open>build-unsigned.ts\<close>, \<open>inscribe.ts\<close>,
    \<open>create-vault.ts\<close>, \<open>preview-create-vault.ts\<close>, \<open>post-assertions/\<close> with the program's own validation. A vault made from presets passes the
    checks of the program's \<open>initialize_vault\<close>, which are translated too.
  \<^item> \<open>Onboarding\<close>: \<open>agent-bootstrap.ts\<close> and \<open>helpers/ata.ts\<close>. Values in the prompt are inserted literally, and the
    limit it states reads back as the vault's.
  \<^item> \<open>ErrorTables\<close>, \<open>AgentErrors\<close>: \<open>agent-errors.ts\<close> and \<open>dashboard/errors.ts\<close>, every table entry and the
    normalisation of thrown values.
  \<^item> \<open>DashboardInstructions\<close>, \<open>ConstraintBuilders\<close>, \<open>DashboardMutations\<close>: the owner's generated instructions,
    \<open>dashboard/constraint-builders.ts\<close> against the program's account sizes, \<open>dashboard/mutations.ts\<close> and the
    mutating half of \<open>OwnerClient\<close>.
  \<^item> \<open>Formatting\<close>, \<open>Analytics\<close>, \<open>BalanceTracker\<close>, \<open>VaultAnalytics\<close>, \<open>SecurityAnalytics\<close>, \<open>EventAnalytics\<close>,
    \<open>AdvancedAnalytics\<close>, \<open>Portfolio\<close>, \<open>DashboardReads\<close>: \<open>formatting.ts\<close>, \<open>math-utils.ts\<close>, the \<open>*-analytics.ts\<close>
    modules, \<open>balance-tracker.ts\<close>, \<open>events.ts\<close>, \<open>dashboard/reads.ts\<close>, \<open>from-json.ts\<close>, \<open>discover.ts\<close>: what
    each figure, alert, check and row means in terms of the state, and the JSON round trips.
  \<^item> \<open>TurnkeyAttestation\<close>, \<open>TeeAttestation\<close>: \<open>tee/\<close>. When a wallet counts as verified, and that over every
    run of the dispatcher a result returned for a readable wallet was announced, meets the level the caller set and
    belongs to the wallet.
  \<^item> \<open>Spec2Isabelle\<close>, this theory: the inspector finds no top-level token transfer in what \<open>seal()\<close> returns.

  \<^bold>\<open>Loops.\<close> Recursion is structural, or a \<open>function\<close> with its termination proof; a bounded walk counts down
  the bound of the source (16 causes, 32 links). The polling loops of \<open>sendAndConfirmTransaction\<close> and of the settlement check are
  one \<open>partial_function (option)\<close>, \<open>poll_until\<close>, whose \<open>None\<close> is never returning; the theorems show that they return when
  the clock advances between rounds. The eviction loop of the snapshot store is another: it is proved to return for every
  maximum that is not negative and not to return for a negative one. No definition takes fuel.

  \<^bold>\<open>Parameters.\<close> Hashing and curve checks of address derivation, transaction compilation and signing of
  \<open>@solana/kit\<close>, \<open>Intl.NumberFormat\<close>, CBOR, X.509 and ECDSA, the generated struct decoders, plugins, hooks and every
  remote answer are arguments. Hypotheses on them (an injective hash, the wire format of a transaction, a clock that
  advances) are named in the theorems that need them, and witnesses instantiate them.

  \<^bold>\<open>Not modelled.\<close> The on-chain program, apart from the rules the SDK mirrors (argument checks of
  \<open>initialize_vault\<close>, \<open>validate_entries\<close>, the error enum, the size guards of \<open>extend_pda\<close> without its ownership and
  discriminator checks, the sizes of the constraint accounts); the remaining generated code, which
  nothing modelled calls; the facade of \<open>sigil.ts\<close> and \<open>vault-handle.ts\<close> and the deprecated \<open>SigilClient\<close> class,
  which forward to or repeat modelled code; logging, React hooks, test support, the custody, platform and plugin packages
  and build scripts, which only carry values to and from other systems; \<open>inspectConstraints\<close>, which only
  renders text; the branch of \<open>toBaseUnits\<close> that reads a string with \<open>parseFloat\<close>.
  Cyclic values, proxies and getters that change their answer between two reads are outside the value model; so are
  properties of an options object that its TypeScript type does not declare, which a spread would copy
  (\<open>client_params\<close>, the call options of \<open>createSigilClient\<close>).
\<close>

section \<open>Sealed transactions under the inspector\<close>

text \<open>What the inspector reports as dangerous in an instruction that \<open>seal()\<close> does not block is a revocation.\<close>

lemma analyze_step_unblocked:
  assumes "blocked_spl_op ix = None" "analyze_step signer (transferToInspectable ix) acc = Some acc'"
    and "op \<in> set (ia_dangerousOperations acc')" "op \<notin> set (ia_dangerousOperations acc)"
  shows "do_type op = revoke"
  using assms
  by (auto simp: blocked_spl_op_def analyze_step_def transferToInspectable_def push_transfer_def push_dangerous_def
      spl_discriminators Let_def split: option.splits if_splits)

lemma analyze_loop_unblocked:
  assumes "\<forall>ix \<in> set ixs. blocked_spl_op ix = None" "analyze_loop signer (map transferToInspectable ixs) acc = Some acc'"
    and "\<forall>op \<in> set (ia_dangerousOperations acc). do_type op = revoke"
  shows "\<forall>op \<in> set (ia_dangerousOperations acc'). do_type op = revoke"
  using assms
proof (induction ixs arbitrary: acc)
  case (Cons ix ixs)
  obtain acc1 where s: "analyze_step signer (transferToInspectable ix) acc = Some acc1"
    "analyze_loop signer (map transferToInspectable ixs) acc1 = Some acc'"
    using Cons.prems(2) by (auto simp: Option.bind_eq_Some_conv)
  have "\<forall>op \<in> set (ia_dangerousOperations acc1). do_type op = revoke"
    using analyze_step_unblocked [OF _ s(1)] Cons.prems(1,3) by auto
  from Cons.IH [OF _ s(2) this] Cons.prems(1) show ?case by simp
qed simp

lemma unblocked_no_transfer: "blocked_spl_op ix = None \<Longrightarrow> transfer_of (transferToInspectable ix) = None"
  by (auto simp: blocked_spl_op_def transfer_of_def transferToInspectable_def is_token_ix_def Let_def
      split: option.splits list.splits if_splits)

lemma unblocked_analysis:
  assumes "\<forall>ix \<in> set ixs. blocked_spl_op ix = None"
  obtains a where "analyzeInstructions (map transferToInspectable ixs) signer = Some a"
    "ia_tokenTransfers a = []" "ia_estimatedValue a = 0" "\<forall>op \<in> set (ia_dangerousOperations a). do_type op = revoke"
proof -
  have none: "transfers_of (map transferToInspectable ixs) = []"
    using assms by (induction ixs) (simp_all add: unblocked_no_transfer)
  obtain a where a: "analyzeInstructions (map transferToInspectable ixs) signer = Some a"
    "ia_tokenTransfers a = transfers_of (map transferToInspectable ixs)"
    "ia_estimatedValue a = outgoing_value signer (transfers_of (map transferToInspectable ixs))"
    by (rule analyze_total)
  have "\<forall>op \<in> set (ia_dangerousOperations a). do_type op = revoke"
    by (rule analyze_loop_unblocked [OF assms a(1) [unfolded analyzeInstructions_def]]) simp
  with a none show thesis by (intro that [of a]) (simp_all add: outgoing_value_def)
qed

lemma other_program_unblocked:
  "ix_programAddress ix \<in> {COMPUTE_BUDGET_PROGRAM_ADDRESS, SIGIL_PROGRAM_ADDRESS} \<Longrightarrow> blocked_spl_op ix = None"
  by (auto simp: blocked_spl_op_def COMPUTE_BUDGET_PROGRAM_ADDRESS_def SIGIL_PROGRAM_ADDRESS_def TOKEN_PROGRAM_ADDRESS_def
      TOKEN_2022_PROGRAM_ADDRESS_def)

text \<open>
  C12. A sealed transaction moves tokens only through the programs it calls: whatever instructions the caller
  supplies, the inspector, run on the instructions of the sealed transaction, finds no top-level token transfer, no outgoing
  value for any signer and no dangerous token operation except revocations of an approval.
\<close>
theorem sealed_moves_no_tokens_directly:
  assumes "seal env hooks plugins clock params st = (Inr r, st')"
    and "\<And>u. ix_programAddress (cp_setComputeUnitLimit (en_compose env) u) = COMPUTE_BUDGET_PROGRAM_ADDRESS"
    and "\<And>p. ix_programAddress (cp_setComputeUnitPrice (en_compose env) p) = COMPUTE_BUDGET_PROGRAM_ADDRESS"
  shows "\<exists>cq. sr_transaction r = composeSigilTransaction (en_compose env) cq
    \<and> (\<forall>signer. \<exists>a. analyzeInstructions (map transferToInspectable (composed_instructions (en_compose env) cq)) signer = Some a
          \<and> ia_tokenTransfers a = [] \<and> ia_estimatedValue a = 0
          \<and> (\<forall>op \<in> set (ia_dangerousOperations a). do_type op = revoke))"
proof -
  obtain cq where cq: "sr_transaction r = composeSigilTransaction (en_compose env) cq"
    "ix_programAddress (cq_validateIx cq) = SIGIL_PROGRAM_ADDRESS" "ix_programAddress (cq_finalizeIx cq) = SIGIL_PROGRAM_ADDRESS"
    "\<forall>ix \<in> set (cq_defiInstructions cq). ix_programAddress ix \<notin> {COMPUTE_BUDGET_PROGRAM_ADDRESS, SYSTEM_PROGRAM_ADDRESS}
       \<and> blocked_spl_op ix = None"
    by (rule seal_framed [OF assms(1)])
  obtain budget where b: "composed_instructions (en_compose env) cq
       = budget @ cq_validateIx cq # cq_defiInstructions cq @ [cq_finalizeIx cq]"
    "\<forall>ix \<in> set budget. ix_programAddress ix = COMPUTE_BUDGET_PROGRAM_ADDRESS"
    using composed_sandwich [of "en_compose env" cq, OF assms(2,3)] by blast
  have "\<forall>ix \<in> set (composed_instructions (en_compose env) cq). blocked_spl_op ix = None"
    unfolding b(1) using cq(2-4) b(2) other_program_unblocked by auto
  from unblocked_analysis [OF this] cq(1) show ?thesis by metis
qed

theorem sealed_moves_no_tokens_directly_witness:
  "\<exists>r cq a. seal (env_with tiny_compose_env) None None sample_clock (params_from (Some sample_state)) sample_st = (Inr r, sample_st)
     \<and> sr_transaction r = composeSigilTransaction tiny_compose_env cq
     \<and> analyzeInstructions (map transferToInspectable (composed_instructions tiny_compose_env cq)) ''A'' = Some a
     \<and> ia_tokenTransfers a = []"
proof -
  obtain r where r: "seal (env_with tiny_compose_env) None None sample_clock (params_from (Some sample_state)) sample_st
      = (Inr r, sample_st)"
    by (rule sample_seals [OF sample_cached small_tiny])
  have e: "en_compose (env_with tiny_compose_env) = tiny_compose_env" by (simp add: env_with_def)
  have b: "ix_programAddress (cp_setComputeUnitLimit (en_compose (env_with tiny_compose_env)) u) = COMPUTE_BUDGET_PROGRAM_ADDRESS"
    "ix_programAddress (cp_setComputeUnitPrice (en_compose (env_with tiny_compose_env)) u) = COMPUTE_BUDGET_PROGRAM_ADDRESS" for u
    unfolding e by (simp_all add: tiny_compose_env_def sample_ix_def)
  show ?thesis
    using r sealed_moves_no_tokens_directly [OF r b] unfolding e by metis
qed

end
